(* ===== verification/Prelude.thy ===== *)
theory Prelude
  imports Main "HOL-Library.List_Lexorder" "HOL-Library.Char_ord"
begin

text \<open>
  Shared vocabulary of the development: programs that change a state and may
  raise an exception, the weakest-precondition calculus the component proofs
  use, the notion of a state predicate kept by a program, Python's string
  helpers, and generic lemmas on tables represented as lists of rows.

  A Python method body is a value of type \<open>('s, 'e, 'a) prog\<close>: it takes the
  state and returns either an exception or a value, with the state as it was
  left.  An exception keeps the effects made before it was raised, as in
  Python; undoing them is the business of the storage layer's transactions.
\<close>

section \<open>Programs with state and exceptions\<close>

type_synonym ('s, 'e, 'a) prog = "'s \<Rightarrow> ('e + 'a) \<times> 's"

definition returnM :: "'a \<Rightarrow> ('s, 'e, 'a) prog" where
  "returnM a = (\<lambda>s. (Inr a, s))"

definition raiseM :: "'e \<Rightarrow> ('s, 'e, 'a) prog" where
  "raiseM e = (\<lambda>s. (Inl e, s))"

definition bindM :: "('s, 'e, 'a) prog \<Rightarrow> ('a \<Rightarrow> ('s, 'e, 'b) prog) \<Rightarrow> ('s, 'e, 'b) prog" where
  "bindM m f = (\<lambda>s. case m s of (Inl e, s') \<Rightarrow> (Inl e, s') | (Inr a, s') \<Rightarrow> f a s')"

definition getM :: "('s \<Rightarrow> 'a) \<Rightarrow> ('s, 'e, 'a) prog" where
  "getM f = (\<lambda>s. (Inr (f s), s))"

definition modifyM :: "('s \<Rightarrow> 's) \<Rightarrow> ('s, 'e, unit) prog" where
  "modifyM f = (\<lambda>s. (Inr (), f s))"

definition liftE :: "'e + 'a \<Rightarrow> ('s, 'e, 'a) prog" where
  "liftE r = (\<lambda>s. (r, s))"

definition raise_if :: "bool \<Rightarrow> 'e \<Rightarrow> ('s, 'e, unit) prog" where
  "raise_if b e = (if b then raiseM e else returnM ())"

definition catchM :: "('s, 'e, 'a) prog \<Rightarrow> ('e \<Rightarrow> ('s, 'e, 'a) prog) \<Rightarrow> ('s, 'e, 'a) prog" where
  "catchM m h = (\<lambda>s. case m s of (Inl e, s') \<Rightarrow> h e s' | (Inr a, s') \<Rightarrow> (Inr a, s'))"

definition finallyM :: "('s, 'e, 'a) prog \<Rightarrow> ('s \<Rightarrow> 's) \<Rightarrow> ('s, 'e, 'a) prog" where
  "finallyM m g = (\<lambda>s. case m s of (r, s') \<Rightarrow> (r, g s'))"

text \<open>A \<open>for\<close> loop that collects one value per iteration.\<close>

fun forM :: "'a list \<Rightarrow> ('a \<Rightarrow> ('s, 'e, 'b) prog) \<Rightarrow> ('s, 'e, 'b list) prog" where
  "forM [] f = returnM []"
| "forM (x # xs) f = bindM (f x) (\<lambda>y. bindM (forM xs f) (\<lambda>ys. returnM (y # ys)))"

text \<open>The right-hand side of a Python \<open>x or y\<close> and \<open>is None\<close> tests.\<close>

abbreviation require_some :: "'a option \<Rightarrow> 'e \<Rightarrow> ('s, 'e, 'a) prog" where
  "require_some x e \<equiv> (case x of None \<Rightarrow> raiseM e | Some a \<Rightarrow> returnM a)"

section \<open>Weakest preconditions\<close>

definition wp :: "('s, 'e, 'a) prog \<Rightarrow> ('a \<Rightarrow> 's \<Rightarrow> bool) \<Rightarrow> ('e \<Rightarrow> 's \<Rightarrow> bool) \<Rightarrow> 's \<Rightarrow> bool" where
  "wp m Q E s = (case m s of (Inr a, s') \<Rightarrow> Q a s' | (Inl e, s') \<Rightarrow> E e s')"

named_theorems wp_rules "equations that compute the weakest precondition of a program"

lemma wp_returnM [wp_rules]: "wp (returnM a) Q E s = Q a s"
  by (simp add: wp_def returnM_def)

lemma wp_raiseM [wp_rules]: "wp (raiseM e) Q E s = E e s"
  by (simp add: wp_def raiseM_def)

lemma wp_bindM [wp_rules]: "wp (bindM m f) Q E s = wp m (\<lambda>a. wp (f a) Q E) E s"
  by (simp add: wp_def bindM_def split: prod.splits sum.splits)

lemma wp_getM [wp_rules]: "wp (getM f) Q E s = Q (f s) s"
  by (simp add: wp_def getM_def)

lemma wp_modifyM [wp_rules]: "wp (modifyM f) Q E s = Q () (f s)"
  by (simp add: wp_def modifyM_def)

lemma wp_liftE [wp_rules]:
  "wp (liftE r) Q E s = (case r of Inl e \<Rightarrow> E e s | Inr a \<Rightarrow> Q a s)"
  by (simp add: wp_def liftE_def split: sum.splits)

lemma wp_raise_if [wp_rules]:
  "wp (raise_if b e) Q E s = (if b then E e s else Q () s)"
  by (simp add: raise_if_def wp_rules)

lemma wp_catchM [wp_rules]: "wp (catchM m h) Q E s = wp m Q (\<lambda>e. wp (h e) Q E) s"
  by (simp add: wp_def catchM_def split: prod.splits sum.splits)

lemma wp_finallyM [wp_rules]:
  "wp (finallyM m g) Q E s = wp m (\<lambda>a s'. Q a (g s')) (\<lambda>e s'. E e (g s')) s"
  by (simp add: wp_def finallyM_def split: prod.splits sum.splits)

lemma wp_if [wp_rules]:
  "wp (if b then m else n) Q E s = (if b then wp m Q E s else wp n Q E s)"
  by simp

lemma wp_case_option [wp_rules]:
  "wp (case x of None \<Rightarrow> m | Some a \<Rightarrow> n a) Q E s =
     (case x of None \<Rightarrow> wp m Q E s | Some a \<Rightarrow> wp (n a) Q E s)"
  by (simp split: option.splits)

lemma wp_case_prod [wp_rules]:
  "wp (case x of (a, b) \<Rightarrow> m a b) Q E s = (case x of (a, b) \<Rightarrow> wp (m a b) Q E s)"
  by (simp split: prod.splits)

lemma wp_let [wp_rules]: "wp (let x = a in m x) Q E s = (let x = a in wp (m x) Q E s)"
  by (simp add: Let_def)

lemma wp_mono:
  assumes "wp m Q E s"
    and "\<And>a s'. m s = (Inr a, s') \<Longrightarrow> Q a s' \<Longrightarrow> Q' a s'"
    and "\<And>e s'. m s = (Inl e, s') \<Longrightarrow> E e s' \<Longrightarrow> E' e s'"
  shows "wp m Q' E' s"
  using assms by (auto simp: wp_def split: prod.splits sum.splits)

lemma wp_ignore: "wp m (\<lambda>_ _. True) (\<lambda>_ _. True) w"
  by (simp add: wp_def split: prod.split sum.split)

lemma wp_last:
  assumes "\<And>a w. wp (f a) Q (\<lambda>_ _. True) w"
  shows "wp (bindM m f) Q (\<lambda>_ _. True) w"
  unfolding wp_bindM by (rule wp_mono [OF wp_ignore]) (use assms in auto)

text \<open>The exact outcome of a run, and what a weakest precondition says of it.\<close>

lemma wp_run:
  "wp m Q E s \<longleftrightarrow>
     (\<forall>a s'. m s = (Inr a, s') \<longrightarrow> Q a s') \<and> (\<forall>e s'. m s = (Inl e, s') \<longrightarrow> E e s')"
  by (auto simp: wp_def split: prod.splits sum.splits)

lemma wp_outcome: "m s = (r, s') \<longleftrightarrow>
    wp m (\<lambda>a t. r = Inr a \<and> t = s') (\<lambda>e t. r = Inl e \<and> t = s') s"
  by (auto simp: wp_def split: prod.splits sum.splits)

lemma wp_okD: "wp m Q E s \<Longrightarrow> m s = (Inr a, s') \<Longrightarrow> Q a s'"
  by (simp add: wp_run)

lemma wp_errD: "wp m Q E s \<Longrightarrow> m s = (Inl e, s') \<Longrightarrow> E e s'"
  by (simp add: wp_run)

lemma bindM_Inr:
  "bindM m f s = (Inr b, t) \<longleftrightarrow> (\<exists>a s'. m s = (Inr a, s') \<and> f a s' = (Inr b, t))"
  by (auto simp: bindM_def split: prod.splits sum.splits)

section \<open>State predicates kept by a program\<close>

text \<open>
  \<open>keeps I m\<close>: whatever way \<open>m\<close> ends, by returning or by raising, a state
  that satisfied \<open>I\<close> before satisfies it after.
\<close>

definition keeps :: "('s \<Rightarrow> bool) \<Rightarrow> ('s, 'e, 'a) prog \<Rightarrow> bool" where
  "keeps I m \<longleftrightarrow> (\<forall>s. I s \<longrightarrow> I (snd (m s)))"

named_theorems keeps_intros "programs that keep a predicate"

lemma keepsI: "(\<And>s. I s \<Longrightarrow> I (snd (m s))) \<Longrightarrow> keeps I m"
  by (simp add: keeps_def)

lemma keepsD: "keeps I m \<Longrightarrow> I s \<Longrightarrow> m s = (r, s') \<Longrightarrow> I s'"
  by (auto simp: keeps_def dest: spec [of _ s])

lemma keeps_iff_wp: "keeps I m \<longleftrightarrow> (\<forall>s. I s \<longrightarrow> wp m (\<lambda>_. I) (\<lambda>_. I) s)"
  by (auto simp: keeps_def wp_def split: prod.splits sum.splits)
     (metis (no_types, lifting) Inl_Inr_False old.sum.exhaust prod.collapse)+

lemma keeps_returnM [keeps_intros]: "keeps I (returnM a)"
  by (simp add: keeps_def returnM_def)

lemma keeps_raiseM [keeps_intros]: "keeps I (raiseM e)"
  by (simp add: keeps_def raiseM_def)

lemma keeps_getM [keeps_intros]: "keeps I (getM f)"
  by (simp add: keeps_def getM_def)

lemma keeps_liftE [keeps_intros]: "keeps I (liftE r)"
  by (simp add: keeps_def liftE_def)

lemma keeps_raise_if [keeps_intros]: "keeps I (raise_if b e)"
  by (simp add: raise_if_def keeps_intros)

lemma keeps_bindM [keeps_intros]:
  assumes "keeps I m" and "\<And>a. keeps I (f a)"
  shows "keeps I (bindM m f)"
  using assms by (auto simp: keeps_iff_wp wp_rules intro: wp_mono)

lemma keeps_catchM [keeps_intros]:
  assumes "keeps I m" and "\<And>e. keeps I (h e)"
  shows "keeps I (catchM m h)"
  using assms by (auto simp: keeps_iff_wp wp_rules intro: wp_mono)

lemma keeps_if [keeps_intros]:
  "keeps I m \<Longrightarrow> keeps I n \<Longrightarrow> keeps I (if b then m else n)"
  by simp

lemma keeps_case_option [keeps_intros]:
  "keeps I m \<Longrightarrow> (\<And>a. keeps I (n a)) \<Longrightarrow> keeps I (case x of None \<Rightarrow> m | Some a \<Rightarrow> n a)"
  by (simp split: option.splits)

lemma keeps_case_sum [keeps_intros]:
  "(\<And>a. keeps I (m a)) \<Longrightarrow> (\<And>a. keeps I (n a)) \<Longrightarrow> keeps I (case x of Inl a \<Rightarrow> m a | Inr a \<Rightarrow> n a)"
  by (simp split: sum.splits)

lemma keeps_case_prod [keeps_intros]:
  "(\<And>a b. keeps I (m a b)) \<Longrightarrow> keeps I (case x of (a, b) \<Rightarrow> m a b)"
  by (simp split: prod.splits)

lemma keeps_let [keeps_intros]: "(\<And>a. keeps I (m a)) \<Longrightarrow> keeps I (let a = x in m a)"
  by (simp add: Let_def)

lemma keeps_forM [keeps_intros]: "(\<And>x. keeps I (f x)) \<Longrightarrow> keeps I (forM xs f)"
  by (induction xs) (auto intro!: keeps_intros)

section \<open>Tables as lists of rows\<close>

text \<open>
  A SQL table is the list of its rows in row-id order.  \<open>fetch key k t\<close> is the
  first row with key \<open>k\<close> (what \<open>SELECT ... WHERE key=?\<close> followed by \<open>rows[0]\<close>
  reads), \<open>set_where\<close> is \<open>UPDATE ... WHERE\<close>, and \<open>delete_where\<close> is
  \<open>DELETE ... WHERE\<close>.
\<close>

definition fetch :: "('r \<Rightarrow> 'k) \<Rightarrow> 'k \<Rightarrow> 'r list \<Rightarrow> 'r option" where
  "fetch key k t = find (\<lambda>r. key r = k) t"

definition set_where :: "('r \<Rightarrow> bool) \<Rightarrow> ('r \<Rightarrow> 'r) \<Rightarrow> 'r list \<Rightarrow> 'r list" where
  "set_where P f t = map (\<lambda>r. if P r then f r else r) t"

definition delete_where :: "('r \<Rightarrow> bool) \<Rightarrow> 'r list \<Rightarrow> 'r list" where
  "delete_where P t = filter (\<lambda>r. \<not> P r) t"

definition count_where :: "('r \<Rightarrow> bool) \<Rightarrow> 'r list \<Rightarrow> nat" where
  "count_where P t = length (filter P t)"

named_theorems table_simps "lookups after table updates"

lemma fetch_Nil [table_simps]: "fetch key k [] = None"
  by (simp add: fetch_def)

lemma fetch_Cons [table_simps]:
  "fetch key k (r # t) = (if key r = k then Some r else fetch key k t)"
  by (simp add: fetch_def)

lemma fetch_append [table_simps]:
  "fetch key k (t @ u) = (case fetch key k t of Some r \<Rightarrow> Some r | None \<Rightarrow> fetch key k u)"
  by (induction t) (simp_all add: table_simps)

lemma fetch_SomeD: "fetch key k t = Some r \<Longrightarrow> r \<in> set t \<and> key r = k"
  by (induction t) (auto simp: table_simps split: if_splits)

lemma fetch_None_iff: "fetch key k t = None \<longleftrightarrow> (\<forall>r \<in> set t. key r \<noteq> k)"
  by (induction t) (auto simp: table_simps)

lemma fetch_None_notin: "fetch key k t = None \<longleftrightarrow> k \<notin> key ` set t"
  by (auto simp: fetch_None_iff)

lemma fetch_distinct:
  "distinct (map key t) \<Longrightarrow> r \<in> set t \<Longrightarrow> fetch key (key r) t = Some r"
  by (induction t) (auto simp: table_simps)

lemma fetch_set_where_key [table_simps]:
  assumes "\<And>r. key (f r) = key r"
  shows "fetch key k (set_where (\<lambda>r. key r = k') f t) =
    (if k = k' then map_option f (fetch key k t) else fetch key k t)"
  using assms by (induction t) (auto simp: set_where_def table_simps)

lemma fetch_set_where:
  assumes "\<And>r. key (f r) = key r"
  shows "fetch key k (set_where P f t) = map_option (\<lambda>r. if P r then f r else r) (fetch key k t)"
  using assms by (induction t) (auto simp: set_where_def table_simps)

lemma fetch_delete_where_other:
  "(\<And>r. key r = k \<Longrightarrow> \<not> P r) \<Longrightarrow> fetch key k (delete_where P t) = fetch key k t"
  by (induction t) (auto simp: delete_where_def table_simps)

lemma fetch_append_Some [simp]: "fetch key k t = Some r \<Longrightarrow> fetch key k (t @ u) = Some r"
  by (simp add: table_simps)

lemma fetch_delete_where_key [table_simps]:
  "fetch key k (delete_where (\<lambda>r. key r = k') t) = (if k = k' then None else fetch key k t)"
  by (induction t) (auto simp: delete_where_def table_simps)

lemma count_where_0: "count_where P t = 0 \<longleftrightarrow> (\<forall>r \<in> set t. \<not> P r)"
  by (auto simp: count_where_def filter_empty_conv)

lemma count_where_fetch_0 [table_simps]:
  "count_where (\<lambda>r. key r = k) t = 0 \<longleftrightarrow> fetch key k t = None"
  by (simp add: count_where_0 fetch_None_iff)

lemma count_where_distinct:
  "distinct (map key t) \<Longrightarrow>
     count_where (\<lambda>r. key r = k) t = (if fetch key k t = None then 0 else 1)"
  by (induction t) (auto simp: count_where_def table_simps fetch_None_iff filter_empty_conv)

lemma map_key_set_where [table_simps]:
  "(\<And>r. key (f r) = key r) \<Longrightarrow> map key (set_where P f t) = map key t"
  by (induction t) (auto simp: set_where_def)

lemma set_set_where: "set (set_where P f t) = (\<lambda>r. if P r then f r else r) ` set t"
  by (simp add: set_where_def)

lemma set_delete_where [simp]: "set (delete_where P t) = {r \<in> set t. \<not> P r}"
  by (auto simp: delete_where_def)

lemma ball_set_where:
  "(\<forall>r \<in> set (set_where P f t). Q r) \<longleftrightarrow> (\<forall>r \<in> set t. Q (if P r then f r else r))"
  by (auto simp: set_where_def)

lemma distinct_delete_where: "distinct (map key t) \<Longrightarrow> distinct (map key (delete_where P t))"
  by (simp add: delete_where_def distinct_map_filter)

lemma length_set_where [simp]: "length (set_where P f t) = length t"
  by (simp add: set_where_def)

section \<open>Python strings\<close>

text \<open>
  \<open>str.strip()\<close> without arguments removes white space at both ends; the
  characters below are the ones Python counts as white space among the code
  points a \<open>char\<close> can hold.
\<close>

definition is_space :: "char \<Rightarrow> bool" where
  "is_space c \<longleftrightarrow> of_char c \<in> {9, 10, 11, 12, 13, 28, 29, 30, 31, 32, 133, 160 :: nat}"

definition strip_with :: "('c \<Rightarrow> bool) \<Rightarrow> 'c list \<Rightarrow> 'c list" where
  "strip_with P xs = rev (dropWhile P (rev (dropWhile P xs)))"

definition strip :: "string \<Rightarrow> string" where
  "strip = strip_with is_space"

text \<open>\<open>str(i)\<close> of an integer.\<close>

fun str_nat :: "nat \<Rightarrow> string" where
  "str_nat n = (if n < 10 then [char_of (48 + n)] else str_nat (n div 10) @ [char_of (48 + n mod 10)])"

declare str_nat.simps [simp del]

definition str_int :: "int \<Rightarrow> string" where
  "str_int i = (if i < 0 then ''-'' @ str_nat (nat (- i)) else str_nat (nat i))"

text \<open>\<open>sep.join(xs)\<close>, and \<open>s[:n]\<close>, where a negative \<open>n\<close> counts from the end.\<close>

fun join_str :: "string \<Rightarrow> string list \<Rightarrow> string" where
  "join_str sep [] = []"
| "join_str sep [x] = x"
| "join_str sep (x # y # xs) = x @ sep @ join_str sep (y # xs)"

definition slice_to :: "int \<Rightarrow> 'a list \<Rightarrow> 'a list" where
  "slice_to n xs = (if 0 \<le> n then take (nat n) xs else take (length xs - nat (- n)) xs)"

lemma strip_with_set: "set (strip_with P xs) \<subseteq> set xs"
  unfolding strip_with_def by (metis set_dropWhileD set_rev subsetI)

lemma length_strip_with: "length (strip_with P xs) \<le> length xs"
proof -
  have "length (dropWhile P ys) \<le> length ys" for ys :: "'a list"
    by (induction ys) auto
  from this [of "rev (dropWhile P xs)"] this [of xs] show ?thesis
    by (simp add: strip_with_def)
qed

end
