(* ===== verification/Errors.thy ===== *)
theory Errors
  imports Prelude
begin

text \<open>
  The error boundary, \<open>vermay/errors.py\<close>: the public error codes, the
  exceptions the modelled code raises, and \<open>error_info_from_exception\<close>, which
  turns any exception into the code, status and public message that are stored
  with a failed Task or a failed Message ingress.

  An \<open>AgentError\<close> instance is its attributes: \<open>code\<close>, \<open>str(exc)\<close>,
  \<open>http_status\<close>, \<open>public_message\<close> and the attribute \<open>retryable\<close> that only some
  subclasses set (\<open>None\<close> when it is absent, read with \<open>getattr(..., False)\<close>).
  Every other exception carries the text \<open>str(exc)\<close>.
\<close>

datatype agent_error_code =
    INVALID_REQUEST | INVALID_SESSION_STATE | SESSION_NOT_FOUND | TASK_NOT_FOUND
  | ARTIFACT_NOT_FOUND | MODEL_ERROR | MODEL_PROTOCOL_ERROR | TOOL_ERROR | MCP_ERROR
  | CHECKPOINT_ERROR | PERMISSION_ERROR | MESSAGE_IN_PROGRESS | MESSAGE_INGRESS_STALE
  | MESSAGE_STREAM_ABORTED | TASK_EVENT_PROJECTION_ERROR | RESOURCE_CONFLICT | RUNTIME_ERROR

primrec error_code_value :: "agent_error_code \<Rightarrow> string" where
  "error_code_value INVALID_REQUEST = ''invalid_request''"
| "error_code_value INVALID_SESSION_STATE = ''invalid_session_state''"
| "error_code_value SESSION_NOT_FOUND = ''session_not_found''"
| "error_code_value TASK_NOT_FOUND = ''task_not_found''"
| "error_code_value ARTIFACT_NOT_FOUND = ''artifact_not_found''"
| "error_code_value MODEL_ERROR = ''model_error''"
| "error_code_value MODEL_PROTOCOL_ERROR = ''model_protocol_error''"
| "error_code_value TOOL_ERROR = ''tool_error''"
| "error_code_value MCP_ERROR = ''mcp_error''"
| "error_code_value CHECKPOINT_ERROR = ''checkpoint_error''"
| "error_code_value PERMISSION_ERROR = ''permission_error''"
| "error_code_value MESSAGE_IN_PROGRESS = ''message_in_progress''"
| "error_code_value MESSAGE_INGRESS_STALE = ''message_ingress_stale''"
| "error_code_value MESSAGE_STREAM_ABORTED = ''message_stream_aborted''"
| "error_code_value TASK_EVENT_PROJECTION_ERROR = ''task_event_projection_error''"
| "error_code_value RESOURCE_CONFLICT = ''resource_conflict''"
| "error_code_value RUNTIME_ERROR = ''runtime_error''"

definition all_error_codes :: "agent_error_code list" where
  "all_error_codes =
     [INVALID_REQUEST, INVALID_SESSION_STATE, SESSION_NOT_FOUND, TASK_NOT_FOUND,
      ARTIFACT_NOT_FOUND, MODEL_ERROR, MODEL_PROTOCOL_ERROR, TOOL_ERROR, MCP_ERROR,
      CHECKPOINT_ERROR, PERMISSION_ERROR, MESSAGE_IN_PROGRESS, MESSAGE_INGRESS_STALE,
      MESSAGE_STREAM_ABORTED, TASK_EVENT_PROJECTION_ERROR, RESOURCE_CONFLICT, RUNTIME_ERROR]"

text \<open>\<open>AgentErrorCode(code)\<close>: the member with this value, or \<open>ValueError\<close>.\<close>

definition error_code_of_value :: "string \<Rightarrow> agent_error_code option" where
  "error_code_of_value v = find (\<lambda>c. error_code_value c = v) all_error_codes"

datatype exn =
    AgentError agent_error_code string int string "bool option"
  | MCPTransportError string
  | FileNotFoundError string
  | JSONDecodeError string
  | ValueError string
  | InvalidLocalTaskTransitionError string
  | KeyError string
  | IndexError string
  | TypeError string
  | AttributeError string
  | RuntimeError string
  | RemoteAgentProtocolError string
  | IntegrityError string
  | OverflowError string
  | AssertionError string
  | NameError string

text \<open>\<open>isinstance(exc, ValueError)\<close> holds for these classes.\<close>

fun is_value_error :: "exn \<Rightarrow> bool" where
  "is_value_error (ValueError _) = True"
| "is_value_error (JSONDecodeError _) = True"
| "is_value_error (InvalidLocalTaskTransitionError _) = True"
| "is_value_error _ = False"

fun is_json_decode_error :: "exn \<Rightarrow> bool" where
  "is_json_decode_error (JSONDecodeError _) = True"
| "is_json_decode_error _ = False"

fun is_type_error :: "exn \<Rightarrow> bool" where
  "is_type_error (TypeError _) = True"
| "is_type_error _ = False"

section \<open>The exception classes\<close>

text \<open>\<open>AgentError.__init__\<close>: the public message falls back to the message.\<close>

definition agent_error ::
  "string \<Rightarrow> agent_error_code \<Rightarrow> int \<Rightarrow> string option \<Rightarrow> bool option \<Rightarrow> exn" where
  "agent_error message code http_status public_message retryable =
     AgentError code message http_status
       (case public_message of
          None \<Rightarrow> message
        | Some p \<Rightarrow> if p = '''' then message else p) retryable"

definition invalid_session_state_error :: "string \<Rightarrow> exn" where
  "invalid_session_state_error message =
     agent_error message INVALID_SESSION_STATE 409 None None"

definition message_ingress_in_progress_error :: "string \<Rightarrow> exn" where
  "message_ingress_in_progress_error message_id =
     agent_error (''message execution is still in progress: '' @ message_id)
       MESSAGE_IN_PROGRESS 409 (Some ''Message execution is still in progress.'') (Some True)"

definition message_ingress_stale_error :: exn where
  "message_ingress_stale_error =
     agent_error ''message execution did not finish before the runtime restarted''
       MESSAGE_INGRESS_STALE 503
       (Some ''The previous message did not finish. Send a new message to retry.'') (Some True)"

definition message_stream_aborted_error :: exn where
  "message_stream_aborted_error =
     agent_error ''direct message stream ended before execution completed''
       MESSAGE_STREAM_ABORTED 503
       (Some ''The response stream ended before it completed. Send a new message to retry.'')
       (Some True)"

definition context_deletion_conflict_error :: "string \<Rightarrow> string \<Rightarrow> exn" where
  "context_deletion_conflict_error context_id reason =
     agent_error (''cannot delete context '' @ context_id @ '': '' @ reason) RESOURCE_CONFLICT 409
       (Some ''Context has work that must finish or be canceled before deletion.'') None"

definition registered_agent_deletion_conflict_error :: "string \<Rightarrow> string \<Rightarrow> exn" where
  "registered_agent_deletion_conflict_error agent_id reason =
     agent_error (''cannot delete registered agent '' @ agent_id @ '': '' @ reason)
       RESOURCE_CONFLICT 409
       (Some ''Registered agent has delegation history or active work and cannot be deleted.'')
       None"

definition persisted_message_ingress_error ::
  "string \<Rightarrow> string \<Rightarrow> int option \<Rightarrow> bool \<Rightarrow> exn" where
  "persisted_message_ingress_error code message http_status retryable =
     agent_error message
       (case error_code_of_value code of None \<Rightarrow> RUNTIME_ERROR | Some c \<Rightarrow> c)
       (case http_status of None \<Rightarrow> 500 | Some h \<Rightarrow> if h = 0 then 500 else h)
       (Some message) (Some retryable)"

definition task_not_found_error :: "string \<Rightarrow> exn" where
  "task_not_found_error task_id =
     agent_error (''unknown task: '' @ task_id) TASK_NOT_FOUND 404 (Some ''task not found'') None"

definition invalid_request_error :: "string \<Rightarrow> exn" where
  "invalid_request_error message = agent_error message INVALID_REQUEST 400 None None"

definition task_event_projection_error :: "string \<Rightarrow> int \<Rightarrow> string \<Rightarrow> exn" where
  "task_event_projection_error task_id event_id event_type =
     agent_error (''cannot project task event '' @ str_int event_id @ '' ('' @ event_type @ '') for task '' @ task_id)
       TASK_EVENT_PROJECTION_ERROR 500
       (Some ''A persisted Task event could not be projected to A2A.'') None"

section \<open>Error information\<close>

record agent_error_info =
  ei_code :: agent_error_code
  ei_message :: string
  ei_http_status :: int
  ei_public_message :: string
  ei_retryable :: bool

definition safe_message :: "string \<Rightarrow> string \<Rightarrow> string" where
  "safe_message value fallback = (let m = strip value in if m = '''' then fallback else m)"

text \<open>\<open>str.strip("'\"")\<close>, which removes both kinds of quotes.\<close>

definition strip_quotes :: "string \<Rightarrow> string" where
  "strip_quotes = strip_with (\<lambda>c. of_char c = (39 :: nat) \<or> of_char c = (34 :: nat))"

definition mk_info :: "agent_error_code \<Rightarrow> string \<Rightarrow> int \<Rightarrow> string \<Rightarrow> bool \<Rightarrow> agent_error_info" where
  "mk_info code message http public_message retryable =
     \<lparr>ei_code = code, ei_message = message, ei_http_status = http,
      ei_public_message = public_message, ei_retryable = retryable\<rparr>"

definition invalid_request_info :: "string \<Rightarrow> string \<Rightarrow> agent_error_info" where
  "invalid_request_info text fallback =
     (let m = safe_message text fallback in mk_info INVALID_REQUEST m 400 m False)"

definition runtime_error_info :: "string \<Rightarrow> string \<Rightarrow> agent_error_info" where
  "runtime_error_info text class_name =
     mk_info RUNTIME_ERROR (safe_message text class_name) 500 ''Agent execution failed.'' False"

fun error_info_from_exception :: "exn \<Rightarrow> agent_error_info" where
  "error_info_from_exception (AgentError code message http public retryable) =
     mk_info code (safe_message message (error_code_value code)) http public
       (case retryable of None \<Rightarrow> False | Some b \<Rightarrow> b)"
| "error_info_from_exception (MCPTransportError m) =
     mk_info MCP_ERROR (safe_message m ''MCP transport error'') 400
       ''MCP server request failed.'' False"
| "error_info_from_exception (FileNotFoundError m) = invalid_request_info m ''file not found''"
| "error_info_from_exception (JSONDecodeError m) = invalid_request_info m ''invalid JSON''"
| "error_info_from_exception (ValueError m) = invalid_request_info m ''invalid request''"
| "error_info_from_exception (InvalidLocalTaskTransitionError m) =
     invalid_request_info m ''invalid request''"
| "error_info_from_exception (KeyError m) =
     mk_info SESSION_NOT_FOUND (strip_quotes (safe_message m ''session not found'')) 404
       ''session not found'' False"
| "error_info_from_exception (IndexError m) = runtime_error_info m ''IndexError''"
| "error_info_from_exception (TypeError m) = runtime_error_info m ''TypeError''"
| "error_info_from_exception (AttributeError m) = runtime_error_info m ''AttributeError''"
| "error_info_from_exception (RuntimeError m) = runtime_error_info m ''RuntimeError''"
| "error_info_from_exception (RemoteAgentProtocolError m) =
     runtime_error_info m ''RemoteAgentProtocolError''"
| "error_info_from_exception (IntegrityError m) = runtime_error_info m ''IntegrityError''"
| "error_info_from_exception (OverflowError m) = runtime_error_info m ''OverflowError''"
| "error_info_from_exception (AssertionError m) = runtime_error_info m ''AssertionError''"
| "error_info_from_exception (NameError m) = runtime_error_info m ''NameError''"

section \<open>What the boundary guarantees\<close>

lemma error_code_of_value_value [simp]:
  "error_code_of_value (error_code_value c) = Some c"
  by (cases c) (simp_all add: error_code_of_value_def all_error_codes_def)

lemma safe_message_nonempty: "fallback \<noteq> '''' \<Longrightarrow> safe_message v fallback \<noteq> ''''"
  by (simp add: safe_message_def Let_def)

lemma error_code_value_nonempty [simp]: "error_code_value c \<noteq> ''''"
  by (cases c) simp_all

lemma error_code_value_inj: "error_code_value c = error_code_value d \<longleftrightarrow> c = d"
  by (metis error_code_of_value_value option.inject)

end
