(* ===== verification/Values.thy ===== *)
theory Values
  imports Complex_Main Errors
begin

text \<open>
  The dynamically typed values that pass through the program (Python's
  \<open>Any\<close>): JSON values as the HTTP boundary and the store produce them, plus
  the tuples and read-only mappings that \<open>main_agent/models.py\<close> freezes them
  into.  \<open>POpaque\<close> stands for an object of a class JSON does not know.

  A dictionary is the list of its entries in insertion order with distinct
  string keys; the order is what Python keeps, and \<open>==\<close> ignores it.
  Floats are their exact rational values.
\<close>

datatype pyfloat = Fin rat | PosInf | NegInf | NaN

datatype pyval =
    PNone
  | PBool bool
  | PInt int
  | PFloat pyfloat
  | PStr string
  | PList "pyval list"
  | PTuple "pyval list"
  | PDict "(string \<times> pyval) list"
  | PProxy "(string \<times> pyval) list"
  | POpaque string

type_synonym pydict = "(string \<times> pyval) list"

section \<open>Dictionaries\<close>

text \<open>\<open>d.get(k)\<close>, with \<open>PNone\<close> for a missing key; \<open>d[k] = v\<close>; \<open>d.pop(k, None)\<close>;
  \<open>{**d, **e}\<close>.\<close>

definition dget :: "pydict \<Rightarrow> string \<Rightarrow> pyval" where
  "dget d k = (case map_of d k of None \<Rightarrow> PNone | Some v \<Rightarrow> v)"

fun dset :: "string \<Rightarrow> pyval \<Rightarrow> pydict \<Rightarrow> pydict" where
  "dset k v [] = [(k, v)]"
| "dset k v ((k', v') # d) = (if k = k' then (k, v) # d else (k', v') # dset k v d)"

definition dpop :: "string \<Rightarrow> pydict \<Rightarrow> pydict" where
  "dpop k d = filter (\<lambda>e. fst e \<noteq> k) d"

definition dupdate :: "pydict \<Rightarrow> pydict \<Rightarrow> pydict" where
  "dupdate d e = foldl (\<lambda>acc kv. dset (fst kv) (snd kv) acc) d e"

lemma map_of_dset [simp]: "map_of (dset k v d) = (map_of d)(k \<mapsto> v)"
  by (induction k v d rule: dset.induct) auto

lemma dget_dset [simp]: "dget (dset k v d) j = (if j = k then v else dget d j)"
  by (simp add: dget_def)

lemma map_of_dupdate: "map_of (dupdate d e) = map_of d ++ map_of (rev e)"
proof (induction e arbitrary: d)
  case (Cons kv e)
  have "dupdate d (kv # e) = dupdate (dset (fst kv) (snd kv) d) e"
    by (simp add: dupdate_def)
  then show ?case
    using Cons.IH [of "dset (fst kv) (snd kv) d"]
    by (cases kv) (simp add: fun_eq_iff map_add_def split: option.splits)
qed (simp add: dupdate_def)

section \<open>Truth\<close>

text \<open>\<open>bool(v)\<close>.\<close>

fun truthy :: "pyval \<Rightarrow> bool" where
  "truthy PNone = False"
| "truthy (PBool b) = b"
| "truthy (PInt i) = (i \<noteq> 0)"
| "truthy (PFloat f) = (f \<noteq> Fin 0)"
| "truthy (PStr s) = (s \<noteq> '''')"
| "truthy (PList xs) = (xs \<noteq> [])"
| "truthy (PTuple xs) = (xs \<noteq> [])"
| "truthy (PDict d) = (d \<noteq> [])"
| "truthy (PProxy d) = (d \<noteq> [])"
| "truthy (POpaque _) = True"

fun as_str :: "pyval \<Rightarrow> string option" where
  "as_str (PStr s) = Some s"
| "as_str _ = None"

fun as_dict :: "pyval \<Rightarrow> pydict option" where
  "as_dict (PDict d) = Some d"
| "as_dict _ = None"

section \<open>Equality\<close>

text \<open>
  Python's \<open>==\<close> identifies \<open>True\<close>, \<open>1\<close> and \<open>1.0\<close>, and ignores the order of
  dictionary entries; a list never equals a tuple.  It is equality of the
  canonical forms below (NaN, which Python makes unequal to itself, is outside
  the comparisons the program performs).
\<close>

primrec canon :: "pyval \<Rightarrow> pyval" where
  "canon PNone = PNone"
| "canon (PBool b) = PFloat (Fin (if b then 1 else 0))"
| "canon (PInt i) = PFloat (Fin (of_int i))"
| "canon (PFloat f) = PFloat f"
| "canon (PStr s) = PStr s"
| "canon (PList xs) = PList (map canon xs)"
| "canon (PTuple xs) = PTuple (map canon xs)"
| "canon (PDict d) = PDict (sort_key fst (map (map_prod id canon) d))"
| "canon (PProxy d) = PDict (sort_key fst (map (map_prod id canon) d))"
| "canon (POpaque c) = POpaque c"

definition py_eq :: "pyval \<Rightarrow> pyval \<Rightarrow> bool" where
  "py_eq v w \<longleftrightarrow> canon v = canon w"

lemma py_eq_refl [simp]: "py_eq v v"
  by (simp add: py_eq_def)

section \<open>JSON columns\<close>

text \<open>
  \<open>_dumps\<close> writes a value with \<open>json.dumps(value, ensure_ascii=False,
  sort_keys=True)\<close> and \<open>_loads\<close> reads it back.  A JSON text is represented by the
  value it parses to: writing sorts the keys of every object, turns tuples
  into lists and raises \<open>TypeError\<close> for a value JSON does not know (a
  read-only mapping included).
\<close>

primrec json_ok :: "pyval \<Rightarrow> bool" where
  "json_ok PNone = True"
| "json_ok (PBool b) = True"
| "json_ok (PInt i) = True"
| "json_ok (PFloat f) = True"
| "json_ok (PStr s) = True"
| "json_ok (PList xs) = list_all id (map json_ok xs)"
| "json_ok (PTuple xs) = list_all id (map json_ok xs)"
| "json_ok (PDict d) = list_all snd (map (map_prod id json_ok) d)"
| "json_ok (PProxy d) = False"
| "json_ok (POpaque c) = False"

primrec json_norm :: "pyval \<Rightarrow> pyval" where
  "json_norm PNone = PNone"
| "json_norm (PBool b) = PBool b"
| "json_norm (PInt i) = PInt i"
| "json_norm (PFloat f) = PFloat f"
| "json_norm (PStr s) = PStr s"
| "json_norm (PList xs) = PList (map json_norm xs)"
| "json_norm (PTuple xs) = PList (map json_norm xs)"
| "json_norm (PDict d) = PDict (sort_key fst (map (map_prod id json_norm) d))"
| "json_norm (PProxy d) = PProxy (map (map_prod id json_norm) d)"
| "json_norm (POpaque c) = POpaque c"

definition dumps :: "pyval \<Rightarrow> exn + pyval" where
  "dumps v = (if json_ok v then Inr (json_norm v)
              else Inl (TypeError ''Object is not JSON serializable''))"

text \<open>
  A column that holds a list or an object: \<open>_loads(...) or []\<close> and
  \<open>_loads(...) or {}\<close> after \<open>_dumps\<close>.
\<close>

definition dumps_list :: "pyval list \<Rightarrow> exn + pyval list" where
  "dumps_list xs =
     (if list_all json_ok xs then Inr (map json_norm xs)
      else Inl (TypeError ''Object is not JSON serializable''))"

definition dumps_dict :: "pydict \<Rightarrow> exn + pydict" where
  "dumps_dict d =
     (if list_all (\<lambda>e. json_ok (snd e)) d
      then Inr (sort_key fst (map (map_prod id json_norm) d))
      else Inl (TypeError ''Object is not JSON serializable''))"

lemma dumps_list_eq: "dumps_list xs = map_sum id (\<lambda>v. case v of PList ys \<Rightarrow> ys | _ \<Rightarrow> []) (dumps (PList xs))"
  by (simp add: dumps_list_def dumps_def list_all_iff)

lemma dumps_dict_eq: "dumps_dict d = map_sum id (\<lambda>v. case v of PDict e \<Rightarrow> e | _ \<Rightarrow> []) (dumps (PDict d))"
  by (auto simp: dumps_dict_def dumps_def list_all_iff)

lemma dumps_dict_Nil [simp]: "dumps_dict [] = Inr []"
  by (simp add: dumps_dict_def)

text \<open>Reading back what was written changes neither a sorted value nor equality.\<close>

lemma sort_key_idem: "sort_key f (sort_key f xs) = sort_key f xs"
  by (simp add: sort_key_id_if_sorted)

lemma insort_key_map_snd:
  "insort_key fst (map_prod (\<lambda>a. a) g x) (map (map_prod (\<lambda>a. a) g) ys) =
     map (map_prod (\<lambda>a. a) g) (insort_key fst x ys)"
  by (induction ys) auto

lemma sort_key_map_snd:
  "sort_key fst (map (map_prod (\<lambda>a. a) g) d) = map (map_prod (\<lambda>a. a) g) (sort_key fst d)"
  unfolding sort_key_def by (induction d) (simp_all add: insort_key_map_snd)

lemma map_map_snd: "map (map_prod (\<lambda>a. a) f) (map (map_prod (\<lambda>a. a) g) d) =
    map (map_prod (\<lambda>a. a) (\<lambda>v. f (g v))) d"
  by (simp add: case_prod_beta map_prod_def)

lemma map_snd_cong:
  "(\<And>x v. x \<in> set d \<Longrightarrow> v \<in> Basic_BNFs.snds x \<Longrightarrow> f v = g v) \<Longrightarrow>
     map (map_prod (\<lambda>a. a) f) d = map (map_prod (\<lambda>a. a) g) d"
  by (rule map_cong [OF refl]) (fastforce simp: snds.simps)

lemma json_norm_idem [simp]: "json_norm (json_norm v) = json_norm v"
proof (induction v)
  case (PDict d)
  then have "map (map_prod (\<lambda>a. a) (\<lambda>v. json_norm (json_norm v))) d = map (map_prod (\<lambda>a. a) json_norm) d"
    by (intro map_snd_cong) auto
  then show ?case
    by (simp only: json_norm.simps id_def sort_key_map_snd sort_key_idem map_map_snd
        flip: sort_key_map_snd)
next
  case (PProxy d)
  then have "map (map_prod (\<lambda>a. a) (\<lambda>v. json_norm (json_norm v))) d = map (map_prod (\<lambda>a. a) json_norm) d"
    by (intro map_snd_cong) auto
  then show ?case by (simp only: json_norm.simps id_def map_map_snd)
qed auto

lemma json_ok_dict [simp]: "json_ok (PDict d) \<longleftrightarrow> (\<forall>e \<in> set d. json_ok (snd e))"
  by (auto simp: list_all_iff map_prod_def split: prod.splits)

lemma json_ok_norm [simp]: "json_ok v \<Longrightarrow> json_ok (json_norm v)"
proof (induction v)
  case (PDict d)
  then show ?case by (fastforce simp: list_all_iff snds.simps map_prod_def)
qed (auto simp: list_all_iff)

lemma dumps_idem: "dumps v = Inr w \<Longrightarrow> dumps w = Inr w"
  by (auto simp: dumps_def split: if_splits)

end
