(* ===== verification/Lifecycle.thy ===== *)
theory Lifecycle
  imports Errors
begin

text \<open>
  The lifecycle of a Task, \<open>main_agent/lifecycle.py\<close> and the status
  enumerations of \<open>main_agent/models.py\<close>: the transition table a locally owned
  process obeys, the table that decides whether a snapshot reported by a child
  agent may advance its local proxy, and the lifecycle event of each target
  status.  The graph laws the two tables share are a locale, interpreted for
  each table; the remote table also has a rank that every accepted change
  increases.
\<close>

section \<open>Statuses\<close>

datatype task_status =
    CREATED | QUEUED | RUNNING | CANCEL_REQUESTED | INPUT_REQUIRED | AUTH_REQUIRED
  | COMPLETED | CANCELED | FAILED

primrec task_status_value :: "task_status \<Rightarrow> string" where
  "task_status_value CREATED = ''created''"
| "task_status_value QUEUED = ''queued''"
| "task_status_value RUNNING = ''running''"
| "task_status_value CANCEL_REQUESTED = ''cancel_requested''"
| "task_status_value INPUT_REQUIRED = ''input_required''"
| "task_status_value AUTH_REQUIRED = ''auth_required''"
| "task_status_value COMPLETED = ''completed''"
| "task_status_value CANCELED = ''canceled''"
| "task_status_value FAILED = ''failed''"

instantiation task_status :: enum
begin

definition enum_task_status :: "task_status list" where
  "enum_task_status = [CREATED, QUEUED, RUNNING, CANCEL_REQUESTED, INPUT_REQUIRED, AUTH_REQUIRED,
     COMPLETED, CANCELED, FAILED]"

definition enum_all_task_status :: "(task_status \<Rightarrow> bool) \<Rightarrow> bool" where
  "enum_all_task_status P \<longleftrightarrow> list_all P [CREATED, QUEUED, RUNNING, CANCEL_REQUESTED,
     INPUT_REQUIRED, AUTH_REQUIRED, COMPLETED, CANCELED, FAILED]"

definition enum_ex_task_status :: "(task_status \<Rightarrow> bool) \<Rightarrow> bool" where
  "enum_ex_task_status P \<longleftrightarrow> list_ex P [CREATED, QUEUED, RUNNING, CANCEL_REQUESTED,
     INPUT_REQUIRED, AUTH_REQUIRED, COMPLETED, CANCELED, FAILED]"

instance
proof
  fix P :: "task_status \<Rightarrow> bool"
  have all: "x \<in> set enum_class.enum" for x :: task_status
    by (cases x) (simp_all add: enum_task_status_def)
  then show "UNIV = set (enum_class.enum :: task_status list)" by auto
  show "distinct (enum_class.enum :: task_status list)"
    by (simp add: enum_task_status_def)
  show "enum_class.enum_all P \<longleftrightarrow> Ball UNIV P"
    by (simp add: enum_all_task_status_def) (metis task_status.exhaust)
  show "enum_class.enum_ex P \<longleftrightarrow> Bex UNIV P"
    by (simp add: enum_ex_task_status_def) (metis task_status.exhaust)
qed

end

text \<open>\<open>TaskStatus(str(value))\<close> for a text, and \<open>TERMINAL_TASK_STATUSES\<close>.\<close>

definition normalize_task_status :: "string \<Rightarrow> exn + task_status" where
  "normalize_task_status v =
     (case find (\<lambda>s. task_status_value s = v) enum_class.enum of
        None \<Rightarrow> Inl (ValueError (v @ '' is not a valid TaskStatus''))
      | Some s \<Rightarrow> Inr s)"

definition terminal_task_statuses :: "task_status set" where
  "terminal_task_statuses = {COMPLETED, CANCELED, FAILED}"

definition is_terminal_task_status :: "task_status \<Rightarrow> bool" where
  "is_terminal_task_status s \<longleftrightarrow> s \<in> terminal_task_statuses"

lemma is_terminal_simps [simp]:
  "is_terminal_task_status CREATED = False" "is_terminal_task_status QUEUED = False"
  "is_terminal_task_status RUNNING = False" "is_terminal_task_status CANCEL_REQUESTED = False"
  "is_terminal_task_status INPUT_REQUIRED = False" "is_terminal_task_status AUTH_REQUIRED = False"
  "is_terminal_task_status COMPLETED = True" "is_terminal_task_status CANCELED = True"
  "is_terminal_task_status FAILED = True"
  by (simp_all add: is_terminal_task_status_def terminal_task_statuses_def)

section \<open>Transition tables\<close>

primrec LOCAL_TASK_TRANSITIONS :: "task_status \<Rightarrow> task_status set" where
  "LOCAL_TASK_TRANSITIONS CREATED = {QUEUED, RUNNING, CANCELED, FAILED}"
| "LOCAL_TASK_TRANSITIONS QUEUED = {RUNNING, CANCELED, FAILED}"
| "LOCAL_TASK_TRANSITIONS RUNNING =
     {INPUT_REQUIRED, AUTH_REQUIRED, CANCEL_REQUESTED, COMPLETED, FAILED}"
| "LOCAL_TASK_TRANSITIONS CANCEL_REQUESTED = {CANCELED, FAILED}"
| "LOCAL_TASK_TRANSITIONS INPUT_REQUIRED = {QUEUED, CANCELED, FAILED}"
| "LOCAL_TASK_TRANSITIONS AUTH_REQUIRED = {QUEUED, CANCELED, FAILED}"
| "LOCAL_TASK_TRANSITIONS COMPLETED = {}"
| "LOCAL_TASK_TRANSITIONS CANCELED = {}"
| "LOCAL_TASK_TRANSITIONS FAILED = {}"

primrec REMOTE_PROXY_SNAPSHOT_TRANSITIONS :: "task_status \<Rightarrow> task_status set" where
  "REMOTE_PROXY_SNAPSHOT_TRANSITIONS CREATED =
     {QUEUED, RUNNING, INPUT_REQUIRED, AUTH_REQUIRED, COMPLETED, CANCELED, FAILED}"
| "REMOTE_PROXY_SNAPSHOT_TRANSITIONS QUEUED =
     {RUNNING, INPUT_REQUIRED, AUTH_REQUIRED, COMPLETED, CANCELED, FAILED}"
| "REMOTE_PROXY_SNAPSHOT_TRANSITIONS RUNNING =
     {INPUT_REQUIRED, AUTH_REQUIRED, COMPLETED, CANCELED, FAILED}"
| "REMOTE_PROXY_SNAPSHOT_TRANSITIONS INPUT_REQUIRED = {COMPLETED, CANCELED, FAILED}"
| "REMOTE_PROXY_SNAPSHOT_TRANSITIONS AUTH_REQUIRED = {COMPLETED, CANCELED, FAILED}"
| "REMOTE_PROXY_SNAPSHOT_TRANSITIONS CANCEL_REQUESTED = {CANCELED, FAILED}"
| "REMOTE_PROXY_SNAPSHOT_TRANSITIONS COMPLETED = {}"
| "REMOTE_PROXY_SNAPSHOT_TRANSITIONS CANCELED = {}"
| "REMOTE_PROXY_SNAPSHOT_TRANSITIONS FAILED = {}"

primrec TRANSITION_EVENT_TYPES :: "task_status \<Rightarrow> string option" where
  "TRANSITION_EVENT_TYPES CREATED = None"
| "TRANSITION_EVENT_TYPES QUEUED = Some ''task_queued''"
| "TRANSITION_EVENT_TYPES RUNNING = Some ''task_started''"
| "TRANSITION_EVENT_TYPES INPUT_REQUIRED = Some ''task_interrupted''"
| "TRANSITION_EVENT_TYPES AUTH_REQUIRED = Some ''task_interrupted''"
| "TRANSITION_EVENT_TYPES CANCEL_REQUESTED = Some ''task_cancel_requested''"
| "TRANSITION_EVENT_TYPES COMPLETED = Some ''task_completed''"
| "TRANSITION_EVENT_TYPES CANCELED = Some ''task_cancelled''"
| "TRANSITION_EVENT_TYPES FAILED = Some ''task_failed''"

definition validate_local_task_transition :: "task_status \<Rightarrow> task_status \<Rightarrow> exn + bool" where
  "validate_local_task_transition current target =
     (if current = target then Inr False
      else if target \<notin> LOCAL_TASK_TRANSITIONS current then
        Inl (InvalidLocalTaskTransitionError
          (''invalid local task transition: '' @ task_status_value current @ '' -> '' @
           task_status_value target))
      else Inr True)"

definition accepts_remote_proxy_snapshot :: "task_status \<Rightarrow> task_status \<Rightarrow> bool" where
  "accepts_remote_proxy_snapshot current target \<longleftrightarrow>
     current = target \<or> target \<in> REMOTE_PROXY_SNAPSHOT_TRANSITIONS current"

definition lifecycle_event_type_for_status :: "task_status \<Rightarrow> exn + string" where
  "lifecycle_event_type_for_status status =
     (case TRANSITION_EVENT_TYPES status of
        Some t \<Rightarrow> Inr t
      | None \<Rightarrow> Inl (InvalidLocalTaskTransitionError
          (''local task status cannot be a transition target: '' @ task_status_value status)))"

section \<open>Graph laws\<close>

text \<open>A sequence of statuses in which each is a step from the one before.\<close>

fun is_path :: "('s \<Rightarrow> 's \<Rightarrow> bool) \<Rightarrow> 's list \<Rightarrow> bool" where
  "is_path step [] = True"
| "is_path step [a] = True"
| "is_path step (a # b # xs) = (step a b \<and> is_path step (b # xs))"

lemma is_path_append:
  "is_path step (xs @ [a] @ ys) \<longleftrightarrow> is_path step (xs @ [a]) \<and> is_path step (a # ys)"
  by (induction step xs rule: is_path.induct) auto

lemma is_path_snoc:
  "xs \<noteq> [] \<Longrightarrow> is_path step (xs @ [b]) \<longleftrightarrow> is_path step xs \<and> step (last xs) b"
  by (induction step xs rule: is_path.induct) auto

lemma is_path_rtranclp: "is_path step (a # xs) \<Longrightarrow> step\<^sup>*\<^sup>* a (last (a # xs))"
  by (induction xs arbitrary: a)
     (auto intro: converse_rtranclp_into_rtranclp elim: is_path.elims)

locale lifecycle_graph =
  fixes step :: "'s \<Rightarrow> 's \<Rightarrow> bool"
    and terminal :: "'s \<Rightarrow> bool"
  assumes terminal_stuck: "terminal a \<Longrightarrow> \<not> step a b"
begin

lemma terminal_final: "step\<^sup>*\<^sup>* a b \<Longrightarrow> terminal a \<Longrightarrow> b = a"
  by (metis converse_rtranclpE terminal_stuck)

lemma terminal_last:
  assumes "is_path step (xs @ a # ys)" and "terminal a"
  shows "ys = []"
proof -
  from assms(1) have "is_path step (a # ys)"
    using is_path_append [of step xs a ys] by simp
  with assms(2) show ?thesis
    by (cases ys) (auto dest: terminal_stuck)
qed

lemma at_most_one_terminal:
  assumes "is_path step (xs @ a # ys @ b # zs)"
  shows "\<not> terminal a"
  using assms terminal_last [of xs a "ys @ b # zs"] by auto

end

locale live_lifecycle_graph = lifecycle_graph +
  assumes can_end: "\<not> terminal a \<Longrightarrow> \<exists>b. step a b \<and> terminal b"
begin

lemma reaches_terminal: "\<exists>b. step\<^sup>*\<^sup>* a b \<and> terminal b"
  using can_end by (cases "terminal a") (blast intro: r_into_rtranclp)+

lemma terminal_iff_stuck: "terminal a \<longleftrightarrow> (\<forall>b. \<not> step a b)"
  using can_end terminal_stuck by blast

end

locale ranked_lifecycle_graph = lifecycle_graph +
  fixes rank :: "'s \<Rightarrow> nat"
  assumes rank_less: "step a b \<Longrightarrow> rank a < rank b"
begin

lemma rank_tranclp: "step\<^sup>+\<^sup>+ a b \<Longrightarrow> rank a < rank b"
  by (induction rule: tranclp_induct) (auto dest: rank_less)

lemma never_returns: "\<not> step\<^sup>+\<^sup>+ a a"
  using rank_tranclp by blast

lemma path_rank: "is_path step (a # xs) \<Longrightarrow> rank a + length xs \<le> rank (last (a # xs))"
proof (induction xs arbitrary: a)
  case (Cons b xs)
  then have "step a b" and "rank b + length xs \<le> rank (last (b # xs))" by auto
  then show ?case using rank_less [of a b] by simp
qed simp

lemma path_distinct: "is_path step (a # xs) \<Longrightarrow> distinct (a # xs)"
proof (induction xs arbitrary: a)
  case (Cons b xs)
  have "c \<in> set (b # xs) \<Longrightarrow> rank a < rank c" for c
  proof -
    assume "c \<in> set (b # xs)"
    then obtain us vs where "b # xs = us @ c # vs" by (meson split_list)
    with Cons.prems have "is_path step ((a # us) @ [c] @ vs)" by simp
    then have "is_path step (a # us @ [c])" by (simp only: is_path_append) simp
    from path_rank [OF this] show ?thesis by simp
  qed
  with Cons show ?case by force
qed simp

end

section \<open>The two tables satisfy them\<close>

definition local_step :: "task_status \<Rightarrow> task_status \<Rightarrow> bool" where
  "local_step a b \<longleftrightarrow> validate_local_task_transition a b = Inr True"

definition remote_step :: "task_status \<Rightarrow> task_status \<Rightarrow> bool" where
  "remote_step a b \<longleftrightarrow> accepts_remote_proxy_snapshot a b \<and> a \<noteq> b"

primrec remote_rank :: "task_status \<Rightarrow> nat" where
  "remote_rank CREATED = 0"
| "remote_rank QUEUED = 1"
| "remote_rank RUNNING = 2"
| "remote_rank INPUT_REQUIRED = 3"
| "remote_rank AUTH_REQUIRED = 3"
| "remote_rank CANCEL_REQUESTED = 3"
| "remote_rank COMPLETED = 4"
| "remote_rank CANCELED = 4"
| "remote_rank FAILED = 4"

lemma local_step_iff: "local_step a b \<longleftrightarrow> b \<in> LOCAL_TASK_TRANSITIONS a"
  by (cases a; cases b) (simp_all add: local_step_def validate_local_task_transition_def)

lemma remote_step_iff: "remote_step a b \<longleftrightarrow> b \<in> REMOTE_PROXY_SNAPSHOT_TRANSITIONS a"
  by (cases a; cases b) (simp_all add: remote_step_def accepts_remote_proxy_snapshot_def)

interpretation local_lifecycle: live_lifecycle_graph local_step is_terminal_task_status
proof
  show "is_terminal_task_status a \<Longrightarrow> \<not> local_step a b" for a b
    by (cases a) (simp_all add: local_step_iff)
  show "\<not> is_terminal_task_status a \<Longrightarrow> \<exists>b. local_step a b \<and> is_terminal_task_status b" for a
    by (rule exI [of _ FAILED]) (cases a; simp add: local_step_iff)
qed

interpretation remote_lifecycle: ranked_lifecycle_graph remote_step is_terminal_task_status remote_rank
proof
  show "is_terminal_task_status a \<Longrightarrow> \<not> remote_step a b" for a b
    by (cases a) (simp_all add: remote_step_iff)
  show "remote_step a b \<Longrightarrow> remote_rank a < remote_rank b" for a b
    by (cases a; cases b) (simp_all add: remote_step_iff)
qed

lemma event_type_of_target: "local_step a b \<Longrightarrow> \<exists>t. lifecycle_event_type_for_status b = Inr t"
  by (cases a; cases b) (simp_all add: local_step_iff lifecycle_event_type_for_status_def)

lemma validate_Inr:
  "validate_local_task_transition a b = Inr r \<longleftrightarrow> (if r then local_step a b else a = b)"
  by (cases r) (auto simp: local_step_def validate_local_task_transition_def split: if_splits)

lemma normalize_task_status_value [simp]: "normalize_task_status (task_status_value s) = Inr s"
  by (cases s) (simp_all add: normalize_task_status_def enum_task_status_def)

end
