(* ===== verification/Models.thy ===== *)
theory Models
  imports Values Lifecycle
begin

text \<open>
  The durable records of \<open>main_agent/models.py\<close> and the typed worker commands
  with their JSON form.  Each dataclass is a record; its field names carry a
  short prefix (\<open>t_\<close> for a Task, \<open>m_\<close> for a Message, \<open>v_\<close> for a tool invocation,
  and so on).  A record doubles as the row of its SQLite table: the mappers of
  \<open>main_agent/store_mappers.py\<close> read every column back into the field it was
  written from, with JSON columns normalised when they are written (theory
  Values).  The queued command is the exception: its row is read through a
  validating decoder, so row and record are two types.

  Time stamps are natural numbers: the ISO strings of \<open>utc_now\<close> are only ever
  stored and compared, and compare like the instants they denote.
\<close>

type_synonym timestamp = nat

section \<open>Enumerations\<close>

datatype message_role = USER | AGENT | SYSTEM

datatype route_decision_kind = LOCAL_MESSAGE | LOCAL_TASK | REMOTE_AGENT

primrec route_kind_value :: "route_decision_kind \<Rightarrow> string" where
  "route_kind_value LOCAL_MESSAGE = ''local_message''"
| "route_kind_value LOCAL_TASK = ''local_task''"
| "route_kind_value REMOTE_AGENT = ''remote_agent''"

datatype message_ingress_state = IN_PROGRESS | RESOLVED | INGRESS_FAILED

datatype message_ingress_outcome_kind = MESSAGE_OUTCOME | TASK_OUTCOME | DELEGATION_OUTCOME

datatype queued_task_execution_kind = INITIAL | APPROVAL | USER_INPUT

primrec queued_kind_value :: "queued_task_execution_kind \<Rightarrow> string" where
  "queued_kind_value INITIAL = ''initial''"
| "queued_kind_value APPROVAL = ''approval''"
| "queued_kind_value USER_INPUT = ''user_input''"

definition queued_kind_of_value :: "string \<Rightarrow> exn + queued_task_execution_kind" where
  "queued_kind_of_value v =
     (case find (\<lambda>k. queued_kind_value k = v) [INITIAL, APPROVAL, USER_INPUT] of
        Some k \<Rightarrow> Inr k
      | None \<Rightarrow> Inl (ValueError (v @ '' is not a valid QueuedTaskExecutionKind'')))"

datatype tool_invocation_status =
  PREPARED | INV_RUNNING | SUCCEEDED | INV_FAILED | UNCERTAIN | INV_CANCELED

primrec invocation_status_value :: "tool_invocation_status \<Rightarrow> string" where
  "invocation_status_value PREPARED = ''prepared''"
| "invocation_status_value INV_RUNNING = ''running''"
| "invocation_status_value SUCCEEDED = ''succeeded''"
| "invocation_status_value INV_FAILED = ''failed''"
| "invocation_status_value UNCERTAIN = ''uncertain''"
| "invocation_status_value INV_CANCELED = ''canceled''"

datatype tool_invocation_approval_status = NOT_REQUIRED | PENDING | APPROVED | REJECTED

definition LOCAL_EXECUTION_COMMAND_VERSION :: int where
  "LOCAL_EXECUTION_COMMAND_VERSION = 1"

section \<open>Records\<close>

text \<open>\<open>c_next_message_sequence\<close> is the column of \<open>contexts\<close> that allocates
  Context-local sequence numbers; the dataclass does not expose it.\<close>

record context_record =
  c_context_id :: string
  c_title :: "string option"
  c_metadata :: pydict
  c_next_message_sequence :: int
  c_created_at :: timestamp
  c_updated_at :: timestamp

record message_record =
  m_message_id :: string
  m_context_id :: string
  m_role :: message_role
  m_parts :: "pyval list"
  m_task_id :: "string option"
  m_metadata :: pydict
  m_created_at :: timestamp
  m_context_sequence :: int

record message_ingress_record =
  i_message_id :: string
  i_context_id :: string
  i_request_fingerprint :: string
  i_state :: message_ingress_state
  i_route_decision_id :: "string option"
  i_outcome_kind :: "message_ingress_outcome_kind option"
  i_outcome_id :: "string option"
  i_error_code :: "string option"
  i_error_message :: "string option"
  i_error_http_status :: "int option"
  i_error_retryable :: bool
  i_created_at :: timestamp
  i_updated_at :: timestamp

record route_decision_record =
  r_decision_id :: string
  r_context_id :: string
  r_message_id :: string
  r_kind :: route_decision_kind
  r_target_agent_id :: "string option"
  r_reason :: string
  r_confidence :: "pyfloat option"
  r_metadata :: pydict
  r_created_at :: timestamp

record task_record =
  t_task_id :: string
  t_context_id :: string
  t_status :: task_status
  t_input_message_id :: string
  t_input_context_sequence :: int
  t_output_message_id :: "string option"
  t_runtime_thread_id :: string
  t_assigned_agent_id :: "string option"
  t_retry_of_task_id :: "string option"
  t_attempt :: int
  t_model :: "pydict option"
  t_max_loops :: "int option"
  t_mcp :: "pydict option"
  t_error_code :: "string option"
  t_error_message :: "string option"
  t_error_retryable :: bool
  t_lifecycle_revision :: int
  t_created_at :: timestamp
  t_updated_at :: timestamp

record pending_continuation_record =
  p_task_id :: string
  p_kind :: string
  p_input_request :: pydict
  p_created_at :: timestamp

record task_event_record =
  e_event_id :: int
  e_task_id :: string
  e_type :: string
  e_status :: "task_status option"
  e_lifecycle_revision :: int
  e_payload :: pydict
  e_created_at :: timestamp

record artifact_record =
  a_artifact_id :: string
  a_task_id :: string
  a_context_id :: string
  a_parts :: "pyval list"
  a_metadata :: pydict
  a_created_at :: timestamp
  a_updated_at :: timestamp

record tool_invocation_record =
  v_invocation_id :: string
  v_task_id :: string
  v_context_id :: string
  v_runtime_thread_id :: string
  v_loop_index :: int
  v_tool_call_id :: string
  v_tool_name :: string
  v_normalized_arguments :: pydict
  v_arguments_digest :: string
  v_capability :: pydict
  v_side_effect_level :: string
  v_idempotency_key :: "string option"
  v_approval_required :: bool
  v_approval_status :: tool_invocation_approval_status
  v_approval_reason :: "string option"
  v_status :: tool_invocation_status
  v_result_artifact_id :: "string option"
  v_error_code :: "string option"
  v_error_message :: "string option"
  v_error_retryable :: bool
  v_created_at :: timestamp
  v_started_at :: "timestamp option"
  v_completed_at :: "timestamp option"
  v_updated_at :: timestamp

record registered_agent_record =
  g_agent_id :: string
  g_name :: string
  g_card_url :: string
  g_card_json :: pydict
  g_enabled :: bool
  g_metadata :: pydict
  g_created_at :: timestamp
  g_updated_at :: timestamp

record delegated_task_record =
  d_delegation_id :: string
  d_context_id :: string
  d_input_message_id :: string
  d_route_decision_id :: string
  d_remote_agent_id :: string
  d_local_task_id :: "string option"
  d_remote_task_id :: "string option"
  d_remote_context_id :: "string option"
  d_remote_message_id :: "string option"
  d_result_kind :: string
  d_status :: string
  d_metadata :: pydict
  d_created_at :: timestamp
  d_updated_at :: timestamp

record delete_context_result =
  dc_context_id :: string
  dc_deleted_messages :: nat
  dc_deleted_tasks :: nat
  dc_deleted_task_events :: nat
  dc_deleted_artifacts :: nat
  dc_deleted_route_decisions :: nat

text \<open>The row of \<open>main_agent_queued_executions\<close>: the kind as its text, and the
  payload column as the value its JSON text parses to (\<open>None\<close> when the text is
  not JSON).\<close>

record queued_execution_row =
  q_task_id :: string
  q_kind :: string
  q_runtime_thread_id :: string
  q_command_version :: int
  q_payload :: "pyval option"
  q_created_at :: timestamp

section \<open>Freezing and thawing command payloads\<close>

text \<open>Type names of the values JSON does not know, in the order the freezing
  traversal meets them.\<close>

primrec opaques :: "pyval \<Rightarrow> string list" where
  "opaques PNone = []"
| "opaques (PBool b) = []"
| "opaques (PInt i) = []"
| "opaques (PFloat f) = []"
| "opaques (PStr s) = []"
| "opaques (PList xs) = concat (map opaques xs)"
| "opaques (PTuple xs) = concat (map opaques xs)"
| "opaques (PDict d) = concat (map snd (map (map_prod id opaques) d))"
| "opaques (PProxy d) = concat (map snd (map (map_prod id opaques) d))"
| "opaques (POpaque c) = [c]"

primrec frozen :: "pyval \<Rightarrow> pyval" where
  "frozen PNone = PNone"
| "frozen (PBool b) = PBool b"
| "frozen (PInt i) = PInt i"
| "frozen (PFloat f) = PFloat f"
| "frozen (PStr s) = PStr s"
| "frozen (PList xs) = PTuple (map frozen xs)"
| "frozen (PTuple xs) = PTuple (map frozen xs)"
| "frozen (PDict d) = PProxy (map (map_prod id frozen) d)"
| "frozen (PProxy d) = PProxy (map (map_prod id frozen) d)"
| "frozen (POpaque c) = POpaque c"

definition freeze_json_value :: "pyval \<Rightarrow> exn + pyval" where
  "freeze_json_value v =
     (case opaques v of
        [] \<Rightarrow> Inr (frozen v)
      | c # _ \<Rightarrow> Inl (ValueError (''queued execution payload is not JSON-compatible: '' @ c)))"

primrec thaw_json_value :: "pyval \<Rightarrow> pyval" where
  "thaw_json_value PNone = PNone"
| "thaw_json_value (PBool b) = PBool b"
| "thaw_json_value (PInt i) = PInt i"
| "thaw_json_value (PFloat f) = PFloat f"
| "thaw_json_value (PStr s) = PStr s"
| "thaw_json_value (PList xs) = PList xs"
| "thaw_json_value (PTuple xs) = PList (map thaw_json_value xs)"
| "thaw_json_value (PDict d) = PDict (map (map_prod id thaw_json_value) d)"
| "thaw_json_value (PProxy d) = PDict (map (map_prod id thaw_json_value) d)"
| "thaw_json_value (POpaque c) = POpaque c"

fun is_mapping :: "pyval \<Rightarrow> bool" where
  "is_mapping (PDict _) = True"
| "is_mapping (PProxy _) = True"
| "is_mapping _ = False"

text \<open>JSON values as \<open>json.loads\<close> produces them: no tuple, no read-only mapping.\<close>

primrec is_json :: "pyval \<Rightarrow> bool" where
  "is_json PNone = True"
| "is_json (PBool b) = True"
| "is_json (PInt i) = True"
| "is_json (PFloat f) = True"
| "is_json (PStr s) = True"
| "is_json (PList xs) = list_all id (map is_json xs)"
| "is_json (PTuple xs) = False"
| "is_json (PDict d) = list_all snd (map (map_prod id is_json) d)"
| "is_json (PProxy d) = False"
| "is_json (POpaque c) = False"

section \<open>Worker commands\<close>

datatype queued_payload =
    InitialTaskExecutionPayload
  | ApprovalTaskExecutionPayload bool "string option"
  | UserInputTaskExecutionPayload "pyval list" "pyval option"

text \<open>Dataclass equality of two payloads: the same class with equal fields.\<close>

fun payload_eq :: "queued_payload \<Rightarrow> queued_payload \<Rightarrow> bool" where
  "payload_eq InitialTaskExecutionPayload InitialTaskExecutionPayload = True"
| "payload_eq (ApprovalTaskExecutionPayload a r) (ApprovalTaskExecutionPayload b s) = (a = b \<and> r = s)"
| "payload_eq (UserInputTaskExecutionPayload p m) (UserInputTaskExecutionPayload q n) =
     (py_eq (PTuple p) (PTuple q) \<and> rel_option py_eq m n)"
| "payload_eq _ _ = False"

fun sum_list_of :: "('e + 'a) list \<Rightarrow> 'e + 'a list" where
  "sum_list_of [] = Inr []"
| "sum_list_of (x # xs) =
     (case x of Inl e \<Rightarrow> Inl e
      | Inr a \<Rightarrow> (case sum_list_of xs of Inl e \<Rightarrow> Inl e | Inr as \<Rightarrow> Inr (a # as)))"

text \<open>\<open>UserInputTaskExecutionPayload.from_values\<close> with \<open>__post_init__\<close>.\<close>

definition user_input_payload :: "pyval list \<Rightarrow> pyval option \<Rightarrow> exn + queued_payload" where
  "user_input_payload parts metadata =
     (if parts = [] then Inl (ValueError ''queued input command parts are required'')
      else if \<not> list_all is_mapping parts then
        Inl (TypeError ''queued input command parts must be mappings'')
      else if (case metadata of None \<Rightarrow> False | Some m \<Rightarrow> \<not> is_mapping m) then
        Inl (TypeError ''queued input command metadata must be a mapping or None'')
      else
        (case sum_list_of (map freeze_json_value parts) of
           Inl e \<Rightarrow> Inl e
         | Inr ps \<Rightarrow>
             (case metadata of
                None \<Rightarrow> Inr (UserInputTaskExecutionPayload ps None)
              | Some m \<Rightarrow>
                  (case freeze_json_value m of
                     Inl e \<Rightarrow> Inl e
                   | Inr fm \<Rightarrow> Inr (UserInputTaskExecutionPayload ps (Some fm))))))"

definition queued_task_execution_payload_from_dict ::
  "queued_task_execution_kind \<Rightarrow> int \<Rightarrow> pydict \<Rightarrow> exn + queued_payload" where
  "queued_task_execution_payload_from_dict kind command_version payload =
     (if command_version \<noteq> LOCAL_EXECUTION_COMMAND_VERSION then
        Inl (ValueError (''unsupported local execution command version: '' @ str_int command_version))
      else
        (case kind of
           INITIAL \<Rightarrow>
             (if payload \<noteq> [] then
                Inl (ValueError ''queued initial command payload must be empty'')
              else Inr InitialTaskExecutionPayload)
         | APPROVAL \<Rightarrow>
             (if \<not> fst ` set payload \<subseteq> {''approved'', ''reason''} then
                Inl (ValueError ''queued approval command contains unsupported fields'')
              else
                (case (dget payload ''approved'', dget payload ''reason'') of
                   (PBool b, PNone) \<Rightarrow> Inr (ApprovalTaskExecutionPayload b None)
                 | (PBool b, PStr r) \<Rightarrow> Inr (ApprovalTaskExecutionPayload b (Some r))
                 | _ \<Rightarrow> Inl (ValueError ''queued approval command is invalid'')))
         | USER_INPUT \<Rightarrow>
             (if \<not> fst ` set payload \<subseteq> {''parts'', ''metadata''} then
                Inl (ValueError ''queued input command contains unsupported fields'')
              else
                (case (dget payload ''parts'', dget payload ''metadata'') of
                   (PList ps, PNone) \<Rightarrow>
                     (if list_all (\<lambda>p. as_dict p \<noteq> None) ps then user_input_payload ps None
                      else Inl (ValueError ''queued input command is invalid''))
                 | (PList ps, PDict m) \<Rightarrow>
                     (if list_all (\<lambda>p. as_dict p \<noteq> None) ps
                      then user_input_payload ps (Some (PDict m))
                      else Inl (ValueError ''queued input command is invalid''))
                 | _ \<Rightarrow> Inl (ValueError ''queued input command is invalid'')))))"

definition queued_task_execution_payload_to_dict ::
  "queued_task_execution_kind \<Rightarrow> queued_payload \<Rightarrow> exn + pydict" where
  "queued_task_execution_payload_to_dict kind payload =
     (case (kind, payload) of
        (INITIAL, InitialTaskExecutionPayload) \<Rightarrow> Inr []
      | (APPROVAL, ApprovalTaskExecutionPayload approved reason) \<Rightarrow>
          Inr ((''approved'', PBool approved) #
               (case reason of None \<Rightarrow> [] | Some r \<Rightarrow> [(''reason'', PStr r)]))
      | (USER_INPUT, UserInputTaskExecutionPayload parts metadata) \<Rightarrow>
          Inr [(''parts'', PList (map thaw_json_value parts)),
               (''metadata'', case metadata of None \<Rightarrow> PNone | Some m \<Rightarrow> thaw_json_value m)]
      | _ \<Rightarrow> Inl (ValueError (''queued execution payload does not match kind: '' @
                              queued_kind_value kind)))"

record queued_task_execution_record =
  qe_task_id :: string
  qe_kind :: queued_task_execution_kind
  qe_runtime_thread_id :: string
  qe_command_version :: int
  qe_payload :: queued_payload
  qe_created_at :: timestamp

text \<open>\<open>_queued_task_execution_from_row\<close>: the validating read of a command.\<close>

definition queued_task_execution_from_row ::
  "queued_execution_row \<Rightarrow> exn + queued_task_execution_record" where
  "queued_task_execution_from_row row =
     (case (case q_payload row of
              None \<Rightarrow> Inl (JSONDecodeError ''invalid JSON'')
            | Some PNone \<Rightarrow> Inr []
            | Some (PDict d) \<Rightarrow> Inr d
            | Some _ \<Rightarrow> Inl (ValueError (''queued execution payload must be an object: '' @
                                       q_task_id row))) of
        Inl e \<Rightarrow> Inl e
      | Inr payload \<Rightarrow>
          (case queued_kind_of_value (q_kind row) of
             Inl e \<Rightarrow> Inl e
           | Inr kind \<Rightarrow>
               (case queued_task_execution_payload_from_dict kind (q_command_version row) payload of
                  Inl e \<Rightarrow> Inl e
                | Inr p \<Rightarrow>
                    Inr \<lparr>qe_task_id = q_task_id row, qe_kind = kind,
                         qe_runtime_thread_id = q_runtime_thread_id row,
                         qe_command_version = q_command_version row,
                         qe_payload = p, qe_created_at = q_created_at row\<rparr>)))"

section \<open>Round trips\<close>

lemma map_snd_id:
  "(\<And>x v. x \<in> set d \<Longrightarrow> v \<in> Basic_BNFs.snds x \<Longrightarrow> f v = v) \<Longrightarrow>
     map (map_prod (\<lambda>a. a) f) d = d"
  using map_snd_cong [of d f "\<lambda>v. v"] by (simp add: map_prod_ident)

lemma opaques_is_json [simp]: "is_json v \<Longrightarrow> opaques v = []"
proof (induction v)
  case (PDict d)
  then show ?case by (fastforce simp: list_all_iff snds.simps)
qed (auto simp: list_all_iff)

lemma thaw_frozen [simp]: "is_json v \<Longrightarrow> thaw_json_value (frozen v) = v"
proof (induction v)
  case (PDict d)
  then have "thaw_json_value (frozen w) = w" if "x \<in> set d" and "w \<in> Basic_BNFs.snds x" for x w
    using that by (fastforce simp: list_all_iff snds.simps)
  then show ?case
    by (simp add: id_def map_map_snd [unfolded id_def] map_snd_id del: map_map)
next
  case (PList xs)
  then show ?case by (auto simp: list_all_iff intro: map_idI)
qed auto

text \<open>A frozen value is rebuilt from what it thaws to.\<close>

primrec is_frozen :: "pyval \<Rightarrow> bool" where
  "is_frozen PNone = True"
| "is_frozen (PBool b) = True"
| "is_frozen (PInt i) = True"
| "is_frozen (PFloat f) = True"
| "is_frozen (PStr s) = True"
| "is_frozen (PList xs) = False"
| "is_frozen (PTuple xs) = list_all id (map is_frozen xs)"
| "is_frozen (PDict d) = False"
| "is_frozen (PProxy d) = list_all snd (map (map_prod id is_frozen) d)"
| "is_frozen (POpaque c) = False"

lemma is_frozen_frozen: "opaques v = [] \<Longrightarrow> is_frozen (frozen v)"
proof (induction v)
  case (PDict d)
  then show ?case by (fastforce simp: list_all_iff snds.simps)
next
  case (PProxy d)
  then show ?case by (fastforce simp: list_all_iff snds.simps)
qed (auto simp: list_all_iff)

lemma is_json_thaw: "is_frozen v \<Longrightarrow> is_json (thaw_json_value v)"
proof (induction v)
  case (PProxy d)
  then show ?case by (fastforce simp: list_all_iff snds.simps)
qed (auto simp: list_all_iff)

lemma frozen_thaw [simp]: "is_frozen v \<Longrightarrow> frozen (thaw_json_value v) = v"
proof (induction v)
  case (PProxy d)
  then have "frozen (thaw_json_value w) = w" if "x \<in> set d" and "w \<in> Basic_BNFs.snds x" for x w
    using that by (fastforce simp: list_all_iff snds.simps)
  then show ?case
    by (simp add: id_def map_map_snd [unfolded id_def] map_snd_id del: map_map)
next
  case (PTuple xs)
  then show ?case by (auto simp: list_all_iff intro: map_idI)
qed auto

lemma canon_frozen [simp]: "canon (frozen (json_norm v)) = canon (frozen v)"
proof (induction v)
  case (PDict d)
  then have h: "map (map_prod (\<lambda>a. a) (\<lambda>v. canon (frozen (json_norm v)))) d =
      map (map_prod (\<lambda>a. a) (\<lambda>v. canon (frozen v))) d"
    by (intro map_snd_cong) auto
  show ?case
    by (simp add: id_def sort_key_map_snd sort_key_idem map_map_snd h
        del: map_map map_eq_conv flip: sort_key_map_snd)
next
  case (PProxy d)
  then have h: "map (map_prod (\<lambda>a. a) (\<lambda>v. canon (frozen (json_norm v)))) d =
      map (map_prod (\<lambda>a. a) (\<lambda>v. canon (frozen v))) d"
    by (intro map_snd_cong) auto
  show ?case
    by (simp add: id_def map_map_snd h del: map_map map_eq_conv)
qed auto

text \<open>A payload the dataclass constructors accept: the user input parts are
  frozen mappings, at least one of them.\<close>

fun valid_payload :: "queued_payload \<Rightarrow> bool" where
  "valid_payload InitialTaskExecutionPayload = True"
| "valid_payload (ApprovalTaskExecutionPayload b r) = True"
| "valid_payload (UserInputTaskExecutionPayload parts metadata) =
     (parts \<noteq> [] \<and> list_all (\<lambda>p. is_mapping p \<and> is_frozen p) parts \<and>
      (case metadata of None \<Rightarrow> True | Some m \<Rightarrow> is_mapping m \<and> is_frozen m))"

fun payload_kind :: "queued_payload \<Rightarrow> queued_task_execution_kind" where
  "payload_kind InitialTaskExecutionPayload = INITIAL"
| "payload_kind (ApprovalTaskExecutionPayload b r) = APPROVAL"
| "payload_kind (UserInputTaskExecutionPayload parts metadata) = USER_INPUT"

lemma sum_list_of_map_Inr:
  "(\<And>x. x \<in> set xs \<Longrightarrow> f x = Inr (g x)) \<Longrightarrow> sum_list_of (map f xs) = Inr (map g xs)"
  by (induction xs) auto

lemma sum_list_of_InrD:
  "sum_list_of xs = Inr ys \<Longrightarrow> length ys = length xs \<and> (\<forall>y \<in> set ys. Inr y \<in> set xs)"
  by (induction xs arbitrary: ys) (auto split: sum.splits)

lemma freeze_json_valueD: "freeze_json_value v = Inr w \<Longrightarrow> is_frozen w \<and> w = frozen v"
  by (auto simp: freeze_json_value_def is_frozen_frozen split: list.splits)

lemma is_mapping_frozen [simp]: "is_mapping (frozen v) = is_mapping v"
  by (cases v) auto

lemma user_input_payload_valid:
  assumes "user_input_payload parts metadata = Inr p"
  shows "valid_payload p"
proof -
  have frz: "is_mapping y \<and> is_frozen y"
    if "Inr y \<in> freeze_json_value ` set parts" and "list_all is_mapping parts" for y
    using that by (auto simp: list_all_iff dest!: sym [of "Inr y"] freeze_json_valueD)
  show ?thesis
    using assms frz
    by (auto simp: user_input_payload_def list_all_iff split: if_splits sum.splits option.splits
        dest!: sum_list_of_InrD freeze_json_valueD)
qed

lemma is_json_json_ok: "is_json v \<Longrightarrow> json_ok v"
proof (induction v)
  case (PDict d)
  then show ?case by (fastforce simp: list_all_iff snds.simps)
qed (auto simp: list_all_iff)

lemma is_json_norm: "is_json v \<Longrightarrow> is_json (json_norm v)"
proof (induction v)
  case (PDict d)
  then show ?case by (fastforce simp: list_all_iff snds.simps)
qed (auto simp: list_all_iff)

lemma freeze_json: "is_json v \<Longrightarrow> freeze_json_value v = Inr (frozen v)"
  by (simp add: freeze_json_value_def)

lemma thaw_mapping: "is_mapping v \<Longrightarrow> \<exists>d. thaw_json_value v = PDict d"
  by (cases v) auto

lemma is_mapping_json_norm [simp]: "is_mapping (json_norm v) = is_mapping v"
  by (cases v) auto

lemma canon_norm_thaw: "is_frozen v \<Longrightarrow> canon (frozen (json_norm (thaw_json_value v))) = canon v"
  by simp

lemma user_input_payload_thaw:
  assumes "valid_payload (UserInputTaskExecutionPayload parts metadata)"
  shows "user_input_payload (map (\<lambda>p. json_norm (thaw_json_value p)) parts)
           (map_option (\<lambda>m. json_norm (thaw_json_value m)) metadata) =
         Inr (UserInputTaskExecutionPayload
           (map (\<lambda>p. frozen (json_norm (thaw_json_value p))) parts)
           (map_option (\<lambda>m. frozen (json_norm (thaw_json_value m))) metadata))"
proof -
  have mapping: "is_mapping (thaw_json_value p)" if "is_mapping p" for p
    using thaw_mapping [OF that] by auto
  have freeze: "freeze_json_value (json_norm (thaw_json_value p)) =
      Inr (frozen (json_norm (thaw_json_value p)))" if "is_frozen p" for p
    using that by (intro freeze_json is_json_norm is_json_thaw)
  have "sum_list_of (map freeze_json_value (map (\<lambda>p. json_norm (thaw_json_value p)) parts)) =
      Inr (map (\<lambda>p. frozen (json_norm (thaw_json_value p))) parts)"
    using assms by (simp add: list_all_iff comp_def freeze sum_list_of_map_Inr)
  then show ?thesis
    using assms by (auto simp: user_input_payload_def list_all_iff mapping freeze comp_def
        split: option.splits)
qed

lemma payload_eq_user_input:
  assumes "valid_payload (UserInputTaskExecutionPayload parts metadata)"
  shows "payload_eq (UserInputTaskExecutionPayload parts metadata)
    (UserInputTaskExecutionPayload
       (map (\<lambda>p. frozen (json_norm (thaw_json_value p))) parts)
       (map_option (\<lambda>m. frozen (json_norm (thaw_json_value m))) metadata))"
  using assms by (auto simp: py_eq_def list_all_iff option.rel_map split: option.splits)

text \<open>
  A worker command survives the durable queue: for every payload the
  dataclass constructors accept, writing it as a JSON object of the current
  command version and reading the row back through the validating decoder
  succeeds, and gives a payload of the same kind that is equal to the one
  written.
\<close>

theorem queued_payload_roundtrip:
  assumes "valid_payload p"
  shows "\<exists>d e q. queued_task_execution_payload_to_dict (payload_kind p) p = Inr d \<and>
    dumps_dict d = Inr e \<and>
    queued_task_execution_payload_from_dict (payload_kind p) LOCAL_EXECUTION_COMMAND_VERSION e = Inr q \<and>
    payload_eq p q"
proof (cases p)
  case InitialTaskExecutionPayload
  then show ?thesis
    by (simp add: queued_task_execution_payload_to_dict_def
        queued_task_execution_payload_from_dict_def)
next
  case (ApprovalTaskExecutionPayload b r)
  then show ?thesis
    by (cases r) (simp_all add: queued_task_execution_payload_to_dict_def dumps_dict_def
        queued_task_execution_payload_from_dict_def dget_def)
next
  case (UserInputTaskExecutionPayload parts metadata)
  have ok: "json_ok (thaw_json_value q)" if "is_frozen q" for q
    using that by (intro is_json_json_ok is_json_thaw)
  have dict: "as_dict (json_norm (thaw_json_value q)) \<noteq> None" if "is_mapping q" for q
    using thaw_mapping [OF that] by auto
  show ?thesis
  proof (cases metadata)
    case None
    then show ?thesis
      using assms UserInputTaskExecutionPayload user_input_payload_thaw [of parts metadata]
        payload_eq_user_input [of parts metadata]
      by (simp add: queued_task_execution_payload_to_dict_def dumps_dict_def dget_def comp_def
          queued_task_execution_payload_from_dict_def list_all_iff ok dict)
  next
    case (Some m)
    with assms UserInputTaskExecutionPayload obtain d where m: "thaw_json_value m = PDict d"
      using thaw_mapping [of m] by auto
    obtain d' where m': "json_norm (PDict d) = PDict d'" by simp
    show ?thesis
      using assms UserInputTaskExecutionPayload user_input_payload_thaw [of parts metadata]
        payload_eq_user_input [of parts metadata] Some ok [of m]
      by (simp add: queued_task_execution_payload_to_dict_def dumps_dict_def dget_def comp_def
          queued_task_execution_payload_from_dict_def list_all_iff ok dict m m'
          del: json_norm.simps(8) json_ok_dict)
  qed
qed

theorem queued_payload_roundtrip_witness:
  "\<exists>d e q. queued_task_execution_payload_to_dict USER_INPUT
      (UserInputTaskExecutionPayload [PProxy [(''text'', PStr ''yes''), (''kind'', PStr ''text'')]] None)
      = Inr d \<and> dumps_dict d = Inr e \<and>
    queued_task_execution_payload_from_dict USER_INPUT LOCAL_EXECUTION_COMMAND_VERSION e = Inr q \<and>
    payload_eq (UserInputTaskExecutionPayload
      [PProxy [(''text'', PStr ''yes''), (''kind'', PStr ''text'')]] None) q"
  using queued_payload_roundtrip [of "UserInputTaskExecutionPayload
      [PProxy [(''text'', PStr ''yes''), (''kind'', PStr ''text'')]] None"]
  by simp

section \<open>What a read of a command yields\<close>

lemma sum_list_of_InlD: "sum_list_of xs = Inl e \<Longrightarrow> Inl e \<in> set xs"
  by (induction xs) (auto split: sum.splits)

lemma user_input_payload_errors:
  assumes "user_input_payload parts metadata = Inl e"
  shows "is_type_error e \<or> is_value_error e"
proof -
  have "is_value_error e" if "freeze_json_value v = Inl e" for v e
    using that by (auto simp: freeze_json_value_def split: list.splits)
  with assms show ?thesis
    by (auto simp: user_input_payload_def split: if_splits sum.splits option.splits dest!: sum_list_of_InlD)
qed

lemma user_input_payload_kind: "user_input_payload parts metadata = Inr p \<Longrightarrow> payload_kind p = USER_INPUT"
  by (auto simp: user_input_payload_def split: if_splits sum.splits option.splits)

lemma payload_from_dict_errors:
  "queued_task_execution_payload_from_dict kind v payload = Inl e \<Longrightarrow> is_type_error e \<or> is_value_error e"
  by (auto simp: queued_task_execution_payload_from_dict_def split: if_splits queued_task_execution_kind.splits
      pyval.splits dest: user_input_payload_errors)

lemma payload_from_dict_typed:
  "queued_task_execution_payload_from_dict kind v payload = Inr p \<Longrightarrow>
     valid_payload p \<and> payload_kind p = kind \<and> v = LOCAL_EXECUTION_COMMAND_VERSION"
  by (auto simp: queued_task_execution_payload_from_dict_def split: if_splits queued_task_execution_kind.splits
      pyval.splits dest: user_input_payload_valid user_input_payload_kind)

lemma from_row_errors: "queued_task_execution_from_row row = Inl e \<Longrightarrow> is_type_error e \<or> is_value_error e"
  by (auto simp: queued_task_execution_from_row_def queued_kind_of_value_def
      split: option.splits pyval.splits sum.splits dest: payload_from_dict_errors)

text \<open>
  C25. A worker command read from the database is well typed.  Whatever the row holds, the
  read yields either a command of the supported version whose payload is valid and of
  the class its kind asks for, or a \<open>TypeError\<close> or \<open>ValueError\<close>, the two exceptions the
  recovery at startup expects of an unreadable command.
\<close>

theorem queued_command_well_typed:
  "case queued_task_execution_from_row row of
     Inr q \<Rightarrow> valid_payload (qe_payload q) \<and> payload_kind (qe_payload q) = qe_kind q \<and>
       qe_command_version q = LOCAL_EXECUTION_COMMAND_VERSION \<and> qe_task_id q = q_task_id row \<and>
       queued_kind_value (qe_kind q) = q_kind row
   | Inl e \<Rightarrow> is_type_error e \<or> is_value_error e"
proof (cases "queued_task_execution_from_row row")
  case (Inl e)
  then show ?thesis using from_row_errors by simp
next
  case (Inr q)
  then show ?thesis
    by (auto simp: queued_task_execution_from_row_def queued_kind_of_value_def find_Some_iff
        split: option.splits pyval.splits sum.splits if_splits dest!: payload_from_dict_typed)
qed

end
