(* ===== verification/Storage.thy ===== *)
theory Storage
  imports Models
begin

text \<open>
  The durable storage layer, \<open>vermay/storage.py\<close>: the tables of the schema with
  their keys, unique indices and foreign keys, the single SQLite connection with
  its re-entrant transactions, the callbacks that run after a commit, and the
  in-process event notifier of \<open>main_agent/task_event_subscription.py\<close> they call.

  \<open>conn\<close> is what the connection reads, \<open>durable\<close> what has been committed: the
  database another connection, or the next process after a crash, would see.
  \<open>execute\<close> commits at once outside a transaction; inside one, only the
  outermost scope commits, and an exception that leaves it rolls the whole
  transaction back.  A nested scope is not a savepoint.

  The world outside the program is part of the state: \<open>clock\<close> is the sequence
  of readings \<open>datetime.now\<close> returns and \<open>uuid_hex\<close> the sequence of
  \<open>uuid4().hex\<close> values, each with the number of values already drawn.
\<close>

section \<open>Tables\<close>

record tables =
  tb_contexts :: "context_record list"
  tb_messages :: "message_record list"
  tb_route_decisions :: "route_decision_record list"
  tb_tasks :: "task_record list"
  tb_task_events :: "task_event_record list"
  tb_event_seq :: int
  tb_artifacts :: "artifact_record list"
  tb_registered_agents :: "registered_agent_record list"
  tb_delegated_tasks :: "delegated_task_record list"
  tb_pending_continuations :: "pending_continuation_record list"
  tb_message_ingress :: "message_ingress_record list"
  tb_queued_executions :: "queued_execution_row list"
  tb_tool_invocations :: "tool_invocation_record list"

definition empty_tables :: tables where
  "empty_tables = \<lparr>tb_contexts = [], tb_messages = [], tb_route_decisions = [], tb_tasks = [],
     tb_task_events = [], tb_event_seq = 0, tb_artifacts = [], tb_registered_agents = [],
     tb_delegated_tasks = [], tb_pending_continuations = [], tb_message_ingress = [],
     tb_queued_executions = [], tb_tool_invocations = []\<rparr>"

section \<open>The control state of the local runtime\<close>

text \<open>
  What \<open>execution_context.py\<close> and \<open>task_runner.py\<close> keep in memory.  Contexts share the signal of
  the execution they belong to, and the registry compares executions by identity: the
  objects live in a list, and an address is a position in it.  \<open>thread_locks\<close> counts the
  users of the entries of the runner's dictionary.
\<close>

record execution_cancellation =
  xc_requested :: bool
  xc_reason :: "string option"

record active_execution =
  ae_cancellation :: execution_cancellation
  ae_users :: int

record execution_context =
  cx_runtime_thread_id :: "string option"
  cx_invocation_id :: "string option"
  cx_deadline_monotonic :: "pyfloat option"
  cx_cancellation :: "nat option"
  cx_workspace_id :: "string option"

record control_state =
  executions :: "active_execution list"
  active_executions :: "string \<Rightarrow> nat option"
  current_context :: "execution_context option"
  thread_locks :: "string \<Rightarrow> int option"
  runner_closed :: bool

definition empty_control :: control_state where
  "empty_control = \<lparr>executions = [], active_executions = (\<lambda>_. None), current_context = None,
     thread_locks = (\<lambda>_. None), runner_closed = False\<rparr>"

section \<open>The state of the process\<close>

record world =
  conn :: tables
  durable :: tables
  transaction_depth :: nat
  after_commit_callbacks :: "string list"
  notifier_versions :: "string \<Rightarrow> nat"
  clock :: "nat \<Rightarrow> timestamp"
  clock_reads :: nat
  uuid_hex :: "nat \<Rightarrow> string"
  uuid_reads :: nat
  active_task_ids :: "string set"
  scheduled_task_ids :: "string set"
  control :: control_state

type_synonym 'a py = "(world, exn, 'a) prog"
type_synonym 'a statement = "tables \<Rightarrow> exn + 'a \<times> tables"

section \<open>Constraint checks\<close>

definition unique_failed :: "string \<Rightarrow> exn" where
  "unique_failed what = IntegrityError (''UNIQUE constraint failed: '' @ what)"

definition foreign_key_failed :: exn where
  "foreign_key_failed = IntegrityError ''FOREIGN KEY constraint failed''"

definition has_context :: "tables \<Rightarrow> string \<Rightarrow> bool" where
  "has_context t k \<longleftrightarrow> fetch c_context_id k (tb_contexts t) \<noteq> None"

definition has_message :: "tables \<Rightarrow> string \<Rightarrow> bool" where
  "has_message t k \<longleftrightarrow> fetch m_message_id k (tb_messages t) \<noteq> None"

definition has_decision :: "tables \<Rightarrow> string \<Rightarrow> bool" where
  "has_decision t k \<longleftrightarrow> fetch r_decision_id k (tb_route_decisions t) \<noteq> None"

definition has_task :: "tables \<Rightarrow> string \<Rightarrow> bool" where
  "has_task t k \<longleftrightarrow> fetch t_task_id k (tb_tasks t) \<noteq> None"

definition has_agent :: "tables \<Rightarrow> string \<Rightarrow> bool" where
  "has_agent t k \<longleftrightarrow> fetch g_agent_id k (tb_registered_agents t) \<noteq> None"

definition opt_ref :: "(string \<Rightarrow> bool) \<Rightarrow> string option \<Rightarrow> bool" where
  "opt_ref P x \<longleftrightarrow> (case x of None \<Rightarrow> True | Some k \<Rightarrow> P k)"

text \<open>A statement that changes the tables when its uniqueness and foreign-key
  conditions hold and raises \<open>IntegrityError\<close> otherwise.\<close>

definition guarded :: "(tables \<Rightarrow> string option) \<Rightarrow> (tables \<Rightarrow> bool) \<Rightarrow> (tables \<Rightarrow> 'a \<times> tables) \<Rightarrow> 'a statement" where
  "guarded clash refs act t =
     (case clash t of
        Some what \<Rightarrow> Inl (unique_failed what)
      | None \<Rightarrow> if refs t then Inr (act t) else Inl foreign_key_failed)"

section \<open>Inserting rows\<close>

definition insert_context_row :: "context_record \<Rightarrow> unit statement" where
  "insert_context_row r = guarded
     (\<lambda>t. if has_context t (c_context_id r) then Some ''contexts.context_id'' else None)
     (\<lambda>t. True)
     (\<lambda>t. ((), t\<lparr>tb_contexts := tb_contexts t @ [r]\<rparr>))"

definition insert_message_row :: "message_record \<Rightarrow> unit statement" where
  "insert_message_row r = guarded
     (\<lambda>t. if has_message t (m_message_id r) then Some ''messages.message_id''
          else if list_ex (\<lambda>m. m_context_id m = m_context_id r \<and>
                             m_context_sequence m = m_context_sequence r) (tb_messages t)
          then Some ''messages.context_id, messages.context_sequence'' else None)
     (\<lambda>t. has_context t (m_context_id r))
     (\<lambda>t. ((), t\<lparr>tb_messages := tb_messages t @ [r]\<rparr>))"

definition insert_route_decision_row :: "route_decision_record \<Rightarrow> unit statement" where
  "insert_route_decision_row r = guarded
     (\<lambda>t. if has_decision t (r_decision_id r) then Some ''route_decisions.decision_id'' else None)
     (\<lambda>t. has_context t (r_context_id r) \<and> has_message t (r_message_id r))
     (\<lambda>t. ((), t\<lparr>tb_route_decisions := tb_route_decisions t @ [r]\<rparr>))"

definition insert_task_row :: "task_record \<Rightarrow> unit statement" where
  "insert_task_row r = guarded
     (\<lambda>t. if has_task t (t_task_id r) then Some ''main_agent_tasks.task_id''
          else if list_ex (\<lambda>x. t_runtime_thread_id x = t_runtime_thread_id r) (tb_tasks t)
          then Some ''main_agent_tasks.runtime_thread_id''
          else if t_retry_of_task_id r \<noteq> None \<and>
                  list_ex (\<lambda>x. t_retry_of_task_id x = t_retry_of_task_id r) (tb_tasks t)
          then Some ''main_agent_tasks.retry_of_task_id'' else None)
     (\<lambda>t. has_context t (t_context_id r) \<and> has_message t (t_input_message_id r) \<and>
          opt_ref (has_message t) (t_output_message_id r))
     (\<lambda>t. ((), t\<lparr>tb_tasks := tb_tasks t @ [r]\<rparr>))"

text \<open>\<open>event_id INTEGER PRIMARY KEY AUTOINCREMENT\<close>: the next id is one above the
  largest ever used; the statement returns \<open>lastrowid\<close>.\<close>

definition insert_task_event_row :: "task_event_record \<Rightarrow> int statement" where
  "insert_task_event_row r = guarded (\<lambda>t. None)
     (\<lambda>t. has_task t (e_task_id r))
     (\<lambda>t. let k = tb_event_seq t + 1 in
        (k, t\<lparr>tb_task_events := tb_task_events t @ [r\<lparr>e_event_id := k\<rparr>], tb_event_seq := k\<rparr>))"

definition insert_tool_invocation_row :: "tool_invocation_record \<Rightarrow> unit statement" where
  "insert_tool_invocation_row r = guarded
     (\<lambda>t. if fetch v_invocation_id (v_invocation_id r) (tb_tool_invocations t) \<noteq> None
          then Some ''main_agent_tool_invocations.invocation_id''
          else if list_ex (\<lambda>x. v_task_id x = v_task_id r \<and>
                 v_runtime_thread_id x = v_runtime_thread_id r \<and>
                 v_loop_index x = v_loop_index r \<and> v_tool_call_id x = v_tool_call_id r \<and>
                 v_arguments_digest x = v_arguments_digest r) (tb_tool_invocations t)
          then Some ''main_agent_tool_invocations execution identity'' else None)
     (\<lambda>t. has_task t (v_task_id r) \<and> has_context t (v_context_id r))
     (\<lambda>t. ((), t\<lparr>tb_tool_invocations := tb_tool_invocations t @ [r]\<rparr>))"

definition insert_delegated_task_row :: "delegated_task_record \<Rightarrow> unit statement" where
  "insert_delegated_task_row r = guarded
     (\<lambda>t. if fetch d_delegation_id (d_delegation_id r) (tb_delegated_tasks t) \<noteq> None
          then Some ''delegated_tasks.delegation_id'' else None)
     (\<lambda>t. has_context t (d_context_id r) \<and> has_message t (d_input_message_id r) \<and>
          has_decision t (d_route_decision_id r) \<and> has_agent t (d_remote_agent_id r) \<and>
          opt_ref (has_task t) (d_local_task_id r))
     (\<lambda>t. ((), t\<lparr>tb_delegated_tasks := tb_delegated_tasks t @ [r]\<rparr>))"

definition insert_queued_execution_row :: "queued_execution_row \<Rightarrow> unit statement" where
  "insert_queued_execution_row r = guarded
     (\<lambda>t. if fetch q_task_id (q_task_id r) (tb_queued_executions t) \<noteq> None
          then Some ''main_agent_queued_executions.task_id'' else None)
     (\<lambda>t. has_task t (q_task_id r))
     (\<lambda>t. ((), t\<lparr>tb_queued_executions := tb_queued_executions t @ [r]\<rparr>))"

text \<open>\<open>INSERT ... ON CONFLICT(key) DO NOTHING\<close> returns the row count;
  \<open>ON CONFLICT(key) DO UPDATE\<close> merges the new row into the old one.\<close>

definition insert_ingress_or_ignore :: "message_ingress_record \<Rightarrow> nat statement" where
  "insert_ingress_or_ignore r t =
     (if fetch i_message_id (i_message_id r) (tb_message_ingress t) \<noteq> None then Inr (0, t)
      else guarded (\<lambda>t. None)
        (\<lambda>t. has_message t (i_message_id r) \<and> has_context t (i_context_id r) \<and>
             opt_ref (has_decision t) (i_route_decision_id r))
        (\<lambda>t. (1, t\<lparr>tb_message_ingress := tb_message_ingress t @ [r]\<rparr>)) t)"

definition upsert_pending_row :: "pending_continuation_record \<Rightarrow> unit statement" where
  "upsert_pending_row r t =
     (if fetch p_task_id (p_task_id r) (tb_pending_continuations t) \<noteq> None
      then Inr ((), t\<lparr>tb_pending_continuations :=
        set_where (\<lambda>x. p_task_id x = p_task_id r)
          (\<lambda>x. x\<lparr>p_kind := p_kind r, p_input_request := p_input_request r,
                 p_created_at := p_created_at r\<rparr>) (tb_pending_continuations t)\<rparr>)
      else guarded (\<lambda>t. None) (\<lambda>t. has_task t (p_task_id r))
        (\<lambda>t. ((), t\<lparr>tb_pending_continuations := tb_pending_continuations t @ [r]\<rparr>)) t)"

definition upsert_artifact_row :: "artifact_record \<Rightarrow> unit statement" where
  "upsert_artifact_row r t =
     (if fetch a_artifact_id (a_artifact_id r) (tb_artifacts t) \<noteq> None
      then Inr ((), t\<lparr>tb_artifacts :=
        set_where (\<lambda>x. a_artifact_id x = a_artifact_id r)
          (\<lambda>x. x\<lparr>a_parts := a_parts r, a_metadata := a_metadata r,
                 a_updated_at := a_updated_at r\<rparr>) (tb_artifacts t)\<rparr>)
      else guarded (\<lambda>t. None)
        (\<lambda>t. has_task t (a_task_id r) \<and> has_context t (a_context_id r))
        (\<lambda>t. ((), t\<lparr>tb_artifacts := tb_artifacts t @ [r]\<rparr>)) t)"

definition upsert_agent_row :: "registered_agent_record \<Rightarrow> unit statement" where
  "upsert_agent_row r t =
     (if has_agent t (g_agent_id r)
      then Inr ((), t\<lparr>tb_registered_agents :=
        set_where (\<lambda>x. g_agent_id x = g_agent_id r)
          (\<lambda>x. x\<lparr>g_name := g_name r, g_card_url := g_card_url r, g_card_json := g_card_json r,
                 g_enabled := g_enabled r, g_metadata := g_metadata r,
                 g_updated_at := g_updated_at r\<rparr>) (tb_registered_agents t)\<rparr>)
      else Inr ((), t\<lparr>tb_registered_agents := tb_registered_agents t @ [r]\<rparr>))"

section \<open>The connection\<close>

definition write_conn :: "tables \<Rightarrow> world \<Rightarrow> world" where
  "write_conn t w =
     (if transaction_depth w = 0 then w\<lparr>conn := t, durable := t\<rparr> else w\<lparr>conn := t\<rparr>)"

definition execute :: "'a statement \<Rightarrow> 'a py" where
  "execute stmt w =
     (case stmt (conn w) of
        Inl e \<Rightarrow> (Inl e, w)
      | Inr (a, t) \<Rightarrow> (Inr a, write_conn t w))"

definition query :: "(tables \<Rightarrow> 'a) \<Rightarrow> 'a py" where
  "query f = getM (\<lambda>w. f (conn w))"

text \<open>An \<open>UPDATE\<close> that touches no key: it never fails.\<close>

definition update_tables :: "(tables \<Rightarrow> tables) \<Rightarrow> unit py" where
  "update_tables f = execute (\<lambda>t. Inr ((), f t))"

text \<open>\<open>InProcessTaskEventNotifier\<close>.\<close>

definition notify :: "string \<Rightarrow> world \<Rightarrow> world" where
  "notify task_id w =
     w\<lparr>notifier_versions := (notifier_versions w)(task_id := Suc (notifier_versions w task_id))\<rparr>"

definition observe :: "string \<Rightarrow> nat py" where
  "observe task_id = getM (\<lambda>w. notifier_versions w task_id)"

definition run_after_commit_callbacks :: "string list \<Rightarrow> world \<Rightarrow> world" where
  "run_after_commit_callbacks callbacks w = fold notify callbacks w"

definition register_after_commit :: "string \<Rightarrow> unit py" where
  "register_after_commit task_id =
     modifyM (\<lambda>w. if transaction_depth w > 0
       then w\<lparr>after_commit_callbacks := after_commit_callbacks w @ [task_id]\<rparr>
       else run_after_commit_callbacks [task_id] w)"

definition tx_enter :: "world \<Rightarrow> world" where
  "tx_enter w =
     (if transaction_depth w = 0 then w\<lparr>after_commit_callbacks := [], transaction_depth := 1\<rparr>
      else w\<lparr>transaction_depth := Suc (transaction_depth w)\<rparr>)"

definition tx_leave :: "world \<Rightarrow> world" where
  "tx_leave w = w\<lparr>transaction_depth := transaction_depth w - 1\<rparr>"

definition tx_commit :: "world \<Rightarrow> world" where
  "tx_commit w = run_after_commit_callbacks (after_commit_callbacks w)
     (w\<lparr>durable := conn w, transaction_depth := transaction_depth w - 1,
        after_commit_callbacks := []\<rparr>)"

definition tx_rollback :: "world \<Rightarrow> world" where
  "tx_rollback w =
     w\<lparr>conn := durable w, transaction_depth := transaction_depth w - 1,
       after_commit_callbacks := []\<rparr>"

definition transaction :: "'a py \<Rightarrow> 'a py" where
  "transaction m w =
     (case m (tx_enter w) of
        (Inr a, w') \<Rightarrow> (Inr a, if transaction_depth w = 0 then tx_commit w' else tx_leave w')
      | (Inl e, w') \<Rightarrow> (Inl e, if transaction_depth w = 0 then tx_rollback w' else tx_leave w'))"

definition utc_now :: "timestamp py" where
  "utc_now w = (Inr (clock w (clock_reads w)), w\<lparr>clock_reads := Suc (clock_reads w)\<rparr>)"

definition new_id :: "string \<Rightarrow> string py" where
  "new_id prefix w =
     (Inr (prefix @ ''-'' @ uuid_hex w (uuid_reads w)), w\<lparr>uuid_reads := Suc (uuid_reads w)\<rparr>)"

definition init_world :: "(nat \<Rightarrow> timestamp) \<Rightarrow> (nat \<Rightarrow> string) \<Rightarrow> world" where
  "init_world c u =
     \<lparr>conn = empty_tables, durable = empty_tables, transaction_depth = 0,
      after_commit_callbacks = [], notifier_versions = (\<lambda>_. 0), clock = c, clock_reads = 0,
      uuid_hex = u, uuid_reads = 0, active_task_ids = {}, scheduled_task_ids = {}, control = empty_control\<rparr>"

section \<open>What the primitives do to the state\<close>

named_theorems world_simps "selectors after the storage primitives"

lemma write_conn_simps [world_simps, simp]:
  "conn (write_conn t w) = t"
  "transaction_depth (write_conn t w) = transaction_depth w"
  "durable (write_conn t w) = (if transaction_depth w = 0 then t else durable w)"
  "after_commit_callbacks (write_conn t w) = after_commit_callbacks w"
  "notifier_versions (write_conn t w) = notifier_versions w"
  "clock (write_conn t w) = clock w" "clock_reads (write_conn t w) = clock_reads w"
  "uuid_hex (write_conn t w) = uuid_hex w" "uuid_reads (write_conn t w) = uuid_reads w"
  "active_task_ids (write_conn t w) = active_task_ids w"
  "scheduled_task_ids (write_conn t w) = scheduled_task_ids w"
  "control (write_conn t w) = control w"
  by (simp_all add: write_conn_def)

lemma write_conn_write_conn [simp]: "write_conn t' (write_conn t w) = write_conn t' w"
  by (simp add: write_conn_def)

lemma write_conn_clock [simp]:
  "write_conn t (w\<lparr>clock_reads := n\<rparr>) = (write_conn t w)\<lparr>clock_reads := n\<rparr>"
  by (simp add: write_conn_def)

lemma notify_simps [simp]:
  "conn (notify k w) = conn w" "durable (notify k w) = durable w"
  "transaction_depth (notify k w) = transaction_depth w"
  "after_commit_callbacks (notify k w) = after_commit_callbacks w"
  "clock (notify k w) = clock w" "clock_reads (notify k w) = clock_reads w"
  "uuid_hex (notify k w) = uuid_hex w" "uuid_reads (notify k w) = uuid_reads w"
  "active_task_ids (notify k w) = active_task_ids w"
  "scheduled_task_ids (notify k w) = scheduled_task_ids w"
  "control (notify k w) = control w"
  by (simp_all add: notify_def)

lemma run_callbacks_simps [simp]:
  "conn (run_after_commit_callbacks ks w) = conn w"
  "durable (run_after_commit_callbacks ks w) = durable w"
  "transaction_depth (run_after_commit_callbacks ks w) = transaction_depth w"
  "after_commit_callbacks (run_after_commit_callbacks ks w) = after_commit_callbacks w"
  "clock (run_after_commit_callbacks ks w) = clock w"
  "clock_reads (run_after_commit_callbacks ks w) = clock_reads w"
  "uuid_hex (run_after_commit_callbacks ks w) = uuid_hex w"
  "uuid_reads (run_after_commit_callbacks ks w) = uuid_reads w"
  "active_task_ids (run_after_commit_callbacks ks w) = active_task_ids w"
  "scheduled_task_ids (run_after_commit_callbacks ks w) = scheduled_task_ids w"
  "control (run_after_commit_callbacks ks w) = control w"
  unfolding run_after_commit_callbacks_def by (induction ks arbitrary: w) simp_all

lemma tx_enter_simps [world_simps, simp]:
  "conn (tx_enter w) = conn w" "durable (tx_enter w) = durable w"
  "transaction_depth (tx_enter w) = Suc (transaction_depth w)"
  "clock (tx_enter w) = clock w" "clock_reads (tx_enter w) = clock_reads w"
  "uuid_hex (tx_enter w) = uuid_hex w" "uuid_reads (tx_enter w) = uuid_reads w"
  "active_task_ids (tx_enter w) = active_task_ids w"
  "scheduled_task_ids (tx_enter w) = scheduled_task_ids w"
  "control (tx_enter w) = control w"
  "notifier_versions (tx_enter w) = notifier_versions w"
  by (simp_all add: tx_enter_def)

lemma tx_leave_simps [world_simps, simp]:
  "conn (tx_leave w) = conn w" "durable (tx_leave w) = durable w"
  "transaction_depth (tx_leave w) = transaction_depth w - 1"
  "clock (tx_leave w) = clock w" "clock_reads (tx_leave w) = clock_reads w"
  "uuid_hex (tx_leave w) = uuid_hex w" "uuid_reads (tx_leave w) = uuid_reads w"
  "active_task_ids (tx_leave w) = active_task_ids w"
  "scheduled_task_ids (tx_leave w) = scheduled_task_ids w"
  "control (tx_leave w) = control w"
  "notifier_versions (tx_leave w) = notifier_versions w"
  "after_commit_callbacks (tx_leave w) = after_commit_callbacks w"
  by (simp_all add: tx_leave_def)

lemma tx_commit_simps [world_simps, simp]:
  "conn (tx_commit w) = conn w" "durable (tx_commit w) = conn w"
  "transaction_depth (tx_commit w) = transaction_depth w - 1"
  "clock (tx_commit w) = clock w" "clock_reads (tx_commit w) = clock_reads w"
  "uuid_hex (tx_commit w) = uuid_hex w" "uuid_reads (tx_commit w) = uuid_reads w"
  "active_task_ids (tx_commit w) = active_task_ids w"
  "scheduled_task_ids (tx_commit w) = scheduled_task_ids w"
  "control (tx_commit w) = control w"
  by (simp_all add: tx_commit_def)

lemma tx_rollback_simps [world_simps, simp]:
  "conn (tx_rollback w) = durable w" "durable (tx_rollback w) = durable w"
  "transaction_depth (tx_rollback w) = transaction_depth w - 1"
  "clock (tx_rollback w) = clock w" "clock_reads (tx_rollback w) = clock_reads w"
  "uuid_hex (tx_rollback w) = uuid_hex w" "uuid_reads (tx_rollback w) = uuid_reads w"
  "active_task_ids (tx_rollback w) = active_task_ids w"
  "scheduled_task_ids (tx_rollback w) = scheduled_task_ids w"
  "control (tx_rollback w) = control w"
  "notifier_versions (tx_rollback w) = notifier_versions w"
  by (simp_all add: tx_rollback_def)

lemma wp_execute [wp_rules]:
  "wp (execute stmt) Q E w =
     (case stmt (conn w) of Inl e \<Rightarrow> E e w | Inr (a, t) \<Rightarrow> Q a (write_conn t w))"
  by (simp add: wp_def execute_def split: sum.splits prod.splits)

lemma wp_query [wp_rules]: "wp (query f) Q E w = Q (f (conn w)) w"
  by (simp add: query_def wp_rules)

lemma wp_update_tables [wp_rules]:
  "wp (update_tables f) Q E w = Q () (write_conn (f (conn w)) w)"
  by (simp add: update_tables_def wp_rules)

lemma wp_utc_now [wp_rules]:
  "wp utc_now Q E w = Q (clock w (clock_reads w)) (w\<lparr>clock_reads := Suc (clock_reads w)\<rparr>)"
  by (simp add: wp_def utc_now_def)

lemma wp_new_id [wp_rules]:
  "wp (new_id p) Q E w =
     Q (p @ ''-'' @ uuid_hex w (uuid_reads w)) (w\<lparr>uuid_reads := Suc (uuid_reads w)\<rparr>)"
  by (simp add: wp_def new_id_def)

lemma wp_transaction [wp_rules]:
  "wp (transaction m) Q E w =
     (if transaction_depth w = 0
      then wp m (\<lambda>a w'. Q a (tx_commit w')) (\<lambda>e w'. E e (tx_rollback w')) (tx_enter w)
      else wp m (\<lambda>a w'. Q a (tx_leave w')) (\<lambda>e w'. E e (tx_leave w')) (tx_enter w))"
  by (simp add: wp_def transaction_def split: prod.splits sum.splits)

lemma guarded_Inr:
  "guarded clash refs act t = Inr x \<longleftrightarrow> clash t = None \<and> refs t \<and> x = act t"
  by (auto simp: guarded_def split: option.splits if_splits)

lemma guarded_ok [simp]:
  "clash t = None \<Longrightarrow> refs t \<Longrightarrow> guarded clash refs act t = Inr (act t)"
  by (simp add: guarded_def)

section \<open>Programs that respect transactions\<close>

text \<open>
  \<open>tx_keeps I m\<close> is the contract of a store program \<open>m\<close> with respect to a
  condition \<open>I\<close> on the database.  Started in a state whose committed and current
  tables satisfy \<open>I\<close>, and which is \<open>settled\<close> (nothing uncommitted outside a
  transaction), \<open>m\<close> leaves the nesting depth as it was and stays settled; inside
  a transaction it leaves the committed tables alone; the committed tables
  satisfy \<open>I\<close>; and, unless it raises, so do the current tables.
\<close>

definition settled :: "world \<Rightarrow> bool" where
  "settled w \<longleftrightarrow> (transaction_depth w = 0 \<longrightarrow> conn w = durable w)"

definition tx_pre :: "(tables \<Rightarrow> bool) \<Rightarrow> world \<Rightarrow> bool" where
  "tx_pre I w \<longleftrightarrow> settled w \<and> I (conn w) \<and> I (durable w)"

definition tx_post :: "(tables \<Rightarrow> bool) \<Rightarrow> world \<Rightarrow> world \<Rightarrow> bool" where
  "tx_post I w w' \<longleftrightarrow> settled w' \<and> I (durable w') \<and>
     transaction_depth w' = transaction_depth w \<and>
     (transaction_depth w > 0 \<longrightarrow> durable w' = durable w)"

definition tx_keeps :: "(tables \<Rightarrow> bool) \<Rightarrow> 'a py \<Rightarrow> bool" where
  "tx_keeps I m \<longleftrightarrow> (\<forall>w. tx_pre I w \<longrightarrow>
     wp m (\<lambda>a w'. tx_post I w w' \<and> I (conn w')) (\<lambda>e w'. tx_post I w w') w)"

definition stmt_keeps :: "(tables \<Rightarrow> bool) \<Rightarrow> 'a statement \<Rightarrow> bool" where
  "stmt_keeps I stmt \<longleftrightarrow> (\<forall>t a t'. I t \<longrightarrow> stmt t = Inr (a, t') \<longrightarrow> I t')"

named_theorems tx_intros "programs that respect transactions"

lemma tx_keepsI:
  "(\<And>w. settled w \<Longrightarrow> I (conn w) \<Longrightarrow> I (durable w) \<Longrightarrow>
      wp m (\<lambda>a w'. tx_post I w w' \<and> I (conn w')) (\<lambda>e w'. tx_post I w w') w) \<Longrightarrow> tx_keeps I m"
  by (simp add: tx_keeps_def tx_pre_def)

lemma tx_keepsD:
  "tx_keeps I m \<Longrightarrow> settled w \<Longrightarrow> I (conn w) \<Longrightarrow> I (durable w) \<Longrightarrow>
     wp m (\<lambda>a w'. tx_post I w w' \<and> I (conn w')) (\<lambda>e w'. tx_post I w w') w"
  by (simp add: tx_keeps_def tx_pre_def)

lemma tx_post_refl: "settled w \<Longrightarrow> I (durable w) \<Longrightarrow> tx_post I w w"
  by (simp add: tx_post_def)

lemma tx_post_trans: "tx_post I w w' \<Longrightarrow> tx_post I w' w'' \<Longrightarrow> tx_post I w w''"
  by (simp add: tx_post_def)

lemma tx_returnM [tx_intros]: "tx_keeps I (returnM a)"
  by (auto intro!: tx_keepsI simp: wp_rules tx_post_refl)

lemma tx_raiseM [tx_intros]: "tx_keeps I (raiseM e)"
  by (auto intro!: tx_keepsI simp: wp_rules tx_post_refl)

lemma tx_getM [tx_intros]: "tx_keeps I (getM f)"
  by (auto intro!: tx_keepsI simp: wp_rules tx_post_refl)

lemma tx_query [tx_intros]: "tx_keeps I (query f)"
  by (simp add: query_def tx_intros)

lemma tx_liftE [tx_intros]: "tx_keeps I (liftE r)"
  by (auto intro!: tx_keepsI simp: wp_rules tx_post_refl split: sum.splits)

lemma tx_raise_if [tx_intros]: "tx_keeps I (raise_if b e)"
  by (simp add: raise_if_def tx_intros)

lemma tx_if [tx_intros]: "tx_keeps I m \<Longrightarrow> tx_keeps I n \<Longrightarrow> tx_keeps I (if b then m else n)"
  by simp

lemma tx_case_option [tx_intros]:
  "tx_keeps I m \<Longrightarrow> (\<And>a. tx_keeps I (n a)) \<Longrightarrow> tx_keeps I (case x of None \<Rightarrow> m | Some a \<Rightarrow> n a)"
  by (simp split: option.splits)

lemma tx_case_sum [tx_intros]:
  "(\<And>a. tx_keeps I (m a)) \<Longrightarrow> (\<And>a. tx_keeps I (n a)) \<Longrightarrow>
     tx_keeps I (case x of Inl a \<Rightarrow> m a | Inr a \<Rightarrow> n a)"
  by (simp split: sum.splits)

lemma tx_case_prod [tx_intros]:
  "(\<And>a b. tx_keeps I (m a b)) \<Longrightarrow> tx_keeps I (case x of (a, b) \<Rightarrow> m a b)"
  by (simp split: prod.splits)

lemma tx_let [tx_intros]: "(\<And>a. tx_keeps I (m a)) \<Longrightarrow> tx_keeps I (let a = x in m a)"
  by (simp add: Let_def)

lemma tx_bindM [tx_intros]:
  assumes m: "tx_keeps I m" and f: "\<And>a. tx_keeps I (f a)"
  shows "tx_keeps I (bindM m f)"
proof (rule tx_keepsI)
  fix w assume w: "settled w" "I (conn w)" "I (durable w)"
  have "wp (f a) (\<lambda>b w''. tx_post I w w'' \<and> I (conn w'')) (\<lambda>e w''. tx_post I w w'') w'"
    if "tx_post I w w' \<and> I (conn w')" for a w'
    by (rule wp_mono [OF tx_keepsD [OF f]]) (use that in \<open>auto simp: tx_post_def\<close>)
  then show "wp (bindM m f) (\<lambda>a w'. tx_post I w w' \<and> I (conn w')) (\<lambda>e w'. tx_post I w w') w"
    unfolding wp_bindM by (intro wp_mono [OF tx_keepsD [OF m w]])
qed

lemma tx_forM [tx_intros]: "(\<And>x. tx_keeps I (f x)) \<Longrightarrow> tx_keeps I (forM xs f)"
  by (induction xs) (auto intro!: tx_intros)

lemma tx_execute [tx_intros]: "stmt_keeps I stmt \<Longrightarrow> tx_keeps I (execute stmt)"
  by (auto intro!: tx_keepsI simp: wp_rules tx_post_def settled_def stmt_keeps_def
      split: sum.splits)

lemma stmt_keeps_True [tx_intros]: "stmt_keeps (\<lambda>_. True) stmt"
  by (simp add: stmt_keeps_def)

lemma stmt_keeps_guarded:
  "(\<And>t. I t \<Longrightarrow> clash t = None \<Longrightarrow> refs t \<Longrightarrow> I (snd (act t))) \<Longrightarrow>
     stmt_keeps I (guarded clash refs act)"
  by (auto simp: stmt_keeps_def guarded_Inr) (metis snd_conv)

text \<open>Inside a transaction a write only changes the current tables.\<close>

lemma tx_post_write_conn [simp]:
  "0 < transaction_depth w \<Longrightarrow> tx_post I w (write_conn t w') = tx_post I w w'"
  by (auto simp: tx_post_def settled_def)

lemma tx_post_reads [simp]:
  "tx_post I w (w'\<lparr>clock_reads := n\<rparr>) = tx_post I w w'"
  "tx_post I w (w'\<lparr>uuid_reads := n\<rparr>) = tx_post I w w'"
  by (auto simp: tx_post_def settled_def)

lemma tx_update_tables [tx_intros]:
  "(\<And>t. I t \<Longrightarrow> I (f t)) \<Longrightarrow> tx_keeps I (update_tables f)"
  by (auto simp: update_tables_def stmt_keeps_def intro!: tx_intros)

lemma tx_utc_now [tx_intros]: "tx_keeps I utc_now"
  by (auto intro!: tx_keepsI simp: wp_rules tx_post_def settled_def)

lemma tx_new_id [tx_intros]: "tx_keeps I (new_id p)"
  by (auto intro!: tx_keepsI simp: wp_rules tx_post_def settled_def)

lemma tx_register_after_commit [tx_intros]: "tx_keeps I (register_after_commit k)"
  by (auto intro!: tx_keepsI simp: register_after_commit_def wp_rules tx_post_def settled_def)

lemma tx_transaction_wp:
  assumes "\<And>w. settled w \<Longrightarrow> I (conn w) \<Longrightarrow> I (durable w) \<Longrightarrow> 0 < transaction_depth w \<Longrightarrow>
      wp m (\<lambda>a w'. tx_post I w w' \<and> I (conn w')) (\<lambda>e w'. tx_post I w w') w"
  shows "tx_keeps I (transaction m)"
proof (rule tx_keepsI)
  fix w assume w: "settled w" "I (conn w)" "I (durable w)"
  have body: "wp m (\<lambda>a w'. tx_post I (tx_enter w) w' \<and> I (conn w'))
      (\<lambda>e w'. tx_post I (tx_enter w) w') (tx_enter w)"
    using assms [of "tx_enter w"] w by (simp add: settled_def)
  show "wp (transaction m) (\<lambda>a w'. tx_post I w w' \<and> I (conn w')) (\<lambda>e w'. tx_post I w w') w"
    unfolding wp_transaction
    using w by (auto intro!: wp_mono [OF body] simp: tx_post_def settled_def)
qed

lemma tx_transaction [tx_intros]:
  assumes "tx_keeps I m"
  shows "tx_keeps I (transaction m)"
  by (rule tx_transaction_wp) (rule tx_keepsD [OF assms])

text \<open>An exception caught outside every transaction leaves a settled database.\<close>

lemma tx_catchM_top:
  assumes m: "tx_keeps I m" and h: "\<And>e. tx_keeps I (h e)"
    and w: "settled w" "I (conn w)" "I (durable w)" "transaction_depth w = 0"
  shows "wp (catchM m h) (\<lambda>a w'. tx_post I w w' \<and> I (conn w')) (\<lambda>e w'. tx_post I w w') w"
proof -
  have "wp (h e) (\<lambda>b w''. tx_post I w w'' \<and> I (conn w'')) (\<lambda>e w''. tx_post I w w'') w'"
    if "tx_post I w w'" for e w'
    by (rule wp_mono [OF tx_keepsD [OF h]])
       (use that w in \<open>auto simp: tx_post_def settled_def\<close>)
  then show ?thesis
    unfolding wp_catchM by (intro wp_mono [OF tx_keepsD [OF m w(1-3)]]) auto
qed

section \<open>Atomicity\<close>

text \<open>
  The body of a transaction, as a tree of the operations a store method may use on the connection: it
  returns or raises, reads the tables, executes a statement and goes on with its result,
  reads the clock, draws an identifier, registers a callback, opens a nested
  transaction, or handles an exception.  \<open>run_body\<close> runs it with the operations above.
\<close>

datatype 'a store_body =
    Return_value 'a
  | Raise_error exn
  | Query_tables "tables \<Rightarrow> 'a store_body"
  | Execute_statement "'a store_body statement"
  | Read_clock "timestamp \<Rightarrow> 'a store_body"
  | Draw_id string "string \<Rightarrow> 'a store_body"
  | After_commit string "'a store_body"
  | Nested_transaction "'a store_body" "'a \<Rightarrow> 'a store_body"
  | Handle_error "'a store_body" "exn \<Rightarrow> 'a store_body"

primrec run_body :: "'a store_body \<Rightarrow> 'a py" where
  "run_body (Return_value a) = returnM a"
| "run_body (Raise_error e) = raiseM e"
| "run_body (Query_tables f) = bindM (query (\<lambda>t. run_body (f t))) (\<lambda>m. m)"
| "run_body (Execute_statement stmt) =
     bindM (execute (\<lambda>t. map_sum (\<lambda>e. e) (map_prod run_body (\<lambda>t. t)) (stmt t))) (\<lambda>m. m)"
| "run_body (Read_clock f) = bindM utc_now (\<lambda>x. run_body (f x))"
| "run_body (Draw_id prefix f) = bindM (new_id prefix) (\<lambda>x. run_body (f x))"
| "run_body (After_commit key b) = bindM (register_after_commit key) (\<lambda>_. run_body b)"
| "run_body (Nested_transaction b f) = bindM (transaction (run_body b)) (\<lambda>a. run_body (f a))"
| "run_body (Handle_error b h) = catchM (run_body b) (\<lambda>e. run_body (h e))"

definition unpublished :: "world \<Rightarrow> world \<Rightarrow> bool" where
  "unpublished w w' \<longleftrightarrow> durable w' = durable w \<and> transaction_depth w' = transaction_depth w \<and>
     notifier_versions w' = notifier_versions w"

lemma run_callbacks_versions:
  "notifier_versions (run_after_commit_callbacks ks w) = (\<lambda>k. notifier_versions w k + count_list ks k)"
  unfolding run_after_commit_callbacks_def
  by (induction ks arbitrary: w) (auto simp: notify_def fun_eq_iff)

text \<open>Inside a transaction no operation commits, ends the transaction or notifies anyone.\<close>

lemma unpublished_after:
  "wp m (\<lambda>_. unpublished w') (\<lambda>_. unpublished w') w' \<Longrightarrow> unpublished w w' \<Longrightarrow>
     wp m (\<lambda>_. unpublished w) (\<lambda>_. unpublished w) w'"
  by (erule wp_mono) (simp_all add: unpublished_def)

lemma unpublished_simps [simp]:
  "unpublished w w"
  "unpublished w (w'\<lparr>clock_reads := n\<rparr>) = unpublished w w'" "unpublished w (w'\<lparr>uuid_reads := n\<rparr>) = unpublished w w'"
  "unpublished w (w'\<lparr>after_commit_callbacks := ks\<rparr>) = unpublished w w'"
  "0 < transaction_depth w' \<Longrightarrow> unpublished w (write_conn t w') = unpublished w w'"
  by (simp_all add: unpublished_def)

lemma run_body_unpublished:
  "0 < transaction_depth w \<Longrightarrow> wp (run_body b) (\<lambda>_. unpublished w) (\<lambda>_. unpublished w) w"
proof (induction b arbitrary: w)
  case (Execute_statement stmt)
  have "wp (run_body b) (\<lambda>_. unpublished w) (\<lambda>_. unpublished w) (write_conn t w)" if "stmt (conn w) = Inr (b, t)" for b t
    by (rule unpublished_after, rule Execute_statement.IH [of "stmt (conn w)" "(b, t)"])
       (use that Execute_statement.prems in \<open>auto intro: setr.intros range_eqI [of _ _ "conn w"]\<close>)
  then show ?case by (cases "stmt (conn w)") (auto simp: wp_rules)
next
  case (After_commit key b)
  then show ?case
    by (simp add: register_after_commit_def wp_rules) (rule unpublished_after, rule After_commit.IH, simp_all)
next
  case (Nested_transaction b f)
  have "wp (run_body (f a)) (\<lambda>_. unpublished w) (\<lambda>_. unpublished w) (tx_leave w')" if "unpublished (tx_enter w) w'" for a w'
    by (rule unpublished_after, rule Nested_transaction.IH(2) [OF rangeI])
       (use that Nested_transaction.prems in \<open>auto simp: unpublished_def\<close>)
  moreover have "wp (run_body b) (\<lambda>_. unpublished (tx_enter w)) (\<lambda>_. unpublished (tx_enter w)) (tx_enter w)"
    by (rule Nested_transaction.IH(1)) simp
  moreover have "unpublished w (tx_leave w')" if "unpublished (tx_enter w) w'" for w'
    using that by (simp add: unpublished_def)
  ultimately show ?case
    using Nested_transaction.prems by (simp add: wp_bindM wp_transaction) (erule wp_mono; simp)
next
  case (Handle_error b h)
  have "wp (run_body (h e)) (\<lambda>_. unpublished w) (\<lambda>_. unpublished w) w'" if "unpublished w w'" for e w'
    by (rule unpublished_after [OF _ that], rule Handle_error.IH(2) [OF rangeI])
       (use that Handle_error.prems in \<open>simp add: unpublished_def\<close>)
  then show ?case
    unfolding run_body.simps wp_catchM by (intro wp_mono [OF Handle_error.IH(1) [OF Handle_error.prems]])
next
  case (Read_clock f)
  then show ?case
    by (simp add: wp_rules) (rule unpublished_after, rule Read_clock.IH, simp_all)
next
  case (Draw_id p f)
  then show ?case
    by (simp add: wp_rules) (rule unpublished_after, rule Draw_id.IH, simp_all)
qed (simp_all add: wp_rules)

text \<open>
  C8. A transaction is atomic.  Take any body built from the operations of the connection: reads,
  statements, the clock, identifiers, callbacks, nested transactions and exception
  handlers.  Run outside any other transaction on a settled connection, either it raises, and
  then the tables the connection reads and the committed ones are both what they were
  before, and nobody is notified; or it returns, and then exactly the tables its last statement
  left are committed, and each registered callback notifies its Task once.  When the body ends,
  nothing of it has been committed yet and nobody has been notified.
\<close>

theorem transaction_atomic:
  assumes "settled w" and "transaction_depth w = 0"
  shows "wp (transaction (run_body body))
    (\<lambda>a w'. \<exists>w1. run_body body (tx_enter w) = (Inr a, w1) \<and>
       durable w1 = durable w \<and> notifier_versions w1 = notifier_versions w \<and>
       conn w' = conn w1 \<and> durable w' = conn w1 \<and> transaction_depth w' = 0 \<and> after_commit_callbacks w' = [] \<and>
       notifier_versions w' = (\<lambda>k. notifier_versions w k + count_list (after_commit_callbacks w1) k))
    (\<lambda>e w'. (\<exists>w1. run_body body (tx_enter w) = (Inl e, w1)) \<and>
       conn w' = conn w \<and> durable w' = durable w \<and> transaction_depth w' = 0 \<and>
       after_commit_callbacks w' = [] \<and> notifier_versions w' = notifier_versions w) w"
proof -
  obtain r w1 where run: "run_body body (tx_enter w) = (r, w1)" by fastforce
  have "unpublished (tx_enter w) w1"
    using run_body_unpublished [of "tx_enter w" body] by (auto simp: wp_def run split: sum.splits)
  then have "durable w1 = durable w" "transaction_depth w1 = 1" "notifier_versions w1 = notifier_versions w"
    using assms(2) by (simp_all add: unpublished_def)
  then show ?thesis
    using assms
    by (cases r) (simp_all add: wp_def transaction_def run settled_def,
      simp_all add: tx_commit_def tx_rollback_def run_callbacks_versions)
qed

text \<open>A body that writes, writes again in a nested transaction, and then raises.\<close>

theorem transaction_atomic_witness:
  "wp (transaction (run_body (Execute_statement (\<lambda>t. Inr
       (Nested_transaction (Execute_statement (\<lambda>t. Inr (Return_value (0 :: int), t\<lparr>tb_event_seq := 8\<rparr>)))
          (\<lambda>_. Raise_error (KeyError ''x'')), t\<lparr>tb_event_seq := 7\<rparr>)))))
     (\<lambda>_ _. False) (\<lambda>e w'. conn w' = empty_tables \<and> durable w' = empty_tables)
     (init_world (\<lambda>_. 0) (\<lambda>_. []))"
  by (rule wp_mono [OF transaction_atomic])
     (auto simp: init_world_def settled_def bindM_def execute_def raiseM_def transaction_def returnM_def)

end
