(* ===== verification/Samples.thy ===== *)
theory Samples
  imports Storage
begin

text \<open>
  A concrete database the witnesses of the component theories evaluate: a Context
  with one user Message whose ingress is in progress, and one local Task that
  has been queued with its initial command.
\<close>


definition sample_context :: context_record where
  "sample_context = \<lparr>c_context_id = ''ctx'', c_title = None, c_metadata = [],
     c_next_message_sequence = 2, c_created_at = 0, c_updated_at = 0\<rparr>"

definition sample_message :: message_record where
  "sample_message = \<lparr>m_message_id = ''msg'', m_context_id = ''ctx'', m_role = USER,
     m_parts = [PDict [(''text'', PStr ''hi'')]], m_task_id = None, m_metadata = [],
     m_created_at = 0, m_context_sequence = 1\<rparr>"

definition sample_task :: task_record where
  "sample_task = \<lparr>t_task_id = ''task'', t_context_id = ''ctx'', t_status = QUEUED,
     t_input_message_id = ''msg'', t_input_context_sequence = 1, t_output_message_id = None,
     t_runtime_thread_id = ''thread'', t_assigned_agent_id = None, t_retry_of_task_id = None,
     t_attempt = 1, t_model = None, t_max_loops = None, t_mcp = None, t_error_code = None,
     t_error_message = None, t_error_retryable = False, t_lifecycle_revision = 2,
     t_created_at = 0, t_updated_at = 0\<rparr>"

definition sample_event :: "int \<Rightarrow> string \<Rightarrow> task_status \<Rightarrow> task_event_record" where
  "sample_event n type status = \<lparr>e_event_id = n, e_task_id = ''task'', e_type = type,
     e_status = Some status, e_lifecycle_revision = n, e_payload = [], e_created_at = 0\<rparr>"

definition sample_ingress :: message_ingress_record where
  "sample_ingress = \<lparr>i_message_id = ''msg'', i_context_id = ''ctx'', i_request_fingerprint = ''fp'',
     i_state = IN_PROGRESS, i_route_decision_id = None, i_outcome_kind = None, i_outcome_id = None,
     i_error_code = None, i_error_message = None, i_error_http_status = None,
     i_error_retryable = False, i_created_at = 0, i_updated_at = 0\<rparr>"

definition sample_tables :: tables where
  "sample_tables = empty_tables\<lparr>tb_contexts := [sample_context], tb_messages := [sample_message],
     tb_tasks := [sample_task],
     tb_task_events := [sample_event 1 ''task_created'' CREATED, sample_event 2 ''task_queued'' QUEUED],
     tb_event_seq := 2,
     tb_message_ingress := [sample_ingress],
     tb_queued_executions := [\<lparr>q_task_id = ''task'', q_kind = ''initial'',
       q_runtime_thread_id = ''thread'', q_command_version = 1, q_payload = Some (PDict []),
       q_created_at = 0\<rparr>]\<rparr>"

definition world_of :: "tables \<Rightarrow> world" where
  "world_of t = (init_world (\<lambda>_. 1) (\<lambda>n. str_nat n))\<lparr>conn := t, durable := t\<rparr>"

lemma world_of_simps [simp]:
  "conn (world_of t) = t" "durable (world_of t) = t" "transaction_depth (world_of t) = 0"
  "settled (world_of t)" "clock (world_of t) n = 1" "clock_reads (world_of t) = 0"
  "uuid_hex (world_of t) n = str_nat n" "uuid_reads (world_of t) = 0"
  by (simp_all add: world_of_def init_world_def settled_def)

lemmas sample_defs = sample_tables_def empty_tables_def sample_context_def sample_message_def
  sample_task_def sample_event_def sample_ingress_def

end
