(* ===== verification/Store_Messages.thy ===== *)
theory Store_Messages
  imports Samples "HOL-Library.Product_Lexorder"
begin

text \<open>
  Contexts, Messages, Message ingress and route decisions of
  \<open>MainAgentStore\<close> (\<open>main_agent/store.py\<close>).  Every public method is one
  definition that follows the method statement by statement; a SQL query is the
  corresponding expression over the tables, an optional argument the code
  defaults is an explicit argument here.

  The lemmas show that sequence numbers inside a Context are allocated without
  gaps being reused, that appending a Message is idempotent, and that a Message
  ingress is created once and ends once.
\<close>

section \<open>Paging\<close>

text \<open>\<open>LIMIT ? OFFSET ?\<close>; without a limit every row is returned.\<close>

definition page :: "int option \<Rightarrow> int \<Rightarrow> 'a list \<Rightarrow> 'a list" where
  "page limit offset xs =
     (case limit of None \<Rightarrow> xs | Some n \<Rightarrow> take (nat n) (drop (nat offset) xs))"

text \<open>The checks the \<open>list_context_...\<close> methods share, with their message prefix.\<close>

definition check_page :: "string \<Rightarrow> int option \<Rightarrow> int \<Rightarrow> unit py" where
  "check_page what limit offset =
     bindM (raise_if (case limit of None \<Rightarrow> False | Some n \<Rightarrow> n < 1)
              (ValueError (what @ '' limit must be positive''))) (\<lambda>_.
     bindM (raise_if (offset < 0)
              (ValueError (what @ '' offset must not be negative''))) (\<lambda>_.
     raise_if (offset \<noteq> 0 \<and> limit = None)
              (ValueError (what @ '' offset requires a limit''))))"

text \<open>The newest rows first are paged, then put back in ascending order.\<close>

definition newest_page :: "int option \<Rightarrow> int \<Rightarrow> 'a list \<Rightarrow> 'a list" where
  "newest_page limit offset asc =
     (case limit of None \<Rightarrow> asc | Some n \<Rightarrow> rev (page limit offset (rev asc)))"

section \<open>Contexts\<close>

definition get_context :: "string \<Rightarrow> context_record option py" where
  "get_context context_id = query (\<lambda>t. fetch c_context_id context_id (tb_contexts t))"

definition create_context :: "string \<Rightarrow> string option \<Rightarrow> pydict \<Rightarrow> context_record py" where
  "create_context context_id title metadata =
     bindM utc_now (\<lambda>now.
     bindM (liftE (dumps_dict metadata)) (\<lambda>meta.
     bindM (execute (insert_context_row
       \<lparr>c_context_id = context_id, c_title = title, c_metadata = meta,
        c_next_message_sequence = 1, c_created_at = now, c_updated_at = now\<rparr>)) (\<lambda>_.
     bindM (get_context context_id) (\<lambda>record.
     require_some record (RuntimeError (''failed to create context: '' @ context_id))))))"

definition list_contexts :: "int option \<Rightarrow> int \<Rightarrow> context_record list py" where
  "list_contexts limit offset =
     bindM (raise_if (case limit of None \<Rightarrow> False | Some n \<Rightarrow> n < 1)
              (ValueError ''context list limit must be positive'')) (\<lambda>_.
     bindM (raise_if (offset < 0)
              (ValueError ''context list offset must not be negative'')) (\<lambda>_.
     query (\<lambda>t. let rows = rev (sort_key (\<lambda>c. (c_updated_at c, c_context_id c)) (tb_contexts t)) in
       case limit of
         Some n \<Rightarrow> take (nat n) (drop (nat offset) rows)
       | None \<Rightarrow> drop (nat offset) rows)))"

definition touch_context :: "string \<Rightarrow> unit py" where
  "touch_context context_id =
     bindM utc_now (\<lambda>now.
     update_tables (\<lambda>t. t\<lparr>tb_contexts :=
       set_where (\<lambda>c. c_context_id c = context_id) (\<lambda>c. c\<lparr>c_updated_at := now\<rparr>) (tb_contexts t)\<rparr>))"

definition update_context_title :: "string \<Rightarrow> string option \<Rightarrow> context_record option py" where
  "update_context_title context_id title =
     bindM (update_tables (\<lambda>t. t\<lparr>tb_contexts :=
       set_where (\<lambda>c. c_context_id c = context_id) (\<lambda>c. c\<lparr>c_title := title\<rparr>) (tb_contexts t)\<rparr>)) (\<lambda>_.
     get_context context_id)"

section \<open>Messages\<close>

definition get_message :: "string \<Rightarrow> message_record option py" where
  "get_message message_id = query (\<lambda>t. fetch m_message_id message_id (tb_messages t))"

text \<open>The \<open>UPDATE contexts SET next_message_sequence=next_message_sequence + 1\<close> of
  \<open>append_message\<close>, with the row count it reports.\<close>

definition bump_message_sequence :: "string \<Rightarrow> timestamp \<Rightarrow> nat statement" where
  "bump_message_sequence context_id now t =
     Inr (count_where (\<lambda>c. c_context_id c = context_id) (tb_contexts t),
          t\<lparr>tb_contexts := set_where (\<lambda>c. c_context_id c = context_id)
             (\<lambda>c. c\<lparr>c_next_message_sequence := c_next_message_sequence c + 1,
                    c_updated_at := now\<rparr>) (tb_contexts t)\<rparr>)"

definition append_new_message ::
  "string \<Rightarrow> string \<Rightarrow> message_role \<Rightarrow> pyval list \<Rightarrow> string option \<Rightarrow> pydict \<Rightarrow> message_record py" where
  "append_new_message message_id context_id role parts task_id metadata =
     bindM utc_now (\<lambda>now.
     bindM (execute (bump_message_sequence context_id now)) (\<lambda>rowcount.
     bindM (raise_if (rowcount \<noteq> 1) (ValueError (''unknown context: '' @ context_id))) (\<lambda>_.
     bindM (query (\<lambda>t. fetch c_context_id context_id (tb_contexts t))) (\<lambda>rows.
     bindM (require_some rows (IndexError ''list index out of range'')) (\<lambda>c.
     bindM (liftE (dumps_list parts)) (\<lambda>ps.
     bindM (liftE (dumps_dict metadata)) (\<lambda>meta.
     bindM (execute (insert_message_row
       \<lparr>m_message_id = message_id, m_context_id = context_id, m_role = role, m_parts = ps,
        m_task_id = task_id, m_metadata = meta, m_created_at = now,
        m_context_sequence = c_next_message_sequence c - 1\<rparr>)) (\<lambda>_.
     bindM (get_message message_id) (\<lambda>record.
     require_some record (RuntimeError (''failed to append message: '' @ message_id)))))))))))"

definition append_message ::
  "string \<Rightarrow> string \<Rightarrow> message_role \<Rightarrow> pyval list \<Rightarrow> string option \<Rightarrow> pydict \<Rightarrow> message_record py" where
  "append_message message_id context_id role parts task_id metadata = transaction (
     bindM (get_context context_id) (\<lambda>ctx.
     bindM (raise_if (ctx = None) (ValueError (''unknown context: '' @ context_id))) (\<lambda>_.
     bindM (get_message message_id) (\<lambda>existing.
     case existing of
       Some m \<Rightarrow>
         if m_context_id m = context_id \<and> m_role m = role \<and>
            py_eq (PList (m_parts m)) (PList parts) \<and> m_task_id m = task_id
         then returnM m
         else raiseM (ValueError (''message conflict: '' @ message_id))
     | None \<Rightarrow> append_new_message message_id context_id role parts task_id metadata))))"

definition list_context_messages ::
  "string \<Rightarrow> int option \<Rightarrow> int \<Rightarrow> int option \<Rightarrow> message_record list py" where
  "list_context_messages context_id limit offset through_sequence =
     bindM (check_page ''context message'' limit offset) (\<lambda>_.
     query (\<lambda>t. newest_page limit offset (sort_key m_context_sequence
       (filter (\<lambda>m. m_context_id m = context_id \<and>
          (case through_sequence of None \<Rightarrow> True | Some n \<Rightarrow> m_context_sequence m \<le> n))
        (tb_messages t)))))"

text \<open>\<open>first_user_messages_by_context\<close>: for each requested Context its earliest user
  Message, as the entries of the returned dictionary.\<close>

definition first_user_messages_by_context ::
  "string list \<Rightarrow> (string \<times> message_record) list py" where
  "first_user_messages_by_context context_ids =
     (if context_ids = [] then returnM []
      else query (\<lambda>t.
        map (\<lambda>m. (m_context_id m, m))
          (filter (\<lambda>m. m_role m = USER \<and> m_context_id m \<in> set context_ids \<and>
             list_all (\<lambda>x. m_context_id x = m_context_id m \<and> m_role x = USER \<longrightarrow>
                m_context_sequence m \<le> m_context_sequence x) (tb_messages t)) (tb_messages t))))"

section \<open>Route decisions\<close>

definition get_route_decision :: "string \<Rightarrow> route_decision_record option py" where
  "get_route_decision decision_id =
     query (\<lambda>t. fetch r_decision_id decision_id (tb_route_decisions t))"

definition record_route_decision ::
  "string \<Rightarrow> string \<Rightarrow> string \<Rightarrow> route_decision_kind \<Rightarrow> string \<Rightarrow> string option \<Rightarrow>
   pyfloat option \<Rightarrow> pydict \<Rightarrow> route_decision_record py" where
  "record_route_decision decision_id context_id message_id kind reason target_agent_id confidence
     metadata =
     bindM (get_message message_id) (\<lambda>m.
     bindM (raise_if (m = None) (ValueError (''unknown message: '' @ message_id))) (\<lambda>_.
     bindM utc_now (\<lambda>now.
     bindM (liftE (dumps_dict metadata)) (\<lambda>meta.
     bindM (execute (insert_route_decision_row
       \<lparr>r_decision_id = decision_id, r_context_id = context_id, r_message_id = message_id,
        r_kind = kind, r_target_agent_id = target_agent_id, r_reason = reason,
        r_confidence = confidence, r_metadata = meta, r_created_at = now\<rparr>)) (\<lambda>_.
     bindM (get_route_decision decision_id) (\<lambda>record.
     require_some record
       (RuntimeError (''failed to record route decision: '' @ decision_id))))))))"

definition get_route_decision_by_message_id :: "string \<Rightarrow> route_decision_record option py" where
  "get_route_decision_by_message_id message_id =
     query (\<lambda>t. case sort_key r_created_at
         (filter (\<lambda>r. r_message_id r = message_id) (tb_route_decisions t)) of
       [] \<Rightarrow> None | r # _ \<Rightarrow> Some r)"

definition list_context_route_decisions ::
  "string \<Rightarrow> int option \<Rightarrow> int \<Rightarrow> route_decision_record list py" where
  "list_context_route_decisions context_id limit offset =
     bindM (check_page ''route decision'' limit offset) (\<lambda>_.
     query (\<lambda>t. newest_page limit offset (sort_key (\<lambda>r. (r_created_at r, r_decision_id r))
       (filter (\<lambda>r. r_context_id r = context_id) (tb_route_decisions t)))))"

section \<open>Message ingress\<close>

definition get_message_ingress :: "string \<Rightarrow> message_ingress_record option py" where
  "get_message_ingress message_id =
     query (\<lambda>t. fetch i_message_id message_id (tb_message_ingress t))"

definition reserve_message_ingress ::
  "string \<Rightarrow> string \<Rightarrow> string \<Rightarrow> (message_ingress_record \<times> bool) py" where
  "reserve_message_ingress message_id context_id request_fingerprint =
     bindM (get_context context_id) (\<lambda>ctx.
     bindM (raise_if (ctx = None) (ValueError (''unknown context: '' @ context_id))) (\<lambda>_.
     bindM (get_message message_id) (\<lambda>msg.
     bindM (require_some msg (ValueError (''unknown message: '' @ message_id))) (\<lambda>message.
     bindM (raise_if (m_context_id message \<noteq> context_id)
              (ValueError (''message context mismatch: '' @ message_id))) (\<lambda>_.
     bindM utc_now (\<lambda>now.
     bindM (execute (insert_ingress_or_ignore
       \<lparr>i_message_id = message_id, i_context_id = context_id,
        i_request_fingerprint = request_fingerprint, i_state = IN_PROGRESS,
        i_route_decision_id = None, i_outcome_kind = None, i_outcome_id = None,
        i_error_code = None, i_error_message = None, i_error_http_status = None,
        i_error_retryable = False, i_created_at = now, i_updated_at = now\<rparr>)) (\<lambda>rowcount.
     bindM (get_message_ingress message_id) (\<lambda>record.
     bindM (require_some record
              (RuntimeError (''failed to reserve message ingress: '' @ message_id))) (\<lambda>r.
     returnM (r, rowcount > 0))))))))))"

text \<open>Every change of an ingress row is an \<open>UPDATE ... WHERE message_id=? AND
  state='in_progress'\<close>; \<open>refs\<close> is the foreign-key condition of the new row.\<close>

definition update_in_progress ::
  "string \<Rightarrow> (tables \<Rightarrow> bool) \<Rightarrow> (message_ingress_record \<Rightarrow> message_ingress_record) \<Rightarrow> nat statement" where
  "update_in_progress message_id refs f t =
     (let P = (\<lambda>r. i_message_id r = message_id \<and> i_state r = IN_PROGRESS);
          n = count_where P (tb_message_ingress t)
      in if n > 0 \<and> \<not> refs t then Inl foreign_key_failed
         else Inr (n, t\<lparr>tb_message_ingress := set_where P f (tb_message_ingress t)\<rparr>))"

definition ingress_failed_row ::
  "string \<Rightarrow> string \<Rightarrow> int \<Rightarrow> bool \<Rightarrow> timestamp \<Rightarrow> message_ingress_record \<Rightarrow> message_ingress_record" where
  "ingress_failed_row error_code error_message error_http_status retryable now r =
     r\<lparr>i_state := INGRESS_FAILED, i_error_code := Some error_code,
       i_error_message := Some error_message, i_error_http_status := Some error_http_status,
       i_error_retryable := retryable, i_updated_at := now\<rparr>"

definition set_message_ingress_route_decision ::
  "string \<Rightarrow> string \<Rightarrow> message_ingress_record py" where
  "set_message_ingress_route_decision message_id route_decision_id =
     bindM (get_route_decision route_decision_id) (\<lambda>d.
     bindM (raise_if (d = None) (ValueError (''unknown route decision: '' @ route_decision_id))) (\<lambda>_.
     bindM utc_now (\<lambda>now.
     bindM (execute (update_in_progress message_id (\<lambda>t. has_decision t route_decision_id)
       (\<lambda>r. r\<lparr>i_route_decision_id := Some route_decision_id, i_updated_at := now\<rparr>))) (\<lambda>rowcount.
     bindM (raise_if (rowcount = 0)
              (ValueError (''message ingress is not in progress: '' @ message_id))) (\<lambda>_.
     bindM (get_message_ingress message_id) (\<lambda>record.
     require_some record
       (RuntimeError (''failed to update message ingress route: '' @ message_id))))))))"

definition resolve_message_ingress ::
  "string \<Rightarrow> message_ingress_outcome_kind \<Rightarrow> string \<Rightarrow> message_ingress_record py" where
  "resolve_message_ingress message_id outcome_kind outcome_id =
     bindM utc_now (\<lambda>now.
     bindM (execute (update_in_progress message_id (\<lambda>t. True)
       (\<lambda>r. r\<lparr>i_state := RESOLVED, i_outcome_kind := Some outcome_kind,
              i_outcome_id := Some outcome_id, i_error_code := None, i_error_message := None,
              i_error_http_status := None, i_error_retryable := False, i_updated_at := now\<rparr>))) (\<lambda>rowcount.
     bindM (raise_if (rowcount = 0)
              (ValueError (''message ingress is not in progress: '' @ message_id))) (\<lambda>_.
     bindM (get_message_ingress message_id) (\<lambda>record.
     require_some record
       (RuntimeError (''failed to resolve message ingress: '' @ message_id))))))"

definition fail_message_ingress ::
  "string \<Rightarrow> string \<Rightarrow> string \<Rightarrow> int \<Rightarrow> bool \<Rightarrow> message_ingress_record py" where
  "fail_message_ingress message_id error_code error_message error_http_status retryable =
     bindM utc_now (\<lambda>now.
     bindM (execute (update_in_progress message_id (\<lambda>t. True)
       (ingress_failed_row error_code error_message error_http_status retryable now))) (\<lambda>rowcount.
     bindM (get_message_ingress message_id) (\<lambda>record.
     if rowcount = 0
     then require_some record (ValueError (''unknown message ingress: '' @ message_id))
     else require_some record
       (RuntimeError (''failed to record message ingress failure: '' @ message_id)))))"

definition list_failed_message_ingresses ::
  "string \<Rightarrow> string list option \<Rightarrow> message_ingress_record list py" where
  "list_failed_message_ingresses context_id message_ids =
     (if message_ids = Some [] then returnM []
      else query (\<lambda>t. sort_key (\<lambda>r. (i_updated_at r, i_message_id r))
        (filter (\<lambda>r. i_context_id r = context_id \<and> i_state r = INGRESS_FAILED \<and>
           (case message_ids of None \<Rightarrow> True | Some ids \<Rightarrow> i_message_id r \<in> set ids))
         (tb_message_ingress t))))"

text \<open>The body of the recovery loop: one ingress, and its id when a row changed.\<close>

definition fail_one_in_progress :: "string \<Rightarrow> string \<Rightarrow> int \<Rightarrow> bool \<Rightarrow> string \<Rightarrow> string list py" where
  "fail_one_in_progress error_code error_message error_http_status retryable message_id =
     bindM utc_now (\<lambda>now.
     bindM (execute (update_in_progress message_id (\<lambda>t. True)
       (ingress_failed_row error_code error_message error_http_status retryable now))) (\<lambda>rowcount.
     returnM (if rowcount = 1 then [message_id] else [])))"

definition fail_in_progress_message_ingresses ::
  "string \<Rightarrow> string \<Rightarrow> int \<Rightarrow> bool \<Rightarrow> string list py" where
  "fail_in_progress_message_ingresses error_code error_message error_http_status retryable = transaction (
     bindM (query (\<lambda>t. map i_message_id (sort_key (\<lambda>r. (i_created_at r, i_message_id r))
              (filter (\<lambda>r. i_state r = IN_PROGRESS) (tb_message_ingress t))))) (\<lambda>ids.
     bindM (forM ids (fail_one_in_progress error_code error_message error_http_status retryable)) (\<lambda>failed.
     returnM (concat failed))))"

section \<open>Sequence numbers\<close>

text \<open>
  \<open>seq_inv\<close>: Message and Context keys are unique, every Message belongs to a
  stored Context, and the sequence numbers used inside a Context are positive,
  below the Context's next number and pairwise different.
\<close>

definition seq_inv :: "tables \<Rightarrow> bool" where
  "seq_inv t \<longleftrightarrow>
     distinct (map c_context_id (tb_contexts t)) \<and>
     distinct (map m_message_id (tb_messages t)) \<and>
     distinct (map (\<lambda>m. (m_context_id m, m_context_sequence m)) (tb_messages t)) \<and>
     (\<forall>c \<in> set (tb_contexts t). 1 \<le> c_next_message_sequence c) \<and>
     (\<forall>m \<in> set (tb_messages t). 1 \<le> m_context_sequence m \<and>
        (\<exists>c. fetch c_context_id (m_context_id m) (tb_contexts t) = Some c \<and>
             m_context_sequence m < c_next_message_sequence c))"

lemma seq_inv_frame:
  "tb_contexts t' = tb_contexts t \<Longrightarrow> tb_messages t' = tb_messages t \<Longrightarrow> seq_inv t' = seq_inv t"
  by (simp add: seq_inv_def)

lemma seq_inv_set_contexts:
  assumes "seq_inv t" and "\<And>c. c_context_id (f c) = c_context_id c"
    and "\<And>c. c_next_message_sequence c \<le> c_next_message_sequence (f c)"
  shows "seq_inv (t\<lparr>tb_contexts := set_where (\<lambda>c. c_context_id c = k) f (tb_contexts t)\<rparr>)"
proof -
  have "\<exists>d. fetch c_context_id j (set_where (\<lambda>c. c_context_id c = k) f (tb_contexts t)) = Some d \<and>
      n < c_next_message_sequence d"
    if "fetch c_context_id j (tb_contexts t) = Some c" and "n < c_next_message_sequence c" for j c n
    using that assms(2,3) by (auto simp: table_simps intro: less_le_trans)
  moreover have "1 \<le> c_next_message_sequence (f c)" if "1 \<le> c_next_message_sequence c" for c
    using that assms(3) [of c] by simp
  ultimately show ?thesis
    using assms(1,2) unfolding seq_inv_def
    by (simp add: map_key_set_where ball_set_where) blast
qed

lemma seq_inv_insert_message:
  assumes "seq_inv t"
    and "fetch c_context_id (m_context_id r) (tb_contexts t) = Some c"
    and "1 \<le> m_context_sequence r" "m_context_sequence r < c_next_message_sequence c"
    and "insert_message_row r t = Inr (u, t')"
  shows "seq_inv t'"
  using assms
  by (auto simp: seq_inv_def insert_message_row_def guarded_Inr has_message_def fetch_None_notin
      list_ex_iff split: if_splits)

lemma seq_inv_next_message:
  assumes "seq_inv t" and "fetch c_context_id context_id (tb_contexts t) = Some c"
    and "insert_message_row r (t\<lparr>tb_contexts := set_where (\<lambda>c. c_context_id c = context_id)
           (\<lambda>c. c\<lparr>c_next_message_sequence := c_next_message_sequence c + 1, c_updated_at := now\<rparr>)
           (tb_contexts t)\<rparr>) = Inr ((), t')"
    and "m_context_id r = context_id" "m_context_sequence r = c_next_message_sequence c"
  shows "seq_inv t'"
proof -
  let ?f = "\<lambda>c. c\<lparr>c_next_message_sequence := c_next_message_sequence c + 1, c_updated_at := now\<rparr>"
  have "1 \<le> c_next_message_sequence c"
    using assms(1) fetch_SomeD [OF assms(2)] by (auto simp: seq_inv_def)
  then show ?thesis
    using assms(2-)
    by (intro seq_inv_insert_message [OF seq_inv_set_contexts [OF assms(1), where f = ?f]])
       (auto simp: table_simps)
qed
lemma append_new_message_seq_inv:
  assumes "seq_inv (conn w)" and "tx_post seq_inv w w" and "0 < transaction_depth w"
  shows "wp (append_new_message message_id context_id role parts task_id metadata)
     (\<lambda>a w'. tx_post seq_inv w w' \<and> seq_inv (conn w')) (\<lambda>e. tx_post seq_inv w) w"
  using assms 
  by (auto simp: append_new_message_def wp_rules bump_message_sequence_def get_message_def table_simps
      split: option.splits sum.splits intro: seq_inv_next_message)

lemma append_message_seq_inv:
  "tx_keeps seq_inv (append_message message_id context_id role parts task_id metadata)"
  unfolding append_message_def
  by (rule tx_transaction_wp)
     (auto simp: wp_rules get_context_def get_message_def tx_post_refl append_new_message_seq_inv
       split: option.splits)


lemma seq_inv_new_context:
  assumes "seq_inv t" and "\<not> has_context t (c_context_id r)" and "1 \<le> c_next_message_sequence r"
  shows "seq_inv (t\<lparr>tb_contexts := tb_contexts t @ [r]\<rparr>)"
proof -
  have "c_context_id r \<notin> c_context_id ` set (tb_contexts t)"
    using assms(2) by (simp add: has_context_def fetch_None_notin)
  moreover have "\<exists>d. fetch c_context_id k (tb_contexts t @ [r]) = Some d \<and> n < c_next_message_sequence d"
    if "\<exists>d. fetch c_context_id k (tb_contexts t) = Some d \<and> n < c_next_message_sequence d" for k n
    using that by auto
  ultimately show ?thesis
    using assms(1,3) by (auto simp: seq_inv_def)
qed

lemma create_context_seq_inv: "tx_keeps seq_inv (create_context cid title md)"
  unfolding create_context_def get_context_def insert_context_row_def
  by (intro tx_intros stmt_keeps_guarded)
     (auto intro!: seq_inv_new_context split: if_splits)

lemma touch_context_seq_inv: "tx_keeps seq_inv (touch_context cid)"
  unfolding touch_context_def
  by (intro tx_intros seq_inv_set_contexts) auto

lemma update_context_title_seq_inv: "tx_keeps seq_inv (update_context_title cid title)"
  unfolding update_context_title_def get_context_def
  by (intro tx_intros seq_inv_set_contexts) auto

text \<open>
  Appending a new Message to a stored Context succeeds for JSON content: the
  record returned carries the Context's next sequence number, it is the one row
  added to the Message table, and the Context's counter moves on by one; no other
  table changes.
\<close>

theorem append_message_new:
  assumes "seq_inv (conn w)"
    and "fetch c_context_id context_id (tb_contexts (conn w)) = Some c"
    and "fetch m_message_id message_id (tb_messages (conn w)) = None"
    and "dumps_list parts = Inr ps" and "dumps_dict metadata = Inr meta"
  shows "wp (append_message message_id context_id role parts task_id metadata)
    (\<lambda>r w'. r = \<lparr>m_message_id = message_id, m_context_id = context_id, m_role = role, m_parts = ps,
        m_task_id = task_id, m_metadata = meta, m_created_at = clock w (clock_reads w),
        m_context_sequence = c_next_message_sequence c\<rparr> \<and>
      conn w' = (conn w)\<lparr>tb_messages := tb_messages (conn w) @ [r],
         tb_contexts := set_where (\<lambda>x. c_context_id x = context_id)
          (\<lambda>c. c\<lparr>c_next_message_sequence := c_next_message_sequence c + 1, c_updated_at := clock w (clock_reads w)\<rparr>)
           (tb_contexts (conn w))\<rparr>)
    (\<lambda>e w'. False) w"
proof -
  have one: "count_where (\<lambda>c. c_context_id c = context_id) (tb_contexts (conn w)) = Suc 0"
    using assms(1,2) by (simp add: seq_inv_def count_where_distinct)
  have fresh: "m_context_sequence m \<noteq> c_next_message_sequence c" if "m \<in> set (tb_messages (conn w))" "m_context_id m = context_id" for m
    using assms(1,2) that by (auto simp: seq_inv_def)
  show ?thesis
   using assms fresh
   by (auto simp: append_message_def append_new_message_def wp_rules get_context_def get_message_def
     bump_message_sequence_def table_simps one insert_message_row_def guarded_def has_message_def
     has_context_def list_ex_iff split: option.splits)
qed

lemma sample_seq_inv: "seq_inv sample_tables"
  by (simp add: seq_inv_def sample_defs table_simps)

theorem append_message_new_witness:
  "wp (append_message ''msg2'' ''ctx'' AGENT [] None []) (\<lambda>r w'. m_context_sequence r = 2)
     (\<lambda>_ _. False) (world_of sample_tables)"
  by (rule wp_mono [OF append_message_new [where c = sample_context and ps = "[]" and meta = "[]"]])
     (simp_all add: sample_seq_inv, simp_all add: sample_defs table_simps dumps_list_def)

section \<open>Replays and conflicts\<close>

lemma append_message_existing:
  assumes "fetch c_context_id context_id (tb_contexts (conn w)) \<noteq> None"
    and "fetch m_message_id message_id (tb_messages (conn w)) = Some m"
    and "settled w"
  shows "wp (append_message message_id context_id role parts task_id metadata)
    (\<lambda>r w'. r = m \<and> m_context_id m = context_id \<and> m_role m = role \<and>
       py_eq (PList (m_parts m)) (PList parts) \<and> m_task_id m = task_id \<and> conn w' = conn w)
    (\<lambda>e w'. e = ValueError (''message conflict: '' @ message_id) \<and> conn w' = conn w \<and>
       \<not> (m_context_id m = context_id \<and> m_role m = role \<and>
          py_eq (PList (m_parts m)) (PList parts) \<and> m_task_id m = task_id)) w"
  using assms by (auto simp: append_message_def wp_rules get_context_def get_message_def settled_def)

section \<open>An ingress is created once and ends once\<close>

text \<open>\<open>ingress_is k r\<close>: the ingress row of Message \<open>k\<close> is \<open>r\<close>.\<close>

definition ingress_is :: "string \<Rightarrow> message_ingress_record \<Rightarrow> tables \<Rightarrow> bool" where
  "ingress_is k r t \<longleftrightarrow> fetch i_message_id k (tb_message_ingress t) = Some r"

lemma ingress_is_frame:
  "tb_message_ingress t' = tb_message_ingress t \<Longrightarrow> ingress_is k r t' = ingress_is k r t"
  by (simp add: ingress_is_def)

lemma update_in_progress_final:
  assumes "i_state r \<noteq> IN_PROGRESS" and "\<And>x. i_message_id (f x) = i_message_id x"
  shows "stmt_keeps (ingress_is k r) (update_in_progress m refs f)"
  using assms by (auto simp: stmt_keeps_def update_in_progress_def ingress_is_def Let_def
      fetch_set_where split: if_splits)

lemma insert_ingress_final: "stmt_keeps (ingress_is k r) (insert_ingress_or_ignore x)"
  by (auto simp: stmt_keeps_def insert_ingress_or_ignore_def ingress_is_def guarded_Inr
      split: if_splits)

lemma insert_decision_ingress: "stmt_keeps (ingress_is k r) (insert_route_decision_row x)"
  unfolding insert_route_decision_row_def
  by (rule stmt_keeps_guarded) (simp add: ingress_is_def)

lemmas ingress_final_intros =
  update_in_progress_final insert_ingress_final insert_decision_ingress

lemma ingress_ops_final:
  assumes "i_state r \<noteq> IN_PROGRESS"
  shows "tx_keeps (ingress_is k r) (reserve_message_ingress m c fp)"
    and "tx_keeps (ingress_is k r) (set_message_ingress_route_decision m d)"
    and "tx_keeps (ingress_is k r) (resolve_message_ingress m ok oid)"
    and "tx_keeps (ingress_is k r) (fail_message_ingress m ec em hs rt)"
    and "tx_keeps (ingress_is k r) (fail_in_progress_message_ingresses ec em hs rt)"
    and "tx_keeps (ingress_is k r) (record_route_decision did c m rk rs ta cf md)"
  unfolding reserve_message_ingress_def set_message_ingress_route_decision_def
    resolve_message_ingress_def fail_message_ingress_def fail_in_progress_message_ingresses_def
    fail_one_in_progress_def
    record_route_decision_def get_context_def get_message_def get_message_ingress_def
    get_route_decision_def
  by (intro tx_intros ingress_final_intros; simp add: assms ingress_failed_row_def)+

text \<open>
  \<open>ingress_inv\<close>: a Message has at most one ingress, and its outcome and error columns
  agree with the state.
\<close>

definition ingress_row_ok :: "message_ingress_record \<Rightarrow> bool" where
  "ingress_row_ok r \<longleftrightarrow>
     (case i_state r of
        IN_PROGRESS \<Rightarrow> i_outcome_kind r = None \<and> i_outcome_id r = None \<and> i_error_code r = None
      | RESOLVED \<Rightarrow> i_outcome_kind r \<noteq> None \<and> i_outcome_id r \<noteq> None \<and> i_error_code r = None \<and>
          \<not> i_error_retryable r
      | INGRESS_FAILED \<Rightarrow> i_outcome_kind r = None \<and> i_outcome_id r = None \<and>
          i_error_code r \<noteq> None \<and> i_error_message r \<noteq> None \<and> i_error_http_status r \<noteq> None)"

definition ingress_inv :: "tables \<Rightarrow> bool" where
  "ingress_inv t \<longleftrightarrow> distinct (map i_message_id (tb_message_ingress t)) \<and>
     (\<forall>r \<in> set (tb_message_ingress t). ingress_row_ok r)"

lemma update_in_progress_inv:
  assumes "\<And>x. i_state x = IN_PROGRESS \<Longrightarrow> ingress_row_ok x \<Longrightarrow> ingress_row_ok (f x)"
    and "\<And>x. i_message_id (f x) = i_message_id x"
  shows "stmt_keeps ingress_inv (update_in_progress m refs f)"
  using assms by (auto simp: stmt_keeps_def update_in_progress_def ingress_inv_def Let_def
      ball_set_where map_key_set_where split: if_splits)

lemma insert_ingress_inv:
  "ingress_row_ok x \<Longrightarrow> stmt_keeps ingress_inv (insert_ingress_or_ignore x)"
  by (auto simp: stmt_keeps_def insert_ingress_or_ignore_def ingress_inv_def guarded_Inr fetch_None_iff
      split: if_splits)

lemma insert_decision_ingress_inv: "stmt_keeps ingress_inv (insert_route_decision_row x)"
  unfolding insert_route_decision_row_def
  by (rule stmt_keeps_guarded) (simp add: ingress_inv_def)

lemma ingress_ops_inv:
  "tx_keeps ingress_inv (reserve_message_ingress m c fp)"
  "tx_keeps ingress_inv (set_message_ingress_route_decision m d)"
  "tx_keeps ingress_inv (resolve_message_ingress m ok oid)"
  "tx_keeps ingress_inv (fail_message_ingress m ec em hs rt)"
  "tx_keeps ingress_inv (fail_in_progress_message_ingresses ec em hs rt)"
  "tx_keeps ingress_inv (record_route_decision did c m rk rs ta cf md)"
  unfolding reserve_message_ingress_def set_message_ingress_route_decision_def
    resolve_message_ingress_def fail_message_ingress_def fail_in_progress_message_ingresses_def
    fail_one_in_progress_def
    record_route_decision_def get_context_def get_message_def get_message_ingress_def
    get_route_decision_def
  by (intro tx_intros update_in_progress_inv insert_ingress_inv insert_decision_ingress_inv;
      simp add: ingress_row_ok_def ingress_failed_row_def)+

section \<open>Properties of the ingress\<close>

text \<open>
  Reserving the ingress of a Message is first-come, first-served.  For a stored
  Message of a stored Context, the reservation succeeds: the caller that finds no
  ingress row creates one in progress and is told so; every later caller gets the
  stored row, whatever its fingerprint, is told that it is not the owner, and
  changes nothing.
\<close>

theorem reserve_message_ingress_once:
  assumes "fetch m_message_id mid (tb_messages (conn w)) = Some m" and "m_context_id m = c"
    and "has_context (conn w) c"
  shows "wp (reserve_message_ingress mid c fp)
    (\<lambda>(r, created) w'. fetch i_message_id mid (tb_message_ingress (conn w')) = Some r \<and>
       (case fetch i_message_id mid (tb_message_ingress (conn w)) of
          Some old \<Rightarrow> r = old \<and> \<not> created \<and> conn w' = conn w
        | None \<Rightarrow> created \<and> i_state r = IN_PROGRESS \<and> i_request_fingerprint r = fp \<and>
            conn w' = (conn w)\<lparr>tb_message_ingress := tb_message_ingress (conn w) @ [r]\<rparr>))
    (\<lambda>_ _. False) w"
  using assms
  by (auto simp: reserve_message_ingress_def wp_rules get_context_def get_message_def
      get_message_ingress_def has_context_def insert_ingress_or_ignore_def guarded_def
      has_message_def opt_ref_def table_simps split: option.splits)

theorem reserve_message_ingress_once_witness:
  "wp (reserve_message_ingress ''msg'' ''ctx'' ''other'')
     (\<lambda>(r, created) w'. r = sample_ingress \<and> \<not> created \<and> conn w' = sample_tables) (\<lambda>_ _. False)
     (world_of sample_tables)"
  by (rule wp_mono [OF reserve_message_ingress_once [where m = sample_message]])
     (auto simp: sample_defs table_simps has_context_def)

text \<open>
  A Message ingress ends once: after it has been resolved or has failed, no
  ingress operation, for this Message or another, changes any column of its row.
\<close>

theorem ended_ingress_immutable:
  assumes "i_state r \<noteq> IN_PROGRESS"
  shows "tx_keeps (ingress_is k r) (reserve_message_ingress m c fp) \<and>
    tx_keeps (ingress_is k r) (set_message_ingress_route_decision m d) \<and>
    tx_keeps (ingress_is k r) (resolve_message_ingress m ok oid) \<and>
    tx_keeps (ingress_is k r) (fail_message_ingress m ec em hs rt) \<and>
    tx_keeps (ingress_is k r) (fail_in_progress_message_ingresses ec em hs rt) \<and>
    tx_keeps (ingress_is k r) (record_route_decision did c m rk rs ta cf md)"
  using ingress_ops_final [OF assms] by simp

theorem ended_ingress_immutable_witness:
  "ingress_is ''msg'' (sample_ingress\<lparr>i_state := RESOLVED\<rparr>)
     (sample_tables\<lparr>tb_message_ingress := [sample_ingress\<lparr>i_state := RESOLVED\<rparr>]\<rparr>) \<and>
   tx_keeps (ingress_is ''msg'' (sample_ingress\<lparr>i_state := RESOLVED\<rparr>))
     (fail_message_ingress ''msg'' ''internal_error'' ''boom'' 500 False)"
  using ended_ingress_immutable [of "sample_ingress\<lparr>i_state := RESOLVED\<rparr>" "''msg''"]
  by (simp add: ingress_is_def sample_defs table_simps)

definition sweep_rows ::
  "string set \<Rightarrow> string \<Rightarrow> string \<Rightarrow> int \<Rightarrow> bool \<Rightarrow> (message_ingress_record \<Rightarrow> timestamp) \<Rightarrow>
   message_ingress_record list \<Rightarrow> message_ingress_record list" where
  "sweep_rows ids ec em hs rt T = set_where (\<lambda>r. i_message_id r \<in> ids \<and> i_state r = IN_PROGRESS)
     (\<lambda>r. ingress_failed_row ec em hs rt (T r) r)"

lemma sweep_rows_insert:
  "sweep_rows ids ec em hs rt T
     (set_where (\<lambda>r. i_message_id r = a \<and> i_state r = IN_PROGRESS) (ingress_failed_row ec em hs rt now) rows) =
   sweep_rows (insert a ids) ec em hs rt (\<lambda>r. if i_message_id r = a then now else T r) rows"
  by (auto simp: sweep_rows_def set_where_def ingress_failed_row_def)

lemma count_in_progress_one:
  assumes "distinct (map i_message_id rows)" and "r \<in> set rows" "i_state r = IN_PROGRESS"
  shows "count_where (\<lambda>x. i_message_id x = i_message_id r \<and> i_state x = IN_PROGRESS) rows = 1"
proof -
  have "filter (\<lambda>x. i_message_id x = i_message_id r \<and> i_state x = IN_PROGRESS) rows = [r]"
    using assms by (induction rows) (auto simp: filter_empty_conv image_iff)
  then show ?thesis by (simp add: count_where_def)
qed

lemma sweep_loop:
  assumes "distinct ids" and "distinct (map i_message_id (tb_message_ingress (conn w)))"
    and "\<forall>k \<in> set ids. \<exists>r \<in> set (tb_message_ingress (conn w)). i_message_id r = k \<and> i_state r = IN_PROGRESS"
  shows "wp (forM ids (fail_one_in_progress ec em hs rt))
    (\<lambda>fs w'. concat fs = ids \<and> (\<exists>T. conn w' = (conn w)\<lparr>tb_message_ingress :=
       sweep_rows (set ids) ec em hs rt T (tb_message_ingress (conn w))\<rparr>))
    (\<lambda>_ _. False) w"
  using assms
proof (induction ids arbitrary: w)
  case Nil
  then show ?case by (simp add: wp_rules sweep_rows_def set_where_def)
next
  case (Cons a ids)
  let ?now = "clock w (clock_reads w)"
  let ?rows = "set_where (\<lambda>r. i_message_id r = a \<and> i_state r = IN_PROGRESS)
      (ingress_failed_row ec em hs rt ?now) (tb_message_ingress (conn w))"
  let ?w = "write_conn ((conn w)\<lparr>tb_message_ingress := ?rows\<rparr>) (w\<lparr>clock_reads := Suc (clock_reads w)\<rparr>)"
  from Cons.prems(3) obtain r where "r \<in> set (tb_message_ingress (conn w))" "i_message_id r = a"
    "i_state r = IN_PROGRESS" by auto
  then have one: "count_where (\<lambda>r. i_message_id r = a \<and> i_state r = IN_PROGRESS) (tb_message_ingress (conn w)) = 1"
    using count_in_progress_one [OF Cons.prems(2)] by blast
  have "\<exists>r \<in> set ?rows. i_message_id r = k \<and> i_state r = IN_PROGRESS" if k: "k \<in> set ids" for k
  proof -
    have "k \<noteq> a" using k Cons.prems(1) by auto
    with Cons.prems(3) k show ?thesis by (force simp: set_set_where)
  qed
  moreover have "distinct (map i_message_id ?rows)"
    using Cons.prems(2) by (simp add: map_key_set_where ingress_failed_row_def)
  ultimately have "wp (forM ids (fail_one_in_progress ec em hs rt))
    (\<lambda>fs w'. concat fs = ids \<and> (\<exists>T. conn w' = (conn ?w)\<lparr>tb_message_ingress :=
       sweep_rows (set ids) ec em hs rt T (tb_message_ingress (conn ?w))\<rparr>))
    (\<lambda>_ _. False) ?w"
    using Cons.prems(1) by (intro Cons.IH) simp_all
  then show ?case
    using one
    by (auto simp: wp_rules fail_one_in_progress_def [of _ _ _ _ a] update_in_progress_def [of a]
        Let_def sweep_rows_insert elim!: wp_mono)
qed

lemma wp_fail_in_progress:
  assumes "distinct (map i_message_id (tb_message_ingress (conn w)))"
  shows "wp (fail_in_progress_message_ingresses ec em hs rt)
    (\<lambda>ids w'. distinct ids \<and>
       set ids = i_message_id ` {r \<in> set (tb_message_ingress (conn w)). i_state r = IN_PROGRESS} \<and>
       (\<exists>T. conn w' = (conn w)\<lparr>tb_message_ingress :=
          set_where (\<lambda>r. i_state r = IN_PROGRESS) (\<lambda>r. ingress_failed_row ec em hs rt (T r) r)
            (tb_message_ingress (conn w))\<rparr>))
    (\<lambda>_ _. False) w"
proof -
  let ?rows = "tb_message_ingress (conn w)"
  let ?ids = "map i_message_id (sort_key (\<lambda>r. (i_created_at r, i_message_id r))
              (filter (\<lambda>r. i_state r = IN_PROGRESS) ?rows))"
  have "distinct (map i_message_id (filter (\<lambda>r. i_state r = IN_PROGRESS) ?rows))"
    using assms by (simp add: distinct_map_filter)
  then have d: "distinct ?ids"
    by (simp add: distinct_map distinct_sort)
  have s: "set ?ids = i_message_id ` {r \<in> set ?rows. i_state r = IN_PROGRESS}" by simp
  have rows: "sweep_rows (i_message_id ` {r \<in> set ?rows. i_state r = IN_PROGRESS}) ec em hs rt T ?rows =
      set_where (\<lambda>r. i_state r = IN_PROGRESS) (\<lambda>r. ingress_failed_row ec em hs rt (T r) r) ?rows" for T
    by (auto simp: sweep_rows_def set_where_def)
  have loop: "wp (forM ?ids (fail_one_in_progress ec em hs rt))
    (\<lambda>fs w'. concat fs = ?ids \<and> (\<exists>T. conn w' = (conn w)\<lparr>tb_message_ingress :=
       set_where (\<lambda>r. i_state r = IN_PROGRESS) (\<lambda>r. ingress_failed_row ec em hs rt (T r) r) ?rows\<rparr>))
    (\<lambda>_ _. False) (tx_enter w)"
    by (rule wp_mono [OF sweep_loop [OF d, of "tx_enter w"]])
       (use assms s in \<open>auto simp: rows simp del: set_map\<close>)
  have res: "distinct (concat fs) \<and>
      set (concat fs) = i_message_id ` {r \<in> set ?rows. i_state r = IN_PROGRESS} \<and>
      (\<exists>T. t = (conn w)\<lparr>tb_message_ingress := set_where (\<lambda>r. i_state r = IN_PROGRESS)
         (\<lambda>r. ingress_failed_row ec em hs rt (T r) r) ?rows\<rparr>)"
    if "concat fs = ?ids \<and> (\<exists>T. t = (conn w)\<lparr>tb_message_ingress :=
       set_where (\<lambda>r. i_state r = IN_PROGRESS) (\<lambda>r. ingress_failed_row ec em hs rt (T r) r) ?rows\<rparr>)"
    for fs t using that d s by metis
  have c: "conn (tx_enter w) = conn w" by simp
  show ?thesis
    unfolding fail_in_progress_message_ingresses_def wp_transaction wp_bindM wp_query wp_returnM
      c tx_commit_simps tx_leave_simps
    using wp_mono [OF loop res] by simp
qed

text \<open>
  The recovery sweep after a restart.  It never fails: exactly the Messages
  whose ingress was still in progress are returned, each of their rows becomes a
  failed one with the given error, every other row stays what it was, and no other
  table changes.
\<close>

theorem fail_in_progress_sweep:
  assumes "distinct (map i_message_id (tb_message_ingress (conn w)))"
  shows "wp (fail_in_progress_message_ingresses ec em hs rt)
    (\<lambda>ids w'. distinct ids \<and>
       set ids = i_message_id ` {r \<in> set (tb_message_ingress (conn w)). i_state r = IN_PROGRESS} \<and>
       (\<exists>T. conn w' = (conn w)\<lparr>tb_message_ingress :=
          set_where (\<lambda>r. i_state r = IN_PROGRESS) (\<lambda>r. ingress_failed_row ec em hs rt (T r) r)
            (tb_message_ingress (conn w))\<rparr>))
    (\<lambda>_ _. False) w"
  by (rule wp_fail_in_progress [OF assms])

theorem fail_in_progress_sweep_witness:
  "wp (fail_in_progress_message_ingresses ''c'' ''m'' 500 True) (\<lambda>ids w'. set ids = {''msg''})
     (\<lambda>_ _. False) (world_of sample_tables)"
proof -
  have eq: "i_message_id ` {r \<in> set (tb_message_ingress sample_tables). i_state r = IN_PROGRESS} = {''msg''}"
    by (simp add: sample_tables_def sample_ingress_def conj_commute cong: conj_cong)
  have d: "distinct (map i_message_id (tb_message_ingress (conn (world_of sample_tables))))"
    by (simp add: sample_tables_def)
  show ?thesis
    using fail_in_progress_sweep [OF d] unfolding wp_run world_of_simps eq by blast
qed

end
