(* ===== verification/Store_Tasks.thy ===== *)
theory Store_Tasks
  imports Store_Messages
begin

text \<open>
  Tasks, Task events, pending continuations, the durable execution queue and
  artifacts of \<open>MainAgentStore\<close> (\<open>main_agent/store.py\<close>).

  The lemmas show that the lifecycle events of a locally owned Task are exactly
  the transitions its status made, that a queued execution is claimed at most
  once and only together with the transition to \<open>RUNNING\<close>, and that the
  lifecycle revision of a Task never falls.
\<close>

section \<open>Reading\<close>

definition get_task :: "string \<Rightarrow> task_record option py" where
  "get_task task_id = query (\<lambda>t. fetch t_task_id task_id (tb_tasks t))"

definition get_direct_task_retry :: "string \<Rightarrow> task_record option py" where
  "get_direct_task_retry task_id =
     query (\<lambda>t. case sort_key (\<lambda>x. (t_created_at x, t_task_id x))
         (filter (\<lambda>x. t_retry_of_task_id x = Some task_id) (tb_tasks t)) of
       [] \<Rightarrow> None | x # _ \<Rightarrow> Some x)"

definition get_task_by_runtime_thread_id :: "string \<Rightarrow> task_record option py" where
  "get_task_by_runtime_thread_id runtime_thread_id =
     query (\<lambda>t. fetch t_runtime_thread_id runtime_thread_id (tb_tasks t))"

definition list_context_tasks :: "string \<Rightarrow> int option \<Rightarrow> int \<Rightarrow> task_record list py" where
  "list_context_tasks context_id limit offset =
     bindM (check_page ''context task'' limit offset) (\<lambda>_.
     query (\<lambda>t. newest_page limit offset (sort_key (\<lambda>x. (t_created_at x, t_task_id x))
       (filter (\<lambda>x. t_context_id x = context_id) (tb_tasks t)))))"

definition list_local_tasks_by_statuses :: "task_status set \<Rightarrow> task_record list py" where
  "list_local_tasks_by_statuses statuses =
     (if statuses = {} then returnM []
      else query (\<lambda>t. sort_key (\<lambda>x. (t_created_at x, t_task_id x))
        (filter (\<lambda>x. t_assigned_agent_id x = None \<and> t_status x \<in> statuses) (tb_tasks t))))"

definition list_task_input_messages :: "string \<Rightarrow> int \<Rightarrow> message_record list py" where
  "list_task_input_messages task_id limit =
     bindM (get_task task_id) (\<lambda>x.
     bindM (require_some x (ValueError (''unknown task: '' @ task_id))) (\<lambda>task.
     bindM (raise_if (t_input_context_sequence task \<le> 0)
              (RuntimeError (''task input cut is unavailable: '' @ task_id))) (\<lambda>_.
     list_context_messages (t_context_id task) (Some limit) 0 (Some (t_input_context_sequence task)))))"

definition get_task_event :: "int \<Rightarrow> task_event_record option py" where
  "get_task_event event_id = query (\<lambda>t. fetch e_event_id event_id (tb_task_events t))"

definition list_task_events :: "string \<Rightarrow> int \<Rightarrow> task_event_record list py" where
  "list_task_events task_id after_event_id =
     query (\<lambda>t. sort_key e_event_id
       (filter (\<lambda>e. e_task_id e = task_id \<and> after_event_id < e_event_id e) (tb_task_events t)))"

definition get_pending_continuation :: "string \<Rightarrow> pending_continuation_record option py" where
  "get_pending_continuation task_id =
     query (\<lambda>t. fetch p_task_id task_id (tb_pending_continuations t))"

definition get_pending_input_request :: "string \<Rightarrow> pydict option py" where
  "get_pending_input_request task_id =
     bindM (get_task task_id) (\<lambda>x.
     bindM (raise_if (x = None) (ValueError (''unknown task: '' @ task_id))) (\<lambda>_.
     bindM (get_pending_continuation task_id) (\<lambda>record.
     returnM (map_option p_input_request record))))"

definition get_queued_task_execution :: "string \<Rightarrow> queued_task_execution_record option py" where
  "get_queued_task_execution task_id =
     bindM (query (\<lambda>t. fetch q_task_id task_id (tb_queued_executions t))) (\<lambda>row.
     case row of
       None \<Rightarrow> returnM None
     | Some r \<Rightarrow> bindM (liftE (queued_task_execution_from_row r)) (\<lambda>q. returnM (Some q)))"

definition get_artifact :: "string \<Rightarrow> artifact_record option py" where
  "get_artifact artifact_id = query (\<lambda>t. fetch a_artifact_id artifact_id (tb_artifacts t))"

definition list_task_artifacts :: "string \<Rightarrow> artifact_record list py" where
  "list_task_artifacts task_id =
     query (\<lambda>t. sort_key a_created_at (filter (\<lambda>a. a_task_id a = task_id) (tb_artifacts t)))"

section \<open>Changing a Task row\<close>

text \<open>\<open>UPDATE main_agent_tasks SET ... WHERE task_id=?\<close>.\<close>

definition set_task :: "string \<Rightarrow> (task_record \<Rightarrow> task_record) \<Rightarrow> tables \<Rightarrow> tables" where
  "set_task task_id f t = t\<lparr>tb_tasks := set_where (\<lambda>x. t_task_id x = task_id) f (tb_tasks t)\<rparr>"

text \<open>The assignments of the status update that \<open>transition_local_task\<close> and
  \<open>update_task_status\<close> share.\<close>

definition status_row ::
  "task_status \<Rightarrow> string option \<Rightarrow> string option \<Rightarrow> bool \<Rightarrow> timestamp \<Rightarrow> task_record \<Rightarrow> task_record" where
  "status_row status error_code error_message error_retryable now x =
     x\<lparr>t_status := status, t_error_code := error_code, t_error_message := error_message,
       t_error_retryable := error_retryable,
       t_lifecycle_revision := t_lifecycle_revision x + 1, t_updated_at := now\<rparr>"

definition touch_row :: "timestamp \<Rightarrow> task_record \<Rightarrow> task_record" where
  "touch_row now x = x\<lparr>t_lifecycle_revision := t_lifecycle_revision x + 1, t_updated_at := now\<rparr>"

definition output_row :: "string \<Rightarrow> timestamp \<Rightarrow> task_record \<Rightarrow> task_record" where
  "output_row output_message_id now x = (touch_row now x)\<lparr>t_output_message_id := Some output_message_id\<rparr>"

section \<open>Events\<close>

definition append_task_event ::
  "string \<Rightarrow> string \<Rightarrow> task_status option \<Rightarrow> pydict \<Rightarrow> task_event_record py" where
  "append_task_event task_id type status payload =
     bindM (get_task task_id) (\<lambda>x.
     bindM (require_some x (ValueError (''unknown task: '' @ task_id))) (\<lambda>task.
     bindM (liftE (dumps_dict payload)) (\<lambda>pl.
     bindM utc_now (\<lambda>now.
     bindM (execute (insert_task_event_row
       \<lparr>e_event_id = 0, e_task_id = task_id, e_type = type, e_status = status,
        e_lifecycle_revision = t_lifecycle_revision task, e_payload = pl, e_created_at = now\<rparr>)) (\<lambda>lastrowid.
     bindM (get_task_event lastrowid) (\<lambda>rec.
     bindM (require_some rec (RuntimeError (''failed to append task event: '' @ task_id))) (\<lambda>record.
     bindM (register_after_commit task_id) (\<lambda>_.
     returnM record))))))))"

section \<open>Creating Tasks\<close>

definition dumps_opt :: "pydict option \<Rightarrow> exn + pydict option" where
  "dumps_opt d = (case d of None \<Rightarrow> Inr None | Some x \<Rightarrow>
     (case dumps_dict x of Inl e \<Rightarrow> Inl e | Inr y \<Rightarrow> Inr (Some y)))"

definition insert_new_task ::
  "message_record \<Rightarrow> string \<Rightarrow> string \<Rightarrow> string \<Rightarrow> string \<Rightarrow> task_status \<Rightarrow> string option \<Rightarrow>
   string option \<Rightarrow> int \<Rightarrow> pydict option \<Rightarrow> int option \<Rightarrow> pydict option \<Rightarrow> task_record py" where
  "insert_new_task input_message task_id context_id input_message_id runtime_thread_id status
     assigned_agent_id retry_of_task_id attempt model max_loops mcp =
     bindM utc_now (\<lambda>now.
     bindM (liftE (dumps_opt model)) (\<lambda>model'.
     bindM (liftE (dumps_opt mcp)) (\<lambda>mcp'.
     bindM (execute (insert_task_row
       \<lparr>t_task_id = task_id, t_context_id = context_id, t_status = status,
        t_input_message_id = input_message_id,
        t_input_context_sequence = m_context_sequence input_message,
        t_output_message_id = None, t_runtime_thread_id = runtime_thread_id,
        t_assigned_agent_id = assigned_agent_id, t_retry_of_task_id = retry_of_task_id,
        t_attempt = attempt, t_model = model', t_max_loops = max_loops, t_mcp = mcp',
        t_error_code = None, t_error_message = None, t_error_retryable = False,
        t_lifecycle_revision = 1, t_created_at = now, t_updated_at = now\<rparr>)) (\<lambda>_.
     bindM (get_task task_id) (\<lambda>record.
     require_some record (RuntimeError (''failed to create task: '' @ task_id)))))))"

definition create_task ::
  "string \<Rightarrow> string \<Rightarrow> string \<Rightarrow> string \<Rightarrow> task_status \<Rightarrow> string option \<Rightarrow>
   string option \<Rightarrow> int \<Rightarrow> pydict option \<Rightarrow> int option \<Rightarrow> pydict option \<Rightarrow> task_record py" where
  "create_task task_id context_id input_message_id runtime_thread_id status assigned_agent_id
     retry_of_task_id attempt model max_loops mcp =
     bindM (get_message input_message_id) (\<lambda>m.
     bindM (require_some m (ValueError (''unknown input message: '' @ input_message_id))) (\<lambda>input_message.
     bindM (raise_if (m_context_id input_message \<noteq> context_id)
              (ValueError (''input message context mismatch: '' @ input_message_id))) (\<lambda>_.
     bindM (raise_if (m_context_sequence input_message \<le> 0)
              (ValueError (''input message has no context sequence: '' @ input_message_id))) (\<lambda>_.
     insert_new_task input_message task_id context_id input_message_id runtime_thread_id status
       assigned_agent_id retry_of_task_id attempt model max_loops mcp))))"

definition create_local_task ::
  "string \<Rightarrow> string \<Rightarrow> string \<Rightarrow> string \<Rightarrow> string option \<Rightarrow> int \<Rightarrow>
   pydict option \<Rightarrow> int option \<Rightarrow> pydict option \<Rightarrow> task_record py" where
  "create_local_task task_id context_id input_message_id runtime_thread_id retry_of_task_id attempt
     model max_loops mcp = transaction (
     bindM (create_task task_id context_id input_message_id runtime_thread_id CREATED None
              retry_of_task_id attempt model max_loops mcp) (\<lambda>task.
     bindM (append_task_event (t_task_id task) ''task_created'' (Some CREATED) []) (\<lambda>_.
     returnM task)))"

section \<open>Transitions\<close>

definition transition_local_task ::
  "string \<Rightarrow> task_status \<Rightarrow> pydict \<Rightarrow> string option \<Rightarrow> string option \<Rightarrow> bool \<Rightarrow> task_record py" where
  "transition_local_task task_id target_status payload error_code error_message error_retryable =
     transaction (
     bindM (get_task task_id) (\<lambda>x.
     bindM (require_some x (ValueError (''unknown task: '' @ task_id))) (\<lambda>task.
     bindM (raise_if (t_assigned_agent_id task \<noteq> None)
              (ValueError (''remote proxy task cannot use local transition policy: '' @ task_id))) (\<lambda>_.
     bindM (liftE (validate_local_task_transition (t_status task) target_status)) (\<lambda>changed.
     if \<not> changed then returnM task
     else
       bindM (liftE (lifecycle_event_type_for_status target_status)) (\<lambda>event_type.
       bindM utc_now (\<lambda>now.
       bindM (update_tables (set_task task_id
                (status_row target_status error_code error_message error_retryable now))) (\<lambda>_.
       bindM (get_task task_id) (\<lambda>u.
       bindM (require_some u (RuntimeError (''failed to transition task: '' @ task_id))) (\<lambda>updated.
       bindM (append_task_event task_id event_type (Some target_status) payload) (\<lambda>_.
       returnM updated)))))))))))"

definition update_task_status ::
  "string \<Rightarrow> task_status \<Rightarrow> string option \<Rightarrow> string option \<Rightarrow> bool \<Rightarrow> task_record py" where
  "update_task_status task_id status error_code error_message error_retryable = transaction (
     bindM (get_task task_id) (\<lambda>x.
     bindM (require_some x (ValueError (''unknown task: '' @ task_id))) (\<lambda>current.
     if t_status current = status \<and> t_error_code current = error_code \<and>
        t_error_message current = error_message \<and> t_error_retryable current = error_retryable
     then returnM current
     else
       bindM utc_now (\<lambda>now.
       bindM (update_tables (set_task task_id
                (status_row status error_code error_message error_retryable now))) (\<lambda>_.
       bindM (get_task task_id) (\<lambda>u.
       require_some u (RuntimeError (''failed to update task: '' @ task_id))))))))"

text \<open>The update of \<open>set_task_output_message\<close> sets a foreign key.\<close>

definition update_task_output :: "string \<Rightarrow> string \<Rightarrow> timestamp \<Rightarrow> unit statement" where
  "update_task_output task_id output_message_id now = guarded (\<lambda>t. None)
     (\<lambda>t. has_task t task_id \<longrightarrow> has_message t output_message_id)
     (\<lambda>t. ((), set_task task_id (output_row output_message_id now) t))"

definition set_task_output_message :: "string \<Rightarrow> string \<Rightarrow> task_record py" where
  "set_task_output_message task_id output_message_id =
     bindM (get_message output_message_id) (\<lambda>m.
     bindM (raise_if (m = None) (ValueError (''unknown output message: '' @ output_message_id))) (\<lambda>_.
     transaction (
     bindM (get_task task_id) (\<lambda>x.
     bindM (require_some x (ValueError (''unknown task: '' @ task_id))) (\<lambda>current.
     if t_output_message_id current = Some output_message_id then returnM current
     else
       bindM utc_now (\<lambda>now.
       bindM (execute (update_task_output task_id output_message_id now)) (\<lambda>_.
       bindM (get_task task_id) (\<lambda>u.
       require_some u (RuntimeError (''failed to set task output: '' @ task_id))))))))))"

section \<open>Pending continuations\<close>

definition set_pending_continuation :: "string \<Rightarrow> string \<Rightarrow> pydict \<Rightarrow> pending_continuation_record py" where
  "set_pending_continuation task_id kind input_request =
     bindM (get_task task_id) (\<lambda>x.
     bindM (raise_if (x = None) (ValueError (''unknown task: '' @ task_id))) (\<lambda>_.
     bindM (raise_if (kind = '''') (ValueError ''pending continuation kind is required'')) (\<lambda>_.
     bindM utc_now (\<lambda>now.
     bindM (liftE (dumps_dict input_request)) (\<lambda>req.
     bindM (execute (upsert_pending_row
       \<lparr>p_task_id = task_id, p_kind = kind, p_input_request = req, p_created_at = now\<rparr>)) (\<lambda>_.
     bindM (get_pending_continuation task_id) (\<lambda>record.
     require_some record
       (RuntimeError (''failed to persist pending continuation: '' @ task_id)))))))))"

text \<open>A \<open>DELETE\<close> that reports its row count.\<close>

definition delete_pending :: "(pending_continuation_record \<Rightarrow> bool) \<Rightarrow> nat statement" where
  "delete_pending P t = Inr (count_where P (tb_pending_continuations t),
     t\<lparr>tb_pending_continuations := delete_where P (tb_pending_continuations t)\<rparr>)"

definition continuation_label :: "string \<Rightarrow> string" where
  "continuation_label kind = (if kind = ''approval_required'' then ''approval'' else ''general input'')"

definition consume_pending_continuation :: "string \<Rightarrow> string \<Rightarrow> pending_continuation_record py" where
  "consume_pending_continuation task_id expected_kind =
     (let none = ValueError (''task has no pending '' @ expected_kind @ '' request: '' @ task_id) in
     bindM (get_pending_continuation task_id) (\<lambda>r.
     bindM (require_some r none) (\<lambda>record.
     bindM (raise_if (p_kind record \<noteq> expected_kind)
              (ValueError (''task is waiting for '' @ continuation_label (p_kind record) @ '', not '' @
                 continuation_label expected_kind @ '': '' @ task_id))) (\<lambda>_.
     bindM (execute (delete_pending (\<lambda>p. p_task_id p = task_id \<and> p_kind p = expected_kind))) (\<lambda>rowcount.
     bindM (raise_if (rowcount \<noteq> 1) none) (\<lambda>_.
     returnM record))))))"

definition clear_pending_continuation :: "string \<Rightarrow> unit py" where
  "clear_pending_continuation task_id =
     bindM (execute (delete_pending (\<lambda>p. p_task_id p = task_id))) (\<lambda>_. returnM ())"

section \<open>The durable execution queue\<close>

definition delete_queued :: "string \<Rightarrow> nat statement" where
  "delete_queued task_id t = Inr (count_where (\<lambda>q. q_task_id q = task_id) (tb_queued_executions t),
     t\<lparr>tb_queued_executions := delete_where (\<lambda>q. q_task_id q = task_id) (tb_queued_executions t)\<rparr>)"

text \<open>The checks \<open>enqueue_task_execution\<close> makes before it touches the queue; the
  result is the command to store.\<close>

definition check_enqueue ::
  "string \<Rightarrow> queued_task_execution_kind \<Rightarrow> string \<Rightarrow> queued_payload option \<Rightarrow> int \<Rightarrow> queued_payload py" where
  "check_enqueue task_id kind runtime_thread_id payload command_version =
     bindM (get_task task_id) (\<lambda>x.
     bindM (require_some x (ValueError (''unknown task: '' @ task_id))) (\<lambda>task.
     bindM (raise_if (t_assigned_agent_id task \<noteq> None)
              (ValueError (''remote proxy task cannot queue a local execution: '' @ task_id))) (\<lambda>_.
     bindM (raise_if (t_status task \<noteq> QUEUED)
              (ValueError (''local task is not queued: '' @ task_id))) (\<lambda>_.
     bindM (raise_if (t_runtime_thread_id task \<noteq> runtime_thread_id)
              (ValueError (''task runtime thread mismatch: '' @ task_id))) (\<lambda>_.
     bindM (raise_if (command_version \<noteq> LOCAL_EXECUTION_COMMAND_VERSION)
              (ValueError (''unsupported local execution command version: '' @
                 str_int command_version))) (\<lambda>_.
     case payload of
       Some p \<Rightarrow> returnM p
     | None \<Rightarrow>
         if kind \<noteq> INITIAL
         then raiseM (ValueError (''queued execution payload is required: '' @ task_id))
         else returnM InitialTaskExecutionPayload))))))"

definition enqueue_task_execution ::
  "string \<Rightarrow> queued_task_execution_kind \<Rightarrow> string \<Rightarrow> queued_payload option \<Rightarrow> int \<Rightarrow>
   queued_task_execution_record py" where
  "enqueue_task_execution task_id kind runtime_thread_id payload command_version =
     bindM (check_enqueue task_id kind runtime_thread_id payload command_version) (\<lambda>normalized_payload.
     bindM (liftE (queued_task_execution_payload_to_dict kind normalized_payload)) (\<lambda>serialized_payload.
     bindM (get_queued_task_execution task_id) (\<lambda>found.
     case found of
       Some existing \<Rightarrow>
         if qe_kind existing = kind \<and> qe_runtime_thread_id existing = runtime_thread_id \<and>
            qe_command_version existing = command_version \<and>
            payload_eq (qe_payload existing) normalized_payload
         then returnM existing
         else raiseM (ValueError (''local task already has a queued execution: '' @ task_id))
     | None \<Rightarrow>
         bindM (liftE (dumps_dict serialized_payload)) (\<lambda>text.
         bindM utc_now (\<lambda>now.
         bindM (execute (insert_queued_execution_row
           \<lparr>q_task_id = task_id, q_kind = queued_kind_value kind,
            q_runtime_thread_id = runtime_thread_id, q_command_version = command_version,
            q_payload = Some (PDict text), q_created_at = now\<rparr>)) (\<lambda>_.
         bindM (get_queued_task_execution task_id) (\<lambda>record.
         require_some record
           (RuntimeError (''failed to enqueue local task execution: '' @ task_id)))))))))"

definition claim_queued_task_execution ::
  "string \<Rightarrow> (task_record \<times> queued_task_execution_record) option py" where
  "claim_queued_task_execution task_id = transaction (
     bindM (get_task task_id) (\<lambda>x.
     bindM (require_some x (ValueError (''unknown task: '' @ task_id))) (\<lambda>task.
     if t_assigned_agent_id task \<noteq> None \<or> t_status task \<noteq> QUEUED then returnM None
     else
       bindM (get_queued_task_execution task_id) (\<lambda>found.
       case found of
         None \<Rightarrow> returnM None
       | Some command \<Rightarrow>
           bindM (raise_if (qe_runtime_thread_id command \<noteq> t_runtime_thread_id task)
                    (ValueError (''queued execution runtime thread mismatch: '' @ task_id))) (\<lambda>_.
           bindM (execute (delete_queued task_id)) (\<lambda>rowcount.
           if rowcount \<noteq> 1 then returnM None
           else
             bindM (transition_local_task task_id RUNNING [] None None False) (\<lambda>running.
             returnM (Some (running, command)))))))))"

definition clear_queued_task_execution :: "string \<Rightarrow> unit py" where
  "clear_queued_task_execution task_id = bindM (execute (delete_queued task_id)) (\<lambda>_. returnM ())"

section \<open>Accepting a Task from a Message\<close>

definition accept_local_task_from_message ::
  "string \<Rightarrow> string \<Rightarrow> string \<Rightarrow> route_decision_kind \<Rightarrow> string \<Rightarrow> string option \<Rightarrow> pyfloat option \<Rightarrow>
   pydict \<Rightarrow> string \<Rightarrow> string \<Rightarrow> bool \<Rightarrow> string option \<Rightarrow> int \<Rightarrow>
   (route_decision_record \<times> task_record) py" where
  "accept_local_task_from_message decision_id context_id input_message_id route_kind route_reason
     route_target_agent_id route_confidence route_metadata task_id runtime_thread_id queue_execution
     retry_of_task_id attempt =
     bindM (raise_if (route_kind \<noteq> LOCAL_TASK)
              (ValueError (''local task acceptance requires local_task route: '' @
                 route_kind_value route_kind))) (\<lambda>_.
     transaction (
     bindM (record_route_decision decision_id context_id input_message_id route_kind route_reason
              route_target_agent_id route_confidence route_metadata) (\<lambda>decision.
     bindM (set_message_ingress_route_decision input_message_id (r_decision_id decision)) (\<lambda>_.
     bindM (create_local_task task_id context_id input_message_id runtime_thread_id
              retry_of_task_id attempt None None None) (\<lambda>created.
     bindM (resolve_message_ingress input_message_id TASK_OUTCOME (t_task_id created)) (\<lambda>_.
     if queue_execution then
       bindM (transition_local_task (t_task_id created) QUEUED [] None None False) (\<lambda>task.
       bindM (enqueue_task_execution (t_task_id task) INITIAL (t_runtime_thread_id task) None
                LOCAL_EXECUTION_COMMAND_VERSION) (\<lambda>_.
       returnM (decision, task)))
     else returnM (decision, created)))))))"

section \<open>Artifacts\<close>

definition upsert_artifact ::
  "string \<Rightarrow> string \<Rightarrow> string \<Rightarrow> pyval list \<Rightarrow> pydict \<Rightarrow> artifact_record py" where
  "upsert_artifact artifact_id task_id context_id parts metadata = transaction (
     bindM (get_task task_id) (\<lambda>x.
     bindM (raise_if (x = None) (ValueError (''unknown task: '' @ task_id))) (\<lambda>_.
     bindM (get_artifact artifact_id) (\<lambda>current.
     bindM (raise_if (case current of None \<Rightarrow> False
                      | Some a \<Rightarrow> a_task_id a \<noteq> task_id \<or> a_context_id a \<noteq> context_id)
              (ValueError (''artifact ownership mismatch: '' @ artifact_id))) (\<lambda>_.
     case (case current of None \<Rightarrow> None
           | Some a \<Rightarrow> if py_eq (PList (a_parts a)) (PList parts) \<and>
                         py_eq (PDict (a_metadata a)) (PDict metadata) then Some a else None) of
       Some a \<Rightarrow> returnM a
     | None \<Rightarrow>
         bindM utc_now (\<lambda>now.
         bindM (liftE (dumps_list parts)) (\<lambda>ps.
         bindM (liftE (dumps_dict metadata)) (\<lambda>meta.
         bindM (execute (upsert_artifact_row
           \<lparr>a_artifact_id = artifact_id, a_task_id = task_id, a_context_id = context_id,
            a_parts = ps, a_metadata = meta, a_created_at = now, a_updated_at = now\<rparr>)) (\<lambda>_.
         bindM (update_tables (set_task task_id (touch_row now))) (\<lambda>_.
         bindM (get_artifact artifact_id) (\<lambda>record.
         require_some record
           (RuntimeError (''failed to upsert artifact: '' @ artifact_id)))))))))))))"

section \<open>The lifecycle history of a Task\<close>

definition events_of :: "string \<Rightarrow> tables \<Rightarrow> task_event_record list" where
  "events_of k t = filter (\<lambda>e. e_task_id e = k) (tb_task_events t)"

definition history :: "string \<Rightarrow> tables \<Rightarrow> task_status list" where
  "history k t = map (\<lambda>e. the (e_status e)) (filter (\<lambda>e. e_status e \<noteq> None) (events_of k t))"

definition task_row_ok :: "tables \<Rightarrow> task_record \<Rightarrow> bool" where
  "task_row_ok t x \<longleftrightarrow>
     (let h = history (t_task_id x) t; es = events_of (t_task_id x) t in
      h \<noteq> [] \<and> last h = t_status x \<and>
      (t_assigned_agent_id x = None \<longrightarrow> hd h = CREATED \<and> is_path local_step h) \<and>
      (t_assigned_agent_id x \<noteq> None \<longrightarrow> is_path remote_step h) \<and>
      sorted (map e_lifecycle_revision es) \<and>
      (\<forall>e \<in> set es. 1 \<le> e_lifecycle_revision e \<and> e_lifecycle_revision e \<le> t_lifecycle_revision x))"

definition event_log_ok :: "tables \<Rightarrow> bool" where
  "event_log_ok t \<longleftrightarrow>
     sorted_wrt (<) (map e_event_id (tb_task_events t)) \<and>
     (\<forall>e \<in> set (tb_task_events t). e_event_id e \<le> tb_event_seq t \<and> has_task t (e_task_id e))"

definition task_inv :: "tables \<Rightarrow> bool" where
  "task_inv t \<longleftrightarrow> distinct (map t_task_id (tb_tasks t)) \<and> event_log_ok t \<and>
     (\<forall>x \<in> set (tb_tasks t). task_row_ok t x)"

definition add_event :: "task_event_record \<Rightarrow> tables \<Rightarrow> tables" where
  "add_event e t = t\<lparr>tb_task_events := tb_task_events t @ [e\<lparr>e_event_id := tb_event_seq t + 1\<rparr>],
     tb_event_seq := tb_event_seq t + 1\<rparr>"

lemma add_event_simps [simp]:
  "tb_tasks (add_event e t) = tb_tasks t" "tb_event_seq (add_event e t) = tb_event_seq t + 1"
  "tb_contexts (add_event e t) = tb_contexts t" "tb_messages (add_event e t) = tb_messages t"
  "tb_message_ingress (add_event e t) = tb_message_ingress t"
  "tb_queued_executions (add_event e t) = tb_queued_executions t"
  "has_task (add_event e t) = has_task t"
  by (auto simp: add_event_def has_task_def)

lemma events_of_add_event [simp]:
  "events_of k (add_event e t) =
     events_of k t @ (if e_task_id e = k then [e\<lparr>e_event_id := tb_event_seq t + 1\<rparr>] else [])"
  by (simp add: events_of_def add_event_def)

lemma history_add_event [simp]:
  "history k (add_event e t) = history k t @
     (if e_task_id e = k \<and> e_status e \<noteq> None then [the (e_status e)] else [])"
  by (simp add: history_def)

lemma events_of_frame [simp]:
  "events_of k (set_task j f t) = events_of k t" "history k (set_task j f t) = history k t"
  by (simp_all add: events_of_def set_task_def history_def)

lemma event_log_add_event:
  assumes "event_log_ok t" and "has_task t (e_task_id e)"
  shows "event_log_ok (add_event e t)"
proof -
  have "\<forall>x\<in>set (tb_task_events t). e_event_id x < tb_event_seq t + 1"
    using assms(1) by (auto simp: event_log_ok_def)
  then show ?thesis
  using assms by (auto simp: event_log_ok_def add_event_def sorted_wrt_append has_task_def)
qed

lemma has_task_set_task [simp]:
  "(\<And>x. t_task_id (f x) = t_task_id x) \<Longrightarrow> has_task (set_task j f t) k = has_task t k"
  by (simp add: has_task_def set_task_def table_simps)

lemma event_log_set_task:
  assumes "event_log_ok t" and "\<And>x. t_task_id (f x) = t_task_id x"
  shows "event_log_ok (set_task j f t)"
  using assms has_task_set_task [OF assms(2)] by (simp add: event_log_ok_def) (simp add: set_task_def)

lemma task_row_ok_frame:
  "events_of (t_task_id x) t' = events_of (t_task_id x) t \<Longrightarrow> task_row_ok t' x = task_row_ok t x"
  by (simp add: task_row_ok_def history_def)

lemma task_row_ok_set_task [simp]: "task_row_ok (set_task k f t) y = task_row_ok t y"
  by (rule task_row_ok_frame) simp

lemma task_row_ok_add_other:
  "e_task_id e \<noteq> t_task_id x \<Longrightarrow> task_row_ok (add_event e t) x = task_row_ok t x"
  by (rule task_row_ok_frame) simp

lemma tb_tasks_set_task:
  "tb_tasks (set_task k f t) = set_where (\<lambda>x. t_task_id x = k) f (tb_tasks t)"
  by (simp add: set_task_def)

lemma task_inv_update:
  assumes "task_inv t" and "\<And>x. t_task_id (f x) = t_task_id x"
    and "\<And>x. x \<in> set (tb_tasks t) \<Longrightarrow> t_task_id x = k \<Longrightarrow> task_row_ok t (f x)"
  shows "task_inv (set_task k f t)"
  using assms
  by (auto simp: task_inv_def event_log_set_task tb_tasks_set_task set_set_where map_key_set_where)

lemma task_row_ok_touch:
  assumes "task_row_ok t x"
    and "t_task_id y = t_task_id x" "t_status y = t_status x"
    and "t_assigned_agent_id y = t_assigned_agent_id x"
    and "t_lifecycle_revision x \<le> t_lifecycle_revision y"
  shows "task_row_ok t y"
  using assms by (auto simp: task_row_ok_def Let_def intro: order_trans)

lemma task_inv_touch:
  assumes "task_inv t"
    and "\<And>x. t_task_id (f x) = t_task_id x" "\<And>x. t_status (f x) = t_status x"
    and "\<And>x. t_assigned_agent_id (f x) = t_assigned_agent_id x"
    and "\<And>x. t_lifecycle_revision x \<le> t_lifecycle_revision (f x)"
  shows "task_inv (set_task k f t)"
proof (rule task_inv_update [OF assms(1,2)])
  fix x assume "x \<in> set (tb_tasks t)"
  with assms(1) have "task_row_ok t x" by (simp add: task_inv_def)
  then show "task_row_ok t (f x)" by (rule task_row_ok_touch) (fact assms)+
qed

text \<open>One more event at the end of a Task's log, and the row it belongs to.\<close>

lemma task_row_ok_add_event:
  assumes "task_row_ok t x" and "e_task_id e = t_task_id x" "t_task_id y = t_task_id x"
    and "t_assigned_agent_id y = t_assigned_agent_id x"
    and "t_lifecycle_revision x \<le> t_lifecycle_revision y" 
    and "e_lifecycle_revision e = t_lifecycle_revision y"
    and "case e_status e of None \<Rightarrow> t_status y = t_status x
         | Some s \<Rightarrow> t_status y = s \<and>
             (if t_assigned_agent_id x = None then local_step (t_status x) s
              else remote_step (t_status x) s)"
  shows "task_row_ok (add_event e t) y"
proof -
  have "\<exists>e. e \<in> set (events_of (t_task_id x) t)"
    using assms(1) by (cases "events_of (t_task_id x) t") (auto simp: task_row_ok_def Let_def history_def)
  then have "1 \<le> t_lifecycle_revision x"
    using assms(1) by (force simp: task_row_ok_def Let_def)
  then show ?thesis
    using assms
    by (auto simp: task_row_ok_def Let_def is_path_snoc sorted_append intro: order_trans split: option.splits if_splits)
qed

lemma task_inv_add_note:
  assumes "task_inv t" and "fetch t_task_id (e_task_id e) (tb_tasks t) = Some x"
    and "e_status e = None" and "e_lifecycle_revision e = t_lifecycle_revision x"
  shows "task_inv (add_event e t)"
proof -
  have row: "task_row_ok (add_event e t) y" if y: "y \<in> set (tb_tasks t)" for y
  proof (cases "t_task_id y = e_task_id e")
    case True
    with assms y have "y = x" by (metis fetch_distinct option.inject task_inv_def)
    with assms True y show ?thesis
      by (intro task_row_ok_add_event [of t x]) (auto simp: task_inv_def)
  next
    case False
    with assms(1) y show ?thesis by (simp add: task_row_ok_add_other task_inv_def)
  qed
  with assms show ?thesis
    by (auto simp: task_inv_def event_log_add_event has_task_def)
qed

lemma task_inv_transition:
  assumes "task_inv t" and "fetch t_task_id k (tb_tasks t) = Some x"
    and "if t_assigned_agent_id x = None then local_step (t_status x) s else remote_step (t_status x) s"
    and "e_task_id e = k" "e_status e = Some s" "e_lifecycle_revision e = t_lifecycle_revision x + 1"
  shows "task_inv (add_event e (set_task k (status_row s ec em er now) t))"
proof -
  have row: "task_row_ok (add_event e t) (if t_task_id y = k then status_row s ec em er now y else y)"
    if y: "y \<in> set (tb_tasks t)" for y
  proof (cases "t_task_id y = k")
    case True
    with assms y have "y = x" by (metis fetch_distinct option.inject task_inv_def)
    with assms True y show ?thesis
      by (auto intro!: task_row_ok_add_event [of t x] simp: task_inv_def status_row_def)
  next
    case False
    with assms y show ?thesis by (simp add: task_row_ok_add_other task_inv_def)
  qed
  have eq: "task_row_ok (add_event e (set_task k f t)) y = task_row_ok (add_event e t) y" for f y
    by (rule task_row_ok_frame) (simp add: events_of_def add_event_def set_task_def)
  have id: "t_task_id (status_row s ec em er now y) = t_task_id y" for y by (simp add: status_row_def)
  have "has_task t k" using assms(2) by (simp add: has_task_def)
  then have "event_log_ok (add_event e (set_task k (status_row s ec em er now) t))"
    using assms(1,4) id by (simp add: task_inv_def event_log_add_event event_log_set_task)
  moreover have "\<forall>y \<in> set (tb_tasks t).
      task_row_ok (add_event e t) (if t_task_id y = k then status_row s ec em er now y else y)"
    using row by blast
  ultimately show ?thesis
    using assms(1) id
    by (simp add: task_inv_def eq tb_tasks_set_task map_key_set_where ball_set_where)
qed

lemma task_inv_create:
  assumes "task_inv t" and "\<not> has_task t k"
    and "t_task_id x = k" "t_lifecycle_revision x = 1"
    and "t_assigned_agent_id x = None \<Longrightarrow> t_status x = CREATED"
    and "e_task_id e = k" "e_status e = Some (t_status x)" "e_lifecycle_revision e = 1"
  shows "task_inv (add_event e (t\<lparr>tb_tasks := tb_tasks t @ [x]\<rparr>))"
proof -
  let ?t = "t\<lparr>tb_tasks := tb_tasks t @ [x]\<rparr>"
  have fresh: "k \<notin> t_task_id ` set (tb_tasks t)"
    using assms(2) by (simp add: has_task_def fetch_None_notin)
  have ev: "events_of j ?t = events_of j t" for j by (simp add: events_of_def)
  have none: "events_of k t = []"
    using assms(1,2) by (auto simp: events_of_def task_inv_def event_log_ok_def filter_empty_conv)
  have "has_task ?t j" if "has_task t j \<or> j = k" for j
    using that assms(3) by (auto simp: has_task_def table_simps split: option.splits)
  then have log: "event_log_ok (add_event e ?t)"
    using assms by (intro event_log_add_event) (auto simp: event_log_ok_def task_inv_def)
  have "task_row_ok (add_event e ?t) x"
    using assms none by (auto simp: task_row_ok_def Let_def ev history_def)
  moreover have "task_row_ok (add_event e ?t) y" if "y \<in> set (tb_tasks t)" for y
  proof -
    have "e_task_id e \<noteq> t_task_id y" using that fresh assms(6) by auto
    then have "task_row_ok (add_event e ?t) y = task_row_ok t y"
      by (intro task_row_ok_frame) (simp add: ev)
    with assms(1) that show ?thesis by (simp add: task_inv_def)
  qed
  ultimately show ?thesis
    using assms(1,3) fresh log by (auto simp: task_inv_def)
qed

section \<open>The operations keep the history\<close>

lemma row_simps [simp]:
  "t_task_id (status_row s ec em er now x) = t_task_id x"
  "t_status (status_row s ec em er now x) = s"
  "t_assigned_agent_id (status_row s ec em er now x) = t_assigned_agent_id x"
  "t_runtime_thread_id (status_row s ec em er now x) = t_runtime_thread_id x"
  "t_lifecycle_revision (status_row s ec em er now x) = t_lifecycle_revision x + 1"
  "t_task_id (touch_row now x) = t_task_id x" "t_status (touch_row now x) = t_status x"
  "t_assigned_agent_id (touch_row now x) = t_assigned_agent_id x"
  "t_runtime_thread_id (touch_row now x) = t_runtime_thread_id x"
  "t_lifecycle_revision (touch_row now x) = t_lifecycle_revision x + 1"
  "t_task_id (output_row m now x) = t_task_id x" "t_status (output_row m now x) = t_status x"
  "t_assigned_agent_id (output_row m now x) = t_assigned_agent_id x"
  "t_runtime_thread_id (output_row m now x) = t_runtime_thread_id x"
  "t_lifecycle_revision (output_row m now x) = t_lifecycle_revision x + 1"
  by (simp_all add: status_row_def touch_row_def output_row_def)

definition registered :: "string \<Rightarrow> world \<Rightarrow> world" where
  "registered k w = (if transaction_depth w > 0
     then w\<lparr>after_commit_callbacks := after_commit_callbacks w @ [k]\<rparr>
     else run_after_commit_callbacks [k] w)"

lemma registered_simps [simp]:
  "conn (registered k w) = conn w" "durable (registered k w) = durable w"
  "transaction_depth (registered k w) = transaction_depth w"
  "clock (registered k w) = clock w" "clock_reads (registered k w) = clock_reads w"
  "tx_post I v (registered k w) = tx_post I v w"
  by (auto simp: registered_def tx_post_def settled_def)

lemma wp_register_after_commit [wp_rules]:
  "wp (register_after_commit k) Q E w = Q () (registered k w)"
  by (simp add: register_after_commit_def wp_rules registered_def)

lemma fetch_new_event:
  assumes "event_log_ok t"
  shows "fetch e_event_id (tb_event_seq t + 1) (tb_task_events t) = None"
  using assms by (force simp: fetch_None_iff event_log_ok_def)

lemma wp_append_task_event:
  assumes "event_log_ok (conn w)"
  shows "wp (append_task_event k ty st payload) Q E w =
    (case fetch t_task_id k (tb_tasks (conn w)) of
       None \<Rightarrow> E (ValueError (''unknown task: '' @ k)) w
     | Some x \<Rightarrow>
        (case dumps_dict payload of
           Inl e \<Rightarrow> E e w
         | Inr pl \<Rightarrow>
            (let r = \<lparr>e_event_id = 0, e_task_id = k, e_type = ty, e_status = st,
               e_lifecycle_revision = t_lifecycle_revision x, e_payload = pl,
               e_created_at = clock w (clock_reads w)\<rparr>
             in Q (r\<lparr>e_event_id := tb_event_seq (conn w) + 1\<rparr>)
                  (registered k (write_conn (add_event r (conn w))
                     (w\<lparr>clock_reads := Suc (clock_reads w)\<rparr>))))))"
  using fetch_new_event [OF assms]
  by (auto simp: append_task_event_def wp_rules get_task_def get_task_event_def
      insert_task_event_row_def guarded_def has_task_def add_event_def Let_def fetch_append fetch_Cons
      split: option.splits sum.splits)

lemma append_note_task_inv: "tx_keeps task_inv (append_task_event k ty None payload)"
proof (rule tx_keepsI)
  fix w assume w: "settled w" "task_inv (conn w)" "task_inv (durable w)"
  then have "event_log_ok (conn w)" by (simp add: task_inv_def)
  with w show "wp (append_task_event k ty None payload)
      (\<lambda>a w'. tx_post task_inv w w' \<and> task_inv (conn w')) (\<lambda>e w'. tx_post task_inv w w') w"
    by (auto simp: wp_append_task_event Let_def tx_post_def settled_def intro!: task_inv_add_note
        split: option.splits sum.splits)
qed

lemma transition_local_task_task_inv:
  "tx_keeps task_inv (transition_local_task k s payload ec em er)"
  unfolding transition_local_task_def
proof (rule tx_transaction_wp, goal_cases)
  case (1 w)
  then have log: "event_log_ok (conn w)" by (simp add: task_inv_def)
  have "event_log_ok (set_task k (status_row s ec em er now) (conn w))" for now
    using log by (intro event_log_set_task) simp_all
  with 1 show ?case
    by (auto simp: wp_rules get_task_def wp_append_task_event Let_def tx_post_refl validate_Inr
       tb_tasks_set_task table_simps
      intro!: task_inv_transition split: option.splits sum.splits)
qed

lemma create_local_task_task_inv:
  "tx_keeps task_inv (create_local_task k c m th ro att md ml mcp)"
  unfolding create_local_task_def
proof (rule tx_transaction_wp, goal_cases)
  case (1 w)
  have log: "event_log_ok (conn w)" using 1 by (simp add: task_inv_def)
  have "event_log_ok ((conn w)\<lparr>tb_tasks := tb_tasks (conn w) @ [x]\<rparr>)" for x
    using log by (auto simp: event_log_ok_def has_task_def)
  with 1 show ?case
    by (auto simp: create_task_def insert_new_task_def wp_rules get_task_def get_message_def
       insert_task_row_def guarded_def has_task_def table_simps
       wp_append_task_event Let_def tx_post_refl
      intro!: task_inv_create split: option.splits sum.splits)
qed

lemma task_inv_frame:
  "tb_tasks t' = tb_tasks t \<Longrightarrow> tb_task_events t' = tb_task_events t \<Longrightarrow>
   tb_event_seq t' = tb_event_seq t \<Longrightarrow> task_inv t' = task_inv t"
  by (simp add: task_inv_def event_log_ok_def task_row_ok_def events_of_def history_def has_task_def)

lemma task_inv_other_tables [simp]:
  "task_inv (t\<lparr>tb_contexts := a\<rparr>) = task_inv t" "task_inv (t\<lparr>tb_messages := b\<rparr>) = task_inv t"
  "task_inv (t\<lparr>tb_route_decisions := c\<rparr>) = task_inv t"
  "task_inv (t\<lparr>tb_artifacts := d\<rparr>) = task_inv t"
  "task_inv (t\<lparr>tb_registered_agents := e\<rparr>) = task_inv t"
  "task_inv (t\<lparr>tb_delegated_tasks := f\<rparr>) = task_inv t"
  "task_inv (t\<lparr>tb_pending_continuations := g\<rparr>) = task_inv t"
  "task_inv (t\<lparr>tb_message_ingress := h\<rparr>) = task_inv t"
  "task_inv (t\<lparr>tb_queued_executions := i\<rparr>) = task_inv t"
  "task_inv (t\<lparr>tb_tool_invocations := j\<rparr>) = task_inv t"
  by (rule task_inv_frame; simp)+

lemma stmt_keeps_frame:
  assumes "\<And>t a t'. stmt t = Inr (a, t') \<Longrightarrow> I t' = I t"
  shows "stmt_keeps I stmt"
  using assms by (auto simp: stmt_keeps_def)

lemma set_task_output_message_task_inv: "tx_keeps task_inv (set_task_output_message k m)"
  unfolding set_task_output_message_def get_message_def get_task_def update_task_output_def
  by (intro tx_intros stmt_keeps_guarded) (auto intro!: task_inv_touch)

lemma queue_statements_task_inv:
  "stmt_keeps task_inv (delete_queued k)" "stmt_keeps task_inv (delete_pending P)"
  "stmt_keeps task_inv (insert_queued_execution_row q)" "stmt_keeps task_inv (upsert_pending_row p)"
  "stmt_keeps task_inv (upsert_artifact_row a)"
  "stmt_keeps task_inv (insert_route_decision_row rd)"
  "stmt_keeps task_inv (update_in_progress mid refs f)"
  "stmt_keeps task_inv (insert_ingress_or_ignore ir)"
  by (auto intro!: stmt_keeps_frame simp: delete_queued_def delete_pending_def
      insert_queued_execution_row_def upsert_pending_row_def upsert_artifact_row_def guarded_Inr
      insert_route_decision_row_def update_in_progress_def Let_def insert_ingress_or_ignore_def
      split: if_splits)

lemma task_ops_task_inv [tx_intros]:
  "tx_keeps task_inv (set_pending_continuation k pk req)"
  "tx_keeps task_inv (consume_pending_continuation k pk)"
  "tx_keeps task_inv (clear_pending_continuation k)"
  "tx_keeps task_inv (enqueue_task_execution k qk th pl v)"
  "tx_keeps task_inv (clear_queued_task_execution k)"
  "tx_keeps task_inv (claim_queued_task_execution k)"
  "tx_keeps task_inv (upsert_artifact aid k c parts md)"
  unfolding set_pending_continuation_def consume_pending_continuation_def
    clear_pending_continuation_def enqueue_task_execution_def check_enqueue_def
    clear_queued_task_execution_def claim_queued_task_execution_def upsert_artifact_def
    get_task_def get_pending_continuation_def get_queued_task_execution_def get_artifact_def
  by (intro tx_intros queue_statements_task_inv transition_local_task_task_inv task_inv_touch;
      simp)+

lemma accept_local_task_task_inv:
  "tx_keeps task_inv (accept_local_task_from_message did c m rk rs ta cf md k th q ro att)"
  unfolding accept_local_task_from_message_def record_route_decision_def
    set_message_ingress_route_decision_def resolve_message_ingress_def get_message_def
    get_route_decision_def get_message_ingress_def
  by (intro tx_intros queue_statements_task_inv transition_local_task_task_inv
      create_local_task_task_inv)

lemma wp_transition_local_task:
  assumes "event_log_ok (conn w)"
  shows "wp (transition_local_task k s payload ec em er) Q E w =
    (let ok = (\<lambda>w'. if transaction_depth w = 0 then tx_commit w' else tx_leave w');
         bad = (\<lambda>w'. if transaction_depth w = 0 then tx_rollback w' else tx_leave w');
         w1 = tx_enter w in
     case fetch t_task_id k (tb_tasks (conn w)) of
       None \<Rightarrow> E (ValueError (''unknown task: '' @ k)) (bad w1)
     | Some x \<Rightarrow>
        if t_assigned_agent_id x \<noteq> None
        then E (ValueError (''remote proxy task cannot use local transition policy: '' @ k)) (bad w1)
        else if t_status x = s then Q x (ok w1)
        else if \<not> local_step (t_status x) s
        then E (InvalidLocalTaskTransitionError (''invalid local task transition: '' @
               task_status_value (t_status x) @ '' -> '' @ task_status_value s)) (bad w1)
        else
          (let now = clock w (clock_reads w);
               y = status_row s ec em er now x;
               t1 = set_task k (status_row s ec em er now) (conn w);
               w2 = write_conn t1 (w1\<lparr>clock_reads := Suc (clock_reads w)\<rparr>) in
           case dumps_dict payload of
             Inl e \<Rightarrow> E e (bad w2)
           | Inr pl \<Rightarrow> Q y (ok (registered k (write_conn
               (add_event \<lparr>e_event_id = 0, e_task_id = k, e_type = the (TRANSITION_EVENT_TYPES s),
                  e_status = Some s, e_lifecycle_revision = t_lifecycle_revision y,
                  e_payload = pl, e_created_at = clock w (Suc (clock_reads w))\<rparr> t1)
               (w2\<lparr>clock_reads := Suc (Suc (clock_reads w))\<rparr>))))))"
proof -
  have "event_log_ok (set_task k (status_row s ec em er now) (conn w))" for now
    using assms by (intro event_log_set_task) simp_all
  moreover have "lifecycle_event_type_for_status s = Inr (the (TRANSITION_EVENT_TYPES s))"
    if "local_step a s" for a
    using event_type_of_target [OF that]
    by (auto simp: lifecycle_event_type_for_status_def split: option.splits)
  ultimately show ?thesis
    by (cases "fetch t_task_id k (tb_tasks (conn w))")
       (auto simp: transition_local_task_def wp_rules get_task_def wp_append_task_event Let_def
       validate_local_task_transition_def local_step_iff
       tb_tasks_set_task table_simps
       split: sum.splits)
qed

lemma set_task_simps [simp]:
  "tb_contexts (set_task k f t) = tb_contexts t" "tb_messages (set_task k f t) = tb_messages t"
  "tb_route_decisions (set_task k f t) = tb_route_decisions t"
  "tb_artifacts (set_task k f t) = tb_artifacts t"
  "tb_delegated_tasks (set_task k f t) = tb_delegated_tasks t"
  "tb_pending_continuations (set_task k f t) = tb_pending_continuations t"
  "tb_message_ingress (set_task k f t) = tb_message_ingress t"
  "tb_queued_executions (set_task k f t) = tb_queued_executions t"
  "tb_tool_invocations (set_task k f t) = tb_tool_invocations t"
  by (simp_all add: set_task_def)

lemma sample_task_inv: "task_inv sample_tables"
  by (simp add: task_inv_def sample_defs event_log_ok_def has_task_def table_simps task_row_ok_def
      history_def events_of_def local_step_iff)

section \<open>Transitions and claims\<close>

text \<open>
  C20. A lifecycle transition of a locally owned Task outside any transaction:
  repeating the current status changes nothing; a status the transition table
  does not allow raises \<open>InvalidLocalTaskTransitionError\<close> and changes nothing;
  an allowed one commits the new row, one revision up, together with exactly one
  event of the target status that carries the new revision; a payload that
  cannot be stored rolls both back.
\<close>

theorem transition_local_task_spec:
  assumes "task_inv (conn w)" and "settled w" and "transaction_depth w = 0"
    and "fetch t_task_id k (tb_tasks (conn w)) = Some x" and "t_assigned_agent_id x = None"
  shows "wp (transition_local_task k s payload ec em er)
    (\<lambda>y w'. durable w' = conn w' \<and>
       (t_status x = s \<and> y = x \<and> conn w' = conn w \<or>
        local_step (t_status x) s \<and>
        y = status_row s ec em er (clock w (clock_reads w)) x \<and>
        (\<exists>type pl. TRANSITION_EVENT_TYPES s = Some type \<and> dumps_dict payload = Inr pl \<and>
           conn w' = add_event
             \<lparr>e_event_id = 0, e_task_id = k, e_type = type, e_status = Some s,
              e_lifecycle_revision = t_lifecycle_revision x + 1, e_payload = pl,
              e_created_at = clock w (Suc (clock_reads w))\<rparr>
             (set_task k (status_row s ec em er (clock w (clock_reads w))) (conn w)))))
    (\<lambda>e w'. conn w' = conn w \<and> durable w' = durable w \<and>
       (t_status x \<noteq> s \<and> \<not> local_step (t_status x) s \<and>
        e = InvalidLocalTaskTransitionError (''invalid local task transition: '' @
              task_status_value (t_status x) @ '' -> '' @ task_status_value s) \<or>
        local_step (t_status x) s \<and> dumps_dict payload = Inl e)) w"
proof -
  have "event_log_ok (conn w)" using assms(1) by (simp add: task_inv_def)
  moreover have "\<exists>type. TRANSITION_EVENT_TYPES s = Some type" if "local_step a s" for a
    using that by (cases s; cases a) (simp_all add: local_step_iff)
  ultimately show ?thesis
    using assms by (fastforce simp: wp_transition_local_task Let_def settled_def split: sum.splits)
qed

theorem transition_local_task_spec_witness:
  "wp (transition_local_task ''task'' COMPLETED [] None None False) (\<lambda>_ _. False)
     (\<lambda>e w'. conn w' = sample_tables \<and> durable w' = sample_tables) (world_of sample_tables)"
  by (rule wp_mono [OF transition_local_task_spec [where x = sample_task]])
     (simp_all add: sample_task_inv, simp_all add: sample_defs table_simps local_step_iff)

lemma wp_claim:
  assumes "event_log_ok (conn w)" and "settled w" and "transaction_depth w = 0"
    and "distinct (map q_task_id (tb_queued_executions (conn w)))"
  shows "wp (claim_queued_task_execution k)
    (\<lambda>r w'. durable w' = conn w' \<and> transaction_depth w' = 0 \<and>
       (case r of
          None \<Rightarrow> conn w' = conn w
        | Some (y, q) \<Rightarrow>
            (\<exists>x row. fetch t_task_id k (tb_tasks (conn w)) = Some x \<and>
               t_assigned_agent_id x = None \<and> t_status x = QUEUED \<and>
               fetch q_task_id k (tb_queued_executions (conn w)) = Some row \<and>
               queued_task_execution_from_row row = Inr q \<and>
               qe_runtime_thread_id q = t_runtime_thread_id x \<and>
               y = status_row RUNNING None None False (clock w (clock_reads w)) x \<and>
               fetch t_task_id k (tb_tasks (conn w')) = Some y \<and>
               history k (conn w') = history k (conn w) @ [RUNNING] \<and>
               tb_queued_executions (conn w') =
                 delete_where (\<lambda>r. q_task_id r = k) (tb_queued_executions (conn w)))))
    (\<lambda>e w'. conn w' = conn w \<and> durable w' = durable w) w"
proof -
  have log': "event_log_ok ((conn w)\<lparr>tb_queued_executions := qs\<rparr>)" for qs
    using assms(1) by (auto simp: event_log_ok_def has_task_def)
  have hist: "history k ((conn w)\<lparr>tb_queued_executions := qs\<rparr>) = history k (conn w)" for qs
    by (simp add: history_def events_of_def)
  have one: "count_where (\<lambda>r. q_task_id r = k) (tb_queued_executions (durable w)) =
      (if fetch q_task_id k (tb_queued_executions (durable w)) = None then 0 else 1)"
    using assms(2-4) by (simp add: count_where_distinct settled_def)
  show ?thesis
    using assms(2,3) log' hist
    by (auto simp: claim_queued_task_execution_def wp_rules get_task_def get_queued_task_execution_def
       delete_queued_def wp_transition_local_task Let_def settled_def local_step_iff one
       tb_tasks_set_task table_simps split: option.splits sum.splits)
qed

lemma wp_claim_running:
  assumes "fetch t_task_id k (tb_tasks (conn w)) = Some x" "t_status x \<noteq> QUEUED"
    and "settled w" "transaction_depth w = 0"
  shows "wp (claim_queued_task_execution k) (\<lambda>r w'. r = None \<and> conn w' = conn w \<and> durable w' = durable w)
     (\<lambda>_ _. False) w"
  using assms by (auto simp: claim_queued_task_execution_def wp_rules get_task_def settled_def)

text \<open>
  C10. A queued execution is claimed at most once.  When the first of two workers
  claims a command, the Task was a locally owned one in status \<open>QUEUED\<close> with that
  command stored for its own thread, and in one commit the command has been
  removed and the Task has become \<open>RUNNING\<close>; the second worker then gets nothing
  and changes nothing.
\<close>

theorem claim_at_most_once:
  assumes "task_inv (conn w)" and "settled w" and "transaction_depth w = 0"
    and "distinct (map q_task_id (tb_queued_executions (conn w)))"
    and "claim_queued_task_execution k w = (Inr (Some (y, q)), w')"
  shows "(\<exists>x row. fetch t_task_id k (tb_tasks (conn w)) = Some x \<and>
        t_assigned_agent_id x = None \<and> t_status x = QUEUED \<and>
        fetch q_task_id k (tb_queued_executions (conn w)) = Some row \<and>
        queued_task_execution_from_row row = Inr q \<and>
        qe_runtime_thread_id q = t_runtime_thread_id x \<and>
        y = status_row RUNNING None None False (clock w (clock_reads w)) x) \<and>
      durable w' = conn w' \<and>
      fetch t_task_id k (tb_tasks (conn w')) = Some y \<and>
      fetch q_task_id k (tb_queued_executions (conn w')) = None \<and>
      history k (conn w') = history k (conn w) @ [RUNNING] \<and>
      wp (claim_queued_task_execution k)
        (\<lambda>r w''. r = None \<and> conn w'' = conn w' \<and> durable w'' = durable w') (\<lambda>_ _. False) w'"
proof -
  have log: "event_log_ok (conn w)" using assms(1) by (simp add: task_inv_def)
  note c = wp_okD [OF wp_claim [OF log assms(2-4)] assms(5)]
  then have "wp (claim_queued_task_execution k)
      (\<lambda>r w''. r = None \<and> conn w'' = conn w' \<and> durable w'' = durable w') (\<lambda>_ _. False) w'"
    by (intro wp_claim_running [of _ _ y]) (auto simp: settled_def)
  with c show ?thesis by (auto simp: table_simps)
qed

lemma wp_returns_Some:
  "wp m (\<lambda>r _. r \<noteq> None) (\<lambda>_ _. False) s \<Longrightarrow> \<exists>a s'. m s = (Inr (Some a), s')"
  by (auto simp: wp_def split: prod.splits sum.splits)

lemma sample_claim:
  "\<exists>a w'. claim_queued_task_execution ''task'' (world_of sample_tables) = (Inr (Some a), w')"
proof (rule wp_returns_Some)
  have "event_log_ok (sample_tables\<lparr>tb_queued_executions := []\<rparr>)"
    by (simp add: event_log_ok_def sample_defs has_task_def table_simps)
  then show "wp (claim_queued_task_execution ''task'') (\<lambda>r _. r \<noteq> None) (\<lambda>_ _. False) (world_of sample_tables)"
    by (simp add: claim_queued_task_execution_def wp_rules get_task_def get_queued_task_execution_def
      delete_queued_def wp_transition_local_task Let_def local_step_iff
      queued_task_execution_from_row_def queued_kind_of_value_def LOCAL_EXECUTION_COMMAND_VERSION_def
      queued_task_execution_payload_from_dict_def count_where_def delete_where_def sample_defs table_simps)
qed

theorem claim_at_most_once_witness:
  "\<exists>y q w'. claim_queued_task_execution ''task'' (world_of sample_tables) = (Inr (Some (y, q)), w') \<and>
     fetch t_task_id ''task'' (tb_tasks (durable w')) = Some y \<and>
     wp (claim_queued_task_execution ''task'')
        (\<lambda>r w''. r = None \<and> conn w'' = conn w' \<and> durable w'' = durable w') (\<lambda>_ _. False) w'"
proof -
  obtain y q w' where run:
    "claim_queued_task_execution ''task'' (world_of sample_tables) = (Inr (Some (y, q)), w')"
    using sample_claim by auto
  have "distinct (map q_task_id (tb_queued_executions sample_tables))" by (simp add: sample_defs)
  with claim_at_most_once [OF _ _ _ _ run] run show ?thesis by (auto simp: sample_task_inv)
qed


section \<open>A finished Task stays finished\<close>

definition local_status :: "string \<Rightarrow> task_status \<Rightarrow> tables \<Rightarrow> bool" where
  "local_status k s t \<longleftrightarrow> (\<exists>x. fetch t_task_id k (tb_tasks t) = Some x \<and>
     t_assigned_agent_id x = None \<and> t_status x = s)"

lemma local_status_other_tables [simp]:
  "local_status k s (t\<lparr>tb_contexts := a\<rparr>) = local_status k s t"
  "local_status k s (t\<lparr>tb_messages := b\<rparr>) = local_status k s t"
  "local_status k s (t\<lparr>tb_route_decisions := c\<rparr>) = local_status k s t"
  "local_status k s (t\<lparr>tb_artifacts := d\<rparr>) = local_status k s t"
  "local_status k s (t\<lparr>tb_pending_continuations := g\<rparr>) = local_status k s t"
  "local_status k s (t\<lparr>tb_message_ingress := h\<rparr>) = local_status k s t"
  "local_status k s (t\<lparr>tb_queued_executions := i\<rparr>) = local_status k s t"
  "local_status k s (t\<lparr>tb_tool_invocations := j\<rparr>) = local_status k s t"
  "local_status k s (t\<lparr>tb_task_events := l, tb_event_seq := n\<rparr>) = local_status k s t"
  "local_status k s (t\<lparr>tb_delegated_tasks := m\<rparr>) = local_status k s t"
  "local_status k s (t\<lparr>tb_registered_agents := o'\<rparr>) = local_status k s t"
  by (simp_all add: local_status_def)

lemma local_status_set_task:
  assumes "local_status k s t" and "\<And>x. t_task_id (f x) = t_task_id x"
    and "\<And>x. t_assigned_agent_id (f x) = t_assigned_agent_id x"
    and "j = k \<Longrightarrow> (\<And>x. t_status (f x) = t_status x)"
  shows "local_status k s (set_task j f t)"
  using assms by (auto simp: local_status_def tb_tasks_set_task table_simps)

lemma statements_local_status:
  "stmt_keeps (local_status k s) (delete_queued j)" "stmt_keeps (local_status k s) (delete_pending P)"
  "stmt_keeps (local_status k s) (insert_queued_execution_row q)"
  "stmt_keeps (local_status k s) (upsert_pending_row p)"
  "stmt_keeps (local_status k s) (upsert_artifact_row a)"
  "stmt_keeps (local_status k s) (insert_route_decision_row rd)"
  "stmt_keeps (local_status k s) (update_in_progress mid refs f)"
  "stmt_keeps (local_status k s) (insert_ingress_or_ignore ir)"
  "stmt_keeps (local_status k s) (insert_task_event_row er)"
  "stmt_keeps (local_status k s) (insert_message_row mr)"
  "stmt_keeps (local_status k s) (bump_message_sequence cid now)"
  by (auto intro!: stmt_keeps_frame simp: delete_queued_def delete_pending_def
      insert_queued_execution_row_def upsert_pending_row_def upsert_artifact_row_def guarded_Inr
      insert_route_decision_row_def update_in_progress_def Let_def insert_ingress_or_ignore_def
      insert_task_event_row_def insert_message_row_def bump_message_sequence_def
      split: if_splits)

lemma insert_task_local_status: "stmt_keeps (local_status k s) (insert_task_row x)"
  by (auto simp: stmt_keeps_def insert_task_row_def guarded_Inr local_status_def split: if_splits)

lemma append_task_event_local_status [tx_intros]:
  "tx_keeps (local_status k s) (append_task_event j ty st pl)"
  unfolding append_task_event_def get_task_def get_task_event_def
  by (intro tx_intros statements_local_status)

lemma append_task_event_final [tx_intros]:
  "tx_keeps (local_status k s) (create_local_task j c m th ro att md ml mcp)"
  unfolding create_local_task_def create_task_def insert_new_task_def get_message_def get_task_def
  by (intro tx_intros insert_task_local_status)

lemma transition_local_task_final:
  assumes "is_terminal_task_status s"
  shows "tx_keeps (local_status k s) (transition_local_task j s' payload ec em er)"
proof (cases "j = k")
  case True
  have "validate_local_task_transition s s' = (if s' = s then Inr False else
      Inl (InvalidLocalTaskTransitionError (''invalid local task transition: '' @
        task_status_value s @ '' -> '' @ task_status_value s')))"
    using assms by (cases s) (auto simp: validate_local_task_transition_def)
  then show ?thesis
    unfolding transition_local_task_def True
    by (intro tx_transaction_wp)
       (auto simp: wp_rules get_task_def local_status_def tx_post_def)
next
  case False
  then show ?thesis
    unfolding transition_local_task_def get_task_def
    by (intro tx_intros local_status_set_task; simp)
qed

lemma local_ops_final:
  assumes "is_terminal_task_status s"
  shows "tx_keeps (local_status k s) (transition_local_task j s' payload ec em er)"
    "tx_keeps (local_status k s) (claim_queued_task_execution j)"
    "tx_keeps (local_status k s) (enqueue_task_execution j qk th pl v)"
    "tx_keeps (local_status k s) (clear_queued_task_execution j)"
    "tx_keeps (local_status k s) (set_pending_continuation j pk req)"
    "tx_keeps (local_status k s) (consume_pending_continuation j pk)"
    "tx_keeps (local_status k s) (clear_pending_continuation j)"
    "tx_keeps (local_status k s) (set_task_output_message j m)"
    "tx_keeps (local_status k s) (upsert_artifact aid j c parts md)"
    "tx_keeps (local_status k s) (append_task_event j ty st ep)"
    "tx_keeps (local_status k s)
      (accept_local_task_from_message did c m rk rs ta cf rmd j th q ro att)"
  unfolding claim_queued_task_execution_def enqueue_task_execution_def check_enqueue_def
    clear_queued_task_execution_def set_pending_continuation_def consume_pending_continuation_def
    clear_pending_continuation_def set_task_output_message_def update_task_output_def
    upsert_artifact_def accept_local_task_from_message_def record_route_decision_def
    set_message_ingress_route_decision_def resolve_message_ingress_def get_task_def get_message_def
    get_pending_continuation_def get_queued_task_execution_def get_artifact_def
    get_route_decision_def get_message_ingress_def
  by (intro tx_intros statements_local_status transition_local_task_final [OF assms]
      stmt_keeps_guarded; simp add: local_status_set_task)+

text \<open>
  Once a locally owned Task is completed, canceled or failed, no store
  operation of the local lifecycle changes its status: neither a transition, nor a
  claim, nor queueing, continuation, artifact, output, event or acceptance
  operations, on this Task or on any other.
\<close>

theorem terminal_status_final:
  assumes "is_terminal_task_status s"
  shows "tx_keeps (local_status k s) (transition_local_task j s' payload ec em er) \<and>
    tx_keeps (local_status k s) (claim_queued_task_execution j) \<and>
    tx_keeps (local_status k s) (enqueue_task_execution j qk th pl v) \<and>
    tx_keeps (local_status k s) (clear_queued_task_execution j) \<and>
    tx_keeps (local_status k s) (set_pending_continuation j pk req) \<and>
    tx_keeps (local_status k s) (consume_pending_continuation j pk) \<and>
    tx_keeps (local_status k s) (clear_pending_continuation j) \<and>
    tx_keeps (local_status k s) (set_task_output_message j m) \<and>
    tx_keeps (local_status k s) (upsert_artifact aid j c parts md) \<and>
    tx_keeps (local_status k s) (append_task_event j ty st ep) \<and>
    tx_keeps (local_status k s)
      (accept_local_task_from_message did c m rk rs ta cf rmd j th q ro att)"
  using local_ops_final [OF assms] by simp

theorem terminal_status_final_witness:
  "local_status ''task'' COMPLETED (sample_tables\<lparr>tb_tasks := [sample_task\<lparr>t_status := COMPLETED\<rparr>]\<rparr>) \<and>
   tx_keeps (local_status ''task'' COMPLETED) (transition_local_task ''task'' RUNNING [] None None False)"
  using terminal_status_final [of COMPLETED]
  by (simp add: local_status_def sample_defs table_simps)

lemma event_log_other_tables [simp]:
  "event_log_ok (t\<lparr>tb_contexts := a\<rparr>) = event_log_ok t" "event_log_ok (t\<lparr>tb_messages := b\<rparr>) = event_log_ok t"
  "event_log_ok (t\<lparr>tb_route_decisions := c\<rparr>) = event_log_ok t"
  "event_log_ok (t\<lparr>tb_artifacts := d\<rparr>) = event_log_ok t"
  "event_log_ok (t\<lparr>tb_pending_continuations := g\<rparr>) = event_log_ok t"
  "event_log_ok (t\<lparr>tb_message_ingress := h\<rparr>) = event_log_ok t"
  "event_log_ok (t\<lparr>tb_queued_executions := i\<rparr>) = event_log_ok t"
  "event_log_ok (t\<lparr>tb_tool_invocations := j\<rparr>) = event_log_ok t"
  by (simp_all add: event_log_ok_def has_task_def)

definition new_task_row ::
  "string \<Rightarrow> string \<Rightarrow> string \<Rightarrow> int \<Rightarrow> string \<Rightarrow> string option \<Rightarrow> int \<Rightarrow> timestamp \<Rightarrow> task_record" where
  "new_task_row k c mid n th ro att now =
     \<lparr>t_task_id = k, t_context_id = c, t_status = CREATED, t_input_message_id = mid,
      t_input_context_sequence = n, t_output_message_id = None,
      t_runtime_thread_id = th, t_assigned_agent_id = None, t_retry_of_task_id = ro,
      t_attempt = att, t_model = None, t_max_loops = None, t_mcp = None, t_error_code = None,
      t_error_message = None, t_error_retryable = False, t_lifecycle_revision = 1,
      t_created_at = now, t_updated_at = now\<rparr>"

lemma new_task_row_simps [simp]:
  "t_task_id (new_task_row k c mid n th ro att now) = k"
  "t_context_id (new_task_row k c mid n th ro att now) = c"
  "t_status (new_task_row k c mid n th ro att now) = CREATED"
  "t_input_message_id (new_task_row k c mid n th ro att now) = mid"
  "t_input_context_sequence (new_task_row k c mid n th ro att now) = n"
  "t_runtime_thread_id (new_task_row k c mid n th ro att now) = th"
  "t_assigned_agent_id (new_task_row k c mid n th ro att now) = None"
  "t_retry_of_task_id (new_task_row k c mid n th ro att now) = ro"
  "t_attempt (new_task_row k c mid n th ro att now) = att"
  "t_lifecycle_revision (new_task_row k c mid n th ro att now) = 1"
  by (simp_all add: new_task_row_def)

lemma status_row_keeps [simp]:
  "t_input_message_id (status_row s ec em er now x) = t_input_message_id x"
  "t_input_context_sequence (status_row s ec em er now x) = t_input_context_sequence x"
  "t_retry_of_task_id (status_row s ec em er now x) = t_retry_of_task_id x"
  "t_attempt (status_row s ec em er now x) = t_attempt x"
  by (simp_all add: status_row_def)

lemma add_event_frame [simp]:
  "tb_route_decisions (add_event e t) = tb_route_decisions t"
  "tb_artifacts (add_event e t) = tb_artifacts t"
  "tb_pending_continuations (add_event e t) = tb_pending_continuations t"
  "tb_tool_invocations (add_event e t) = tb_tool_invocations t"
  "tb_delegated_tasks (add_event e t) = tb_delegated_tasks t"
  by (simp_all add: add_event_def)

lemma history_other_tables [simp]:
  "history k (t\<lparr>tb_tasks := a\<rparr>) = history k t" "history k (t\<lparr>tb_route_decisions := b\<rparr>) = history k t"
  "history k (t\<lparr>tb_queued_executions := c\<rparr>) = history k t"
  "history k (t\<lparr>tb_messages := d\<rparr>) = history k t" "history k (t\<lparr>tb_contexts := e\<rparr>) = history k t"
  by (simp_all add: history_def events_of_def)

lemma event_log_new_task:
  "event_log_ok t \<Longrightarrow> tb_tasks t = xs \<Longrightarrow> event_log_ok (t\<lparr>tb_tasks := xs @ [x]\<rparr>)"
  by (auto simp: event_log_ok_def has_task_def)

lemma wp_create_local_task:
  assumes "event_log_ok (conn w)" and "0 < transaction_depth w"
    and "fetch m_message_id mid (tb_messages (conn w)) = Some m" "m_context_id m = c"
    and "0 < m_context_sequence m" "has_context (conn w) c" "\<not> has_task (conn w) k"
    and "\<not> list_ex (\<lambda>x. t_runtime_thread_id x = th) (tb_tasks (conn w))"
    and "ro = None \<or> \<not> list_ex (\<lambda>x. t_retry_of_task_id x = ro) (tb_tasks (conn w))"
    and "x = new_task_row k c mid (m_context_sequence m) th ro att (clock w (clock_reads w))"
    and "e = \<lparr>e_event_id = 0, e_task_id = k, e_type = ''task_created'', e_status = Some CREATED,
       e_lifecycle_revision = 1, e_payload = [], e_created_at = clock w (Suc (clock_reads w))\<rparr>"
  shows "wp (create_local_task k c mid th ro att None None None) Q E w =
     Q x (tx_leave (registered k (write_conn
       (add_event e ((conn w)\<lparr>tb_tasks := tb_tasks (conn w) @ [x]\<rparr>))
       ((tx_enter w)\<lparr>clock_reads := Suc (Suc (clock_reads w))\<rparr>))))"
proof -
  have none: "fetch t_task_id k (tb_tasks (conn w)) = None"
    using assms(7) by (simp add: has_task_def)
  then show ?thesis using assms event_log_new_task [OF assms(1) refl]
    by (auto simp: create_local_task_def create_task_def insert_new_task_def new_task_row_def
         wp_rules get_task_def
         get_message_def dumps_opt_def insert_task_row_def guarded_def has_task_def has_message_def
         has_context_def opt_ref_def table_simps wp_append_task_event Let_def)
qed

lemma wp_record_route_decision:
  assumes "has_message (conn w) mid" and "has_context (conn w) c" and "\<not> has_decision (conn w) did"
    and "dumps_dict md = Inr meta"
    and "d = \<lparr>r_decision_id = did, r_context_id = c, r_message_id = mid,
        r_kind = rk, r_target_agent_id = ta, r_reason = rs,
        r_confidence = cf, r_metadata = meta, r_created_at = clock w (clock_reads w)\<rparr>"
  shows "wp (record_route_decision did c mid rk rs ta cf md) Q E w =
    Q d (write_conn ((conn w)\<lparr>tb_route_decisions := tb_route_decisions (conn w) @ [d]\<rparr>)
           (w\<lparr>clock_reads := Suc (clock_reads w)\<rparr>))"
  using assms
  by (auto simp: record_route_decision_def wp_rules get_message_def get_route_decision_def
      insert_route_decision_row_def guarded_def has_message_def has_decision_def table_simps)

text \<open>The statements on an ingress row in progress, as the row they leave.\<close>

definition ingress_set :: "string \<Rightarrow> (message_ingress_record \<Rightarrow> message_ingress_record) \<Rightarrow> tables \<Rightarrow> tables" where
  "ingress_set mid f t = t\<lparr>tb_message_ingress :=
     set_where (\<lambda>r. i_message_id r = mid \<and> i_state r = IN_PROGRESS) f (tb_message_ingress t)\<rparr>"

lemma ingress_set_simps [simp]:
  "tb_tasks (ingress_set m f t) = tb_tasks t" "tb_messages (ingress_set m f t) = tb_messages t"
  "tb_contexts (ingress_set m f t) = tb_contexts t"
  "tb_queued_executions (ingress_set m f t) = tb_queued_executions t"
  "tb_route_decisions (ingress_set m f t) = tb_route_decisions t"
  "tb_task_events (ingress_set m f t) = tb_task_events t"
  "event_log_ok (ingress_set m f t) = event_log_ok t"
  "has_context (ingress_set m f t) = has_context t" "has_task (ingress_set m f t) = has_task t"
  "has_message (ingress_set m f t) = has_message t"
  "history k (ingress_set m f t) = history k t"
  by (simp_all add: ingress_set_def has_context_def has_task_def has_message_def history_def
      events_of_def fun_eq_iff)

lemma fetch_ingress_set:
  assumes "fetch i_message_id mid (tb_message_ingress t) = Some i" "i_state i = IN_PROGRESS"
    and "\<And>r. i_message_id (f r) = i_message_id r"
  shows "fetch i_message_id mid (tb_message_ingress (ingress_set mid f t)) = Some (f i)"
  using assms fetch_SomeD [OF assms(1)]
  by (simp add: ingress_set_def fetch_set_where)

lemma count_in_progress:
  assumes "fetch i_message_id mid (tb_message_ingress t) = Some i" "i_state i = IN_PROGRESS"
  shows "0 < count_where (\<lambda>r. i_message_id r = mid \<and> i_state r = IN_PROGRESS) (tb_message_ingress t)"
  using fetch_SomeD [OF assms(1)] assms(2) count_where_0
  by (metis (mono_tags, lifting) bot_nat_0.not_eq_extremum)

lemma wp_set_message_ingress_route_decision:
  assumes "has_decision (conn w) did"
    and "fetch i_message_id mid (tb_message_ingress (conn w)) = Some i" "i_state i = IN_PROGRESS"
    and "f = (\<lambda>r. r\<lparr>i_route_decision_id := Some did, i_updated_at := clock w (clock_reads w)\<rparr>)"
  shows "wp (set_message_ingress_route_decision mid did) Q E w =
    Q (f i) (write_conn (ingress_set mid f (conn w)) (w\<lparr>clock_reads := Suc (clock_reads w)\<rparr>))"
proof -
  have "fetch i_message_id mid (tb_message_ingress (ingress_set mid f (conn w))) = Some (f i)"
    by (rule fetch_ingress_set) (use assms in auto)
  then show ?thesis
    using assms count_in_progress [OF assms(2,3)]
    by (auto simp: set_message_ingress_route_decision_def wp_rules get_route_decision_def
        get_message_ingress_def update_in_progress_def Let_def has_decision_def ingress_set_def)
qed

lemma wp_resolve_message_ingress:
  assumes "fetch i_message_id mid (tb_message_ingress (conn w)) = Some i" "i_state i = IN_PROGRESS"
    and "f = (\<lambda>r. r\<lparr>i_state := RESOLVED, i_outcome_kind := Some ok,
              i_outcome_id := Some oid, i_error_code := None, i_error_message := None,
              i_error_http_status := None, i_error_retryable := False,
              i_updated_at := clock w (clock_reads w)\<rparr>)"
  shows "wp (resolve_message_ingress mid ok oid) Q E w =
    Q (f i) (write_conn (ingress_set mid f (conn w)) (w\<lparr>clock_reads := Suc (clock_reads w)\<rparr>))"
proof -
  have "fetch i_message_id mid (tb_message_ingress (ingress_set mid f (conn w))) = Some (f i)"
    by (rule fetch_ingress_set) (use assms in auto)
  then show ?thesis
    using assms count_in_progress [OF assms(1,2)]
    by (auto simp: resolve_message_ingress_def wp_rules get_message_ingress_def
        update_in_progress_def Let_def ingress_set_def)
qed

lemma wp_enqueue_initial:
  assumes "fetch t_task_id k (tb_tasks (conn w)) = Some x" "t_assigned_agent_id x = None"
    "t_status x = QUEUED" "t_runtime_thread_id x = th"
    and "fetch q_task_id k (tb_queued_executions (conn w)) = None"
    and "q = \<lparr>q_task_id = k, q_kind = ''initial'', q_runtime_thread_id = th, q_command_version = 1,
       q_payload = Some (PDict []), q_created_at = clock w (clock_reads w)\<rparr>"
  shows "wp (enqueue_task_execution k INITIAL th None LOCAL_EXECUTION_COMMAND_VERSION) Q E w =
    Q \<lparr>qe_task_id = k, qe_kind = INITIAL, qe_runtime_thread_id = th, qe_command_version = 1,
       qe_payload = InitialTaskExecutionPayload, qe_created_at = clock w (clock_reads w)\<rparr>
      (write_conn ((conn w)\<lparr>tb_queued_executions := tb_queued_executions (conn w) @ [q]\<rparr>)
         (w\<lparr>clock_reads := Suc (clock_reads w)\<rparr>))"
  using assms
  by (simp add: enqueue_task_execution_def check_enqueue_def wp_rules get_task_def
      get_queued_task_execution_def queued_task_execution_payload_to_dict_def
      insert_queued_execution_row_def guarded_def has_task_def table_simps
      queued_task_execution_from_row_def queued_kind_of_value_def
      queued_task_execution_payload_from_dict_def LOCAL_EXECUTION_COMMAND_VERSION_def)

text \<open>
  C9. Accepting a routed Message as a local Task.  Outside a transaction, for a
  Message of the Context whose ingress is in progress and with unused
  identifiers, acceptance succeeds and commits everything together: the route
  decision, the new Task with its \<open>task_created\<close> event, the resolved ingress that
  names the Task, and, when execution is queued, the \<open>QUEUED\<close> status with its
  event and the initial worker command.
\<close>

theorem accept_local_task_commits:
  assumes "task_inv (conn w)" and "seq_inv (conn w)" and "transaction_depth w = 0"
    and "fetch m_message_id mid (tb_messages (conn w)) = Some m" "m_context_id m = c"
    and "fetch i_message_id mid (tb_message_ingress (conn w)) = Some i" "i_state i = IN_PROGRESS"
    and "\<not> has_decision (conn w) did" "\<not> has_task (conn w) k"
    and "\<not> list_ex (\<lambda>x. t_runtime_thread_id x = th) (tb_tasks (conn w))"
    and "ro = None \<or> \<not> list_ex (\<lambda>x. t_retry_of_task_id x = ro) (tb_tasks (conn w))"
    and "fetch q_task_id k (tb_queued_executions (conn w)) = None"
    and "dumps_dict md = Inr meta"
  shows "wp (accept_local_task_from_message did c mid LOCAL_TASK rs ta cf md k th queue ro att)
    (\<lambda>(d, x) w'. durable w' = conn w' \<and> transaction_depth w' = 0 \<and>
       r_decision_id d = did \<and> r_message_id d = mid \<and> r_metadata d = meta \<and>
       fetch r_decision_id did (tb_route_decisions (conn w')) = Some d \<and>
       t_task_id x = k \<and> t_input_message_id x = mid \<and> t_runtime_thread_id x = th \<and>
       t_input_context_sequence x = m_context_sequence m \<and>
       t_retry_of_task_id x = ro \<and> t_attempt x = att \<and>
       t_status x = (if queue then QUEUED else CREATED) \<and>
       fetch t_task_id k (tb_tasks (conn w')) = Some x \<and>
       history k (conn w') = (if queue then [CREATED, QUEUED] else [CREATED]) \<and>
       (\<exists>j. fetch i_message_id mid (tb_message_ingress (conn w')) = Some j \<and>
          i_state j = RESOLVED \<and> i_outcome_kind j = Some TASK_OUTCOME \<and>
          i_outcome_id j = Some k \<and> i_route_decision_id j = Some did) \<and>
       (if queue then \<exists>q. fetch q_task_id k (tb_queued_executions (conn w')) = Some q \<and>
            q_kind q = ''initial'' \<and> q_runtime_thread_id q = th
        else fetch q_task_id k (tb_queued_executions (conn w')) = None))
    (\<lambda>_ _. False) w"
proof -
  have log: "event_log_ok (conn w)" using assms(1) by (simp add: task_inv_def)
  have m: "0 < m_context_sequence m" "has_context (conn w) c"
    using assms(2,5) fetch_SomeD [OF assms(4)] by (fastforce simp: seq_inv_def has_context_def)+
  have none: "fetch t_task_id k (tb_tasks (conn w)) = None" "fetch r_decision_id did (tb_route_decisions (conn w)) = None"
    using assms(8,9) by (simp_all add: has_task_def has_decision_def)
  have "history k (conn w) = []"
    using assms(1,9) by (auto simp: history_def events_of_def task_inv_def event_log_ok_def filter_empty_conv)
  moreover have "has_message (conn w) mid" using assms(4) by (simp add: has_message_def)
  ultimately show ?thesis
    using assms log m none
    by (simp add: accept_local_task_from_message_def wp_rules
      wp_record_route_decision [OF _ _ _ _ refl] has_decision_def has_context_def has_task_def
      wp_set_message_ingress_route_decision [OF _ _ _ refl]
      wp_create_local_task [OF _ _ _ _ _ _ _ _ _ refl refl]
      wp_resolve_message_ingress [OF _ _ refl] table_simps fetch_ingress_set event_log_add_event
      event_log_new_task wp_transition_local_task Let_def local_step_iff tb_tasks_set_task
      wp_enqueue_initial [OF _ _ _ _ _ refl])
qed

theorem accept_local_task_commits_witness:
  "wp (accept_local_task_from_message ''d'' ''ctx'' ''msg'' LOCAL_TASK ''why'' None None [] ''task2''
         ''thread2'' True None 1)
     (\<lambda>(d, x) w'. t_status x = QUEUED \<and> durable w' = conn w') (\<lambda>_ _. False)
     (world_of sample_tables)"
  by (rule wp_mono [OF accept_local_task_commits [where m = sample_message and i = sample_ingress
          and meta = "[]"]])
     (simp_all add: sample_seq_inv sample_task_inv split: prod.splits,
      simp_all add: sample_defs table_simps has_decision_def has_task_def)

end
