(* ===== verification/Store_Invocations.thy ===== *)
theory Store_Invocations
  imports Store_Tasks
begin

text \<open>
  The durable ledger of tool invocations of \<open>MainAgentStore\<close>
  (\<open>main_agent/store.py\<close>): one row per external effect a Task may have, with its
  approval and its execution status.

  The lemmas show that replaying the same tool call returns the same row, that
  an effect which needs approval runs only after it was approved, that a status
  only moves forward and never leaves a terminal one, and that a succeeded
  invocation has its result artifact.
\<close>

section \<open>Reading\<close>

definition has_potentially_side_effecting_tool_invocation :: "string \<Rightarrow> bool py" where
  "has_potentially_side_effecting_tool_invocation task_id =
     query (\<lambda>t. list_ex (\<lambda>v. v_task_id v = task_id \<and> v_side_effect_level v \<noteq> ''none'')
                  (tb_tool_invocations t))"

definition get_tool_invocation :: "string \<Rightarrow> tool_invocation_record option py" where
  "get_tool_invocation invocation_id =
     query (\<lambda>t. fetch v_invocation_id invocation_id (tb_tool_invocations t))"

definition get_tool_invocation_by_execution_identity ::
  "string \<Rightarrow> string \<Rightarrow> int \<Rightarrow> string \<Rightarrow> string \<Rightarrow> tool_invocation_record option py" where
  "get_tool_invocation_by_execution_identity task_id runtime_thread_id loop_index tool_call_id
     arguments_digest =
     query (\<lambda>t. find (\<lambda>v. v_task_id v = task_id \<and> v_runtime_thread_id v = runtime_thread_id \<and>
        v_loop_index v = loop_index \<and> v_tool_call_id v = tool_call_id \<and>
        v_arguments_digest v = arguments_digest) (tb_tool_invocations t))"

definition find_latest_tool_invocation_for_effect ::
  "string \<Rightarrow> string \<Rightarrow> string \<Rightarrow> tool_invocation_record option py" where
  "find_latest_tool_invocation_for_effect task_id tool_name arguments_digest =
     query (\<lambda>t. case rev (sort_key (\<lambda>v. (v_created_at v, v_invocation_id v))
         (filter (\<lambda>v. v_task_id v = task_id \<and> v_tool_name v = tool_name \<and>
            v_arguments_digest v = arguments_digest) (tb_tool_invocations t))) of
       [] \<Rightarrow> None | v # _ \<Rightarrow> Some v)"

definition list_task_tool_invocations :: "string \<Rightarrow> tool_invocation_record list py" where
  "list_task_tool_invocations task_id =
     bindM (get_task task_id) (\<lambda>x.
     bindM (raise_if (x = None) (ValueError (''unknown task: '' @ task_id))) (\<lambda>_.
     query (\<lambda>t. sort_key (\<lambda>v. (v_created_at v, v_invocation_id v))
       (filter (\<lambda>v. v_task_id v = task_id) (tb_tool_invocations t)))))"

section \<open>Creating an invocation\<close>

definition validate_tool_invocation_identity ::
  "tool_invocation_record \<Rightarrow> string \<Rightarrow> string \<Rightarrow> string \<Rightarrow> int \<Rightarrow> string \<Rightarrow> string \<Rightarrow> string \<Rightarrow> exn + unit" where
  "validate_tool_invocation_identity record task_id context_id runtime_thread_id loop_index
     tool_call_id tool_name arguments_digest =
     (if v_task_id record \<noteq> task_id \<or> v_context_id record \<noteq> context_id \<or>
         v_runtime_thread_id record \<noteq> runtime_thread_id \<or> v_loop_index record \<noteq> loop_index \<or>
         v_tool_call_id record \<noteq> tool_call_id \<or> v_tool_name record \<noteq> tool_name \<or>
         v_arguments_digest record \<noteq> arguments_digest
      then Inl (ValueError (''tool invocation identity conflict: '' @ v_invocation_id record))
      else Inr ())"

definition insert_new_invocation ::
  "string \<Rightarrow> string \<Rightarrow> string \<Rightarrow> string \<Rightarrow> int \<Rightarrow> string \<Rightarrow> string \<Rightarrow> pydict \<Rightarrow> string \<Rightarrow> pydict \<Rightarrow>
   string \<Rightarrow> string option \<Rightarrow> bool \<Rightarrow> tool_invocation_record py" where
  "insert_new_invocation invocation_id task_id context_id runtime_thread_id loop_index tool_call_id
     tool_name normalized_arguments arguments_digest capability side_effect_level idempotency_key
     approval_required =
     bindM utc_now (\<lambda>now.
     bindM (liftE (dumps_dict normalized_arguments)) (\<lambda>args.
     bindM (liftE (dumps_dict capability)) (\<lambda>cap.
     bindM (execute (insert_tool_invocation_row
       \<lparr>v_invocation_id = invocation_id, v_task_id = task_id, v_context_id = context_id,
        v_runtime_thread_id = runtime_thread_id, v_loop_index = loop_index,
        v_tool_call_id = tool_call_id, v_tool_name = tool_name, v_normalized_arguments = args,
        v_arguments_digest = arguments_digest, v_capability = cap,
        v_side_effect_level = side_effect_level, v_idempotency_key = idempotency_key,
        v_approval_required = approval_required,
        v_approval_status = (if approval_required then PENDING else NOT_REQUIRED),
        v_approval_reason = None, v_status = PREPARED, v_result_artifact_id = None,
        v_error_code = None, v_error_message = None, v_error_retryable = False,
        v_created_at = now, v_started_at = None, v_completed_at = None, v_updated_at = now\<rparr>)) (\<lambda>_.
     bindM (get_tool_invocation invocation_id) (\<lambda>record.
     require_some record (RuntimeError (''failed to create tool invocation: '' @ invocation_id)))))))"

text \<open>The checks on the owning Task.\<close>

definition check_invocation_owner :: "string \<Rightarrow> string \<Rightarrow> string \<Rightarrow> unit py" where
  "check_invocation_owner task_id context_id runtime_thread_id =
     bindM (get_task task_id) (\<lambda>x.
     bindM (require_some x (ValueError (''unknown task: '' @ task_id))) (\<lambda>task.
     bindM (raise_if (t_context_id task \<noteq> context_id)
              (ValueError (''tool invocation context mismatch: '' @ task_id))) (\<lambda>_.
     bindM (raise_if (t_runtime_thread_id task \<noteq> runtime_thread_id)
              (ValueError (''tool invocation runtime thread mismatch: '' @ task_id))) (\<lambda>_.
     raise_if (t_assigned_agent_id task \<noteq> None)
              (ValueError (''remote proxy task cannot own a local tool invocation: '' @ task_id))))))"

definition create_or_get_tool_invocation ::
  "string \<Rightarrow> string \<Rightarrow> string \<Rightarrow> string \<Rightarrow> int \<Rightarrow> string \<Rightarrow> string \<Rightarrow> pydict \<Rightarrow> string \<Rightarrow> pydict \<Rightarrow>
   string \<Rightarrow> string option \<Rightarrow> bool \<Rightarrow> tool_invocation_record py" where
  "create_or_get_tool_invocation invocation_id task_id context_id runtime_thread_id loop_index
     tool_call_id tool_name normalized_arguments arguments_digest capability side_effect_level
     idempotency_key approval_required =
     bindM (raise_if (loop_index < 1) (ValueError ''tool invocation loop_index must be positive'')) (\<lambda>_.
     bindM (raise_if (invocation_id = '''' \<or> tool_call_id = '''' \<or> tool_name = '''' \<or>
                      arguments_digest = '''')
              (ValueError ''tool invocation identity fields are required'')) (\<lambda>_.
     transaction (
     bindM (check_invocation_owner task_id context_id runtime_thread_id) (\<lambda>_.
     bindM (get_tool_invocation invocation_id) (\<lambda>existing.
     case existing of
       Some record \<Rightarrow>
         bindM (liftE (validate_tool_invocation_identity record task_id context_id runtime_thread_id
           loop_index tool_call_id tool_name arguments_digest)) (\<lambda>_. returnM record)
     | None \<Rightarrow>
         bindM (get_tool_invocation_by_execution_identity task_id runtime_thread_id loop_index
           tool_call_id arguments_digest) (\<lambda>identity_match.
         case identity_match of
           Some record \<Rightarrow>
             bindM (liftE (validate_tool_invocation_identity record task_id context_id
               runtime_thread_id loop_index tool_call_id tool_name arguments_digest)) (\<lambda>_.
             returnM record)
         | None \<Rightarrow>
             insert_new_invocation invocation_id task_id context_id runtime_thread_id loop_index
               tool_call_id tool_name normalized_arguments arguments_digest capability
               side_effect_level idempotency_key approval_required))))))"

section \<open>Changing an invocation\<close>

text \<open>\<open>UPDATE main_agent_tool_invocations SET ... WHERE ...\<close> and its row count.\<close>

definition set_invocations ::
  "(tool_invocation_record \<Rightarrow> bool) \<Rightarrow> (tool_invocation_record \<Rightarrow> tool_invocation_record) \<Rightarrow> nat statement" where
  "set_invocations P f t = Inr (count_where P (tb_tool_invocations t),
     t\<lparr>tb_tool_invocations := set_where P f (tb_tool_invocations t)\<rparr>)"

definition running_row :: "timestamp \<Rightarrow> tool_invocation_record \<Rightarrow> tool_invocation_record" where
  "running_row now v = v\<lparr>v_status := INV_RUNNING, v_started_at := Some now, v_updated_at := now\<rparr>"

definition canceled_row :: "string \<Rightarrow> timestamp \<Rightarrow> tool_invocation_record \<Rightarrow> tool_invocation_record" where
  "canceled_row reason now v = v\<lparr>v_status := INV_CANCELED,
     v_error_code := Some ''tool_invocation_canceled'', v_error_message := Some reason,
     v_completed_at := Some now, v_updated_at := now\<rparr>"

definition uncertain_row ::
  "string \<Rightarrow> string \<Rightarrow> bool \<Rightarrow> timestamp \<Rightarrow> tool_invocation_record \<Rightarrow> tool_invocation_record" where
  "uncertain_row error_code error_message retryable now v = v\<lparr>v_status := UNCERTAIN,
     v_error_code := Some error_code, v_error_message := Some error_message,
     v_error_retryable := retryable, v_completed_at := Some now, v_updated_at := now\<rparr>"

definition succeeded_row :: "string \<Rightarrow> timestamp \<Rightarrow> tool_invocation_record \<Rightarrow> tool_invocation_record" where
  "succeeded_row artifact_id now v = v\<lparr>v_status := SUCCEEDED, v_result_artifact_id := Some artifact_id,
     v_error_code := None, v_error_message := None, v_error_retryable := False,
     v_completed_at := Some now, v_updated_at := now\<rparr>"

definition approval_row ::
  "bool \<Rightarrow> string option \<Rightarrow> timestamp \<Rightarrow> tool_invocation_record \<Rightarrow> tool_invocation_record" where
  "approval_row approved reason now v =
     (if approved
      then v\<lparr>v_approval_status := APPROVED, v_approval_reason := reason, v_updated_at := now\<rparr>
      else v\<lparr>v_approval_status := REJECTED, v_approval_reason := reason, v_status := INV_CANCELED,
             v_completed_at := Some now, v_updated_at := now\<rparr>)"

definition begin_tool_invocation :: "string \<Rightarrow> tool_invocation_record py" where
  "begin_tool_invocation invocation_id = transaction (
     bindM (get_tool_invocation invocation_id) (\<lambda>r.
     bindM (require_some r (ValueError (''unknown tool invocation: '' @ invocation_id))) (\<lambda>record.
     if v_status record \<noteq> PREPARED then returnM record
     else if v_approval_required record \<and> v_approval_status record \<noteq> APPROVED then returnM record
     else
       bindM utc_now (\<lambda>now.
       bindM (execute (set_invocations
         (\<lambda>v. v_invocation_id v = invocation_id \<and> v_status v = PREPARED) (running_row now))) (\<lambda>_.
       bindM (get_tool_invocation invocation_id) (\<lambda>updated.
       require_some updated (RuntimeError (''failed to start tool invocation: '' @ invocation_id))))))))"

definition resolve_tool_invocation_approval ::
  "string \<Rightarrow> string \<Rightarrow> string \<Rightarrow> string \<Rightarrow> bool \<Rightarrow> string option \<Rightarrow> tool_invocation_record py" where
  "resolve_tool_invocation_approval task_id invocation_id tool_name arguments_digest approved reason =
     transaction (
     bindM (get_tool_invocation invocation_id) (\<lambda>r.
     bindM (require_some r (ValueError (''unknown tool invocation: '' @ invocation_id))) (\<lambda>record.
     bindM (raise_if (v_task_id record \<noteq> task_id \<or> v_tool_name record \<noteq> tool_name \<or>
                      v_arguments_digest record \<noteq> arguments_digest)
              (ValueError (''approval does not match tool invocation: '' @ invocation_id))) (\<lambda>_.
     bindM (raise_if (\<not> v_approval_required record)
              (ValueError (''tool invocation does not require approval: '' @ invocation_id))) (\<lambda>_.
     if v_approval_status record = (if approved then APPROVED else REJECTED) then returnM record
     else
       bindM (raise_if (v_approval_status record \<noteq> PENDING)
                (ValueError (''tool invocation approval is already resolved: '' @ invocation_id))) (\<lambda>_.
       bindM (raise_if (v_status record \<noteq> PREPARED)
                (ValueError (''tool invocation is no longer awaiting approval: '' @ invocation_id))) (\<lambda>_.
       bindM utc_now (\<lambda>now.
       bindM (execute (set_invocations (\<lambda>v. v_invocation_id v = invocation_id)
                (approval_row approved reason now))) (\<lambda>_.
       bindM (get_tool_invocation invocation_id) (\<lambda>updated.
       require_some updated
         (RuntimeError (''failed to resolve tool invocation approval: '' @ invocation_id))))))))))))"

definition nonempty_str :: "pyval \<Rightarrow> bool" where
  "nonempty_str v = (case v of PStr s \<Rightarrow> s \<noteq> '''' | _ \<Rightarrow> False)"

definition resolve_pending_tool_invocation_approval ::
  "string \<Rightarrow> pydict \<Rightarrow> bool \<Rightarrow> string option \<Rightarrow> tool_invocation_record option py" where
  "resolve_pending_tool_invocation_approval task_id input_request approved reason =
     (let invocation_id = dget input_request ''invocationId'';
          tool_name = dget input_request ''toolName'';
          arguments_digest = dget input_request ''argumentsDigest'' in
      if invocation_id = PNone \<and> tool_name = PNone \<and> arguments_digest = PNone then returnM None
      else
        bindM (raise_if (\<not> list_all nonempty_str [invocation_id, tool_name, arguments_digest])
                 (ValueError ''approval request has an invalid tool invocation binding'')) (\<lambda>_.
        bindM (resolve_tool_invocation_approval task_id (the (as_str invocation_id))
                 (the (as_str tool_name)) (the (as_str arguments_digest)) approved reason) (\<lambda>r.
        returnM (Some r))))"

definition complete_tool_invocation_success ::
  "string \<Rightarrow> pyval list \<Rightarrow> pydict \<Rightarrow> tool_invocation_record py" where
  "complete_tool_invocation_success invocation_id artifact_parts artifact_metadata = transaction (
     bindM (get_tool_invocation invocation_id) (\<lambda>r.
     bindM (require_some r (ValueError (''unknown tool invocation: '' @ invocation_id))) (\<lambda>record.
     if v_status record = SUCCEEDED then returnM record
     else
       bindM (raise_if (v_status record \<noteq> INV_RUNNING)
                (ValueError (''tool invocation is not running: '' @ invocation_id))) (\<lambda>_.
       bindM (upsert_artifact (invocation_id @ '':result'') (v_task_id record) (v_context_id record)
                artifact_parts artifact_metadata) (\<lambda>artifact.
       bindM (append_task_event (v_task_id record) ''task_artifact_created'' None
                [(''artifact_id'', PStr (a_artifact_id artifact)),
                 (''kind'', PStr ''tool_invocation_result''),
                 (''invocation_id'', PStr invocation_id)]) (\<lambda>_.
       bindM utc_now (\<lambda>now.
       bindM (execute (set_invocations (\<lambda>v. v_invocation_id v = invocation_id)
                (succeeded_row (a_artifact_id artifact) now))) (\<lambda>_.
       bindM (get_tool_invocation invocation_id) (\<lambda>updated.
       require_some updated
         (RuntimeError (''failed to complete tool invocation: '' @ invocation_id)))))))))))"

definition mark_tool_invocation_uncertain ::
  "string \<Rightarrow> string \<Rightarrow> string \<Rightarrow> bool \<Rightarrow> tool_invocation_record py" where
  "mark_tool_invocation_uncertain invocation_id error_code error_message retryable = transaction (
     bindM (get_tool_invocation invocation_id) (\<lambda>r.
     bindM (require_some r (ValueError (''unknown tool invocation: '' @ invocation_id))) (\<lambda>record.
     if v_status record = UNCERTAIN then returnM record
     else if v_status record \<in> {SUCCEEDED, INV_FAILED, INV_CANCELED} then returnM record
     else
       bindM utc_now (\<lambda>now.
       bindM (execute (set_invocations (\<lambda>v. v_invocation_id v = invocation_id)
                (uncertain_row error_code error_message retryable now))) (\<lambda>_.
       bindM (get_tool_invocation invocation_id) (\<lambda>updated.
       require_some updated
         (RuntimeError (''failed to mark tool invocation uncertain: '' @ invocation_id))))))))"

definition cancel_tool_invocation :: "string \<Rightarrow> string \<Rightarrow> tool_invocation_record py" where
  "cancel_tool_invocation invocation_id reason = transaction (
     bindM (get_tool_invocation invocation_id) (\<lambda>r.
     bindM (require_some r (ValueError (''unknown tool invocation: '' @ invocation_id))) (\<lambda>record.
     if v_status record = INV_CANCELED then returnM record
     else if v_status record \<noteq> PREPARED then returnM record
     else
       bindM utc_now (\<lambda>now.
       bindM (execute (set_invocations (\<lambda>v. v_invocation_id v = invocation_id)
                (canceled_row reason now))) (\<lambda>_.
       bindM (get_tool_invocation invocation_id) (\<lambda>updated.
       require_some updated
         (RuntimeError (''failed to cancel tool invocation: '' @ invocation_id))))))))"

definition cancel_prepared_tool_invocations :: "string \<Rightarrow> string \<Rightarrow> nat py" where
  "cancel_prepared_tool_invocations task_id reason =
     bindM utc_now (\<lambda>now.
     execute (set_invocations (\<lambda>v. v_task_id v = task_id \<and> v_status v = PREPARED)
       (canceled_row reason now)))"

definition mark_running_tool_invocations_uncertain ::
  "string \<Rightarrow> string \<Rightarrow> string \<Rightarrow> bool \<Rightarrow> nat py" where
  "mark_running_tool_invocations_uncertain task_id error_code error_message retryable =
     bindM utc_now (\<lambda>now.
     execute (set_invocations (\<lambda>v. v_task_id v = task_id \<and> v_status v = INV_RUNNING)
       (uncertain_row error_code error_message retryable now)))"

section \<open>Statuses only move forward\<close>

definition inv_step :: "tool_invocation_status \<Rightarrow> tool_invocation_status \<Rightarrow> bool" where
  "inv_step a b \<longleftrightarrow>
     (a, b) \<in> {(PREPARED, INV_RUNNING), (PREPARED, INV_CANCELED), (PREPARED, UNCERTAIN),
               (INV_RUNNING, SUCCEEDED), (INV_RUNNING, UNCERTAIN)}"

definition inv_terminal :: "tool_invocation_status \<Rightarrow> bool" where
  "inv_terminal s \<longleftrightarrow> s \<in> {SUCCEEDED, INV_FAILED, UNCERTAIN, INV_CANCELED}"

primrec inv_rank :: "tool_invocation_status \<Rightarrow> nat" where
  "inv_rank PREPARED = 0"
| "inv_rank INV_RUNNING = 1"
| "inv_rank SUCCEEDED = 2"
| "inv_rank INV_FAILED = 2"
| "inv_rank UNCERTAIN = 2"
| "inv_rank INV_CANCELED = 2"

interpretation ledger: ranked_lifecycle_graph inv_step inv_terminal inv_rank
  by unfold_locales (auto simp: inv_step_def inv_terminal_def)

lemma inv_step_simps [simp]:
  "inv_step PREPARED INV_RUNNING" "inv_step PREPARED INV_CANCELED" "inv_step PREPARED UNCERTAIN"
  "inv_step INV_RUNNING SUCCEEDED" "inv_step INV_RUNNING UNCERTAIN"
  by (simp_all add: inv_step_def)

lemma inv_step_uncertain:
  "s \<noteq> SUCCEEDED \<Longrightarrow> s \<noteq> INV_FAILED \<Longrightarrow> s \<noteq> INV_CANCELED \<Longrightarrow> s \<noteq> UNCERTAIN \<Longrightarrow> inv_step s UNCERTAIN"
  by (cases s) simp_all

definition same_effect :: "tool_invocation_record \<Rightarrow> tool_invocation_record \<Rightarrow> bool" where
  "same_effect u v \<longleftrightarrow>
     v_invocation_id u = v_invocation_id v \<and> v_task_id u = v_task_id v \<and>
     v_context_id u = v_context_id v \<and> v_runtime_thread_id u = v_runtime_thread_id v \<and>
     v_loop_index u = v_loop_index v \<and> v_tool_call_id u = v_tool_call_id v \<and>
     v_tool_name u = v_tool_name v \<and> v_normalized_arguments u = v_normalized_arguments v \<and>
     v_arguments_digest u = v_arguments_digest v \<and> v_capability u = v_capability v \<and>
     v_side_effect_level u = v_side_effect_level v \<and> v_idempotency_key u = v_idempotency_key v \<and>
     v_approval_required u = v_approval_required v \<and> v_created_at u = v_created_at v"

lemma same_effect_rows [simp]:
  "same_effect u (running_row now v) = same_effect u v"
  "same_effect u (canceled_row rs now v) = same_effect u v"
  "same_effect u (uncertain_row ec em rt now v) = same_effect u v"
  "same_effect u (succeeded_row aid now v) = same_effect u v"
  "same_effect u (approval_row ap rs' now v) = same_effect u v"
  by (auto simp: same_effect_def running_row_def canceled_row_def uncertain_row_def
      succeeded_row_def approval_row_def)

lemma row_id_simps [simp]:
  "v_invocation_id (running_row now v) = v_invocation_id v"
  "v_invocation_id (canceled_row rs now v) = v_invocation_id v"
  "v_invocation_id (uncertain_row ec em rt now v) = v_invocation_id v"
  "v_invocation_id (succeeded_row aid now v) = v_invocation_id v"
  "v_invocation_id (approval_row ap rs' now v) = v_invocation_id v"
  "v_status (running_row now v) = INV_RUNNING" "v_status (canceled_row rs now v) = INV_CANCELED"
  "v_status (uncertain_row ec em rt now v) = UNCERTAIN"
  "v_status (succeeded_row aid now v) = SUCCEEDED"
  "v_status (approval_row ap rs' now v) = (if ap then v_status v else INV_CANCELED)"
  by (auto simp: running_row_def canceled_row_def uncertain_row_def succeeded_row_def approval_row_def)

text \<open>The row of \<open>v\<close>'s effect, at \<open>v\<close>'s status or a later one.\<close>

definition descends :: "tool_invocation_record \<Rightarrow> tables \<Rightarrow> bool" where
  "descends v t \<longleftrightarrow> (\<exists>u. fetch v_invocation_id (v_invocation_id v) (tb_tool_invocations t) = Some u \<and>
     same_effect v u \<and> inv_step\<^sup>*\<^sup>* (v_status v) (v_status u))"

definition invocation_is :: "tool_invocation_record \<Rightarrow> tables \<Rightarrow> bool" where
  "invocation_is v t \<longleftrightarrow>
     fetch v_invocation_id (v_invocation_id v) (tb_tool_invocations t) = Some v"

lemma ledger_other_tables [simp]:
  "descends v (t\<lparr>tb_artifacts := a\<rparr>) = descends v t"
  "descends v (t\<lparr>tb_task_events := b, tb_event_seq := n\<rparr>) = descends v t"
  "descends v (set_task k f t) = descends v t"
  "invocation_is v (t\<lparr>tb_artifacts := a\<rparr>) = invocation_is v t"
  "invocation_is v (t\<lparr>tb_task_events := b, tb_event_seq := n\<rparr>) = invocation_is v t"
  "invocation_is v (set_task k f t) = invocation_is v t"
  by (simp_all add: descends_def invocation_is_def)

lemma set_invocations_descends:
  assumes "\<And>u. P u \<Longrightarrow> inv_step (v_status u) (v_status (f u)) \<or> v_status (f u) = v_status u"
    and "\<And>w u. same_effect w (f u) = same_effect w u"
    and "\<And>u. v_invocation_id (f u) = v_invocation_id u"
  shows "stmt_keeps (descends v) (set_invocations P f)"
proof -
  have "inv_step\<^sup>*\<^sup>* s (v_status (f u))" if "inv_step\<^sup>*\<^sup>* s (v_status u)" "P u" for s u
    using that assms(1) [of u] by (metis rtranclp.rtrancl_into_rtrancl)
  then have "descends v (t\<lparr>tb_tool_invocations := set_where P f (tb_tool_invocations t)\<rparr>)"
    if "descends v t" for t
    using that assms(2,3) unfolding descends_def
    by (elim exE conjE, intro exI [of _ "if P u then f u else u" for u]) (auto simp: fetch_set_where)
  then show ?thesis by (auto simp: stmt_keeps_def set_invocations_def)
qed

lemma set_invocation_descends:
  assumes "inv_step (v_status r) (v_status (f r)) \<or> v_status (f r) = v_status r"
    and "fetch v_invocation_id k (tb_tool_invocations t) = Some r"
    and "\<And>w u. same_effect w (f u) = same_effect w u"
    and "\<And>u. v_invocation_id (f u) = v_invocation_id u" and "descends v t"
  shows "descends v (t\<lparr>tb_tool_invocations := set_where (\<lambda>u. v_invocation_id u = k) f (tb_tool_invocations t)\<rparr>)"
proof -
  have "inv_step\<^sup>*\<^sup>* s (v_status (f r))" if "inv_step\<^sup>*\<^sup>* s (v_status r)" for s
    using that assms(1) by (metis rtranclp.rtrancl_into_rtrancl)
  then show ?thesis using assms(2-) by (auto simp: descends_def table_simps)
qed

lemma artifact_event_ledger:
  "stmt_keeps (descends v) (upsert_artifact_row a)" "stmt_keeps (descends v) (insert_task_event_row e)"
  "stmt_keeps (invocation_is v) (upsert_artifact_row a)" "stmt_keeps (invocation_is v) (insert_task_event_row e)"
  by (auto intro!: stmt_keeps_frame simp: upsert_artifact_row_def insert_task_event_row_def guarded_Inr Let_def
      split: if_splits)

lemma artifact_ops_ledger:
  "tx_keeps (descends v) (upsert_artifact aid k c parts md)"
  "tx_keeps (descends v) (append_task_event k ty st pl)"
  "tx_keeps (invocation_is v) (upsert_artifact aid k c parts md)"
  "tx_keeps (invocation_is v) (append_task_event k ty st pl)"
  unfolding upsert_artifact_def append_task_event_def get_task_def get_artifact_def get_task_event_def
  by (intro tx_intros artifact_event_ledger; simp)+

lemma insert_invocation_ledger:
  "stmt_keeps (descends v) (insert_tool_invocation_row r)"
  "stmt_keeps (invocation_is v) (insert_tool_invocation_row r)"
  by (auto simp: stmt_keeps_def insert_tool_invocation_row_def guarded_Inr descends_def invocation_is_def
      split: if_splits)


section \<open>What every operation keeps\<close>

text \<open>The single-row operations, with what their reads tell about the row.\<close>

lemma begin_descends: "tx_keeps (descends v) (begin_tool_invocation k)"
  unfolding begin_tool_invocation_def get_tool_invocation_def
  by (intro tx_intros set_invocations_descends) auto

lemma single_row_descends:
  "tx_keeps (descends v) (resolve_tool_invocation_approval k i tn ad ap rs)"
  "tx_keeps (descends v) (mark_tool_invocation_uncertain i ec em rt)"
  "tx_keeps (descends v) (cancel_tool_invocation i rs')"
  unfolding resolve_tool_invocation_approval_def mark_tool_invocation_uncertain_def
    cancel_tool_invocation_def get_tool_invocation_def
  by (rule tx_transaction_wp;
      auto simp: wp_rules set_invocations_def tx_post_refl inv_step_uncertain intro!: set_invocation_descends
        split: option.splits)+

text \<open>\<open>complete_tool_invocation_success\<close> runs two other store operations between its
  read and its update, so the read is carried across them as a fact of its own.\<close>

lemma wp_conj:
  "wp m Q E s \<Longrightarrow> wp m Q' E' s \<Longrightarrow> wp m (\<lambda>a t. Q a t \<and> Q' a t) (\<lambda>e t. E e t \<and> E' e t) s"
  by (simp add: wp_def split: prod.splits sum.splits)

definition artifact_is :: "artifact_record \<Rightarrow> tables \<Rightarrow> bool" where
  "artifact_is a t \<longleftrightarrow> fetch a_artifact_id (a_artifact_id a) (tb_artifacts t) = Some a"

lemma wp_upsert_artifact:
  "wp (upsert_artifact aid k c parts md)
     (\<lambda>a w'. artifact_is a (conn w') \<and> a_artifact_id a = aid \<and> a_task_id a = k \<and> a_context_id a = c \<and>
        tb_tool_invocations (conn w') = tb_tool_invocations (conn w) \<and>
        transaction_depth w' = transaction_depth w)
     (\<lambda>e w'. True) w"
  by (auto simp: upsert_artifact_def wp_rules get_task_def get_artifact_def artifact_is_def
      upsert_artifact_row_def guarded_def table_simps split: option.splits sum.splits dest: fetch_SomeD)


lemma wp_append_task_event_frame:
  "wp (append_task_event k ty st pl)
     (\<lambda>e w'. tb_tool_invocations (conn w') = tb_tool_invocations (conn w) \<and>
        tb_artifacts (conn w') = tb_artifacts (conn w) \<and> transaction_depth w' = transaction_depth w)
     (\<lambda>e w'. True) w"
  by (auto simp: append_task_event_def wp_rules get_task_def get_task_event_def insert_task_event_row_def
      guarded_def Let_def split: option.splits sum.splits)

text \<open>One step of a sequence: the contract of a program together with a fact about its result.\<close>

lemma tx_step:
  assumes "tx_keeps I m" and "tx_post I w w1" and "I (conn w1)" and "wp m Q (\<lambda>_ _. True) w1"
    and "\<And>a w2. tx_post I w w2 \<Longrightarrow> I (conn w2) \<Longrightarrow> Q a w2 \<Longrightarrow> R a w2"
  shows "wp m R (\<lambda>e w'. tx_post I w w') w1"
proof -
  have "wp m (\<lambda>a w'. (tx_post I w1 w' \<and> I (conn w')) \<and> Q a w') (\<lambda>e w'. tx_post I w1 w' \<and> True) w1"
    using assms(2,3) by (intro wp_conj [OF tx_keepsD [OF assms(1)] assms(4)]) (auto simp: tx_post_def)
  then show ?thesis
    by (rule wp_mono) (use assms(2,5) tx_post_trans in blast)+
qed

lemma complete_keeps:
  assumes art: "\<And>aid k c parts md. tx_keeps I (upsert_artifact aid k c parts md)"
    and ev: "\<And>k ty pl. tx_keeps I (append_task_event k ty None pl)"
    and upd: "\<And>t r a now. I t \<Longrightarrow> invocation_is r t \<Longrightarrow> v_status r = INV_RUNNING \<Longrightarrow>
      artifact_is a t \<Longrightarrow> a_task_id a = v_task_id r \<Longrightarrow> a_artifact_id a = v_invocation_id r @ '':result'' \<Longrightarrow>
      I (t\<lparr>tb_tool_invocations := set_where (\<lambda>u. v_invocation_id u = v_invocation_id r)
          (succeeded_row (a_artifact_id a) now) (tb_tool_invocations t)\<rparr>)"
  shows "tx_keeps I (complete_tool_invocation_success k parts md)"
  unfolding complete_tool_invocation_success_def
proof (rule tx_transaction_wp, goal_cases)
  case (1 w)
  let ?d = "transaction_depth w"
  have body: "wp (bindM (upsert_artifact (k @ '':result'') (v_task_id r) (v_context_id r) parts md) (\<lambda>artifact.
       bindM (append_task_event (v_task_id r) ''task_artifact_created'' None
                [(''artifact_id'', PStr (a_artifact_id artifact)),
                 (''kind'', PStr ''tool_invocation_result''),
                 (''invocation_id'', PStr k)]) (\<lambda>_.
       bindM utc_now (\<lambda>now.
       bindM (execute (set_invocations (\<lambda>v. v_invocation_id v = k)
                (succeeded_row (a_artifact_id artifact) now))) (\<lambda>_.
       bindM (get_tool_invocation k) (\<lambda>updated.
       require_some updated (RuntimeError (''failed to complete tool invocation: '' @ k))))))))
     (\<lambda>a w'. tx_post I w w' \<and> I (conn w')) (\<lambda>e w'. tx_post I w w') w"
    if r: "fetch v_invocation_id k (tb_tool_invocations (conn w)) = Some r" "v_status r = INV_RUNNING" for r
  proof -
    have k: "v_invocation_id r = k" using fetch_SomeD [OF r(1)] by simp
    have last: "wp (bindM utc_now (\<lambda>now.
         bindM (execute (set_invocations (\<lambda>v. v_invocation_id v = k) (succeeded_row (a_artifact_id a) now))) (\<lambda>_.
         bindM (get_tool_invocation k) (\<lambda>updated.
         require_some updated (RuntimeError (''failed to complete tool invocation: '' @ k))))))
       (\<lambda>a w'. tx_post I w w' \<and> I (conn w')) (\<lambda>e w'. tx_post I w w') w2"
      if "tx_post I w w2" "I (conn w2)" "transaction_depth w2 = ?d" "artifact_is a (conn w2)" "a_task_id a = v_task_id r"
        "a_artifact_id a = k @ '':result''"
        "tb_tool_invocations (conn w2) = tb_tool_invocations (conn w)" for w2 a
    proof -
      have "invocation_is r (conn w2)" using that r k by (simp add: invocation_is_def)
      from upd [OF that(2) this r(2) that(4,5)] that(6) k that(1,3) 1 show ?thesis
        by (auto simp: wp_rules get_tool_invocation_def set_invocations_def split: option.splits)
    qed
    show ?thesis
      unfolding wp_bindM [of "upsert_artifact _ _ _ _ _"] wp_bindM [of "append_task_event _ _ _ _"]
    proof (rule tx_step [OF art _ _ wp_upsert_artifact], goal_cases)
      case (3 a w1)
      show ?case
        by (rule tx_step [OF ev 3(1,2) wp_append_task_event_frame], rule last)
           (use 3 in \<open>auto simp: artifact_is_def\<close>)
    qed (use 1 in \<open>auto simp: tx_post_refl\<close>)
  qed
  show ?case
    using 1 body by (auto simp: wp_rules get_tool_invocation_def [of k] tx_post_refl split: option.splits)
qed

lemma complete_descends: "tx_keeps (descends v) (complete_tool_invocation_success k parts md)"
  by (rule complete_keeps) (auto intro!: artifact_ops_ledger set_invocation_descends simp: invocation_is_def)

lemma many_rows_descends:
  "tx_keeps (descends v) (cancel_prepared_tool_invocations k rs)"
  "tx_keeps (descends v) (mark_running_tool_invocations_uncertain k ec em rt)"
  "tx_keeps (descends v) (create_or_get_tool_invocation i k c th n tc tn na ad cap sl ik ar)"
  unfolding cancel_prepared_tool_invocations_def mark_running_tool_invocations_uncertain_def
    create_or_get_tool_invocation_def insert_new_invocation_def check_invocation_owner_def
    get_task_def get_tool_invocation_def get_tool_invocation_by_execution_identity_def
  by (intro tx_intros set_invocations_descends insert_invocation_ledger; simp)+

lemma set_invocations_final:
  assumes "\<not> P v" and "\<And>u. v_invocation_id (f u) = v_invocation_id u"
  shows "stmt_keeps (invocation_is v) (set_invocations P f)"
  using assms by (auto simp: stmt_keeps_def set_invocations_def invocation_is_def fetch_set_where)

lemma begin_final:
  assumes "inv_terminal (v_status v)"
  shows "tx_keeps (invocation_is v) (begin_tool_invocation k)"
  unfolding begin_tool_invocation_def get_tool_invocation_def
  by (intro tx_intros set_invocations_final) (use assms in \<open>auto simp: inv_terminal_def\<close>)

lemma single_row_final_other:
  assumes "i \<noteq> v_invocation_id v"
  shows "tx_keeps (invocation_is v) (resolve_tool_invocation_approval k i tn ad ap rs)"
    "tx_keeps (invocation_is v) (mark_tool_invocation_uncertain i ec em rt)"
    "tx_keeps (invocation_is v) (cancel_tool_invocation i rs')"
  unfolding resolve_tool_invocation_approval_def mark_tool_invocation_uncertain_def
    cancel_tool_invocation_def get_tool_invocation_def
  by (intro tx_intros set_invocations_final; use assms in simp)+

lemma single_row_final_self:
  assumes "v_status v \<noteq> PREPARED" "v_status v \<noteq> INV_RUNNING"
  shows "tx_keeps (invocation_is v) (resolve_tool_invocation_approval k (v_invocation_id v) tn ad ap rs)"
    and "tx_keeps (invocation_is v) (mark_tool_invocation_uncertain (v_invocation_id v) ec em rt)"
    and "tx_keeps (invocation_is v) (cancel_tool_invocation (v_invocation_id v) rs')"
proof -
  have ends: "v_status v \<in> {SUCCEEDED, INV_FAILED, INV_CANCELED} \<or> v_status v = UNCERTAIN"
    using assms by (cases "v_status v") auto
  show "tx_keeps (invocation_is v) (resolve_tool_invocation_approval k (v_invocation_id v) tn ad ap rs)"
    unfolding resolve_tool_invocation_approval_def get_tool_invocation_def
    by (rule tx_transaction_wp) (simp add: wp_rules tx_post_refl invocation_is_def assms)
  show "tx_keeps (invocation_is v) (mark_tool_invocation_uncertain (v_invocation_id v) ec em rt)"
    unfolding mark_tool_invocation_uncertain_def get_tool_invocation_def
    by (rule tx_transaction_wp) (use ends in \<open>auto simp add: wp_rules tx_post_refl invocation_is_def\<close>)
  show "tx_keeps (invocation_is v) (cancel_tool_invocation (v_invocation_id v) rs')"
    unfolding cancel_tool_invocation_def get_tool_invocation_def
    by (rule tx_transaction_wp) (simp add: wp_rules tx_post_refl invocation_is_def assms)
qed

lemma single_row_final:
  assumes "inv_terminal (v_status v)"
  shows "tx_keeps (invocation_is v) (resolve_tool_invocation_approval k i tn ad ap rs)"
    "tx_keeps (invocation_is v) (mark_tool_invocation_uncertain i ec em rt)"
    "tx_keeps (invocation_is v) (cancel_tool_invocation i rs')"
  using assms single_row_final_other [of i v] single_row_final_self [of v]
  by (cases "i = v_invocation_id v"; auto simp: inv_terminal_def)+

lemma many_rows_final:
  assumes "inv_terminal (v_status v)"
  shows "tx_keeps (invocation_is v) (cancel_prepared_tool_invocations k rs)"
    "tx_keeps (invocation_is v) (mark_running_tool_invocations_uncertain k ec em rt)"
    "tx_keeps (invocation_is v) (create_or_get_tool_invocation i k c th n tc tn na ad cap sl ik ar)"
  unfolding cancel_prepared_tool_invocations_def mark_running_tool_invocations_uncertain_def
    create_or_get_tool_invocation_def insert_new_invocation_def check_invocation_owner_def
    get_task_def get_tool_invocation_def get_tool_invocation_by_execution_identity_def
  using assms
  by (intro tx_intros set_invocations_final insert_invocation_ledger; auto simp: inv_terminal_def)+

lemma complete_final:
  assumes "inv_terminal (v_status v)"
  shows "tx_keeps (invocation_is v) (complete_tool_invocation_success k parts md)"
proof (rule complete_keeps)
  fix t r a now
  assume "invocation_is v t" "invocation_is r t" "v_status r = INV_RUNNING"
  moreover from this assms have "v_invocation_id r \<noteq> v_invocation_id v"
    by (auto simp: invocation_is_def inv_terminal_def)
  ultimately show "invocation_is v (t\<lparr>tb_tool_invocations :=
      set_where (\<lambda>u. v_invocation_id u = v_invocation_id r) (succeeded_row (a_artifact_id a) now)
        (tb_tool_invocations t)\<rparr>)"
    by (simp add: invocation_is_def table_simps)
qed (rule artifact_ops_ledger)+

text \<open>
  The ledger of tool invocations moves forward only.  Whatever ledger operation
  runs, a recorded invocation keeps the identity of its effect (Task, thread,
  loop, call, tool, arguments, approval requirement), and its status stays or moves
  along prepared, running, succeeded, canceled, uncertain; once it has reached an
  end, not even one column of the row changes.
\<close>

theorem invocation_ledger_forward:
  "(\<forall>m \<in> {begin_tool_invocation i, resolve_tool_invocation_approval k i tn ad ap rs,
          mark_tool_invocation_uncertain i ec em rt, cancel_tool_invocation i rs',
          complete_tool_invocation_success i parts md,
          create_or_get_tool_invocation i k c th n tc tn na ad cap sl ik ar}.
      tx_keeps (descends v) m \<and> (inv_terminal (v_status v) \<longrightarrow> tx_keeps (invocation_is v) m)) \<and>
   (\<forall>m \<in> {cancel_prepared_tool_invocations k rs',
          mark_running_tool_invocations_uncertain k ec em rt}.
      tx_keeps (descends v) m \<and> (inv_terminal (v_status v) \<longrightarrow> tx_keeps (invocation_is v) m))"
  by (auto intro: begin_descends single_row_descends complete_descends many_rows_descends
      begin_final single_row_final complete_final many_rows_final)

definition sample_invocation :: tool_invocation_record where
  "sample_invocation = \<lparr>v_invocation_id = ''inv'', v_task_id = ''task'', v_context_id = ''ctx'',
     v_runtime_thread_id = ''thread'', v_loop_index = 1, v_tool_call_id = ''call'', v_tool_name = ''tool'',
     v_normalized_arguments = [], v_arguments_digest = ''digest'', v_capability = [],
     v_side_effect_level = ''write'', v_idempotency_key = None, v_approval_required = True,
     v_approval_status = REJECTED, v_approval_reason = None, v_status = INV_CANCELED,
     v_result_artifact_id = None, v_error_code = None, v_error_message = None,
     v_error_retryable = False, v_created_at = 0, v_started_at = None, v_completed_at = Some 0,
     v_updated_at = 0\<rparr>"

theorem invocation_ledger_forward_witness:
  "invocation_is sample_invocation (sample_tables\<lparr>tb_tool_invocations := [sample_invocation]\<rparr>) \<and>
   tx_keeps (invocation_is sample_invocation)
     (resolve_tool_invocation_approval ''task'' ''inv'' ''tool'' ''digest'' True None) \<and>
   tx_keeps (descends sample_invocation) (begin_tool_invocation ''inv'')"
proof -
  have "inv_terminal (v_status sample_invocation)" by (simp add: sample_invocation_def inv_terminal_def)
  with invocation_ledger_forward [of "''inv''" "''task''" "''tool''" "''digest''" True None _ _ _ _ _ _ _ _ _ _ _ _ _ _ _ sample_invocation]
  show ?thesis by (simp add: invocation_is_def table_simps)
qed


section \<open>Approval comes before execution\<close>

definition invocation_ok :: "tool_invocation_record \<Rightarrow> bool" where
  "invocation_ok v \<longleftrightarrow>
     (v_approval_required v \<longleftrightarrow> v_approval_status v \<noteq> NOT_REQUIRED) \<and>
     (v_status v \<in> {INV_RUNNING, SUCCEEDED} \<longrightarrow>
        v_started_at v \<noteq> None \<and> (v_approval_required v \<longrightarrow> v_approval_status v = APPROVED)) \<and>
     (v_approval_status v = REJECTED \<longrightarrow> v_status v = INV_CANCELED) \<and>
     (v_completed_at v \<noteq> None \<longleftrightarrow> inv_terminal (v_status v)) \<and>
     (v_result_artifact_id v \<noteq> None \<longleftrightarrow> v_status v = SUCCEEDED)"

definition result_stored :: "tables \<Rightarrow> tool_invocation_record \<Rightarrow> bool" where
  "result_stored t v \<longleftrightarrow> (\<forall>aid. v_result_artifact_id v = Some aid \<longrightarrow>
     (\<exists>a. fetch a_artifact_id aid (tb_artifacts t) = Some a \<and> a_task_id a = v_task_id v))"

definition ledger_inv :: "tables \<Rightarrow> bool" where
  "ledger_inv t \<longleftrightarrow> distinct (map v_invocation_id (tb_tool_invocations t)) \<and>
     (\<forall>v \<in> set (tb_tool_invocations t). invocation_ok v \<and> result_stored t v)"

lemma ledger_inv_frame:
  "tb_tool_invocations t' = tb_tool_invocations t \<Longrightarrow> tb_artifacts t' = tb_artifacts t \<Longrightarrow>
     ledger_inv t' = ledger_inv t"
  by (simp add: ledger_inv_def result_stored_def)

lemma ledger_inv_set_task [simp]: "ledger_inv (set_task k f t) = ledger_inv t"
  by (rule ledger_inv_frame) simp_all

lemma ledger_inv_event [simp]:
  "ledger_inv (t\<lparr>tb_task_events := b, tb_event_seq := n\<rparr>) = ledger_inv t"
  by (rule ledger_inv_frame) simp_all

lemma ledger_inv_update:
  assumes "ledger_inv t" and "\<And>u. v_invocation_id (f u) = v_invocation_id u"
    and "\<And>u. u \<in> set (tb_tool_invocations t) \<Longrightarrow> P u \<Longrightarrow> invocation_ok u \<Longrightarrow> result_stored t u \<Longrightarrow>
           invocation_ok (f u) \<and> result_stored t (f u)"
  shows "ledger_inv (t\<lparr>tb_tool_invocations := set_where P f (tb_tool_invocations t)\<rparr>)"
proof -
  have "result_stored (t\<lparr>tb_tool_invocations := rows\<rparr>) u = result_stored t u" for rows u
    by (simp add: result_stored_def)
  with assms show ?thesis
    by (auto simp: ledger_inv_def map_key_set_where ball_set_where)
qed

lemma set_invocations_ledger_inv:
  assumes "\<And>u. v_invocation_id (f u) = v_invocation_id u"
    and "\<And>t u. P u \<Longrightarrow> invocation_ok u \<Longrightarrow> result_stored t u \<Longrightarrow> invocation_ok (f u) \<and> result_stored t (f u)"
  shows "stmt_keeps ledger_inv (set_invocations P f)"
  using assms by (auto simp: stmt_keeps_def set_invocations_def intro!: ledger_inv_update)

lemma the_row:
  "ledger_inv t \<Longrightarrow> fetch v_invocation_id k (tb_tool_invocations t) = Some r \<Longrightarrow>
     u \<in> set (tb_tool_invocations t) \<Longrightarrow> v_invocation_id u = k \<Longrightarrow> u = r"
  by (metis fetch_distinct ledger_inv_def option.inject)

lemma ledger_inv_row:
  assumes "ledger_inv t" and "fetch v_invocation_id k (tb_tool_invocations t) = Some r"
    and "\<And>u. v_invocation_id (f u) = v_invocation_id u" and "\<And>u. P u \<Longrightarrow> v_invocation_id u = k"
    and "invocation_ok r \<Longrightarrow> invocation_ok (f r)" and "result_stored t r \<Longrightarrow> result_stored t (f r)"
  shows "ledger_inv (t\<lparr>tb_tool_invocations := set_where P f (tb_tool_invocations t)\<rparr>)"
  by (rule ledger_inv_update [OF assms(1,3)]) (use assms(4-) the_row [OF assms(1,2)] in blast)

lemma row_ok:
  shows "invocation_ok u \<Longrightarrow> v_status u = PREPARED \<Longrightarrow>
      v_approval_required u \<longrightarrow> v_approval_status u = APPROVED \<Longrightarrow> invocation_ok (running_row now u)"
    and "invocation_ok u \<Longrightarrow> v_status u = PREPARED \<Longrightarrow> invocation_ok (canceled_row rs now u)"
    and "invocation_ok u \<Longrightarrow> \<not> inv_terminal (v_status u) \<Longrightarrow> invocation_ok (uncertain_row ec em rt now u)"
    and "invocation_ok u \<Longrightarrow> v_status u = INV_RUNNING \<Longrightarrow> invocation_ok (succeeded_row aid now u)"
    and "invocation_ok u \<Longrightarrow> v_status u = PREPARED \<Longrightarrow> v_approval_required u \<Longrightarrow>
      invocation_ok (approval_row ap rs' now u)"
  unfolding invocation_ok_def inv_terminal_def
  by (cases "v_status u"; auto simp: running_row_def canceled_row_def uncertain_row_def
      succeeded_row_def approval_row_def)+

lemma row_result [simp]:
  "result_stored t (running_row now u) = result_stored t u"
  "result_stored t (canceled_row rs now u) = result_stored t u"
  "result_stored t (uncertain_row ec em rt now u) = result_stored t u"
  "result_stored t (approval_row ap rs' now u) = result_stored t u"
  by (simp_all add: result_stored_def running_row_def canceled_row_def uncertain_row_def approval_row_def)

lemma insert_invocation_ledger_inv:
  assumes "invocation_ok r" "v_result_artifact_id r = None"
  shows "stmt_keeps ledger_inv (insert_tool_invocation_row r)"
proof -
  have "result_stored (t\<lparr>tb_tool_invocations := rows\<rparr>) u = result_stored t u" for rows u t
    by (simp add: result_stored_def)
  moreover have "result_stored t r" for t using assms(2) by (simp add: result_stored_def)
  ultimately show ?thesis
    using assms(1)
    by (auto simp: stmt_keeps_def insert_tool_invocation_row_def guarded_Inr ledger_inv_def fetch_None_iff
        split: if_splits)
qed

lemma artifact_ledger_inv: "stmt_keeps ledger_inv (upsert_artifact_row a)"
proof -
  have "result_stored t' v" if "result_stored t v" "upsert_artifact_row a t = Inr (x, t')" for t t' x v
    using that
    by (auto simp: result_stored_def upsert_artifact_row_def guarded_Inr table_simps
        split: option.splits if_splits)
  moreover have "tb_tool_invocations t' = tb_tool_invocations t" if "upsert_artifact_row a t = Inr (x, t')" for t t' x
    using that by (auto simp: upsert_artifact_row_def guarded_Inr split: if_splits)
  ultimately show ?thesis by (auto simp: stmt_keeps_def ledger_inv_def) 
qed

lemma artifact_ops_ledger_inv:
  "tx_keeps ledger_inv (upsert_artifact aid k c parts md)"
  "tx_keeps ledger_inv (append_task_event k ty st pl)"
  unfolding upsert_artifact_def append_task_event_def get_task_def get_artifact_def get_task_event_def
    insert_task_event_row_def
  by (intro tx_intros artifact_ledger_inv stmt_keeps_guarded; simp add: Let_def)+

lemma ledger_ops_inv:
  "tx_keeps ledger_inv (cancel_prepared_tool_invocations k rs)"
  "tx_keeps ledger_inv (mark_running_tool_invocations_uncertain k ec em rt)"
  "tx_keeps ledger_inv (create_or_get_tool_invocation i k c th n tc tn na ad cap sl ik ar)"
  unfolding cancel_prepared_tool_invocations_def mark_running_tool_invocations_uncertain_def
    create_or_get_tool_invocation_def insert_new_invocation_def check_invocation_owner_def
    get_task_def get_tool_invocation_def get_tool_invocation_by_execution_identity_def
  by (intro tx_intros set_invocations_ledger_inv insert_invocation_ledger_inv;
      simp add: row_ok inv_terminal_def; simp add: invocation_ok_def inv_terminal_def)+

lemma single_row_ledger_inv:
  "tx_keeps ledger_inv (begin_tool_invocation i)"
  "tx_keeps ledger_inv (resolve_tool_invocation_approval k i tn ad ap rs)"
  "tx_keeps ledger_inv (mark_tool_invocation_uncertain i ec em rt)"
  "tx_keeps ledger_inv (cancel_tool_invocation i rs')"
  unfolding begin_tool_invocation_def resolve_tool_invocation_approval_def
    mark_tool_invocation_uncertain_def cancel_tool_invocation_def get_tool_invocation_def
  by (rule tx_transaction_wp;
      auto simp: wp_rules set_invocations_def tx_post_refl inv_terminal_def row_ok
        elim!: ledger_inv_row split: option.splits)+

lemma complete_ledger_inv: "tx_keeps ledger_inv (complete_tool_invocation_success k parts md)"
proof (rule complete_keeps)
  fix t r a now
  assume *: "ledger_inv t" "invocation_is r t" "v_status r = INV_RUNNING" "artifact_is a t" "a_task_id a = v_task_id r"
  have "u = r" if "u \<in> set (tb_tool_invocations t)" "v_invocation_id u = v_invocation_id r" for u
    using the_row [OF *(1) *(2) [unfolded invocation_is_def]] that by blast
  moreover have "result_stored t (succeeded_row (a_artifact_id a) now r)"
    using *(4,5) by (simp add: result_stored_def succeeded_row_def artifact_is_def)
  ultimately show "ledger_inv (t\<lparr>tb_tool_invocations :=
      set_where (\<lambda>u. v_invocation_id u = v_invocation_id r) (succeeded_row (a_artifact_id a) now)
        (tb_tool_invocations t)\<rparr>)"
    using *(1,3) row_ok(4) by (intro ledger_inv_update; (assumption | simp; fail | blast))
qed (rule artifact_ops_ledger_inv)+

text \<open>
  C26. An effect runs only with its approval.  Every ledger operation keeps a
  database in which each invocation that is running or has succeeded was started,
  and was approved if it requires approval; a rejected one is canceled; a completion
  time is recorded exactly for the ended ones; and each succeeded invocation, and
  no other, names a stored artifact of its own Task as its result.
\<close>

theorem approval_before_execution:
  "tx_keeps ledger_inv (begin_tool_invocation i) \<and>
   tx_keeps ledger_inv (resolve_tool_invocation_approval k i tn ad ap rs) \<and>
   tx_keeps ledger_inv (complete_tool_invocation_success i parts md) \<and>
   tx_keeps ledger_inv (mark_tool_invocation_uncertain i ec em rt) \<and>
   tx_keeps ledger_inv (cancel_tool_invocation i rs') \<and>
   tx_keeps ledger_inv (cancel_prepared_tool_invocations k rs') \<and>
   tx_keeps ledger_inv (mark_running_tool_invocations_uncertain k ec em rt) \<and>
   tx_keeps ledger_inv (create_or_get_tool_invocation i k c th n tc tn na ad cap sl ik ar)"
  by (simp add: single_row_ledger_inv complete_ledger_inv ledger_ops_inv)

text \<open>
  Replaying a tool call.  When \<open>create_or_get_tool_invocation\<close> has returned a
  row, calling it again with the same identity returns the same row and leaves the
  database unchanged, whatever arguments, capability, side-effect level or approval
  flag the replay carries: no second effect is recorded.
\<close>

theorem tool_invocation_replay:
  assumes "create_or_get_tool_invocation i k c th n tc tn na ad cap sl ik ar w = (Inr r, w')"
    and "settled w" and "transaction_depth w = 0"
  shows "wp (create_or_get_tool_invocation i k c th n tc tn na' ad cap' sl' ik' ar')
    (\<lambda>r' w''. r' = r \<and> conn w'' = conn w' \<and> durable w'' = durable w') (\<lambda>_ _. False) w'"
proof -
  let ?call = "create_or_get_tool_invocation i k c th n tc tn"
  have "wp (?call na ad cap sl ik ar) (\<lambda>r w'.
      settled w' \<and> transaction_depth w' = 0 \<and> 1 \<le> n \<and> i \<noteq> [] \<and> tc \<noteq> [] \<and> tn \<noteq> [] \<and> ad \<noteq> [] \<and>
      (\<exists>x. fetch t_task_id k (tb_tasks (conn w')) = Some x \<and> t_context_id x = c \<and>
         t_runtime_thread_id x = th \<and> t_assigned_agent_id x = None) \<and>
      validate_tool_invocation_identity r k c th n tc tn ad = Inr () \<and>
      (fetch v_invocation_id i (tb_tool_invocations (conn w')) = Some r \<or>
       fetch v_invocation_id i (tb_tool_invocations (conn w')) = None \<and>
       find (\<lambda>v. v_task_id v = k \<and> v_runtime_thread_id v = th \<and> v_loop_index v = n \<and>
          v_tool_call_id v = tc \<and> v_arguments_digest v = ad) (tb_tool_invocations (conn w')) = Some r))
      (\<lambda>_ _. True) w"
    using assms(2,3)
    by (auto simp: create_or_get_tool_invocation_def check_invocation_owner_def insert_new_invocation_def
       insert_tool_invocation_row_def guarded_def
       get_tool_invocation_by_execution_identity_def wp_rules get_task_def get_tool_invocation_def settled_def
       table_simps validate_tool_invocation_identity_def 
       split: option.splits sum.splits)
  from wp_okD [OF this assms(1)] show ?thesis
    by (auto simp: create_or_get_tool_invocation_def check_invocation_owner_def
       get_tool_invocation_by_execution_identity_def wp_rules get_task_def get_tool_invocation_def settled_def)
qed

lemma wp_returns: "wp m (\<lambda>_ _. True) (\<lambda>_ _. False) s \<Longrightarrow> \<exists>a s'. m s = (Inr a, s')"
  by (auto simp: wp_def split: prod.splits sum.splits)

lemma sample_create_invocation:
  "\<exists>r w'. create_or_get_tool_invocation ''inv'' ''task'' ''ctx'' ''thread'' 1 ''call'' ''tool'' [] ''digest'' []
     ''write'' None True (world_of sample_tables) = (Inr r, w')"
  by (rule wp_returns)
     (simp add: create_or_get_tool_invocation_def check_invocation_owner_def insert_new_invocation_def
       insert_tool_invocation_row_def guarded_def get_tool_invocation_by_execution_identity_def
       wp_rules get_task_def get_tool_invocation_def table_simps has_task_def has_context_def sample_defs)

theorem tool_invocation_replay_witness:
  "\<exists>r w'. create_or_get_tool_invocation ''inv'' ''task'' ''ctx'' ''thread'' 1 ''call'' ''tool'' [] ''digest'' []
        ''write'' None True (world_of sample_tables) = (Inr r, w') \<and>
     wp (create_or_get_tool_invocation ''inv'' ''task'' ''ctx'' ''thread'' 1 ''call'' ''tool'' [] ''digest'' []
        ''none'' None False)
       (\<lambda>r' w''. r' = r \<and> conn w'' = conn w' \<and> durable w'' = durable w') (\<lambda>_ _. False) w'"
proof -
  obtain r w' where run: "create_or_get_tool_invocation ''inv'' ''task'' ''ctx'' ''thread'' 1 ''call'' ''tool'' []
      ''digest'' [] ''write'' None True (world_of sample_tables) = (Inr r, w')"
    using sample_create_invocation by blast
  from tool_invocation_replay [OF run] run show ?thesis by (auto simp: settled_def)
qed

end
