(* ===== verification/Store_Agents.thy ===== *)
theory Store_Agents
  imports Store_Invocations
begin

text \<open>
  Registered agents, delegations and the deletion of a Context
  (\<open>main_agent/store.py\<close>).  A \<open>DELETE\<close> fails when rows that remain refer to a row
  it removes; the statements below spell out the foreign keys of the schema.

  The lemmas show that deleting a Context removes exactly its own rows in one
  commit, refuses a Context with unfinished Tasks, and keeps the invariants of the
  other components.
\<close>

section \<open>Registered agents\<close>

definition get_registered_agent :: "string \<Rightarrow> registered_agent_record option py" where
  "get_registered_agent agent_id =
     query (\<lambda>t. fetch g_agent_id agent_id (tb_registered_agents t))"

definition upsert_registered_agent ::
  "string \<Rightarrow> string \<Rightarrow> string \<Rightarrow> pydict \<Rightarrow> bool \<Rightarrow> pydict \<Rightarrow> registered_agent_record py" where
  "upsert_registered_agent agent_id name card_url card_json enabled metadata =
     bindM utc_now (\<lambda>now.
     bindM (liftE (dumps_dict card_json)) (\<lambda>card'.
     bindM (liftE (dumps_dict metadata)) (\<lambda>meta.
     bindM (execute (upsert_agent_row
       \<lparr>g_agent_id = agent_id, g_name = name, g_card_url = card_url, g_card_json = card',
        g_enabled = enabled, g_metadata = meta, g_created_at = now, g_updated_at = now\<rparr>)) (\<lambda>_.
     bindM (get_registered_agent agent_id) (\<lambda>record.
     require_some record (RuntimeError (''failed to upsert registered agent: '' @ agent_id)))))))"

definition list_registered_agents :: "bool \<Rightarrow> registered_agent_record list py" where
  "list_registered_agents enabled_only =
     query (\<lambda>t. rev (sort_key g_updated_at
       (rev (filter (\<lambda>g. \<not> enabled_only \<or> g_enabled g) (tb_registered_agents t)))))"

definition set_agent_card :: "string \<Rightarrow> pydict \<Rightarrow> timestamp \<Rightarrow> nat statement" where
  "set_agent_card agent_id card' now t =
     Inr (count_where (\<lambda>g. g_agent_id g = agent_id) (tb_registered_agents t),
          t\<lparr>tb_registered_agents := set_where (\<lambda>g. g_agent_id g = agent_id)
             (\<lambda>g. g\<lparr>g_card_json := card', g_updated_at := now\<rparr>) (tb_registered_agents t)\<rparr>)"

definition update_registered_agent_card :: "string \<Rightarrow> pydict \<Rightarrow> registered_agent_record option py" where
  "update_registered_agent_card agent_id card_json =
     bindM utc_now (\<lambda>now.
     bindM (liftE (dumps_dict card_json)) (\<lambda>card'.
     bindM (execute (set_agent_card agent_id card' now)) (\<lambda>rowcount.
     if rowcount = 0 then returnM None else get_registered_agent agent_id)))"

definition delete_agent_row :: "string \<Rightarrow> nat statement" where
  "delete_agent_row agent_id = guarded (\<lambda>t. None)
     (\<lambda>t. has_agent t agent_id \<longrightarrow> list_all (\<lambda>d. d_remote_agent_id d \<noteq> agent_id) (tb_delegated_tasks t))
     (\<lambda>t. (count_where (\<lambda>g. g_agent_id g = agent_id) (tb_registered_agents t),
           t\<lparr>tb_registered_agents :=
               delete_where (\<lambda>g. g_agent_id g = agent_id) (tb_registered_agents t)\<rparr>))"

definition delete_registered_agent :: "string \<Rightarrow> bool py" where
  "delete_registered_agent agent_id =
     bindM (execute (delete_agent_row agent_id)) (\<lambda>rowcount. returnM (rowcount > 0))"

section \<open>Delegations\<close>

definition get_delegated_task :: "string \<Rightarrow> delegated_task_record option py" where
  "get_delegated_task delegation_id =
     query (\<lambda>t. fetch d_delegation_id delegation_id (tb_delegated_tasks t))"

definition get_delegated_task_by_local_task_id :: "string \<Rightarrow> delegated_task_record option py" where
  "get_delegated_task_by_local_task_id local_task_id =
     query (\<lambda>t. fetch d_local_task_id (Some local_task_id) (tb_delegated_tasks t))"

definition get_delegated_task_by_input_message_id :: "string \<Rightarrow> delegated_task_record option py" where
  "get_delegated_task_by_input_message_id input_message_id =
     query (\<lambda>t. case sort_key d_created_at
         (filter (\<lambda>d. d_input_message_id d = input_message_id) (tb_delegated_tasks t)) of
       [] \<Rightarrow> None | d # _ \<Rightarrow> Some d)"

definition list_context_delegations ::
  "string \<Rightarrow> int option \<Rightarrow> int \<Rightarrow> delegated_task_record list py" where
  "list_context_delegations context_id limit offset =
     bindM (check_page ''context delegation'' limit offset) (\<lambda>_.
     query (\<lambda>t. newest_page limit offset (sort_key (\<lambda>d. (d_created_at d, d_delegation_id d))
       (filter (\<lambda>d. d_context_id d = context_id) (tb_delegated_tasks t)))))"

definition list_delegated_tasks_for_remote_agent :: "string \<Rightarrow> delegated_task_record list py" where
  "list_delegated_tasks_for_remote_agent agent_id =
     query (\<lambda>t. sort_key d_created_at
       (filter (\<lambda>d. d_remote_agent_id d = agent_id) (tb_delegated_tasks t)))"

definition insert_delegation ::
  "string \<Rightarrow> string \<Rightarrow> string \<Rightarrow> string \<Rightarrow> string \<Rightarrow> string \<Rightarrow> string \<Rightarrow> string option \<Rightarrow>
   string option \<Rightarrow> string option \<Rightarrow> string option \<Rightarrow> pydict \<Rightarrow> delegated_task_record py" where
  "insert_delegation delegation_id context_id input_message_id route_decision_id remote_agent_id
     result_kind status local_task_id remote_task_id remote_context_id remote_message_id metadata =
     bindM utc_now (\<lambda>now.
     bindM (liftE (dumps_dict metadata)) (\<lambda>meta.
     bindM (execute (insert_delegated_task_row
       \<lparr>d_delegation_id = delegation_id, d_context_id = context_id,
        d_input_message_id = input_message_id, d_route_decision_id = route_decision_id,
        d_remote_agent_id = remote_agent_id, d_local_task_id = local_task_id,
        d_remote_task_id = remote_task_id, d_remote_context_id = remote_context_id,
        d_remote_message_id = remote_message_id, d_result_kind = result_kind, d_status = status,
        d_metadata = meta, d_created_at = now, d_updated_at = now\<rparr>)) (\<lambda>_.
     bindM (get_delegated_task delegation_id) (\<lambda>record.
     require_some record (RuntimeError (''failed to create delegated task: '' @ delegation_id))))))"

definition create_delegated_task ::
  "string \<Rightarrow> string \<Rightarrow> string \<Rightarrow> string \<Rightarrow> string \<Rightarrow> string \<Rightarrow> string \<Rightarrow> string option \<Rightarrow>
   string option \<Rightarrow> string option \<Rightarrow> string option \<Rightarrow> pydict \<Rightarrow> delegated_task_record py" where
  "create_delegated_task delegation_id context_id input_message_id route_decision_id remote_agent_id
     result_kind status local_task_id remote_task_id remote_context_id remote_message_id metadata =
     bindM (get_context context_id) (\<lambda>c.
     bindM (raise_if (c = None) (ValueError (''unknown context: '' @ context_id))) (\<lambda>_.
     bindM (get_message input_message_id) (\<lambda>m.
     bindM (raise_if (m = None) (ValueError (''unknown input message: '' @ input_message_id))) (\<lambda>_.
     bindM (get_route_decision route_decision_id) (\<lambda>r.
     bindM (raise_if (r = None) (ValueError (''unknown route decision: '' @ route_decision_id))) (\<lambda>_.
     bindM (get_registered_agent remote_agent_id) (\<lambda>g.
     bindM (raise_if (g = None) (ValueError (''unknown registered agent: '' @ remote_agent_id))) (\<lambda>_.
     insert_delegation delegation_id context_id input_message_id route_decision_id remote_agent_id
       result_kind status local_task_id remote_task_id remote_context_id remote_message_id
       metadata))))))))"

definition update_delegated_task_status ::
  "string \<Rightarrow> string \<Rightarrow> pydict option \<Rightarrow> delegated_task_record py" where
  "update_delegated_task_status delegation_id status metadata =
     bindM (get_delegated_task delegation_id) (\<lambda>c.
     bindM (require_some c (ValueError (''unknown delegated task: '' @ delegation_id))) (\<lambda>current.
     bindM (liftE (dumps_dict (case metadata of None \<Rightarrow> d_metadata current | Some md \<Rightarrow> md))) (\<lambda>meta.
     bindM utc_now (\<lambda>now.
     bindM (update_tables (\<lambda>t. t\<lparr>tb_delegated_tasks := set_where (\<lambda>d. d_delegation_id d = delegation_id)
              (\<lambda>d. d\<lparr>d_status := status, d_metadata := meta, d_updated_at := now\<rparr>)
              (tb_delegated_tasks t)\<rparr>)) (\<lambda>_.
     bindM (get_delegated_task delegation_id) (\<lambda>record.
     require_some record (RuntimeError (''failed to update delegated task: '' @ delegation_id))))))))"

section \<open>Deleting a Context\<close>

definition delete_artifacts :: "string \<Rightarrow> nat statement" where
  "delete_artifacts context_id t = Inr (count_where (\<lambda>a. a_context_id a = context_id) (tb_artifacts t),
     t\<lparr>tb_artifacts := delete_where (\<lambda>a. a_context_id a = context_id) (tb_artifacts t)\<rparr>)"

definition delete_ingresses :: "string \<Rightarrow> tables \<Rightarrow> tables" where
  "delete_ingresses context_id t =
     t\<lparr>tb_message_ingress := delete_where (\<lambda>i. i_context_id i = context_id) (tb_message_ingress t)\<rparr>"

definition delete_delegations :: "string \<Rightarrow> tables \<Rightarrow> tables" where
  "delete_delegations context_id t =
     t\<lparr>tb_delegated_tasks := delete_where (\<lambda>d. d_context_id d = context_id) (tb_delegated_tasks t)\<rparr>"

definition delete_task_events :: "string \<Rightarrow> nat statement" where
  "delete_task_events task_id t = Inr (count_where (\<lambda>e. e_task_id e = task_id) (tb_task_events t),
     t\<lparr>tb_task_events := delete_where (\<lambda>e. e_task_id e = task_id) (tb_task_events t)\<rparr>)"

definition task_unreferenced :: "tables \<Rightarrow> string \<Rightarrow> bool" where
  "task_unreferenced t k \<longleftrightarrow>
     list_all (\<lambda>e. e_task_id e \<noteq> k) (tb_task_events t) \<and>
     list_all (\<lambda>a. a_task_id a \<noteq> k) (tb_artifacts t) \<and>
     list_all (\<lambda>d. d_local_task_id d \<noteq> Some k) (tb_delegated_tasks t) \<and>
     list_all (\<lambda>p. p_task_id p \<noteq> k) (tb_pending_continuations t) \<and>
     list_all (\<lambda>q. q_task_id q \<noteq> k) (tb_queued_executions t) \<and>
     list_all (\<lambda>v. v_task_id v \<noteq> k) (tb_tool_invocations t)"

definition delete_tasks :: "string \<Rightarrow> nat statement" where
  "delete_tasks context_id = guarded (\<lambda>t. None)
     (\<lambda>t. list_all (\<lambda>x. t_context_id x = context_id \<longrightarrow> task_unreferenced t (t_task_id x)) (tb_tasks t))
     (\<lambda>t. (count_where (\<lambda>x. t_context_id x = context_id) (tb_tasks t),
           t\<lparr>tb_tasks := delete_where (\<lambda>x. t_context_id x = context_id) (tb_tasks t)\<rparr>))"

definition decision_unreferenced :: "tables \<Rightarrow> string \<Rightarrow> bool" where
  "decision_unreferenced t k \<longleftrightarrow>
     list_all (\<lambda>i. i_route_decision_id i \<noteq> Some k) (tb_message_ingress t) \<and>
     list_all (\<lambda>d. d_route_decision_id d \<noteq> k) (tb_delegated_tasks t)"

definition delete_route_decisions :: "string \<Rightarrow> nat statement" where
  "delete_route_decisions context_id = guarded (\<lambda>t. None)
     (\<lambda>t. list_all (\<lambda>r. r_context_id r = context_id \<longrightarrow> decision_unreferenced t (r_decision_id r))
            (tb_route_decisions t))
     (\<lambda>t. (count_where (\<lambda>r. r_context_id r = context_id) (tb_route_decisions t),
           t\<lparr>tb_route_decisions := delete_where (\<lambda>r. r_context_id r = context_id) (tb_route_decisions t)\<rparr>))"

definition message_unreferenced :: "tables \<Rightarrow> string \<Rightarrow> bool" where
  "message_unreferenced t k \<longleftrightarrow>
     list_all (\<lambda>x. t_input_message_id x \<noteq> k \<and> t_output_message_id x \<noteq> Some k) (tb_tasks t) \<and>
     list_all (\<lambda>r. r_message_id r \<noteq> k) (tb_route_decisions t) \<and>
     list_all (\<lambda>i. i_message_id i \<noteq> k) (tb_message_ingress t) \<and>
     list_all (\<lambda>d. d_input_message_id d \<noteq> k) (tb_delegated_tasks t)"

definition delete_messages :: "string \<Rightarrow> nat statement" where
  "delete_messages context_id = guarded (\<lambda>t. None)
     (\<lambda>t. list_all (\<lambda>m. m_context_id m = context_id \<longrightarrow> message_unreferenced t (m_message_id m)) (tb_messages t))
     (\<lambda>t. (count_where (\<lambda>m. m_context_id m = context_id) (tb_messages t),
           t\<lparr>tb_messages := delete_where (\<lambda>m. m_context_id m = context_id) (tb_messages t)\<rparr>))"

definition context_unreferenced :: "tables \<Rightarrow> string \<Rightarrow> bool" where
  "context_unreferenced t k \<longleftrightarrow>
     list_all (\<lambda>m. m_context_id m \<noteq> k) (tb_messages t) \<and>
     list_all (\<lambda>r. r_context_id r \<noteq> k) (tb_route_decisions t) \<and>
     list_all (\<lambda>x. t_context_id x \<noteq> k) (tb_tasks t) \<and>
     list_all (\<lambda>a. a_context_id a \<noteq> k) (tb_artifacts t) \<and>
     list_all (\<lambda>d. d_context_id d \<noteq> k) (tb_delegated_tasks t) \<and>
     list_all (\<lambda>i. i_context_id i \<noteq> k) (tb_message_ingress t) \<and>
     list_all (\<lambda>v. v_context_id v \<noteq> k) (tb_tool_invocations t)"

definition delete_context_row :: "string \<Rightarrow> unit statement" where
  "delete_context_row context_id = guarded (\<lambda>t. None)
     (\<lambda>t. has_context t context_id \<longrightarrow> context_unreferenced t context_id)
     (\<lambda>t. ((), t\<lparr>tb_contexts := delete_where (\<lambda>c. c_context_id c = context_id) (tb_contexts t)\<rparr>))"

text \<open>The body of the loop over the Context's Tasks; it returns the number of events removed.\<close>

definition delete_task_children :: "string \<Rightarrow> nat py" where
  "delete_task_children task_id =
     bindM (execute (delete_pending (\<lambda>p. p_task_id p = task_id))) (\<lambda>_.
     bindM (execute (delete_queued task_id)) (\<lambda>_.
     bindM (update_tables (\<lambda>t. t\<lparr>tb_tool_invocations :=
              delete_where (\<lambda>v. v_task_id v = task_id) (tb_tool_invocations t)\<rparr>)) (\<lambda>_.
     execute (delete_task_events task_id))))"

definition delete_context_rows :: "string \<Rightarrow> string list \<Rightarrow> delete_context_result py" where
  "delete_context_rows context_id task_ids = transaction (
     bindM (execute (delete_artifacts context_id)) (\<lambda>deleted_artifacts.
     bindM (update_tables (delete_ingresses context_id)) (\<lambda>_.
     bindM (update_tables (delete_delegations context_id)) (\<lambda>_.
     bindM (forM task_ids delete_task_children) (\<lambda>event_counts.
     bindM (execute (delete_tasks context_id)) (\<lambda>deleted_tasks.
     bindM (execute (delete_route_decisions context_id)) (\<lambda>deleted_route_decisions.
     bindM (execute (delete_messages context_id)) (\<lambda>deleted_messages.
     bindM (execute (delete_context_row context_id)) (\<lambda>_.
     returnM \<lparr>dc_context_id = context_id, dc_deleted_messages = deleted_messages,
       dc_deleted_tasks = deleted_tasks, dc_deleted_task_events = sum_list event_counts,
       dc_deleted_artifacts = deleted_artifacts,
       dc_deleted_route_decisions = deleted_route_decisions\<rparr>)))))))))"

definition delete_terminal_context :: "string \<Rightarrow> delete_context_result py" where
  "delete_terminal_context context_id =
     bindM (list_context_tasks context_id None 0) (\<lambda>tasks.
     bindM (raise_if (list_ex (\<lambda>x. \<not> is_terminal_task_status (t_status x)) tasks)
              (ValueError (''context has non-terminal tasks: '' @ context_id))) (\<lambda>_.
     delete_context_rows context_id (map t_task_id tasks)))"

section \<open>What a deletion removes\<close>

definition without_children :: "string set \<Rightarrow> tables \<Rightarrow> tables" where
  "without_children ks t = t\<lparr>
     tb_task_events := filter (\<lambda>e. e_task_id e \<notin> ks) (tb_task_events t),
     tb_pending_continuations := filter (\<lambda>p. p_task_id p \<notin> ks) (tb_pending_continuations t),
     tb_queued_executions := filter (\<lambda>q. q_task_id q \<notin> ks) (tb_queued_executions t),
     tb_tool_invocations := filter (\<lambda>v. v_task_id v \<notin> ks) (tb_tool_invocations t)\<rparr>"

definition context_task_ids :: "string \<Rightarrow> tables \<Rightarrow> string set" where
  "context_task_ids c t = t_task_id ` {x \<in> set (tb_tasks t). t_context_id x = c}"

definition without_context :: "string \<Rightarrow> tables \<Rightarrow> tables" where
  "without_context c t = (without_children (context_task_ids c t) t)\<lparr>
     tb_contexts := filter (\<lambda>x. c_context_id x \<noteq> c) (tb_contexts t),
     tb_messages := filter (\<lambda>m. m_context_id m \<noteq> c) (tb_messages t),
     tb_route_decisions := filter (\<lambda>r. r_context_id r \<noteq> c) (tb_route_decisions t),
     tb_tasks := filter (\<lambda>x. t_context_id x \<noteq> c) (tb_tasks t),
     tb_artifacts := filter (\<lambda>a. a_context_id a \<noteq> c) (tb_artifacts t),
     tb_delegated_tasks := filter (\<lambda>d. d_context_id d \<noteq> c) (tb_delegated_tasks t),
     tb_message_ingress := filter (\<lambda>i. i_context_id i \<noteq> c) (tb_message_ingress t)\<rparr>"

text \<open>No row of another Context refers to a row of \<open>c\<close>.\<close>

definition context_closed :: "string \<Rightarrow> tables \<Rightarrow> bool" where
  "context_closed c t \<longleftrightarrow>
     (\<forall>k \<in> context_task_ids c t.
        (\<forall>a \<in> set (tb_artifacts t). a_context_id a \<noteq> c \<longrightarrow> a_task_id a \<noteq> k) \<and>
        (\<forall>d \<in> set (tb_delegated_tasks t). d_context_id d \<noteq> c \<longrightarrow> d_local_task_id d \<noteq> Some k)) \<and>
     (\<forall>r \<in> set (tb_route_decisions t). r_context_id r = c \<longrightarrow>
        (\<forall>i \<in> set (tb_message_ingress t). i_context_id i \<noteq> c \<longrightarrow> i_route_decision_id i \<noteq> Some (r_decision_id r)) \<and>
        (\<forall>d \<in> set (tb_delegated_tasks t). d_context_id d \<noteq> c \<longrightarrow> d_route_decision_id d \<noteq> r_decision_id r)) \<and>
     (\<forall>m \<in> set (tb_messages t). m_context_id m = c \<longrightarrow>
        (\<forall>x \<in> set (tb_tasks t). t_context_id x \<noteq> c \<longrightarrow>
           t_input_message_id x \<noteq> m_message_id m \<and> t_output_message_id x \<noteq> Some (m_message_id m)) \<and>
        (\<forall>r \<in> set (tb_route_decisions t). r_context_id r \<noteq> c \<longrightarrow> r_message_id r \<noteq> m_message_id m) \<and>
        (\<forall>i \<in> set (tb_message_ingress t). i_context_id i \<noteq> c \<longrightarrow> i_message_id i \<noteq> m_message_id m) \<and>
        (\<forall>d \<in> set (tb_delegated_tasks t). d_context_id d \<noteq> c \<longrightarrow> d_input_message_id d \<noteq> m_message_id m)) \<and>
     (\<forall>v \<in> set (tb_tool_invocations t). v_context_id v = c \<longrightarrow> v_task_id v \<in> context_task_ids c t)"

lemma delete_where_neq: "delete_where P t = filter (\<lambda>x. \<not> P x) t"
  by (simp add: delete_where_def)

lemma delete_children_loop:
  assumes "distinct ks"
  shows "wp (forM ks delete_task_children)
    (\<lambda>ns w'. conn w' = without_children (set ks) (conn w) \<and>
       sum_list ns = count_where (\<lambda>e. e_task_id e \<in> set ks) (tb_task_events (conn w)) \<and>
       transaction_depth w' = transaction_depth w \<and>
       (0 < transaction_depth w \<longrightarrow> durable w' = durable w))
    (\<lambda>_ _. False) w"
  using assms
proof (induction ks arbitrary: w)
  case Nil
  then show ?case by (simp add: wp_rules without_children_def count_where_def)
next
  case (Cons k ks)
  have count: "count_where (\<lambda>e. e_task_id e = k \<or> e_task_id e \<in> set ks) es =
      count_where (\<lambda>e. e_task_id e = k) es +
      count_where (\<lambda>e. e_task_id e \<in> set ks) (filter (\<lambda>e. e_task_id e \<noteq> k) es)" for es
    using Cons.prems by (induction es) (auto simp: count_where_def)
  have two: "without_children (set ks) (without_children {k} t) = without_children (insert k (set ks)) t" for t
    by (simp add: without_children_def conj_commute)
  have events: "tb_task_events (without_children {k} t) = filter (\<lambda>e. e_task_id e \<noteq> k) (tb_task_events t)" for t
    by (simp add: without_children_def)
  let ?w = "write_conn (without_children {k} (conn w)) w"
  have "wp (delete_task_children k) (\<lambda>n w'. n = count_where (\<lambda>e. e_task_id e = k) (tb_task_events (conn w)) \<and> w' = ?w)
     (\<lambda>_ _. False) w"
    by (simp add: delete_task_children_def wp_rules delete_pending_def delete_queued_def
      delete_task_events_def delete_where_neq without_children_def)
  then show ?case
    using Cons.IH [of ?w] Cons.prems
    by (auto simp: wp_rules two count events elim!: wp_mono)
qed

text \<open>The deleting transaction's body, from the tables it starts with.\<close>

definition deletion_result :: "string \<Rightarrow> tables \<Rightarrow> delete_context_result" where
  "deletion_result c t = \<lparr>dc_context_id = c,
     dc_deleted_messages = count_where (\<lambda>m. m_context_id m = c) (tb_messages t),
     dc_deleted_tasks = count_where (\<lambda>x. t_context_id x = c) (tb_tasks t),
     dc_deleted_task_events = count_where (\<lambda>e. e_task_id e \<in> context_task_ids c t) (tb_task_events t),
     dc_deleted_artifacts = count_where (\<lambda>a. a_context_id a = c) (tb_artifacts t),
     dc_deleted_route_decisions = count_where (\<lambda>r. r_context_id r = c) (tb_route_decisions t)\<rparr>"

lemma wp_delete_context_tail:
  assumes "context_closed c t0" and "tb_contexts t = tb_contexts t0" "tb_messages t = tb_messages t0"
    "tb_route_decisions t = tb_route_decisions t0" "tb_tasks t = tb_tasks t0"
    and t: "t = without_children (context_task_ids c t0) (delete_delegations c (delete_ingresses c
     (t0\<lparr>tb_artifacts := delete_where (\<lambda>a. a_context_id a = c) (tb_artifacts t0)\<rparr>)))"
    and "conn w = t" and "0 < transaction_depth w"
  shows "wp (bindM (execute (delete_tasks c)) (\<lambda>deleted_tasks.
     bindM (execute (delete_route_decisions c)) (\<lambda>deleted_route_decisions.
     bindM (execute (delete_messages c)) (\<lambda>deleted_messages.
     bindM (execute (delete_context_row c)) (\<lambda>_.
     returnM (f deleted_tasks deleted_route_decisions deleted_messages))))))
    Q E w = Q (f (count_where (\<lambda>x. t_context_id x = c) (tb_tasks t0))
        (count_where (\<lambda>r. r_context_id r = c) (tb_route_decisions t0))
        (count_where (\<lambda>m. m_context_id m = c) (tb_messages t0)))
      (write_conn (without_context c t0) w)"
proof -
  have tasks: "list_all (\<lambda>x. t_context_id x = c \<longrightarrow> task_unreferenced t (t_task_id x)) (tb_tasks t)"
    using assms(1,5)
    by (auto simp: t context_closed_def task_unreferenced_def list_all_iff without_children_def
       delete_delegations_def delete_ingresses_def context_task_ids_def)
  let ?t1 = "t\<lparr>tb_tasks := delete_where (\<lambda>x. t_context_id x = c) (tb_tasks t)\<rparr>"
  have decisions: "list_all (\<lambda>r. r_context_id r = c \<longrightarrow> decision_unreferenced ?t1 (r_decision_id r)) (tb_route_decisions ?t1)"
    using assms(1,4)
    by (auto simp: t context_closed_def decision_unreferenced_def list_all_iff without_children_def
       delete_delegations_def delete_ingresses_def)
  let ?t2 = "?t1\<lparr>tb_route_decisions := delete_where (\<lambda>r. r_context_id r = c) (tb_route_decisions t)\<rparr>"
  have messages: "list_all (\<lambda>m. m_context_id m = c \<longrightarrow> message_unreferenced ?t2 (m_message_id m)) (tb_messages ?t2)"
    using assms(1,3)
    by (auto simp: t context_closed_def message_unreferenced_def list_all_iff without_children_def
       delete_delegations_def delete_ingresses_def)
  let ?t3 = "?t2\<lparr>tb_messages := delete_where (\<lambda>m. m_context_id m = c) (tb_messages t)\<rparr>"
  have ctx: "context_unreferenced ?t3 c"
    using assms(1)
    by (auto simp: t context_closed_def context_unreferenced_def list_all_iff without_children_def
       delete_delegations_def delete_ingresses_def)
  have "?t3\<lparr>tb_contexts := delete_where (\<lambda>x. c_context_id x = c) (tb_contexts t)\<rparr> = without_context c t0"
    by (simp add: t without_context_def without_children_def delete_where_neq delete_delegations_def
      delete_ingresses_def)
  then show ?thesis
    using tasks decisions messages ctx assms(2-5,7,8)
    by (simp add: wp_rules delete_tasks_def delete_route_decisions_def delete_messages_def
      delete_context_row_def guarded_def)
qed

lemma wp_delete_context_rows:
  assumes "distinct ks" and "set ks = context_task_ids c (conn w)" and "context_closed c (conn w)"
  shows "wp (delete_context_rows c ks)
    (\<lambda>r w'. r = deletion_result c (conn w) \<and> conn w' = without_context c (conn w) \<and>
       transaction_depth w' = transaction_depth w \<and>
       durable w' = (if transaction_depth w = 0 then conn w' else durable w)) (\<lambda>_ _. False) w"
proof -
  let ?t = "delete_delegations c (delete_ingresses c
     ((conn w)\<lparr>tb_artifacts := delete_where (\<lambda>a. a_context_id a = c) (tb_artifacts (conn w))\<rparr>))"
  have frames: "tb_contexts (without_children ks' ?t) = tb_contexts (conn w)"
    "tb_messages (without_children ks' ?t) = tb_messages (conn w)"
    "tb_route_decisions (without_children ks' ?t) = tb_route_decisions (conn w)"
    "tb_tasks (without_children ks' ?t) = tb_tasks (conn w)"
    "tb_task_events ?t = tb_task_events (conn w)" for ks'
    by (simp_all add: without_children_def delete_delegations_def delete_ingresses_def)
  let ?post = "\<lambda>r w'. r = deletion_result c (conn w) \<and> conn w' = without_context c (conn w) \<and>
     transaction_depth w' = Suc (transaction_depth w) \<and> durable w' = durable w"
  let ?tail = "\<lambda>n event_counts. bindM (execute (delete_tasks c)) (\<lambda>deleted_tasks.
     bindM (execute (delete_route_decisions c)) (\<lambda>deleted_route_decisions.
     bindM (execute (delete_messages c)) (\<lambda>deleted_messages.
     bindM (execute (delete_context_row c)) (\<lambda>_.
     returnM \<lparr>dc_context_id = c, dc_deleted_messages = deleted_messages,
       dc_deleted_tasks = deleted_tasks, dc_deleted_task_events = sum_list event_counts,
       dc_deleted_artifacts = n,
       dc_deleted_route_decisions = deleted_route_decisions\<rparr>))))"
  let ?n = "count_where (\<lambda>a. a_context_id a = c) (tb_artifacts (conn w))"
  have tail: "wp (?tail ?n ns) ?post (\<lambda>_ _. False) w'"
    if "conn w' = without_children (set ks) ?t \<and>
       sum_list ns = count_where (\<lambda>e. e_task_id e \<in> set ks) (tb_task_events (conn w)) \<and>
       transaction_depth w' = Suc (transaction_depth w) \<and> durable w' = durable w" for ns w'
    using that assms(2)
    by (subst wp_delete_context_tail [OF assms(3) frames(1-4) refl]) (auto simp: deletion_result_def)
  have loop: "wp (forM ks delete_task_children) (\<lambda>ns. wp (?tail ?n ns) ?post (\<lambda>_ _. False)) (\<lambda>_ _. False)
     (write_conn ?t (tx_enter w))"
    by (rule wp_mono [OF delete_children_loop [OF assms(1)]]) (rule tail, auto simp: frames)
  have body: "wp (bindM (execute (delete_artifacts c)) (\<lambda>deleted_artifacts.
     bindM (update_tables (delete_ingresses c)) (\<lambda>_.
     bindM (update_tables (delete_delegations c)) (\<lambda>_.
     bindM (forM ks delete_task_children) (?tail deleted_artifacts))))) ?post (\<lambda>_ _. False) (tx_enter w)"
    using loop unfolding wp_bindM [of "forM _ _"] wp_bindM [of "execute (delete_artifacts _)"]
      wp_bindM [of "update_tables _"] wp_update_tables wp_execute
    by (simp add: delete_artifacts_def)
  show ?thesis
    unfolding delete_context_rows_def wp_transaction
    using body by (auto elim!: wp_mono)
qed

lemma fetch_filter_key:
  "fetch key k (filter (\<lambda>r. key r \<noteq> j) rows) = (if k = j then None else fetch key k rows)"
  using fetch_delete_where_key [of key k j rows] by (simp add: delete_where_neq)

lemma seq_inv_without_context: "seq_inv t \<Longrightarrow> seq_inv (without_context c t)"
  by (auto simp: seq_inv_def without_context_def distinct_map_filter fetch_filter_key)

lemma fetch_filter_distinct:
  assumes "distinct (map key rows)"
  shows "fetch key k (filter P rows) =
    (case fetch key k rows of None \<Rightarrow> None | Some r \<Rightarrow> if P r then Some r else None)"
  using assms
proof (induction rows)
  case (Cons a rows)
  then have "fetch key (key a) rows = None" by (simp add: fetch_None_notin)
  with Cons show ?case by (auto simp: table_simps)
qed (simp add: table_simps)

lemma task_inv_without_context:
  assumes "task_inv t"
  shows "task_inv (without_context c t)"
proof -
  let ?t = "without_context c t"
  have d: "distinct (map t_task_id (tb_tasks t))" and log: "event_log_ok t"
    and rows: "\<forall>x \<in> set (tb_tasks t). task_row_ok t x"
    using assms by (simp_all add: task_inv_def)
  have ev: "tb_task_events ?t = filter (\<lambda>e. e_task_id e \<notin> context_task_ids c t) (tb_task_events t)"
    and ts: "tb_tasks ?t = filter (\<lambda>x. t_context_id x \<noteq> c) (tb_tasks t)"
    and sq: "tb_event_seq ?t = tb_event_seq t"
    by (simp_all add: without_context_def without_children_def)
  have stays: "has_task ?t k" if "has_task t k" "k \<notin> context_task_ids c t" for k
  proof -
    from that(1) obtain x where x: "fetch t_task_id k (tb_tasks t) = Some x" by (auto simp: has_task_def)
    with that(2) fetch_SomeD [OF x] have "t_context_id x \<noteq> c"
      unfolding context_task_ids_def by blast
    with x show ?thesis by (simp add: has_task_def ts fetch_filter_distinct [OF d])
  qed
  have "event_log_ok ?t"
    unfolding event_log_ok_def ev sq sorted_wrt_map
  proof (intro conjI ballI)
    show "sorted_wrt (\<lambda>x y. e_event_id x < e_event_id y)
        (filter (\<lambda>e. e_task_id e \<notin> context_task_ids c t) (tb_task_events t))"
      using log by (intro sorted_wrt_filter) (simp add: event_log_ok_def sorted_wrt_map)
  qed (use log stays in \<open>simp_all add: event_log_ok_def\<close>)
  moreover have "task_row_ok ?t x" if "x \<in> set (tb_tasks t)" "t_context_id x \<noteq> c" for x
  proof -
    have out: "t_task_id x \<notin> context_task_ids c t"
    proof
      assume "t_task_id x \<in> context_task_ids c t"
      then obtain y where y: "y \<in> set (tb_tasks t)" "t_context_id y = c" "t_task_id x = t_task_id y"
        unfolding context_task_ids_def by blast
      from fetch_distinct [OF d that(1)] fetch_distinct [OF d y(1)] y(3) have "x = y" by (metis option.inject)
      with y(2) that(2) show False by simp
    qed
    have "events_of (t_task_id x) ?t = events_of (t_task_id x) t"
      unfolding events_of_def ev filter_filter by (rule filter_cong) (use out in auto)
    from task_row_ok_frame [OF this] rows that(1) show ?thesis by simp
  qed
  ultimately show ?thesis
    using d unfolding task_inv_def ts by (simp add: distinct_map_filter)
qed

text \<open>
  C32. Deleting a Context, for a Context no row of another one refers to.  With an
  unfinished Task it is refused and nothing changes.  Otherwise it succeeds: in one
  commit exactly the Context's row, its Messages, ingresses, route decisions,
  delegations and artifacts, and its Tasks with their events, continuations, queued
  commands and tool invocations are gone, everything else is as it was, the counts
  reported are the numbers of rows removed, and the invariants of Messages and Tasks
  still hold.
\<close>

theorem delete_terminal_context_spec:
  assumes "task_inv (conn w)" and "seq_inv (conn w)" and "context_closed c (conn w)"
    and "settled w" and "transaction_depth w = 0"
  shows "wp (delete_terminal_context c)
    (\<lambda>r w'. list_all (\<lambda>x. t_context_id x = c \<longrightarrow> is_terminal_task_status (t_status x)) (tb_tasks (conn w)) \<and>
       r = deletion_result c (conn w) \<and> conn w' = without_context c (conn w) \<and> durable w' = conn w' \<and>
       task_inv (conn w') \<and> seq_inv (conn w'))
    (\<lambda>e w'. e = ValueError (''context has non-terminal tasks: '' @ c) \<and>
       list_ex (\<lambda>x. t_context_id x = c \<and> \<not> is_terminal_task_status (t_status x)) (tb_tasks (conn w)) \<and>
       conn w' = conn w \<and> durable w' = durable w) w"
proof -
  let ?ks = "map t_task_id (sort_key (\<lambda>x. (t_created_at x, t_task_id x))
      (filter (\<lambda>x. t_context_id x = c) (tb_tasks (conn w))))"
  have "distinct (map t_task_id (filter (\<lambda>x. t_context_id x = c) (tb_tasks (conn w))))"
    using assms(1) by (simp add: task_inv_def distinct_map_filter)
  then have "distinct ?ks" by (simp add: distinct_map distinct_sort)
  moreover have "set ?ks = context_task_ids c (conn w)"
    by (auto simp: context_task_ids_def)
  ultimately have rows: "wp (delete_context_rows c ?ks)
    (\<lambda>r w'. r = deletion_result c (conn w) \<and> conn w' = without_context c (conn w) \<and> durable w' = conn w')
    (\<lambda>_ _. False) w"
    using assms(5) by (intro wp_mono [OF wp_delete_context_rows [OF _ _ assms(3)]]) auto
  have list: "wp (delete_terminal_context c) Q E w =
    (if list_ex (\<lambda>x. t_context_id x = c \<and> \<not> is_terminal_task_status (t_status x)) (tb_tasks (conn w))
     then E (ValueError (''context has non-terminal tasks: '' @ c)) w
     else wp (delete_context_rows c ?ks) Q E w)" for Q E
    by (auto simp: delete_terminal_context_def wp_rules list_context_tasks_def check_page_def
        newest_page_def list_ex_iff)
  have fin: "wp (delete_context_rows c ?ks)
     (\<lambda>r w'. r = deletion_result c (conn w) \<and> conn w' = without_context c (conn w) \<and> durable w' = conn w' \<and>
       task_inv (conn w') \<and> seq_inv (conn w')) (\<lambda>_ _. False) w"
    by (rule wp_mono [OF rows])
       (use seq_inv_without_context [OF assms(2)] task_inv_without_context [OF assms(1)] in simp_all)
  show ?thesis
  proof (cases "list_ex (\<lambda>x. t_context_id x = c \<and> \<not> is_terminal_task_status (t_status x)) (tb_tasks (conn w))")
    case True
    then show ?thesis by (simp add: list)
  next
    case False
    then have "list_all (\<lambda>x. t_context_id x = c \<longrightarrow> is_terminal_task_status (t_status x)) (tb_tasks (conn w))"
      by (simp add: list_ex_iff list_all_iff)
    then show ?thesis using False unfolding list by (simp add: fin)
  qed
qed


lemma sample_context_closed: "context_closed ''ctx'' sample_tables"
  unfolding context_closed_def context_task_ids_def sample_tables_def empty_tables_def
  by (simp add: sample_task_def sample_message_def sample_ingress_def)

theorem delete_terminal_context_spec_witness:
  "wp (delete_terminal_context ''ctx'') (\<lambda>_ _. False)
     (\<lambda>e w'. conn w' = sample_tables \<and> durable w' = sample_tables) (world_of sample_tables)"
proof -
  have "\<not> list_all (\<lambda>x. t_context_id x = ''ctx'' \<longrightarrow> is_terminal_task_status (t_status x)) (tb_tasks sample_tables)"
    by (simp add: sample_defs)
  then show ?thesis
    by (intro wp_mono [OF delete_terminal_context_spec])
       (simp_all add: sample_context_closed sample_task_inv sample_seq_inv)
qed

end
