(* ===== verification/Task_Outcomes.thy ===== *)
theory Task_Outcomes
  imports Store_Agents
begin

text \<open>
  Recording the outcome of an execution: \<open>main_agent/task_result_projection.py\<close>,
  the pure projections of a runtime result, and \<open>main_agent/task_outcomes.py\<close>, the
  \<open>TaskOutcomeRecorder\<close> that applies an accepted local result, failure, cancellation
  or remote snapshot to the durable Task.

  \<open>str()\<close> of a float or container is a parameter \<open>repr\<close>; it only reaches
  metadata and exception texts.

  The lemmas show that every recorder keeps the lifecycle history of the Tasks,
  never reopens a finished Task, leaves no tool invocation open and no continuation
  or command behind when a Task ends, and that a remote proxy never regresses.
\<close>

section \<open>Runtime results\<close>

record local_task_run_result =
  l_status :: task_status
  l_parts :: "pyval list"
  l_artifact_parts :: "pyval list"
  l_error_code :: "string option"
  l_error_message :: "string option"
  l_error_retryable :: bool
  l_input_request :: "pydict option"
  l_observations :: "pyval list"
  l_execution :: pydict

record remote_agent_task_snapshot =
  s_task_id :: string
  s_context_id :: "string option"
  s_status :: "string option"
  s_artifacts :: "pyval list"
  s_raw :: pydict

definition str_opt :: "string option \<Rightarrow> pyval" where
  "str_opt x = (case x of None \<Rightarrow> PNone | Some s \<Rightarrow> PStr s)"

text \<open>\<open>x or y\<close> for an optional text.\<close>

definition str_or :: "string option \<Rightarrow> string \<Rightarrow> string" where
  "str_or x y = (case x of None \<Rightarrow> y | Some s \<Rightarrow> if s = '''' then y else s)"

section \<open>Projections\<close>

text \<open>\<open>kind not in {...}\<close> raises for an unhashable kind.\<close>

fun unhashable :: "pyval \<Rightarrow> bool" where
  "unhashable (PList _) = True"
| "unhashable (PDict _) = True"
| "unhashable (PProxy _) = True"
| "unhashable _ = False"

definition continuation_input_request :: "local_task_run_result \<Rightarrow> exn + pydict option" where
  "continuation_input_request result =
     (case l_input_request result of
        None \<Rightarrow> Inr None
      | Some request \<Rightarrow>
          (let kind = dget request ''kind'' in
           if unhashable kind then Inl (TypeError ''unhashable type'')
           else if kind \<noteq> PStr ''approval_required'' \<and> kind \<noteq> PStr ''user_input_required'' then Inr None
           else Inr (Some request)))"

definition local_process_status :: "local_task_run_result \<Rightarrow> exn + task_status" where
  "local_process_status result =
     (if l_status result \<noteq> INPUT_REQUIRED \<and> l_status result \<noteq> AUTH_REQUIRED then Inr (l_status result)
      else
        (case continuation_input_request result of
           Inl e \<Rightarrow> Inl e
         | Inr None \<Rightarrow> Inr (l_status result)
         | Inr (Some request) \<Rightarrow>
             (if dget request ''kind'' = PStr ''approval_required'' then Inr AUTH_REQUIRED
              else Inr INPUT_REQUIRED)))"

definition task_result_execution :: "local_task_run_result \<Rightarrow> pydict" where
  "task_result_execution result = l_execution result"

definition task_result_lifecycle_payload :: "local_task_run_result \<Rightarrow> string option \<Rightarrow> pydict" where
  "task_result_lifecycle_payload result observation_artifact_id =
     (if task_result_execution result \<noteq> [] then [(''execution'', PDict (task_result_execution result))] else []) @
     (case observation_artifact_id of None \<Rightarrow> [] | Some a \<Rightarrow> [(''observation_artifact_id'', PStr a)])"

definition task_result_error_payload :: "local_task_run_result \<Rightarrow> string option \<Rightarrow> pydict" where
  "task_result_error_payload result observation_artifact_id =
     dupdate
       ((case l_error_code result of None \<Rightarrow> [] | Some c \<Rightarrow> if c = '''' then [] else [(''error_code'', PStr c)]) @
        (case l_error_message result of None \<Rightarrow> [] | Some m \<Rightarrow> if m = '''' then [] else [(''error_message'', PStr m)]) @
        (case l_input_request result of None \<Rightarrow> [] | Some r \<Rightarrow> if r = [] then [] else [(''input_request'', PDict r)]))
       (task_result_lifecycle_payload result observation_artifact_id)"

definition task_result_execution_metadata :: "local_task_run_result \<Rightarrow> string option \<Rightarrow> pydict" where
  "task_result_execution_metadata result observation_artifact_id =
     (if task_result_execution result \<noteq> [] then [(''execution'', PDict (task_result_execution result))] else []) @
     (case observation_artifact_id of None \<Rightarrow> [] | Some a \<Rightarrow> [(''observationArtifactId'', PStr a)])"

definition task_result_observations :: "local_task_run_result \<Rightarrow> pyval list" where
  "task_result_observations result = filter (\<lambda>v. as_dict v \<noteq> None) (l_observations result)"

section \<open>Closing an execution\<close>

definition require_task :: "string \<Rightarrow> task_record py" where
  "require_task task_id =
     bindM (get_task task_id) (\<lambda>x. require_some x (ValueError (''unknown task: '' @ task_id)))"

definition close_unresolved_execution ::
  "string \<Rightarrow> string \<Rightarrow> string \<Rightarrow> bool \<Rightarrow> string \<Rightarrow> unit py" where
  "close_unresolved_execution task_id error_code error_message retryable prepared_reason =
     bindM (mark_running_tool_invocations_uncertain task_id error_code error_message retryable) (\<lambda>_.
     bindM (cancel_prepared_tool_invocations task_id prepared_reason) (\<lambda>_.
     bindM (clear_pending_continuation task_id) (\<lambda>_.
     clear_queued_task_execution task_id)))"

section \<open>Cancellation and failure\<close>

definition record_cancellation :: "string \<Rightarrow> task_record py" where
  "record_cancellation task_id = transaction (
     bindM (require_task task_id) (\<lambda>task.
     if t_status task = CANCELED \<or> is_terminal_task_status (t_status task) then returnM task
     else
       bindM (transition_local_task task_id CANCELED
         [(''execution'', PDict [(''stop_reason'', PStr ''canceled''),
            (''stop_detail'', PDict [(''source'', PStr ''control_plane_cancellation'')])])]
         None None False) (\<lambda>canceled.
       bindM (close_unresolved_execution task_id ''task_canceled_during_tool_execution''
         (''Task cancellation reached a boundary while a side-effecting tool outcome '' @
          ''was unresolved.'') False ''task canceled before prepared tool execution'') (\<lambda>_.
       returnM canceled))))"

text \<open>The prefix the recorders share: a finished Task is returned as it is, a Task
  whose cancellation was requested is canceled, otherwise \<open>go\<close> continues.\<close>

definition unless_closing :: "string \<Rightarrow> (task_record \<Rightarrow> task_record py) \<Rightarrow> task_record py" where
  "unless_closing task_id go =
     bindM (require_task task_id) (\<lambda>task.
     if is_terminal_task_status (t_status task) then returnM task
     else if t_status task = CANCEL_REQUESTED then record_cancellation task_id
     else go task)"

definition failure_payload :: "agent_error_info \<Rightarrow> pydict" where
  "failure_payload info =
     (let error_code = PStr (error_code_value (ei_code info));
          error_message = PStr (ei_public_message info);
          retryable = PBool (ei_retryable info) in
      [(''error_code'', error_code), (''error_message'', error_message), (''retryable'', retryable),
       (''execution'', PDict
          [(''stop_reason'', PStr ''environment_failure''),
           (''stop_detail'', PDict [(''error_code'', error_code)]),
           (''residual_risks'', PList [PDict
              [(''category'', PStr ''environment_failure''), (''summary'', error_message),
               (''retryable'', retryable)]])])])"

definition record_failure :: "string \<Rightarrow> exn \<Rightarrow> task_record py" where
  "record_failure task_id error =
     (let info = error_info_from_exception error;
          error_code = error_code_value (ei_code info);
          error_message = ei_public_message info in
      transaction (unless_closing task_id (\<lambda>task.
        bindM (transition_local_task task_id FAILED (failure_payload info) (Some error_code)
                 (Some error_message) (ei_retryable info)) (\<lambda>failed.
        bindM (close_unresolved_execution task_id error_code error_message (ei_retryable info)
                 ''task failed before prepared tool execution'') (\<lambda>_.
        returnM failed)))))"

definition record_runtime_recovery_failure :: "string \<Rightarrow> string \<Rightarrow> string \<Rightarrow> task_record py" where
  "record_runtime_recovery_failure task_id error_code error_message = transaction (
     bindM (require_task task_id) (\<lambda>task.
     if is_terminal_task_status (t_status task) then returnM task
     else
       bindM (transition_local_task task_id FAILED
         [(''error_code'', PStr error_code), (''error_message'', PStr error_message),
          (''retryable'', PBool True)] (Some error_code) (Some error_message) True) (\<lambda>failed.
       bindM (close_unresolved_execution task_id error_code error_message True
                ''runtime recovery ended before prepared tool execution'') (\<lambda>_.
       returnM failed))))"

section \<open>Local results\<close>

definition persist_observations :: "task_record \<Rightarrow> local_task_run_result \<Rightarrow> string option py" where
  "persist_observations task result =
     (let observations = task_result_observations result;
          artifact_id = t_task_id task @ '':tool_observations'' in
      if observations = [] then returnM None
      else
        bindM (get_artifact artifact_id) (\<lambda>existing.
        bindM (upsert_artifact artifact_id (t_task_id task) (t_context_id task)
          [PDict [(''kind'', PStr ''data''), (''data'', PDict [(''observations'', PList observations)])]]
          (dupdate [(''kind'', PStr ''tool_observations''),
                    (''observationCount'', PInt (int (length observations)))]
             (task_result_execution_metadata result None))) (\<lambda>artifact.
        bindM (append_task_event (t_task_id task)
          (if existing \<noteq> None then ''task_artifact_updated'' else ''task_artifact_created'') None
          [(''artifact_id'', PStr (a_artifact_id artifact)), (''kind'', PStr ''tool_observations'')]) (\<lambda>_.
        returnM (Some (a_artifact_id artifact))))))"

definition record_completed_result ::
  "string \<Rightarrow> local_task_run_result \<Rightarrow> pydict \<Rightarrow> task_record py" where
  "record_completed_result task_id result metadata = transaction (unless_closing task_id (\<lambda>task.
     bindM (persist_observations task result) (\<lambda>observation_artifact_id.
     bindM (new_id ''msg'') (\<lambda>message_id.
     bindM (append_message message_id (t_context_id task) AGENT (l_parts result) (Some task_id)
              (dset ''routeKind'' (PStr (route_kind_value LOCAL_TASK)) metadata)) (\<lambda>assistant_message.
     bindM (upsert_artifact (task_id @ '':final_answer'') task_id (t_context_id task)
              (if l_artifact_parts result = [] then l_parts result else l_artifact_parts result)
              (dupdate [(''kind'', PStr ''final_answer''),
                        (''outputMessageId'', PStr (m_message_id assistant_message))]
                 (task_result_execution_metadata result observation_artifact_id))) (\<lambda>artifact.
     bindM (append_task_event task_id ''task_artifact_created'' None
              [(''artifact_id'', PStr (a_artifact_id artifact)), (''kind'', PStr ''final_answer'')]) (\<lambda>_.
     bindM (set_task_output_message task_id (m_message_id assistant_message)) (\<lambda>_.
     bindM (transition_local_task task_id COMPLETED
              (task_result_lifecycle_payload result observation_artifact_id) None None False) (\<lambda>completed.
     bindM (clear_pending_continuation task_id) (\<lambda>_.
     bindM (clear_queued_task_execution task_id) (\<lambda>_.
     returnM completed)))))))))))"

definition input_request_prompt :: "pydict \<Rightarrow> string" where
  "input_request_prompt input_request =
     (let p = dget input_request ''prompt'';
          prompt = (if truthy p then p else dget input_request ''message'') in
      case prompt of
        PStr s \<Rightarrow> if strip s \<noteq> '''' then strip s
                  else ''Please provide the information required to continue.''
      | _ \<Rightarrow> ''Please provide the information required to continue.'')"

text \<open>The Message that puts the question of a paused Task into the conversation.\<close>

definition append_input_request :: "string \<Rightarrow> task_record \<Rightarrow> task_record \<Rightarrow> pydict \<Rightarrow> unit py" where
  "append_input_request task_id task active input_request =
     (if dget input_request ''kind'' = PStr ''user_input_required'' then
        bindM (append_message
          (''msg-input-request-'' @ task_id @ ''-'' @ str_int (t_lifecycle_revision active))
          (t_context_id task) AGENT
          [PDict [(''kind'', PStr ''text''), (''text'', PStr (input_request_prompt input_request))]]
          (Some task_id)
          [(''routeKind'', PStr (route_kind_value LOCAL_TASK)),
           (''messageKind'', PStr ''task_input_request''),
           (''inputRequest'', PDict input_request),
           (''inputRequestRevision'', PInt (t_lifecycle_revision active))]) (\<lambda>_. returnM ())
      else returnM ())"

text \<open>\<open>kind=str(input_request["kind"])\<close>: the request was checked to carry a text.\<close>

definition record_interrupted_result ::
  "string \<Rightarrow> local_task_run_result \<Rightarrow> task_status \<Rightarrow> pydict \<Rightarrow> task_record py" where
  "record_interrupted_result task_id result result_status input_request =
     transaction (unless_closing task_id (\<lambda>task.
     bindM (persist_observations task result) (\<lambda>observation_artifact_id.
     bindM (set_pending_continuation task_id
              (case as_str (dget input_request ''kind'') of Some s \<Rightarrow> s | None \<Rightarrow> '''')
              input_request) (\<lambda>_.
     bindM (transition_local_task task_id result_status
              (task_result_error_payload result observation_artifact_id) None None False) (\<lambda>active.
     bindM (append_input_request task_id task active input_request) (\<lambda>_.
     bindM (clear_queued_task_execution task_id) (\<lambda>_.
     returnM active)))))))"

definition record_failed_result ::
  "string \<Rightarrow> local_task_run_result \<Rightarrow> task_status \<Rightarrow> task_record py" where
  "record_failed_result task_id result result_status =
     (let error_code = str_or (l_error_code result) ''task_not_completed'';
          error_message = str_or (l_error_message result)
            (''local task ended with unsupported status: '' @ task_status_value result_status) in
      transaction (unless_closing task_id (\<lambda>task.
      bindM (persist_observations task result) (\<lambda>observation_artifact_id.
      bindM (transition_local_task task_id FAILED
        (dupdate [(''error_code'', PStr error_code), (''error_message'', PStr error_message),
                  (''retryable'', PBool (l_error_retryable result))]
           (task_result_lifecycle_payload result observation_artifact_id))
        (Some error_code) (Some error_message) (l_error_retryable result)) (\<lambda>failed.
      bindM (close_unresolved_execution task_id ''task_ended_before_tool_outcome''
        ''Task ended before a side-effecting tool outcome was durably recorded.'' True
        ''task failed before prepared tool execution'') (\<lambda>_.
      returnM failed))))))"

definition record_local_result ::
  "string \<Rightarrow> local_task_run_result \<Rightarrow> pydict \<Rightarrow> task_record py" where
  "record_local_result task_id result metadata = unless_closing task_id (\<lambda>task.
     bindM (liftE (local_process_status result)) (\<lambda>result_status.
     if result_status = INPUT_REQUIRED \<or> result_status = AUTH_REQUIRED then
       bindM (liftE (continuation_input_request result)) (\<lambda>input_request.
       case input_request of
         None \<Rightarrow> record_failure task_id
           (ValueError ''interrupted task result must include a supported input_request.kind'')
       | Some request \<Rightarrow> record_interrupted_result task_id result result_status request)
     else if result_status = COMPLETED then record_completed_result task_id result metadata
     else if result_status = RUNNING then returnM task
     else record_failed_result task_id result result_status))"

section \<open>Remote snapshots\<close>

definition remote_task_status :: "string option \<Rightarrow> task_status \<Rightarrow> task_status" where
  "remote_task_status status fallback =
     (case status of
        None \<Rightarrow> fallback
      | Some s \<Rightarrow>
          if s \<in> {''submitted'', ''TASK_STATE_SUBMITTED'', ''created'', ''queued''} then QUEUED
          else if s \<in> {''working'', ''TASK_STATE_WORKING'', ''running''} then RUNNING
          else if s \<in> {''completed'', ''TASK_STATE_COMPLETED''} then COMPLETED
          else if s \<in> {''canceled'', ''cancelled'', ''TASK_STATE_CANCELED''} then CANCELED
          else if s \<in> {''failed'', ''rejected'', ''TASK_STATE_FAILED'', ''TASK_STATE_REJECTED''} then FAILED
          else if s \<in> {''input-required'', ''TASK_STATE_INPUT_REQUIRED''} then INPUT_REQUIRED
          else if s \<in> {''auth-required'', ''TASK_STATE_AUTH_REQUIRED''} then AUTH_REQUIRED
          else fallback)"

definition validate_remote_proxy_snapshot ::
  "(pyval \<Rightarrow> string) \<Rightarrow> delegated_task_record \<Rightarrow> remote_agent_task_snapshot \<Rightarrow> exn + unit" where
  "validate_remote_proxy_snapshot repr delegation snapshot =
     (case d_remote_task_id delegation of
        None \<Rightarrow> Inl (RemoteAgentProtocolError
          (''delegated task has no persisted remote task id: '' @ d_delegation_id delegation))
      | Some expected \<Rightarrow>
          if expected = '''' then Inl (RemoteAgentProtocolError
            (''delegated task has no persisted remote task id: '' @ d_delegation_id delegation))
          else if s_task_id snapshot \<noteq> expected then Inl (RemoteAgentProtocolError
            (''remote agent snapshot task id does not match the delegated task ('' @
             repr (PStr (s_task_id snapshot)) @ '' != '' @ repr (PStr expected) @ '')''))
          else
            (case (d_remote_context_id delegation, s_context_id snapshot) of
               (Some c, Some c') \<Rightarrow>
                 if c' \<noteq> c then Inl (RemoteAgentProtocolError
                   (''remote agent snapshot context id does not match the delegated context ('' @
                    repr (PStr c') @ '' != '' @ repr (PStr c) @ '')''))
                 else Inr ()
             | _ \<Rightarrow> Inr ()))"

definition optional_str :: "(pyval \<Rightarrow> string) \<Rightarrow> pyval \<Rightarrow> string option" where
  "optional_str repr v = (case v of
      PNone \<Rightarrow> None
    | PStr s \<Rightarrow> Some s
    | PInt i \<Rightarrow> Some (str_int i)
    | PBool b \<Rightarrow> Some (if b then ''True'' else ''False'')
    | _ \<Rightarrow> Some (repr v))"

definition normalize_remote_part :: "pyval \<Rightarrow> pyval option" where
  "normalize_remote_part part =
     (case part of
        PDict p \<Rightarrow>
          (case dget p ''text'' of
             PStr s \<Rightarrow> Some (PDict [(''kind'', PStr ''text''), (''text'', PStr s)])
           | _ \<Rightarrow> (case dget p ''kind'' of PStr _ \<Rightarrow> Some (PDict p) | _ \<Rightarrow> None))
      | _ \<Rightarrow> None)"

fun remote_final_artifact ::
  "(pyval \<Rightarrow> string) \<Rightarrow> pyval list \<Rightarrow> pyval list \<times> string option" where
  "remote_final_artifact repr [] = ([], None)"
| "remote_final_artifact repr (a # as) =
     (case a of
        PDict artifact \<Rightarrow>
          (case dget artifact ''parts'' of
             PList raw_parts \<Rightarrow>
               (let parts = List.map_filter normalize_remote_part raw_parts in
                if parts \<noteq> [] then
                  (parts, optional_str repr
                     (if truthy (dget artifact ''artifactId'') then dget artifact ''artifactId''
                      else dget artifact ''id''))
                else remote_final_artifact repr as)
           | _ \<Rightarrow> remote_final_artifact repr as)
      | _ \<Rightarrow> remote_final_artifact repr as)"

definition store_remote_final_answer ::
  "task_record \<Rightarrow> delegated_task_record \<Rightarrow> remote_agent_task_snapshot \<Rightarrow> pyval list \<Rightarrow>
   string option \<Rightarrow> task_record py" where
  "store_remote_final_answer task delegation snapshot parts remote_artifact_id =
     bindM (new_id ''msg'') (\<lambda>message_id.
     bindM (append_message message_id (t_context_id task) AGENT parts (Some (t_task_id task))
       [(''routeKind'', PStr (route_kind_value REMOTE_AGENT)),
        (''remoteAgentId'', PStr (d_remote_agent_id delegation)),
        (''remoteTaskId'', PStr (s_task_id snapshot)),
        (''remoteContextId'', str_opt (s_context_id snapshot)),
        (''remoteArtifactId'', str_opt remote_artifact_id),
        (''delegationId'', PStr (d_delegation_id delegation))]) (\<lambda>assistant_message.
     bindM (upsert_artifact (t_task_id task @ '':remote_final_answer'') (t_task_id task)
       (t_context_id task) parts
       [(''kind'', PStr ''final_answer''), (''source'', PStr ''remote_agent''),
        (''outputMessageId'', PStr (m_message_id assistant_message)),
        (''remoteAgentId'', PStr (d_remote_agent_id delegation)),
        (''remoteTaskId'', PStr (s_task_id snapshot)),
        (''remoteArtifactId'', str_opt remote_artifact_id)]) (\<lambda>artifact.
     bindM (append_task_event (t_task_id task) ''task_artifact_created'' None
       [(''artifact_id'', PStr (a_artifact_id artifact)), (''kind'', PStr ''final_answer''),
        (''source'', PStr ''remote_agent''), (''remote_agent_id'', PStr (d_remote_agent_id delegation)),
        (''remote_task_id'', PStr (s_task_id snapshot)),
        (''remote_artifact_id'', str_opt remote_artifact_id)]) (\<lambda>_.
     set_task_output_message (t_task_id task) (m_message_id assistant_message)))))"

definition materialize_remote_final_answer ::
  "(pyval \<Rightarrow> string) \<Rightarrow> task_record \<Rightarrow> delegated_task_record \<Rightarrow> remote_agent_task_snapshot \<Rightarrow>
   task_record py" where
  "materialize_remote_final_answer repr task delegation snapshot =
     (case remote_final_artifact repr (s_artifacts snapshot) of (parts, remote_artifact_id) \<Rightarrow>
      if parts = [] then returnM task
      else
        bindM (get_artifact (t_task_id task @ '':remote_final_answer'')) (\<lambda>existing.
        if existing \<noteq> None then
          bindM (get_task (t_task_id task)) (\<lambda>x. returnM (case x of None \<Rightarrow> task | Some y \<Rightarrow> y))
        else store_remote_final_answer task delegation snapshot parts remote_artifact_id))"

definition delegation_metadata :: "delegated_task_record \<Rightarrow> remote_agent_task_snapshot \<Rightarrow> pydict" where
  "delegation_metadata delegation snapshot =
     (let md = dupdate (d_metadata delegation)
        [(''remoteTaskId'', PStr (s_task_id snapshot)),
         (''remoteContextId'', str_opt (s_context_id snapshot)),
         (''remoteStatus'', str_opt (s_status snapshot))] in
      if s_raw snapshot \<noteq> [] then dset ''lastRemoteSnapshot'' (PDict (s_raw snapshot)) md else md)"

text \<open>What an accepted snapshot writes.\<close>

definition apply_remote_snapshot ::
  "(pyval \<Rightarrow> string) \<Rightarrow> task_record \<Rightarrow> delegated_task_record \<Rightarrow> remote_agent_task_snapshot \<Rightarrow>
   task_status \<Rightarrow> task_record py" where
  "apply_remote_snapshot repr task delegation snapshot next_status =
     bindM (update_delegated_task_status (d_delegation_id delegation)
              (str_or (s_status snapshot) (task_status_value next_status))
              (Some (delegation_metadata delegation snapshot))) (\<lambda>_.
     bindM (if next_status = COMPLETED
            then materialize_remote_final_answer repr task delegation snapshot
            else returnM task) (\<lambda>task'.
     if next_status = t_status task' then returnM task'
     else
       bindM (update_task_status (t_task_id task') next_status None None False) (\<lambda>updated.
       bindM (append_task_event (t_task_id task') ''remote_task_status_synced'' (Some next_status)
         [(''remote_agent_id'', PStr (d_remote_agent_id delegation)),
          (''remote_task_id'', PStr (s_task_id snapshot)),
          (''remote_context_id'', str_opt (s_context_id snapshot)),
          (''remote_status'', str_opt (s_status snapshot))]) (\<lambda>_.
       returnM updated))))"

definition record_remote_snapshot ::
  "(pyval \<Rightarrow> string) \<Rightarrow> string \<Rightarrow> remote_agent_task_snapshot \<Rightarrow> task_record py" where
  "record_remote_snapshot repr task_id snapshot = transaction (
     bindM (require_task task_id) (\<lambda>task.
     bindM (get_delegated_task_by_local_task_id task_id) (\<lambda>d.
     bindM (require_some d (ValueError (''remote proxy task is missing delegation: '' @ task_id))) (\<lambda>delegation.
     bindM (liftE (validate_remote_proxy_snapshot repr delegation snapshot)) (\<lambda>_.
     let next_status = remote_task_status (s_status snapshot) (t_status task) in
     if \<not> accepts_remote_proxy_snapshot (t_status task) next_status then returnM task
     else apply_remote_snapshot repr task delegation snapshot next_status)))))"

section \<open>What the recorders rely on\<close>

text \<open>
  The recorders change the database only through the store operations below.
  Whatever condition \<open>I\<close> those operations keep, the recorders keep.
\<close>

locale recorder_store =
  fixes I :: "tables \<Rightarrow> bool"
  assumes transition_keeps: "tx_keeps I (transition_local_task k s pl ec em er)"
    and note_keeps: "tx_keeps I (append_task_event k ty None pl)"
    and message_keeps: "tx_keeps I (append_message mid c role parts ko md)"
    and output_keeps: "tx_keeps I (set_task_output_message k mid)"
    and artifact_keeps: "tx_keeps I (upsert_artifact aid k c parts md)"
    and set_pending_keeps: "tx_keeps I (set_pending_continuation k pk req)"
    and clear_pending_keeps: "tx_keeps I (clear_pending_continuation k)"
    and clear_queued_keeps: "tx_keeps I (clear_queued_task_execution k)"
    and uncertain_keeps: "tx_keeps I (mark_running_tool_invocations_uncertain k c' m' er)"
    and canceled_keeps: "tx_keeps I (cancel_prepared_tool_invocations k m')"
begin

lemmas store_keeps = transition_keeps note_keeps message_keeps output_keeps artifact_keeps
  set_pending_keeps clear_pending_keeps clear_queued_keeps uncertain_keeps canceled_keeps

lemma require_task_keeps: "tx_keeps I (require_task k)"
  by (simp add: require_task_def get_task_def tx_intros)

lemma close_unresolved_execution_keeps: "tx_keeps I (close_unresolved_execution k ec em rt pr)"
  unfolding close_unresolved_execution_def by (intro tx_intros store_keeps)

lemma record_cancellation_keeps: "tx_keeps I (record_cancellation k)"
  unfolding record_cancellation_def
  by (intro tx_intros store_keeps require_task_keeps close_unresolved_execution_keeps)

lemma unless_closing_keeps:
  "(\<And>x. tx_keeps I (go x)) \<Longrightarrow> tx_keeps I (unless_closing k go)"
  unfolding unless_closing_def
  by (intro tx_intros require_task_keeps record_cancellation_keeps)

lemma persist_observations_keeps: "tx_keeps I (persist_observations x r)"
  unfolding persist_observations_def Let_def get_artifact_def by (intro tx_intros store_keeps)

lemma recorders_keep:
  "tx_keeps I (record_failure k err)"
  "tx_keeps I (record_runtime_recovery_failure k ec em)"
  "tx_keeps I (record_completed_result k r md)"
  "tx_keeps I (record_interrupted_result k r s req)"
  "tx_keeps I (record_failed_result k r s)"
  unfolding record_failure_def record_runtime_recovery_failure_def record_completed_result_def
    record_interrupted_result_def record_failed_result_def Let_def append_input_request_def
  by (intro tx_intros store_keeps require_task_keeps unless_closing_keeps
      close_unresolved_execution_keeps persist_observations_keeps)+

lemma record_local_result_keeps: "tx_keeps I (record_local_result k r md)"
  unfolding record_local_result_def
  by (intro tx_intros unless_closing_keeps recorders_keep)

end

lemma append_message_frame:
  assumes "\<And>t cs ms. I (t\<lparr>tb_contexts := cs\<rparr>) = I t" "\<And>t cs ms. I (t\<lparr>tb_messages := ms\<rparr>) = I t"
  shows "tx_keeps I (append_message mid c role parts k md)"
  unfolding append_message_def append_new_message_def get_context_def get_message_def
    insert_message_row_def bump_message_sequence_def
  by (intro tx_intros stmt_keeps_guarded; simp add: stmt_keeps_def assms)

lemma sweeps_frame:
  assumes "\<And>t vs. I (t\<lparr>tb_tool_invocations := vs\<rparr>) = I t"
  shows "tx_keeps I (mark_running_tool_invocations_uncertain k ec em rt)"
    and "tx_keeps I (cancel_prepared_tool_invocations k rs)"
  unfolding mark_running_tool_invocations_uncertain_def cancel_prepared_tool_invocations_def
    set_invocations_def
  by (intro tx_intros; simp add: stmt_keeps_def assms)+

interpretation history_of_recorders: recorder_store task_inv
  by unfold_locales (intro transition_local_task_task_inv append_note_task_inv append_message_frame
      set_task_output_message_task_inv task_ops_task_inv sweeps_frame; simp)+

text \<open>Every operation respects transactions.\<close>

lemma store_ops_respect_transactions:
  "tx_keeps (\<lambda>_. True) (append_task_event k ty st pl)"
  "tx_keeps (\<lambda>_. True) (upsert_artifact aid k c parts md)"
  "tx_keeps (\<lambda>_. True) (set_pending_continuation k pk req)"
  "tx_keeps (\<lambda>_. True) (clear_pending_continuation k)"
  "tx_keeps (\<lambda>_. True) (clear_queued_task_execution k)"
  "tx_keeps (\<lambda>_. True) (set_task_output_message k mid)"
  unfolding append_task_event_def upsert_artifact_def set_pending_continuation_def
    clear_pending_continuation_def clear_queued_task_execution_def set_task_output_message_def
    get_task_def get_task_event_def get_artifact_def get_pending_continuation_def get_message_def
  by (intro tx_intros; simp)+

lemma transition_respects_transactions:
  "tx_keeps (\<lambda>_. True) (transition_local_task k s pl ec em er)"
  unfolding transition_local_task_def get_task_def
  by (intro tx_intros store_ops_respect_transactions; simp)

interpretation atomic_recorders: recorder_store "\<lambda>_. True"
  by unfold_locales (intro store_ops_respect_transactions transition_respects_transactions
      append_message_frame sweeps_frame; simp)+

definition ended :: "string \<Rightarrow> task_status \<Rightarrow> tables \<Rightarrow> bool" where
  "ended k s t \<longleftrightarrow> (is_terminal_task_status s \<longrightarrow> local_status k s t)"

interpretation ended_under_recorders: recorder_store "ended k s" for k s
proof (cases "is_terminal_task_status s")
  case True
  then have eq: "ended k s = local_status k s" by (simp add: ended_def fun_eq_iff)
  show "recorder_store (ended k s)"
    unfolding eq
    by unfold_locales (intro local_ops_final [OF True] append_message_frame sweeps_frame; simp)+
next
  case False
  then have eq: "ended k s = (\<lambda>_. True)" by (simp add: ended_def fun_eq_iff)
  show "recorder_store (ended k s)"
    unfolding eq by (fact atomic_recorders.recorder_store_axioms)
qed

text \<open>A condition on none of the Task tables, or on the events in a way that the insertion of
  one keeps, is kept by the Task operations.\<close>

lemma task_ops_log:
  assumes "\<And>t k f. I (set_task k f t) = I t" "\<And>e. stmt_keeps I (insert_task_event_row e)"
    and "\<And>t ps. I (t\<lparr>tb_pending_continuations := ps\<rparr>) = I t" "\<And>t qs. I (t\<lparr>tb_queued_executions := qs\<rparr>) = I t"
  shows "tx_keeps I (append_task_event k ty st pl)"
    and "tx_keeps I (transition_local_task k s pl ec em er)"
    and "tx_keeps I (set_task_output_message k mid)"
    and "tx_keeps I (set_pending_continuation k pk req)"
    and "tx_keeps I (clear_pending_continuation k)"
    and "tx_keeps I (clear_queued_task_execution k)"
proof -
  have stmts: "stmt_keeps I (update_task_output k m now)"
    "stmt_keeps I (upsert_pending_row p)" "stmt_keeps I (delete_pending P)" "stmt_keeps I (delete_queued k)"
    for k m now p P
    by (auto simp: stmt_keeps_def update_task_output_def upsert_pending_row_def
        delete_pending_def delete_queued_def guarded_Inr Let_def assms split: if_splits)
  show ev: "tx_keeps I (append_task_event k ty st pl)" for k ty st pl
    unfolding append_task_event_def get_task_def get_task_event_def by (intro tx_intros stmts assms(2))
  show "tx_keeps I (transition_local_task k s pl ec em er)"
    unfolding transition_local_task_def get_task_def by (intro tx_intros ev; simp add: assms(1))
  show "tx_keeps I (set_task_output_message k mid)" "tx_keeps I (set_pending_continuation k pk req)"
    "tx_keeps I (clear_pending_continuation k)" "tx_keeps I (clear_queued_task_execution k)"
    unfolding set_task_output_message_def set_pending_continuation_def clear_pending_continuation_def
      clear_queued_task_execution_def get_task_def get_message_def get_pending_continuation_def
    by (intro tx_intros stmts)+
qed

lemma insert_event_frame:
  "(\<And>t es n. I (t\<lparr>tb_task_events := es, tb_event_seq := n\<rparr>) = I t) \<Longrightarrow> stmt_keeps I (insert_task_event_row e)"
  by (auto simp: stmt_keeps_def insert_task_event_row_def guarded_Inr Let_def)

lemma task_ops_frame:
  assumes "\<And>t k f. I (set_task k f t) = I t" "\<And>t es n. I (t\<lparr>tb_task_events := es, tb_event_seq := n\<rparr>) = I t"
    and "\<And>t ps. I (t\<lparr>tb_pending_continuations := ps\<rparr>) = I t" "\<And>t qs. I (t\<lparr>tb_queued_executions := qs\<rparr>) = I t"
  shows "tx_keeps I (append_task_event k ty st pl)"
    and "tx_keeps I (transition_local_task k s pl ec em er)"
    and "tx_keeps I (set_task_output_message k mid)"
    and "tx_keeps I (set_pending_continuation k pk req)"
    and "tx_keeps I (clear_pending_continuation k)"
    and "tx_keeps I (clear_queued_task_execution k)"
  by (intro task_ops_log insert_event_frame assms)+

lemma ledger_inv_other_tables [simp]:
  "ledger_inv (t\<lparr>tb_contexts := a\<rparr>) = ledger_inv t" "ledger_inv (t\<lparr>tb_messages := b\<rparr>) = ledger_inv t"
  "ledger_inv (t\<lparr>tb_pending_continuations := c\<rparr>) = ledger_inv t"
  "ledger_inv (t\<lparr>tb_queued_executions := d\<rparr>) = ledger_inv t"
  by (rule ledger_inv_frame; simp)+

interpretation ledger_under_recorders: recorder_store ledger_inv
  by unfold_locales (intro task_ops_frame append_message_frame artifact_ops_ledger_inv ledger_ops_inv; simp)+

lemma seq_inv_other_tables [simp]:
  "seq_inv (set_task k f t) = seq_inv t" "seq_inv (t\<lparr>tb_task_events := a, tb_event_seq := n\<rparr>) = seq_inv t"
  "seq_inv (t\<lparr>tb_pending_continuations := b\<rparr>) = seq_inv t" "seq_inv (t\<lparr>tb_queued_executions := c\<rparr>) = seq_inv t"
  "seq_inv (t\<lparr>tb_artifacts := d\<rparr>) = seq_inv t" "seq_inv (t\<lparr>tb_tool_invocations := e\<rparr>) = seq_inv t"
  by (rule seq_inv_frame; simp)+

lemma upsert_artifact_frame:
  assumes "\<And>t k f. I (set_task k f t) = I t" "\<And>t as. I (t\<lparr>tb_artifacts := as\<rparr>) = I t"
  shows "tx_keeps I (upsert_artifact aid k c parts md)"
proof -
  have "stmt_keeps I (upsert_artifact_row a)" for a
    by (auto simp: stmt_keeps_def upsert_artifact_row_def guarded_Inr assms split: if_splits)
  then show ?thesis
    unfolding upsert_artifact_def get_task_def get_artifact_def by (intro tx_intros) (simp_all add: assms)
qed

interpretation sequences_under_recorders: recorder_store seq_inv
  by unfold_locales (intro task_ops_frame append_message_seq_inv upsert_artifact_frame sweeps_frame; simp)+

section \<open>An execution that ends is closed\<close>

text \<open>Nothing of the Task's execution is left open: no command, no continuation, and no
  tool invocation that is prepared or running.\<close>

definition execution_closed :: "string \<Rightarrow> tables \<Rightarrow> bool" where
  "execution_closed k t \<longleftrightarrow>
     fetch q_task_id k (tb_queued_executions t) = None \<and>
     fetch p_task_id k (tb_pending_continuations t) = None \<and>
     (\<forall>v \<in> set (tb_tool_invocations t). v_task_id v = k \<longrightarrow> inv_terminal (v_status v))"

definition closed_tables ::
  "string \<Rightarrow> string \<Rightarrow> string \<Rightarrow> bool \<Rightarrow> timestamp \<Rightarrow> string \<Rightarrow> timestamp \<Rightarrow> tables \<Rightarrow> tables" where
  "closed_tables k ec em rt now1 pr now2 t = t\<lparr>
     tb_tool_invocations := set_where (\<lambda>v. v_task_id v = k \<and> v_status v = PREPARED) (canceled_row pr now2)
       (set_where (\<lambda>v. v_task_id v = k \<and> v_status v = INV_RUNNING) (uncertain_row ec em rt now1)
         (tb_tool_invocations t)),
     tb_pending_continuations := delete_where (\<lambda>p. p_task_id p = k) (tb_pending_continuations t),
     tb_queued_executions := delete_where (\<lambda>q. q_task_id q = k) (tb_queued_executions t)\<rparr>"

lemma wp_close_unresolved_execution:
  "wp (close_unresolved_execution k ec em rt pr) Q E w =
     Q () (write_conn (closed_tables k ec em rt (clock w (clock_reads w)) pr
             (clock w (Suc (clock_reads w))) (conn w))
           (w\<lparr>clock_reads := Suc (Suc (clock_reads w))\<rparr>))"
  by (simp add: close_unresolved_execution_def mark_running_tool_invocations_uncertain_def
      cancel_prepared_tool_invocations_def clear_pending_continuation_def
      clear_queued_task_execution_def wp_rules set_invocations_def delete_pending_def
      delete_queued_def closed_tables_def)

lemma closed_tables_simps [simp]:
  "tb_tasks (closed_tables k ec em rt n1 pr n2 t) = tb_tasks t"
  "tb_task_events (closed_tables k ec em rt n1 pr n2 t) = tb_task_events t"
  "history j (closed_tables k ec em rt n1 pr n2 t) = history j t"
  by (simp_all add: closed_tables_def history_def events_of_def)

lemma v_task_id_rows [simp]:
  "v_task_id (canceled_row pr now v) = v_task_id v" "v_task_id (uncertain_row ec em rt now v) = v_task_id v"
  by (simp_all add: canceled_row_def uncertain_row_def)

lemma v_status_rows [simp]:
  "v_status (canceled_row pr now v) = INV_CANCELED" "v_status (uncertain_row ec em rt now v) = UNCERTAIN"
  by (simp_all add: canceled_row_def uncertain_row_def)

lemma inv_terminal_iff: "inv_terminal s \<longleftrightarrow> s \<noteq> PREPARED \<and> s \<noteq> INV_RUNNING"
  by (cases s) (simp_all add: inv_terminal_def)

lemma execution_closed_tables: "execution_closed k (closed_tables k ec em rt n1 pr n2 t)"
proof -
  have "v_task_id r = k \<longrightarrow> inv_terminal (v_status r)"
    if "r = (if v_task_id u = k \<and> v_status u = PREPARED then canceled_row pr n2 u else u)"
      "u = (if v_task_id v = k \<and> v_status v = INV_RUNNING then uncertain_row ec em rt n1 v else v)" for r u v
    unfolding that by (cases "v_task_id v = k"; cases "v_status v") (simp_all add: inv_terminal_def)
  then have "\<forall>v \<in> set (set_where (\<lambda>v. v_task_id v = k \<and> v_status v = PREPARED) (canceled_row pr n2)
      (set_where (\<lambda>v. v_task_id v = k \<and> v_status v = INV_RUNNING) (uncertain_row ec em rt n1) ts)).
      v_task_id v = k \<longrightarrow> inv_terminal (v_status v)" for ts
    unfolding ball_set_where by blast
  then show ?thesis by (simp add: execution_closed_def closed_tables_def table_simps)
qed

lemma failure_payload_json: "\<exists>pl. dumps_dict (failure_payload info) = Inr pl"
  by (simp add: dumps_dict_def dumps_def failure_payload_def Let_def)

lemma dumps_cancel: "\<exists>pl. dumps_dict [(''execution'', PDict [(''stop_reason'', PStr ''canceled''),
            (''stop_detail'', PDict [(''source'', PStr ''control_plane_cancellation'')])])] = Inr pl"
  by (simp add: dumps_dict_def dumps_def)

text \<open>
  C21. Recording a failure always ends the Task.  For a locally owned Task, outside a
  transaction, whatever the exception: a finished Task is returned untouched;
  otherwise the Task ends, as canceled when its cancellation had been requested and
  as failed with the error's code and public message when not, its event says so, and
  in the same commit its queued command, its continuation and every tool invocation
  that was prepared or running are closed.
\<close>

theorem record_failure_ends:
  assumes "task_inv (conn w)" and "settled w" and "transaction_depth w = 0"
    and "fetch t_task_id k (tb_tasks (conn w)) = Some x" and "t_assigned_agent_id x = None"
  shows "wp (record_failure k err)
    (\<lambda>y w'. durable w' = conn w' \<and> fetch t_task_id k (tb_tasks (conn w')) = Some y \<and>
       (if is_terminal_task_status (t_status x) then y = x \<and> conn w' = conn w
        else
          execution_closed k (conn w') \<and>
          history k (conn w') = history k (conn w) @ [t_status y] \<and>
          (if t_status x = CANCEL_REQUESTED then t_status y = CANCELED
           else t_status y = FAILED \<and>
             t_error_code y = Some (error_code_value (ei_code (error_info_from_exception err))) \<and>
             t_error_message y = Some (ei_public_message (error_info_from_exception err)))))
    (\<lambda>_ _. False) w"
proof -
  have log: "event_log_ok (conn w)" using assms(1) by (simp add: task_inv_def)
  have ds: "durable w = conn w" using assms(2,3) by (simp add: settled_def)
  have into: "conn (tx_enter w) = conn w" by simp
  note run = record_failure_def Let_def unless_closing_def require_task_def get_task_def wp_rules
    record_cancellation_def ds assms(3-5)
  note ending = wp_bindM wp_returnM wp_close_unresolved_execution execution_closed_tables tb_tasks_set_task table_simps
  consider (over) "is_terminal_task_status (t_status x)"
    | (closing) "t_status x = CANCEL_REQUESTED"
    | (live) "\<not> is_terminal_task_status (t_status x)" "t_status x \<noteq> CANCEL_REQUESTED"
    by blast
  then show ?thesis
  proof cases
    case over
    then show ?thesis by (simp add: run)
  next
    case closing
    obtain pl where "dumps_dict [(''execution'', PDict [(''stop_reason'', PStr ''canceled''),
            (''stop_detail'', PDict [(''source'', PStr ''control_plane_cancellation'')])])] = Inr pl"
      using dumps_cancel by blast
    with closing show ?thesis
      by (simp add: run, subst wp_transition_local_task)
         (simp_all add: log assms(4,5) local_step_iff ending Let_def)
  next
    case live
    obtain pl where "dumps_dict (failure_payload (error_info_from_exception err)) = Inr pl"
      using failure_payload_json by blast
    moreover have "local_step (t_status x) FAILED"
      using live by (cases "t_status x") (simp_all add: local_step_iff)
    ultimately show ?thesis using live
      by (simp add: run, subst wp_transition_local_task)
         (auto simp: log assms(4,5) local_step_iff ending Let_def status_row_def)
  qed
qed

lemma sample_facts [simp]:
  "fetch t_task_id ''task'' (tb_tasks sample_tables) = Some sample_task"
  "t_status sample_task = QUEUED" "t_assigned_agent_id sample_task = None"
  "history ''task'' sample_tables = [CREATED, QUEUED]"
  by (simp_all add: sample_defs table_simps history_def events_of_def)

theorem record_failure_ends_witness:
  "wp (record_failure ''task'' (RuntimeError ''boom''))
     (\<lambda>y w'. durable w' = conn w' \<and> t_status y = FAILED \<and>
        history ''task'' (conn w') = [CREATED, QUEUED, FAILED])
     (\<lambda>_ _. False) (world_of sample_tables)"
  by (rule wp_mono [OF record_failure_ends]) (auto simp: sample_task_inv)

text \<open>
  A finished Task stays finished whatever outcome arrives late.  Once a locally
  owned Task has reached a terminal status, no recorder changes that status, in the
  committed database or in the one the connection reads: not the result of a run that
  ended after a cancellation, not a failure, not a recovery sweep, for this Task or
  for any other.
\<close>

theorem recorders_never_reopen:
  assumes "is_terminal_task_status s"
  shows "tx_keeps (local_status k s) (record_local_result j r md) \<and>
    tx_keeps (local_status k s) (record_cancellation j) \<and>
    tx_keeps (local_status k s) (record_failure j err) \<and>
    tx_keeps (local_status k s) (record_runtime_recovery_failure j ec em)"
proof -
  have "local_status k s = ended k s" using assms by (simp add: ended_def fun_eq_iff)
  then show ?thesis
    by (simp add: ended_under_recorders.record_local_result_keeps
        ended_under_recorders.record_cancellation_keeps ended_under_recorders.recorders_keep)
qed

theorem recorders_never_reopen_witness:
  "tx_keeps (local_status ''task'' CANCELED) (record_local_result ''task''
     \<lparr>l_status = COMPLETED, l_parts = [], l_artifact_parts = [], l_error_code = None, l_error_message = None,
      l_error_retryable = False, l_input_request = None, l_observations = [], l_execution = []\<rparr> [])"
  using recorders_never_reopen [of CANCELED "''task''" "''task''"] by simp

end
