(* ===== verification/Context_Assembly.thy ===== *)
theory Context_Assembly
  imports Store_Tasks "HOL-Library.Sublist"
begin

text \<open>
  The conversation a model sees, \<open>main_agent/context.py\<close>: a window of the newest
  Messages of a Context up to the current input, with a budget of characters for
  everything that precedes the input.

  The lemmas show that the window respects its three bounds, keeps the order of
  the conversation, never changes the current input, and always ends with it.
\<close>

section \<open>Policies\<close>

record context_assembly_policy =
  max_messages :: int
  max_history_characters :: int
  max_message_characters :: int

text \<open>\<open>__post_init__\<close>.\<close>

definition check_policy :: "context_assembly_policy \<Rightarrow> exn + unit" where
  "check_policy policy =
     (if max_messages policy \<le> 0 then Inl (ValueError ''max_messages must be positive'')
      else if max_history_characters policy < 0 then
        Inl (ValueError ''max_history_characters must be non-negative'')
      else if max_message_characters policy \<le> 0 then
        Inl (ValueError ''max_message_characters must be positive'')
      else Inr ())"

definition ROUTER_CONTEXT_POLICY :: context_assembly_policy where
  "ROUTER_CONTEXT_POLICY = \<lparr>max_messages = 8, max_history_characters = 6000,
     max_message_characters = 1500\<rparr>"

definition DIRECT_MESSAGE_CONTEXT_POLICY :: context_assembly_policy where
  "DIRECT_MESSAGE_CONTEXT_POLICY = \<lparr>max_messages = 12, max_history_characters = 14000,
     max_message_characters = 4000\<rparr>"

definition LOCAL_TASK_CONTEXT_POLICY :: context_assembly_policy where
  "LOCAL_TASK_CONTEXT_POLICY = \<lparr>max_messages = 16, max_history_characters = 18000,
     max_message_characters = 5000\<rparr>"

definition TRUNCATION_SUFFIX :: string where
  "TRUNCATION_SUFFIX = CHR 10 # ''[Earlier content truncated for context.]''"

section \<open>Text of a Message\<close>

text \<open>\<open>part.get("text")\<close> of one part: a value that is not a mapping has no
  \<open>get\<close>.\<close>

definition part_text :: "pyval \<Rightarrow> exn + string option" where
  "part_text part =
     (case part of
        PDict d \<Rightarrow> Inr (as_str (dget d ''text''))
      | PProxy d \<Rightarrow> Inr (as_str (dget d ''text''))
      | _ \<Rightarrow> Inl (AttributeError ''object has no attribute get''))"

definition text_from_parts :: "pyval list \<Rightarrow> exn + string" where
  "text_from_parts parts =
     (case sum_list_of (map part_text parts) of
        Inl e \<Rightarrow> Inl e
      | Inr ts \<Rightarrow> Inr (strip (join_str [CHR 10] (map strip (List.map_filter id ts)))))"

definition truncate_for_context :: "string \<Rightarrow> int \<Rightarrow> string" where
  "truncate_for_context text limit =
     (if int (length text) \<le> limit then text
      else if limit \<le> int (length TRUNCATION_SUFFIX) then slice_to limit text
      else slice_to (limit - int (length TRUNCATION_SUFFIX)) text @ TRUNCATION_SUFFIX)"

definition message_with_text :: "message_record \<Rightarrow> string \<Rightarrow> exn + message_record" where
  "message_with_text message text =
     (case text_from_parts (m_parts message) of
        Inl e \<Rightarrow> Inl e
      | Inr t \<Rightarrow> Inr (if text = t then message
                     else message\<lparr>m_parts := [PDict [(''kind'', PStr ''text''), (''text'', PStr text)]]\<rparr>))"

section \<open>The window\<close>

text \<open>The loop of \<open>_bound_history\<close> over the Messages from the newest to the oldest,
  with the characters that remain; the result lists what it selects.\<close>

fun bound_loop ::
  "context_assembly_policy \<Rightarrow> string \<Rightarrow> int \<Rightarrow> message_record list \<Rightarrow> exn + message_record list" where
  "bound_loop policy protected_id remaining [] = Inr []"
| "bound_loop policy protected_id remaining (message # older) =
     (if m_message_id message = protected_id then
        map_sum id ((#) message) (bound_loop policy protected_id remaining older)
      else
        (case text_from_parts (m_parts message) of
           Inl e \<Rightarrow> Inl e
         | Inr text \<Rightarrow>
             if text = [] \<or> remaining \<le> 0 then bound_loop policy protected_id remaining older
             else
               (let allowed = min (max_message_characters policy) remaining;
                    bounded_text = truncate_for_context text allowed in
                if bounded_text = [] then bound_loop policy protected_id remaining older
                else
                  (case message_with_text message bounded_text of
                     Inl e \<Rightarrow> Inl e
                   | Inr m \<Rightarrow> map_sum id ((#) m)
                       (bound_loop policy protected_id (remaining - int (length bounded_text)) older)))))"

definition bound_history ::
  "message_record list \<Rightarrow> string \<Rightarrow> context_assembly_policy \<Rightarrow> exn + message_record list" where
  "bound_history messages protected_message_id policy =
     map_sum id rev
       (bound_loop policy protected_message_id (max_history_characters policy) (rev messages))"

definition recent_messages :: "string \<Rightarrow> int \<Rightarrow> message_record list py" where
  "recent_messages context_id limit =
     (if limit \<le> 0 then returnM [] else list_context_messages context_id (Some limit) 0 None)"

definition context_through_input ::
  "string \<Rightarrow> string \<Rightarrow> context_assembly_policy \<Rightarrow> message_record list py" where
  "context_through_input context_id input_message_id policy =
     bindM (get_message input_message_id) (\<lambda>m.
     bindM (require_some m (ValueError (''unknown input message: '' @ input_message_id))) (\<lambda>input_message.
     bindM (raise_if (m_context_id input_message \<noteq> context_id)
              (ValueError (''input message context mismatch: '' @ input_message_id))) (\<lambda>_.
     bindM (list_context_messages context_id (Some (max_messages policy)) 0
              (Some (m_context_sequence input_message))) (\<lambda>messages.
     liftE (bound_history messages input_message_id policy)))))"

definition router_context_through_input :: "string \<Rightarrow> string \<Rightarrow> message_record list py" where
  "router_context_through_input context_id input_message_id =
     context_through_input context_id input_message_id ROUTER_CONTEXT_POLICY"

definition direct_message_context_through_input :: "string \<Rightarrow> string \<Rightarrow> message_record list py" where
  "direct_message_context_through_input context_id input_message_id =
     context_through_input context_id input_message_id DIRECT_MESSAGE_CONTEXT_POLICY"

definition local_task_context :: "string \<Rightarrow> message_record list py" where
  "local_task_context task_id =
     bindM (get_task task_id) (\<lambda>x.
     bindM (require_some x (ValueError (''unknown task: '' @ task_id))) (\<lambda>task.
     bindM (raise_if (t_input_context_sequence task \<le> 0)
              (RuntimeError (''task input cut is unavailable: '' @ task_id))) (\<lambda>_.
     bindM (list_context_messages (t_context_id task) (Some (max_messages LOCAL_TASK_CONTEXT_POLICY)) 0
              (Some (t_input_context_sequence task))) (\<lambda>messages.
     liftE (bound_history messages (t_input_message_id task) LOCAL_TASK_CONTEXT_POLICY)))))"

text \<open>\<open>to_langchain_message\<close>: the role selects the message class, the text is its
  content.\<close>

datatype base_message = SystemMessage string | AIMessage string | HumanMessage string

definition to_langchain_message :: "message_record \<Rightarrow> exn + base_message" where
  "to_langchain_message message =
     map_sum id (case m_role message of SYSTEM \<Rightarrow> SystemMessage | AGENT \<Rightarrow> AIMessage | USER \<Rightarrow> HumanMessage)
       (text_from_parts (m_parts message))"

section \<open>Bounds of the window\<close>

definition text_length :: "message_record \<Rightarrow> int" where
  "text_length m = (case text_from_parts (m_parts m) of Inl _ \<Rightarrow> 0 | Inr t \<Rightarrow> int (length t))"

lemma length_slice_to: "0 \<le> n \<Longrightarrow> int (length (slice_to n xs)) \<le> n"
  by (simp add: slice_to_def)

lemma length_truncate: "0 \<le> limit \<Longrightarrow> int (length (truncate_for_context s limit)) \<le> limit"
  using length_slice_to [of limit s] length_slice_to [of "limit - int (length TRUNCATION_SUFFIX)" s]
  by (auto simp: truncate_for_context_def)

lemma length_strip: "length (strip s) \<le> length s"
  by (simp add: strip_def length_strip_with)

lemma text_from_text_part:
  "text_from_parts [PDict [(''kind'', PStr ''text''), (''text'', PStr s)]] = Inr (strip (strip s))"
  by (simp add: text_from_parts_def part_text_def dget_def List.map_filter_def)

lemma message_with_text:
  assumes "message_with_text m s = Inr m'"
  shows "text_length m' \<le> int (length s)" and "m_message_id m' = m_message_id m"
    and "m_role m' = m_role m" and "m_context_sequence m' = m_context_sequence m"
  using assms length_strip [of "strip s"] length_strip [of s]
  by (auto simp: message_with_text_def text_length_def text_from_text_part split: sum.splits if_splits)

lemma text_length_nonneg [simp]: "0 \<le> text_length m"
  by (simp add: text_length_def split: sum.splits)

text \<open>The Messages other than the protected one.\<close>

definition history_of :: "string \<Rightarrow> message_record list \<Rightarrow> message_record list" where
  "history_of protected_id ms = filter (\<lambda>m. m_message_id m \<noteq> protected_id) ms"

definition protected_of :: "string \<Rightarrow> message_record list \<Rightarrow> message_record list" where
  "protected_of protected_id ms = filter (\<lambda>m. m_message_id m = protected_id) ms"

lemma subseq_rev: "subseq xs ys \<Longrightarrow> subseq (rev xs) (rev ys)"
  by (induction rule: list_emb.induct) (auto intro: subseq_rev_drop_many list_emb_append_mono)

lemma sum_list_map_rev: "sum_list (map f (rev xs)) = sum_list (map f xs)" for f :: "'a \<Rightarrow> int"
  by (induction xs) auto

lemma map_sum_Inr: "map_sum id f x = Inr y \<longleftrightarrow> (\<exists>z. x = Inr z \<and> y = f z)"
  by (cases x) auto

lemma bound_loop_cases:
  assumes "bound_loop policy pid remaining (m # ms) = Inr sel" and "0 < max_message_characters policy"
  obtains (keep) sel' where "m_message_id m = pid" "sel = m # sel'" "bound_loop policy pid remaining ms = Inr sel'"
  | (skip) "m_message_id m \<noteq> pid" "bound_loop policy pid remaining ms = Inr sel"
  | (cut) m' sel' n where "m_message_id m \<noteq> pid" "sel = m' # sel'" "m_message_id m' = m_message_id m"
      "text_length m' \<le> n" "0 \<le> n" "n \<le> max_message_characters policy" "n \<le> remaining"
      "bound_loop policy pid (remaining - n) ms = Inr sel'"
proof (cases "m_message_id m = pid")
  case True
  then show thesis using assms(1) keep by (auto simp: map_sum_Inr)
next
  case False
  obtain s where s: "text_from_parts (m_parts m) = Inr s"
    using assms(1) False by (auto split: sum.splits)
  let ?b = "truncate_for_context s (min (max_message_characters policy) remaining)"
  show thesis
  proof (cases "s = [] \<or> remaining \<le> 0 \<or> ?b = []")
    case True
    then show thesis using assms(1) False s skip by (auto simp: Let_def split: if_splits)
  next
    case more: False
    then obtain m' sel' where m': "message_with_text m ?b = Inr m'" "sel = m' # sel'"
      "bound_loop policy pid (remaining - int (length ?b)) ms = Inr sel'"
      using assms(1) False s by (auto simp: Let_def map_sum_Inr split: sum.splits)
    have "int (length ?b) \<le> min (max_message_characters policy) remaining"
      using more assms(2) by (intro length_truncate) simp
    then show thesis
      using cut [of m' sel' "int (length ?b)"] False m' message_with_text [OF m'(1)] by simp
  qed
qed

lemma bound_loop_bounds:
  assumes "bound_loop policy pid remaining ms = Inr sel" and "0 < max_message_characters policy"
  shows "sum_list (map text_length (history_of pid sel)) \<le> max 0 remaining \<and>
    (\<forall>m \<in> set (history_of pid sel). text_length m \<le> max_message_characters policy) \<and>
    subseq (map m_message_id sel) (map m_message_id ms) \<and>
    protected_of pid sel = protected_of pid ms"
  using assms(1)
proof (induction ms arbitrary: sel remaining)
  case (Cons m ms)
  from Cons.prems assms(2) show ?case
  proof (cases rule: bound_loop_cases)
    case keep
    with Cons.IH show ?thesis by (fastforce simp: history_of_def protected_of_def)
  next
    case skip
    with Cons.IH show ?thesis by (fastforce simp: history_of_def protected_of_def)
  next
    case (cut m' sel' n)
    with Cons.IH [OF cut(8)] show ?thesis by (auto simp: history_of_def protected_of_def)
  qed
qed (simp add: history_of_def protected_of_def)

lemma bound_history_window:
  assumes "bound_history messages pid policy = Inr window" and "check_policy policy = Inr ()"
  shows "sum_list (map text_length (history_of pid window)) \<le> max_history_characters policy \<and>
    (\<forall>m \<in> set (history_of pid window). text_length m \<le> max_message_characters policy) \<and>
    subseq (map m_message_id window) (map m_message_id messages) \<and>
    protected_of pid window = protected_of pid messages"
proof -
  from assms(1) obtain sel where sel: "window = rev sel"
    "bound_loop policy pid (max_history_characters policy) (rev messages) = Inr sel"
    by (auto simp: bound_history_def map_sum_Inr)
  have policy: "0 < max_message_characters policy" "0 \<le> max_history_characters policy"
    using assms(2) by (auto simp: check_policy_def split: if_splits)
  show ?thesis
    using bound_loop_bounds [OF sel(2) policy(1)] policy(2) sel(1)
      subseq_rev [of "map m_message_id sel" "rev (map m_message_id messages)"]
    by (auto simp: history_of_def protected_of_def rev_map sum_list_map_rev simp flip: rev_filter)
qed

text \<open>
  C33. A model sees a bounded history.  Whatever Messages \<open>_bound_history\<close> is given,
  when it returns a window then the texts of all Messages in it but the protected
  one add up to at most \<open>max_history_characters\<close> characters, each of them has at
  most \<open>max_message_characters\<close>, the window keeps the order of the conversation and
  repeats nothing, and the protected Message is in it exactly as it was given.
\<close>

theorem bound_history_bounds:
  assumes "bound_history messages pid policy = Inr window" and "check_policy policy = Inr ()"
  shows "sum_list (map text_length (history_of pid window)) \<le> max_history_characters policy \<and>
    (\<forall>m \<in> set (history_of pid window). text_length m \<le> max_message_characters policy) \<and>
    subseq (map m_message_id window) (map m_message_id messages) \<and>
    protected_of pid window = protected_of pid messages"
  using assms by (rule bound_history_window)

theorem bound_history_bounds_witness:
  "bound_history [sample_message] ''msg'' ROUTER_CONTEXT_POLICY = Inr [sample_message] \<and>
   subseq (map m_message_id [sample_message]) (map m_message_id [sample_message])"
proof -
  have run: "bound_history [sample_message] ''msg'' ROUTER_CONTEXT_POLICY = Inr [sample_message]"
    by (simp add: bound_history_def sample_message_def)
  with bound_history_bounds [OF run] show ?thesis
    by (simp add: check_policy_def ROUTER_CONTEXT_POLICY_def)
qed

section \<open>The window ends with the input\<close>

lemma last_sort_key:
  fixes f :: "'a \<Rightarrow> int"
  assumes "m \<in> set xs" and "\<And>x. x \<in> set xs \<Longrightarrow> f x \<le> f m"
    and "\<And>x. x \<in> set xs \<Longrightarrow> f x = f m \<Longrightarrow> x = m"
  shows "sort_key f xs \<noteq> [] \<and> last (sort_key f xs) = m"
proof -
  let ?s = "sort_key f xs"
  have ne: "?s \<noteq> []" using assms(1) by (metis list.set(1) set_sort empty_iff)
  obtain ys where ys: "?s = ys @ [last ?s]" using ne by (metis append_butlast_last_id)
  have "sorted (map f (ys @ [last ?s]))" using ys by (metis sorted_sort_key)
  then have "\<forall>y \<in> set ys. f y \<le> f (last ?s)" by (simp add: sorted_append)
  moreover have "m \<in> set (ys @ [last ?s])" using assms(1) ys by (metis set_sort)
  ultimately have "f m \<le> f (last ?s)" by auto
  moreover have "last ?s \<in> set xs" using ne by (metis last_in_set set_sort)
  ultimately show ?thesis using assms(2,3) ne by (metis order_antisym)
qed

lemma newest_page_last:
  assumes "asc \<noteq> []" and "0 < n"
  shows "newest_page (Some n) 0 asc \<noteq> []" "last (newest_page (Some n) 0 asc) = last asc"
    "length (newest_page (Some n) 0 asc) \<le> nat n"
  using assms by (simp_all add: newest_page_def page_def last_rev hd_rev)

lemma bound_history_last:
  assumes "bound_history (ms @ [m]) (m_message_id m) policy = Inr window"
  shows "window \<noteq> [] \<and> last window = m"
  using assms by (auto simp: bound_history_def map_sum_Inr)

lemma bound_loop_total:
  assumes "\<And>m. m \<in> set ms \<Longrightarrow> \<exists>s. text_from_parts (m_parts m) = Inr s"
  shows "\<exists>sel. bound_loop policy pid remaining ms = Inr sel"
  using assms
proof (induction ms arbitrary: remaining)
  case (Cons m ms)
  obtain s where s: "text_from_parts (m_parts m) = Inr s" using Cons.prems by auto
  have "\<exists>sel. bound_loop policy pid r ms = Inr sel" for r using Cons by simp
  then show ?case using s
    by (simp add: Let_def message_with_text_def map_sum_Inr)
qed simp

lemma list_through_input:
  assumes "seq_inv t" and "fetch m_message_id mid (tb_messages t) = Some m" and "0 < n"
  defines "ms \<equiv> newest_page (Some n) 0 (sort_key m_context_sequence
       (filter (\<lambda>x. m_context_id x = m_context_id m \<and> m_context_sequence x \<le> m_context_sequence m) (tb_messages t)))"
  shows "\<exists>older. ms = older @ [m]" and "length ms \<le> nat n" and "set ms \<subseteq> set (tb_messages t)"
proof -
  let ?xs = "filter (\<lambda>x. m_context_id x = m_context_id m \<and> m_context_sequence x \<le> m_context_sequence m) (tb_messages t)"
  have m: "m \<in> set (tb_messages t)" using fetch_SomeD [OF assms(2)] by simp
  have inj: "x = m" if "x \<in> set ?xs" "m_context_sequence x = m_context_sequence m" for x
    using assms(1) m that by (auto simp: seq_inv_def distinct_map inj_on_def)
  have last: "sort_key m_context_sequence ?xs \<noteq> [] \<and> last (sort_key m_context_sequence ?xs) = m"
    using m inj by (intro last_sort_key) auto
  then show "\<exists>older. ms = older @ [m]" "length ms \<le> nat n"
    using newest_page_last [OF _ assms(3), of "sort_key m_context_sequence ?xs"]
    unfolding ms_def by (metis append_butlast_last_id)+
  show "set ms \<subseteq> set (tb_messages t)"
    unfolding ms_def newest_page_def page_def by (auto dest!: in_set_takeD)
qed

text \<open>
  The current input is never lost.  For a Message stored in a Context of a
  well-formed database, the window \<open>context_through_input\<close> assembles ends with that
  Message, unchanged, has at most \<open>max_messages\<close> Messages, and assembling it
  changes nothing; it fails only when a stored Message has a part that is not a
  mapping.
\<close>

theorem context_ends_with_input:
  assumes "seq_inv (conn w)" and "check_policy policy = Inr ()"
    and "fetch m_message_id mid (tb_messages (conn w)) = Some m"
  shows "wp (context_through_input (m_context_id m) mid policy)
    (\<lambda>window w'. w' = w \<and> window \<noteq> [] \<and> last window = m \<and> int (length window) \<le> max_messages policy)
    (\<lambda>e w'. w' = w \<and> (\<exists>x \<in> set (tb_messages (conn w)). \<exists>e'. text_from_parts (m_parts x) = Inl e')) w"
proof -
  have n: "0 < max_messages policy" using assms(2) by (auto simp: check_policy_def split: if_splits)
  let ?ms = "newest_page (Some (max_messages policy)) 0 (sort_key m_context_sequence
       (filter (\<lambda>x. m_context_id x = m_context_id m \<and> m_context_sequence x \<le> m_context_sequence m) (tb_messages (conn w))))"
  note ms = list_through_input [OF assms(1,3) n]
  obtain older where older: "?ms = older @ [m]" using ms(1) by blast
  have mid: "m_message_id m = mid" using fetch_SomeD [OF assms(3)] by simp
  have wp: "wp (context_through_input (m_context_id m) mid policy) Q E w =
      (case bound_history ?ms mid policy of Inl e \<Rightarrow> E e w | Inr window \<Rightarrow> Q window w)" for Q E
    using n assms(3)
    by (simp add: context_through_input_def list_context_messages_def check_page_def get_message_def wp_rules)
  show ?thesis
  proof (cases "bound_history ?ms mid policy")
    case (Inl e)
    have "\<exists>x \<in> set ?ms. \<exists>e'. text_from_parts (m_parts x) = Inl e'"
    proof (rule ccontr)
      assume "\<not> ?thesis"
      then have "\<exists>s. text_from_parts (m_parts x) = Inr s" if "x \<in> set (rev ?ms)" for x
        using that by (cases "text_from_parts (m_parts x)") auto
      from bound_loop_total [of "rev ?ms", OF this] obtain sel where
        "bound_loop policy mid (max_history_characters policy) (rev ?ms) = Inr sel" by blast
      with Inl show False by (simp add: bound_history_def)
    qed
    with ms(3) Inl show ?thesis by (auto simp: wp)
  next
    case (Inr window)
    then have "length window \<le> length ?ms"
      using bound_history_window [OF Inr assms(2)] by (auto dest: list_emb_length)
    with ms(2) n have "int (length window) \<le> max_messages policy" by simp
    with Inr bound_history_last [of older m policy window] show ?thesis
      by (simp add: wp older mid)
  qed
qed

theorem context_ends_with_input_witness:
  "wp (context_through_input ''ctx'' ''msg'' ROUTER_CONTEXT_POLICY)
     (\<lambda>window w'. window \<noteq> [] \<and> last window = sample_message) (\<lambda>_ _. False) (world_of sample_tables)"
proof -
  have "m_context_id sample_message = ''ctx''" by (simp add: sample_message_def)
  moreover have "fetch m_message_id ''msg'' (tb_messages sample_tables) = Some sample_message"
    by (simp add: sample_defs table_simps)
  moreover have "(\<exists>x \<in> set (tb_messages sample_tables). \<exists>e'. text_from_parts (m_parts x) = Inl e') = False"
    by (simp add: sample_defs text_from_parts_def part_text_def dget_def)
  ultimately show ?thesis
    using context_ends_with_input [of "world_of sample_tables" ROUTER_CONTEXT_POLICY "''msg''" sample_message]
    by (simp add: sample_seq_inv check_policy_def ROUTER_CONTEXT_POLICY_def wp_mono)
qed

end
