(* ===== verification/Core.thy ===== *)
theory Core
  imports Local_Execution Context_Assembly
begin

text \<open>
  The application core, \<open>main_agent/core.py\<close> and \<open>main_agent/commands.py\<close>: the one
  surface through which Messages are admitted, Tasks are canceled, resumed and
  retried, and the outcomes of executions are recorded.

  What the core is composed with is an argument of every command: the router, the
  responder, the optional local runner and its submitter, the optional client of
  child agents, the request fingerprint (SHA-256 of the JSON text of a request) and
  \<open>repr\<close>.  They are programs over the same state.
\<close>

section \<open>Requests and results\<close>

record main_agent_request =
  rq_context_id :: "string option"
  rq_message_id :: "string option"
  rq_role :: message_role
  rq_parts :: "pyval list"
  rq_metadata :: pydict

record main_agent_route_decision =
  rd_kind :: route_decision_kind
  rd_reason :: string
  rd_confidence :: "pyfloat option"
  rd_target_agent_id :: "string option"
  rd_metadata :: pydict

record remote_agent_send_result =
  sr_kind :: string
  sr_context_id :: "string option"
  sr_message_id :: "string option"
  sr_task_id :: "string option"
  sr_status :: "string option"
  sr_parts :: "pyval list"
  sr_raw :: pydict

text \<open>The fields of the three result classes, in the order the code lists them
  (the field \<open>kind\<close> is the class).\<close>

datatype main_agent_result =
    LocalMessageResult string string string string "pyval list"
  | LocalTaskResult string string string string
  | RemoteAgentResult string string string string string "string option" "string option" "pyval list"

record remote_agent_client =
  rc_send_message ::
    "registered_agent_record \<Rightarrow> main_agent_request \<Rightarrow> string \<Rightarrow> string \<Rightarrow> remote_agent_send_result option py"
  rc_get_task :: "registered_agent_record \<Rightarrow> string \<Rightarrow> remote_agent_task_snapshot py"
  rc_cancel_task :: "registered_agent_record \<Rightarrow> string \<Rightarrow> string option \<Rightarrow> remote_agent_task_snapshot py"

record core_env =
  ce_respond :: "message_record list \<Rightarrow> pyval list py"
  ce_runner :: "local_task_runner option"
  ce_submitter :: "(string \<Rightarrow> unit py) option"
  ce_remote :: "remote_agent_client option"
  ce_decide ::
    "main_agent_request \<Rightarrow> string \<Rightarrow> string \<Rightarrow> message_record list \<Rightarrow> main_agent_route_decision py"
  ce_fingerprint :: "pydict \<Rightarrow> string"
  ce_repr :: "pyval \<Rightarrow> string"

record prepared_message_route =
  pm_context_id :: string
  pm_input_message_id :: string
  pm_route_decision :: "main_agent_route_decision option"
  pm_existing_result :: "main_agent_result option"

record accepted_retry =
  ar_task :: task_record
  ar_should_start :: bool

record committed_cancellation =
  cc_task :: task_record
  cc_active_runtime_thread_id :: "string option"

section \<open>Helpers\<close>

text \<open>\<open>str.split()\<close>: the words of a text.\<close>

function split_words :: "string \<Rightarrow> string list" where
  "split_words s =
     (let t = dropWhile is_space s in
      if t = [] then [] else takeWhile (\<lambda>c. \<not> is_space c) t # split_words (dropWhile (\<lambda>c. \<not> is_space c) t))"
  by pat_completeness auto
termination
proof (relation "measure length", goal_cases)
  case (2 s t)
  then have "\<not> is_space (hd t)" by (metis hd_dropWhile)
  then have "length (dropWhile (\<lambda>c. \<not> is_space c) t) < length t"
    using 2(2) by (cases t) (auto intro: le_less_trans [OF length_dropWhile_le])
  moreover have "length t \<le> length s" using 2(1) length_dropWhile_le by blast
  ultimately show ?case by simp
qed simp

definition title_from_parts :: "pyval list \<Rightarrow> exn + string option" where
  "title_from_parts parts =
     (case sum_list_of (map part_text parts) of
        Inl e \<Rightarrow> Inl e
      | Inr ts \<Rightarrow>
          (let normalized = join_str '' '' (split_words (join_str '' '' (map strip (List.map_filter id ts)))) in
           Inr (if normalized = [] then None else Some normalized)))"

fun metadata_string :: "string list \<Rightarrow> pydict \<Rightarrow> string option" where
  "metadata_string [] metadata = None"
| "metadata_string (key # keys) metadata =
     (case dget metadata key of
        PStr v \<Rightarrow> if strip v \<noteq> [] then Some (strip v) else metadata_string keys metadata
      | _ \<Rightarrow> metadata_string keys metadata)"

definition target_agent_id_from_metadata :: "pydict \<Rightarrow> string option" where
  "target_agent_id_from_metadata =
     metadata_string [''targetAgentId'', ''target_agent_id'', ''remoteAgentId'', ''remote_agent_id'']"

primrec message_role_value :: "message_role \<Rightarrow> string" where
  "message_role_value USER = ''user''"
| "message_role_value AGENT = ''agent''"
| "message_role_value SYSTEM = ''system''"

definition message_fingerprint :: "core_env \<Rightarrow> message_role \<Rightarrow> pyval list \<Rightarrow> pydict \<Rightarrow> string" where
  "message_fingerprint env role parts metadata = ce_fingerprint env
     [(''role'', PStr (message_role_value role)), (''parts'', PList parts), (''metadata'', PDict metadata)]"

definition message_request_fingerprint :: "core_env \<Rightarrow> main_agent_request \<Rightarrow> string" where
  "message_request_fingerprint env request =
     message_fingerprint env (rq_role request) (rq_parts request) (rq_metadata request)"

definition retry_message_metadata :: "pydict \<Rightarrow> task_record \<Rightarrow> int \<Rightarrow> pydict" where
  "retry_message_metadata metadata source_task retry_attempt =
     dupdate (dpop ''targetAgentId'' (dpop ''route'' metadata))
       [(''executionMode'', PStr ''task''), (''retryOfTaskId'', PStr (t_task_id source_task)),
        (''retryAttempt'', PInt retry_attempt)]"

text \<open>\<open>str(v)\<close>, and \<open>str(metadata.get("executionMode") or "auto")\<close>.\<close>

definition py_str :: "(pyval \<Rightarrow> string) \<Rightarrow> pyval \<Rightarrow> string" where
  "py_str repr v = (case optional_str repr v of None \<Rightarrow> ''None'' | Some s \<Rightarrow> s)"

definition execution_mode :: "(pyval \<Rightarrow> string) \<Rightarrow> pydict \<Rightarrow> string" where
  "execution_mode repr metadata =
     (let v = dget metadata ''executionMode'' in if truthy v then py_str repr v else ''auto'')"

text \<open>\<open>request.message_id or _new_id("msg")\<close>.\<close>

definition request_message_id :: "main_agent_request \<Rightarrow> string py" where
  "request_message_id request =
     (case rq_message_id request of
        Some k \<Rightarrow> if k \<noteq> [] then returnM k else new_id ''msg''
      | None \<Rightarrow> new_id ''msg'')"

section \<open>Execution outcomes\<close>

definition local_execution :: "core_env \<Rightarrow> local_execution_adapter option" where
  "local_execution env = (case ce_runner env of None \<Rightarrow> None
     | Some r \<Rightarrow> Some \<lparr>ad_runner = r, ad_submitter = ce_submitter env\<rparr>)"

definition queue_execution_enabled :: "core_env \<Rightarrow> bool" where
  "queue_execution_enabled env \<longleftrightarrow> local_execution env \<noteq> None"

definition claim_local_execution :: "string \<Rightarrow> claimed_local_execution option py" where
  "claim_local_execution task_id = transaction (
     bindM (claim_queued_task_execution task_id) (\<lambda>claimed.
     case claimed of
       None \<Rightarrow> returnM None
     | Some (task, command) \<Rightarrow>
         if qe_kind command = INITIAL then
           bindM (local_task_context task_id) (\<lambda>input_messages.
           bindM (get_route_decision_by_message_id (t_input_message_id task)) (\<lambda>route_decision.
           returnM (Some \<lparr>cl_task = task, cl_command = command, cl_input_messages = input_messages,
             cl_route_decision_id = map_option r_decision_id route_decision\<rparr>)))
         else returnM (Some \<lparr>cl_task = task, cl_command = command, cl_input_messages = [],
                cl_route_decision_id = None\<rparr>)))"

definition record_local_execution_outcome :: "local_execution_outcome \<Rightarrow> task_record py" where
  "record_local_execution_outcome outcome =
     (case outcome of
        LocalExecutionSucceeded task_id result route_decision_id \<Rightarrow>
          catchM (record_local_result task_id result
            (case route_decision_id of None \<Rightarrow> [] | Some d \<Rightarrow> [(''routeDecisionId'', PStr d)]))
            (record_failure task_id)
      | LocalExecutionFailed task_id error \<Rightarrow> record_failure task_id error)"

definition core_callbacks :: lifecycle_callbacks where
  "core_callbacks = \<lparr>cb_claim = claim_local_execution, cb_current_task = get_task,
     cb_record_outcome = record_local_execution_outcome\<rparr>"

definition is_task_active :: "core_env \<Rightarrow> string \<Rightarrow> bool py" where
  "is_task_active env task_id = (if local_execution env = None then returnM False else is_active task_id)"

definition is_task_live :: "core_env \<Rightarrow> string \<Rightarrow> bool py" where
  "is_task_live env task_id = (if local_execution env = None then returnM False else is_live task_id)"

definition start_committed_local_task :: "core_env \<Rightarrow> task_record \<Rightarrow> task_record py" where
  "start_committed_local_task env task =
     (case local_execution env of
        None \<Rightarrow> returnM task
      | Some ad \<Rightarrow>
          bindM (catchM (bindM (wake ad core_callbacks (t_task_id task)) (\<lambda>_. returnM None))
                   (\<lambda>exc. bindM (record_failure (t_task_id task) exc) (\<lambda>x. returnM (Some x)))) (\<lambda>failed.
          case failed of
            Some x \<Rightarrow> returnM x
          | None \<Rightarrow> bindM (get_task (t_task_id task)) (\<lambda>x.
              returnM (case x of None \<Rightarrow> task | Some y \<Rightarrow> y))))"

definition signal_committed_cancellation ::
  "core_env \<Rightarrow> string option \<Rightarrow> committed_cancellation \<Rightarrow> unit py" where
  "signal_committed_cancellation env reason committed =
     (case cc_active_runtime_thread_id committed of
        None \<Rightarrow> returnM ()
      | Some thread_id \<Rightarrow>
          (case local_execution env of
             None \<Rightarrow> returnM ()
           | Some ad \<Rightarrow> request_cancellation ad thread_id reason))"

definition discard_terminal_task_checkpoint :: "core_env \<Rightarrow> task_record \<Rightarrow> unit py" where
  "discard_terminal_task_checkpoint env task =
     (if t_assigned_agent_id task \<noteq> None then returnM ()
      else case local_execution env of
          None \<Rightarrow> returnM ()
        | Some ad \<Rightarrow> discard_checkpoint ad (t_runtime_thread_id task))"

section \<open>Admitting a Message\<close>

definition record_message_ingress_failure :: "string \<Rightarrow> exn \<Rightarrow> unit py" where
  "record_message_ingress_failure message_id exc =
     (let error = error_info_from_exception exc in
      bindM (fail_message_ingress message_id (error_code_value (ei_code error)) (ei_public_message error)
               (ei_http_status error) (ei_retryable error)) (\<lambda>_. returnM ()))"

text \<open>\<open>except Exception as exc\<close> around a step of the admission: the ingress fails and
  the exception goes on.\<close>

definition or_fail_ingress :: "string \<Rightarrow> 'a py \<Rightarrow> 'a py" where
  "or_fail_ingress message_id body =
     catchM body (\<lambda>exc. bindM (record_message_ingress_failure message_id exc) (\<lambda>_. raiseM exc))"

definition record_message_ingress_route ::
  "string \<Rightarrow> string \<Rightarrow> main_agent_route_decision \<Rightarrow> route_decision_record py" where
  "record_message_ingress_route context_id input_message_id rd = transaction (
     bindM (new_id ''route'') (\<lambda>decision_id.
     bindM (record_route_decision decision_id context_id input_message_id (rd_kind rd) (rd_reason rd)
              (rd_target_agent_id rd) (rd_confidence rd) (rd_metadata rd)) (\<lambda>decision.
     bindM (set_message_ingress_route_decision input_message_id (r_decision_id decision)) (\<lambda>_.
     returnM decision))))"

text \<open>The checks on the child agent a route names.\<close>

definition usable_agent :: "core_env \<Rightarrow> string \<Rightarrow> registered_agent_record py" where
  "usable_agent env target_agent_id =
     bindM (get_registered_agent target_agent_id) (\<lambda>g.
     bindM (require_some g (ValueError (''unknown registered agent: '' @ target_agent_id))) (\<lambda>agent.
     bindM (raise_if (\<not> g_enabled agent)
              (ValueError (''registered agent is disabled: '' @ target_agent_id))) (\<lambda>_.
     bindM (raise_if (ce_remote env = None) (ValueError ''remote_agent client is not configured'')) (\<lambda>_.
     returnM agent))))"

definition validate_explicit_route_metadata :: "core_env \<Rightarrow> pydict \<Rightarrow> unit py" where
  "validate_explicit_route_metadata env metadata =
     (let mode = execution_mode (ce_repr env) metadata in
      bindM (raise_if (mode \<notin> {''auto'', ''message'', ''task''})
               (ValueError (''unsupported executionMode: '' @ mode))) (\<lambda>_.
      if dget metadata ''route'' \<noteq> PStr (route_kind_value REMOTE_AGENT) then returnM ()
      else
        (case target_agent_id_from_metadata metadata of
           None \<Rightarrow> raiseM (ValueError ''remote_agent route requires metadata.targetAgentId'')
         | Some target_agent_id \<Rightarrow> bindM (usable_agent env target_agent_id) (\<lambda>_. returnM ()))))"

definition resolve_context_id :: "string option \<Rightarrow> string option \<Rightarrow> string py" where
  "resolve_context_id context_id title =
     (case context_id of
        None \<Rightarrow>
          bindM (new_id ''ctx'') (\<lambda>k.
          bindM (create_context k title []) (\<lambda>c. returnM (c_context_id c)))
      | Some k \<Rightarrow>
          bindM (get_context k) (\<lambda>c.
          bindM (raise_if (c = None) (ValueError (''unknown context: '' @ k))) (\<lambda>_. returnM k)))"

text \<open>The result of a Message whose ingress is resolved, rebuilt from the database.\<close>

definition delegation_result ::
  "core_env \<Rightarrow> message_ingress_record \<Rightarrow> route_decision_record \<Rightarrow> delegated_task_record \<Rightarrow> main_agent_result py" where
  "delegation_result env ingress decision delegation =
     (if d_result_kind delegation = ''message'' then
        (let local_message_id = dget (d_metadata delegation) ''localMessageId'' in
         bindM (if truthy local_message_id then get_message (py_str (ce_repr env) local_message_id)
                else returnM None) (\<lambda>m.
         bindM (require_some m (RuntimeError (''message ingress delegated output is missing: '' @
                  i_message_id ingress))) (\<lambda>message.
         returnM (RemoteAgentResult (i_context_id ingress) (i_message_id ingress)
           (d_remote_agent_id delegation) (r_decision_id decision) (d_delegation_id delegation)
           (Some (m_message_id message)) None (m_parts message)))))
      else
        bindM (require_some (d_local_task_id delegation)
          (RuntimeError (''message ingress delegated task is missing: '' @ i_message_id ingress))) (\<lambda>task_id.
        bindM (get_task task_id) (\<lambda>x.
        bindM (require_some x
          (RuntimeError (''message ingress delegated task is missing: '' @ i_message_id ingress))) (\<lambda>task.
        returnM (RemoteAgentResult (i_context_id ingress) (i_message_id ingress)
          (d_remote_agent_id delegation) (r_decision_id decision) (d_delegation_id delegation)
          None (Some (t_task_id task)) [])))))"

definition outcome_result ::
  "core_env \<Rightarrow> message_ingress_record \<Rightarrow> route_decision_record \<Rightarrow> message_ingress_outcome_kind \<Rightarrow> string \<Rightarrow>
   main_agent_result py" where
  "outcome_result env ingress decision outcome_kind outcome_id =
     (let mismatch = RuntimeError (''message ingress outcome mismatch: '' @ i_message_id ingress) in
      case r_kind decision of
        LOCAL_MESSAGE \<Rightarrow>
          bindM (raise_if (outcome_kind \<noteq> MESSAGE_OUTCOME) mismatch) (\<lambda>_.
          bindM (get_message outcome_id) (\<lambda>m.
          bindM (require_some m
            (RuntimeError (''message ingress output is missing: '' @ i_message_id ingress))) (\<lambda>message.
          returnM (LocalMessageResult (i_context_id ingress) (m_message_id message)
            (i_message_id ingress) (r_decision_id decision) (m_parts message)))))
      | LOCAL_TASK \<Rightarrow>
          bindM (raise_if (outcome_kind \<noteq> TASK_OUTCOME) mismatch) (\<lambda>_.
          bindM (get_task outcome_id) (\<lambda>x.
          bindM (require_some x
            (RuntimeError (''message ingress task is missing: '' @ i_message_id ingress))) (\<lambda>task.
          returnM (LocalTaskResult (i_context_id ingress) (t_task_id task) (i_message_id ingress)
            (r_decision_id decision)))))
      | REMOTE_AGENT \<Rightarrow>
          bindM (raise_if (outcome_kind \<noteq> DELEGATION_OUTCOME) mismatch) (\<lambda>_.
          bindM (get_delegated_task outcome_id) (\<lambda>d.
          bindM (require_some d
            (RuntimeError (''message ingress delegation is missing: '' @ i_message_id ingress))) (\<lambda>delegation.
          delegation_result env ingress decision delegation))))"

definition result_from_message_ingress :: "core_env \<Rightarrow> message_ingress_record \<Rightarrow> main_agent_result py" where
  "result_from_message_ingress env ingress =
     (case (i_route_decision_id ingress, i_outcome_kind ingress, i_outcome_id ingress) of
        (Some decision_id, Some outcome_kind, Some outcome_id) \<Rightarrow>
          bindM (get_route_decision decision_id) (\<lambda>r.
          bindM (require_some r (RuntimeError (''message ingress route decision is missing: '' @
                   i_message_id ingress))) (\<lambda>decision.
          bindM (raise_if (r_context_id decision \<noteq> i_context_id ingress \<or>
                           r_message_id decision \<noteq> i_message_id ingress)
                   (RuntimeError (''message ingress route decision mismatch: '' @ i_message_id ingress))) (\<lambda>_.
          outcome_result env ingress decision outcome_kind outcome_id)))
      | _ \<Rightarrow> raiseM (RuntimeError (''resolved message ingress is incomplete: '' @ i_message_id ingress)))"

definition prepared_existing_message_ingress ::
  "core_env \<Rightarrow> main_agent_request \<Rightarrow> string \<Rightarrow> message_ingress_record \<Rightarrow> prepared_message_route py" where
  "prepared_existing_message_ingress env request fingerprint ingress =
     bindM (raise_if (case rq_context_id request of None \<Rightarrow> False | Some c \<Rightarrow> c \<noteq> i_context_id ingress)
              (ValueError (''message context mismatch: '' @ i_message_id ingress))) (\<lambda>_.
     bindM (raise_if (fingerprint \<noteq> i_request_fingerprint ingress)
              (ValueError (''message conflict: '' @ i_message_id ingress))) (\<lambda>_.
     bindM (get_message (i_message_id ingress)) (\<lambda>m.
     bindM (require_some m
       (RuntimeError (''message ingress is missing its message: '' @ i_message_id ingress))) (\<lambda>message.
     bindM (raise_if (m_context_id message \<noteq> i_context_id ingress)
       (RuntimeError (''message ingress context mismatch: '' @ i_message_id ingress))) (\<lambda>_.
     case i_state ingress of
       RESOLVED \<Rightarrow>
         bindM (result_from_message_ingress env ingress) (\<lambda>result.
         returnM \<lparr>pm_context_id = i_context_id ingress, pm_input_message_id = i_message_id ingress,
           pm_route_decision = None, pm_existing_result = Some result\<rparr>)
     | INGRESS_FAILED \<Rightarrow>
         raiseM (persisted_message_ingress_error (str_or (i_error_code ingress) ''runtime_error'')
           (str_or (i_error_message ingress) ''Agent execution failed.'') (i_error_http_status ingress)
           (i_error_retryable ingress))
     | IN_PROGRESS \<Rightarrow> raiseM (message_ingress_in_progress_error (i_message_id ingress)))))))"

text \<open>The transaction of \<open>_prepare_message_route\<close>: \<open>Inl\<close> is its early return, \<open>Inr\<close> the
  Context and Message of a new ingress.\<close>

definition reserve_request ::
  "core_env \<Rightarrow> main_agent_request \<Rightarrow> string \<Rightarrow> (prepared_message_route + string \<times> message_record) py" where
  "reserve_request env request message_id =
     (let fingerprint = message_request_fingerprint env request;
          existing_ingress = (\<lambda>ingress.
            bindM (prepared_existing_message_ingress env request fingerprint ingress) (\<lambda>p. returnM (Inl p))) in
      transaction (
      bindM (get_message_ingress message_id) (\<lambda>found.
      case found of
        Some ingress \<Rightarrow> existing_ingress ingress
      | None \<Rightarrow>
          bindM (get_message message_id) (\<lambda>existing_message.
          bindM (raise_if (existing_message \<noteq> None)
                   (RuntimeError (''message is missing durable ingress: '' @ message_id))) (\<lambda>_.
          bindM (liftE (title_from_parts (rq_parts request))) (\<lambda>title.
          bindM (resolve_context_id (rq_context_id request) title) (\<lambda>context_id.
          bindM (append_message message_id context_id (rq_role request) (rq_parts request) None
                   (rq_metadata request)) (\<lambda>user_message.
          bindM (reserve_message_ingress message_id context_id fingerprint) (\<lambda>(ingress, created).
          if \<not> created then existing_ingress ingress
          else returnM (Inr (context_id, user_message)))))))))))"

definition prepare_message_route :: "core_env \<Rightarrow> main_agent_request \<Rightarrow> prepared_message_route py" where
  "prepare_message_route env request =
     bindM (raise_if (rq_role request \<noteq> USER) (ValueError ''main agent request role must be user'')) (\<lambda>_.
     bindM (validate_explicit_route_metadata env (rq_metadata request)) (\<lambda>_.
     bindM (request_message_id request) (\<lambda>message_id.
     bindM (reserve_request env request message_id) (\<lambda>x.
     case x of
       Inl prepared \<Rightarrow> returnM prepared
     | Inr (context_id, user_message) \<Rightarrow>
         bindM (or_fail_ingress (m_message_id user_message)
           (bindM (router_context_through_input context_id (m_message_id user_message)) (\<lambda>messages.
            ce_decide env request context_id (m_message_id user_message) messages))) (\<lambda>rd.
         returnM \<lparr>pm_context_id = context_id, pm_input_message_id = m_message_id user_message,
           pm_route_decision = Some rd, pm_existing_result = None\<rparr>)))))"

section \<open>Dispatching a routed Message\<close>

definition append_local_reply ::
  "string \<Rightarrow> string \<Rightarrow> route_decision_record \<Rightarrow> string \<Rightarrow> pyval list \<Rightarrow> message_record py" where
  "append_local_reply context_id input_message_id decision message_id parts = transaction (
     bindM (append_message message_id context_id AGENT parts None
              [(''inputMessageId'', PStr input_message_id), (''routeDecisionId'', PStr (r_decision_id decision)),
               (''routeKind'', PStr (route_kind_value LOCAL_MESSAGE))]) (\<lambda>assistant_message.
     bindM (resolve_message_ingress input_message_id MESSAGE_OUTCOME (m_message_id assistant_message)) (\<lambda>_.
     returnM assistant_message)))"

definition handle_local_message ::
  "core_env \<Rightarrow> string \<Rightarrow> string \<Rightarrow> main_agent_route_decision \<Rightarrow> main_agent_result py" where
  "handle_local_message env context_id input_message_id rd =
     bindM (record_message_ingress_route context_id input_message_id rd) (\<lambda>decision.
     bindM (direct_message_context_through_input context_id input_message_id) (\<lambda>messages.
     bindM (ce_respond env messages) (\<lambda>parts.
     bindM (new_id ''msg'') (\<lambda>message_id.
     bindM (append_local_reply context_id input_message_id decision message_id parts) (\<lambda>assistant_message.
     returnM (LocalMessageResult context_id (m_message_id assistant_message) input_message_id
       (r_decision_id decision) (m_parts assistant_message)))))))"

definition accept_routed_task ::
  "core_env \<Rightarrow> string \<Rightarrow> string \<Rightarrow> main_agent_route_decision \<Rightarrow> (route_decision_record \<times> task_record) py" where
  "accept_routed_task env context_id input_message_id rd =
     bindM (new_id ''route'') (\<lambda>decision_id.
     bindM (new_id ''task'') (\<lambda>task_id.
     bindM (new_id ''thread'') (\<lambda>runtime_thread_id.
     accept_local_task_from_message decision_id context_id input_message_id (rd_kind rd) (rd_reason rd)
       (rd_target_agent_id rd) (rd_confidence rd) (rd_metadata rd) task_id runtime_thread_id
       (queue_execution_enabled env) None 1)))"

definition handle_local_task ::
  "core_env \<Rightarrow> string \<Rightarrow> string \<Rightarrow> main_agent_route_decision \<Rightarrow> main_agent_result py" where
  "handle_local_task env context_id input_message_id rd =
     bindM (execute_lifecycle (accept_routed_task env context_id input_message_id rd)
       (Some (\<lambda>accepted. bindM (start_committed_local_task env (snd accepted)) (\<lambda>x. returnM (Some x))))) (\<lambda>outcome.
     let task = (case lo_post_commit_result outcome of Some x \<Rightarrow> x | None \<Rightarrow> snd (lo_committed outcome)) in
     returnM (LocalTaskResult context_id (t_task_id task) input_message_id
       (r_decision_id (fst (lo_committed outcome)))))"

text \<open>What a child agent's answer writes, in one transaction for each kind.\<close>

definition accept_remote_message ::
  "string \<Rightarrow> string \<Rightarrow> string \<Rightarrow> route_decision_record \<Rightarrow> string \<Rightarrow> remote_agent_send_result \<Rightarrow> message_record py" where
  "accept_remote_message context_id input_message_id target_agent_id decision delegation_id remote = transaction (
     bindM (new_id ''msg'') (\<lambda>message_id.
     bindM (append_message message_id context_id AGENT (sr_parts remote) None
       [(''inputMessageId'', PStr input_message_id), (''routeDecisionId'', PStr (r_decision_id decision)),
        (''routeKind'', PStr (route_kind_value REMOTE_AGENT)), (''remoteAgentId'', PStr target_agent_id),
        (''remoteContextId'', str_opt (sr_context_id remote)),
        (''remoteMessageId'', str_opt (sr_message_id remote))]) (\<lambda>assistant_message.
     bindM (create_delegated_task delegation_id context_id input_message_id (r_decision_id decision)
       target_agent_id ''message'' ''completed'' None None (sr_context_id remote) (sr_message_id remote)
       [(''localMessageId'', PStr (m_message_id assistant_message))]) (\<lambda>_.
     bindM (resolve_message_ingress input_message_id DELEGATION_OUTCOME delegation_id) (\<lambda>_.
     returnM assistant_message)))))"

definition accept_remote_task ::
  "string \<Rightarrow> string \<Rightarrow> string \<Rightarrow> route_decision_record \<Rightarrow> string \<Rightarrow> remote_agent_send_result \<Rightarrow> string \<Rightarrow> task_record py" where
  "accept_remote_task context_id input_message_id target_agent_id decision delegation_id remote remote_task_id =
     transaction (
     bindM (new_id ''task'') (\<lambda>task_id.
     bindM (new_id ''remote-thread'') (\<lambda>runtime_thread_id.
     bindM (create_task task_id context_id input_message_id runtime_thread_id
              (remote_task_status (sr_status remote) FAILED) (Some target_agent_id) None 1 None None None) (\<lambda>task.
     bindM (append_task_event (t_task_id task) ''task_delegated'' (Some (t_status task))
       [(''remote_agent_id'', PStr target_agent_id), (''remote_task_id'', PStr remote_task_id),
        (''remote_context_id'', str_opt (sr_context_id remote))]) (\<lambda>_.
     bindM (create_delegated_task delegation_id context_id input_message_id (r_decision_id decision)
       target_agent_id ''task'' (str_or (sr_status remote) (task_status_value (t_status task)))
       (Some (t_task_id task)) (Some remote_task_id) (sr_context_id remote) None []) (\<lambda>_.
     bindM (resolve_message_ingress input_message_id DELEGATION_OUTCOME delegation_id) (\<lambda>_.
     returnM task)))))))"

definition accept_remote_result ::
  "string \<Rightarrow> string \<Rightarrow> string \<Rightarrow> route_decision_record \<Rightarrow> string \<Rightarrow> remote_agent_send_result \<Rightarrow> main_agent_result py" where
  "accept_remote_result context_id input_message_id target_agent_id decision delegation_id remote =
     (if sr_kind remote = ''message'' then
        bindM (accept_remote_message context_id input_message_id target_agent_id decision delegation_id
                 remote) (\<lambda>assistant_message.
        returnM (RemoteAgentResult context_id input_message_id target_agent_id (r_decision_id decision)
          delegation_id (Some (m_message_id assistant_message)) None (m_parts assistant_message)))
      else if sr_kind remote = ''task'' then
        (case sr_task_id remote of
           Some remote_task_id \<Rightarrow>
             if strip remote_task_id = []
             then raiseM (RemoteAgentProtocolError ''remote agent task result is missing a task id'')
             else
               bindM (accept_remote_task context_id input_message_id target_agent_id decision delegation_id
                        remote remote_task_id) (\<lambda>task.
               returnM (RemoteAgentResult context_id input_message_id target_agent_id
                 (r_decision_id decision) delegation_id None (Some (t_task_id task)) []))
         | None \<Rightarrow> raiseM (RemoteAgentProtocolError ''remote agent task result is missing a task id''))
      else raiseM (ValueError (''unsupported remote agent result kind: '' @ sr_kind remote)))"

definition handle_remote_agent ::
  "core_env \<Rightarrow> string \<Rightarrow> string \<Rightarrow> main_agent_request \<Rightarrow> main_agent_route_decision \<Rightarrow> main_agent_result py" where
  "handle_remote_agent env context_id input_message_id request rd =
     bindM (require_some (rd_target_agent_id rd)
              (ValueError ''remote_agent route requires metadata.targetAgentId'')) (\<lambda>target_agent_id.
     bindM (usable_agent env target_agent_id) (\<lambda>agent.
     bindM (require_some (ce_remote env) (ValueError ''remote_agent client is not configured'')) (\<lambda>client.
     bindM (execute_lifecycle (record_message_ingress_route context_id input_message_id rd)
              (Some (\<lambda>_. rc_send_message client agent request context_id input_message_id))) (\<lambda>delegation_start.
     bindM (require_some (lo_post_commit_result delegation_start)
              (RuntimeError ''remote delegation returned no result'')) (\<lambda>remote.
     bindM (new_id ''delegate'') (\<lambda>delegation_id.
     accept_remote_result context_id input_message_id target_agent_id (lo_committed delegation_start)
       delegation_id remote))))))"

definition dispatch_message ::
  "core_env \<Rightarrow> main_agent_request \<Rightarrow> string \<Rightarrow> string \<Rightarrow> main_agent_route_decision \<Rightarrow> main_agent_result py" where
  "dispatch_message env request context_id input_message_id rd =
     (case rd_kind rd of
        LOCAL_MESSAGE \<Rightarrow> handle_local_message env context_id input_message_id rd
      | LOCAL_TASK \<Rightarrow> handle_local_task env context_id input_message_id rd
      | REMOTE_AGENT \<Rightarrow> handle_remote_agent env context_id input_message_id request rd)"

definition admit_message :: "core_env \<Rightarrow> main_agent_request \<Rightarrow> main_agent_result py" where
  "admit_message env request =
     bindM (prepare_message_route env request) (\<lambda>prepared.
     case pm_existing_result prepared of
       Some result \<Rightarrow> returnM result
     | None \<Rightarrow>
         bindM (require_some (pm_route_decision prepared) (RuntimeError ''message route was not prepared'')) (\<lambda>rd.
         or_fail_ingress (pm_input_message_id prepared)
           (dispatch_message env request (pm_context_id prepared) (pm_input_message_id prepared) rd)))"

section \<open>Continuing a paused Task\<close>

definition validate_pending_continuation :: "string \<Rightarrow> string \<Rightarrow> string \<Rightarrow> task_record py" where
  "validate_pending_continuation task_id expected_kind operation =
     bindM (get_task task_id) (\<lambda>x.
     bindM (require_some x (ValueError (''unknown task: '' @ task_id))) (\<lambda>task.
     bindM (raise_if (is_terminal_task_status (t_status task) \<or> t_status task = CANCEL_REQUESTED)
              (ValueError (''task is not waiting for '' @ operation @ '': '' @ task_id))) (\<lambda>_.
     bindM (raise_if (t_status task \<noteq> INPUT_REQUIRED \<and> t_status task \<noteq> AUTH_REQUIRED)
              (ValueError (''task is not waiting for '' @ operation @ '': '' @ task_id))) (\<lambda>_.
     bindM (get_pending_continuation task_id) (\<lambda>p.
     bindM (require_some p
              (ValueError (''task has no pending '' @ expected_kind @ '' request: '' @ task_id))) (\<lambda>pending.
     bindM (raise_if (p_kind pending \<noteq> expected_kind)
              (ValueError (''task is waiting for '' @ continuation_label (p_kind pending) @ '', not '' @
                 continuation_label expected_kind @ '': '' @ task_id))) (\<lambda>_.
     returnM task)))))))"

definition accept_pending_continuation ::
  "string \<Rightarrow> string \<Rightarrow> pydict \<Rightarrow> string \<Rightarrow> queued_task_execution_kind \<Rightarrow> queued_payload \<Rightarrow>
   task_record py" where
  "accept_pending_continuation task_id expected_kind resume_payload operation queued_kind queued_payload =
     bindM (validate_pending_continuation task_id expected_kind operation) (\<lambda>_.
     bindM (consume_pending_continuation task_id expected_kind) (\<lambda>pending.
     bindM (if expected_kind = ''approval_required'' then
              resolve_pending_tool_invocation_approval task_id (p_input_request pending)
                (truthy (dget resume_payload ''approved''))
                (if truthy (dget resume_payload ''reason'') then as_str (dget resume_payload ''reason'') else None)
            else returnM None) (\<lambda>_.
     bindM (append_task_event task_id ''task_resumed'' None resume_payload) (\<lambda>_.
     bindM (transition_local_task task_id QUEUED [] None None False) (\<lambda>task.
     bindM (enqueue_task_execution (t_task_id task) queued_kind (t_runtime_thread_id task)
              (Some queued_payload) LOCAL_EXECUTION_COMMAND_VERSION) (\<lambda>_.
     returnM task))))))"

text \<open>The tail the two continuations share: commit, wake the worker, return the Task.\<close>

definition commit_and_wake :: "core_env \<Rightarrow> task_record py \<Rightarrow> string \<Rightarrow> task_record py" where
  "commit_and_wake env accept_continuation message =
     bindM (execute_lifecycle accept_continuation
       (Some (\<lambda>task. bindM (start_committed_local_task env task) (\<lambda>x. returnM (Some x))))) (\<lambda>outcome.
     require_some (lo_post_commit_result outcome) (RuntimeError message))"

definition resolve_approval :: "core_env \<Rightarrow> string \<Rightarrow> bool \<Rightarrow> string option \<Rightarrow> task_record py" where
  "resolve_approval env task_id approved reason =
     bindM (get_task task_id) (\<lambda>x.
     bindM (raise_if (case x of None \<Rightarrow> False | Some task \<Rightarrow> t_assigned_agent_id task \<noteq> None)
              (ValueError (''delegated task resume is not supported yet: '' @ task_id))) (\<lambda>_.
     bindM (raise_if (ce_runner env = None) (ValueError ''local task runner is not configured'')) (\<lambda>_.
     commit_and_wake env
       (accept_pending_continuation task_id ''approval_required''
          ((''approved'', PBool approved) #
             (case reason of None \<Rightarrow> [] | Some r \<Rightarrow> if r = [] then [] else [(''reason'', PStr r)]))
          ''approval'' APPROVAL (ApprovalTaskExecutionPayload approved reason))
       (''accepted approval did not start local execution: '' @ task_id))))"

definition accept_task_input ::
  "string \<Rightarrow> main_agent_request \<Rightarrow> queued_payload \<Rightarrow> task_record py" where
  "accept_task_input task_id request payload =
     bindM (validate_pending_continuation task_id ''user_input_required'' ''input'') (\<lambda>task.
     bindM (raise_if (case rq_context_id request of None \<Rightarrow> False | Some c \<Rightarrow> c \<noteq> t_context_id task)
              (ValueError (''task context mismatch: '' @ task_id))) (\<lambda>_.
     bindM (request_message_id request) (\<lambda>message_id.
     bindM (append_message message_id (t_context_id task) USER (rq_parts request) (Some task_id)
              (dset ''inputRequestKind'' (PStr ''user_input_required'') (rq_metadata request))) (\<lambda>message.
     bindM (append_task_event task_id ''task_input_submitted'' None
              [(''message_id'', PStr (m_message_id message))]) (\<lambda>_.
     accept_pending_continuation task_id ''user_input_required''
       [(''input_message_id'', PStr (m_message_id message))] ''input'' USER_INPUT payload)))))"

definition submit_task_input :: "core_env \<Rightarrow> string \<Rightarrow> main_agent_request \<Rightarrow> task_record py" where
  "submit_task_input env task_id request =
     bindM (raise_if (rq_role request \<noteq> USER) (ValueError ''task input role must be user'')) (\<lambda>_.
     bindM (raise_if (rq_parts request = []) (ValueError ''task input parts are required'')) (\<lambda>_.
     bindM (get_task task_id) (\<lambda>x.
     bindM (raise_if (case x of None \<Rightarrow> False | Some task \<Rightarrow> t_assigned_agent_id task \<noteq> None)
              (ValueError (''delegated task input continuation is not supported yet: '' @ task_id))) (\<lambda>_.
     bindM (raise_if (ce_runner env = None) (ValueError ''local task runner is not configured'')) (\<lambda>_.
     bindM (liftE (user_input_payload (rq_parts request)
              (if rq_metadata request = [] then None else Some (PDict (rq_metadata request))))) (\<lambda>payload.
     commit_and_wake env (accept_task_input task_id request payload)
       (''accepted input did not start local execution: '' @ task_id)))))))"

section \<open>Canceling\<close>

definition record_remote_task_snapshot ::
  "core_env \<Rightarrow> string \<Rightarrow> remote_agent_task_snapshot \<Rightarrow> task_record py" where
  "record_remote_task_snapshot env task_id snapshot = record_remote_snapshot (ce_repr env) task_id snapshot"

definition cancel_remote_proxy_task :: "core_env \<Rightarrow> string \<Rightarrow> string option \<Rightarrow> task_record py" where
  "cancel_remote_proxy_task env task_id reason =
     bindM (get_task task_id) (\<lambda>x.
     bindM (raise_if (x = None) (ValueError (''unknown task: '' @ task_id))) (\<lambda>_.
     bindM (get_delegated_task_by_local_task_id task_id) (\<lambda>d.
     bindM (require_some (case d of None \<Rightarrow> None | Some delegation \<Rightarrow>
              map_option (\<lambda>k. (delegation, k)) (d_remote_task_id delegation))
              (ValueError (''delegated task is missing remote task id: '' @ task_id)))
       (\<lambda>(delegation, remote_task_id).
     bindM (require_some (ce_remote env) (ValueError ''remote_agent client is not configured'')) (\<lambda>client.
     bindM (get_registered_agent (d_remote_agent_id delegation)) (\<lambda>g.
     bindM (require_some g
       (ValueError (''unknown registered agent: '' @ d_remote_agent_id delegation))) (\<lambda>agent.
     bindM (raise_if (\<not> g_enabled agent)
       (ValueError (''registered agent is disabled: '' @ d_remote_agent_id delegation))) (\<lambda>_.
     bindM (rc_cancel_task client agent remote_task_id reason) (\<lambda>snapshot.
     record_remote_task_snapshot env task_id snapshot)))))))))"

text \<open>The transitions of a cancellation that reaches no live worker.\<close>

definition cancel_idle_task :: "string \<Rightarrow> string option \<Rightarrow> pydict \<Rightarrow> committed_cancellation py" where
  "cancel_idle_task task_id reason payload =
     bindM (transition_local_task task_id CANCELED payload None None False) (\<lambda>canceled_task.
     bindM (cancel_prepared_tool_invocations task_id (str_or reason ''task canceled before tool execution'')) (\<lambda>_.
     bindM (clear_pending_continuation task_id) (\<lambda>_.
     bindM (clear_queued_task_execution task_id) (\<lambda>_.
     returnM \<lparr>cc_task = canceled_task, cc_active_runtime_thread_id = None\<rparr>))))"

definition commit_cancellation :: "core_env \<Rightarrow> string \<Rightarrow> string option \<Rightarrow> committed_cancellation py" where
  "commit_cancellation env task_id reason =
     bindM (get_task task_id) (\<lambda>x.
     bindM (require_some x (ValueError (''unknown task: '' @ task_id))) (\<lambda>task.
     bindM (raise_if (is_terminal_task_status (t_status task))
              (ValueError (''task is terminal and cannot be canceled: '' @ task_id))) (\<lambda>_.
     let payload = (case reason of None \<Rightarrow> [] | Some r \<Rightarrow> if r = [] then [] else [(''reason'', PStr r)]) in
     if t_status task = CANCEL_REQUESTED then
       bindM (is_task_active env task_id) (\<lambda>active.
       returnM \<lparr>cc_task = task,
         cc_active_runtime_thread_id = (if active then Some (t_runtime_thread_id task) else None)\<rparr>)
     else if t_status task = RUNNING then
       bindM (transition_local_task task_id CANCEL_REQUESTED payload None None False) (\<lambda>cancel_requested.
       bindM (is_task_active env task_id) (\<lambda>active.
       if active then
         returnM \<lparr>cc_task = cancel_requested,
           cc_active_runtime_thread_id = Some (t_runtime_thread_id cancel_requested)\<rparr>
       else cancel_idle_task task_id reason payload))
     else cancel_idle_task task_id reason payload)))"

definition cancel_task :: "core_env \<Rightarrow> string \<Rightarrow> string option \<Rightarrow> task_record py" where
  "cancel_task env task_id reason =
     bindM (get_task task_id) (\<lambda>x.
     bindM (require_some x (ValueError (''unknown task: '' @ task_id))) (\<lambda>task.
     bindM (raise_if (is_terminal_task_status (t_status task))
              (ValueError (''task is terminal and cannot be canceled: '' @ task_id))) (\<lambda>_.
     if t_assigned_agent_id task \<noteq> None then cancel_remote_proxy_task env task_id reason
     else
       bindM (execute_lifecycle (commit_cancellation env task_id reason)
         (Some (\<lambda>committed. bindM (signal_committed_cancellation env reason committed)
            (\<lambda>_. returnM (None :: unit option))))) (\<lambda>outcome.
       returnM (cc_task (lo_committed outcome))))))"

section \<open>Retrying a failed Task\<close>

definition retryable_failed_local_task :: "string \<Rightarrow> task_record py" where
  "retryable_failed_local_task task_id =
     bindM (get_task task_id) (\<lambda>x.
     bindM (require_some x (task_not_found_error task_id)) (\<lambda>task.
     bindM (raise_if (t_assigned_agent_id task \<noteq> None)
              (invalid_session_state_error ''Only locally owned tasks can be retried.'')) (\<lambda>_.
     bindM (raise_if (t_status task \<noteq> FAILED)
              (invalid_session_state_error ''Only failed tasks can be retried.'')) (\<lambda>_.
     bindM (raise_if (\<not> t_error_retryable task)
              (invalid_session_state_error ''This task failure is not retryable.'')) (\<lambda>_.
     bindM (has_potentially_side_effecting_tool_invocation (t_task_id task)) (\<lambda>effects.
     bindM (raise_if effects (invalid_session_state_error
              (''This task cannot be retried because it has potentially '' @
               ''side-effecting tool work.''))) (\<lambda>_.
     returnM task)))))))"

definition accept_retry ::
  "core_env \<Rightarrow> string \<Rightarrow> message_record \<Rightarrow> string \<Rightarrow> string \<Rightarrow> string \<Rightarrow> int \<Rightarrow> pydict \<Rightarrow> accepted_retry py" where
  "accept_retry env task_id input_message retry_message_id retry_task_id retry_thread_id retry_attempt
     retry_metadata =
     bindM (retryable_failed_local_task task_id) (\<lambda>source.
     bindM (get_direct_task_retry (t_task_id source)) (\<lambda>found.
     case found of
       Some existing \<Rightarrow> returnM \<lparr>ar_task = existing, ar_should_start = False\<rparr>
     | None \<Rightarrow>
         bindM (append_message retry_message_id (t_context_id source) USER (m_parts input_message) None
                  retry_metadata) (\<lambda>retry_message.
         bindM (reserve_message_ingress (m_message_id retry_message) (t_context_id source)
                  (message_fingerprint env USER (m_parts retry_message) retry_metadata)) (\<lambda>_.
         bindM (new_id ''route'') (\<lambda>decision_id.
         bindM (accept_local_task_from_message decision_id (t_context_id source)
                  (m_message_id retry_message) LOCAL_TASK ''Manual retry of a retryable failed local task.''
                  None (Some (Fin 1))
                  [(''source'', PStr ''manual_retry''), (''retryOfTaskId'', PStr (t_task_id source)),
                   (''retryAttempt'', PInt retry_attempt)]
                  retry_task_id retry_thread_id (queue_execution_enabled env) (Some (t_task_id source))
                  retry_attempt) (\<lambda>(decision, task).
         bindM (append_task_event (t_task_id source) ''task_retry_requested'' None
                  [(''retry_task_id'', PStr (t_task_id task)), (''retry_attempt'', PInt (t_attempt task))]) (\<lambda>_.
         bindM (append_task_event (t_task_id task) ''task_retried'' None
                  [(''retry_of_task_id'', PStr (t_task_id source)), (''retry_attempt'', PInt (t_attempt task))]) (\<lambda>_.
         returnM \<lparr>ar_task = task, ar_should_start = True\<rparr>))))))))"

fun is_integrity_error :: "exn \<Rightarrow> bool" where
  "is_integrity_error (IntegrityError _) = True"
| "is_integrity_error _ = False"

text \<open>\<open>except sqlite3.IntegrityError\<close>: the lineage index makes two simultaneous
  retries converge on one child.\<close>

definition commit_retry :: "core_env \<Rightarrow> string \<Rightarrow> accepted_retry py \<Rightarrow> task_record py" where
  "commit_retry env task_id accept =
     bindM (catchM
       (bindM (execute_lifecycle accept (Some (\<lambda>accepted.
          bindM (if ar_should_start accepted then start_committed_local_task env (ar_task accepted)
                 else returnM (ar_task accepted)) (\<lambda>x. returnM (Some x))))) (\<lambda>outcome.
        returnM (lo_post_commit_result outcome)))
       (\<lambda>e. if is_integrity_error e then
               bindM (get_direct_task_retry task_id) (\<lambda>existing.
               case existing of Some x \<Rightarrow> returnM (Some x) | None \<Rightarrow> raiseM e)
             else raiseM e)) (\<lambda>r.
     require_some r (RuntimeError (''accepted retry did not start local execution: '' @ task_id)))"

definition retry_failed_task :: "core_env \<Rightarrow> string \<Rightarrow> task_record py" where
  "retry_failed_task env task_id =
     bindM (raise_if (ce_runner env = None)
              (invalid_session_state_error ''local task runner is not configured'')) (\<lambda>_.
     bindM (retryable_failed_local_task task_id) (\<lambda>source.
     bindM (get_direct_task_retry (t_task_id source)) (\<lambda>found.
     case found of
       Some existing \<Rightarrow> returnM existing
     | None \<Rightarrow>
         bindM (get_message (t_input_message_id source)) (\<lambda>m.
         bindM (require_some (case m of None \<Rightarrow> None
                  | Some message \<Rightarrow> if m_role message \<noteq> USER then None else Some message)
                  (invalid_session_state_error ''The original task input is unavailable.'')) (\<lambda>input_message.
         bindM (new_id ''msg'') (\<lambda>retry_message_id.
         bindM (new_id ''task'') (\<lambda>retry_task_id.
         bindM (new_id ''thread'') (\<lambda>retry_thread_id.
         let retry_attempt = t_attempt source + 1 in
         commit_retry env task_id
           (accept_retry env task_id input_message retry_message_id retry_task_id retry_thread_id
              retry_attempt
              (retry_message_metadata (m_metadata input_message) source retry_attempt))))))))))"

section \<open>Deleting\<close>

definition delete_context :: "core_env \<Rightarrow> string \<Rightarrow> bool \<Rightarrow> delete_context_result option py" where
  "delete_context env context_id force =
     bindM (get_context context_id) (\<lambda>c.
     if c = None then returnM None
     else
       bindM (list_context_tasks context_id None 0) (\<lambda>tasks.
       bindM (raise_if (list_ex (\<lambda>x. \<not> is_terminal_task_status (t_status x)) tasks)
                (context_deletion_conflict_error context_id
                   (if force then ''active local or remote tasks exist; force cannot delete live processes''
                    else ''active local or remote tasks exist''))) (\<lambda>_.
       bindM (forM tasks (\<lambda>x. is_task_live env (t_task_id x))) (\<lambda>live.
       bindM (raise_if (list_ex id live)
                (context_deletion_conflict_error context_id
                   ''terminal tasks still have a live worker callback'')) (\<lambda>_.
       bindM (forM tasks (discard_terminal_task_checkpoint env)) (\<lambda>_.
       bindM (delete_terminal_context context_id) (\<lambda>r. returnM (Some r))))))))"

definition delete_unused_agent :: "string \<Rightarrow> bool py" where
  "delete_unused_agent agent_id =
     bindM (get_registered_agent agent_id) (\<lambda>g.
     if g = None then returnM False
     else
       bindM (list_delegated_tasks_for_remote_agent agent_id) (\<lambda>delegations.
       bindM (forM delegations (\<lambda>d. case d_local_task_id d of
                None \<Rightarrow> returnM False
              | Some k \<Rightarrow> bindM (get_task k) (\<lambda>x. returnM (case x of None \<Rightarrow> False
                  | Some task \<Rightarrow> \<not> is_terminal_task_status (t_status task))))) (\<lambda>active.
       bindM (raise_if (list_ex id active)
                (registered_agent_deletion_conflict_error agent_id ''active delegated tasks exist'')) (\<lambda>_.
       bindM (raise_if (delegations \<noteq> [])
                (registered_agent_deletion_conflict_error agent_id ''delegation history exists'')) (\<lambda>_.
       delete_registered_agent agent_id)))))"

section \<open>Refreshing a proxy\<close>

definition sync_remote_proxy_task :: "core_env \<Rightarrow> string \<Rightarrow> task_record py" where
  "sync_remote_proxy_task env task_id =
     bindM (get_task task_id) (\<lambda>x.
     bindM (require_some x (ValueError (''unknown task: '' @ task_id))) (\<lambda>task.
     bindM (get_delegated_task_by_local_task_id task_id) (\<lambda>d.
     case (d, case d of None \<Rightarrow> None | Some delegation \<Rightarrow> d_remote_task_id delegation, ce_remote env) of
       (Some delegation, Some remote_task_id, Some client) \<Rightarrow>
         bindM (get_registered_agent (d_remote_agent_id delegation)) (\<lambda>g.
         case g of
           None \<Rightarrow> returnM task
         | Some agent \<Rightarrow>
             if \<not> g_enabled agent then returnM task
             else
               bindM (rc_get_task client agent remote_task_id) (\<lambda>snapshot.
               record_remote_task_snapshot env task_id snapshot))
     | _ \<Rightarrow> returnM task)))"

definition get_refreshed_task :: "core_env \<Rightarrow> string \<Rightarrow> bool \<Rightarrow> task_record option py" where
  "get_refreshed_task env task_id refresh_remote =
     bindM (get_task task_id) (\<lambda>x.
     case x of
       None \<Rightarrow> returnM None
     | Some task \<Rightarrow>
         if \<not> refresh_remote \<or> t_assigned_agent_id task = None then returnM (Some task)
         else bindM (sync_remote_proxy_task env task_id) (\<lambda>y. returnM (Some y)))"

section \<open>Startup\<close>

datatype recovery = Recovery_scheduled | Recovery_failed | Recovery_retained

definition fail_recovery :: "string \<Rightarrow> string \<Rightarrow> string \<Rightarrow> recovery py" where
  "fail_recovery task_id error_code error_message =
     bindM (record_runtime_recovery_failure task_id error_code error_message) (\<lambda>_. returnM Recovery_failed)"

text \<open>The body of the loop over the queued Tasks; \<open>Inl\<close> is an unreadable command.\<close>

definition read_command :: "string \<Rightarrow> (unit + queued_task_execution_record option) py" where
  "read_command task_id =
     catchM (bindM (get_queued_task_execution task_id) (\<lambda>q. returnM (Inr q)))
       (\<lambda>e. if is_type_error e \<or> is_value_error e then returnM (Inl ()) else raiseM e)"

definition recover_queued_task :: "core_env \<Rightarrow> task_record \<Rightarrow> recovery py" where
  "recover_queued_task env task =
     bindM (read_command (t_task_id task)) (\<lambda>r.
     case r of
       Inl _ \<Rightarrow> fail_recovery (t_task_id task) ''runtime_recovery_invalid_command''
         ''Queued local task has an invalid persisted execution command.''
     | Inr None \<Rightarrow> fail_recovery (t_task_id task) ''runtime_recovery_command_missing''
         ''Queued local task has no recoverable execution command.''
     | Inr (Some command) \<Rightarrow>
         if qe_runtime_thread_id command \<noteq> t_runtime_thread_id task
         then fail_recovery (t_task_id task) ''runtime_recovery_thread_mismatch''
           ''Queued local task execution does not match its runtime thread.''
         else
           (case local_execution env of
              None \<Rightarrow> fail_recovery (t_task_id task) ''runtime_recovery_unavailable''
                ''No local worker is available to recover the queued task.''
            | Some ad \<Rightarrow>
                if \<not> supports_startup_recovery ad
                then fail_recovery (t_task_id task) ''runtime_recovery_unavailable''
                  ''No local worker is available to recover the queued task.''
                else
                  catchM
                    (bindM (wake ad core_callbacks (t_task_id task)) (\<lambda>woken.
                     returnM (if woken then Recovery_scheduled else Recovery_retained)))
                    (\<lambda>_. fail_recovery (t_task_id task) ''runtime_recovery_submission_failed''
                       ''Unable to submit the queued local task for recovery.'')))"

record startup_reconciliation_outcome =
  so_scheduled_task_ids :: "string list"
  so_failed_task_ids :: "string list"
  so_retained_task_ids :: "string list"
  so_failed_message_ids :: "string list"

definition ids_with :: "recovery \<Rightarrow> (string \<times> recovery) list \<Rightarrow> string list" where
  "ids_with r xs = map fst (filter (\<lambda>x. snd x = r) xs)"

definition reconcile_startup :: "core_env \<Rightarrow> startup_reconciliation_outcome py" where
  "reconcile_startup env =
     (let stale = error_info_from_exception message_ingress_stale_error in
      bindM (fail_in_progress_message_ingresses (error_code_value (ei_code stale))
               (ei_public_message stale) (ei_http_status stale) True) (\<lambda>failed_message_ids.
      bindM (list_local_tasks_by_statuses {RUNNING, CANCEL_REQUESTED}) (\<lambda>interrupted.
      bindM (forM interrupted (\<lambda>task.
               bindM (fail_recovery (t_task_id task) ''runtime_restart_interrupted''
                        ''Local task execution was interrupted by a runtime restart.'') (\<lambda>_.
               returnM (t_task_id task)))) (\<lambda>failed.
      bindM (list_local_tasks_by_statuses {QUEUED}) (\<lambda>queued.
      bindM (forM queued (\<lambda>task.
               bindM (recover_queued_task env task) (\<lambda>r. returnM (t_task_id task, r)))) (\<lambda>recovered.
      returnM \<lparr>so_scheduled_task_ids = ids_with Recovery_scheduled recovered,
        so_failed_task_ids = failed @ ids_with Recovery_failed recovered,
        so_retained_task_ids = ids_with Recovery_retained recovered,
        so_failed_message_ids = failed_message_ids\<rparr>))))))"

section \<open>Commands\<close>

datatype main_agent_command =
    AdmitMessageCommand main_agent_request
  | CancelTaskCommand string "string option"
  | ResolveApprovalCommand string bool "string option"
  | SubmitTaskInputCommand string main_agent_request
  | RetryTaskCommand string
  | ReconcileStartupCommand
  | RecordLocalTaskResultCommand string local_task_run_result pydict
  | RecordLocalTaskFailureCommand string exn
  | RecordRuntimeRecoveryFailureCommand string string string
  | RecordTaskCancellationCommand string
  | RecordRemoteTaskSnapshotCommand string remote_agent_task_snapshot

datatype main_agent_command_outcome =
    MessageCommandOutcome main_agent_result
  | TaskCommandOutcome task_record
  | StartupOutcome startup_reconciliation_outcome

definition task_outcome :: "task_record py \<Rightarrow> main_agent_command_outcome py" where
  "task_outcome m = bindM m (\<lambda>task. returnM (TaskCommandOutcome task))"

fun execute_command :: "core_env \<Rightarrow> main_agent_command \<Rightarrow> main_agent_command_outcome py" where
  "execute_command env (AdmitMessageCommand request) =
     bindM (admit_message env request) (\<lambda>r. returnM (MessageCommandOutcome r))"
| "execute_command env (CancelTaskCommand task_id reason) = task_outcome (cancel_task env task_id reason)"
| "execute_command env (ResolveApprovalCommand task_id approved reason) =
     task_outcome (resolve_approval env task_id approved reason)"
| "execute_command env (SubmitTaskInputCommand task_id request) =
     task_outcome (submit_task_input env task_id request)"
| "execute_command env (RetryTaskCommand task_id) = task_outcome (retry_failed_task env task_id)"
| "execute_command env ReconcileStartupCommand =
     bindM (reconcile_startup env) (\<lambda>r. returnM (StartupOutcome r))"
| "execute_command env (RecordLocalTaskResultCommand task_id result metadata) =
     task_outcome (record_local_result task_id result metadata)"
| "execute_command env (RecordLocalTaskFailureCommand task_id error) =
     task_outcome (record_failure task_id error)"
| "execute_command env (RecordRuntimeRecoveryFailureCommand task_id error_code error_message) =
     task_outcome (record_runtime_recovery_failure task_id error_code error_message)"
| "execute_command env (RecordTaskCancellationCommand task_id) = task_outcome (record_cancellation task_id)"
| "execute_command env (RecordRemoteTaskSnapshotCommand task_id snapshot) =
     task_outcome (record_remote_task_snapshot env task_id snapshot)"

section \<open>The public methods\<close>

text \<open>
  The methods of \<open>MainAgentCore\<close> that other code calls: each executes a command and unpacks
  its outcome.  Those with the name of a private method are marked.
\<close>

definition outcome_task :: "main_agent_command_outcome \<Rightarrow> exn + task_record" where
  "outcome_task outcome =
     (case outcome of TaskCommandOutcome task \<Rightarrow> Inr task | _ \<Rightarrow> Inl (RuntimeError ''task command returned an invalid outcome''))"

definition handle_message :: "core_env \<Rightarrow> main_agent_request \<Rightarrow> main_agent_result py" where
  "handle_message env request =
     bindM (execute_command env (AdmitMessageCommand request)) (\<lambda>outcome.
     case outcome of
       MessageCommandOutcome result \<Rightarrow> returnM result
     | _ \<Rightarrow> raiseM (RuntimeError ''message command returned an invalid outcome''))"

definition reconcile_startup_method :: "core_env \<Rightarrow> startup_reconciliation_outcome py" where
  "reconcile_startup_method env =
     bindM (execute_command env ReconcileStartupCommand) (\<lambda>outcome.
     case outcome of
       StartupOutcome result \<Rightarrow> returnM result
     | _ \<Rightarrow> raiseM (RuntimeError ''startup reconciliation returned an invalid outcome''))"

definition task_method :: "core_env \<Rightarrow> main_agent_command \<Rightarrow> task_record py" where
  "task_method env command = bindM (execute_command env command) (\<lambda>outcome. liftE (outcome_task outcome))"

definition resume_task :: "core_env \<Rightarrow> string \<Rightarrow> bool \<Rightarrow> string option \<Rightarrow> task_record py" where
  "resume_task env task_id approved reason = task_method env (ResolveApprovalCommand task_id approved reason)"

definition submit_task_input_method :: "core_env \<Rightarrow> string \<Rightarrow> main_agent_request \<Rightarrow> task_record py" where
  "submit_task_input_method env task_id request = task_method env (SubmitTaskInputCommand task_id request)"

definition retry_failed_task_method :: "core_env \<Rightarrow> string \<Rightarrow> task_record py" where
  "retry_failed_task_method env task_id = task_method env (RetryTaskCommand task_id)"

definition cancel_task_method :: "core_env \<Rightarrow> string \<Rightarrow> string option \<Rightarrow> task_record py" where
  "cancel_task_method env task_id reason = task_method env (CancelTaskCommand task_id reason)"

definition record_local_task_result :: "core_env \<Rightarrow> string \<Rightarrow> local_task_run_result \<Rightarrow> pydict option \<Rightarrow> task_record py" where
  "record_local_task_result env task_id result metadata =
     task_method env (RecordLocalTaskResultCommand task_id result (case metadata of None \<Rightarrow> [] | Some m \<Rightarrow> m))"

definition record_local_task_failure :: "core_env \<Rightarrow> string \<Rightarrow> exn \<Rightarrow> task_record py" where
  "record_local_task_failure env task_id error = task_method env (RecordLocalTaskFailureCommand task_id error)"

definition record_runtime_recovery_failure_method :: "core_env \<Rightarrow> string \<Rightarrow> string \<Rightarrow> string \<Rightarrow> task_record py" where
  "record_runtime_recovery_failure_method env task_id error_code error_message =
     task_method env (RecordRuntimeRecoveryFailureCommand task_id error_code error_message)"

definition record_task_cancellation :: "core_env \<Rightarrow> string \<Rightarrow> task_record py" where
  "record_task_cancellation env task_id = task_method env (RecordTaskCancellationCommand task_id)"

text \<open>No method sees an invalid outcome.\<close>

lemma task_outcome_unpacked: "bindM (task_outcome m) (\<lambda>outcome. liftE (outcome_task outcome)) = m"
  by (auto simp: fun_eq_iff task_outcome_def outcome_task_def bindM_def returnM_def liftE_def split: prod.split sum.split)

lemma methods_are_commands:
  "handle_message env request = admit_message env request" "reconcile_startup_method env = reconcile_startup env"
  "resume_task env k b r = resolve_approval env k b r" "submit_task_input_method env k request = submit_task_input env k request"
  "retry_failed_task_method env k = retry_failed_task env k" "cancel_task_method env k r = cancel_task env k r"
  "record_local_task_failure env k e = record_failure k e" "record_task_cancellation env k = record_cancellation k"
proof -
  have unpacked: "bindM (bindM m (\<lambda>r. returnM (C r))) (case_main_agent_command_outcome f g h) = bindM m (\<lambda>r. case_main_agent_command_outcome f g h (C r))"
    for m :: "'a py" and C and f g h :: "_ \<Rightarrow> 'b py"
    by (auto simp: fun_eq_iff bindM_def returnM_def split: prod.split sum.split)
  have identity: "bindM m (\<lambda>a. returnM a) = m" for m :: "'a py"
    by (auto simp: fun_eq_iff bindM_def returnM_def split: prod.split sum.split)
  show "handle_message env request = admit_message env request" "reconcile_startup_method env = reconcile_startup env"
    by (simp_all add: handle_message_def reconcile_startup_method_def unpacked
        main_agent_command_outcome.case identity)
  show "resume_task env k b r = resolve_approval env k b r" "submit_task_input_method env k request = submit_task_input env k request"
    "retry_failed_task_method env k = retry_failed_task env k" "cancel_task_method env k r = cancel_task env k r"
    "record_local_task_failure env k e = record_failure k e" "record_task_cancellation env k = record_cancellation k"
    by (simp_all add: resume_task_def submit_task_input_method_def retry_failed_task_method_def cancel_task_method_def
        record_local_task_failure_def record_task_cancellation_def task_method_def task_outcome_unpacked)
qed

end
