(* ===== verification/Core_Invariants.thy ===== *)
theory Core_Invariants
  imports Core
begin

text \<open>
  What every command of the core keeps.  The locale \<open>lifecycle_authority\<close> is the
  contract between the execution adapter and the core it calls back;
  \<open>core_store\<close> lists what the core asks of the store.  Whatever condition on the
  database the store operations keep, the commands keep between their transactions,
  provided the collaborators of the core do.

  The interpretations instantiate the contract with the invariants of the component
  theories; their conjunction is what \<open>Spec2Isabelle\<close> shows of every reachable state.
\<close>

section \<open>Between transactions\<close>

text \<open>The states in which the core runs its commands: no transaction is open,
  everything is committed, and the database satisfies \<open>I\<close>.\<close>

definition safe :: "(tables \<Rightarrow> bool) \<Rightarrow> world \<Rightarrow> bool" where
  "safe I w \<longleftrightarrow> transaction_depth w = 0 \<and> conn w = durable w \<and> I (conn w)"

lemma keeps_of_tx: "tx_keeps I m \<Longrightarrow> keeps (safe I) m"
proof (rule keepsI)
  fix w assume m: "tx_keeps I m" and "safe I w"
  then have w: "settled w" "I (conn w)" "I (durable w)" "transaction_depth w = 0"
    by (auto simp: safe_def settled_def)
  from tx_keepsD [OF m w(1-3)] w(4) show "safe I (snd (m w))"
    by (auto simp: wp_def tx_post_def safe_def settled_def split: prod.splits sum.splits)
qed

lemma wp_safe:
  assumes "keeps (safe I) m" and "safe I w"
  shows "wp m (\<lambda>_. safe I) (\<lambda>_. safe I) w"
  using assms by (simp add: keeps_iff_wp)

text \<open>A top-level transaction that fails restores the database; one that cannot fail commits.\<close>

lemma transaction_restores:
  assumes "tx_keeps (\<lambda>_. True) m" and "safe (\<lambda>_. True) w" and "wp m Q (\<lambda>_ _. True) (tx_enter w)"
    and "\<And>a w'. Q a w' \<Longrightarrow> Q' a (tx_commit w')"
  shows "wp (transaction m) (\<lambda>a w'. safe (\<lambda>_. True) w' \<and> Q' a w')
    (\<lambda>_ w'. safe (\<lambda>_. True) w' \<and> conn w' = conn w) w"
proof -
  have "wp m (\<lambda>a w'. (tx_post (\<lambda>_. True) (tx_enter w) w' \<and> True) \<and> Q a w')
      (\<lambda>e w'. tx_post (\<lambda>_. True) (tx_enter w) w' \<and> True) (tx_enter w)"
    by (intro wp_conj tx_keepsD [OF assms(1)] assms(3)) (simp_all add: settled_def)
  with assms(2) show ?thesis
    unfolding wp_transaction safe_def by (auto simp: tx_post_def assms(4) elim!: wp_mono)
qed

lemma transaction_commits:
  assumes "tx_keeps (\<lambda>_. True) m" and "safe (\<lambda>_. True) w"
    and "wp m (\<lambda>a w'. Q a (conn w')) (\<lambda>_ _. False) (tx_enter w)"
  shows "wp (transaction m) (\<lambda>a w'. safe (\<lambda>_. True) w' \<and> Q a (conn w')) (\<lambda>_ _. False) w"
proof -
  have "wp m (\<lambda>a w'. (tx_post (\<lambda>_. True) (tx_enter w) w' \<and> True) \<and> Q a (conn w'))
      (\<lambda>e w'. tx_post (\<lambda>_. True) (tx_enter w) w' \<and> False) (tx_enter w)"
    by (intro wp_conj tx_keepsD [OF assms(1)] assms(3)) (simp_all add: settled_def)
  with assms(2) show ?thesis
    unfolding wp_transaction safe_def by (auto simp: tx_post_def elim!: wp_mono)
qed

lemma bindM_raiseM: "bindM (raiseM e) f = raiseM e"
  by (simp add: bindM_def raiseM_def)

lemma bindM_returnM: "bindM (returnM a) f = f a"
  by (simp add: bindM_def returnM_def)

lemma keeps_finallyM [keeps_intros]:
  "keeps J m \<Longrightarrow> (\<And>w. J w \<Longrightarrow> J (g w)) \<Longrightarrow> keeps J (finallyM m g)"
  by (auto simp: keeps_def finallyM_def split: prod.splits)

lemma keeps_modifyM [keeps_intros]: "(\<And>w. J w \<Longrightarrow> J (f w)) \<Longrightarrow> keeps J (modifyM f)"
  by (simp add: keeps_def modifyM_def)

lemma safe_task_sets [simp]:
  "safe I (add_active k w) = safe I w" "safe I (discard_active k w) = safe I w"
  "safe I (add_scheduled k w) = safe I w" "safe I (forget_scheduled k w) = safe I w"
  by (simp_all add: safe_def add_active_def discard_active_def add_scheduled_def forget_scheduled_def)

text \<open>What the composition of the core relies on: its collaborators, too, leave such a
  state behind.\<close>

definition runner_keeps :: "(world \<Rightarrow> bool) \<Rightarrow> local_task_runner \<Rightarrow> bool" where
  "runner_keeps J r \<longleftrightarrow>
     (\<forall>ms th. keeps J (rn_run r ms th)) \<and>
     (\<forall>th a rs. keeps J (rn_resume r th a rs)) \<and>
     (\<forall>th ps md. keeps J (rn_resume_input r th ps md)) \<and>
     (\<forall>f th rs. rn_request_cancellation r = Some f \<longrightarrow> keeps J (f th rs)) \<and>
     (\<forall>f th. rn_discard_checkpoint r = Some f \<longrightarrow> keeps J (f th))"

definition client_keeps :: "(world \<Rightarrow> bool) \<Rightarrow> remote_agent_client \<Rightarrow> bool" where
  "client_keeps J c \<longleftrightarrow>
     (\<forall>g rq k m. keeps J (rc_send_message c g rq k m)) \<and>
     (\<forall>g k. keeps J (rc_get_task c g k)) \<and>
     (\<forall>g k rs. keeps J (rc_cancel_task c g k rs))"

definition env_keeps :: "(world \<Rightarrow> bool) \<Rightarrow> core_env \<Rightarrow> bool" where
  "env_keeps J env \<longleftrightarrow>
     (\<forall>ms. keeps J (ce_respond env ms)) \<and>
     (\<forall>rq c m ms. keeps J (ce_decide env rq c m ms)) \<and>
     (\<forall>r. ce_runner env = Some r \<longrightarrow> runner_keeps J r) \<and>
     (\<forall>f k. ce_submitter env = Some f \<longrightarrow> keeps J (f k)) \<and>
     (\<forall>c. ce_remote env = Some c \<longrightarrow> client_keeps J c)"

section \<open>The adapter\<close>

lemma dispatch_keeps:
  assumes "runner_keeps J (ad_runner ad)"
  shows "keeps J (dispatch ad claimed)"
  using assms
  by (auto simp: dispatch_def Let_def runner_keeps_def keeps_intros
      split: queued_task_execution_kind.splits queued_payload.splits)

locale lifecycle_authority =
  fixes J :: "world \<Rightarrow> bool" and cb :: lifecycle_callbacks
  assumes task_sets: "J w \<Longrightarrow> J (add_active k w)" "J w \<Longrightarrow> J (discard_active k w)"
      "J w \<Longrightarrow> J (add_scheduled k w)" "J w \<Longrightarrow> J (forget_scheduled k w)"
    and claim_keeps: "keeps J (cb_claim cb k)"
    and current_keeps: "keeps J (cb_current_task cb k)"
    and record_keeps: "keeps J (cb_record_outcome cb out)"
begin

lemma run_once_keeps:
  assumes "runner_keeps J (ad_runner ad)"
  shows "keeps J (run_once ad cb k)"
  unfolding run_once_def active_local_execution_def attempt_execution_def
  by (intro keeps_intros claim_keeps current_keeps record_keeps dispatch_keeps assms task_sets)

lemma run_scheduled_keeps:
  assumes "runner_keeps J (ad_runner ad)"
  shows "keeps J (run_scheduled ad cb k)"
  unfolding run_scheduled_def by (intro keeps_intros run_once_keeps assms task_sets)

lemma wake_keeps:
  assumes "runner_keeps J (ad_runner ad)" and "\<And>f. ad_submitter ad = Some f \<Longrightarrow> keeps J (f k)"
  shows "keeps J (wake ad cb k)"
proof (cases "ad_submitter ad")
  case None
  show ?thesis
    unfolding wake_def is_live_def None option.case
    by (intro keeps_intros run_scheduled_keeps assms(1) task_sets)
next
  case (Some f)
  show ?thesis
    unfolding wake_def is_live_def Some option.case
    by (intro keeps_intros task_sets assms(2) Some)
qed

end

section \<open>What the core relies on\<close>

lemma tx_case_ingress_state [tx_intros]:
  "tx_keeps I a \<Longrightarrow> tx_keeps I b \<Longrightarrow> tx_keeps I c \<Longrightarrow>
     tx_keeps I (case s of IN_PROGRESS \<Rightarrow> a | RESOLVED \<Rightarrow> b | INGRESS_FAILED \<Rightarrow> c)"
  by (simp split: message_ingress_state.split)

lemma tx_case_route_kind [tx_intros]:
  "tx_keeps I a \<Longrightarrow> tx_keeps I b \<Longrightarrow> tx_keeps I c \<Longrightarrow>
     tx_keeps I (case k of LOCAL_MESSAGE \<Rightarrow> a | LOCAL_TASK \<Rightarrow> b | REMOTE_AGENT \<Rightarrow> c)"
  by (simp split: route_decision_kind.split)

lemma keeps_case_route_kind [keeps_intros]:
  "keeps J a \<Longrightarrow> keeps J b \<Longrightarrow> keeps J c \<Longrightarrow>
     keeps J (case k of LOCAL_MESSAGE \<Rightarrow> a | LOCAL_TASK \<Rightarrow> b | REMOTE_AGENT \<Rightarrow> c)"
  by (simp split: route_decision_kind.split)

text \<open>The store operations the core calls besides those of the recorders.\<close>

locale core_store = recorder_store +
  assumes create_context_keeps: "tx_keeps I (create_context c title md)"
    and reserve_keeps: "tx_keeps I (reserve_message_ingress mid c fp)"
    and decision_keeps: "tx_keeps I (record_route_decision did c mid kind rs ta cf md)"
    and set_decision_keeps: "tx_keeps I (set_message_ingress_route_decision mid did)"
    and resolve_keeps: "tx_keeps I (resolve_message_ingress mid ok oid)"
    and fail_keeps: "tx_keeps I (fail_message_ingress mid ec em hs er)"
    and fail_all_keeps: "tx_keeps I (fail_in_progress_message_ingresses ec em hs er)"
    and accept_keeps: "tx_keeps I (accept_local_task_from_message did c mid kind rs ta cf md k th q ro att)"
    and consume_keeps: "tx_keeps I (consume_pending_continuation k pk)"
    and approval_keeps: "tx_keeps I (resolve_pending_tool_invocation_approval k req ap rs')"
    and enqueue_keeps: "tx_keeps I (enqueue_task_execution k qk th' pl v)"
    and claim_keeps: "tx_keeps I (claim_queued_task_execution k)"
    and delegation_keeps: "tx_keeps I (create_delegated_task dg c mid did ag rk st None rt rctx rm md)"
    and remote_task_keeps: "tx_keeps I (accept_remote_task c mid ag decision dg remote rtid)"
    and snapshot_keeps: "keeps (safe I) (record_remote_snapshot repr k snapshot)"
    and delete_agent_keeps: "tx_keeps I (delete_registered_agent ag)"
begin

lemmas core_ops = store_keeps create_context_keeps reserve_keeps decision_keeps set_decision_keeps
  resolve_keeps fail_keeps fail_all_keeps accept_keeps consume_keeps approval_keeps enqueue_keeps
  claim_keeps delegation_keeps remote_task_keeps delete_agent_keeps

lemmas reads = get_task_def get_message_def get_context_def get_message_ingress_def
  get_route_decision_def get_route_decision_by_message_id_def get_delegated_task_def
  get_delegated_task_by_local_task_id_def get_registered_agent_def get_pending_continuation_def
  get_queued_task_execution_def get_direct_task_retry_def list_context_messages_def check_page_def
  list_context_tasks_def list_local_tasks_by_statuses_def list_delegated_tasks_for_remote_agent_def
  has_potentially_side_effecting_tool_invocation_def

lemma context_reads_keep:
  "tx_keeps I (context_through_input c mid policy)" "tx_keeps I (local_task_context k)"
  "tx_keeps I (router_context_through_input c mid)"
  "tx_keeps I (direct_message_context_through_input c mid)"
  unfolding router_context_through_input_def direct_message_context_through_input_def
    context_through_input_def local_task_context_def reads
  by (intro tx_intros)+

lemma request_message_id_keeps: "tx_keeps I (request_message_id rq)"
  unfolding request_message_id_def by (intro tx_intros)

lemma claim_local_execution_keeps: "tx_keeps I (claim_local_execution k)"
  unfolding claim_local_execution_def get_route_decision_by_message_id_def
  by (intro tx_intros claim_keeps context_reads_keep)

lemma record_message_ingress_route_keeps: "tx_keeps I (record_message_ingress_route c mid rd)"
  unfolding record_message_ingress_route_def by (intro tx_intros core_ops)

lemma existing_ingress_keeps: "tx_keeps I (prepared_existing_message_ingress env rq fp ing)"
  unfolding prepared_existing_message_ingress_def result_from_message_ingress_def outcome_result_def
    delegation_result_def Let_def reads
  by (intro tx_intros)

lemma reserve_request_keeps: "tx_keeps I (reserve_request env rq mid)"
  unfolding reserve_request_def Let_def resolve_context_id_def get_message_def get_context_def
    get_message_ingress_def
  by (intro tx_intros core_ops existing_ingress_keeps)

lemma replies_keep:
  "tx_keeps I (append_local_reply c mid decision am parts)"
  "tx_keeps I (accept_remote_message c mid ag decision dg remote)"
  unfolding append_local_reply_def accept_remote_message_def by (intro tx_intros core_ops)+

lemma accept_routed_task_keeps: "tx_keeps I (accept_routed_task env c mid rd)"
  unfolding accept_routed_task_def by (intro tx_intros core_ops)

lemma validate_pending_continuation_keeps: "tx_keeps I (validate_pending_continuation k ek op)"
  unfolding validate_pending_continuation_def reads by (intro tx_intros)

lemma accept_pending_continuation_keeps: "tx_keeps I (accept_pending_continuation k ek rp op qk qp)"
  unfolding accept_pending_continuation_def
  by (intro tx_intros core_ops validate_pending_continuation_keeps)

lemma accept_task_input_keeps: "tx_keeps I (accept_task_input k rq qp)"
  unfolding accept_task_input_def
  by (intro tx_intros core_ops validate_pending_continuation_keeps accept_pending_continuation_keeps
      request_message_id_keeps)

lemma commit_cancellation_keeps: "tx_keeps I (commit_cancellation env k rs)"
  unfolding commit_cancellation_def cancel_idle_task_def is_task_active_def is_active_def get_task_def
  by (intro tx_intros core_ops)

lemma retryable_failed_local_task_keeps: "tx_keeps I (retryable_failed_local_task k)"
  unfolding retryable_failed_local_task_def reads by (intro tx_intros)

lemma accept_retry_keeps: "tx_keeps I (accept_retry env k m rm rk rt ra rmd)"
  unfolding accept_retry_def get_direct_task_retry_def
  by (intro tx_intros core_ops retryable_failed_local_task_keeps)

lemmas core_transactions = claim_local_execution_keeps record_message_ingress_route_keeps
  reserve_request_keeps replies_keep accept_routed_task_keeps accept_pending_continuation_keeps
  accept_task_input_keeps commit_cancellation_keeps accept_retry_keeps

lemma execute_lifecycle_keeps:
  assumes "tx_keeps I m" and "\<And>f a. post = Some f \<Longrightarrow> keeps (safe I) (f a)"
  shows "keeps (safe I) (execute_lifecycle m post)"
proof (cases post)
  case None
  show ?thesis unfolding execute_lifecycle_def None option.case
    by (intro keeps_intros keeps_of_tx tx_transaction assms(1))
next
  case (Some f)
  show ?thesis unfolding execute_lifecycle_def Some option.case
    by (intro keeps_intros keeps_of_tx tx_transaction assms(1) assms(2) [OF Some])
qed

lemma record_local_execution_outcome_keeps: "keeps (safe I) (record_local_execution_outcome out)"
  unfolding record_local_execution_outcome_def
  by (cases out)
     (simp_all, intro keeps_intros keeps_of_tx record_local_result_keeps recorders_keep,
      intro keeps_of_tx recorders_keep)

end

sublocale core_store \<subseteq> adapter: lifecycle_authority "safe I" core_callbacks
  by unfold_locales
     (simp_all add: core_callbacks_def get_task_def keeps_of_tx claim_local_execution_keeps tx_query
      record_local_execution_outcome_keeps)

section \<open>Every command keeps what the store keeps\<close>

context core_store
begin

lemma top_reads:
  "keeps (safe I) (get_task k)" "keeps (safe I) (get_message mid)" "keeps (safe I) (get_context c)"
  "keeps (safe I) (get_registered_agent ag)" "keeps (safe I) (get_delegated_task_by_local_task_id k)"
  "keeps (safe I) (get_direct_task_retry k)" "keeps (safe I) (list_context_tasks c None 0)"
  "keeps (safe I) (list_local_tasks_by_statuses ss)"
  "keeps (safe I) (list_delegated_tasks_for_remote_agent ag)" "keeps (safe I) (get_queued_task_execution k)"
  "keeps (safe I) (is_active k)" "keeps (safe I) (is_live k)" "keeps (safe I) (new_id p)"
  "keeps (safe I) (request_message_id rq)" "keeps (safe I) (retryable_failed_local_task k)"
  unfolding reads is_active_def is_live_def
  by (intro keeps_of_tx tx_intros request_message_id_keeps retryable_failed_local_task_keeps)+

lemmas top_steps = top_reads snapshot_keeps core_transactions [THEN keeps_of_tx] core_ops [THEN keeps_of_tx]
  context_reads_keep [THEN keeps_of_tx] recorders_keep [THEN keeps_of_tx]
  record_cancellation_keeps [THEN keeps_of_tx] record_local_result_keeps [THEN keeps_of_tx]

lemma adapter_keeps:
  assumes "env_keeps (safe I) env" and "local_execution env = Some ad"
  shows "keeps (safe I) (wake ad core_callbacks k)" "keeps (safe I) (run_scheduled ad core_callbacks k)"
    "keeps (safe I) (request_cancellation ad th rs)" "keeps (safe I) (discard_checkpoint ad th)"
proof -
  obtain r where r: "ce_runner env = Some r" "ad = \<lparr>ad_runner = r, ad_submitter = ce_submitter env\<rparr>"
    using assms(2) by (auto simp: local_execution_def split: option.splits)
  then have ad: "runner_keeps (safe I) (ad_runner ad)"
    "\<And>f k. ad_submitter ad = Some f \<Longrightarrow> keeps (safe I) (f k)"
    using assms(1) by (auto simp: env_keeps_def)
  show "keeps (safe I) (wake ad core_callbacks k)" "keeps (safe I) (run_scheduled ad core_callbacks k)"
    using ad by (auto intro: adapter.wake_keeps adapter.run_scheduled_keeps)
  show "keeps (safe I) (request_cancellation ad th rs)" "keeps (safe I) (discard_checkpoint ad th)"
    using ad(1) by (auto simp: request_cancellation_def discard_checkpoint_def runner_keeps_def
        intro!: keeps_intros split: option.split)
qed

lemma start_committed_local_task_keeps:
  assumes "env_keeps (safe I) env"
  shows "keeps (safe I) (start_committed_local_task env task)"
proof (cases "local_execution env")
  case None
  show ?thesis unfolding start_committed_local_task_def None option.case by (intro keeps_intros)
next
  case (Some ad)
  show ?thesis unfolding start_committed_local_task_def Some option.case
    by (intro keeps_intros adapter_keeps [OF assms Some] top_steps)
qed

lemma checkpoint_and_signal_keep:
  assumes "env_keeps (safe I) env"
  shows "keeps (safe I) (discard_terminal_task_checkpoint env task)"
    "keeps (safe I) (signal_committed_cancellation env rs committed)"
  using adapter_keeps(3,4) [OF assms]
  by (auto simp: discard_terminal_task_checkpoint_def signal_committed_cancellation_def
      intro!: keeps_intros split: option.split)

lemma or_fail_ingress_keeps: "keeps (safe I) m \<Longrightarrow> keeps (safe I) (or_fail_ingress mid m)"
  unfolding or_fail_ingress_def record_message_ingress_failure_def Let_def
  by (intro keeps_intros top_steps)

lemma usable_agent_keeps: "keeps (safe I) (usable_agent env ag)"
  unfolding usable_agent_def by (intro keeps_intros top_reads)

lemma prepare_message_route_keeps:
  assumes "env_keeps (safe I) env"
  shows "keeps (safe I) (prepare_message_route env rq)"
proof -
  have "keeps (safe I) (ce_decide env rq c m ms)" for rq c m ms using assms by (simp add: env_keeps_def)
  then show ?thesis
    unfolding prepare_message_route_def validate_explicit_route_metadata_def Let_def
    by (intro keeps_intros top_steps or_fail_ingress_keeps usable_agent_keeps)
qed

lemma handle_local_message_keeps:
  assumes "env_keeps (safe I) env"
  shows "keeps (safe I) (handle_local_message env c mid rd)"
proof -
  have "keeps (safe I) (ce_respond env ms)" for ms using assms by (simp add: env_keeps_def)
  then show ?thesis unfolding handle_local_message_def by (intro keeps_intros top_steps)
qed

lemma execute_and_start_keeps:
  assumes "env_keeps (safe I) env" and "tx_keeps I m"
  shows "keeps (safe I) (execute_lifecycle m
    (Some (\<lambda>a. bindM (start_committed_local_task env (f a)) (\<lambda>x. returnM (Some x)))))"
  by (rule execute_lifecycle_keeps [OF assms(2)])
     (auto intro!: keeps_intros start_committed_local_task_keeps assms(1))

lemma handle_local_task_keeps:
  assumes "env_keeps (safe I) env"
  shows "keeps (safe I) (handle_local_task env c mid rd)"
  unfolding handle_local_task_def Let_def
  by (intro keeps_intros execute_and_start_keeps assms accept_routed_task_keeps)

lemma handle_remote_agent_keeps:
  assumes "env_keeps (safe I) env"
  shows "keeps (safe I) (handle_remote_agent env c mid rq rd)"
proof (cases "ce_remote env")
  case None
  show ?thesis unfolding handle_remote_agent_def None option.case bindM_raiseM
    by (intro keeps_intros usable_agent_keeps)
next
  case (Some client)
  then have send: "keeps (safe I) (rc_send_message client g rq c mid)" for g rq c mid
    using assms by (simp add: env_keeps_def client_keeps_def)
  show ?thesis unfolding handle_remote_agent_def Some option.case bindM_returnM accept_remote_result_def
    by (intro keeps_intros usable_agent_keeps execute_lifecycle_keeps core_transactions top_steps)
       (auto intro: send)
qed

lemma admit_message_keeps:
  assumes "env_keeps (safe I) env"
  shows "keeps (safe I) (admit_message env rq)"
  unfolding admit_message_def dispatch_message_def
  by (intro keeps_intros prepare_message_route_keeps or_fail_ingress_keeps handle_local_message_keeps
      handle_local_task_keeps handle_remote_agent_keeps assms)

lemma commit_and_wake_keeps:
  assumes "env_keeps (safe I) env" and "tx_keeps I m"
  shows "keeps (safe I) (commit_and_wake env m msg)"
  unfolding commit_and_wake_def by (intro keeps_intros execute_and_start_keeps assms)

lemma continuations_keep:
  assumes "env_keeps (safe I) env"
  shows "keeps (safe I) (resolve_approval env k ap rs)" "keeps (safe I) (submit_task_input env k rq)"
  unfolding resolve_approval_def submit_task_input_def
  by (intro keeps_intros top_reads commit_and_wake_keeps core_transactions assms)+

lemma remote_proxies_keep:
  assumes "env_keeps (safe I) env"
  shows "keeps (safe I) (cancel_remote_proxy_task env k rs)" "keeps (safe I) (sync_remote_proxy_task env k)"
proof -
  have client: "keeps (safe I) (rc_cancel_task client g rk rs)" "keeps (safe I) (rc_get_task client g rk)"
    if "ce_remote env = Some client" for client g rk
    using assms that by (simp_all add: env_keeps_def client_keeps_def)
  show "keeps (safe I) (cancel_remote_proxy_task env k rs)"
  proof (cases "ce_remote env")
    case None
    show ?thesis unfolding cancel_remote_proxy_task_def None option.case bindM_raiseM
      by (intro keeps_intros top_steps)
  next
    case (Some c)
    show ?thesis unfolding cancel_remote_proxy_task_def record_remote_task_snapshot_def Some option.case bindM_returnM
      by (intro keeps_intros top_steps client Some)
  qed
  show "keeps (safe I) (sync_remote_proxy_task env k)"
  proof (cases "ce_remote env")
    case None
    show ?thesis unfolding sync_remote_proxy_task_def None prod.case option.case
      by (intro keeps_intros top_steps)
  next
    case (Some c)
    show ?thesis unfolding sync_remote_proxy_task_def record_remote_task_snapshot_def Some prod.case option.case
      by (intro keeps_intros top_steps client Some)
  qed
qed

lemma cancel_task_keeps:
  assumes "env_keeps (safe I) env"
  shows "keeps (safe I) (cancel_task env k rs)"
proof -
  have "keeps (safe I) (execute_lifecycle (commit_cancellation env k rs)
     (Some (\<lambda>committed. bindM (signal_committed_cancellation env rs committed)
            (\<lambda>_. returnM (None :: unit option)))))"
    by (rule execute_lifecycle_keeps [OF commit_cancellation_keeps])
       (auto intro!: keeps_intros checkpoint_and_signal_keep assms)
  then show ?thesis
    unfolding cancel_task_def by (intro keeps_intros top_reads remote_proxies_keep assms)
qed

lemma retry_failed_task_keeps:
  assumes "env_keeps (safe I) env"
  shows "keeps (safe I) (retry_failed_task env k)"
proof -
  have "keeps (safe I) (execute_lifecycle (accept_retry env k m rm rk rt ra rmd) (Some (\<lambda>accepted.
          bindM (if ar_should_start accepted then start_committed_local_task env (ar_task accepted)
                 else returnM (ar_task accepted)) (\<lambda>x. returnM (Some x)))))" for m rm rk rt ra rmd
    by (rule execute_lifecycle_keeps [OF accept_retry_keeps])
       (auto intro!: keeps_intros start_committed_local_task_keeps assms)
  then show ?thesis
    unfolding retry_failed_task_def commit_retry_def Let_def by (intro keeps_intros top_reads)
qed

lemma fail_recovery_keeps: "keeps (safe I) (fail_recovery k ec em)"
  unfolding fail_recovery_def by (intro keeps_intros top_steps)

lemma recover_queued_task_keeps:
  assumes "env_keeps (safe I) env"
  shows "keeps (safe I) (recover_queued_task env task)"
proof (cases "local_execution env")
  case None
  show ?thesis unfolding recover_queued_task_def read_command_def None option.case
    by (intro keeps_intros top_reads fail_recovery_keeps)
next
  case (Some ad)
  show ?thesis unfolding recover_queued_task_def read_command_def Some option.case
    by (intro keeps_intros top_reads fail_recovery_keeps adapter_keeps [OF assms Some])
qed

lemma reconcile_startup_keeps:
  assumes "env_keeps (safe I) env"
  shows "keeps (safe I) (reconcile_startup env)"
  unfolding reconcile_startup_def Let_def
  by (intro keeps_intros top_steps fail_recovery_keeps recover_queued_task_keeps assms)

lemma delete_unused_agent_keeps: "keeps (safe I) (delete_unused_agent ag)"
  unfolding delete_unused_agent_def by (intro keeps_intros top_steps)

lemma execute_command_keeps:
  assumes "env_keeps (safe I) env"
  shows "keeps (safe I) (execute_command env cmd)"
  by (cases cmd; simp only: execute_command.simps task_outcome_def record_remote_task_snapshot_def)
     (intro keeps_intros admit_message_keeps cancel_task_keeps continuations_keep retry_failed_task_keeps
       reconcile_startup_keeps top_steps assms)+

lemma get_refreshed_task_keeps:
  assumes "env_keeps (safe I) env"
  shows "keeps (safe I) (get_refreshed_task env k b)"
  unfolding get_refreshed_task_def by (intro keeps_intros top_reads remote_proxies_keep assms)

end
end
