(* ===== verification/Task_Invariants.thy ===== *)
theory Task_Invariants
  imports Core_Invariants
begin

text \<open>
  The Tasks under every command of the core: the lifecycle history of each Task
  (\<open>task_inv\<close>), the ownership of the proxies of remote Tasks (\<open>proxy_inv\<close>) and the
  final status of a local Task that has ended (\<open>ended\<close>), shown together because a
  remote snapshot moves a Task only when it is a proxy.  The contract \<open>core_store\<close>
  is interpreted on their conjunction.
\<close>

section \<open>Proxies\<close>

text \<open>A delegation names as its local Task only a Task owned by a child agent.\<close>

definition proxy_inv :: "tables \<Rightarrow> bool" where
  "proxy_inv t \<longleftrightarrow> (\<forall>d \<in> set (tb_delegated_tasks t). \<forall>k. d_local_task_id d = Some k \<longrightarrow>
     (\<exists>x. fetch t_task_id k (tb_tasks t) = Some x \<and> t_assigned_agent_id x \<noteq> None))"

lemma proxy_inv_frame:
  "tb_tasks t' = tb_tasks t \<Longrightarrow> tb_delegated_tasks t' = tb_delegated_tasks t \<Longrightarrow> proxy_inv t' = proxy_inv t"
  by (simp add: proxy_inv_def)

lemma proxy_inv_set_task:
  assumes "proxy_inv t" and "\<And>x. t_task_id (f x) = t_task_id x"
    and "\<And>x. t_assigned_agent_id (f x) = t_assigned_agent_id x"
  shows "proxy_inv (set_task k f t)"
  using assms(1) unfolding proxy_inv_def
  by (auto simp: tb_tasks_set_task table_simps assms(2,3)) (metis assms(3) option.simps(9))

lemma row_agent [simp]:
  "t_assigned_agent_id (status_row s ec em er now x) = t_assigned_agent_id x"
  "t_assigned_agent_id (touch_row now x) = t_assigned_agent_id x"
  "t_assigned_agent_id (output_row m now x) = t_assigned_agent_id x"
  by (simp_all add: status_row_def touch_row_def output_row_def)

lemma proxy_inv_rows [simp]:
  "proxy_inv t \<Longrightarrow> proxy_inv (set_task k (status_row s ec em er now) t)"
  "proxy_inv t \<Longrightarrow> proxy_inv (set_task k (touch_row now) t)"
  "proxy_inv t \<Longrightarrow> proxy_inv (set_task k (output_row m now) t)"
  by (intro proxy_inv_set_task; simp)+

lemma proxy_inv_other_tables [simp]:
  "proxy_inv (t\<lparr>tb_contexts := a\<rparr>) = proxy_inv t" "proxy_inv (t\<lparr>tb_messages := b\<rparr>) = proxy_inv t"
  "proxy_inv (t\<lparr>tb_route_decisions := c\<rparr>) = proxy_inv t" "proxy_inv (t\<lparr>tb_artifacts := d\<rparr>) = proxy_inv t"
  "proxy_inv (t\<lparr>tb_registered_agents := e\<rparr>) = proxy_inv t"
  "proxy_inv (t\<lparr>tb_pending_continuations := g\<rparr>) = proxy_inv t"
  "proxy_inv (t\<lparr>tb_message_ingress := h\<rparr>) = proxy_inv t"
  "proxy_inv (t\<lparr>tb_queued_executions := i\<rparr>) = proxy_inv t"
  "proxy_inv (t\<lparr>tb_tool_invocations := j\<rparr>) = proxy_inv t"
  "proxy_inv (t\<lparr>tb_task_events := es, tb_event_seq := n\<rparr>) = proxy_inv t"
  by (rule proxy_inv_frame; simp)+

lemma proxy_inv_new_task [simp]: "proxy_inv t \<Longrightarrow> proxy_inv (t\<lparr>tb_tasks := tb_tasks t @ [x]\<rparr>)"
  by (fastforce simp: proxy_inv_def)

lemma proxy_inv_statements:
  "stmt_keeps proxy_inv (delete_queued k)" "stmt_keeps proxy_inv (delete_pending P)"
  "stmt_keeps proxy_inv (insert_queued_execution_row q)" "stmt_keeps proxy_inv (upsert_pending_row p)"
  "stmt_keeps proxy_inv (upsert_artifact_row a)" "stmt_keeps proxy_inv (insert_route_decision_row rd)"
  "stmt_keeps proxy_inv (update_in_progress mid refs f)" "stmt_keeps proxy_inv (insert_ingress_or_ignore ir)"
  "stmt_keeps proxy_inv (insert_task_event_row er)" "stmt_keeps proxy_inv (insert_message_row mr)"
  "stmt_keeps proxy_inv (bump_message_sequence cid now)" "stmt_keeps proxy_inv (insert_task_row x)"
  "stmt_keeps proxy_inv (update_task_output k m now)" "stmt_keeps proxy_inv (insert_context_row c)"
  "stmt_keeps proxy_inv (delete_agent_row ag)" "stmt_keeps proxy_inv (set_invocations V g)"
  by (auto simp: stmt_keeps_def delete_queued_def delete_pending_def
      insert_queued_execution_row_def upsert_pending_row_def upsert_artifact_row_def guarded_Inr
      insert_route_decision_row_def update_in_progress_def Let_def insert_ingress_or_ignore_def
      insert_task_event_row_def insert_message_row_def bump_message_sequence_def insert_task_row_def
      update_task_output_def insert_context_row_def delete_agent_row_def set_invocations_def
      split: if_splits)


lemmas op_reads = get_task_def get_message_def get_context_def get_message_ingress_def
  get_route_decision_def get_task_event_def get_artifact_def get_pending_continuation_def
  get_queued_task_execution_def get_registered_agent_def get_delegated_task_def
  get_delegated_task_by_local_task_id_def get_tool_invocation_def

lemma proxy_inv_events:
  "tx_keeps proxy_inv (append_task_event k ty st pl)"
  "tx_keeps proxy_inv (append_message mid c role parts ko md)"
  "tx_keeps proxy_inv (upsert_artifact aid k c parts md)"
  "tx_keeps proxy_inv (set_task_output_message k mid)"
  "tx_keeps proxy_inv (record_route_decision did c mid kind rs ta cf md)"
  "tx_keeps proxy_inv (set_message_ingress_route_decision mid did)"
  "tx_keeps proxy_inv (resolve_message_ingress mid ok oid)"
  unfolding append_task_event_def append_message_def append_new_message_def upsert_artifact_def
    set_task_output_message_def record_route_decision_def set_message_ingress_route_decision_def
    resolve_message_ingress_def op_reads
  by (intro tx_intros proxy_inv_statements; simp)+

lemma proxy_inv_transition: "tx_keeps proxy_inv (transition_local_task k s pl ec em er)"
  unfolding transition_local_task_def op_reads by (intro tx_intros proxy_inv_events; simp)

lemma proxy_inv_queue:
  "tx_keeps proxy_inv (set_pending_continuation k pk req)"
  "tx_keeps proxy_inv (clear_pending_continuation k)"
  "tx_keeps proxy_inv (consume_pending_continuation k pk)"
  "tx_keeps proxy_inv (clear_queued_task_execution k)"
  "tx_keeps proxy_inv (enqueue_task_execution k qk th pl v)"
  "tx_keeps proxy_inv (claim_queued_task_execution k)"
  "tx_keeps proxy_inv (mark_running_tool_invocations_uncertain k c' m' er)"
  "tx_keeps proxy_inv (cancel_prepared_tool_invocations k m')"
  "tx_keeps proxy_inv (create_task k c m th s ag ro att md ml mcp)"
  unfolding set_pending_continuation_def clear_pending_continuation_def consume_pending_continuation_def
    clear_queued_task_execution_def enqueue_task_execution_def check_enqueue_def
    claim_queued_task_execution_def mark_running_tool_invocations_uncertain_def
    cancel_prepared_tool_invocations_def create_task_def insert_new_task_def Let_def op_reads
  by (intro tx_intros proxy_inv_statements proxy_inv_transition)+

lemma proxy_inv_core:
  "tx_keeps proxy_inv (create_context c title md)"
  "tx_keeps proxy_inv (reserve_message_ingress mid c fp)"
  "tx_keeps proxy_inv (fail_message_ingress mid ec em hs er)"
  "tx_keeps proxy_inv (fail_in_progress_message_ingresses ec em hs er)"
  "tx_keeps proxy_inv (accept_local_task_from_message did c mid kind rs ta cf md k th q ro att)"
  "tx_keeps proxy_inv (resolve_pending_tool_invocation_approval k req ap rs')"
  "tx_keeps proxy_inv (delete_registered_agent ag)"
  unfolding create_context_def reserve_message_ingress_def fail_message_ingress_def
    fail_in_progress_message_ingresses_def fail_one_in_progress_def accept_local_task_from_message_def
    create_local_task_def resolve_pending_tool_invocation_approval_def resolve_tool_invocation_approval_def
    delete_registered_agent_def Let_def get_context_def get_message_def get_message_ingress_def
    get_tool_invocation_def
  by (intro tx_intros proxy_inv_statements proxy_inv_transition proxy_inv_events proxy_inv_queue)+

lemma create_delegated_task_message:
  "tx_keeps proxy_inv (create_delegated_task dg c mid did ag rk st None rt rctx rm md)"
proof -
  have "stmt_keeps proxy_inv (insert_delegated_task_row d)" if "d_local_task_id d = None" for d
    using that by (auto simp: stmt_keeps_def insert_delegated_task_row_def guarded_Inr proxy_inv_def)
  then show ?thesis
    unfolding create_delegated_task_def insert_delegation_def op_reads by (intro tx_intros) simp
qed

lemma tx_keeps_conj:
  assumes "tx_keeps I m" and "tx_keeps J m"
  shows "tx_keeps (\<lambda>t. I t \<and> J t) m"
proof (rule tx_keepsI)
  fix w assume w: "settled w" "I (conn w) \<and> J (conn w)" "I (durable w) \<and> J (durable w)"
  show "wp m (\<lambda>a w'. tx_post (\<lambda>t. I t \<and> J t) w w' \<and> I (conn w') \<and> J (conn w'))
     (\<lambda>e w'. tx_post (\<lambda>t. I t \<and> J t) w w') w"
    by (rule wp_mono [OF wp_conj [OF tx_keepsD [OF assms(1)] tx_keepsD [OF assms(2)]]])
       (use w in \<open>auto simp: tx_post_def\<close>)
qed


section \<open>Tasks of both kinds\<close>

text \<open>The lifecycle history of all Tasks, the ownership of the proxies and, for a
  terminal status \<open>s\<close>, that the local Task \<open>j\<close> has ended with \<open>s\<close>.\<close>

definition tasks_ok :: "string \<Rightarrow> task_status \<Rightarrow> tables \<Rightarrow> bool" where
  "tasks_ok j s t \<longleftrightarrow> task_inv t \<and> proxy_inv t \<and> ended j s t"

lemma tasks_ok_frame:
  assumes "tb_tasks t' = tb_tasks t" "tb_task_events t' = tb_task_events t"
    "tb_event_seq t' = tb_event_seq t" "tb_delegated_tasks t' = tb_delegated_tasks t"
  shows "tasks_ok j s t' = tasks_ok j s t"
  using assms(1)
  by (simp add: tasks_ok_def task_inv_frame [OF assms(1-3)] proxy_inv_frame [OF assms(1,4)] ended_def
      local_status_def)

lemma tasks_ok_keeps:
  assumes "tx_keeps task_inv m" and "tx_keeps proxy_inv m" and "tx_keeps (ended j s) m"
  shows "tx_keeps (tasks_ok j s) m"
proof -
  have "tasks_ok j s = (\<lambda>t. task_inv t \<and> proxy_inv t \<and> ended j s t)"
    by (simp add: tasks_ok_def fun_eq_iff)
  with assms show ?thesis by (simp add: tx_keeps_conj)
qed

lemma tasks_ok_new_delegation:
  assumes "tasks_ok j s t"
    and "\<And>k. d_local_task_id d = Some k \<Longrightarrow>
           \<exists>x. fetch t_task_id k (tb_tasks t) = Some x \<and> t_assigned_agent_id x \<noteq> None"
  shows "tasks_ok j s (t\<lparr>tb_delegated_tasks := tb_delegated_tasks t @ [d]\<rparr>)"
  using assms by (auto simp: tasks_ok_def proxy_inv_def ended_def local_status_def)

lemma create_delegated_proxy:
  assumes "tx_post (tasks_ok j s) w w2" "tasks_ok j s (conn w2)" "0 < transaction_depth w"
    and "fetch t_task_id k (tb_tasks (conn w2)) = Some x" "t_assigned_agent_id x \<noteq> None"
  shows "wp (create_delegated_task dg c mid did ag rk st (Some k) rt rctx rm md)
    (\<lambda>_ w3. tx_post (tasks_ok j s) w w3 \<and> tasks_ok j s (conn w3)) (\<lambda>_ w3. tx_post (tasks_ok j s) w w3) w2"
  using assms
  by (simp add: create_delegated_task_def insert_delegation_def wp_rules op_reads
      insert_delegated_task_row_def guarded_def table_simps split: option.split sum.split)
     (auto intro!: tasks_ok_new_delegation)

lemma create_task_rule:
  assumes "\<And>x. \<not> has_task (conn w) k \<Longrightarrow> t_task_id x = k \<Longrightarrow> t_status x = st \<Longrightarrow>
      t_assigned_agent_id x = ag \<Longrightarrow> t_lifecycle_revision x = 1 \<Longrightarrow>
      Q x ((write_conn ((conn w)\<lparr>tb_tasks := tb_tasks (conn w) @ [x]\<rparr>) w)\<lparr>clock_reads := Suc (clock_reads w)\<rparr>)"
    and "\<And>e. E e w" "\<And>e. E e (w\<lparr>clock_reads := Suc (clock_reads w)\<rparr>)"
  shows "wp (create_task k c mid th st ag ro att md ml mcp) Q E w"
proof (cases "fetch m_message_id mid (tb_messages (conn w))")
  case None
  then show ?thesis by (simp add: create_task_def wp_rules get_message_def assms(2))
next
  case (Some m)
  have new: "fetch t_task_id k (tb_tasks (conn w) @ [x]) = Some x"
    if "\<not> has_task (conn w) k" "t_task_id x = k" for x :: task_record
    using that by (simp add: has_task_def table_simps)
  show ?thesis
  proof (cases "m_context_id m \<noteq> c \<or> m_context_sequence m \<le> 0")
    case True
    with Some show ?thesis by (auto simp: create_task_def wp_rules get_message_def assms(2))
  next
    case False
    with Some show ?thesis
      by (auto simp: create_task_def insert_new_task_def wp_rules get_task_def get_message_def
          insert_task_row_def guarded_def assms(2,3) new split: sum.split)
         (rule assms(1); simp)+
  qed
qed

lemma create_proxy_task:
  assumes "tx_post (tasks_ok j s) w w1" "tasks_ok j s (conn w1)" "0 < transaction_depth w"
  shows "wp (create_task k c mid th st (Some ag) ro att md ml mcp)
    (\<lambda>x. wp (append_task_event (t_task_id x) ty (Some (t_status x)) pl)
       (\<lambda>_ w3. tx_post (tasks_ok j s) w w3 \<and> tasks_ok j s (conn w3) \<and>
          fetch t_task_id (t_task_id x) (tb_tasks (conn w3)) = Some x \<and> t_assigned_agent_id x = Some ag)
       (\<lambda>_ w3. tx_post (tasks_ok j s) w w3))
    (\<lambda>_ w3. tx_post (tasks_ok j s) w w3) w1"
proof (rule create_task_rule)
  fix x :: task_record
  assume x: "\<not> has_task (conn w1) k" "t_task_id x = k" "t_assigned_agent_id x = Some ag"
    "t_lifecycle_revision x = 1"
  let ?t = "(conn w1)\<lparr>tb_tasks := tb_tasks (conn w1) @ [x]\<rparr>"
  have log: "event_log_ok ?t"
    using assms(2) by (auto simp: tasks_ok_def task_inv_def event_log_ok_def has_task_def)
  have fx: "fetch t_task_id k (tb_tasks ?t) = Some x"
    using x by (simp add: has_task_def table_simps)
  have ok: "tasks_ok j s (add_event e ?t)"
    if "e_task_id e = k" "e_status e = Some (t_status x)" "e_lifecycle_revision e = 1" for e
  proof -
    have "task_inv (add_event e ?t)"
      using assms(2) that x by (intro task_inv_create) (auto simp: tasks_ok_def)
    moreover have "proxy_inv (add_event e ?t)" using assms(2) by (simp add: tasks_ok_def add_event_def)
    moreover have "ended j s (add_event e ?t)" using assms(2) by (auto simp: tasks_ok_def ended_def local_status_def)
    ultimately show ?thesis by (simp add: tasks_ok_def)
  qed
  show "wp (append_task_event (t_task_id x) ty (Some (t_status x)) pl)
       (\<lambda>_ w3. tx_post (tasks_ok j s) w w3 \<and> tasks_ok j s (conn w3) \<and>
          fetch t_task_id (t_task_id x) (tb_tasks (conn w3)) = Some x \<and> t_assigned_agent_id x = Some ag)
       (\<lambda>_ w3. tx_post (tasks_ok j s) w w3)
       ((write_conn ?t w1)\<lparr>clock_reads := Suc (clock_reads w1)\<rparr>)"
    using assms(1,3) x(2-4) fx log
    by (subst wp_append_task_event) (auto simp: Let_def ok split: sum.split)
qed (use assms in simp_all)

lemma accept_remote_task_ok:
  assumes "tx_keeps (tasks_ok j s) (resolve_message_ingress mid DELEGATION_OUTCOME dg)"
  shows "tx_keeps (tasks_ok j s) (accept_remote_task c mid ag decision dg remote rtid)"
  unfolding accept_remote_task_def
proof (rule tx_transaction_wp, goal_cases)
  case (1 w)
  let ?I = "tasks_ok j s"
  have resolve: "wp (resolve_message_ingress mid DELEGATION_OUTCOME dg)
      (\<lambda>_ w'. tx_post ?I w w' \<and> ?I (conn w')) (\<lambda>_ w'. tx_post ?I w w') w3"
    if "tx_post ?I w w3" "?I (conn w3)" for w3
    using that by (intro wp_mono [OF tx_keepsD [OF assms]]) (auto simp: tx_post_def)
  have rest: "wp (create_delegated_task dg c mid did ag ''task'' st (Some (t_task_id x)) rt rctx None [])
      (\<lambda>_. wp (resolve_message_ingress mid DELEGATION_OUTCOME dg)
         (\<lambda>_ w'. tx_post ?I w w' \<and> ?I (conn w')) (\<lambda>_ w'. tx_post ?I w w'))
      (\<lambda>_ w'. tx_post ?I w w') w2"
    if "tx_post ?I w w2 \<and> ?I (conn w2) \<and> fetch t_task_id (t_task_id x) (tb_tasks (conn w2)) = Some x \<and>
      t_assigned_agent_id x = Some ag" for x w2 did st rt rctx
    by (rule wp_mono [OF create_delegated_proxy [of j s w w2 "t_task_id x" x]])
       (use that 1(4) resolve in auto)
  show ?case
    unfolding wp_bindM wp_new_id wp_returnM
    by (rule wp_mono [OF create_proxy_task [of j s w]])
       (use 1 in \<open>auto simp: tx_post_refl elim!: wp_mono intro!: rest\<close>)
qed

section \<open>Remote snapshots\<close>

text \<open>The Task \<open>k\<close> is a proxy with status \<open>s\<close>.\<close>

definition proxy_at :: "string \<Rightarrow> task_status \<Rightarrow> tables \<Rightarrow> bool" where
  "proxy_at k s t \<longleftrightarrow> (\<exists>x. fetch t_task_id k (tb_tasks t) = Some x \<and> t_status x = s \<and> t_assigned_agent_id x \<noteq> None)"

lemma proxy_at_frame: "tb_tasks t' = tb_tasks t \<Longrightarrow> proxy_at k s t' = proxy_at k s t"
  by (simp add: proxy_at_def)

lemma proxy_at_rows [simp]:
  "proxy_at k s t \<Longrightarrow> proxy_at k s (set_task i (touch_row now) t)"
  "proxy_at k s t \<Longrightarrow> proxy_at k s (set_task i (output_row m now) t)"
  by (auto simp: proxy_at_def tb_tasks_set_task table_simps touch_row_def output_row_def)

lemma proxy_at_other_tables [simp]:
  "proxy_at k s (t\<lparr>tb_contexts := a\<rparr>) = proxy_at k s t" "proxy_at k s (t\<lparr>tb_messages := b\<rparr>) = proxy_at k s t"
  "proxy_at k s (t\<lparr>tb_artifacts := d\<rparr>) = proxy_at k s t"
  "proxy_at k s (t\<lparr>tb_delegated_tasks := e\<rparr>) = proxy_at k s t"
  "proxy_at k s (t\<lparr>tb_task_events := es, tb_event_seq := n\<rparr>) = proxy_at k s t"
  by (rule proxy_at_frame; simp)+

lemma proxy_at_statements:
  "stmt_keeps (proxy_at k s) (upsert_artifact_row a)" "stmt_keeps (proxy_at k s) (insert_task_event_row er)"
  "stmt_keeps (proxy_at k s) (insert_message_row mr)" "stmt_keeps (proxy_at k s) (bump_message_sequence cid now)"
  "stmt_keeps (proxy_at k s) (update_task_output i m now)"
  by (auto simp: stmt_keeps_def upsert_artifact_row_def guarded_Inr insert_task_event_row_def Let_def
      insert_message_row_def bump_message_sequence_def update_task_output_def split: if_splits)

lemma proxy_at_ops:
  "tx_keeps (proxy_at k s) (append_task_event i ty None pl)"
  "tx_keeps (proxy_at k s) (append_message mid c role parts ko md)"
  "tx_keeps (proxy_at k s) (upsert_artifact aid i c parts md)"
  "tx_keeps (proxy_at k s) (set_task_output_message i mid)"
  "tx_keeps (proxy_at k s) (update_delegated_task_status dg st mdo)"
  unfolding append_task_event_def append_message_def append_new_message_def upsert_artifact_def
    set_task_output_message_def update_delegated_task_status_def op_reads
  by (intro tx_intros proxy_at_statements; simp)+

lemma tasks_ok_frame_ops:
  "tx_keeps (tasks_ok j s) (append_task_event i ty None pl)"
  "tx_keeps (tasks_ok j s) (append_message mid c role parts ko md)"
  "tx_keeps (tasks_ok j s) (upsert_artifact aid i c parts md)"
  "tx_keeps (tasks_ok j s) (set_task_output_message i mid)"
  by (intro tasks_ok_keeps proxy_inv_events history_of_recorders.store_keeps ended_under_recorders.store_keeps)+

lemma tasks_ok_delegation_status: "tx_keeps (tasks_ok j s) (update_delegated_task_status dg st mdo)"
proof -
  have "tasks_ok j s (t\<lparr>tb_delegated_tasks := set_where (\<lambda>d. d_delegation_id d = dg)
      (\<lambda>d. d\<lparr>d_status := st, d_metadata := meta, d_updated_at := now\<rparr>) (tb_delegated_tasks t)\<rparr>)"
    if "tasks_ok j s t" for t meta now
    using that by (auto simp: tasks_ok_def proxy_inv_def ball_set_where ended_def local_status_def)
  then show ?thesis
    unfolding update_delegated_task_status_def op_reads by (intro tx_intros; simp)
qed

definition proxy_ok :: "string \<Rightarrow> task_status \<Rightarrow> string \<Rightarrow> task_status \<Rightarrow> tables \<Rightarrow> bool" where
  "proxy_ok j s k s0 t \<longleftrightarrow> tasks_ok j s t \<and> proxy_at k s0 t"

lemma proxy_ok_keeps:
  "tx_keeps (tasks_ok j s) m \<Longrightarrow> tx_keeps (proxy_at k s0) m \<Longrightarrow> tx_keeps (proxy_ok j s k s0) m"
  using tx_keeps_conj [of "tasks_ok j s" m "proxy_at k s0"] by (simp add: proxy_ok_def [abs_def])

lemma materialize_keeps: "tx_keeps (proxy_ok j s k s0) (materialize_remote_final_answer repr x d snapshot)"
  unfolding materialize_remote_final_answer_def store_remote_final_answer_def op_reads
  by (intro tx_intros proxy_ok_keeps tasks_ok_frame_ops proxy_at_ops)

lemma materialize_result:
  "wp (materialize_remote_final_answer repr x d snapshot)
     (\<lambda>y w'. y = x \<or> fetch t_task_id (t_task_id x) (tb_tasks (conn w')) = Some y) (\<lambda>_ _. True) w"
proof -
  have out: "wp (set_task_output_message k mid)
     (\<lambda>y w'. y = x \<or> fetch t_task_id k (tb_tasks (conn w')) = Some y) (\<lambda>_ _. True) w" for k mid w
    by (simp add: set_task_output_message_def wp_rules op_reads split: option.split sum.split)
  have weak: "wp m (\<lambda>a w'. wp (f a) Q (\<lambda>_ _. True) w') (\<lambda>_ _. True) w"
    if "\<And>a w. wp (f a) Q (\<lambda>_ _. True) w" for m :: "'a py" and f :: "'a \<Rightarrow> 'b py" and Q w
    using that by (simp add: wp_def split: prod.splits sum.splits)
  show ?thesis
    unfolding materialize_remote_final_answer_def
    by (auto simp: wp_rules op_reads store_remote_final_answer_def intro!: weak out split: prod.split option.split)
qed

lemma wp_step_in_tx:
  assumes "tx_keeps K m" and "K (conn w)" "K (durable w)" "0 < transaction_depth w"
    and "wp m R (\<lambda>_ _. True) w"
    and "\<And>a w'. K (conn w') \<Longrightarrow> durable w' = durable w \<Longrightarrow> 0 < transaction_depth w' \<Longrightarrow> R a w' \<Longrightarrow>
           wp (f a) Q (\<lambda>_ _. True) w'"
  shows "wp (bindM m f) Q (\<lambda>_ _. True) w"
proof -
  have "wp m (\<lambda>a w'. (tx_post K w w' \<and> K (conn w')) \<and> R a w') (\<lambda>e w'. tx_post K w w' \<and> True) w"
    using assms(2-4) by (intro wp_conj [OF tx_keepsD [OF assms(1)] assms(5)]) (auto simp: settled_def)
  then show ?thesis
    unfolding wp_bindM by (rule wp_mono) (use assms(4,6) in \<open>auto simp: tx_post_def\<close>)
qed

lemma sync_status_ok:
  assumes "proxy_ok j s k s0 (conn w)" and "remote_step s0 s'"
  shows "wp (update_task_status k s' None None False)
    (\<lambda>updated. wp (append_task_event k ty (Some s') pl) (\<lambda>_ w'. tasks_ok j s (conn w')) (\<lambda>_ _. True))
    (\<lambda>_ _. True) w"
proof -
  obtain x where x: "fetch t_task_id k (tb_tasks (conn w)) = Some x" "t_status x = s0"
      "t_assigned_agent_id x \<noteq> None" and ok: "tasks_ok j s (conn w)"
    using assms(1) by (auto simp: proxy_ok_def proxy_at_def)
  have ne: "s0 \<noteq> s'" using assms(2) by (auto simp: remote_step_def)
  have log: "event_log_ok (set_task k (status_row s' None None False now) (conn w))" for now
    using ok by (intro event_log_set_task) (simp_all add: tasks_ok_def task_inv_def)
  have fin: "tasks_ok j s (add_event e (set_task k (status_row s' None None False now) (conn w)))"
    if "e_task_id e = k" "e_status e = Some s'" "e_lifecycle_revision e = t_lifecycle_revision x + 1" for e now
  proof -
    have "task_inv (add_event e (set_task k (status_row s' None None False now) (conn w)))"
      using ok x assms(2) that by (intro task_inv_transition [OF _ x(1)]) (auto simp: tasks_ok_def)
    moreover have "proxy_inv (add_event e (set_task k (status_row s' None None False now) (conn w)))"
      using ok by (simp add: tasks_ok_def add_event_def)
    moreover have "local_status j s (set_task k (status_row s' None None False now) (conn w))"
      if "local_status j s (conn w)"
      using that x by (intro local_status_set_task) (auto simp: local_status_def)
    then have "ended j s (add_event e (set_task k (status_row s' None None False now) (conn w)))"
      using ok by (auto simp: tasks_ok_def ended_def local_status_def)
    ultimately show ?thesis by (simp add: tasks_ok_def)
  qed
  have upd: "wp (update_task_status k s' None None False)
      (\<lambda>_ w'. \<exists>now. conn w' = set_task k (status_row s' None None False now) (conn w)) (\<lambda>_ _. True) w"
    using x ne by (auto simp: update_task_status_def wp_rules get_task_def tb_tasks_set_task table_simps)
  have "wp (append_task_event k ty (Some s') pl) (\<lambda>_ w'. tasks_ok j s (conn w')) (\<lambda>_ _. True) w'"
    if w': "conn w' = set_task k (status_row s' None None False now) (conn w)" for w' now
  proof -
    have "fetch t_task_id k (tb_tasks (conn w')) = Some (status_row s' None None False now x)"
      using x w' by (simp add: tb_tasks_set_task table_simps)
    moreover have "event_log_ok (conn w')" using log w' by simp
    ultimately show ?thesis
      by (subst wp_append_task_event) (auto simp: Let_def w' fin split: sum.split)
  qed
  then show ?thesis by (intro wp_mono [OF upd]) blast+
qed

lemma wp_bindM_fun: "wp (bindM m f) Q E = wp m (\<lambda>a. wp (f a) Q E) E"
  by (simp add: fun_eq_iff wp_rules)

lemma wp_returnM_fun: "wp (returnM a) Q E = Q a"
  by (simp add: fun_eq_iff wp_rules)

lemma snapshot_tail_ok:
  assumes "proxy_ok j s k (t_status x) (conn w)" "proxy_ok j s k (t_status x) (durable w)"
    and "0 < transaction_depth w" "t_task_id x = k"
    and "accepts_remote_proxy_snapshot (t_status x) s'"
  shows "wp (apply_remote_snapshot repr x d snapshot s')
    (\<lambda>_ w'. tasks_ok j s (conn w')) (\<lambda>_ _. True) w"
  unfolding apply_remote_snapshot_def
proof (rule wp_step_in_tx [OF proxy_ok_keeps [OF tasks_ok_delegation_status proxy_at_ops(5)] assms(1-3),
      where R = "\<lambda>_ _. True"], goal_cases)
  case 1 then show ?case by (simp add: wp_def split: prod.splits sum.splits)
next
  case (2 _ w1)
  let ?fetched = "\<lambda>y w'. y = x \<or> fetch t_task_id k (tb_tasks (conn w')) = Some y"
  let ?m = "if s' = COMPLETED then materialize_remote_final_answer repr x d snapshot else returnM x"
  have keep: "tx_keeps (proxy_ok j s k (t_status x)) ?m" by (intro tx_intros materialize_keeps)
  have res: "wp ?m ?fetched (\<lambda>_ _. True) w1"
    using materialize_result [of repr x d snapshot w1] assms(4) by (simp add: wp_rules)
  show ?case
  proof (rule wp_step_in_tx [OF keep 2(1) _ 2(3) res])
    show "proxy_ok j s k (t_status x) (durable w1)" using 2(2) assms(2) by simp
  next
    fix y and w2 :: world
    assume y: "proxy_ok j s k (t_status x) (conn w2)" "?fetched y w2"
    then have same: "t_status y = t_status x" "t_task_id y = k"
      using assms(4) by (auto simp: proxy_ok_def proxy_at_def dest: fetch_SomeD)
    show "wp (if s' = t_status y then returnM y
        else bindM (update_task_status (t_task_id y) s' None None False) (\<lambda>updated.
             bindM (append_task_event (t_task_id y) ''remote_task_status_synced'' (Some s')
               [(''remote_agent_id'', PStr (d_remote_agent_id d)),
                (''remote_task_id'', PStr (s_task_id snapshot)),
                (''remote_context_id'', str_opt (s_context_id snapshot)),
                (''remote_status'', str_opt (s_status snapshot))]) (\<lambda>_. returnM updated)))
      (\<lambda>_ w'. tasks_ok j s (conn w')) (\<lambda>_ _. True) w2"
    proof (cases "s' = t_status x")
      case True
      with y(1) same show ?thesis by (simp add: wp_rules proxy_ok_def)
    next
      case False
      with assms(5) have "remote_step (t_status x) s'" by (auto simp: remote_step_def)
      from sync_status_ok [OF y(1) this] False same show ?thesis
        by (simp add: wp_bindM_fun wp_returnM_fun)
    qed
  qed
qed

lemma safe_transaction:
  assumes "tx_keeps (\<lambda>_. True) m"
    and "\<And>w. I (conn w) \<Longrightarrow> conn w = durable w \<Longrightarrow> 0 < transaction_depth w \<Longrightarrow>
      wp m (\<lambda>_ w'. I (conn w')) (\<lambda>_ _. True) w"
  shows "keeps (safe I) (transaction m)"
proof (rule keepsI)
  fix w assume "safe I w"
  then have w: "transaction_depth w = 0" "conn w = durable w" "I (durable w)" by (auto simp: safe_def)
  have "wp m (\<lambda>_ w'. tx_post (\<lambda>_. True) (tx_enter w) w' \<and> True) (\<lambda>_ w'. tx_post (\<lambda>_. True) (tx_enter w) w') (tx_enter w)"
    by (rule tx_keepsD [OF assms(1)]) (simp_all add: settled_def)
  moreover have "wp m (\<lambda>_ w'. I (conn w')) (\<lambda>_ _. True) (tx_enter w)"
    using w by (intro assms(2)) simp_all
  ultimately show "safe I (snd (transaction m w))"
    using w by (auto simp: wp_def transaction_def safe_def tx_post_def split: prod.splits sum.splits)
qed

lemma record_remote_snapshot_ok: "keeps (safe (tasks_ok j s)) (record_remote_snapshot repr k snapshot)"
  unfolding record_remote_snapshot_def Let_def
proof (rule safe_transaction, goal_cases)
  case 1
  show ?case
    unfolding require_task_def op_reads apply_remote_snapshot_def update_delegated_task_status_def update_task_status_def
      materialize_remote_final_answer_def store_remote_final_answer_def
    by (intro tx_intros store_ops_respect_transactions atomic_recorders.store_keeps; simp)
next
  case (2 w)
  show ?case
  proof (cases "fetch t_task_id k (tb_tasks (conn w))")
    case None
    then show ?thesis by (simp add: require_task_def get_task_def wp_rules)
  next
    case (Some x)
    note x = Some
    show ?thesis
    proof (cases "fetch d_local_task_id (Some k) (tb_delegated_tasks (conn w))")
      case None
      with x show ?thesis
        by (simp add: require_task_def get_task_def get_delegated_task_by_local_task_id_def wp_rules)
    next
      case (Some d)
      have "proxy_ok j s k (t_status x) (conn w)"
        using 2(1) x fetch_SomeD [OF Some] by (auto simp: proxy_ok_def proxy_at_def tasks_ok_def proxy_inv_def)
      then have "wp (apply_remote_snapshot repr x d' snapshot s')
          (\<lambda>_ w'. tasks_ok j s (conn w')) (\<lambda>_ _. True) w"
        if "accepts_remote_proxy_snapshot (t_status x) s'" for s' d'
        using 2 that fetch_SomeD [OF x] by (intro snapshot_tail_ok) auto
      with x Some 2(1) show ?thesis
        by (simp add: require_task_def get_task_def get_delegated_task_by_local_task_id_def wp_rules
            split: sum.split)
    qed
  qed
qed

section \<open>The contract of the store, for the Tasks\<close>

text \<open>A condition on none of the tables an operation writes is kept by it.\<close>

lemma ingress_ops_frame:
  assumes "\<And>t is. I (t\<lparr>tb_message_ingress := is\<rparr>) = I t" "\<And>t rs. I (t\<lparr>tb_route_decisions := rs\<rparr>) = I t"
  shows "tx_keeps I (reserve_message_ingress mid c fp)"
    and "tx_keeps I (record_route_decision did c mid kind rs ta cf md)"
    and "tx_keeps I (set_message_ingress_route_decision mid did)"
    and "tx_keeps I (resolve_message_ingress mid ok oid)"
    and "tx_keeps I (fail_message_ingress mid ec em hs er)"
    and "tx_keeps I (fail_in_progress_message_ingresses ec em hs er)"
proof -
  have "stmt_keeps I (update_in_progress mid refs f)" "stmt_keeps I (insert_ingress_or_ignore ir)"
    "stmt_keeps I (insert_route_decision_row rd)" for mid refs f ir rd
    by (auto simp: stmt_keeps_def update_in_progress_def insert_ingress_or_ignore_def
        insert_route_decision_row_def Let_def guarded_Inr assms split: if_splits)
  note stmts = this
  show "tx_keeps I (reserve_message_ingress mid c fp)"
    "tx_keeps I (record_route_decision did c mid kind rs ta cf md)"
    "tx_keeps I (set_message_ingress_route_decision mid did)"
    "tx_keeps I (resolve_message_ingress mid ok oid)"
    "tx_keeps I (fail_message_ingress mid ec em hs er)"
    "tx_keeps I (fail_in_progress_message_ingresses ec em hs er)"
    unfolding reserve_message_ingress_def record_route_decision_def set_message_ingress_route_decision_def
      resolve_message_ingress_def fail_message_ingress_def fail_in_progress_message_ingresses_def
      fail_one_in_progress_def op_reads
    by (intro tx_intros stmts)+
qed

lemma create_context_frame:
  assumes "\<And>t cs. I (t\<lparr>tb_contexts := cs\<rparr>) = I t"
  shows "tx_keeps I (create_context c title md)"
  unfolding create_context_def insert_context_row_def op_reads
  by (intro tx_intros stmt_keeps_guarded; simp add: stmt_keeps_def assms)

lemma approval_frame:
  assumes "\<And>t vs. I (t\<lparr>tb_tool_invocations := vs\<rparr>) = I t"
  shows "tx_keeps I (resolve_pending_tool_invocation_approval k req ap rs')"
  unfolding resolve_pending_tool_invocation_approval_def resolve_tool_invocation_approval_def
    set_invocations_def Let_def op_reads
  by (intro tx_intros; simp add: stmt_keeps_def assms)

lemma agent_ops_frame:
  assumes "\<And>t as. I (t\<lparr>tb_registered_agents := as\<rparr>) = I t"
    and "\<And>t ds. I (t\<lparr>tb_delegated_tasks := ds\<rparr>) = I t"
  shows "tx_keeps I (delete_registered_agent ag)"
    and "tx_keeps I (create_delegated_task dg c mid did ag rk st lt rt rctx rm md)"
    and "tx_keeps I (update_delegated_task_status dg st mdo)"
proof -
  have stmts: "stmt_keeps I (delete_agent_row ag)" "stmt_keeps I (insert_delegated_task_row d)" for ag d
    by (auto simp: stmt_keeps_def delete_agent_row_def insert_delegated_task_row_def guarded_Inr assms
        split: if_splits)
  show "tx_keeps I (delete_registered_agent ag)"
    "tx_keeps I (create_delegated_task dg c mid did ag rk st lt rt rctx rm md)"
    "tx_keeps I (update_delegated_task_status dg st mdo)"
    unfolding delete_registered_agent_def create_delegated_task_def insert_delegation_def
      update_delegated_task_status_def op_reads
    by (intro tx_intros stmts; simp add: assms)+
qed

lemma queue_ops_frame:
  assumes "\<And>k s pl ec em er. tx_keeps I (transition_local_task k s pl ec em er)"
    and "\<And>t ps. I (t\<lparr>tb_pending_continuations := ps\<rparr>) = I t" "\<And>t qs. I (t\<lparr>tb_queued_executions := qs\<rparr>) = I t"
  shows "tx_keeps I (consume_pending_continuation k pk)"
    and "tx_keeps I (enqueue_task_execution k qk th' pl' v)"
    and "tx_keeps I (claim_queued_task_execution k)"
proof -
  have stmts: "stmt_keeps I (insert_queued_execution_row q)" "stmt_keeps I (delete_pending P)"
    "stmt_keeps I (delete_queued k)" for q P k
    by (auto simp: stmt_keeps_def insert_queued_execution_row_def delete_pending_def delete_queued_def
        guarded_Inr assms(2,3) split: if_splits)
  show "tx_keeps I (consume_pending_continuation k pk)" "tx_keeps I (enqueue_task_execution k qk th' pl' v)"
    "tx_keeps I (claim_queued_task_execution k)"
    unfolding consume_pending_continuation_def enqueue_task_execution_def check_enqueue_def
      claim_queued_task_execution_def Let_def op_reads
    by (intro tx_intros stmts assms(1))+
qed

lemma accept_task_log:
  assumes "\<And>t ts. I (t\<lparr>tb_tasks := ts\<rparr>) = I t" "\<And>e. stmt_keeps I (insert_task_event_row e)"
    and "\<And>t qs. I (t\<lparr>tb_queued_executions := qs\<rparr>) = I t"
    and "\<And>did c mid kind rs ta cf md. tx_keeps I (record_route_decision did c mid kind rs ta cf md)"
    and "\<And>mid did. tx_keeps I (set_message_ingress_route_decision mid did)"
    and "\<And>mid ok oid. tx_keeps I (resolve_message_ingress mid ok oid)"
    and "\<And>k s pl ec em er. tx_keeps I (transition_local_task k s pl ec em er)"
  shows "tx_keeps I (create_task k c mid th s ag ro att md' ml mcp)"
    and "tx_keeps I (accept_local_task_from_message did c mid kind rs ta cf md k th q ro att)"
proof -
  have stmts: "stmt_keeps I (insert_task_row x)" "stmt_keeps I (insert_queued_execution_row qr)" for x qr
    by (auto simp: stmt_keeps_def insert_task_row_def insert_queued_execution_row_def guarded_Inr Let_def
        assms(1,3) split: if_splits)
  show ct: "tx_keeps I (create_task k c mid th s ag ro att md' ml mcp)" for k c mid th s ag ro att md' ml mcp
    unfolding create_task_def insert_new_task_def op_reads by (intro tx_intros stmts)
  show "tx_keeps I (accept_local_task_from_message did c mid kind rs ta cf md k th q ro att)"
    unfolding accept_local_task_from_message_def create_local_task_def append_task_event_def
      enqueue_task_execution_def check_enqueue_def Let_def op_reads
    by (intro tx_intros stmts assms(2,4-7) ct; simp add: assms(1) set_task_def)
qed

lemma accept_task_frame:
  assumes "\<And>t ts. I (t\<lparr>tb_tasks := ts\<rparr>) = I t" "\<And>t es n. I (t\<lparr>tb_task_events := es, tb_event_seq := n\<rparr>) = I t"
    and "\<And>t qs. I (t\<lparr>tb_queued_executions := qs\<rparr>) = I t"
    and "\<And>did c mid kind rs ta cf md. tx_keeps I (record_route_decision did c mid kind rs ta cf md)"
    and "\<And>mid did. tx_keeps I (set_message_ingress_route_decision mid did)"
    and "\<And>mid ok oid. tx_keeps I (resolve_message_ingress mid ok oid)"
    and "\<And>k s pl ec em er. tx_keeps I (transition_local_task k s pl ec em er)"
  shows "tx_keeps I (create_task k c mid th s ag ro att md' ml mcp)"
    and "tx_keeps I (accept_local_task_from_message did c mid kind rs ta cf md k th q ro att)"
  by (intro accept_task_log insert_event_frame assms)+

lemma core_ops_ended:
  "tx_keeps (ended j s) (create_context c title md)"
  "tx_keeps (ended j s) (reserve_message_ingress mid c fp)"
  "tx_keeps (ended j s) (record_route_decision did c mid kind rs ta cf md)"
  "tx_keeps (ended j s) (set_message_ingress_route_decision mid did)"
  "tx_keeps (ended j s) (resolve_message_ingress mid ok oid)"
  "tx_keeps (ended j s) (fail_message_ingress mid ec em hs er)"
  "tx_keeps (ended j s) (fail_in_progress_message_ingresses ec em hs er)"
  "tx_keeps (ended j s) (resolve_pending_tool_invocation_approval k req ap rs')"
  "tx_keeps (ended j s) (create_delegated_task dg c mid did ag rk st lt rt rctx rm md)"
  "tx_keeps (ended j s) (delete_registered_agent ag)"
  by (intro create_context_frame ingress_ops_frame approval_frame agent_ops_frame; simp add: ended_def)+

lemma queue_ops_ended:
  "tx_keeps (ended j s) (consume_pending_continuation k pk)"
  "tx_keeps (ended j s) (enqueue_task_execution k qk th' pl v)"
  "tx_keeps (ended j s) (claim_queued_task_execution k)"
  by (intro queue_ops_frame ended_under_recorders.store_keeps; simp add: ended_def)+

lemma accept_task_ended:
  "tx_keeps (ended j s) (accept_local_task_from_message did c mid kind rs ta cf md k th q ro att)"
proof (cases "is_terminal_task_status s")
  case True
  then have eq: "ended j s = local_status j s" by (simp add: ended_def fun_eq_iff)
  show ?thesis unfolding eq by (rule local_ops_final [OF True])
next
  case False
  then have eq: "ended j s = (\<lambda>_. True)" by (simp add: ended_def fun_eq_iff)
  show ?thesis unfolding eq
    by (intro accept_task_frame ingress_ops_frame transition_respects_transactions; simp)
qed

lemma core_ops_task_inv:
  "tx_keeps task_inv (create_context c title md)"
  "tx_keeps task_inv (reserve_message_ingress mid c fp)"
  "tx_keeps task_inv (record_route_decision did c mid kind rs ta cf md)"
  "tx_keeps task_inv (set_message_ingress_route_decision mid did)"
  "tx_keeps task_inv (resolve_message_ingress mid ok oid)"
  "tx_keeps task_inv (fail_message_ingress mid ec em hs er)"
  "tx_keeps task_inv (fail_in_progress_message_ingresses ec em hs er)"
  "tx_keeps task_inv (resolve_pending_tool_invocation_approval k req ap rs')"
  "tx_keeps task_inv (create_delegated_task dg c mid did ag rk st lt rt rctx rm md)"
  "tx_keeps task_inv (delete_registered_agent ag)"
  by (intro create_context_frame ingress_ops_frame approval_frame agent_ops_frame; simp)+

lemmas tasks_ok_parts =
  proxy_inv_events proxy_inv_transition proxy_inv_queue proxy_inv_core create_delegated_task_message
  history_of_recorders.store_keeps core_ops_task_inv task_ops_task_inv accept_local_task_task_inv
  ended_under_recorders.store_keeps core_ops_ended queue_ops_ended accept_task_ended

lemma tasks_under_recorders: "recorder_store (tasks_ok j s)"
  by unfold_locales (intro tasks_ok_keeps tasks_ok_parts)+

interpretation tasks_under_core: core_store "tasks_ok j s" for j s
proof -
  have remote: "tx_keeps (tasks_ok j s) (accept_remote_task c mid ag decision dg remote rtid)"
    for c mid ag decision dg remote rtid
    by (intro accept_remote_task_ok tasks_ok_keeps tasks_ok_parts)
  show "core_store (tasks_ok j s)"
    by (intro core_store.intro core_store_axioms.intro tasks_under_recorders remote
        record_remote_snapshot_ok; intro tasks_ok_keeps tasks_ok_parts)
qed

section \<open>The contract of the store, for the other tables\<close>

lemma remote_ops_frame:
  assumes "\<And>t ts. I (t\<lparr>tb_tasks := ts\<rparr>) = I t"
    and "\<And>t ds. I (t\<lparr>tb_delegated_tasks := ds\<rparr>) = I t"
    and "\<And>k ty st pl. tx_keeps I (append_task_event k ty st pl)"
    and "\<And>mid c role parts ko md. tx_keeps I (append_message mid c role parts ko md)"
    and "\<And>k mid. tx_keeps I (set_task_output_message k mid)"
    and "\<And>aid k c parts md. tx_keeps I (upsert_artifact aid k c parts md)"
    and "\<And>mid ok oid. tx_keeps I (resolve_message_ingress mid ok oid)"
  shows "tx_keeps I (record_remote_snapshot repr k snapshot)"
    and "tx_keeps I (accept_remote_task c mid ag decision dg remote rtid)"
proof -
  have stmts: "stmt_keeps I (insert_task_row x)" "stmt_keeps I (insert_delegated_task_row d)" for x d
    by (auto simp: stmt_keeps_def insert_task_row_def insert_delegated_task_row_def guarded_Inr assms(1,2)
        split: if_splits)
  show "tx_keeps I (record_remote_snapshot repr k snapshot)"
    unfolding record_remote_snapshot_def require_task_def op_reads apply_remote_snapshot_def Let_def
      update_delegated_task_status_def update_task_status_def
      materialize_remote_final_answer_def store_remote_final_answer_def
    by (intro tx_intros assms(3-6); simp add: assms(1,2) set_task_def)
  show "tx_keeps I (accept_remote_task c mid ag decision dg remote rtid)"
    unfolding accept_remote_task_def create_task_def insert_new_task_def create_delegated_task_def
      insert_delegation_def op_reads
    by (intro tx_intros assms(3-7) stmts)
qed

lemma seq_inv_more_tables [simp]:
  "seq_inv (t\<lparr>tb_message_ingress := a\<rparr>) = seq_inv t" "seq_inv (t\<lparr>tb_route_decisions := b\<rparr>) = seq_inv t"
  "seq_inv (t\<lparr>tb_tasks := c\<rparr>) = seq_inv t" "seq_inv (t\<lparr>tb_delegated_tasks := d\<rparr>) = seq_inv t"
  "seq_inv (t\<lparr>tb_registered_agents := e\<rparr>) = seq_inv t"
  by (rule seq_inv_frame; simp)+

lemma ledger_inv_more_tables [simp]:
  "ledger_inv (t\<lparr>tb_message_ingress := a\<rparr>) = ledger_inv t"
  "ledger_inv (t\<lparr>tb_route_decisions := b\<rparr>) = ledger_inv t"
  "ledger_inv (t\<lparr>tb_tasks := c\<rparr>) = ledger_inv t" "ledger_inv (t\<lparr>tb_delegated_tasks := d\<rparr>) = ledger_inv t"
  "ledger_inv (t\<lparr>tb_registered_agents := e\<rparr>) = ledger_inv t"
  by (rule ledger_inv_frame; simp)+

lemma ingress_inv_other_tables [simp]:
  "ingress_inv (t\<lparr>tb_contexts := a\<rparr>) = ingress_inv t" "ingress_inv (t\<lparr>tb_messages := b\<rparr>) = ingress_inv t"
  "ingress_inv (t\<lparr>tb_route_decisions := c\<rparr>) = ingress_inv t" "ingress_inv (t\<lparr>tb_artifacts := d\<rparr>) = ingress_inv t"
  "ingress_inv (t\<lparr>tb_registered_agents := e\<rparr>) = ingress_inv t"
  "ingress_inv (t\<lparr>tb_delegated_tasks := f\<rparr>) = ingress_inv t"
  "ingress_inv (t\<lparr>tb_pending_continuations := g\<rparr>) = ingress_inv t"
  "ingress_inv (t\<lparr>tb_queued_executions := i\<rparr>) = ingress_inv t"
  "ingress_inv (t\<lparr>tb_tool_invocations := j\<rparr>) = ingress_inv t"
  "ingress_inv (t\<lparr>tb_task_events := es, tb_event_seq := n\<rparr>) = ingress_inv t"
  "ingress_inv (t\<lparr>tb_tasks := ts\<rparr>) = ingress_inv t" "ingress_inv (set_task k h t) = ingress_inv t"
  by (simp_all add: ingress_inv_def set_task_def)

interpretation ingress_under_recorders: recorder_store ingress_inv
  by unfold_locales (intro task_ops_frame append_message_frame upsert_artifact_frame sweeps_frame; simp)+

lemma approval_ledger_inv: "tx_keeps ledger_inv (resolve_pending_tool_invocation_approval k req ap rs')"
  unfolding resolve_pending_tool_invocation_approval_def Let_def
  by (intro tx_intros single_row_ledger_inv)

interpretation ledger_under_core: core_store ledger_inv
  by (intro core_store.intro core_store_axioms.intro ledger_under_recorders.recorder_store_axioms;
      (rule keeps_of_tx)?; intro create_context_frame ingress_ops_frame accept_task_frame queue_ops_frame
        agent_ops_frame remote_ops_frame approval_ledger_inv ledger_under_recorders.store_keeps artifact_ops_ledger_inv; simp)

interpretation sequences_under_core: core_store seq_inv
  by (intro core_store.intro core_store_axioms.intro sequences_under_recorders.recorder_store_axioms;
      (rule keeps_of_tx)?; intro create_context_seq_inv ingress_ops_frame accept_task_frame queue_ops_frame
        agent_ops_frame remote_ops_frame approval_frame sequences_under_recorders.store_keeps task_ops_frame; simp)

interpretation ingress_under_core: core_store ingress_inv
  by (intro core_store.intro core_store_axioms.intro ingress_under_recorders.recorder_store_axioms;
      (rule keeps_of_tx)?; intro create_context_frame ingress_ops_inv accept_task_frame queue_ops_frame
        agent_ops_frame remote_ops_frame approval_frame ingress_under_recorders.store_keeps task_ops_frame; simp)

end
