(* ===== verification/Reachable.thy ===== *)
theory Reachable
  imports Task_Invariants
begin

text \<open>
  The invariants of the database together, and the states the running program
  reaches: the step relation \<open>core_step\<close> has a rule per entry point of the core and
  one for the workers it has scheduled.  Deleting a Context is not among its steps;
  \<open>Store_Agents\<close> states what that does.
\<close>

section \<open>All of it together\<close>

definition sound :: "string \<Rightarrow> task_status \<Rightarrow> tables \<Rightarrow> bool" where
  "sound j s t \<longleftrightarrow> tasks_ok j s t \<and> seq_inv t \<and> ingress_inv t \<and> ledger_inv t"

definition db_inv :: "tables \<Rightarrow> bool" where
  "db_inv t \<longleftrightarrow> task_inv t \<and> proxy_inv t \<and> seq_inv t \<and> ingress_inv t \<and> ledger_inv t"

lemma sound_db_inv: "sound j s t \<longleftrightarrow> db_inv t \<and> ended j s t"
  by (auto simp: sound_def db_inv_def tasks_ok_def)

lemma db_inv_sound: "db_inv = sound j CREATED"
  by (simp add: fun_eq_iff sound_db_inv ended_def)

lemma safe_conj: "safe (\<lambda>t. I t \<and> J t) w \<longleftrightarrow> safe I w \<and> safe J w"
  by (auto simp: safe_def)

lemma recorder_store_conj:
  assumes "recorder_store I" "recorder_store J"
  shows "recorder_store (\<lambda>t. I t \<and> J t)"
  by unfold_locales (intro tx_keeps_conj recorder_store.store_keeps assms)+

lemma core_store_conj:
  assumes "core_store I" "core_store J"
  shows "core_store (\<lambda>t. I t \<and> J t)"
proof -
  have rec: "recorder_store (\<lambda>t. I t \<and> J t)"
    by (intro recorder_store_conj core_store.axioms(1) assms)
  have snap: "keeps (safe (\<lambda>t. I t \<and> J t)) (record_remote_snapshot repr k snapshot)" for repr k snapshot
    using core_store.snapshot_keeps [OF assms(1)] core_store.snapshot_keeps [OF assms(2)]
    by (auto simp: keeps_def safe_conj)
  show ?thesis
    by (intro core_store.intro core_store_axioms.intro rec snap;
        intro tx_keeps_conj core_store.core_ops assms)
qed

interpretation database: core_store "sound j s" for j s
proof -
  have "core_store (\<lambda>t. tasks_ok j s t \<and> seq_inv t \<and> ingress_inv t \<and> ledger_inv t)"
    by (intro core_store_conj tasks_under_core.core_store_axioms sequences_under_core.core_store_axioms
        ingress_under_core.core_store_axioms ledger_under_core.core_store_axioms)
  then show "core_store (sound j s)" by (simp add: sound_def [abs_def])
qed

text \<open>The ledger operations a runner performs while it executes a Task.\<close>

lemma ledger_frame:
  assumes "\<And>t vs. I (t\<lparr>tb_tool_invocations := vs\<rparr>) = I t"
  shows "tx_keeps I (create_or_get_tool_invocation i k c th n tc tn na ad cap sl ik ar)"
    and "tx_keeps I (begin_tool_invocation i)"
    and "tx_keeps I (mark_tool_invocation_uncertain i ec em rt)"
    and "tx_keeps I (cancel_tool_invocation i rs')"
proof -
  have stmts: "stmt_keeps I (insert_tool_invocation_row r)" "stmt_keeps I (set_invocations P f)" for r P f
    by (auto simp: stmt_keeps_def insert_tool_invocation_row_def set_invocations_def guarded_Inr assms
        split: if_splits)
  show "tx_keeps I (create_or_get_tool_invocation i k c th n tc tn na ad cap sl ik ar)"
    "tx_keeps I (begin_tool_invocation i)" "tx_keeps I (mark_tool_invocation_uncertain i ec em rt)"
    "tx_keeps I (cancel_tool_invocation i rs')"
    unfolding create_or_get_tool_invocation_def insert_new_invocation_def check_invocation_owner_def
      begin_tool_invocation_def mark_tool_invocation_uncertain_def cancel_tool_invocation_def
      get_tool_invocation_by_execution_identity_def op_reads
    by (intro tx_intros stmts)+
qed

lemma tasks_ok_invocations [simp]: "tasks_ok j s (t\<lparr>tb_tool_invocations := vs\<rparr>) = tasks_ok j s t"
  by (rule tasks_ok_frame) simp_all

lemma rest_sound:
  assumes "tx_keeps ledger_inv m" and "tx_keeps (\<lambda>t. tasks_ok j s t \<and> seq_inv t \<and> ingress_inv t) m"
  shows "tx_keeps (sound j s) m"
proof -
  have "sound j s = (\<lambda>t. (tasks_ok j s t \<and> seq_inv t \<and> ingress_inv t) \<and> ledger_inv t)"
    by (auto simp: sound_def fun_eq_iff)
  with tx_keeps_conj [OF assms(2,1)] show ?thesis by simp
qed

lemma runner_ops_sound:
  "tx_keeps (sound j s) (create_or_get_tool_invocation i k c th n tc tn na ad cap sl ik ar)"
  "tx_keeps (sound j s) (begin_tool_invocation i)"
  "tx_keeps (sound j s) (mark_tool_invocation_uncertain i ec em rt)"
  "tx_keeps (sound j s) (cancel_tool_invocation i rs')"
  by (intro rest_sound ledger_ops_inv single_row_ledger_inv ledger_frame; simp)+

lemma complete_sound: "tx_keeps (sound j s) (complete_tool_invocation_success k parts md)"
proof (intro rest_sound complete_ledger_inv complete_keeps)
  show "tx_keeps (\<lambda>t. tasks_ok j s t \<and> seq_inv t \<and> ingress_inv t) (upsert_artifact aid k c parts md)"
    "tx_keeps (\<lambda>t. tasks_ok j s t \<and> seq_inv t \<and> ingress_inv t) (append_task_event k ty None pl)"
    for aid k c parts md ty pl
    by (intro tx_keeps_conj tasks_under_core.store_keeps sequences_under_recorders.store_keeps
        ingress_under_recorders.store_keeps)+
qed simp

section \<open>Reachable states\<close>

text \<open>The steps of the running program: a command, a scheduled worker that starts, the
  refresh of a proxy, and the administration of child agents.\<close>

inductive core_step :: "core_env \<Rightarrow> world \<Rightarrow> world \<Rightarrow> bool" for env where
  command: "core_step env w (snd (execute_command env cmd w))"
| worker: "local_execution env = Some ad \<Longrightarrow> k \<in> scheduled_task_ids w \<Longrightarrow>
    core_step env w (snd (run_scheduled ad core_callbacks k w))"
| refresh: "core_step env w (snd (get_refreshed_task env k b w))"
| register: "core_step env w (snd (upsert_registered_agent ag nm url cj en md w))"
| unregister: "core_step env w (snd (delete_unused_agent ag w))"

inductive reachable :: "core_env \<Rightarrow> world \<Rightarrow> world \<Rightarrow> bool" for env w0 where
  start: "reachable env w0 w0"
| step: "reachable env w0 w \<Longrightarrow> core_step env w w' \<Longrightarrow> reachable env w0 w'"


lemma register_sound: "tx_keeps (sound j s) (upsert_registered_agent ag nm url cj en md)"
proof -
  have "stmt_keeps (sound j s) (upsert_agent_row g)" for g
    unfolding stmt_keeps_def sound_def
    by (auto simp: upsert_agent_row_def tasks_ok_def ended_def guarded_Inr split: if_splits)
  then show ?thesis
    unfolding upsert_registered_agent_def get_registered_agent_def by (intro tx_intros)
qed

text \<open>Whatever the store operations keep, every step of the program keeps.\<close>

context core_store
begin

lemma core_step_keeps:
  assumes "core_step env w w'" and env: "env_keeps (safe I) env" and w: "safe I w"
    and register_keeps: "\<And>ag nm url cj en md. tx_keeps I (upsert_registered_agent ag nm url cj en md)"
  shows "safe I w'"
  using assms(1)
proof cases
  case (command cmd)
  show ?thesis unfolding command by (rule keepsD [OF _ _ surjective_pairing, OF execute_command_keeps [OF env] w])
next
  case (worker ad k)
  show ?thesis unfolding worker(1) by (rule keepsD [OF _ _ surjective_pairing, OF adapter_keeps(2) [OF env worker(2)] w])
next
  case (refresh k b)
  show ?thesis unfolding refresh by (rule keepsD [OF _ _ surjective_pairing, OF get_refreshed_task_keeps [OF env] w])
next
  case (register ag nm url cj en md)
  show ?thesis unfolding register by (rule keepsD [OF _ _ surjective_pairing, OF keeps_of_tx [OF register_keeps] w])
next
  case (unregister ag)
  show ?thesis unfolding unregister by (rule keepsD [OF _ _ surjective_pairing, OF delete_unused_agent_keeps w])
qed

lemma reachable_keeps:
  assumes "reachable env w0 w" and "env_keeps (safe I) env" and "safe I w0"
    and "\<And>ag nm url cj en md. tx_keeps I (upsert_registered_agent ag nm url cj en md)"
  shows "safe I w"
  using assms(1) by induction (use assms(2-4) core_step_keeps in blast)+

end

lemma reachable_safe:
  assumes "reachable env w0 w" and "env_keeps (safe (sound j s)) env" and "safe (sound j s) w0"
  shows "safe (sound j s) w"
  by (rule database.reachable_keeps [OF assms register_sound])

text \<open>A program started on an empty database.\<close>

lemma init_safe: "safe db_inv (init_world clk uid)"
  by (simp add: safe_def init_world_def db_inv_def empty_tables_def task_inv_def event_log_ok_def
      proxy_inv_def seq_inv_def ingress_inv_def ledger_inv_def)

text \<open>A composition whose collaborators answer at once: every Message becomes a local
  Task, whose execution opens a tool invocation and succeeds.\<close>

definition sample_result :: local_task_run_result where
  "sample_result = \<lparr>l_status = COMPLETED, l_parts = [], l_artifact_parts = [], l_error_code = None,
     l_error_message = None, l_error_retryable = False, l_input_request = None, l_observations = [],
     l_execution = []\<rparr>"

definition sample_runner :: local_task_runner where
  "sample_runner = \<lparr>rn_run = \<lambda>ms th. bindM (begin_tool_invocation ''inv'') (\<lambda>_. returnM sample_result),
     rn_resume = \<lambda>th a rs. returnM sample_result, rn_resume_input = \<lambda>th ps md. returnM sample_result,
     rn_request_cancellation = Some (\<lambda>th rs. returnM ()), rn_discard_checkpoint = Some (\<lambda>th. returnM ())\<rparr>"

definition sample_env :: core_env where
  "sample_env = \<lparr>ce_respond = \<lambda>ms. returnM [], ce_runner = Some sample_runner, ce_submitter = None,
     ce_remote = None,
     ce_decide = \<lambda>rq c m ms. returnM \<lparr>rd_kind = LOCAL_TASK, rd_reason = ''work'', rd_confidence = None,
       rd_target_agent_id = None, rd_metadata = []\<rparr>,
     ce_fingerprint = \<lambda>d. ''fp'', ce_repr = \<lambda>v. ''v''\<rparr>"

lemma sample_env_keeps: "env_keeps (safe (sound j s)) sample_env"
  by (simp add: env_keeps_def sample_env_def runner_keeps_def sample_runner_def)
     (intro conjI allI keeps_intros keeps_of_tx runner_ops_sound)

text \<open>
  C1. In every state the program reaches from an empty database, by any sequence of
  commands, worker runs, proxy refreshes and agent registrations, and with
  collaborators that themselves leave the database in such a state, no transaction is
  left open, everything is committed, and the invariants of all tables hold:
  the event log is each Task's lifecycle history, delegations name proxies, Message
  sequence numbers are positive, below the Context's counter and unique, ingresses
  agree with their state, and the tool ledger satisfies its approval discipline.
\<close>

theorem reachable_database_invariant:
  assumes "env_keeps (safe db_inv) env" and "reachable env (init_world clk uid) w"
  shows "transaction_depth w = 0 \<and> conn w = durable w \<and>
    task_inv (conn w) \<and> proxy_inv (conn w) \<and> seq_inv (conn w) \<and> ingress_inv (conn w) \<and> ledger_inv (conn w)"
proof -
  have "safe (sound [] CREATED) w"
    using reachable_safe [OF assms(2)] assms(1) init_safe by (simp add: db_inv_sound [of "[]"])
  then have "safe db_inv w" by (simp add: db_inv_sound [of "[]"])
  then show ?thesis by (auto simp: safe_def db_inv_def)
qed

theorem reachable_database_invariant_witness:
  "db_inv (conn (snd (execute_command sample_env
     (AdmitMessageCommand \<lparr>rq_context_id = None, rq_message_id = Some ''m1'', rq_role = USER,
        rq_parts = [PDict [(''text'', PStr ''hi'')]], rq_metadata = []\<rparr>)
     (init_world (\<lambda>_. 1) str_nat))))"
proof -
  have "reachable sample_env (init_world (\<lambda>_. 1) str_nat)
      (snd (execute_command sample_env cmd (init_world (\<lambda>_. 1) str_nat)))" for cmd
    by (rule reachable.step [OF reachable.start core_step.command])
  moreover have "env_keeps (safe db_inv) sample_env"
    unfolding db_inv_sound [of "[]"] by (rule sample_env_keeps)
  ultimately show ?thesis
    using reachable_database_invariant db_inv_def by blast
qed

text \<open>
  C3. Whatever commands, workers and refreshes do, a locally owned Task that has
  completed, failed or been canceled keeps that status.
\<close>

theorem finished_task_stays_finished:
  assumes "is_terminal_task_status s" and "env_keeps (safe (sound k s)) env"
    and "safe db_inv w0" and "local_status k s (conn w0)" and "reachable env w0 w"
  shows "local_status k s (conn w)"
proof -
  have "safe (sound k s) w0" using assms(3,4) by (auto simp: safe_def sound_db_inv ended_def)
  from reachable_safe [OF assms(5,2) this] show ?thesis
    using assms(1) by (auto simp: safe_def sound_db_inv ended_def)
qed


text \<open>The sample Task after it has failed.\<close>

definition finished_tables :: tables where
  "finished_tables = sample_tables\<lparr>
     tb_tasks := [sample_task\<lparr>t_status := FAILED, t_lifecycle_revision := 3, t_error_code := Some ''boom'',
       t_error_message := Some ''boom'', t_error_retryable := True\<rparr>],
     tb_task_events := tb_task_events sample_tables @ [sample_event 3 ''task_failed'' FAILED],
     tb_event_seq := 3, tb_queued_executions := []\<rparr>"

lemma finished_sample: "safe db_inv (world_of finished_tables)" "local_status ''task'' FAILED finished_tables"
proof -
  have "task_inv finished_tables"
    by (simp add: finished_tables_def task_inv_def sample_defs event_log_ok_def has_task_def table_simps
        task_row_ok_def history_def events_of_def local_step_iff)
  moreover have "proxy_inv finished_tables" "ingress_inv finished_tables" "ledger_inv finished_tables"
    by (simp_all add: finished_tables_def sample_defs proxy_inv_def ingress_inv_def ingress_row_ok_def ledger_inv_def)
  moreover have "seq_inv finished_tables"
    using sample_seq_inv by (simp add: finished_tables_def seq_inv_def)
  ultimately show "safe db_inv (world_of finished_tables)" by (simp add: safe_def db_inv_def)
  show "local_status ''task'' FAILED finished_tables"
    by (simp add: finished_tables_def local_status_def sample_task_def table_simps)
qed

theorem finished_task_stays_finished_witness:
  "local_status ''task'' FAILED (conn (snd (execute_command sample_env (RetryTaskCommand ''task'')
     (world_of finished_tables))))"
proof -
  have "reachable sample_env (world_of finished_tables)
      (snd (execute_command sample_env cmd (world_of finished_tables)))" for cmd
    by (rule reachable.step [OF reachable.start core_step.command])
  from finished_task_stays_finished [OF _ sample_env_keeps finished_sample(1) _ this] show ?thesis
    using finished_sample(2) by (simp del: execute_command.simps)
qed

section \<open>A proxy's history is short\<close>

lemma remote_path_length:
  assumes "is_path remote_step h"
  shows "length h \<le> 5 \<and> distinct h"
proof (cases h)
  case (Cons a xs)
  have "remote_rank s \<le> 4" for s by (cases s) simp_all
  moreover have "remote_rank a + length xs \<le> remote_rank (last (a # xs))"
    using assms Cons by (intro remote_lifecycle.path_rank) simp
  ultimately have "length xs \<le> 4" by (meson add_leD2 le_trans)
  with assms Cons remote_lifecycle.path_distinct [of a xs] show ?thesis by simp
qed simp

text \<open>
  C22. Mirroring a child agent's Task terminates.  In every reachable state the recorded
  history of a proxy, the statuses it was created and synchronised with, repeats no
  status and has at most five entries, and nothing follows a terminal one: however many
  snapshots arrive, at most four of them change the proxy.
\<close>

theorem proxy_history_bounded:
  assumes "env_keeps (safe db_inv) env" and "reachable env (init_world clk uid) w"
    and "x \<in> set (tb_tasks (conn w))" and "t_assigned_agent_id x \<noteq> None"
  shows "length (history (t_task_id x) (conn w)) \<le> 5 \<and> distinct (history (t_task_id x) (conn w)) \<and>
    (\<forall>s \<in> set (butlast (history (t_task_id x) (conn w))). \<not> is_terminal_task_status s)"
proof -
  have "safe (sound [] CREATED) w"
    using reachable_safe [OF assms(2)] assms(1) init_safe by (simp add: db_inv_sound [of "[]"])
  then have "task_row_ok (conn w) x"
    using assms(3) by (auto simp: safe_def sound_def tasks_ok_def task_inv_def)
  then have path: "is_path remote_step (history (t_task_id x) (conn w))"
    using assms(4) by (simp add: task_row_ok_def Let_def)
  have "\<not> is_terminal_task_status s" if "s \<in> set (butlast h)" "is_path remote_step h" for s h
  proof
    assume fin: "is_terminal_task_status s"
    from that(1) have "h \<noteq> []" by auto
    from split_list [OF that(1)] obtain us vs where "butlast h = us @ s # vs" by blast
    then have "h = us @ s # vs @ [last h]" using append_butlast_last_id [OF \<open>h \<noteq> []\<close>] by simp
    then have "vs @ [last h] = []" using remote_lifecycle.terminal_last [of us s "vs @ [last h]"] fin that(2) by simp
    then show False by simp
  qed
  with path show ?thesis using remote_path_length [OF path] by blast
qed

text \<open>A run of the program that leaves a proxy behind: a child agent is registered, and the
  Message the router gives it comes back as a Task it has accepted.\<close>

definition delegating_env :: core_env where
  "delegating_env = sample_env\<lparr>
     ce_remote := Some \<lparr>rc_send_message = \<lambda>g rq c m. returnM (Some \<lparr>sr_kind = ''task'', sr_context_id = None,
         sr_message_id = None, sr_task_id = Some ''remote-1'', sr_status = Some ''queued'', sr_parts = [], sr_raw = []\<rparr>),
       rc_get_task = \<lambda>g k. raiseM (KeyError k), rc_cancel_task = \<lambda>g k rs. raiseM (KeyError k)\<rparr>,
     ce_decide := \<lambda>rq c m ms. returnM \<lparr>rd_kind = REMOTE_AGENT, rd_reason = ''child'', rd_confidence = None,
       rd_target_agent_id = Some ''child'', rd_metadata = []\<rparr>\<rparr>"

definition delegated_world :: world where
  "delegated_world =
     snd (execute_command delegating_env
       (AdmitMessageCommand \<lparr>rq_context_id = None, rq_message_id = Some ''m1'', rq_role = USER, rq_parts = [], rq_metadata = []\<rparr>)
       (snd (upsert_registered_agent ''child'' ''Child'' ''http://child'' [] True [] (init_world (\<lambda>_. 1) str_nat))))"

lemma delegated_world_task: "\<exists>x \<in> set (tb_tasks (conn delegated_world)). t_task_id x = ''task-3'' \<and> t_assigned_agent_id x = Some ''child''"
  unfolding delegated_world_def delegating_env_def sample_env_def sample_runner_def by code_simp

lemma delegating_env_keeps: "env_keeps (safe db_inv) delegating_env"
  using sample_env_keeps [of "[]" CREATED]
  by (auto simp: env_keeps_def delegating_env_def client_keeps_def db_inv_sound [of "[]"] intro!: keeps_intros)

theorem proxy_history_bounded_witness:
  "length (history ''task-3'' (conn delegated_world)) \<le> 5 \<and> t_assigned_agent_id (hd (tb_tasks (conn delegated_world))) = Some ''child''"
proof -
  let ?w0 = "init_world (\<lambda>_. 1) str_nat"
  have "reachable delegating_env ?w0 delegated_world"
    unfolding delegated_world_def
    by (rule reachable.step [OF reachable.step [OF reachable.start core_step.register] core_step.command])
  moreover obtain x where "x \<in> set (tb_tasks (conn delegated_world))" "t_task_id x = ''task-3''" "t_assigned_agent_id x = Some ''child''"
    using delegated_world_task by blast
  moreover have "t_assigned_agent_id (hd (tb_tasks (conn delegated_world))) = Some ''child''"
    unfolding delegated_world_def delegating_env_def sample_env_def sample_runner_def by code_simp
  ultimately show ?thesis
    using proxy_history_bounded [OF delegating_env_keeps, of "\<lambda>_. 1" str_nat delegated_world x] by simp
qed

end
