(* ===== verification/Command_Properties.thy ===== *)
theory Command_Properties
  imports Reachable
begin

text \<open>
  What single commands of the core do: the worker that gives back what it holds, the
  admission of a Message, cancellation, retry and the reconciliation at startup.
\<close>

section \<open>The process-local sets\<close>

definition sets_are :: "string set \<Rightarrow> string set \<Rightarrow> world \<Rightarrow> bool" where
  "sets_are A B w \<longleftrightarrow> active_task_ids w = A \<and> scheduled_task_ids w = B"

lemma sets_primitives [keeps_intros]:
  "keeps (sets_are A B) (execute stmt)" "keeps (sets_are A B) (query f)"
  "keeps (sets_are A B) (update_tables g)" "keeps (sets_are A B) utc_now" "keeps (sets_are A B) (new_id p)"
  "keeps (sets_are A B) (register_after_commit k)" 
  unfolding keeps_iff_wp by (auto simp: wp_rules sets_are_def register_after_commit_def split: sum.split)

lemma sets_transaction [keeps_intros]:
  assumes "keeps (sets_are A B) m"
  shows "keeps (sets_are A B) (transaction m)"
proof (rule keepsI)
  fix w assume "sets_are A B w"
  then have "sets_are A B (tx_enter w)" by (simp add: sets_are_def)
  then have "sets_are A B (snd (m (tx_enter w)))" by (rule keepsD [OF assms _ surjective_pairing])
  then show "sets_are A B (snd (transaction m w))"
    by (auto simp: transaction_def sets_are_def split: prod.split sum.split)
qed

lemma sets_store_ops:
  "keeps (sets_are A B) (append_task_event k ty st pl)"
  "keeps (sets_are A B) (append_message mid c role parts ko md)"
  "keeps (sets_are A B) (set_task_output_message k mid)"
  "keeps (sets_are A B) (upsert_artifact aid k c parts md)"
  "keeps (sets_are A B) (set_pending_continuation k pk req)"
  "keeps (sets_are A B) (clear_pending_continuation k)"
  "keeps (sets_are A B) (clear_queued_task_execution k)"
  "keeps (sets_are A B) (mark_running_tool_invocations_uncertain k c' m' er)"
  "keeps (sets_are A B) (cancel_prepared_tool_invocations k m')"
  unfolding append_task_event_def append_message_def append_new_message_def set_task_output_message_def
    upsert_artifact_def set_pending_continuation_def clear_pending_continuation_def
    clear_queued_task_execution_def mark_running_tool_invocations_uncertain_def
    cancel_prepared_tool_invocations_def op_reads
  by (intro keeps_intros)+


lemma sets_recorders:
  "keeps (sets_are A B) (record_failure k err)"
  "keeps (sets_are A B) (record_local_result k r md)"
proof -
  have tr: "keeps (sets_are A B) (transition_local_task k s pl ec em er)" for k s pl ec em er
    unfolding transition_local_task_def op_reads by (intro keeps_intros sets_store_ops)
  have close: "keeps (sets_are A B) (close_unresolved_execution k ec em rt pr)" for k ec em rt pr
    unfolding close_unresolved_execution_def by (intro keeps_intros sets_store_ops)
  have cancel: "keeps (sets_are A B) (record_cancellation k)" for k
    unfolding record_cancellation_def require_task_def op_reads
    by (intro keeps_intros sets_store_ops tr close)
  show fail: "keeps (sets_are A B) (record_failure k err)" for k err
    unfolding record_failure_def unless_closing_def require_task_def op_reads Let_def
    by (intro keeps_intros sets_store_ops tr close cancel)
  show "keeps (sets_are A B) (record_local_result k r md)"
    unfolding record_local_result_def record_completed_result_def record_interrupted_result_def
      record_failed_result_def append_input_request_def persist_observations_def unless_closing_def
      require_task_def op_reads Let_def
    by (intro keeps_intros sets_store_ops tr close cancel fail)
qed

lemma sets_callbacks:
  "keeps (sets_are A B) (claim_local_execution k)" "keeps (sets_are A B) (record_local_execution_outcome out)"
proof -
  have tr: "keeps (sets_are A B) (transition_local_task k s pl ec em er)" for k s pl ec em er
    unfolding transition_local_task_def op_reads by (intro keeps_intros sets_store_ops)
  show "keeps (sets_are A B) (claim_local_execution k)"
    unfolding claim_local_execution_def claim_queued_task_execution_def local_task_context_def
      context_through_input_def list_context_messages_def check_page_def
      get_route_decision_by_message_id_def op_reads
    by (intro keeps_intros tr)
  show "keeps (sets_are A B) (record_local_execution_outcome out)"
    unfolding record_local_execution_outcome_def
    by (cases out) (simp_all, intro keeps_intros sets_recorders, rule sets_recorders)
qed

text \<open>
  C18. A worker gives back what it holds.  Whatever the runner does, return or raise, and
  whatever the claim and the recording of the outcome do, when the scheduled run of a
  Task is over the Task is in neither of the sets that mark it as live, and the entries
  of the other Tasks are as they were, so it can be woken again.
\<close>

theorem worker_releases_task:
  assumes "\<And>A B. runner_keeps (sets_are A B) (ad_runner ad)"
  shows "sets_are (active_task_ids w - {k}) (scheduled_task_ids w - {k})
    (snd (run_scheduled ad core_callbacks k w))"
proof -
  let ?A = "active_task_ids w" and ?B = "scheduled_task_ids w"
  have attempt: "keeps (sets_are A B) (attempt_execution ad core_callbacks k)" for A B
    unfolding attempt_execution_def core_callbacks_def lifecycle_callbacks.simps op_reads
    by (intro keeps_intros sets_callbacks dispatch_keeps assms)
  have "sets_are (insert k ?A) ?B (snd (attempt_execution ad core_callbacks k (add_active k w)))"
    by (rule keepsD [OF attempt _ surjective_pairing]) (simp add: sets_are_def add_active_def)
  then have active: "wp (active_local_execution k (attempt_execution ad core_callbacks k))
      (\<lambda>_. sets_are (?A - {k}) ?B) (\<lambda>_. sets_are (?A - {k}) ?B) w"
    unfolding active_local_execution_def wp_finallyM wp_bindM wp_modifyM
    by (auto simp: wp_def sets_are_def discard_active_def split: prod.splits sum.splits)
  have outcome: "wp (record_local_execution_outcome out) (\<lambda>_. sets_are (?A - {k}) ?B) (\<lambda>_. sets_are (?A - {k}) ?B) w'"
    if "sets_are (?A - {k}) ?B w'" for out w'
    using sets_callbacks(2) that by (simp add: keeps_iff_wp)
  have "wp (run_once ad core_callbacks k) (\<lambda>_. sets_are (?A - {k}) ?B) (\<lambda>_. sets_are (?A - {k}) ?B) w"
    unfolding run_once_def core_callbacks_def lifecycle_callbacks.simps wp_bindM wp_catchM wp_returnM
    by (rule wp_mono [OF active [unfolded core_callbacks_def]])
       (auto simp: wp_rules wp_returnM_fun outcome split: sum.split)
  then have "sets_are (?A - {k}) ?B (snd (run_once ad core_callbacks k w))"
    by (auto simp: wp_def split: prod.splits sum.splits)
  then show ?thesis
    by (auto simp: run_scheduled_def finallyM_def sets_are_def forget_scheduled_def split: prod.split)
qed

theorem worker_releases_task_witness:
  "sets_are {''a''} {} (snd (run_scheduled \<lparr>ad_runner = sample_runner, ad_submitter = None\<rparr> core_callbacks ''task''
     ((world_of sample_tables)\<lparr>active_task_ids := {''a''}, scheduled_task_ids := {''task''}\<rparr>)))"
proof -
  have "runner_keeps (sets_are A B) sample_runner" for A B
    unfolding runner_keeps_def sample_runner_def begin_tool_invocation_def get_tool_invocation_def
    by (auto intro!: keeps_intros)
  then show ?thesis
    using worker_releases_task [of "\<lparr>ad_runner = sample_runner, ad_submitter = None\<rparr>"
      "(world_of sample_tables)\<lparr>active_task_ids := {''a''}, scheduled_task_ids := {''task''}\<rparr>" "''task''"]
    by (simp add: insert_Diff_if)
qed

section \<open>An admitted Message is answered or failed\<close>

text \<open>The ingress of Message \<open>k\<close> is stored and, if \<open>b\<close>, it has ended.\<close>

definition ingress_at :: "string \<Rightarrow> bool \<Rightarrow> tables \<Rightarrow> bool" where
  "ingress_at k b t \<longleftrightarrow>
     (\<exists>r. fetch i_message_id k (tb_message_ingress t) = Some r \<and> (b \<longrightarrow> i_state r \<noteq> IN_PROGRESS))"

lemma ingress_at_other_tables [simp]:
  "ingress_at k b (t\<lparr>tb_contexts := a\<rparr>) = ingress_at k b t" "ingress_at k b (t\<lparr>tb_messages := b'\<rparr>) = ingress_at k b t"
  "ingress_at k b (t\<lparr>tb_route_decisions := c\<rparr>) = ingress_at k b t"
  "ingress_at k b (t\<lparr>tb_artifacts := d\<rparr>) = ingress_at k b t"
  "ingress_at k b (t\<lparr>tb_registered_agents := e\<rparr>) = ingress_at k b t"
  "ingress_at k b (t\<lparr>tb_delegated_tasks := f\<rparr>) = ingress_at k b t"
  "ingress_at k b (t\<lparr>tb_pending_continuations := g\<rparr>) = ingress_at k b t"
  "ingress_at k b (t\<lparr>tb_queued_executions := i\<rparr>) = ingress_at k b t"
  "ingress_at k b (t\<lparr>tb_tool_invocations := j\<rparr>) = ingress_at k b t"
  "ingress_at k b (t\<lparr>tb_task_events := es, tb_event_seq := n\<rparr>) = ingress_at k b t"
  "ingress_at k b (t\<lparr>tb_tasks := ts\<rparr>) = ingress_at k b t" "ingress_at k b (set_task l h t) = ingress_at k b t"
  by (simp_all add: ingress_at_def set_task_def)

lemma ingress_at_statements:
  "(\<And>x. i_message_id (f x) = i_message_id x) \<Longrightarrow> stmt_keeps (ingress_at k b) (update_in_progress m refs f)"
  "stmt_keeps (ingress_at k b) (insert_ingress_or_ignore x)"
  "stmt_keeps (ingress_at k b) (insert_route_decision_row rd)"
  by (auto simp: stmt_keeps_def update_in_progress_def insert_ingress_or_ignore_def
      insert_route_decision_row_def ingress_at_def Let_def guarded_Inr fetch_set_where split: if_splits)

lemma ingress_at_ops:
  "tx_keeps (ingress_at k b) (reserve_message_ingress m c fp)"
  "tx_keeps (ingress_at k b) (set_message_ingress_route_decision m d)"
  "tx_keeps (ingress_at k b) (resolve_message_ingress m ok oid)"
  "tx_keeps (ingress_at k b) (fail_message_ingress m ec em hs rt)"
  "tx_keeps (ingress_at k b) (fail_in_progress_message_ingresses ec em hs rt)"
  "tx_keeps (ingress_at k b) (record_route_decision did c m rk rs ta cf md)"
  unfolding reserve_message_ingress_def set_message_ingress_route_decision_def
    resolve_message_ingress_def fail_message_ingress_def fail_in_progress_message_ingresses_def
    fail_one_in_progress_def record_route_decision_def op_reads
  by (intro tx_intros ingress_at_statements; simp add: ingress_failed_row_def)+

lemma ingress_at_recorders: "recorder_store (ingress_at k b)"
  by unfold_locales (intro task_ops_frame append_message_frame upsert_artifact_frame sweeps_frame; simp)+

interpretation ingress_row: core_store "ingress_at k b" for k b
  by (intro core_store.intro core_store_axioms.intro ingress_at_recorders;
      (rule keeps_of_tx)?; intro create_context_frame ingress_at_ops accept_task_frame queue_ops_frame
        agent_ops_frame remote_ops_frame approval_frame recorder_store.store_keeps [OF ingress_at_recorders] task_ops_frame; simp)

text \<open>Inside an open transaction.\<close>

definition in_tx :: "nat \<Rightarrow> (tables \<Rightarrow> bool) \<Rightarrow> world \<Rightarrow> bool" where
  "in_tx d I w \<longleftrightarrow> transaction_depth w = Suc d \<and> I (conn w)"

lemma in_tx_primitives [keeps_intros]:
  "stmt_keeps I stmt \<Longrightarrow> keeps (in_tx d I) (execute stmt)" "keeps (in_tx d I) (query f)"
  "(\<And>t. I t \<Longrightarrow> I (g t)) \<Longrightarrow> keeps (in_tx d I) (update_tables g)"
  "keeps (in_tx d I) utc_now" "keeps (in_tx d I) (new_id p)" "keeps (in_tx d I) (register_after_commit k)"
  unfolding keeps_iff_wp
  by (auto simp: wp_rules in_tx_def stmt_keeps_def register_after_commit_def split: sum.split)

lemma in_tx_transaction [keeps_intros]:
  assumes "\<And>d. keeps (in_tx d I) m"
  shows "keeps (in_tx d I) (transaction m)"
proof (rule keepsI)
  fix w assume w: "in_tx d I w"
  then have "in_tx (Suc d) I (tx_enter w)" by (simp add: in_tx_def)
  then have "in_tx (Suc d) I (snd (m (tx_enter w)))" by (rule keepsD [OF assms _ surjective_pairing])
  then show "in_tx d I (snd (transaction m w))"
    using w by (auto simp: transaction_def in_tx_def split: prod.split sum.split)
qed

lemma resolve_ends: "wp (resolve_message_ingress mid ok oid) (\<lambda>_ w'. ingress_at mid True (conn w')) (\<lambda>_ _. True) w"
  by (auto simp: resolve_message_ingress_def wp_rules get_message_ingress_def update_in_progress_def Let_def
      ingress_at_def fetch_set_where dest: fetch_SomeD split: option.splits)

lemma fail_ends:
  assumes "safe (ingress_at mid False) w"
  shows "wp (fail_message_ingress mid ec em hs er)
    (\<lambda>_ w'. safe (ingress_at mid True) w') (\<lambda>_ _. False) w"
  using assms
  by (auto simp: fail_message_ingress_def wp_rules get_message_ingress_def update_in_progress_def Let_def
      ingress_at_def safe_def fetch_set_where ingress_failed_row_def dest: fetch_SomeD split: option.splits)

lemma or_fail_ingress_ends:
  assumes "safe (ingress_at mid False) w" and "keeps (safe (ingress_at mid False)) m"
    and "wp m Q (\<lambda>_ _. True) w"
  shows "wp (or_fail_ingress mid m) Q (\<lambda>_ w'. ingress_at mid True (conn w')) w"
proof -
  have "wp m (\<lambda>a w'. safe (ingress_at mid False) w' \<and> Q a w') (\<lambda>_ w'. safe (ingress_at mid False) w' \<and> True) w"
    using assms by (intro wp_conj) (auto simp: keeps_iff_wp)
  moreover have "wp (record_message_ingress_failure mid e) (\<lambda>_. wp (raiseM e) Q (\<lambda>_ w'. ingress_at mid True (conn w')))
      (\<lambda>_ w'. ingress_at mid True (conn w')) w'" if "safe (ingress_at mid False) w'" for e w'
    unfolding record_message_ingress_failure_def Let_def wp_bindM wp_returnM
    by (rule wp_mono [OF fail_ends [OF that]]) (auto simp: wp_rules safe_def)
  ultimately show ?thesis
    unfolding or_fail_ingress_def wp_catchM wp_bindM by (elim wp_mono) auto
qed

text \<open>Each way of answering ends the ingress.\<close>

lemma wp_transaction_ends:
  "wp m (\<lambda>_ w'. I (conn w')) (\<lambda>_ _. True) (tx_enter w) \<Longrightarrow>
     wp (transaction m) (\<lambda>_ w'. I (conn w')) (\<lambda>_ _. True) w"
  unfolding wp_transaction by (auto elim: wp_mono)

lemma transition_in_tx: "keeps (in_tx d (ingress_at mid b)) (transition_local_task k s pl ec em er)"
  and enqueue_in_tx: "keeps (in_tx d (ingress_at mid b)) (enqueue_task_execution k qk th pl' v)"
proof -
  have stmts: "stmt_keeps (ingress_at mid b) (insert_task_event_row e)"
    "stmt_keeps (ingress_at mid b) (insert_queued_execution_row q)" for e q
    by (auto simp: stmt_keeps_def insert_task_event_row_def insert_queued_execution_row_def guarded_Inr Let_def
        split: if_splits)
  show "keeps (in_tx d (ingress_at mid b)) (transition_local_task k s pl ec em er)"
    "keeps (in_tx d (ingress_at mid b)) (enqueue_task_execution k qk th pl' v)"
    unfolding transition_local_task_def append_task_event_def enqueue_task_execution_def check_enqueue_def op_reads
    by (intro keeps_intros stmts; simp)+
qed

lemma accept_local_task_ends:
  "wp (accept_local_task_from_message did c mid rk rs ta cf md k th q ro att)
     (\<lambda>_ w'. ingress_at mid True (conn w')) (\<lambda>_ _. True) w"
proof -
  let ?Q = "\<lambda>_ w'. ingress_at mid True (conn w')"
  let ?queue = "\<lambda>decision created. if q then
       bindM (transition_local_task (t_task_id created) QUEUED [] None None False) (\<lambda>task.
       bindM (enqueue_task_execution (t_task_id task) INITIAL (t_runtime_thread_id task) None
                LOCAL_EXECUTION_COMMAND_VERSION) (\<lambda>_. returnM (decision, task)))
     else returnM (decision, created)"
  have queue: "wp (?queue decision created) ?Q (\<lambda>_ _. True) w2"
    if "?Q () w2" "0 < transaction_depth w2" for w2 decision created
  proof -
    have d: "in_tx (transaction_depth w2 - 1) (ingress_at mid True) w2" using that by (simp add: in_tx_def)
    let ?d = "transaction_depth w2 - 1"
    have "keeps (in_tx ?d (ingress_at mid True)) (?queue decision created)"
      by (intro keeps_intros transition_in_tx enqueue_in_tx)
    with d have "wp (?queue decision created) (\<lambda>_. in_tx ?d (ingress_at mid True)) (\<lambda>_. in_tx ?d (ingress_at mid True)) w2"
      by (simp add: keeps_iff_wp)
    then show ?thesis by (rule wp_mono) (simp_all add: in_tx_def)
  qed
  have ok: "tx_keeps (\<lambda>_. True) (resolve_message_ingress mid ok oid)"
    "tx_keeps (\<lambda>_. True) (record_route_decision did c mid rk rs ta cf md)"
    "tx_keeps (\<lambda>_. True) (set_message_ingress_route_decision mid did')"
    "tx_keeps (\<lambda>_. True) (create_local_task k c mid th ro att None None None)" for ok oid did'
    unfolding create_local_task_def create_task_def insert_new_task_def op_reads
    by (intro tx_intros ingress_ops_frame store_ops_respect_transactions; simp)+
  note skip = wp_step_in_tx [where K = "\<lambda>_. True" and R = "\<lambda>_ _. True", OF _ _ _ _ wp_ignore]
  have body: "wp (bindM (record_route_decision did c mid rk rs ta cf md) (\<lambda>decision.
     bindM (set_message_ingress_route_decision mid (r_decision_id decision)) (\<lambda>_.
     bindM (create_local_task k c mid th ro att None None None) (\<lambda>created.
     bindM (resolve_message_ingress mid TASK_OUTCOME (t_task_id created)) (\<lambda>_.
     ?queue decision created))))) ?Q (\<lambda>_ _. True) w1" if "0 < transaction_depth w1" for w1
    by (rule skip [OF ok(2)]; (rule skip [OF ok(3)])?; (rule skip [OF ok(4)])?;
        (rule wp_step_in_tx [where K = "\<lambda>_. True", OF ok(1) _ _ _ resolve_ends])?; (simp add: that queue)?)
  show ?thesis
    unfolding accept_local_task_from_message_def wp_bindM [of "raise_if _ _"] wp_raise_if
    using wp_transaction_ends [OF body [of "tx_enter w"]] by (cases "rk = LOCAL_TASK") simp_all
qed


lemma wp_then_return:
  "wp m (\<lambda>_. P) (\<lambda>_ _. True) w \<Longrightarrow> wp (bindM m (\<lambda>a. returnM (g a))) (\<lambda>_. P) (\<lambda>_ _. True) w"
  by (simp add: wp_bindM wp_returnM_fun)

lemma append_local_reply_ends:
  "wp (append_local_reply c mid decision am parts) (\<lambda>_ w'. ingress_at mid True (conn w')) (\<lambda>_ _. True) w"
  unfolding append_local_reply_def
  by (rule wp_transaction_ends) ((rule wp_then_return, rule resolve_ends | rule wp_last)+)

lemma accept_remote_ends:
  "wp (accept_remote_message c mid ag decision dg remote) (\<lambda>_ w'. ingress_at mid True (conn w')) (\<lambda>_ _. True) w"
  "wp (accept_remote_task c mid ag decision dg remote rtid) (\<lambda>_ w'. ingress_at mid True (conn w')) (\<lambda>_ _. True) w"
  unfolding accept_remote_message_def accept_remote_task_def
  by (rule wp_transaction_ends; (rule wp_then_return, rule resolve_ends | rule wp_last)+)+

lemma handle_local_message_ends:
  "wp (handle_local_message env c mid rd) (\<lambda>_ w'. ingress_at mid True (conn w')) (\<lambda>_ _. True) w"
  unfolding handle_local_message_def
  by ((rule wp_then_return, rule append_local_reply_ends | rule wp_last)+)

lemma handle_remote_agent_ends:
  "wp (handle_remote_agent env c mid rq rd) (\<lambda>_ w'. ingress_at mid True (conn w')) (\<lambda>_ _. True) w"
proof -
  have "wp (accept_remote_result c mid ag decision dg remote) (\<lambda>_ w'. ingress_at mid True (conn w')) (\<lambda>_ _. True) w"
    for ag decision dg remote w
    unfolding accept_remote_result_def
    by (simp add: wp_then_return accept_remote_ends wp_raiseM split: option.split)
  then show ?thesis unfolding handle_remote_agent_def by (intro wp_last)
qed

lemma handle_local_task_ends:
  assumes "env_keeps (safe (ingress_at mid True)) env" and "safe (\<lambda>_. True) w"
  shows "wp (handle_local_task env c mid rd) (\<lambda>_ w'. ingress_at mid True (conn w')) (\<lambda>_ _. True) w"
proof -
  let ?accept = "accept_routed_task env c mid rd"
  have acc: "wp ?accept (\<lambda>_ w'. ingress_at mid True (conn w')) (\<lambda>_ _. True) w" for w
    unfolding accept_routed_task_def by (intro wp_last accept_local_task_ends)
  have "tx_keeps (\<lambda>_. True) ?accept"
    unfolding accept_routed_task_def
    by (intro tx_intros accept_task_frame ingress_ops_frame transition_respects_transactions; simp)
  then have "keeps (safe (\<lambda>_. True)) (transaction ?accept)" by (intro keeps_of_tx tx_transaction)
  then have committed: "wp (transaction ?accept) (\<lambda>_. safe (ingress_at mid True)) (\<lambda>_ _. True) w"
    by (rule wp_mono [OF wp_conj [OF wp_safe [OF _ assms(2)] wp_transaction_ends [OF acc]]])
       (auto simp: safe_def)
  show ?thesis
    unfolding handle_local_task_def execute_lifecycle_def option.case
    unfolding wp_bindM wp_returnM_fun wp_bindM_fun Let_def
    by (rule wp_mono [OF committed], rule wp_mono [OF wp_safe [OF ingress_row.start_committed_local_task_keeps [OF assms(1)]]])
       (auto simp: safe_def wp_returnM)
qed


lemma append_message_id:
  "wp (append_message mid c role parts ko md) (\<lambda>m _. m_message_id m = mid) (\<lambda>_ _. True) w"
  unfolding append_message_def append_new_message_def op_reads
  by (auto simp: wp_rules dest: fetch_SomeD split: option.splits sum.splits)

interpretation atomic_core: core_store "\<lambda>_. True"
  by (intro core_store.intro core_store_axioms.intro atomic_recorders.recorder_store_axioms;
      (rule keeps_of_tx)?; intro create_context_frame ingress_ops_frame accept_task_frame queue_ops_frame
        agent_ops_frame remote_ops_frame approval_frame store_ops_respect_transactions
        transition_respects_transactions append_message_frame; simp)

lemma reserve_in_tx:
  "keeps (in_tx d (\<lambda>t. tb_message_ingress t = X)) (resolve_context_id ci title)"
  "keeps (in_tx d (\<lambda>t. tb_message_ingress t = X)) (append_message mid c role parts ko md)"
proof -
  have stmts: "stmt_keeps (\<lambda>t. tb_message_ingress t = X) (insert_context_row cr)"
    "stmt_keeps (\<lambda>t. tb_message_ingress t = X) (insert_message_row mr)"
    "stmt_keeps (\<lambda>t. tb_message_ingress t = X) (bump_message_sequence cid now)" for cr mr cid now
    by (auto simp: stmt_keeps_def insert_context_row_def insert_message_row_def bump_message_sequence_def
        guarded_Inr split: if_splits)
  show "keeps (in_tx d (\<lambda>t. tb_message_ingress t = X)) (resolve_context_id ci title)"
    "keeps (in_tx d (\<lambda>t. tb_message_ingress t = X)) (append_message mid c role parts ko md)"
    unfolding resolve_context_id_def create_context_def append_message_def append_new_message_def op_reads
    by (intro keeps_intros stmts)+
qed

lemma reserve_creates:
  assumes "fetch i_message_id mid (tb_message_ingress (conn w)) = None"
  shows "wp (reserve_message_ingress mid c fp) (\<lambda>(i, created) w'. created \<and> ingress_at mid False (conn w'))
    (\<lambda>_ _. True) w"
  using assms
  by (auto simp: reserve_message_ingress_def wp_rules op_reads insert_ingress_or_ignore_def guarded_def
      ingress_at_def table_simps split: option.splits sum.splits)

lemma reserve_request_new:
  assumes "safe (\<lambda>_. True) w" and "fetch i_message_id mid (tb_message_ingress (conn w)) = None"
  shows "wp (reserve_request env rq mid)
    (\<lambda>x w'. safe (\<lambda>_. True) w' \<and> (\<exists>c m. x = Inr (c, m) \<and> m_message_id m = mid \<and> ingress_at mid False (conn w')))
    (\<lambda>_ w'. safe (\<lambda>_. True) w' \<and> conn w' = conn w) w"
  unfolding reserve_request_def Let_def
proof (rule transaction_restores [OF _ assms(1), where Q = "\<lambda>x w'. \<exists>c m. x = Inr (c, m) \<and>
      m_message_id m = mid \<and> ingress_at mid False (conn w')"], goal_cases)
  case 1
  show ?case
    unfolding resolve_context_id_def op_reads
    by (intro tx_intros atomic_core.core_ops atomic_core.existing_ingress_keeps)
next
  case 2
  let ?X = "tb_message_ingress (conn w)" and ?d = "transaction_depth w"
  let ?J = "in_tx ?d (\<lambda>t. tb_message_ingress t = ?X)"
  let ?Q = "\<lambda>x w'. \<exists>c m. x = Inr (c, m) \<and> m_message_id m = mid \<and> ingress_at mid False (conn w')"
  have reserve: "wp (reserve_message_ingress mid c fp) (\<lambda>(i, created). wp (if \<not> created then f i else returnM (Inr (c, m)))
       ?Q (\<lambda>_ _. True)) (\<lambda>_ _. True) w2"
    if "?J w2" "m_message_id m = mid" for c fp f m w2
    by (rule wp_mono [OF reserve_creates])
       (use that assms(2) in \<open>auto simp: in_tx_def wp_rules\<close>)
  have append: "wp (append_message mid c role parts ko md) (\<lambda>m w'. ?J w' \<and> m_message_id m = mid) (\<lambda>_ _. True) w1"
    if "?J w1" for c role parts ko md w1
    by (rule wp_mono [OF wp_conj [OF reserve_in_tx(2) [unfolded keeps_iff_wp, rule_format, OF that] append_message_id]])
       auto
  have resolve: "wp (resolve_context_id ci title) (\<lambda>_. ?J) (\<lambda>_ _. True) w1" if "?J w1" for ci title w1
    by (rule wp_mono [OF reserve_in_tx(1) [unfolded keeps_iff_wp, rule_format, OF that]]) auto
  have enter: "?J (tx_enter w)" by (simp add: in_tx_def)
  have none: "fetch i_message_id mid (tb_message_ingress (conn (tx_enter w))) = None" using assms(2) by simp
  let ?tail = "\<lambda>title. bindM (resolve_context_id (rq_context_id rq) title) (\<lambda>c.
      bindM (append_message mid c (rq_role rq) (rq_parts rq) None (rq_metadata rq)) (\<lambda>m.
      bindM (reserve_message_ingress mid c (message_request_fingerprint env rq)) (\<lambda>(i, created).
      if \<not> created then bindM (prepared_existing_message_ingress env rq (message_request_fingerprint env rq) i)
         (\<lambda>p. returnM (Inl p)) else returnM (Inr (c, m)))))"
  have tail: "wp (?tail title) ?Q (\<lambda>_ _. True) (tx_enter w)" for title
    unfolding wp_bindM [of "resolve_context_id _ _"] wp_bindM_fun
    by (rule wp_mono [OF resolve [OF enter]], rule wp_mono [OF append], assumption)
       (rule wp_mono [OF reserve], auto)
  show ?case
    unfolding get_message_ingress_def get_message_def wp_bindM [of "query _"] wp_query none option.case
      wp_bindM [of "raise_if _ _"] wp_bindM [of "liftE _"] wp_raise_if wp_liftE
    using tail by (auto split: sum.split)
next
  case (3 a w')
  then show ?case by auto
qed


lemma safe_at: "safe (\<lambda>_. True) w \<Longrightarrow> I (conn w) \<Longrightarrow> safe I w"
  by (simp add: safe_def)

lemma reads_only:
  "wp (validate_explicit_route_metadata env md) (\<lambda>_ w'. w' = w) (\<lambda>_ w'. w' = w) w"
  unfolding validate_explicit_route_metadata_def usable_agent_def op_reads
  by (auto simp: wp_rules Let_def split: option.split)

lemma dispatch_message_ends:
  assumes "env_keeps (safe (ingress_at mid True)) env" and "safe (\<lambda>_. True) w"
  shows "wp (dispatch_message env rq c mid rd) (\<lambda>_ w'. ingress_at mid True (conn w')) (\<lambda>_ _. True) w"
  unfolding dispatch_message_def
  using handle_local_message_ends handle_local_task_ends [OF assms] handle_remote_agent_ends
  by (simp split: route_decision_kind.split)

lemma dispatch_message_keeps:
  assumes "env_keeps (safe (ingress_at k b)) env"
  shows "keeps (safe (ingress_at k b)) (dispatch_message env rq c mid rd)"
  unfolding dispatch_message_def
  by (intro keeps_intros ingress_row.handle_local_message_keeps ingress_row.handle_local_task_keeps
      ingress_row.handle_remote_agent_keeps assms)

lemma or_fail_dispatch_ends:
  assumes "safe (ingress_at mid False) w" and "env_keeps (safe (ingress_at mid False)) env"
    and "env_keeps (safe (ingress_at mid True)) env"
  shows "wp (or_fail_ingress mid (dispatch_message env rq c mid rd)) (\<lambda>_ w'. ingress_at mid True (conn w'))
    (\<lambda>_ w'. ingress_at mid True (conn w')) w"
proof -
  have "safe (\<lambda>_. True) w" using assms(1) by (simp add: safe_def)
  from or_fail_ingress_ends [OF assms(1) dispatch_message_keeps [OF assms(2)] dispatch_message_ends [OF assms(3) this]]
  show ?thesis .
qed

text \<open>Preparing the route of a Message that has no ingress yet leaves it in progress, or fails it, or was
  refused before anything was stored.\<close>

lemma prepare_new_message:
  assumes "rq_message_id rq = Some mid" and "mid \<noteq> []" and "safe (\<lambda>_. True) w"
    and "fetch i_message_id mid (tb_message_ingress (conn w)) = None"
    and "env_keeps (safe (ingress_at mid False)) env"
  shows "wp (prepare_message_route env rq)
    (\<lambda>p w'. pm_existing_result p = None \<and> pm_route_decision p \<noteq> None \<and> pm_input_message_id p = mid \<and>
       safe (ingress_at mid False) w')
    (\<lambda>_ w'. ingress_at mid True (conn w') \<or> conn w' = conn w) w"
proof -
  let ?E = "\<lambda>_ w'. ingress_at mid True (conn w') \<or> conn w' = conn w"
  have route: "wp (or_fail_ingress mid (bindM (router_context_through_input c mid) (ce_decide env rq c mid)))
      (\<lambda>_. safe (ingress_at mid False)) ?E w2" if "safe (ingress_at mid False) w2" for c w2
  proof -
    have "keeps (safe (ingress_at mid False)) (bindM (router_context_through_input c mid) (ce_decide env rq c mid))"
      using assms(5) by (intro keeps_intros ingress_row.top_steps) (simp add: env_keeps_def)
    from or_fail_ingress_ends [OF that this wp_mono [OF wp_safe [OF this that]]] show ?thesis
      by (rule wp_mono) auto
  qed
  let ?rest = "\<lambda>x. case x of Inl prepared \<Rightarrow> returnM prepared
      | Inr (c, m) \<Rightarrow> bindM (or_fail_ingress (m_message_id m)
          (bindM (router_context_through_input c (m_message_id m)) (ce_decide env rq c (m_message_id m))))
          (\<lambda>rd. returnM \<lparr>pm_context_id = c, pm_input_message_id = m_message_id m,
             pm_route_decision = Some rd, pm_existing_result = None\<rparr>)"
  let ?P = "\<lambda>p w'. pm_existing_result p = None \<and> pm_route_decision p \<noteq> None \<and> pm_input_message_id p = mid \<and>
      safe (ingress_at mid False) w'"
  have rest: "wp (?rest x) ?P ?E w2"
    if "safe (\<lambda>_. True) w2 \<and> (\<exists>c m. x = Inr (c, m) \<and> m_message_id m = mid \<and> ingress_at mid False (conn w2))" for x w2
  proof -
    from that obtain c m where "x = Inr (c, m)" "m_message_id m = mid" "safe (ingress_at mid False) w2"
      by (auto intro: safe_at)
    then show ?thesis by (simp add: wp_bindM wp_returnM_fun route)
  qed
  have prepared: "wp (reserve_request env rq mid) (\<lambda>x. wp (?rest x) ?P ?E) ?E w"
    by (rule wp_mono [OF reserve_request_new [OF assms(3,4)]]) (use rest in auto)
  have mid: "request_message_id rq = returnM mid" using assms(1,2) by (simp add: request_message_id_def)
  show ?thesis
    unfolding prepare_message_route_def mid bindM_returnM wp_bindM [of "raise_if _ _"] wp_raise_if
      wp_bindM [of "validate_explicit_route_metadata _ _"] wp_bindM [of "reserve_request _ _ _"]
    using prepared by (auto elim!: wp_mono intro!: wp_mono [OF reads_only])
qed

text \<open>
  C13. An admitted Message is answered or failed, never left hanging.  For a request with
  a Message id that has no ingress yet, and collaborators that neither remove nor reopen
  an ingress: when \<open>admit_message\<close> is over, by returning a result or by raising, either the
  request was refused before anything was stored, and the database is unchanged, or the
  Message's ingress is stored and has ended, as resolved or failed.
\<close>

theorem admitted_message_settles:
  assumes "rq_message_id rq = Some mid" and "mid \<noteq> []" and "safe (\<lambda>_. True) w"
    and "fetch i_message_id mid (tb_message_ingress (conn w)) = None"
    and "env_keeps (safe (ingress_at mid False)) env" and "env_keeps (safe (ingress_at mid True)) env"
  shows "wp (admit_message env rq) (\<lambda>_ w'. ingress_at mid True (conn w'))
    (\<lambda>_ w'. ingress_at mid True (conn w') \<or> conn w' = conn w) w"
  unfolding admit_message_def wp_bindM [of "prepare_message_route _ _"]
  by (rule wp_mono [OF prepare_new_message [OF assms(1-5)]])
     (use wp_mono [OF or_fail_dispatch_ends [OF _ assms(5,6)]] in \<open>auto simp: wp_rules\<close>)

theorem admitted_message_settles_witness:
  "wp (admit_message sample_env \<lparr>rq_context_id = None, rq_message_id = Some ''m1'', rq_role = USER,
        rq_parts = [PDict [(''text'', PStr ''hi'')]], rq_metadata = []\<rparr>)
     (\<lambda>_ w'. ingress_at ''m1'' True (conn w'))
     (\<lambda>_ w'. ingress_at ''m1'' True (conn w') \<or> conn w' = sample_tables) (world_of sample_tables)"
proof -
  have "env_keeps (safe (ingress_at k b)) sample_env" for k b
    by (simp add: env_keeps_def sample_env_def runner_keeps_def sample_runner_def)
       (intro conjI allI keeps_intros keeps_of_tx ledger_frame; simp)
  then show ?thesis
    by (intro wp_mono [OF admitted_message_settles])
       (simp_all add: safe_def sample_defs table_simps)
qed

section \<open>Replaying a Message\<close>

text \<open>
  The result that is recorded for a resolved ingress: its route decision belongs to the Message, and
  its outcome, of the kind the decision asks for, is stored.
\<close>

definition recorded_result :: "core_env \<Rightarrow> tables \<Rightarrow> message_ingress_record \<Rightarrow> main_agent_result \<Rightarrow> bool" where
  "recorded_result env t i res \<longleftrightarrow>
     (\<exists>did oid decision. i_route_decision_id i = Some did \<and> i_outcome_id i = Some oid \<and>
        fetch r_decision_id did (tb_route_decisions t) = Some decision \<and>
        r_context_id decision = i_context_id i \<and> r_message_id decision = i_message_id i \<and>
        (case r_kind decision of
           LOCAL_MESSAGE \<Rightarrow> i_outcome_kind i = Some MESSAGE_OUTCOME \<and>
             (\<exists>m. fetch m_message_id oid (tb_messages t) = Some m \<and>
                res = LocalMessageResult (i_context_id i) oid (i_message_id i) did (m_parts m))
         | LOCAL_TASK \<Rightarrow> i_outcome_kind i = Some TASK_OUTCOME \<and> has_task t oid \<and>
             res = LocalTaskResult (i_context_id i) oid (i_message_id i) did
         | REMOTE_AGENT \<Rightarrow> i_outcome_kind i = Some DELEGATION_OUTCOME \<and>
             (\<exists>d. fetch d_delegation_id oid (tb_delegated_tasks t) = Some d \<and>
                (if d_result_kind d = ''message'' then
                   (\<exists>v m. dget (d_metadata d) ''localMessageId'' = v \<and> truthy v \<and>
                      fetch m_message_id (py_str (ce_repr env) v) (tb_messages t) = Some m \<and>
                      res = RemoteAgentResult (i_context_id i) (i_message_id i) (d_remote_agent_id d) did oid
                        (Some (m_message_id m)) None (m_parts m))
                 else
                   (\<exists>k. d_local_task_id d = Some k \<and> has_task t k \<and>
                      res = RemoteAgentResult (i_context_id i) (i_message_id i) (d_remote_agent_id d) did oid None (Some k) [])))))"

lemma result_recorded:
  "wp (result_from_message_ingress env i) (\<lambda>res w'. w' = w \<and> recorded_result env (conn w) i res) (\<lambda>_ w'. w' = w) w"
proof (cases "i_route_decision_id i"; cases "i_outcome_kind i"; cases "i_outcome_id i")
  fix did kind oid assume some: "i_route_decision_id i = Some did" "i_outcome_kind i = Some kind" "i_outcome_id i = Some oid"
  have outcome: "wp (outcome_result env i decision kind oid) (\<lambda>res w'. w' = w \<and> recorded_result env (conn w) i res) (\<lambda>_ w'. w' = w) w"
    if "fetch r_decision_id did (tb_route_decisions (conn w)) = Some decision" "r_context_id decision = i_context_id i"
      "r_message_id decision = i_message_id i" for decision
    using that some fetch_SomeD [OF that(1)]
    by (cases "r_kind decision")
       (auto simp: outcome_result_def delegation_result_def recorded_result_def has_task_def op_reads wp_rules Let_def
         dest: fetch_SomeD split: option.split)
  show ?thesis
    unfolding result_from_message_ingress_def some prod.case option.case op_reads
    using outcome by (auto simp: wp_rules split: option.split)
qed (simp_all add: result_from_message_ingress_def wp_rules)

lemma recorded_result_found:
  assumes "recorded_result env (conn w) i res"
  shows "wp (result_from_message_ingress env i) (\<lambda>r _. r = res) (\<lambda>_ _. False) w"
proof -
  obtain did oid decision where some: "i_route_decision_id i = Some did" "i_outcome_id i = Some oid"
      "fetch r_decision_id did (tb_route_decisions (conn w)) = Some decision"
      "r_context_id decision = i_context_id i" "r_message_id decision = i_message_id i"
    using assms by (auto simp: recorded_result_def)
  show ?thesis
    using assms some fetch_SomeD [OF some(3)]
    by (cases "r_kind decision")
       (auto simp: result_from_message_ingress_def outcome_result_def delegation_result_def recorded_result_def has_task_def
         op_reads wp_rules Let_def dest: fetch_SomeD; blast dest: fetch_SomeD)+
qed

lemma existing_ingress_reads:
  "wp (prepared_existing_message_ingress env rq fp i)
     (\<lambda>p w'. w' = w \<and> (\<exists>r. pm_existing_result p = Some r \<and> recorded_result env (conn w) i r) \<and> i_state i = RESOLVED \<and>
        fp = i_request_fingerprint i)
     (\<lambda>_ w'. w' = w) w"
  unfolding prepared_existing_message_ingress_def get_message_def
  by (auto simp: wp_rules intro!: wp_mono [OF result_recorded] split: option.split message_ingress_state.split)

text \<open>What the answer to a replayed request is computed from.\<close>

definition replay :: "core_env \<Rightarrow> main_agent_request \<Rightarrow> message_ingress_record \<Rightarrow> main_agent_result py" where
  "replay env rq i =
     bindM (raise_if (rq_role rq \<noteq> USER) (ValueError ''main agent request role must be user'')) (\<lambda>_.
     bindM (validate_explicit_route_metadata env (rq_metadata rq)) (\<lambda>_.
     bindM (transaction (prepared_existing_message_ingress env rq (message_request_fingerprint env rq) i)) (\<lambda>p.
     case pm_existing_result p of Some r \<Rightarrow> returnM r | None \<Rightarrow> raiseM (RuntimeError ''message route was not prepared''))))"

lemma admit_replay:
  assumes "rq_message_id rq = Some mid" and "mid \<noteq> []"
    and "fetch i_message_id mid (tb_message_ingress (conn w)) = Some i"
  shows "admit_message env rq w = replay env rq i w"
proof -
  have mid: "request_message_id rq = returnM mid" using assms(1,2) by (simp add: request_message_id_def)
  have validate: "\<exists>r. validate_explicit_route_metadata env (rq_metadata rq) w = (r, w)"
    using reads_only [of env "rq_metadata rq" w] by (auto simp: wp_def split: prod.splits sum.splits)
  have "\<exists>r. prepared_existing_message_ingress env rq fp i v = (r, v) \<and>
      (\<forall>p. r = Inr p \<longrightarrow> pm_existing_result p \<noteq> None)" for fp v
    using existing_ingress_reads [of env rq fp i v] by (auto simp: wp_def split: prod.splits sum.splits)
  then obtain r where r: "prepared_existing_message_ingress env rq (message_request_fingerprint env rq) i (tx_enter w)
      = (r, tx_enter w)" "\<And>p. r = Inr p \<Longrightarrow> pm_existing_result p \<noteq> None" by blast
  show ?thesis
    using validate r assms(3)
    by (auto simp: admit_message_def replay_def prepare_message_route_def mid bindM_returnM reserve_request_def
        bindM_def raise_if_def returnM_def raiseM_def transaction_def get_message_ingress_def query_def getM_def Let_def
        split: sum.splits option.splits)
qed

lemma replay_collaborators:
  "replay (env\<lparr>ce_respond := f, ce_decide := g, ce_runner := r, ce_submitter := s\<rparr>) rq i = replay env rq i"
  by (cases env) (simp only: core_env.update_convs core_env.select_convs replay_def
      validate_explicit_route_metadata_def usable_agent_def prepared_existing_message_ingress_def
      result_from_message_ingress_def outcome_result_def delegation_result_def
      message_request_fingerprint_def message_fingerprint_def)

lemma replay_reads:
  assumes "safe (\<lambda>_. True) w"
  shows "wp (replay env rq i)
    (\<lambda>res w'. conn w' = conn w \<and> durable w' = durable w \<and> i_state i = RESOLVED \<and>
       message_request_fingerprint env rq = i_request_fingerprint i \<and> recorded_result env (conn w) i res)
    (\<lambda>_ w'. conn w' = conn w \<and> durable w' = durable w) w"
proof -
  let ?Q = "\<lambda>p w'. (\<exists>r. pm_existing_result p = Some r \<and> recorded_result env (conn w) i r) \<and> conn w' = conn w \<and> durable w' = durable w \<and>
      i_state i = RESOLVED \<and> message_request_fingerprint env rq = i_request_fingerprint i"
  have "wp (transaction (prepared_existing_message_ingress env rq (message_request_fingerprint env rq) i)) ?Q
      (\<lambda>_ w'. conn w' = conn w \<and> durable w' = durable w) w"
    unfolding wp_transaction using assms
    by (auto simp: safe_def intro!: wp_mono [OF existing_ingress_reads])
  then have "wp (bindM (transaction (prepared_existing_message_ingress env rq (message_request_fingerprint env rq) i))
      (\<lambda>p. case pm_existing_result p of Some r \<Rightarrow> returnM r | None \<Rightarrow> raiseM (RuntimeError ''message route was not prepared'')))
      (\<lambda>res w'. conn w' = conn w \<and> durable w' = durable w \<and> i_state i = RESOLVED \<and>
         message_request_fingerprint env rq = i_request_fingerprint i \<and> recorded_result env (conn w) i res)
      (\<lambda>_ w'. conn w' = conn w \<and> durable w' = durable w) w"
    unfolding wp_bindM by (rule wp_mono) (auto simp: wp_rules)
  then show ?thesis
    unfolding replay_def wp_bindM [of "raise_if _ _"] wp_raise_if wp_bindM [of "validate_explicit_route_metadata _ _"]
    by (auto intro!: wp_mono [OF reads_only])
qed

text \<open>The request is the one the ingress was made for, and its Message is stored.\<close>

definition same_request :: "core_env \<Rightarrow> tables \<Rightarrow> main_agent_request \<Rightarrow> message_ingress_record \<Rightarrow> bool" where
  "same_request env t rq i \<longleftrightarrow> rq_role rq = USER \<and> (rq_context_id rq = None \<or> rq_context_id rq = Some (i_context_id i)) \<and>
     message_request_fingerprint env rq = i_request_fingerprint i \<and>
     (\<exists>m. fetch m_message_id (i_message_id i) (tb_messages t) = Some m \<and> m_context_id m = i_context_id i)"

lemma replay_answers:
  assumes "same_request env (conn w) rq i" and "i_state i = RESOLVED" and "recorded_result env (conn w) i res"
    and "validate_explicit_route_metadata env (rq_metadata rq) w = (Inr (), w)"
  shows "fst (replay env rq i w) = Inr res"
proof -
  have ctx: "(case rq_context_id rq of None \<Rightarrow> False | Some c \<Rightarrow> c \<noteq> i_context_id i) \<longleftrightarrow> False"
    using assms(1) by (auto simp: same_request_def split: option.split)
  have "wp (prepared_existing_message_ingress env rq (message_request_fingerprint env rq) i)
      (\<lambda>p _. pm_existing_result p = Some res) (\<lambda>_ _. False) (tx_enter w)"
    unfolding prepared_existing_message_ingress_def get_message_def
    using assms(1-3)
    by (auto simp: wp_rules ctx same_request_def intro!: wp_mono [OF recorded_result_found [of env _ i res]])
  then show ?thesis
    using assms(1,4)
    by (auto simp: replay_def same_request_def bindM_def raise_if_def returnM_def transaction_def wp_def
        split: prod.splits sum.splits)
qed

text \<open>
  C17. Sending a Message again is safe, and gives the recorded result.  For a request whose Message id
  already has an ingress, admission writes nothing, whatever happens.  It answers only when
  that ingress is resolved and the request's fingerprint is the stored one, and then with the
  result that is recorded: the stored answer, the Task or the delegation of this Message, with
  the ids of the Context, the Message and the route decision.  It does answer when the request is the
  same, its route metadata is accepted and a result is recorded.  Its answer or exception does not
  depend on the router, the responder, the runner or the submitter: they are not called again.
\<close>

theorem message_replay:
  assumes "rq_message_id rq = Some mid" and "mid \<noteq> []" and "safe (\<lambda>_. True) w"
    and "fetch i_message_id mid (tb_message_ingress (conn w)) = Some i"
  shows "wp (admit_message env rq)
      (\<lambda>res w'. conn w' = conn w \<and> durable w' = durable w \<and> i_state i = RESOLVED \<and>
         i_request_fingerprint i = message_request_fingerprint env rq \<and> recorded_result env (conn w) i res)
      (\<lambda>_ w'. conn w' = conn w \<and> durable w' = durable w) w \<and>
    (\<forall>res. same_request env (conn w) rq i \<and> i_state i = RESOLVED \<and> recorded_result env (conn w) i res \<and>
       validate_explicit_route_metadata env (rq_metadata rq) w = (Inr (), w) \<longrightarrow> fst (admit_message env rq w) = Inr res) \<and>
    admit_message (env\<lparr>ce_respond := f, ce_decide := g, ce_runner := r, ce_submitter := s\<rparr>) rq w =
      admit_message env rq w"
proof (intro conjI)
  show "admit_message (env\<lparr>ce_respond := f, ce_decide := g, ce_runner := r, ce_submitter := s\<rparr>) rq w =
      admit_message env rq w"
    by (simp add: admit_replay [OF assms(1,2,4)] replay_collaborators)
  show "\<forall>res. same_request env (conn w) rq i \<and> i_state i = RESOLVED \<and> recorded_result env (conn w) i res \<and>
       validate_explicit_route_metadata env (rq_metadata rq) w = (Inr (), w) \<longrightarrow> fst (admit_message env rq w) = Inr res"
    using replay_answers by (simp add: admit_replay [OF assms(1,2,4)])
qed (use replay_reads [OF assms(3), of env rq i] admit_replay [OF assms(1,2,4), of env] in \<open>simp add: wp_def eq_commute\<close>)

text \<open>A Message that was answered by a Message, sent once more.\<close>

definition answered_ingress :: message_ingress_record where
  "answered_ingress = sample_ingress\<lparr>i_state := RESOLVED, i_route_decision_id := Some ''route'',
     i_outcome_kind := Some MESSAGE_OUTCOME, i_outcome_id := Some ''reply''\<rparr>"

definition answered_tables :: tables where
  "answered_tables = sample_tables\<lparr>tb_message_ingress := [answered_ingress],
     tb_route_decisions := [\<lparr>r_decision_id = ''route'', r_context_id = ''ctx'', r_message_id = ''msg'', r_kind = LOCAL_MESSAGE,
       r_target_agent_id = None, r_reason = [], r_confidence = None, r_metadata = [], r_created_at = 0\<rparr>],
     tb_messages := tb_messages sample_tables @ [sample_message\<lparr>m_message_id := ''reply'', m_role := AGENT,
       m_parts := [PDict [(''text'', PStr ''hello'')]]\<rparr>]\<rparr>"

theorem message_replay_witness:
  "fst (admit_message sample_env \<lparr>rq_context_id = None, rq_message_id = Some ''msg'', rq_role = USER,
        rq_parts = [PDict [(''text'', PStr ''hi'')]], rq_metadata = []\<rparr> (world_of answered_tables)) =
     Inr (LocalMessageResult ''ctx'' ''reply'' ''msg'' ''route'' [PDict [(''text'', PStr ''hello'')]])"
proof -
  let ?rq = "\<lparr>rq_context_id = None, rq_message_id = Some ''msg'', rq_role = USER,
        rq_parts = [PDict [(''text'', PStr ''hi'')]], rq_metadata = []\<rparr>" and ?w = "world_of answered_tables"
  have accepted: "case fst (validate_explicit_route_metadata sample_env [] ?w) of Inr () \<Rightarrow> True | Inl _ \<Rightarrow> False"
    by code_simp
  have "recorded_result sample_env (conn ?w) answered_ingress
      (LocalMessageResult ''ctx'' ''reply'' ''msg'' ''route'' [PDict [(''text'', PStr ''hello'')]])"
    by (simp add: recorded_result_def answered_tables_def answered_ingress_def sample_defs table_simps)
  moreover have "same_request sample_env (conn ?w) ?rq answered_ingress"
    by (simp add: same_request_def answered_tables_def answered_ingress_def sample_defs table_simps sample_env_def
        message_request_fingerprint_def message_fingerprint_def)
  moreover have "validate_explicit_route_metadata sample_env [] ?w = (Inr (), ?w)"
    using reads_only [of sample_env "[]" ?w] accepted by (auto simp: wp_def split: prod.splits sum.splits)
  moreover have "safe (\<lambda>_. True) ?w" by (simp add: safe_def)
  moreover have "fetch i_message_id ''msg'' (tb_message_ingress (conn ?w)) = Some answered_ingress"
    by (simp add: answered_tables_def answered_ingress_def sample_defs table_simps)
  ultimately show ?thesis
    using message_replay [of ?rq "''msg''" ?w answered_ingress sample_env, THEN conjunct2, THEN conjunct1]
    by (simp add: answered_ingress_def)
qed

section \<open>Cancellation\<close>

definition canceled_at :: "string \<Rightarrow> task_status list \<Rightarrow> task_record \<Rightarrow> tables \<Rightarrow> bool" where
  "canceled_at k h y t \<longleftrightarrow> fetch t_task_id k (tb_tasks t) = Some y \<and> t_status y = CANCELED \<and>
     history k t = h \<and>
     fetch q_task_id k (tb_queued_executions t) = None \<and> fetch p_task_id k (tb_pending_continuations t) = None \<and>
     (\<forall>v \<in> set (tb_tool_invocations t). v_task_id v = k \<longrightarrow> v_status v \<noteq> PREPARED)"

lemma history_execution_tables [simp]:
  "history k (t\<lparr>tb_tool_invocations := a\<rparr>) = history k t"
  "history k (t\<lparr>tb_pending_continuations := b\<rparr>) = history k t"
  by (simp_all add: history_def events_of_def)

lemma cancel_idle:
  assumes "event_log_ok (conn w)" and "fetch t_task_id k (tb_tasks (conn w)) = Some x"
    and "t_assigned_agent_id x = None" and "local_step (t_status x) CANCELED"
    and "dumps_dict payload = Inr pl" and "0 < transaction_depth w"
  shows "wp (cancel_idle_task k reason payload)
    (\<lambda>cc w'. cc_active_runtime_thread_id cc = None \<and> canceled_at k (history k (conn w) @ [CANCELED]) (cc_task cc) (conn w'))
    (\<lambda>_ _. False) w"
proof -
  have ne: "t_status x \<noteq> CANCELED" using assms(4) by (auto simp: local_step_iff)
  have rows: "\<forall>v \<in> set (set_where (\<lambda>v. v_task_id v = k \<and> v_status v = PREPARED) (canceled_row rs now) vs).
      v_task_id v = k \<longrightarrow> v_status v \<noteq> PREPARED" for rs now vs
    by (auto simp: ball_set_where)
  show ?thesis
    unfolding cancel_idle_task_def wp_bindM [of "transition_local_task _ _ _ _ _ _"]
    by (subst wp_transition_local_task [OF assms(1)])
       (use assms ne rows in \<open>simp add: Let_def wp_rules canceled_at_def cancel_prepared_tool_invocations_def
         set_invocations_def clear_pending_continuation_def clear_queued_task_execution_def delete_pending_def
         delete_queued_def table_simps tb_tasks_set_task\<close>)
qed


lemma registered_sets [simp]: "active_task_ids (registered k w) = active_task_ids w"
  by (simp add: registered_def)

lemma request_cancel:
  assumes "event_log_ok (conn w)" and "fetch t_task_id k (tb_tasks (conn w)) = Some x"
    and "t_assigned_agent_id x = None" and "t_status x = RUNNING"
    and "dumps_dict payload = Inr pl" and "0 < transaction_depth w"
  shows "wp (transition_local_task k CANCEL_REQUESTED payload None None False)
    (\<lambda>_ w'. event_log_ok (conn w') \<and> history k (conn w') = history k (conn w) @ [CANCEL_REQUESTED] \<and>
       (\<exists>y. fetch t_task_id k (tb_tasks (conn w')) = Some y \<and> t_assigned_agent_id y = None \<and> t_status y = CANCEL_REQUESTED) \<and>
       0 < transaction_depth w' \<and> active_task_ids w' = active_task_ids w)
    (\<lambda>_ _. False) w"
  by (subst wp_transition_local_task [OF assms(1)])
     (use assms in \<open>simp add: Let_def local_step_iff event_log_add_event event_log_set_task has_task_def
       tb_tasks_set_task table_simps\<close>)

lemma cancel_payload_json:
  "\<exists>pl. dumps_dict (case reason of None \<Rightarrow> [] | Some r \<Rightarrow> if r = [] then [] else [(''reason'', PStr r)]) = Inr pl"
  by (auto simp: dumps_dict_def dumps_def split: option.split)

text \<open>
  Canceling a local Task no worker holds ends it.  For a locally owned Task that has
  not ended, whose cancellation has not been requested yet and which no worker of this
  process is executing, \<open>cancel_task\<close> returns the Task as canceled, and in one commit its
  history gains the cancellation (by way of the request, if it was running), its queued
  command and its continuation are gone and none of its tool invocations is left
  prepared.  No collaborator is called.
\<close>

theorem cancel_idle_task_ends:
  assumes "task_inv (conn w)" and "safe (\<lambda>_. True) w"
    and "fetch t_task_id k (tb_tasks (conn w)) = Some x" and "t_assigned_agent_id x = None"
    and "\<not> is_terminal_task_status (t_status x)" and "t_status x \<noteq> CANCEL_REQUESTED"
    and "k \<notin> active_task_ids w"
  shows "wp (cancel_task env k reason)
    (\<lambda>y w'. safe (\<lambda>_. True) w' \<and>
       canceled_at k (history k (conn w) @ (if t_status x = RUNNING then [CANCEL_REQUESTED, CANCELED] else [CANCELED]))
         y (conn w'))
    (\<lambda>_ _. False) w"
proof -
  have log: "event_log_ok (conn w)" using assms(1) by (simp add: task_inv_def)
  obtain pl where pl: "dumps_dict (case reason of None \<Rightarrow> [] | Some r \<Rightarrow> if r = [] then [] else [(''reason'', PStr r)]) = Inr pl"
    using cancel_payload_json by blast
  let ?h = "history k (conn w) @ (if t_status x = RUNNING then [CANCEL_REQUESTED, CANCELED] else [CANCELED])"
  let ?Q = "\<lambda>cc w'. cc_active_runtime_thread_id cc = None \<and> canceled_at k ?h (cc_task cc) (conn w')"
  have commit: "wp (commit_cancellation env k reason) ?Q (\<lambda>_ _. False) (tx_enter w)"
  proof (cases "t_status x = RUNNING")
    case False
    then have step: "local_step (t_status x) CANCELED"
      using assms(5,6) by (cases "t_status x") (simp_all add: local_step_iff)
    show ?thesis
      unfolding commit_cancellation_def get_task_def
      using False assms(3,5,6) cancel_idle [of "tx_enter w" k x, OF _ _ assms(4) step pl] log
      by (simp add: wp_rules Let_def)
  next
    case True
    show ?thesis
      unfolding commit_cancellation_def get_task_def
      using True assms(3,5,6)
    proof (simp add: wp_rules Let_def, intro wp_mono [OF request_cancel [OF _ _ assms(4) True pl]], goal_cases)
      case (4 a w2)
      then obtain y where y: "fetch t_task_id k (tb_tasks (conn w2)) = Some y" "t_assigned_agent_id y = None"
        "local_step (t_status y) CANCELED" by (auto simp: local_step_iff)
      from 4 show ?case
        using cancel_idle [OF _ y pl] assms(7) by (simp add: is_task_active_def is_active_def wp_rules)
    qed (use log assms(3) in simp_all)
  qed
  have "tx_keeps (\<lambda>_. True) (commit_cancellation env k reason)"
    by (rule atomic_core.commit_cancellation_keeps)
  from transaction_commits [OF this assms(2) commit] show ?thesis
    unfolding cancel_task_def get_task_def execute_lifecycle_def
    using assms(3-5)
    by (simp add: wp_rules) (auto elim!: wp_mono simp: wp_rules signal_committed_cancellation_def)
qed


theorem cancel_idle_task_ends_witness:
  "wp (cancel_task sample_env ''task'' (Some ''stop''))
     (\<lambda>y w'. t_status y = CANCELED \<and> history ''task'' (durable w') = [CREATED, QUEUED, CANCELED] \<and>
        fetch q_task_id ''task'' (tb_queued_executions (durable w')) = None)
     (\<lambda>_ _. False) (world_of sample_tables)"
  by (rule wp_mono [OF cancel_idle_task_ends])
     (auto simp: sample_task_inv safe_def canceled_at_def world_of_def init_world_def)

section \<open>A failed Message fails the same way again\<close>

lemma persisted_error_info:
  assumes "ei_http_status info \<noteq> 0"
  shows "let again = error_info_from_exception (persisted_message_ingress_error (error_code_value (ei_code info))
      (ei_public_message info) (Some (ei_http_status info)) (ei_retryable info)) in
    ei_code again = ei_code info \<and> ei_public_message again = ei_public_message info \<and>
    ei_http_status again = ei_http_status info \<and> ei_retryable again = ei_retryable info"
  using assms by (simp add: persisted_message_ingress_error_def agent_error_def mk_info_def)

text \<open>
  A failed Message keeps failing with the same error.  Take the ingress row that
  recording the exception \<open>exc\<close> leaves behind.  Sending the same request again raises an
  exception that presents itself with the same code, public message, HTTP status and
  retryability as \<open>exc\<close> did.
\<close>

theorem failed_message_replays_error:
  assumes "rq_message_id rq = Some mid" and "mid \<noteq> []" and "rq_role rq = USER" and "rq_metadata rq = []"
    and "rq_context_id rq = None"
    and "fetch i_message_id mid (tb_message_ingress (conn w)) =
      Some (ingress_failed_row (error_code_value (ei_code info)) (ei_public_message info) (ei_http_status info)
        (ei_retryable info) now i)"
    and "i_message_id i = mid" and "i_request_fingerprint i = message_request_fingerprint env rq"
    and "fetch m_message_id mid (tb_messages (conn w)) = Some m" and "m_context_id m = i_context_id i"
    and "info = error_info_from_exception exc" and "ei_http_status info \<noteq> 0" and "ei_public_message info \<noteq> []"
  shows "wp (admit_message env rq) (\<lambda>_ _. False)
    (\<lambda>e _. let again = error_info_from_exception e in
       ei_code again = ei_code info \<and> ei_public_message again = ei_public_message info \<and>
       ei_http_status again = ei_http_status info \<and> ei_retryable again = ei_retryable info) w"
proof -
  have "wp (replay env rq (ingress_failed_row (error_code_value (ei_code info)) (ei_public_message info)
      (ei_http_status info) (ei_retryable info) now i)) (\<lambda>_ _. False)
      (\<lambda>e _. let again = error_info_from_exception e in
       ei_code again = ei_code info \<and> ei_public_message again = ei_public_message info \<and>
       ei_http_status again = ei_http_status info \<and> ei_retryable again = ei_retryable info) w"
    using assms(3-5,7-10,13) persisted_error_info [OF assms(12)]
    by (simp add: replay_def wp_rules validate_explicit_route_metadata_def execution_mode_def dget_def Let_def
        prepared_existing_message_ingress_def ingress_failed_row_def get_message_def str_or_def)
  then show ?thesis using admit_replay [OF assms(1,2,6), of env] by (simp add: wp_def)
qed


theorem failed_message_replays_error_witness:
  "wp (admit_message sample_env \<lparr>rq_context_id = None, rq_message_id = Some ''msg'', rq_role = USER,
        rq_parts = [PDict [(''text'', PStr ''hi'')]], rq_metadata = []\<rparr>) (\<lambda>_ _. False)
     (\<lambda>e _. ei_public_message (error_info_from_exception e) = ''boom'' \<and> ei_http_status (error_info_from_exception e) = 400)
     (world_of (sample_tables\<lparr>tb_message_ingress :=
        [ingress_failed_row ''invalid_request'' ''boom'' 400 False 0 sample_ingress]\<rparr>))"
  by (rule wp_mono [OF failed_message_replays_error [where exc = "ValueError ''boom''"
        and info = "error_info_from_exception (ValueError ''boom'')" and i = sample_ingress
        and now = 0 and m = sample_message and mid = "''msg''"]])
     (simp_all add: Let_def sample_defs table_simps ingress_failed_row_def invalid_request_info_def mk_info_def
        safe_message_def strip_def strip_with_def is_space_def message_request_fingerprint_def
        message_fingerprint_def sample_env_def)

end
