(* ===== verification/Startup.thy ===== *)
theory Startup
  imports Command_Properties
begin

text \<open>
  The reconciliation at startup, \<open>MainAgentCore._reconcile_startup\<close>: the sweep of the
  ingresses, the loop over the Tasks a restart interrupted and the loop over the queued
  ones, each with the condition it re-establishes for one Task.
\<close>

section \<open>Startup\<close>

text \<open>The local Tasks are those of \<open>K\<close>, no ingress is in progress, and a local Task that is
  running, or whose cancellation is requested, is in \<open>S\<close>.\<close>

definition startup_at :: "string set \<Rightarrow> string set \<Rightarrow> tables \<Rightarrow> bool" where
  "startup_at K S t \<longleftrightarrow> task_inv t \<and> (\<forall>r \<in> set (tb_message_ingress t). i_state r \<noteq> IN_PROGRESS) \<and>
     (\<forall>x \<in> set (tb_tasks t). t_assigned_agent_id x = None \<longrightarrow> t_status x \<in> {RUNNING, CANCEL_REQUESTED} \<longrightarrow>
        t_task_id x \<in> S) \<and>
     t_task_id ` {x \<in> set (tb_tasks t). t_assigned_agent_id x = None} = K"

lemma recovery_payload_json:
  "\<exists>pl. dumps_dict [(''error_code'', PStr a), (''error_message'', PStr b), (''retryable'', PBool True)] = Inr pl"
  by (simp add: dumps_dict_def dumps_def)

lemma startup_row:
  assumes "task_inv t" and "fetch t_task_id k (tb_tasks t) = Some x" and "y \<in> set (tb_tasks t)" "t_task_id y = k"
  shows "y = x"
  using assms fetch_distinct [of t_task_id "tb_tasks t" y] by (auto simp: task_inv_def)

lemma recovery_failure_at:
  assumes "safe (startup_at K S) w" and "k \<in> K"
  shows "wp (record_runtime_recovery_failure k ec em) (\<lambda>_. safe (startup_at K (S - {k}))) (\<lambda>_ _. False) w"
proof -
  have w: "transaction_depth w = 0" "conn w = durable w" "startup_at K S (conn w)" "task_inv (durable w)"
    using assms(1) by (auto simp: safe_def startup_at_def)
  then obtain x where x: "fetch t_task_id k (tb_tasks (durable w)) = Some x" "t_assigned_agent_id x = None"
    using assms(2) fetch_distinct [of t_task_id "tb_tasks (durable w)"]
    by (auto simp: startup_at_def task_inv_def)
  have log: "event_log_ok (durable w)" using w(4) by (simp add: task_inv_def)
  let ?R = "\<lambda>w'. conn w' = durable w' \<and> transaction_depth w' = 0 \<and>
     tb_message_ingress (conn w') = tb_message_ingress (conn w) \<and>
     (\<exists>f. tb_tasks (conn w') = set_where (\<lambda>x. t_task_id x = k) f (tb_tasks (conn w)) \<and>
        (\<forall>y. t_task_id (f y) = t_task_id y \<and> t_assigned_agent_id (f y) = t_assigned_agent_id y) \<and>
        is_terminal_task_status (t_status (f x)))"
  have tables: "wp (record_runtime_recovery_failure k ec em) (\<lambda>_. ?R) (\<lambda>_ _. False) w"
  proof (cases "is_terminal_task_status (t_status x)")
    case True
    have "tb_tasks (durable w) = set_where (\<lambda>x. t_task_id x = k) (\<lambda>y. y) (tb_tasks (durable w))"
      by (simp add: set_where_def)
    with True x w show ?thesis
      by (auto simp: record_runtime_recovery_failure_def require_task_def get_task_def wp_rules intro!: exI [of _ "\<lambda>y. y"])
  next
    case False
    obtain pl where "dumps_dict [(''error_code'', PStr ec), (''error_message'', PStr em), (''retryable'', PBool True)] = Inr pl"
      using recovery_payload_json by blast
    moreover have "local_step (t_status x) FAILED"
      using False by (cases "t_status x") (simp_all add: local_step_iff)
    ultimately show ?thesis
      using False x w log
      by (simp add: record_runtime_recovery_failure_def require_task_def get_task_def wp_rules)
         (subst wp_transition_local_task,
          auto simp: Let_def local_step_iff wp_bindM wp_returnM wp_close_unresolved_execution tb_tasks_set_task
            closed_tables_def intro!: exI [of _ "status_row FAILED (Some ec) (Some em) True (clock w (clock_reads w))"])
  qed
  have inv: "wp (record_runtime_recovery_failure k ec em) (\<lambda>_. safe task_inv) (\<lambda>_. safe task_inv) w"
    using w by (intro wp_safe keeps_of_tx history_of_recorders.recorders_keep) (simp add: safe_def)
  have next_at: "startup_at K (S - {k}) t'"
    if "task_inv t'" "tb_message_ingress t' = tb_message_ingress (durable w)"
      "tb_tasks t' = set_where (\<lambda>x. t_task_id x = k) f (tb_tasks (durable w))"
      "\<forall>y. t_task_id (f y) = t_task_id y \<and> t_assigned_agent_id (f y) = t_assigned_agent_id y"
      "is_terminal_task_status (t_status (f x))" for t' f
  proof -
    have "t_status (f y) \<noteq> RUNNING" "t_status (f y) \<noteq> CANCEL_REQUESTED"
      if "y \<in> set (tb_tasks (durable w))" "t_task_id y = k" for y
      using startup_row [OF w(4) x(1) that] \<open>is_terminal_task_status (t_status (f x))\<close> by auto
    moreover have "t_task_id ` {y \<in> set (set_where (\<lambda>x. t_task_id x = k) f ts). t_assigned_agent_id y = None} =
        t_task_id ` {y \<in> set ts. t_assigned_agent_id y = None}" for ts
    proof -
      let ?g = "\<lambda>r. if t_task_id r = k then f r else r"
      have g: "t_task_id (?g y) = t_task_id y" "t_assigned_agent_id (?g y) = t_assigned_agent_id y" for y
        using that(4) by simp_all
      have "{y \<in> ?g ` set ts. t_assigned_agent_id y = None} = ?g ` {y \<in> set ts. t_assigned_agent_id y = None}"
        unfolding Compr_image_eq g ..
      with g(1) show ?thesis unfolding set_set_where by (simp only: image_image)
    qed
    ultimately show ?thesis
      using that w(2,3) by (auto simp: startup_at_def ball_set_where)
  qed
  show ?thesis
    by (rule wp_mono [OF wp_conj [OF tables inv]]) (use next_at w(2) in \<open>auto simp: safe_def\<close>)
qed


lemma fail_recovery_at:
  assumes "safe (startup_at K S) w" and "k \<in> K"
  shows "wp (fail_recovery k ec em) (\<lambda>_. safe (startup_at K (S - {k}))) (\<lambda>_ _. False) w"
  unfolding fail_recovery_def wp_bindM wp_returnM_fun by (rule recovery_failure_at [OF assms])

lemma interrupted_loop:
  assumes "safe (startup_at K S) w" and "t_task_id ` set xs \<subseteq> K"
  shows "wp (forM xs (\<lambda>task. bindM (fail_recovery (t_task_id task) ec em) (\<lambda>_. returnM (t_task_id task))))
    (\<lambda>_. safe (startup_at K (S - t_task_id ` set xs))) (\<lambda>_ _. False) w"
  using assms
proof (induction xs arbitrary: S w)
  case Nil
  then show ?case by (simp add: wp_rules)
next
  case (Cons x xs)
  have "wp (fail_recovery (t_task_id x) ec em) (\<lambda>_. safe (startup_at K (S - {t_task_id x}))) (\<lambda>_ _. False) w"
    using Cons.prems by (intro fail_recovery_at) auto
  moreover have "S - t_task_id ` set (x # xs) = S - {t_task_id x} - t_task_id ` set xs" by auto
  ultimately show ?case
    using Cons.IH Cons.prems(2) by (auto simp: wp_bindM_fun wp_returnM_fun elim!: wp_mono)
qed

lemma read_command_reads: "wp (read_command k) (\<lambda>_ w'. w' = w) (\<lambda>_ _. False) w"
  by (auto simp: read_command_def get_queued_task_execution_def wp_rules dest: from_row_errors
      split: option.split sum.split)

lemma wake_submits:
  assumes "ad_submitter ad = Some f" and "keeps (safe I) (f k)"
  shows "keeps (safe I) (wake ad cb k)"
  unfolding wake_def is_live_def assms(1) option.case
  by (intro keeps_intros assms(2); simp)

lemma recover_queued_task_at:
  assumes "safe (startup_at K {}) w" and "t_task_id x \<in> K" and "env_keeps (safe (startup_at K {})) env"
  shows "wp (recover_queued_task env x) (\<lambda>_. safe (startup_at K {})) (\<lambda>_ _. False) w"
proof -
  have fail: "wp (fail_recovery (t_task_id x) ec em) (\<lambda>_. safe (startup_at K {})) (\<lambda>_ _. False) w'"
    if "safe (startup_at K {}) w'" for ec em w'
    using fail_recovery_at [OF that assms(2)] by simp
  have wake: "wp (wake ad core_callbacks (t_task_id x)) (\<lambda>_. safe (startup_at K {})) (\<lambda>_. safe (startup_at K {})) w"
    if "local_execution env = Some ad" "supports_startup_recovery ad" for ad
  proof -
    note sup = that(2)
    obtain f where f: "ad_submitter ad = Some f" using sup by (auto simp: supports_startup_recovery_def)
    then have "ce_submitter env = Some f" using \<open>local_execution env = Some ad\<close> by (auto simp: local_execution_def split: option.splits)
    then have "keeps (safe (startup_at K {})) (f (t_task_id x))" using assms(3) by (simp add: env_keeps_def)
    from wake_submits [OF f this] show ?thesis using assms(1) by (rule wp_safe)
  qed
  have submit: "wp (catchM (bindM (wake ad core_callbacks (t_task_id x)) (\<lambda>woken.
           returnM (if woken then Recovery_scheduled else Recovery_retained)))
         (\<lambda>_. fail_recovery (t_task_id x) ec em)) (\<lambda>_. safe (startup_at K {})) (\<lambda>_ _. False) w"
    if "local_execution env = Some ad" "supports_startup_recovery ad" for ad ec em
    unfolding wp_catchM wp_bindM wp_returnM_fun by (rule wp_mono [OF wake [OF that]]) (auto intro: fail)
  show ?thesis
    unfolding recover_queued_task_def wp_bindM
    by (rule wp_mono [OF read_command_reads])
       (auto simp: fail assms(1) submit split: sum.split option.split)
qed

lemma wp_list_local_tasks:
  "ss \<noteq> {} \<Longrightarrow> wp (list_local_tasks_by_statuses ss) Q E w =
     Q (sort_key (\<lambda>x. (t_created_at x, t_task_id x))
       (filter (\<lambda>x. t_assigned_agent_id x = None \<and> t_status x \<in> ss) (tb_tasks (conn w)))) w"
  by (simp add: list_local_tasks_by_statuses_def wp_rules)

lemma queued_loop:
  assumes "safe (startup_at K {}) w" and "t_task_id ` set xs \<subseteq> K" and "env_keeps (safe (startup_at K {})) env"
  shows "wp (forM xs (\<lambda>task. bindM (recover_queued_task env task) (\<lambda>r. returnM (t_task_id task, r))))
    (\<lambda>_. safe (startup_at K {})) (\<lambda>_ _. False) w"
  using assms(1,2)
proof (induction xs arbitrary: w)
  case Nil
  then show ?case by (simp add: wp_rules)
next
  case (Cons x xs)
  have "wp (recover_queued_task env x) (\<lambda>_. safe (startup_at K {})) (\<lambda>_ _. False) w"
    using Cons.prems assms(3) by (intro recover_queued_task_at) auto
  then show ?case
    using Cons.IH Cons.prems(2) by (auto simp: wp_bindM_fun wp_returnM_fun elim!: wp_mono)
qed

text \<open>
  C19. Startup leaves nothing in doubt.  On a database whose Task and ingress tables are
  well formed, and with a submitter that leaves it so, the reconciliation always
  completes, even if stored commands are unreadable or every submission fails.
  Afterwards no ingress is in progress and no local Task is running or waiting
  for its cancellation; no local Task has been lost.
\<close>

theorem startup_reconciles:
  assumes "safe task_inv w" and "ingress_inv (conn w)"
    and "K = t_task_id ` {x \<in> set (tb_tasks (conn w)). t_assigned_agent_id x = None}"
    and "env_keeps (safe (startup_at K {})) env"
  shows "wp (reconcile_startup env) (\<lambda>_. safe (startup_at K {})) (\<lambda>_ _. False) w"
proof -
  have w: "transaction_depth w = 0" "conn w = durable w" "task_inv (durable w)"
    using assms(1) by (auto simp: safe_def)
  let ?stale = "error_info_from_exception message_ingress_stale_error"
  let ?swept = "\<lambda>w1. safe (startup_at K K) w1"
  have sweep: "wp (fail_in_progress_message_ingresses (error_code_value (ei_code ?stale)) (ei_public_message ?stale)
      (ei_http_status ?stale) True) (\<lambda>_. ?swept) (\<lambda>_ _. False) w"
  proof (rule wp_mono [OF wp_conj [OF wp_fail_in_progress wp_safe [OF keeps_of_tx [OF ingress_ops_frame(6)] assms(1)]]], goal_cases)
    case (4 ids w1)
    then obtain T where t: "conn w1 = (conn w)\<lparr>tb_message_ingress := set_where (\<lambda>r. i_state r = IN_PROGRESS)
        (\<lambda>r. ingress_failed_row (error_code_value (ei_code ?stale)) (ei_public_message ?stale)
           (ei_http_status ?stale) True (T r) r) (tb_message_ingress (conn w))\<rparr>" and s1: "safe task_inv w1" by auto
    have "task_inv (conn w)" using assms(1) by (auto simp: safe_def)
    then have "startup_at K K (conn w1)"
      using assms(3) unfolding startup_at_def t by (auto simp: ball_set_where ingress_failed_row_def)
    with s1 show ?case by (simp add: safe_def)
  qed (use assms(2) in \<open>simp_all add: ingress_inv_def\<close>)
  have interrupted: "wp (list_local_tasks_by_statuses {RUNNING, CANCEL_REQUESTED})
      (\<lambda>xs. wp (forM xs (\<lambda>task. bindM (fail_recovery (t_task_id task) ec em) (\<lambda>_. returnM (t_task_id task))))
         (\<lambda>_. safe (startup_at K {})) (\<lambda>_ _. False)) (\<lambda>_ _. False) w1" if "?swept w1" for w1 ec em
  proof -
    let ?R = "{x \<in> set (tb_tasks (conn w1)). t_assigned_agent_id x = None \<and> t_status x \<in> {RUNNING, CANCEL_REQUESTED}}"
    have at: "safe (startup_at K (t_task_id ` ?R)) w1" "t_task_id ` ?R \<subseteq> K"
      using that by (auto simp: safe_def startup_at_def)
    show ?thesis
      by (subst wp_list_local_tasks, simp, rule wp_mono [OF interrupted_loop [OF at(1)]]) (use at(2) in auto)
  qed
  have queued: "wp (list_local_tasks_by_statuses {QUEUED})
      (\<lambda>xs. wp (forM xs (\<lambda>task. bindM (recover_queued_task env task) (\<lambda>r. returnM (t_task_id task, r))))
         (\<lambda>_. safe (startup_at K {})) (\<lambda>_ _. False)) (\<lambda>_ _. False) w1" if "safe (startup_at K {}) w1" for w1
    using that by (subst wp_list_local_tasks, simp, intro queued_loop assms(4)) (auto simp: safe_def startup_at_def)
  have rest: "wp (list_local_tasks_by_statuses {RUNNING, CANCEL_REQUESTED})
      (\<lambda>xs. wp (forM xs (\<lambda>task. bindM (fail_recovery (t_task_id task) ec em) (\<lambda>_. returnM (t_task_id task))))
         (\<lambda>_. wp (list_local_tasks_by_statuses {QUEUED})
            (\<lambda>ys. wp (forM ys (\<lambda>task. bindM (recover_queued_task env task) (\<lambda>r. returnM (t_task_id task, r))))
               (\<lambda>_. safe (startup_at K {})) (\<lambda>_ _. False)) (\<lambda>_ _. False)) (\<lambda>_ _. False)) (\<lambda>_ _. False) w1"
    if "?swept w1" for w1 ec em
    by (rule wp_mono [OF interrupted [OF that]]) (auto elim!: wp_mono intro: queued)
  show ?thesis
    unfolding reconcile_startup_def Let_def wp_bindM wp_bindM_fun [of "list_local_tasks_by_statuses _"]
      wp_bindM_fun [of "forM _ _"] wp_returnM_fun
    by (rule wp_mono [OF sweep]) (auto intro: rest)
qed

theorem startup_reconciles_witness:
  "wp (reconcile_startup sample_env)
     (\<lambda>_ w'. \<forall>x \<in> set (tb_tasks (durable w')). t_assigned_agent_id x = None \<longrightarrow> t_status x \<noteq> RUNNING)
     (\<lambda>_ _. False) (world_of sample_tables)"
proof -
  have "env_keeps (safe (startup_at K {})) sample_env" for K
    by (simp add: env_keeps_def sample_env_def runner_keeps_def sample_runner_def)
       (intro conjI allI keeps_intros keeps_of_tx ledger_frame; simp add: startup_at_def)
  then show ?thesis
    by (intro wp_mono [OF startup_reconciles [OF _ _ refl]])
       (auto simp: safe_def startup_at_def sample_task_inv, simp add: sample_defs ingress_inv_def ingress_row_ok_def)
qed

end
