(* ===== verification/Router_Properties.thy ===== *)
theory Router_Properties
  imports Router Reachable
begin

text \<open>
  What the default router promises the core: a request's own choice is obeyed, a
  decision of the model is only followed to an agent the core can use, and what
  happens to a reply of the model that cannot be read.
\<close>

section \<open>What the router promises\<close>

text \<open>
  C34. Routing by the model reaches only agents that can be used.  Take the default router
  with the model client of \<open>router_classifier.py\<close>, whatever the language model replies,
  so long as it leaves the table of agents alone, and a table with distinct agent ids
  that carry no white space at their ends.  For a request without an explicit route,
  if the decision is to delegate then it names an agent of the table that the core
  accepts: the lookup the delegation starts with succeeds, and the agent is enabled.
\<close>

theorem routed_agent_usable:
  assumes "explicit_route (rq_metadata rq) = Inr None" and "dr_router_model router = Some (classify client)"
    and "\<And>gs. keeps (\<lambda>w. tb_registered_agents (conn w) = G) (classify client rq ms gs)"
    and "tb_registered_agents (conn w) = G" and "distinct (map g_agent_id G)"
    and "\<forall>g \<in> set G. strip (g_agent_id g) = g_agent_id g" and "ce_remote env \<noteq> None"
  shows "wp (decide router rq c mid ms)
    (\<lambda>d w'. rd_kind d = REMOTE_AGENT \<longrightarrow> (\<exists>a. rd_target_agent_id d = Some a \<and>
        wp (usable_agent env a) (\<lambda>g _. g \<in> set G \<and> g_agent_id g = a \<and> g_enabled g) (\<lambda>_ _. False) w'))
    (\<lambda>_ _. True) w"
proof (rule wp_mono [OF direct_model.decision_names_enabled [OF assms(1-4)]], goal_cases)
  case (1 d w')
  show ?case
  proof
    assume "rd_kind d = REMOTE_AGENT"
    with 1 obtain g where g: "g \<in> set G" "g_enabled g" "rd_target_agent_id d = Some (g_agent_id g)"
      and G: "tb_registered_agents (conn w') = G"
      using assms(6) by auto
    then have "fetch g_agent_id (g_agent_id g) G = Some g" using assms(5) by (simp add: fetch_distinct)
    then show "\<exists>a. rd_target_agent_id d = Some a \<and>
        wp (usable_agent env a) (\<lambda>g _. g \<in> set G \<and> g_agent_id g = a \<and> g_enabled g) (\<lambda>_ _. False) w'"
      using g G assms(7) by (simp add: usable_agent_def get_registered_agent_def wp_rules)
  qed
qed simp

text \<open>A child agent, and a model that always delegates to it.\<close>

definition child_agent :: registered_agent_record where
  "child_agent = \<lparr>g_agent_id = ''child'', g_name = ''Child'', g_card_url = ''http://child'', g_card_json = [],
     g_enabled = True, g_metadata = [], g_created_at = 0, g_updated_at = 0\<rparr>"

definition delegating_model :: direct_model_router_client where
  "delegating_model = \<lparr>dm_model = None, dm_raw_json_client = Some (\<lambda>_ _. returnM ''{}''),
     dm_confidence_threshold = Fin (13 / 20), dm_model_name = None,
     dm_codec = \<lparr>js_loads = \<lambda>_. Inr (PDict [(''route'', PStr ''remote_agent''), (''reason'', PStr ''owner''),
         (''targetAgentId'', PStr ''child'')]), js_dumps = \<lambda>_. [], js_repr = \<lambda>_. []\<rparr>\<rparr>"

definition delegating_router :: default_main_agent_router where
  "delegating_router = \<lparr>dr_router_model = Some (classify delegating_model),
     dr_confidence_threshold = Fin (13 / 20), dr_repr = \<lambda>_. []\<rparr>"

definition plain_request :: main_agent_request where
  "plain_request = \<lparr>rq_context_id = None, rq_message_id = Some ''m'', rq_role = USER, rq_parts = [], rq_metadata = []\<rparr>"

definition agent_world :: world where
  "agent_world = world_of (empty_tables\<lparr>tb_registered_agents := [child_agent]\<rparr>)"

theorem routed_agent_usable_witness:
  "wp (decide delegating_router plain_request ''c'' ''m'' [])
     (\<lambda>d w'. rd_kind d = REMOTE_AGENT \<and> (\<exists>a. rd_target_agent_id d = Some a \<and>
        wp (usable_agent delegating_env a) (\<lambda>g _. g \<in> set [child_agent] \<and> g_agent_id g = a \<and> g_enabled g) (\<lambda>_ _. False) w')) (\<lambda>_ _. False) agent_world"
proof -
  let ?d = "decide delegating_router plain_request ''c'' ''m'' [] agent_world"
  have keep: "keeps I (classify delegating_model rq ms gs)" for I rq ms gs
    unfolding classify_def delegating_model_def Let_def by (auto intro!: keeps_intros)
  have *: "wp (decide delegating_router plain_request ''c'' ''m'' [])
    (\<lambda>d w'. rd_kind d = REMOTE_AGENT \<longrightarrow> (\<exists>a. rd_target_agent_id d = Some a \<and>
        wp (usable_agent delegating_env a) (\<lambda>g _. g \<in> set [child_agent] \<and> g_agent_id g = a \<and> g_enabled g) (\<lambda>_ _. False) w'))
    (\<lambda>_ _. True) agent_world"
  proof (rule routed_agent_usable)
    show "explicit_route (rq_metadata plain_request) = Inr None" by code_simp
    show "dr_router_model delegating_router = Some (classify delegating_model)" by (simp add: delegating_router_def)
    show "tb_registered_agents (conn agent_world) = [child_agent]" by (simp add: agent_world_def)
    show "\<forall>g \<in> set [child_agent]. strip (g_agent_id g) = g_agent_id g" by code_simp
    show "ce_remote delegating_env \<noteq> None" by (simp add: delegating_env_def)
  qed (use keep in simp_all)
  have "(case fst ?d of Inl _ \<Rightarrow> False | Inr d \<Rightarrow> rd_kind d = REMOTE_AGENT)" by code_simp
  then obtain d w' where d: "?d = (Inr d, w')" "rd_kind d = REMOTE_AGENT"
    by (cases ?d) (auto split: sum.splits)
  show ?thesis
    unfolding wp_def [of "decide _ _ _ _ _"] d(1) prod.case sum.case using wp_okD [OF * d(1)] d(2) by blast
qed

text \<open>
  C35. A reply that cannot be read is given the safe route, with one exception.  When the
  reply of the model is not a usable JSON decision, the label it contains decides: a
  reply that names a local route is read as that route, one that names none of the
  three as \<open>local_message\<close>.  But a reply that names only \<open>remote_agent\<close> has no target, and
  the error of the second reading leaves \<open>classify\<close> instead of the fallback.
\<close>

theorem unreadable_reply_route:
  assumes "bindE (extract_json_object (js_loads (dm_codec client)) raw)
      (router_model_decision_from_payload (js_repr (dm_codec client)) gs) = Inl exc" and "is_value_error exc"
  shows "case labelled_route raw of
      Some REMOTE_AGENT \<Rightarrow>
        read_decision client gs raw = Inl (ValueError ''remote_agent requires targetAgentId'')
    | Some kind \<Rightarrow> \<exists>d. read_decision client gs raw = Inr (Inr d) \<and> md_kind d = kind \<and>
        md_confidence d = Some (Fin (3 / 4)) \<and> md_target_agent_id d = None
    | None \<Rightarrow> \<exists>r. read_decision client gs raw = Inr r \<and>
        md_kind (case r of Inl d \<Rightarrow> d | Inr d \<Rightarrow> finish_decision client d) = LOCAL_MESSAGE"
proof (cases "labelled_route raw")
  case None
  then show ?thesis
    unfolding read_labelled [OF assms] None option.case
    by (auto simp: finish_decision_def Let_def model_fallback_def)
next
  case (Some kind)
  then show ?thesis
    unfolding read_labelled [OF assms] Some option.case by (cases kind) simp_all
qed

theorem unreadable_reply_route_witness:
  "read_decision (delegating_model\<lparr>dm_codec := \<lparr>js_loads = \<lambda>_. Inl (JSONDecodeError ''Expecting value''),
      js_dumps = \<lambda>_. [], js_repr = \<lambda>_. []\<rparr>\<rparr>) [child_agent] ''Remote_Agent'' =
     Inl (ValueError ''remote_agent requires targetAgentId'')"
proof -
  let ?client = "delegating_model\<lparr>dm_codec := \<lparr>js_loads = \<lambda>_. Inl (JSONDecodeError ''Expecting value''),
      js_dumps = \<lambda>_. [], js_repr = \<lambda>_. []\<rparr>\<rparr>"
  have "bindE (extract_json_object (js_loads (dm_codec ?client)) ''Remote_Agent'')
      (router_model_decision_from_payload (js_repr (dm_codec ?client)) [child_agent]) =
    Inl (ValueError ''missing JSON object'')"
    by code_simp
  moreover have "labelled_route ''Remote_Agent'' = Some REMOTE_AGENT" by code_simp
  ultimately show ?thesis using unreadable_reply_route [of ?client "''Remote_Agent''" "[child_agent]"] by simp
qed

text \<open>
  C40. The keywords of an agent are its distinct ones.  Removing the duplicates of a list of
  keywords keeps exactly the entries whose lower-case form does not occur before them,
  in their order.
\<close>

theorem dedupe_reference:
  "dedupe xs = map (nth xs) (filter (\<lambda>i. lower (xs ! i) \<notin> lower ` set (take i xs)) [0..<length xs])"
  by (rule dedupe_eq_reference)

text \<open>The route the metadata of a request asks for.\<close>

definition requested_kind :: "(pyval \<Rightarrow> string) \<Rightarrow> pydict \<Rightarrow> route_decision_kind option" where
  "requested_kind repr metadata =
     (case explicit_route metadata of
        Inr (Some kind) \<Rightarrow> Some kind
      | Inr None \<Rightarrow>
          (if execution_mode repr metadata = ''message'' then Some LOCAL_MESSAGE
           else if execution_mode repr metadata = ''task'' then Some LOCAL_TASK
           else None)
      | Inl _ \<Rightarrow> None)"

text \<open>
  The caller's choice wins.  When the metadata of a request ask for a route, by naming
  it or by the execution mode, the default router neither asks the model nor touches the
  database, and decides for exactly that route; a remote route carries the agent the
  metadata name.  It raises only when a remote route names no agent or the given
  confidence cannot be converted to a float.
\<close>

theorem explicit_choice_wins:
  assumes "requested_kind (dr_repr router) (rq_metadata rq) = Some kind"
  shows "decide (router\<lparr>dr_router_model := m\<rparr>) rq c mid ms w = decide router rq c mid ms w \<and>
    wp (decide router rq c mid ms)
      (\<lambda>d w'. w' = w \<and> rd_kind d = kind \<and>
         (if kind = REMOTE_AGENT then rd_target_agent_id d \<noteq> None \<and>
            rd_target_agent_id d = router_target_agent_id (rq_metadata rq)
          else rd_target_agent_id d = None))
      (\<lambda>e w'. w' = w \<and> (kind = REMOTE_AGENT \<and> router_target_agent_id (rq_metadata rq) = None \<and> is_value_error e \<or>
         route_confidence (rq_metadata rq) = Inl e)) w"
  using assms
  by (auto simp: requested_kind_def decide_def explicit_decision_def wp_rules Let_def wp_def bindM_def liftE_def raiseM_def returnM_def
      split: sum.splits option.splits if_splits)

theorem explicit_choice_wins_witness:
  "wp (decide \<lparr>dr_router_model = None, dr_confidence_threshold = Fin (13 / 20), dr_repr = (\<lambda>_. [])\<rparr>
      \<lparr>rq_context_id = None, rq_message_id = None, rq_role = USER, rq_parts = [],
       rq_metadata = [(''route'', PStr ''remote_agent''), (''targetAgentId'', PStr '' k8s '')]\<rparr> ''c'' ''m'' [])
    (\<lambda>d _. rd_kind d = REMOTE_AGENT \<and> rd_target_agent_id d = Some ''k8s'') (\<lambda>_ _. False) agent_world"
proof -
  let ?rq = "\<lparr>rq_context_id = None, rq_message_id = None, rq_role = USER, rq_parts = [],
       rq_metadata = [(''route'', PStr ''remote_agent''), (''targetAgentId'', PStr '' k8s '')]\<rparr>"
  have "requested_kind (\<lambda>_. []) (rq_metadata ?rq) = Some REMOTE_AGENT" by code_simp
  moreover have "router_target_agent_id (rq_metadata ?rq) = Some ''k8s''" by code_simp
  moreover have "route_confidence (rq_metadata ?rq) = Inr None" by code_simp
  ultimately show ?thesis
    using explicit_choice_wins [of "\<lparr>dr_router_model = None, dr_confidence_threshold = Fin (13 / 20), dr_repr = (\<lambda>_. [])\<rparr>" ?rq REMOTE_AGENT]
    by (simp add: wp_run)
qed



end
