(* ===== verification/Task_Queue.thy ===== *)
theory Task_Queue
  imports Task_Invariants
begin

text \<open>
  The durable work queue of the store as the refinement of an abstract one.  The specification
  is a map from the local Tasks to their status and the command that waits for them, with one
  rule per operation; the implementation is the four store operations that change a Task's
  status or its queued command (\<open>transition_local_task\<close>, \<open>enqueue_task_execution\<close>,
  \<open>claim_queued_task_execution\<close>, \<open>clear_queued_task_execution\<close>) on the Task and queue tables.
  Each operation simulates its rule or raises and changes nothing, so whole sequences of
  operations do.
\<close>

section \<open>The specification\<close>

text \<open>A queue of work maps each local Task to its status and the command that waits for it.\<close>

datatype job = Job task_status "queued_task_execution_record option"

type_synonym work_queue = "string \<Rightarrow> job option"

datatype queue_op =
    MoveTask string task_status pydict "string option" "string option" bool
  | EnqueueTask string queued_task_execution_kind string "queued_payload option" int
  | ClaimTask string
  | ClearTask string

datatype queue_answer = Moved | Enqueued queued_task_execution_record | Claimed "queued_task_execution_record option" | Cleared

text \<open>What an operation that returns may do.\<close>

fun spec_step :: "queue_op \<Rightarrow> work_queue \<Rightarrow> queue_answer \<Rightarrow> work_queue \<Rightarrow> bool" where
  "spec_step (MoveTask k s pl ec em er) q a q' \<longleftrightarrow> a = Moved \<and>
     (\<exists>s0 c. q k = Some (Job s0 c) \<and> (s0 = s \<or> local_step s0 s) \<and> q' = q(k \<mapsto> Job s c))"
| "spec_step (EnqueueTask k kd th pl v) q a q' \<longleftrightarrow>
     (\<exists>c. a = Enqueued c \<and>
        (q k = Some (Job QUEUED None) \<and> q' = q(k \<mapsto> Job QUEUED (Some c)) \<or> q k = Some (Job QUEUED (Some c)) \<and> q' = q))"
| "spec_step (ClaimTask k) q a q' \<longleftrightarrow>
     (case q k of
        Some (Job QUEUED (Some c)) \<Rightarrow> a = Claimed (Some c) \<and> q' = q(k \<mapsto> Job RUNNING None)
      | _ \<Rightarrow> a = Claimed None \<and> q' = q)"
| "spec_step (ClearTask k) q a q' \<longleftrightarrow>
     a = Cleared \<and> q' = (case q k of Some (Job s c) \<Rightarrow> q(k \<mapsto> Job s None) | None \<Rightarrow> q)"

section \<open>The implementation\<close>

definition command_of :: "tables \<Rightarrow> string \<Rightarrow> queued_task_execution_record option" where
  "command_of t k =
     (case fetch q_task_id k (tb_queued_executions t) of
        None \<Rightarrow> None
      | Some row \<Rightarrow> (case queued_task_execution_from_row row of Inr c \<Rightarrow> Some c | Inl _ \<Rightarrow> None))"

definition abs_queue :: "tables \<Rightarrow> work_queue" where
  "abs_queue t k =
     (case fetch t_task_id k (tb_tasks t) of
        None \<Rightarrow> None
      | Some x \<Rightarrow> if t_assigned_agent_id x = None then Some (Job (t_status x) (command_of t k)) else None)"

definition do_op :: "queue_op \<Rightarrow> queue_answer py" where
  "do_op c =
     (case c of
        MoveTask k s pl ec em er \<Rightarrow> bindM (transition_local_task k s pl ec em er) (\<lambda>_. returnM Moved)
      | EnqueueTask k kd th pl v \<Rightarrow> bindM (enqueue_task_execution k kd th pl v) (\<lambda>r. returnM (Enqueued r))
      | ClaimTask k \<Rightarrow> bindM (claim_queued_task_execution k) (\<lambda>r. returnM (Claimed (map_option snd r)))
      | ClearTask k \<Rightarrow> bindM (clear_queued_task_execution k) (\<lambda>_. returnM Cleared))"

definition queue_inv :: "tables \<Rightarrow> bool" where
  "queue_inv t \<longleftrightarrow> task_inv t \<and> distinct (map q_task_id (tb_queued_executions t))"

section \<open>Simulation\<close>

lemma abs_queue_cong:
  "tb_tasks t' = tb_tasks t \<Longrightarrow> tb_queued_executions t' = tb_queued_executions t \<Longrightarrow> abs_queue t' = abs_queue t"
  by (simp add: fun_eq_iff abs_queue_def command_of_def split: option.split)

lemma abs_queue_deleted:
  "abs_queue (t\<lparr>tb_queued_executions := delete_where (\<lambda>q. q_task_id q = k) (tb_queued_executions t)\<rparr>) =
   (case abs_queue t k of Some (Job s c) \<Rightarrow> (abs_queue t)(k \<mapsto> Job s None) | None \<Rightarrow> abs_queue t)"
  by (auto simp: fun_eq_iff abs_queue_def command_of_def table_simps split: option.split)

lemma abs_queue_moved:
  assumes "fetch t_task_id k (tb_tasks t) = Some x" and "t_assigned_agent_id x = None"
  shows "abs_queue (set_task k (status_row s ec em er now) t) = (abs_queue t)(k \<mapsto> Job s (command_of t k))"
  using assms by (auto simp: fun_eq_iff abs_queue_def command_of_def tb_tasks_set_task table_simps split: option.split)

lemma abs_queue_event: "abs_queue (add_event e t) = abs_queue t"
  by (rule abs_queue_cong) simp_all

lemma move_simulates:
  assumes "safe queue_inv w"
  shows "wp (transition_local_task k s pl ec em er)
    (\<lambda>x w'. spec_step (MoveTask k s pl ec em er) (abs_queue (conn w)) Moved (abs_queue (conn w')))
    (\<lambda>_ w'. abs_queue (conn w') = abs_queue (conn w)) w"
proof -
  have log: "event_log_ok (conn w)" using assms by (auto simp: safe_def queue_inv_def task_inv_def)
  show ?thesis
    unfolding wp_transition_local_task [OF log]
    using assms abs_queue_moved [of k "conn w"]
    by (auto simp: Let_def safe_def abs_queue_event split: option.split sum.split)
       (auto simp: abs_queue_def fun_eq_iff split: option.split)
qed


lemma clear_simulates:
  "wp (clear_queued_task_execution k)
    (\<lambda>_ w'. spec_step (ClearTask k) (abs_queue (conn w)) Cleared (abs_queue (conn w')))
    (\<lambda>_ w'. abs_queue (conn w') = abs_queue (conn w)) w"
  by (simp add: clear_queued_task_execution_def delete_queued_def wp_rules abs_queue_deleted)

lemma claim_simulates:
  assumes "safe queue_inv w"
  shows "wp (claim_queued_task_execution k)
    (\<lambda>r w'. spec_step (ClaimTask k) (abs_queue (conn w)) (Claimed (map_option snd r)) (abs_queue (conn w')))
    (\<lambda>_ w'. abs_queue (conn w') = abs_queue (conn w)) w"
proof -
  let ?cut = "\<lambda>t. t\<lparr>tb_queued_executions := delete_where (\<lambda>q. q_task_id q = k) (tb_queued_executions t)\<rparr>"
  have log: "event_log_ok (?cut (conn w))"
    using assms by (auto simp: safe_def queue_inv_def task_inv_def event_log_ok_def has_task_def)
  have one: "count_where (\<lambda>r. q_task_id r = k) (tb_queued_executions (conn w)) =
      (if fetch q_task_id k (tb_queued_executions (conn w)) = None then 0 else 1)"
    by (rule count_where_distinct) (use assms in \<open>unfold safe_def queue_inv_def, blast\<close>)
  have w: "transaction_depth w = 0" "durable w = conn w" using assms by (simp_all add: safe_def)
  have gone: "command_of (?cut t) k = None" "(abs_queue (?cut t))(k \<mapsto> j) = (abs_queue t)(k \<mapsto> j)" for t j
    by (simp_all add: command_of_def table_simps abs_queue_deleted split: option.split job.split)
  have found: "abs_queue (conn w) k = Some (Job (t_status x) (command_of (conn w) k))"
    if "fetch t_task_id k (tb_tasks (conn w)) = Some x" "t_assigned_agent_id x = None" for x
    using that by (simp add: abs_queue_def)
  show ?thesis
    using log found
    by (auto simp: claim_queued_task_execution_def wp_rules get_task_def get_queued_task_execution_def
       delete_queued_def wp_transition_local_task Let_def w local_step_iff one gone
       abs_queue_event abs_queue_moved abs_queue_def [of "conn w" k] command_of_def [of "conn w" k]
       split: option.split sum.split) (auto split: task_status.split)
qed

lemma enqueue_simulates:
  "wp (enqueue_task_execution k kd th pl v)
    (\<lambda>r w'. spec_step (EnqueueTask k kd th pl v) (abs_queue (conn w)) (Enqueued r) (abs_queue (conn w')))
    (\<lambda>_ w'. abs_queue (conn w') = abs_queue (conn w)) w"
proof -
  have added: "abs_queue (t\<lparr>tb_queued_executions := tb_queued_executions t @ [row]\<rparr>) =
      (case queued_task_execution_from_row row of
         Inr c \<Rightarrow> (case abs_queue t k of Some (Job s _) \<Rightarrow> (abs_queue t)(k \<mapsto> Job s (Some c)) | None \<Rightarrow> abs_queue t)
       | Inl _ \<Rightarrow> abs_queue t)"
    if "fetch q_task_id k (tb_queued_executions t) = None" "q_task_id row = k" for t row
    using that by (auto simp: fun_eq_iff abs_queue_def command_of_def table_simps split: option.split sum.split)
  show ?thesis
    by (auto simp: enqueue_task_execution_def check_enqueue_def wp_rules get_task_def get_queued_task_execution_def
        insert_queued_execution_row_def guarded_def added abs_queue_def [of "conn w" k] command_of_def [of "conn w" k] table_simps
        split: option.split sum.split)
qed


section \<open>Sequences of operations\<close>

lemma queue_inv_keeps: "tx_keeps queue_inv (do_op c)"
proof -
  let ?d = "\<lambda>t. distinct (map q_task_id (tb_queued_executions t))"
  have stmts: "stmt_keeps ?d (delete_queued k)" "stmt_keeps ?d (insert_queued_execution_row r)" for k r
    by (auto simp: stmt_keeps_def delete_queued_def delete_where_def insert_queued_execution_row_def guarded_Inr
        distinct_map_filter fetch_None_iff split: if_splits)
  have event: "stmt_keeps ?d (insert_task_event_row e)" for e
    by (auto simp: stmt_keeps_def insert_task_event_row_def guarded_Inr Let_def split: if_splits)
  have moves: "tx_keeps ?d (transition_local_task k s pl ec em er)" for k s pl ec em er
    unfolding transition_local_task_def append_task_event_def get_task_def get_task_event_def
    by (intro tx_intros event) simp
  have others: "tx_keeps ?d (enqueue_task_execution k kd th p v)" "tx_keeps ?d (claim_queued_task_execution k)"
    "tx_keeps ?d (clear_queued_task_execution k)" for k kd th p v
    unfolding enqueue_task_execution_def check_enqueue_def claim_queued_task_execution_def clear_queued_task_execution_def
      get_task_def get_queued_task_execution_def
    by (intro tx_intros stmts moves)+
  have ops: "tx_keeps queue_inv (transition_local_task k s pl ec em er)"
    "tx_keeps queue_inv (enqueue_task_execution k kd th p v)" "tx_keeps queue_inv (claim_queued_task_execution k)"
    "tx_keeps queue_inv (clear_queued_task_execution k)" for k s pl ec em er kd th p v
    unfolding queue_inv_def [abs_def]
    by (intro tx_keeps_conj task_ops_task_inv transition_local_task_task_inv moves others)+
  show ?thesis
    by (cases c) (simp_all add: do_op_def, (intro tx_intros ops)+)
qed

primrec run_ops :: "queue_op list \<Rightarrow> queue_answer option list py" where
  "run_ops [] = returnM []"
| "run_ops (c # cs) =
     bindM (catchM (bindM (do_op c) (\<lambda>a. returnM (Some a))) (\<lambda>_. returnM None)) (\<lambda>a.
     bindM (run_ops cs) (\<lambda>as. returnM (a # as)))"

text \<open>An operation that raises leaves the queue as it is.\<close>

definition spec_answer :: "queue_op \<Rightarrow> work_queue \<Rightarrow> queue_answer option \<Rightarrow> work_queue \<Rightarrow> bool" where
  "spec_answer c q a q' \<longleftrightarrow> (case a of None \<Rightarrow> q' = q | Some x \<Rightarrow> spec_step c q x q')"

fun spec_run :: "queue_op list \<Rightarrow> work_queue \<Rightarrow> queue_answer option list \<Rightarrow> work_queue \<Rightarrow> bool" where
  "spec_run [] q [] q' \<longleftrightarrow> q' = q"
| "spec_run (c # cs) q (a # as) q' \<longleftrightarrow> (\<exists>q1. spec_answer c q a q1 \<and> spec_run cs q1 as q')"
| "spec_run _ q _ q' \<longleftrightarrow> False"

fun takes :: "string \<Rightarrow> queue_op \<Rightarrow> queue_answer option \<Rightarrow> nat" where
  "takes k (ClaimTask j) (Some (Claimed (Some c))) = (if j = k then 1 else 0)"
| "takes k _ _ = 0"

fun puts :: "string \<Rightarrow> queue_op \<Rightarrow> queue_answer option \<Rightarrow> nat" where
  "puts k (EnqueueTask j _ _ _ _) (Some (Enqueued c)) = (if j = k then 1 else 0)"
| "puts k _ _ = 0"

definition waiting :: "work_queue \<Rightarrow> string \<Rightarrow> nat" where
  "waiting q k = (case q k of Some (Job s (Some c)) \<Rightarrow> 1 | _ \<Rightarrow> 0)"

lemma spec_balance_step: "spec_answer c q a q' \<Longrightarrow> takes k c a + waiting q' k \<le> puts k c a + waiting q k"
  by (cases c; cases a)
     (auto simp: spec_answer_def waiting_def split: option.splits job.splits task_status.splits queue_answer.splits if_splits)

lemma spec_balance:
  "spec_run cs q as q' \<Longrightarrow>
   sum_list (map2 (takes k) cs as) + waiting q' k \<le> sum_list (map2 (puts k) cs as) + waiting q k"
proof (induction cs q as q' rule: spec_run.induct)
  case (2 c cs q a as q')
  then obtain q1 where "spec_answer c q a q1" "spec_run cs q1 as q'" by auto
  with 2 spec_balance_step [of c q a q1 k] show ?case by fastforce
qed simp_all

lemma do_op_simulates:
  assumes "safe queue_inv w"
  shows "wp (do_op c) (\<lambda>a w'. spec_step c (abs_queue (conn w)) a (abs_queue (conn w')))
    (\<lambda>_ w'. abs_queue (conn w') = abs_queue (conn w)) w"
  by (cases c)
     (auto simp: do_op_def wp_rules simp del: spec_step.simps
       intro: wp_mono [OF move_simulates [OF assms]] wp_mono [OF enqueue_simulates] wp_mono [OF claim_simulates [OF assms]]
         wp_mono [OF clear_simulates])

lemma run_ops_simulates:
  assumes "safe queue_inv w"
  shows "wp (run_ops cs) (\<lambda>as w'. spec_run cs (abs_queue (conn w)) as (abs_queue (conn w'))) (\<lambda>_ _. False) w"
  using assms
proof (induction cs arbitrary: w)
  case (Cons c cs)
  have "wp (do_op c) (\<lambda>a w'. safe queue_inv w' \<and> spec_step c (abs_queue (conn w)) a (abs_queue (conn w')))
      (\<lambda>_ w'. safe queue_inv w' \<and> abs_queue (conn w') = abs_queue (conn w)) w"
    by (rule wp_conj [OF wp_safe [OF keeps_of_tx [OF queue_inv_keeps] Cons.prems] do_op_simulates [OF Cons.prems]])
  then show ?case
    unfolding run_ops.simps wp_bindM wp_catchM wp_returnM
    by (rule wp_mono) (auto intro!: wp_mono [OF Cons.IH] simp: spec_answer_def)
qed (simp add: wp_rules)

text \<open>
  C11. The stored queue implements an abstract one.  Take any sequence of moving Tasks through their
  lifecycle, enqueueing, claiming and clearing commands, on a consistent database, and
  let any of them be refused.  The answers and the effects, seen through the
  abstraction that reads a Task's status and its waiting command, are those of a queue with
  one slot per Task, whose operations are a few lines.  In particular, for every
  Task, no more commands are handed out than were put in or were waiting.
\<close>

theorem queue_refines_specification:
  assumes "safe queue_inv w"
  shows "\<exists>as w'. run_ops cs w = (Inr as, w') \<and> spec_run cs (abs_queue (conn w)) as (abs_queue (conn w')) \<and>
    sum_list (map2 (takes k) cs as) \<le> sum_list (map2 (puts k) cs as) + waiting (abs_queue (conn w)) k"
proof -
  obtain as w' where run: "run_ops cs w = (Inr as, w')"
    using run_ops_simulates [OF assms, of cs] by (cases "run_ops cs w"; cases "fst (run_ops cs w)") (auto simp: wp_def)
  from wp_okD [OF run_ops_simulates [OF assms] this] spec_balance [of cs _ as _ k] show ?thesis
    using run by fastforce
qed

lemma claims_put_nothing: "list_all (\<lambda>c. \<exists>j. c = ClaimTask j) cs \<Longrightarrow> sum_list (map2 (puts k) cs as) = 0"
proof (induction cs arbitrary: as)
  case (Cons c cs)
  then show ?case by (cases as) auto
qed simp

lemma waiting_le: "waiting q k \<le> 1"
  by (auto simp: waiting_def split: option.split job.split)

theorem queue_refines_specification_witness:
  "\<exists>as w'. run_ops [ClaimTask ''task'', ClaimTask ''task''] (world_of sample_tables) = (Inr as, w') \<and>
     sum_list (map2 (takes ''task'') [ClaimTask ''task'', ClaimTask ''task''] as) \<le> 1"
proof -
  let ?cs = "[ClaimTask ''task'', ClaimTask ''task'']"
  have "distinct (map q_task_id (tb_queued_executions sample_tables))" by (simp add: sample_defs)
  then have "safe queue_inv (world_of sample_tables)" by (simp add: safe_def queue_inv_def sample_task_inv)
  from queue_refines_specification [OF this, of ?cs "''task''"]
  obtain as w' where run: "run_ops ?cs (world_of sample_tables) = (Inr as, w')"
    and le: "sum_list (map2 (takes ''task'') ?cs as) \<le>
      sum_list (map2 (puts ''task'') ?cs as) + waiting (abs_queue (conn (world_of sample_tables))) ''task''"
    by blast
  have "sum_list (map2 (puts ''task'') ?cs as) = 0" by (rule claims_put_nothing) simp
  moreover have "waiting (abs_queue (conn (world_of sample_tables))) ''task'' \<le> 1" by (rule waiting_le)
  ultimately have "sum_list (map2 (takes ''task'') ?cs as) \<le> 1" using le by linarith
  with run show ?thesis by blast
qed

end
