(* ===== verification/Tool_Policy.thy ===== *)
theory Tool_Policy
  imports Router
begin

text \<open>
  What the runtime knows about a tool and whether it may run: \<open>tool_metadata.py\<close>
  (normalisation and validation of the declared metadata), \<open>tool_schema.py\<close>,
  \<open>tool_registry.py\<close> and \<open>permission.py\<close>.

  Metadata are dictionaries; an enumeration member in one is represented by its
  value, which is what \<open>_enum_value\<close> turns either form into.  A tool is its name,
  description, parameter schema and metadata; the function behind it belongs to the
  graph's tool node.
\<close>

section \<open>Enumerations\<close>

datatype tool_source = SOURCE_BUILTIN | SOURCE_MCP | SOURCE_UNKNOWN

primrec tool_source_value :: "tool_source \<Rightarrow> string" where
  "tool_source_value SOURCE_BUILTIN = ''builtin''"
| "tool_source_value SOURCE_MCP = ''mcp''"
| "tool_source_value SOURCE_UNKNOWN = ''unknown''"

datatype tool_category =
  FILESYSTEM | LOGS | KUBERNETES | SHELL | WEATHER | CATEGORY_MCP | CATEGORY_UNKNOWN

primrec tool_category_value :: "tool_category \<Rightarrow> string" where
  "tool_category_value FILESYSTEM = ''filesystem''"
| "tool_category_value LOGS = ''logs''"
| "tool_category_value KUBERNETES = ''kubernetes''"
| "tool_category_value SHELL = ''shell''"
| "tool_category_value WEATHER = ''weather''"
| "tool_category_value CATEGORY_MCP = ''mcp''"
| "tool_category_value CATEGORY_UNKNOWN = ''unknown''"

datatype execution_scope = SCOPE_LOCAL | SCOPE_REMOTE | EXTERNAL_NETWORK | SCOPE_MCP | SCOPE_UNKNOWN

primrec execution_scope_value :: "execution_scope \<Rightarrow> string" where
  "execution_scope_value SCOPE_LOCAL = ''local''"
| "execution_scope_value SCOPE_REMOTE = ''remote''"
| "execution_scope_value EXTERNAL_NETWORK = ''external_network''"
| "execution_scope_value SCOPE_MCP = ''mcp''"
| "execution_scope_value SCOPE_UNKNOWN = ''unknown''"

datatype side_effect_level = EFFECT_NONE | EFFECT_LOCAL | EFFECT_REMOTE | DESTRUCTIVE | EFFECT_UNKNOWN

primrec side_effect_value :: "side_effect_level \<Rightarrow> string" where
  "side_effect_value EFFECT_NONE = ''none''"
| "side_effect_value EFFECT_LOCAL = ''local''"
| "side_effect_value EFFECT_REMOTE = ''remote''"
| "side_effect_value DESTRUCTIVE = ''destructive''"
| "side_effect_value EFFECT_UNKNOWN = ''unknown''"

datatype approval_policy = AUTO | APPROVAL_REQUIRED | ARGUMENT_SENSITIVE | DENY

primrec approval_policy_value :: "approval_policy \<Rightarrow> string" where
  "approval_policy_value AUTO = ''auto''"
| "approval_policy_value APPROVAL_REQUIRED = ''approval_required''"
| "approval_policy_value ARGUMENT_SENSITIVE = ''argument_sensitive''"
| "approval_policy_value DENY = ''deny''"

definition tool_sources :: "tool_source list" where
  "tool_sources = [SOURCE_BUILTIN, SOURCE_MCP, SOURCE_UNKNOWN]"

definition tool_categories :: "tool_category list" where
  "tool_categories = [FILESYSTEM, LOGS, KUBERNETES, SHELL, WEATHER, CATEGORY_MCP, CATEGORY_UNKNOWN]"

definition execution_scopes :: "execution_scope list" where
  "execution_scopes = [SCOPE_LOCAL, SCOPE_REMOTE, EXTERNAL_NETWORK, SCOPE_MCP, SCOPE_UNKNOWN]"

definition side_effect_levels :: "side_effect_level list" where
  "side_effect_levels = [EFFECT_NONE, EFFECT_LOCAL, EFFECT_REMOTE, DESTRUCTIVE, EFFECT_UNKNOWN]"

definition approval_policies :: "approval_policy list" where
  "approval_policies = [AUTO, APPROVAL_REQUIRED, ARGUMENT_SENSITIVE, DENY]"

section \<open>Tool metadata\<close>

definition DEFAULT_OUTPUT_MAX_CHARS :: int where
  "DEFAULT_OUTPUT_MAX_CHARS = 1000"

definition DEFAULT_OUTPUT_VISIBILITY :: string where
  "DEFAULT_OUTPUT_VISIBILITY = ''internal''"

definition DEFAULT_OUTPUT_REDACTION_STATUS :: string where
  "DEFAULT_OUTPUT_REDACTION_STATUS = ''unknown''"

record tool_metadata =
  tm_source :: tool_source
  tm_category :: tool_category
  tm_execution_scope :: execution_scope
  tm_read_only :: bool
  tm_side_effect_level :: side_effect_level
  tm_approval_policy :: approval_policy
  tm_destructive :: bool
  tm_credential_sensitive :: bool
  tm_argument_policy :: pyval
  tm_output_visibility :: string
  tm_output_redaction_status :: string
  tm_redaction_required :: bool
  tm_output_max_chars :: int
  tm_produces_artifacts :: bool
  tm_artifact_kinds :: "string list"
  tm_dangerous :: bool

definition to_metadata :: "tool_metadata \<Rightarrow> pydict" where
  "to_metadata m =
     [(''source'', PStr (tool_source_value (tm_source m))),
      (''category'', PStr (tool_category_value (tm_category m))),
      (''execution_scope'', PStr (execution_scope_value (tm_execution_scope m))),
      (''read_only'', PBool (tm_read_only m)),
      (''side_effect_level'', PStr (side_effect_value (tm_side_effect_level m))),
      (''approval_policy'', PStr (approval_policy_value (tm_approval_policy m))),
      (''destructive'', PBool (tm_destructive m)),
      (''credential_sensitive'', PBool (tm_credential_sensitive m)),
      (''argument_policy'', tm_argument_policy m),
      (''output_visibility'', PStr (tm_output_visibility m)),
      (''output_redaction_status'', PStr (tm_output_redaction_status m)),
      (''redaction_required'', PBool (tm_redaction_required m)),
      (''output_max_chars'', PInt (tm_output_max_chars m)),
      (''produces_artifacts'', PBool (tm_produces_artifacts m)),
      (''artifact_kinds'', PList (map PStr (tm_artifact_kinds m))),
      (''dangerous'', PBool (tm_dangerous m))]"

text \<open>\<open>d.get(k, default)\<close>.\<close>

definition dget_or :: "pydict \<Rightarrow> string \<Rightarrow> pyval \<Rightarrow> pyval" where
  "dget_or d k v = (case map_of d k of None \<Rightarrow> v | Some x \<Rightarrow> x)"

definition enum_value :: "(pyval \<Rightarrow> string) \<Rightarrow> ('a \<Rightarrow> string) \<Rightarrow> 'a list \<Rightarrow> string \<Rightarrow> pyval \<Rightarrow> exn + 'a" where
  "enum_value repr to_value members key value =
     (case find (\<lambda>k. to_value k = py_str repr value) members of
        Some k \<Rightarrow> Inr k
      | None \<Rightarrow> Inl (ValueError (key @ '' must be one of: '' @ join_str '', '' (map to_value members))))"

definition bool_value :: "string \<Rightarrow> pyval \<Rightarrow> exn + bool" where
  "bool_value key value =
     (case value of PBool b \<Rightarrow> Inr b | _ \<Rightarrow> Inl (ValueError (key @ '' must be a boolean'')))"

text \<open>
  \<open>int(v)\<close>: a number loses its fraction; a text is digits with an optional sign and
  single underscores between them, white space around it, and at most 4300 digits.
\<close>

definition is_digit :: "char \<Rightarrow> bool" where
  "is_digit c \<longleftrightarrow> (of_char c :: nat) \<in> {48..57}"

fun digits_ok :: "bool \<Rightarrow> string \<Rightarrow> bool" where
  "digits_ok after_digit [] = after_digit"
| "digits_ok after_digit (c # s) =
     (if is_digit c then digits_ok True s else c = CHR 95 \<and> after_digit \<and> digits_ok False s)"

definition nat_of_digits :: "string \<Rightarrow> nat" where
  "nat_of_digits s = foldl (\<lambda>n c. 10 * n + (of_char c - 48)) 0 (filter is_digit s)"

definition int_of_str :: "string \<Rightarrow> int option" where
  "int_of_str s =
     (let t = strip s;
          signed = t \<noteq> [] \<and> (hd t = CHR 43 \<or> hd t = CHR 45);
          digits = (if signed then tl t else t)
      in
      if digits_ok False digits \<and> length (filter is_digit digits) \<le> 4300 then
        Some (if signed \<and> hd t = CHR 45 then - int (nat_of_digits digits) else int (nat_of_digits digits))
      else None)"

definition truncate_rat :: "rat \<Rightarrow> int" where
  "truncate_rat r = (if 0 \<le> r then \<lfloor>r\<rfloor> else \<lceil>r\<rceil>)"

fun py_int :: "pyval \<Rightarrow> exn + int" where
  "py_int (PBool b) = Inr (if b then 1 else 0)"
| "py_int (PInt i) = Inr i"
| "py_int (PFloat (Fin r)) = Inr (truncate_rat r)"
| "py_int (PFloat NaN) = Inl (ValueError ''cannot convert float NaN to integer'')"
| "py_int (PFloat _) = Inl (OverflowError ''cannot convert float infinity to integer'')"
| "py_int (PStr s) =
     (case int_of_str s of
        Some i \<Rightarrow> Inr i
      | None \<Rightarrow> Inl (ValueError ''invalid literal for int() with base 10''))"
| "py_int _ = Inl (TypeError ''int() argument must be a string, a bytes-like object or a real number'')"

definition positive_int :: "string \<Rightarrow> pyval \<Rightarrow> exn + int" where
  "positive_int key value =
     (let invalid = Inl (ValueError (key @ '' must be a positive integer'')) in
      (case value of
         PBool _ \<Rightarrow> invalid
       | _ \<Rightarrow>
           (case py_int value of
              Inl e \<Rightarrow> if is_type_error e \<or> is_value_error e then invalid else Inl e
            | Inr result \<Rightarrow> if result < 1 then invalid else Inr result)))"

definition string_tuple :: "(pyval \<Rightarrow> string) \<Rightarrow> string \<Rightarrow> pyval \<Rightarrow> exn + string list" where
  "string_tuple repr key value =
     (let check = (\<lambda>items. let result = map (py_str repr) items in
            if [] \<in> set result then Inl (ValueError (key @ '' cannot contain empty values'')) else Inr result)
      in
      (case value of
         PNone \<Rightarrow> Inr []
       | PTuple items \<Rightarrow> check items
       | PList items \<Rightarrow> check items
       | _ \<Rightarrow> Inl (ValueError (key @ '' must be a list of strings''))))"

definition validate_output_visibility :: "string \<Rightarrow> exn + unit" where
  "validate_output_visibility value =
     (if value \<notin> {''public'', ''local_api'', ''a2a'', ''ui'', ''internal'', ''trace_only''} then
        Inl (ValueError ''output_visibility must be one of: a2a, internal, local_api, public, trace_only, ui'')
      else Inr ())"

definition validate_redaction_status :: "string \<Rightarrow> exn + unit" where
  "validate_redaction_status value =
     (if value \<notin> {''clean'', ''redacted'', ''unsafe'', ''unknown''} then
        Inl (ValueError ''output_redaction_status must be one of: clean, redacted, unknown, unsafe'')
      else Inr ())"

definition validate_tool_metadata :: "tool_metadata \<Rightarrow> exn + tool_metadata" where
  "validate_tool_metadata m =
     bindE (validate_output_visibility (tm_output_visibility m)) (\<lambda>_.
     bindE (validate_redaction_status (tm_output_redaction_status m)) (\<lambda>_.
     if tm_output_max_chars m < 1 then Inl (ValueError ''output_max_chars must be positive'')
     else if tm_artifact_kinds m \<noteq> [] \<and> \<not> tm_produces_artifacts m then
       Inl (ValueError ''artifact_kinds requires produces_artifacts=true'')
     else if tm_destructive m \<and> tm_side_effect_level m \<noteq> DESTRUCTIVE then
       Inl (ValueError ''destructive=true requires side_effect_level=destructive'')
     else if tm_destructive m \<and> tm_read_only m then
       Inl (ValueError ''destructive=true requires read_only=false'')
     else if tm_read_only m \<and> tm_side_effect_level m \<in> {EFFECT_LOCAL, EFFECT_REMOTE, DESTRUCTIVE} then
       Inl (ValueError ''read_only=true requires side_effect_level=none or unknown'')
     else if tm_output_visibility m \<in> {''public'', ''a2a''} \<and>
             tm_output_redaction_status m \<notin> {''clean'', ''redacted''} then
       Inl (ValueError ''public/a2a output visibility requires clean or redacted output'')
     else Inr m))"

definition normalize_tool_metadata :: "(pyval \<Rightarrow> string) \<Rightarrow> pydict \<Rightarrow> pydict \<Rightarrow> exn + tool_metadata" where
  "normalize_tool_metadata repr metadata overrides =
     (let values = dupdate metadata (filter (\<lambda>kv. snd kv \<noteq> PNone) overrides);
          flag = (\<lambda>key default_value. bool_value key (dget_or values key (PBool default_value)))
      in
      bindE (flag ''dangerous'' False) (\<lambda>declared_dangerous.
      bindE (flag ''read_only'' (\<not> declared_dangerous)) (\<lambda>read_only.
      bindE (enum_value repr approval_policy_value approval_policies ''approval_policy''
          (dget_or values ''approval_policy'' (PStr (approval_policy_value
             (if declared_dangerous then APPROVAL_REQUIRED else AUTO))))) (\<lambda>policy.
      let dangerous =
        (if policy = APPROVAL_REQUIRED then True
         else if policy = AUTO \<and> map_of values ''dangerous'' = None then False
         else declared_dangerous)
      in
      bindE (enum_value repr tool_source_value tool_sources ''source''
          (dget_or values ''source'' (PStr ''builtin''))) (\<lambda>source.
      bindE (enum_value repr tool_category_value tool_categories ''category''
          (dget_or values ''category'' (PStr ''unknown''))) (\<lambda>category.
      bindE (enum_value repr execution_scope_value execution_scopes ''execution_scope''
          (dget_or values ''execution_scope'' (PStr ''unknown''))) (\<lambda>scope.
      bindE (enum_value repr side_effect_value side_effect_levels ''side_effect_level''
          (dget_or values ''side_effect_level'' (PStr ''unknown''))) (\<lambda>level.
      bindE (flag ''destructive'' False) (\<lambda>destructive.
      bindE (flag ''credential_sensitive'' False) (\<lambda>credential_sensitive.
      bindE (flag ''redaction_required'' False) (\<lambda>redaction_required.
      bindE (positive_int ''output_max_chars''
          (dget_or values ''output_max_chars'' (PInt DEFAULT_OUTPUT_MAX_CHARS))) (\<lambda>max_chars.
      bindE (flag ''produces_artifacts'' False) (\<lambda>produces_artifacts.
      bindE (string_tuple repr ''artifact_kinds'' (dget_or values ''artifact_kinds'' (PTuple []))) (\<lambda>kinds.
      validate_tool_metadata
        \<lparr>tm_source = source, tm_category = category, tm_execution_scope = scope, tm_read_only = read_only,
         tm_side_effect_level = level, tm_approval_policy = policy, tm_destructive = destructive,
         tm_credential_sensitive = credential_sensitive, tm_argument_policy = dget values ''argument_policy'',
         tm_output_visibility = py_str repr (dget_or values ''output_visibility'' (PStr DEFAULT_OUTPUT_VISIBILITY)),
         tm_output_redaction_status =
           py_str repr (dget_or values ''output_redaction_status'' (PStr DEFAULT_OUTPUT_REDACTION_STATUS)),
         tm_redaction_required = redaction_required, tm_output_max_chars = max_chars,
         tm_produces_artifacts = produces_artifacts, tm_artifact_kinds = kinds,
         tm_dangerous = dangerous\<rparr>))))))))))))))"

section \<open>The registry\<close>

record tool =
  tl_name :: string
  tl_description :: string
  tl_parameters :: pyval
  tl_metadata :: "pydict option"

text \<open>\<open>tool.metadata or {}\<close>.\<close>

definition declared_metadata :: "tool \<Rightarrow> pydict" where
  "declared_metadata t = (case tl_metadata t of None \<Rightarrow> [] | Some m \<Rightarrow> m)"

definition tool_schema_from_tool :: "tool \<Rightarrow> pydict" where
  "tool_schema_from_tool t =
     [(''name'', PStr (tl_name t)), (''description'', PStr (tl_description t)),
      (''parameters'', tl_parameters t),
      (''dangerous'', PBool (truthy (dget_or (declared_metadata t) ''dangerous'' (PBool False))))]"

definition tool_schemas_from_tools :: "tool list \<Rightarrow> pydict list" where
  "tool_schemas_from_tools ts = map tool_schema_from_tool ts"

text \<open>A \<open>ToolRegistry\<close> is the list of its tools, with distinct names.\<close>

type_synonym tool_registry = "tool list"

definition register_tool :: "tool \<Rightarrow> tool_registry \<Rightarrow> exn + tool_registry" where
  "register_tool t tools =
     (if fetch tl_name (tl_name t) tools \<noteq> None then
        Inl (ValueError (''tool already registered: '' @ tl_name t))
      else Inr (tools @ [t]))"

definition get_tool :: "tool_registry \<Rightarrow> string \<Rightarrow> exn + tool" where
  "get_tool tools name =
     (case fetch tl_name name tools of
        None \<Rightarrow> Inl (KeyError (''unknown tool: '' @ name))
      | Some t \<Rightarrow> Inr t)"

definition tool_names :: "tool_registry \<Rightarrow> string list" where
  "tool_names tools = sort (map tl_name tools)"

definition sorted_tools :: "tool_registry \<Rightarrow> tool list" where
  "sorted_tools tools = List.map_filter (\<lambda>name. fetch tl_name name tools) (tool_names tools)"

definition registry_schemas :: "tool_registry \<Rightarrow> pydict list" where
  "registry_schemas tools = tool_schemas_from_tools (sorted_tools tools)"

definition is_dangerous :: "tool_registry \<Rightarrow> string \<Rightarrow> exn + bool" where
  "is_dangerous tools name =
     bindE (get_tool tools name) (\<lambda>t. Inr (truthy (dget_or (declared_metadata t) ''dangerous'' (PBool False))))"

definition registry_metadata :: "tool_registry \<Rightarrow> string \<Rightarrow> exn + pydict" where
  "registry_metadata tools name = bindE (get_tool tools name) (\<lambda>t. Inr (declared_metadata t))"

definition registry_tool_metadata :: "(pyval \<Rightarrow> string) \<Rightarrow> tool_registry \<Rightarrow> string \<Rightarrow> exn + tool_metadata" where
  "registry_tool_metadata repr tools name =
     bindE (registry_metadata tools name) (\<lambda>m. normalize_tool_metadata repr m [])"

definition tools_for_model :: "(pyval \<Rightarrow> string) \<Rightarrow> tool_registry \<Rightarrow> exn + tool list" where
  "tools_for_model repr tools =
     bindE (sum_list_of (map (\<lambda>t. map_sum id (\<lambda>m. (t, m)) (registry_tool_metadata repr tools (tl_name t)))
         (sorted_tools tools))) (\<lambda>known.
     Inr (map fst (filter (\<lambda>(t, m). tm_approval_policy m \<noteq> DENY) known)))"

definition output_policy :: "(pyval \<Rightarrow> string) \<Rightarrow> tool_registry \<Rightarrow> string \<Rightarrow> exn + pydict" where
  "output_policy repr tools name =
     bindE (registry_tool_metadata repr tools name) (\<lambda>m.
     Inr [(''visibility'', PStr (tm_output_visibility m)),
          (''redaction_status'', PStr (tm_output_redaction_status m)),
          (''max_chars'', PInt (tm_output_max_chars m))])"

section \<open>Permission\<close>

record tool_call =
  tc_name :: string
  tc_arguments :: pydict
  tc_id :: "string option"

record permission_decision =
  pd_allowed :: bool
  pd_requires_approval :: bool
  pd_reason :: string
  pd_decision :: "string option"
  pd_risk_level :: "string option"
  pd_approval_summary :: "string option"
  pd_safe_argument_preview :: pydict
  pd_policy_tags :: "string list"

definition quoted :: "string \<Rightarrow> string" where
  "quoted s = [CHR 39] @ s @ [CHR 39]"

definition truncate_text :: "string \<Rightarrow> int \<Rightarrow> string" where
  "truncate_text value max_chars =
     (if int (length value) \<le> max_chars then value else slice_to (max_chars - 3) value @ ''...'')"

definition argument_text :: "(pyval \<Rightarrow> string) \<Rightarrow> tool_call \<Rightarrow> string \<Rightarrow> string \<Rightarrow> string" where
  "argument_text repr call key fallback =
     (let value = dget (tc_arguments call) key in if value = PNone then fallback else py_str repr value)"

definition approval_reason :: "string \<Rightarrow> approval_policy \<Rightarrow> string" where
  "approval_reason name policy =
     (if policy = ARGUMENT_SENSITIVE then ''tool '' @ quoted name @ '' requires argument-sensitive approval''
      else ''tool '' @ quoted name @ '' is marked dangerous'')"

definition approval_summary :: "(pyval \<Rightarrow> string) \<Rightarrow> tool_call \<Rightarrow> tool_metadata \<Rightarrow> string" where
  "approval_summary repr call m =
     (if tc_name call = ''delete_resource'' \<and> tm_category m = KUBERNETES then
        ''Delete Kubernetes '' @ argument_text repr call ''resource'' ''resource'' @ '': '' @
        argument_text repr call ''namespace'' ''default'' @ ''/'' @ argument_text repr call ''name'' ''unknown''
      else if tm_category m = SHELL then
        ''Run local shell command: '' @ truncate_text (argument_text repr call ''command'' ''<empty command>'') 120
      else if tm_destructive m then ''Approve destructive tool call: '' @ tc_name call
      else if tm_side_effect_level m = EFFECT_REMOTE then
        ''Approve remote side-effect tool call: '' @ tc_name call
      else ''Approve tool call: '' @ tc_name call)"

definition safe_argument_preview :: "(pyval \<Rightarrow> string) \<Rightarrow> tool_call \<Rightarrow> tool_metadata \<Rightarrow> pydict" where
  "safe_argument_preview repr call m =
     (if tc_name call = ''delete_resource'' \<and> tm_category m = KUBERNETES then
        [(''resource'', PStr (argument_text repr call ''resource'' [])),
         (''name'', PStr (argument_text repr call ''name'' [])),
         (''namespace'', PStr (argument_text repr call ''namespace'' ''default''))]
      else if tm_category m = SHELL then
        (let command = argument_text repr call ''command'' [] in
         [(''command_preview'', PStr (truncate_text command 240)),
          (''command_chars'', PInt (int (length command)))])
      else tc_arguments call)"

definition policy_tags :: "tool_metadata \<Rightarrow> string list" where
  "policy_tags m =
     (let tags = [tool_category_value (tm_category m), approval_policy_value (tm_approval_policy m)];
          scope = execution_scope_value (tm_execution_scope m);
          level = side_effect_value (tm_side_effect_level m);
          tags = (if scope \<notin> set tags then tags @ [scope] else tags);
          tags = (if level \<notin> set tags then tags @ [level] else tags);
          tags = (if tm_destructive m then tags @ [''destructive''] else tags)
      in if tm_credential_sensitive m then tags @ [''credential_sensitive''] else tags)"

definition argument_sensitive_decision :: "tool_call \<Rightarrow> tool_category \<Rightarrow> permission_decision option" where
  "argument_sensitive_decision call category =
     Some \<lparr>pd_allowed = False, pd_requires_approval = True,
       pd_reason = ''tool '' @ quoted (tc_name call) @ '' requires argument-sensitive approval'',
       pd_decision = Some ''interrupt_for_approval'', pd_risk_level = Some ''medium'',
       pd_approval_summary = Some (''Approve argument-sensitive tool call: '' @ tc_name call),
       pd_safe_argument_preview = tc_arguments call,
       pd_policy_tags = [tool_category_value category, approval_policy_value ARGUMENT_SENSITIVE]\<rparr>"

definition denied_decision :: "string \<Rightarrow> string \<Rightarrow> permission_decision" where
  "denied_decision reason tag =
     \<lparr>pd_allowed = False, pd_requires_approval = False, pd_reason = reason, pd_decision = Some ''deny'',
      pd_risk_level = Some ''high'', pd_approval_summary = None, pd_safe_argument_preview = [],
      pd_policy_tags = [tag]\<rparr>"

text \<open>\<open>PermissionPolicy.check\<close>.\<close>

definition decide_permission :: "(pyval \<Rightarrow> string) \<Rightarrow> tool_call \<Rightarrow> tool_metadata \<Rightarrow> permission_decision" where
  "decide_permission repr call m =
     (let by_argument =
        (if tm_approval_policy m = ARGUMENT_SENSITIVE then argument_sensitive_decision call (tm_category m) else None)
      in
      if tm_approval_policy m = DENY then
        denied_decision (''tool '' @ quoted (tc_name call) @ '' is denied by policy'') ''policy_deny''
      else
        (case by_argument of
           Some d \<Rightarrow> d
         | None \<Rightarrow>
             if tm_approval_policy m = APPROVAL_REQUIRED then
               \<lparr>pd_allowed = False, pd_requires_approval = True,
                pd_reason = approval_reason (tc_name call) (tm_approval_policy m),
                pd_decision = Some ''interrupt_for_approval'',
                pd_risk_level = Some (if tm_dangerous m \<or> tm_destructive m then ''high'' else ''medium''),
                pd_approval_summary = Some (approval_summary repr call m),
                pd_safe_argument_preview = safe_argument_preview repr call m,
                pd_policy_tags = policy_tags m\<rparr>
             else
               \<lparr>pd_allowed = True, pd_requires_approval = False, pd_reason = ''safe tool'',
                pd_decision = Some ''allow'', pd_risk_level = Some ''low'', pd_approval_summary = None,
                pd_safe_argument_preview = [],
                pd_policy_tags = [tool_category_value (tm_category m), approval_policy_value (tm_approval_policy m)]\<rparr>))"

fun is_key_error :: "exn \<Rightarrow> bool" where
  "is_key_error (KeyError _) = True"
| "is_key_error _ = False"

definition check_permission :: "(pyval \<Rightarrow> string) \<Rightarrow> tool_registry \<Rightarrow> tool_call \<Rightarrow> exn + permission_decision" where
  "check_permission repr tools call =
     (case registry_tool_metadata repr tools (tc_name call) of
        Inl e \<Rightarrow>
          if is_key_error e then Inr (denied_decision (''unknown tool: '' @ tc_name call) ''unknown_tool'')
          else Inl e
      | Inr m \<Rightarrow> Inr (decide_permission repr call m))"

section \<open>What normalisation guarantees\<close>

lemma enum_members [simp]:
  "find (\<lambda>k. tool_source_value k = tool_source_value a) tool_sources = Some a"
  "find (\<lambda>k. tool_category_value k = tool_category_value b) tool_categories = Some b"
  "find (\<lambda>k. execution_scope_value k = execution_scope_value c) execution_scopes = Some c"
  "find (\<lambda>k. side_effect_value k = side_effect_value d) side_effect_levels = Some d"
  "find (\<lambda>k. approval_policy_value k = approval_policy_value e) approval_policies = Some e"
proof -
  show "find (\<lambda>k. tool_source_value k = tool_source_value a) tool_sources = Some a"
    by (cases a) (simp_all add: tool_sources_def)
  show "find (\<lambda>k. tool_category_value k = tool_category_value b) tool_categories = Some b"
    by (cases b) (simp_all add: tool_categories_def)
  show "find (\<lambda>k. execution_scope_value k = execution_scope_value c) execution_scopes = Some c"
    by (cases c) (simp_all add: execution_scopes_def)
  show "find (\<lambda>k. side_effect_value k = side_effect_value d) side_effect_levels = Some d"
    by (cases d) (simp_all add: side_effect_levels_def)
  show "find (\<lambda>k. approval_policy_value k = approval_policy_value e) approval_policies = Some e"
    by (cases e) (simp_all add: approval_policies_def)
qed

definition metadata_ok :: "tool_metadata \<Rightarrow> bool" where
  "metadata_ok m \<longleftrightarrow> validate_tool_metadata m = Inr m \<and> 1 \<le> tm_output_max_chars m \<and>
     [] \<notin> set (tm_artifact_kinds m) \<and> (tm_approval_policy m = APPROVAL_REQUIRED \<longrightarrow> tm_dangerous m)"

lemma validate_returns: "validate_tool_metadata m = Inr m' \<Longrightarrow> m' = m"
  by (auto simp: validate_tool_metadata_def bindE_Inr split: if_splits)

lemma string_tuple_ok: "string_tuple repr key v = Inr ks \<Longrightarrow> [] \<notin> set ks"
  by (auto simp: string_tuple_def Let_def split: pyval.splits if_splits)

lemma positive_int_ok: "positive_int key v = Inr i \<Longrightarrow> 1 \<le> i"
  by (auto simp: positive_int_def Let_def split: pyval.splits if_splits sum.splits)

lemma normalize_ok:
  assumes "normalize_tool_metadata repr md ov = Inr m"
  shows "metadata_ok m"
proof -
  note step = assms [unfolded normalize_tool_metadata_def Let_def bindE_Inr]
  from step show ?thesis
    by (elim exE conjE)
       (frule validate_returns, drule positive_int_ok, drule string_tuple_ok, simp add: metadata_ok_def)
qed

lemma map_PStr: "map (py_str repr) (map PStr ks) = ks"
  by (induction ks) (simp_all add: py_str_def optional_str_def)

lemma normalize_to_metadata:
  assumes "metadata_ok m"
  shows "normalize_tool_metadata repr (to_metadata m) [] = Inr m"
proof -
  have str: "py_str repr (PStr s) = s" for s by (simp add: py_str_def optional_str_def)
  have image: "py_str repr ` PStr ` S = S" for S by (simp add: image_image str)
  have "normalize_tool_metadata repr (to_metadata m) [] = validate_tool_metadata m"
    using assms
    by (cases m) (auto simp: normalize_tool_metadata_def to_metadata_def dupdate_def dget_or_def dget_def enum_value_def
        bool_value_def str image positive_int_def string_tuple_def map_PStr [simplified] Let_def metadata_ok_def)
  then show ?thesis using assms by (simp add: metadata_ok_def)
qed


lemma bindE_errors:
  assumes "bindE m f = Inl e" and "\<And>e. m = Inl e \<Longrightarrow> P e" and "\<And>a e. f a = Inl e \<Longrightarrow> P e"
  shows "P e"
  using assms by (cases m) auto

lemma bool_value_error: "bool_value key v = Inl e \<Longrightarrow> \<not> is_key_error e"
  by (cases v) (auto simp: bool_value_def)

lemma enum_value_error: "enum_value repr f ms key v = Inl e \<Longrightarrow> \<not> is_key_error e"
  by (auto simp: enum_value_def split: option.splits)

lemma string_tuple_error: "string_tuple repr key v = Inl e \<Longrightarrow> \<not> is_key_error e"
  by (cases v) (auto simp: string_tuple_def Let_def split: if_splits)

lemma validate_error: "validate_tool_metadata m = Inl e \<Longrightarrow> \<not> is_key_error e"
  unfolding validate_tool_metadata_def validate_output_visibility_def validate_redaction_status_def
  by (erule bindE_errors [where P = "\<lambda>e. \<not> is_key_error e"];
      (erule bindE_errors [where P = "\<lambda>e. \<not> is_key_error e"])?) (auto split: if_split_asm)

lemmas field_errors = bool_value_error enum_value_error string_tuple_error validate_error

lemma positive_int_error: "positive_int key v = Inl e \<Longrightarrow> \<not> is_key_error e"
proof -
  have "\<not> is_key_error e" if "py_int v = Inl e" for v e
    using that by (induction v rule: py_int.induct) (auto split: option.splits)
  then show "positive_int key v = Inl e \<Longrightarrow> \<not> is_key_error e"
    by (cases v) (auto simp: positive_int_def Let_def split: sum.splits if_splits option.splits)
qed

lemma normalize_errors: "normalize_tool_metadata repr md ov = Inl e \<Longrightarrow> \<not> is_key_error e"
  unfolding normalize_tool_metadata_def Let_def
  by (elim bindE_errors [where P = "\<lambda>e. \<not> is_key_error e"] field_errors positive_int_error)

lemma decide_permission_cases:
  "pd_allowed (decide_permission repr call m) \<longleftrightarrow> tm_approval_policy m = AUTO"
  "pd_requires_approval (decide_permission repr call m) \<longleftrightarrow>
     tm_approval_policy m \<in> {APPROVAL_REQUIRED, ARGUMENT_SENSITIVE}"
  by (cases "tm_approval_policy m";
      simp add: decide_permission_def denied_decision_def argument_sensitive_decision_def)+

lemma normalize_dangerous:
  assumes "normalize_tool_metadata repr md [] = Inr m" and "map_of md ''dangerous'' = Some (PBool True)"
    and "map_of md ''approval_policy'' = None"
  shows "tm_approval_policy m = APPROVAL_REQUIRED"
proof -
  have "enum_value repr approval_policy_value approval_policies ''approval_policy'' (PStr ''approval_required'') = Inr APPROVAL_REQUIRED"
    by (simp add: enum_value_def py_str_def optional_str_def approval_policies_def)
  then show ?thesis
    using assms
    by (auto simp: normalize_tool_metadata_def Let_def bindE_Inr dget_or_def dupdate_def bool_value_def dest!: validate_returns)
qed

text \<open>
  Normalised metadata are stable.  Writing the metadata of a tool back as a dictionary
  and normalising it again, as the registry does on every lookup, gives the same
  metadata, whatever dictionary and overrides they came from.
\<close>

theorem metadata_roundtrip:
  assumes "normalize_tool_metadata repr md ov = Inr m"
  shows "normalize_tool_metadata repr' (to_metadata m) [] = Inr m"
  using normalize_to_metadata [OF normalize_ok [OF assms]] .

theorem metadata_roundtrip_witness:
  "\<exists>m. normalize_tool_metadata (\<lambda>_. []) [(''dangerous'', PBool True), (''output_max_chars'', PStr '' 1_000 '')] [] = Inr m \<and>
     normalize_tool_metadata (\<lambda>_. []) (to_metadata m) [] = Inr m \<and> tm_output_max_chars m = 1000"
proof -
  let ?n = "normalize_tool_metadata (\<lambda>_. []) [(''dangerous'', PBool True), (''output_max_chars'', PStr '' 1_000 '')] []"
  have "(case ?n of Inl _ \<Rightarrow> False | Inr m \<Rightarrow> tm_output_max_chars m = 1000)" by code_simp
  then obtain m where m: "?n = Inr m" "tm_output_max_chars m = 1000" by (auto split: sum.splits)
  then show ?thesis using metadata_roundtrip [OF m(1)] by blast
qed

text \<open>
  C39. The permission gate runs nothing on its own account that it should ask about.  An
  unknown tool is denied.  For a registered one with readable metadata, the call is
  allowed outright exactly when the policy is \<open>auto\<close> and sent for approval exactly when the
  policy asks for it, never both; a tool that is declared dangerous and names no policy
  of its own is sent for approval; and a destructive tool never counts as read-only, so
  its effects are recorded.  The gate raises only for metadata that are invalid.
\<close>

theorem permission_gate:
  "case fetch tl_name (tc_name call) tools of
     None \<Rightarrow> \<exists>d. check_permission repr tools call = Inr d \<and> \<not> pd_allowed d \<and> \<not> pd_requires_approval d
   | Some t \<Rightarrow>
       (case normalize_tool_metadata repr (declared_metadata t) [] of
          Inl e \<Rightarrow> check_permission repr tools call = Inl e
        | Inr m \<Rightarrow> \<exists>d. check_permission repr tools call = Inr d \<and>
            (pd_allowed d \<longleftrightarrow> tm_approval_policy m = AUTO) \<and>
            (pd_requires_approval d \<longleftrightarrow> tm_approval_policy m \<in> {APPROVAL_REQUIRED, ARGUMENT_SENSITIVE}) \<and>
            \<not> (pd_allowed d \<and> pd_requires_approval d) \<and> \<not> (tm_destructive m \<and> tm_read_only m) \<and>
            (map_of (declared_metadata t) ''dangerous'' = Some (PBool True) \<and>
             map_of (declared_metadata t) ''approval_policy'' = None \<longrightarrow> pd_requires_approval d))"
proof -
  have "\<not> (tm_destructive m \<and> tm_read_only m)" if "metadata_ok m" for m
    using that by (auto simp: metadata_ok_def validate_tool_metadata_def bindE_Inr split: if_splits)
  then show ?thesis
    by (auto simp: check_permission_def registry_tool_metadata_def registry_metadata_def get_tool_def denied_decision_def
        decide_permission_cases normalize_dangerous dest: normalize_ok normalize_errors split: option.splits sum.splits)
qed

definition sample_registry :: tool_registry where
  "sample_registry =
     [\<lparr>tl_name = ''read_log'', tl_description = [], tl_parameters = PNone, tl_metadata = Some [(''category'', PStr ''logs'')]\<rparr>,
      \<lparr>tl_name = ''run_shell'', tl_description = [], tl_parameters = PNone, tl_metadata = Some [(''dangerous'', PBool True)]\<rparr>,
      \<lparr>tl_name = ''format_disk'', tl_description = [], tl_parameters = PNone, tl_metadata = Some [(''approval_policy'', PStr ''deny'')]\<rparr>]"

theorem permission_gate_witness:
  "\<exists>d. check_permission (\<lambda>_. []) sample_registry \<lparr>tc_name = ''run_shell'', tc_arguments = [], tc_id = None\<rparr> = Inr d \<and>
     pd_requires_approval d \<and> \<not> pd_allowed d"
proof -
  let ?call = "\<lparr>tc_name = ''run_shell'', tc_arguments = [], tc_id = None\<rparr>"
  have "case fetch tl_name ''run_shell'' sample_registry of None \<Rightarrow> False | Some t \<Rightarrow>
      map_of (declared_metadata t) ''dangerous'' = Some (PBool True) \<and>
      map_of (declared_metadata t) ''approval_policy'' = None \<and>
      (case normalize_tool_metadata (\<lambda>_. []) (declared_metadata t) [] of Inl _ \<Rightarrow> False | Inr _ \<Rightarrow> True)"
    by code_simp
  then show ?thesis
    using permission_gate [where repr = "\<lambda>_. []" and call = ?call and tools = sample_registry] by (auto split: option.splits sum.splits)
qed

text \<open>
  What the model is offered can be used.  Every tool the registry shows to the model is
  registered, and a call of it is allowed or sent for approval; a tool whose policy is to
  deny is not shown.
\<close>

theorem offered_tools_not_denied:
  assumes "tools_for_model repr tools = Inr ts" and "t \<in> set ts" and "tc_name call = tl_name t"
  shows "\<exists>d. check_permission repr tools call = Inr d \<and> (pd_allowed d \<or> pd_requires_approval d)"
proof -
  obtain known where known: "sum_list_of (map (\<lambda>t. map_sum id (\<lambda>m. (t, m)) (registry_tool_metadata repr tools (tl_name t)))
         (sorted_tools tools)) = Inr known" and ts: "ts = map fst (filter (\<lambda>(t, m). tm_approval_policy m \<noteq> DENY) known)"
    using assms(1) by (auto simp: tools_for_model_def bindE_Inr)
  have read: "sum_list_of (map (\<lambda>t. map_sum id (\<lambda>m. (t, m)) (f t)) xs) = Inr ys \<Longrightarrow> (t, m) \<in> set ys \<Longrightarrow> f t = Inr m"
    for f :: "tool \<Rightarrow> exn + tool_metadata" and xs ys t m
  proof (induction xs arbitrary: ys)
    case (Cons x xs)
    then show ?case by (cases "f x") (auto split: sum.splits)
  qed simp
  obtain m where "(t, m) \<in> set known" "tm_approval_policy m \<noteq> DENY" using assms(2) ts by auto
  then have m: "registry_tool_metadata repr tools (tl_name t) = Inr m" "tm_approval_policy m \<noteq> DENY"
    using read [OF known] by auto
  then show ?thesis
    using assms(3) by (cases "tm_approval_policy m") (auto simp: check_permission_def decide_permission_cases)
qed

theorem offered_tools_not_denied_witness:
  "\<exists>ts d. tools_for_model (\<lambda>_. []) sample_registry = Inr ts \<and> map tl_name ts = [''read_log'', ''run_shell''] \<and>
     check_permission (\<lambda>_. []) sample_registry \<lparr>tc_name = ''run_shell'', tc_arguments = [], tc_id = None\<rparr> = Inr d \<and>
     (pd_allowed d \<or> pd_requires_approval d)"
proof -
  have "(case tools_for_model (\<lambda>_. []) sample_registry of Inl _ \<Rightarrow> False
      | Inr ts \<Rightarrow> map tl_name ts = [''read_log'', ''run_shell''])" by code_simp
  then obtain ts where ts: "tools_for_model (\<lambda>_. []) sample_registry = Inr ts" "map tl_name ts = [''read_log'', ''run_shell'']"
    by (auto split: sum.splits)
  obtain a t where "ts = [a, t]" "tl_name t = ''run_shell''"
    using ts(2) by (auto simp: map_eq_Cons_conv)
  then show ?thesis
    using ts offered_tools_not_denied [OF ts(1), of t "\<lparr>tc_name = ''run_shell'', tc_arguments = [], tc_id = None\<rparr>"] by auto
qed

end
