(* ===== verification/Invocation_Ledger.thy ===== *)
theory Invocation_Ledger
  imports Tool_Policy
begin

text \<open>
  The durable boundary around the effects of tools, \<open>main_agent/invocation_ledger.py\<close>
  with the records of \<open>langgraph_runtime/invocations.py\<close>: before a tool that may change
  something runs, it is given an identity, its arguments are stored with the secrets
  taken out, and a row of the ledger is claimed; afterwards the outcome is recorded.

  \<open>json.loads\<close>, the two forms of \<open>json.dumps\<close> the code uses, the hexadecimal SHA-256
  digest of a text and \<open>repr\<close> are arguments.
\<close>

record ledger_env =
  le_loads :: "string \<Rightarrow> exn + pyval"
  le_dumps :: "pyval \<Rightarrow> string"
  le_canonical :: "pyval \<Rightarrow> string"
  le_sha256 :: "string \<Rightarrow> string"
  le_repr :: "pyval \<Rightarrow> string"

text \<open>A \<open>ToolMessage\<close>, and what a tool call may return: such a message or another object.\<close>

record tool_message =
  tmsg_content :: pyval
  tmsg_name :: "string option"
  tmsg_tool_call_id :: string
  tmsg_status :: string

datatype tool_response = MessageResponse tool_message | ObjectResponse pyval

record tool_invocation_reference =
  ir_invocation_id :: string
  ir_arguments_digest :: string
  ir_status :: string
  ir_execution_blocked :: bool
  ir_blocked_reason :: "string option"

record tool_invocation_execution =
  ie_invocation_id :: string
  ie_execute :: bool
  ie_message :: "string option"

section \<open>Arguments without secrets\<close>

definition sensitive_argument_keys :: "string list" where
  "sensitive_argument_keys = [''api_key'', ''apikey'', ''authorization'', ''credential'', ''credentials'',
     ''password'', ''secret'', ''token'']"

text \<open>\<open>str.casefold()\<close>: lower case, with a sharp s written out.  (The folding of the micro
  sign is outside the range of a \<open>char\<close>; it occurs in none of the keys.)\<close>

definition casefold :: "string \<Rightarrow> string" where
  "casefold s = concat (map (\<lambda>c. if of_char c = (223 :: nat) then ''ss'' else [lower_char c]) s)"

definition sensitive_key :: "string \<Rightarrow> bool" where
  "sensitive_key key \<longleftrightarrow> casefold key \<in> set sensitive_argument_keys"

primrec json_safe :: "(pyval \<Rightarrow> string) \<Rightarrow> pyval \<Rightarrow> pyval" where
  "json_safe repr PNone = PNone"
| "json_safe repr (PBool b) = PBool b"
| "json_safe repr (PInt i) = PInt i"
| "json_safe repr (PFloat f) = PFloat f"
| "json_safe repr (PStr s) = PStr s"
| "json_safe repr (PList xs) = PList (map (json_safe repr) xs)"
| "json_safe repr (PTuple xs) = PList (map (json_safe repr) xs)"
| "json_safe repr (PDict d) = PDict (map (map_prod id (json_safe repr)) d)"
| "json_safe repr (PProxy d) = PDict (map (map_prod id (json_safe repr)) d)"
| "json_safe repr (POpaque c) = PStr (repr (POpaque c))"

text \<open>\<open>_redact_value\<close>: the entries of a mapping whose key is sensitive are replaced, the
  others are redacted in turn.\<close>

definition hide_entry :: "string \<times> pyval \<Rightarrow> string \<times> pyval" where
  "hide_entry kv = (if sensitive_key (fst kv) then (fst kv, PStr ''[REDACTED]'') else kv)"

primrec redact_value :: "(pyval \<Rightarrow> string) \<Rightarrow> pyval \<Rightarrow> pyval" where
  "redact_value repr PNone = PNone"
| "redact_value repr (PBool b) = PBool b"
| "redact_value repr (PInt i) = PInt i"
| "redact_value repr (PFloat f) = PFloat f"
| "redact_value repr (PStr s) = PStr s"
| "redact_value repr (PList xs) = PList (map (redact_value repr) xs)"
| "redact_value repr (PTuple xs) = PList (map (redact_value repr) xs)"
| "redact_value repr (PDict d) = PDict (map hide_entry (map (map_prod id (redact_value repr)) d))"
| "redact_value repr (PProxy d) = PDict (map hide_entry (map (map_prod id (redact_value repr)) d))"
| "redact_value repr (POpaque c) = PStr (repr (POpaque c))"

definition normalized_arguments :: "(pyval \<Rightarrow> string) \<Rightarrow> pyval \<Rightarrow> pydict" where
  "normalized_arguments repr value =
     (case redact_value repr (if is_mapping value then value else PDict [(''value'', value)]) of
        PDict d \<Rightarrow> d
      | _ \<Rightarrow> [])"

definition arguments_digest :: "ledger_env \<Rightarrow> pyval \<Rightarrow> string" where
  "arguments_digest env value = le_sha256 env (le_canonical env (json_safe (le_repr env) value))"

definition tool_call_fallback_id :: "int \<Rightarrow> string \<Rightarrow> string \<Rightarrow> string" where
  "tool_call_fallback_id loop_index tool_name digest =
     str_int loop_index @ '':'' @ tool_name @ '':'' @ take 16 digest"

definition invocation_id_for ::
  "ledger_env \<Rightarrow> string \<Rightarrow> string \<Rightarrow> int \<Rightarrow> string \<Rightarrow> string \<Rightarrow> string \<Rightarrow> string" where
  "invocation_id_for env task_id runtime_thread_id loop_index tool_call_id tool_name digest =
     ''inv-'' @ take 32 (le_sha256 env (join_str ''|''
       [task_id, runtime_thread_id, str_int loop_index, tool_call_id, tool_name, digest]))"

section \<open>Before the tool runs\<close>

definition capability_payload :: "tool_metadata \<Rightarrow> pydict" where
  "capability_payload m =
     [(''source'', PStr (tool_source_value (tm_source m))),
      (''category'', PStr (tool_category_value (tm_category m))),
      (''executionScope'', PStr (execution_scope_value (tm_execution_scope m))),
      (''readOnly'', PBool (tm_read_only m)),
      (''sideEffectLevel'', PStr (side_effect_value (tm_side_effect_level m))),
      (''destructive'', PBool (tm_destructive m)),
      (''credentialSensitive'', PBool (tm_credential_sensitive m)),
      (''idempotencySupported'', PBool False)]"

definition replay_status :: "tool_invocation_status \<Rightarrow> bool" where
  "replay_status s \<longleftrightarrow> s \<in> {INV_RUNNING, SUCCEEDED, UNCERTAIN}"

definition blocked_reference :: "tool_invocation_record \<Rightarrow> tool_invocation_reference" where
  "blocked_reference record =
     \<lparr>ir_invocation_id = v_invocation_id record, ir_arguments_digest = v_arguments_digest record,
      ir_status = invocation_status_value (v_status record), ir_execution_blocked = True,
      ir_blocked_reason = Some (''A matching side-effect invocation is already '' @
        invocation_status_value (v_status record) @ ''; the runtime will not repeat it automatically.'')\<rparr>"

text \<open>The reference for a row that was created or found.\<close>

definition reference_for :: "tool_invocation_record \<Rightarrow> tool_invocation_reference" where
  "reference_for record =
     (if replay_status (v_status record) then blocked_reference record
      else \<lparr>ir_invocation_id = v_invocation_id record, ir_arguments_digest = v_arguments_digest record,
        ir_status = invocation_status_value (v_status record), ir_execution_blocked = False,
        ir_blocked_reason = None\<rparr>)"

definition prepare_for_task ::
  "ledger_env \<Rightarrow> task_record \<Rightarrow> string \<Rightarrow> int \<Rightarrow> pydict \<Rightarrow> tool_metadata \<Rightarrow> bool \<Rightarrow>
    tool_invocation_reference option py" where
  "prepare_for_task env task runtime_thread_id loop_index tool_call metadata approval_required =
     (let repr = le_repr env;
          tool_name = py_str repr (py_or (dget tool_call ''name'') (PStr []));
          digest = arguments_digest env (dget tool_call ''args'');
          call_id = py_str repr (py_or (dget tool_call ''id'') (PStr (tool_call_fallback_id loop_index tool_name digest)));
          invocation_id =
            invocation_id_for env (t_task_id task) runtime_thread_id loop_index call_id tool_name digest
      in
      if tool_name = [] then returnM None
      else
        bindM (get_tool_invocation invocation_id) (\<lambda>existing.
        bindM (if existing = None
               then find_latest_tool_invocation_for_effect (t_task_id task) tool_name digest
               else returnM None) (\<lambda>prior.
        if (case prior of None \<Rightarrow> False | Some p \<Rightarrow> replay_status (v_status p)) then
          returnM (map_option blocked_reference prior)
        else
          bindM (create_or_get_tool_invocation invocation_id (t_task_id task) (t_context_id task)
            runtime_thread_id loop_index call_id tool_name
            (normalized_arguments repr (dget tool_call ''args'')) digest (capability_payload metadata)
            (side_effect_value (tm_side_effect_level metadata)) None approval_required) (\<lambda>record.
          returnM (Some (reference_for record))))))"

definition prepare_invocation ::
  "ledger_env \<Rightarrow> string option \<Rightarrow> int \<Rightarrow> pydict \<Rightarrow> pydict option \<Rightarrow> bool \<Rightarrow>
    tool_invocation_reference option py" where
  "prepare_invocation env runtime_thread_id loop_index tool_call declared approval_required =
     (case runtime_thread_id of
        None \<Rightarrow> returnM None
      | Some thread \<Rightarrow>
          if thread = [] then returnM None
          else
            bindM (get_task_by_runtime_thread_id thread) (\<lambda>found.
            (case found of
               None \<Rightarrow> returnM None
             | Some task \<Rightarrow>
                 if t_assigned_agent_id task \<noteq> None then returnM None
                 else
                   bindM (liftE (normalize_tool_metadata (le_repr env)
                     (case declared of None \<Rightarrow> [] | Some d \<Rightarrow> d) [])) (\<lambda>metadata.
                   if tm_read_only metadata then returnM None
                   else prepare_for_task env task thread loop_index tool_call metadata approval_required))))"

section \<open>Around the execution\<close>

definition begin_execution :: "string \<Rightarrow> tool_invocation_execution py" where
  "begin_execution invocation_id =
     bindM (begin_tool_invocation invocation_id) (\<lambda>record.
     returnM
       (if v_status record = INV_RUNNING then
          \<lparr>ie_invocation_id = invocation_id, ie_execute = True, ie_message = None\<rparr>
        else if v_status record = PREPARED \<and> v_approval_required record then
          \<lparr>ie_invocation_id = invocation_id, ie_execute = False,
           ie_message = Some ''Tool invocation is still waiting for its bound approval.''\<rparr>
        else
          \<lparr>ie_invocation_id = invocation_id, ie_execute = False,
           ie_message = Some (''Tool invocation is already '' @ invocation_status_value (v_status record) @
             ''; it will not be replayed automatically.'')\<rparr>))"

definition mark_execution_uncertain :: "string \<Rightarrow> string \<Rightarrow> string \<Rightarrow> unit py" where
  "mark_execution_uncertain invocation_id error_code error_message =
     bindM (mark_tool_invocation_uncertain invocation_id error_code error_message False) (\<lambda>_. returnM ())"

definition cancel_execution :: "string \<Rightarrow> string \<Rightarrow> unit py" where
  "cancel_execution invocation_id reason =
     bindM (cancel_tool_invocation invocation_id reason) (\<lambda>_. returnM ())"

text \<open>The content of a response.\<close>

fun response_content :: "tool_response \<Rightarrow> pyval" where
  "response_content (MessageResponse m) = tmsg_content m"
| "response_content (ObjectResponse v) = v"

definition tool_response_text :: "ledger_env \<Rightarrow> tool_response \<Rightarrow> string" where
  "tool_response_text env response =
     (case response_content response of
        PStr s \<Rightarrow> s
      | content \<Rightarrow> le_dumps env (json_safe (le_repr env) content))"

definition structured_tool_response :: "ledger_env \<Rightarrow> pyval \<Rightarrow> exn + pyval" where
  "structured_tool_response env content =
     (case content of
        PDict d \<Rightarrow> Inr (PDict d)
      | PProxy d \<Rightarrow> Inr (PProxy d)
      | PStr s \<Rightarrow>
          (case le_loads env s of
             Inl (JSONDecodeError _) \<Rightarrow> Inr PNone
           | r \<Rightarrow> r)
      | _ \<Rightarrow> Inr PNone)"

fun mapping_entries :: "pyval \<Rightarrow> pydict option" where
  "mapping_entries (PDict d) = Some d"
| "mapping_entries (PProxy d) = Some d"
| "mapping_entries _ = None"

text \<open>\<open>next((str(v) for v in candidates if isinstance(v, str) and v), default)\<close>.\<close>

definition first_text :: "pyval list \<Rightarrow> string \<Rightarrow> string" where
  "first_text candidates fallback =
     (case filter (\<lambda>s. s \<noteq> []) (List.map_filter as_str candidates) of [] \<Rightarrow> fallback | s # _ \<Rightarrow> s)"

definition failed_tool_response :: "ledger_env \<Rightarrow> tool_response \<Rightarrow> exn + (string \<times> string) option" where
  "failed_tool_response env response =
     (if (case response of MessageResponse m \<Rightarrow> tmsg_status m = ''error'' | _ \<Rightarrow> False) then
        Inr (Some (''tool_execution_result_uncertain'', tool_response_text env response))
      else
        bindE (structured_tool_response env (response_content response)) (\<lambda>structured.
        (case mapping_entries structured of
           None \<Rightarrow> Inr None
         | Some d \<Rightarrow>
             if dget d ''ok'' \<noteq> PBool False then Inr None
             else
               (let error = mapping_entries (dget d ''error'');
                    of_error = (\<lambda>key. case error of None \<Rightarrow> PNone | Some e \<Rightarrow> dget e key)
                in
                Inr (Some
                  (first_text [dget d ''error_code'', dget d ''errorCode'', dget d ''code'', of_error ''code'']
                     ''tool_execution_result_uncertain'',
                   first_text [dget d ''error_message'', dget d ''message'', dget d ''stderr'', of_error ''message'']
                     (tool_response_text env response)))))))"

definition finish_execution :: "ledger_env \<Rightarrow> string \<Rightarrow> tool_response \<Rightarrow> unit py" where
  "finish_execution env invocation_id response =
     bindM (liftE (failed_tool_response env response)) (\<lambda>failure.
     (case failure of
        Some (error_code, error_message) \<Rightarrow> mark_execution_uncertain invocation_id error_code error_message
      | None \<Rightarrow>
          bindM (complete_tool_invocation_success invocation_id
            [PDict [(''kind'', PStr ''text''), (''text'', PStr (tool_response_text env response))]]
            [(''kind'', PStr ''tool_invocation_result''), (''invocationId'', PStr invocation_id),
             (''toolResultStatus'', PStr (case response of MessageResponse m \<Rightarrow> tmsg_status m | _ \<Rightarrow> ''success''))]) (\<lambda>_.
          returnM ())))"

section \<open>Secrets stay out of the ledger\<close>

text \<open>No entry with a sensitive key holds anything but the mark, at any depth.\<close>

primrec redacted :: "pyval \<Rightarrow> bool" where
  "redacted PNone = True"
| "redacted (PBool b) = True"
| "redacted (PInt i) = True"
| "redacted (PFloat f) = True"
| "redacted (PStr s) = True"
| "redacted (PList xs) = list_all id (map redacted xs)"
| "redacted (PTuple xs) = list_all id (map redacted xs)"
| "redacted (PDict d) = (list_all snd (map (map_prod id redacted) d) \<and>
     list_all (\<lambda>kv. sensitive_key (fst kv) \<longrightarrow> snd kv = PStr ''[REDACTED]'') d)"
| "redacted (PProxy d) = (list_all snd (map (map_prod id redacted) d) \<and>
     list_all (\<lambda>kv. sensitive_key (fst kv) \<longrightarrow> snd kv = PStr ''[REDACTED]'') d)"
| "redacted (POpaque c) = True"

lemma redacted_dict:
  "redacted (PDict d) \<longleftrightarrow> (\<forall>(k, v) \<in> set d. redacted v \<and> (sensitive_key k \<longrightarrow> v = PStr ''[REDACTED]''))"
  by (auto simp: list_all_iff map_prod_def)

declare redacted.simps(8) [simp del]

lemma redact_value_redacted: "redacted (redact_value repr v)"
proof (induction v)
  case (PDict d)
  then show ?case by (fastforce simp: redacted_dict hide_entry_def snds.simps)
next
  case (PProxy d)
  then show ?case by (fastforce simp: redacted_dict hide_entry_def snds.simps)
qed (auto simp: list_all_iff)

lemma redacted_norm: "redacted v \<Longrightarrow> redacted (json_norm v)"
proof (induction v)
  case (PDict d)
  then show ?case by (fastforce simp: redacted_dict snds.simps)
next
  case (PProxy d)
  then show ?case by (fastforce simp: list_all_iff snds.simps)
qed (auto simp: list_all_iff)

lemma normalized_arguments_redacted: "redacted (PDict (normalized_arguments repr v))"
proof -
  have "redact_value repr (PDict d) = PDict (normalized_arguments repr (PDict d))"
    "redact_value repr (PProxy d) = PDict (normalized_arguments repr (PProxy d))" for d
    by (simp_all add: normalized_arguments_def)
  moreover have "\<not> is_mapping v \<Longrightarrow> normalized_arguments repr v = normalized_arguments repr (PDict [(''value'', v)])"
    by (simp add: normalized_arguments_def)
  ultimately show ?thesis
    by (cases v) (metis redact_value_redacted is_mapping.simps)+
qed

lemma dumps_dict_redacted: "redacted (PDict d) \<Longrightarrow> dumps_dict d = Inr d' \<Longrightarrow> redacted (PDict d')"
  using redacted_norm by (fastforce simp: redacted_dict dumps_dict_def split: if_splits)


definition ledger_redacted :: "tables \<Rightarrow> bool" where
  "ledger_redacted t \<longleftrightarrow> (\<forall>v \<in> set (tb_tool_invocations t). redacted (PDict (v_normalized_arguments v)))"

lemma redacted_other_tables:
  "stmt_keeps ledger_redacted (upsert_artifact_row a)" "stmt_keeps ledger_redacted (insert_task_event_row e)"
  by (auto intro!: stmt_keeps_frame simp: upsert_artifact_row_def insert_task_event_row_def guarded_Inr Let_def
      ledger_redacted_def split: if_splits)

lemma redacted_set_task: "ledger_redacted (set_task k f t) = ledger_redacted t"
  by (simp add: ledger_redacted_def)

lemma redacted_updates:
  assumes "\<And>v. same_effect v v \<Longrightarrow> same_effect v (f v)"
  shows "stmt_keeps ledger_redacted (set_invocations P f)"
proof -
  have "v_normalized_arguments (f v) = v_normalized_arguments v" for v
    using assms [of v] by (simp add: same_effect_def)
  then show ?thesis
    by (auto simp: stmt_keeps_def set_invocations_def ledger_redacted_def set_set_where)
qed

lemma artifact_ops_redacted:
  "tx_keeps ledger_redacted (upsert_artifact aid k c parts md)"
  "tx_keeps ledger_redacted (append_task_event k ty st pl)"
  unfolding upsert_artifact_def append_task_event_def get_task_def get_artifact_def get_task_event_def
  by (intro tx_intros redacted_other_tables; simp add: redacted_set_task)+

lemma ledger_updates_redacted:
  "tx_keeps ledger_redacted (begin_tool_invocation i)" "tx_keeps ledger_redacted (mark_tool_invocation_uncertain i ec em rt)"
  "tx_keeps ledger_redacted (cancel_tool_invocation i rs)" "tx_keeps ledger_redacted (complete_tool_invocation_success i parts md)"
  unfolding begin_tool_invocation_def mark_tool_invocation_uncertain_def cancel_tool_invocation_def
    complete_tool_invocation_success_def get_tool_invocation_def
  by (intro tx_intros redacted_updates artifact_ops_redacted; simp)+

lemma insert_redacted: "redacted (PDict (v_normalized_arguments v)) \<Longrightarrow> stmt_keeps ledger_redacted (insert_tool_invocation_row v)"
  by (auto simp: stmt_keeps_def insert_tool_invocation_row_def guarded_Inr ledger_redacted_def split: if_splits)

lemma tx_liftE_bind: "(\<And>a. r = Inr a \<Longrightarrow> tx_keeps I (f a)) \<Longrightarrow> tx_keeps I (bindM (liftE r) f)"
  by (cases r) (auto intro!: tx_keepsI simp: wp_rules tx_post_refl dest: tx_keepsD)

lemma create_redacted:
  assumes "redacted (PDict na)"
  shows "tx_keeps ledger_redacted (create_or_get_tool_invocation i k c th n tc tn na ad cap sl ik ar)"
  unfolding create_or_get_tool_invocation_def check_invocation_owner_def insert_new_invocation_def
    get_tool_invocation_by_execution_identity_def get_tool_invocation_def get_task_def
  by (intro tx_intros tx_liftE_bind insert_redacted) (use dumps_dict_redacted [OF assms] in simp)

lemma prepare_redacted: "tx_keeps ledger_redacted (prepare_invocation env th n call declared ar)"
  unfolding prepare_invocation_def prepare_for_task_def Let_def get_tool_invocation_def get_task_by_runtime_thread_id_def
    find_latest_tool_invocation_for_effect_def
  by (intro tx_intros create_redacted normalized_arguments_redacted)

lemma execution_redacted:
  "tx_keeps ledger_redacted (begin_execution i)" "tx_keeps ledger_redacted (mark_execution_uncertain i ec em)"
  "tx_keeps ledger_redacted (cancel_execution i rs)" "tx_keeps ledger_redacted (finish_execution env i r)"
  unfolding begin_execution_def mark_execution_uncertain_def cancel_execution_def finish_execution_def
  by (intro tx_intros ledger_updates_redacted)+


section \<open>The interface of the graph runtime\<close>

text \<open>The protocol \<open>ToolInvocationRecorder\<close> and its implementation on the store.\<close>

record tool_invocation_recorder =
  tr_prepare :: "string option \<Rightarrow> int \<Rightarrow> pydict \<Rightarrow> pydict option \<Rightarrow> bool \<Rightarrow> tool_invocation_reference option py"
  tr_begin_execution :: "string \<Rightarrow> tool_invocation_execution py"
  tr_finish_execution :: "string \<Rightarrow> tool_response \<Rightarrow> unit py"
  tr_mark_execution_uncertain :: "string \<Rightarrow> string \<Rightarrow> string \<Rightarrow> unit py"
  tr_cancel :: "string \<Rightarrow> string \<Rightarrow> unit py"

definition main_agent_ledger :: "ledger_env \<Rightarrow> tool_invocation_recorder" where
  "main_agent_ledger env =
     \<lparr>tr_prepare = prepare_invocation env, tr_begin_execution = begin_execution,
      tr_finish_execution = finish_execution env, tr_mark_execution_uncertain = mark_execution_uncertain,
      tr_cancel = cancel_execution\<rparr>"

definition settles_to :: "tool_invocation_status \<Rightarrow> bool" where
  "settles_to s \<longleftrightarrow> s = SUCCEEDED \<or> s = UNCERTAIN"

definition effect_at :: "string \<Rightarrow> (tool_invocation_status \<Rightarrow> bool) \<Rightarrow> tables \<Rightarrow> bool" where
  "effect_at i P t \<longleftrightarrow> (\<exists>v. fetch v_invocation_id i (tb_tool_invocations t) = Some v \<and> P (v_status v))"

abbreviation running_at :: "string \<Rightarrow> tables \<Rightarrow> bool" where
  "running_at i \<equiv> effect_at i (\<lambda>s. s = INV_RUNNING)"

definition none_running :: "tables \<Rightarrow> bool" where
  "none_running t \<longleftrightarrow> (\<forall>v \<in> set (tb_tool_invocations t). v_status v \<noteq> INV_RUNNING)"

definition only_running :: "string \<Rightarrow> tables \<Rightarrow> bool" where
  "only_running i t \<longleftrightarrow> running_at i t \<and>
     (\<forall>v \<in> set (tb_tool_invocations t). v_status v = INV_RUNNING \<longrightarrow> v_invocation_id v = i)"

definition effect_settled :: "string \<Rightarrow> tables \<Rightarrow> bool" where
  "effect_settled i t \<longleftrightarrow> none_running t \<and> effect_at i settles_to t"

text \<open>
  What the wrapper around a tool call relies on.  While no effect is running, preparing a call
  and canceling it keep it so, and an execution that may start is the only one that
  runs; recording its result or marking it uncertain settles it, and a result that cannot
  be recorded leaves it running.
\<close>

locale effect_recorder =
  fixes recorder :: tool_invocation_recorder
  assumes prepare_quiet: "keeps (safe none_running) (tr_prepare recorder th n call declared ar)"
    and cancel_quiet: "keeps (safe none_running) (tr_cancel recorder i rs)"
    and begin_claims: "safe none_running w \<Longrightarrow>
      wp (tr_begin_execution recorder i)
        (\<lambda>x. if ie_execute x then safe (only_running i) else safe none_running) (\<lambda>_. safe none_running) w"
    and finish_settles: "safe (only_running i) w \<Longrightarrow>
      wp (tr_finish_execution recorder i r) (\<lambda>_. safe (effect_settled i)) (\<lambda>_. safe (only_running i)) w"
    and mark_settles: "safe (only_running i) w \<Longrightarrow>
      wp (tr_mark_execution_uncertain recorder i ec em) (\<lambda>_. safe (effect_settled i)) (\<lambda>_ _. False) w"

lemma begin_run:
  assumes "safe (\<lambda>_. True) w"
  shows "wp (begin_tool_invocation i)
    (\<lambda>v w'. safe (\<lambda>_. True) w' \<and> fetch v_invocation_id i (tb_tool_invocations (conn w')) = Some v \<and>
       (\<exists>u. fetch v_invocation_id i (tb_tool_invocations (conn w)) = Some u \<and>
          (if v_status u = PREPARED \<and> (v_approval_required u \<longrightarrow> v_approval_status u = APPROVED)
           then v_status v = INV_RUNNING else v = u \<and> conn w' = conn w)))
    (\<lambda>e w'. safe (\<lambda>_. True) w' \<and> conn w' = conn w \<and> is_value_error e \<and>
       fetch v_invocation_id i (tb_tool_invocations (conn w)) = None) w"
  using assms
  by (auto simp: begin_tool_invocation_def get_tool_invocation_def wp_rules safe_def set_invocations_def fetch_set_where
      dest: fetch_SomeD split: option.splits)

lemma begin_law:
  assumes "safe none_running w"
  shows "wp (begin_tool_invocation i)
    (\<lambda>v. if v_status v = INV_RUNNING then safe (only_running i) else safe none_running)
    (\<lambda>_. safe none_running) w"
  using assms
  by (auto simp: begin_tool_invocation_def get_tool_invocation_def wp_rules safe_def set_invocations_def fetch_set_where
      only_running_def none_running_def effect_at_def ball_set_where
      dest: fetch_SomeD split: option.splits)

lemma mark_law:
  assumes "safe (only_running i) w"
  shows "wp (mark_tool_invocation_uncertain i ec em rt) (\<lambda>_. safe (effect_settled i)) (\<lambda>_ _. False) w"
  using assms
  by (auto simp: mark_tool_invocation_uncertain_def get_tool_invocation_def wp_rules safe_def set_invocations_def
      effect_at_def settles_to_def only_running_def effect_settled_def none_running_def ball_set_where table_simps
      split: option.splits if_splits)

lemma complete_law:
  assumes "safe (only_running i) w"
  shows "wp (complete_tool_invocation_success i parts md) (\<lambda>_. safe (effect_settled i)) (\<lambda>_. safe (only_running i)) w"
proof -
  obtain v where v: "fetch v_invocation_id i (tb_tool_invocations (conn w)) = Some v" "v_status v = INV_RUNNING"
    and others: "\<forall>u \<in> set (tb_tool_invocations (conn w)). v_status u = INV_RUNNING \<longrightarrow> v_invocation_id u = i"
    using assms by (auto simp: safe_def only_running_def effect_at_def)
  let ?same = "\<lambda>w'. tb_tool_invocations (conn w') = tb_tool_invocations (conn w)"
  have artifact: "wp (upsert_artifact a k c parts md) (\<lambda>_. ?same) (\<lambda>_ _. True) w1" if "?same w1" for a k c w1
    by (rule wp_mono [OF wp_upsert_artifact]) (use that in simp_all)
  have event: "wp (append_task_event k ty st pl) (\<lambda>_. ?same) (\<lambda>_ _. True) w1" if "?same w1" for k ty st pl w1
    by (rule wp_mono [OF wp_append_task_event_frame]) (use that in simp_all)
  have row: "effect_settled i (t\<lparr>tb_tool_invocations :=
      set_where (\<lambda>v. v_invocation_id v = i) (succeeded_row a now) (tb_tool_invocations (conn w))\<rparr>)" for t a now
    using v others
    by (auto simp: effect_settled_def none_running_def effect_at_def settles_to_def ball_set_where table_simps dest: fetch_SomeD)
  have "wp (complete_tool_invocation_success i parts md) (\<lambda>_ w'. safe (\<lambda>_. True) w' \<and> effect_settled i (conn w'))
      (\<lambda>_ w'. safe (\<lambda>_. True) w' \<and> conn w' = conn w) w"
    unfolding complete_tool_invocation_success_def
  proof (rule transaction_restores [where Q = "\<lambda>_ w'. effect_settled i (conn w')"], goal_cases)
    case 1
    show ?case
      unfolding upsert_artifact_def append_task_event_def get_task_def get_artifact_def get_task_event_def get_tool_invocation_def
      by (intro tx_intros)
  next
    case 2
    show ?case using assms by (simp add: safe_def)
  next
    case 3
    show ?case
      apply (simp add: get_tool_invocation_def wp_rules v)
      apply (rule wp_mono [OF artifact])
        apply simp
       apply (subst wp_bindM, rule wp_mono [OF event])
         apply simp
        apply (simp add: wp_rules set_invocations_def table_simps v row)
       apply simp_all
      done
  qed simp
  then show ?thesis using assms by (auto simp: safe_def elim!: wp_mono)
qed

lemma quiet_statements:
  "v_status r \<noteq> INV_RUNNING \<Longrightarrow> stmt_keeps none_running (insert_tool_invocation_row r)"
  "stmt_keeps none_running (set_invocations P (canceled_row rs now))"
  by (auto simp: stmt_keeps_def none_running_def insert_tool_invocation_row_def guarded_Inr set_invocations_def ball_set_where
      canceled_row_def split: if_splits)

lemma prepare_quiet_law: "tx_keeps none_running (prepare_invocation env th n call declared ar)"
  unfolding prepare_invocation_def prepare_for_task_def Let_def get_tool_invocation_def get_task_by_runtime_thread_id_def
    find_latest_tool_invocation_for_effect_def create_or_get_tool_invocation_def check_invocation_owner_def insert_new_invocation_def
    get_tool_invocation_by_execution_identity_def get_task_def
  by (intro tx_intros quiet_statements) simp

lemma cancel_quiet_law: "tx_keeps none_running (cancel_execution i rs)"
  unfolding cancel_execution_def cancel_tool_invocation_def get_tool_invocation_def
  by (intro tx_intros quiet_statements)

interpretation main_ledger: effect_recorder "main_agent_ledger env"
proof (unfold_locales, goal_cases)
  case (1 th n call declared ar)
  show ?case
    unfolding main_agent_ledger_def tool_invocation_recorder.simps by (rule keeps_of_tx [OF prepare_quiet_law])
next
  case (2 i rs)
  show ?case
    unfolding main_agent_ledger_def tool_invocation_recorder.simps by (rule keeps_of_tx [OF cancel_quiet_law])
next
  case (3 w i)
  show ?case
    unfolding main_agent_ledger_def tool_invocation_recorder.simps begin_execution_def wp_bindM
    by (rule wp_mono [OF begin_law [OF 3]]) (auto simp: wp_rules split: if_splits)
next
  case (4 i w r)
  have "safe (only_running i) w" by (rule 4)
  then show ?case
    unfolding main_agent_ledger_def tool_invocation_recorder.simps finish_execution_def mark_execution_uncertain_def
    by (auto simp: wp_rules intro!: wp_mono [OF mark_law] wp_mono [OF complete_law] split: sum.splits option.splits)
next
  case (5 i w ec em)
  show ?case
    unfolding main_agent_ledger_def tool_invocation_recorder.simps mark_execution_uncertain_def wp_bindM
    by (rule wp_mono [OF mark_law [OF 5]]) (auto simp: wp_rules)
qed

section \<open>What the ledger promises\<close>

text \<open>
  C37. Secrets never reach the database.  A ledger in which no argument under a sensitive key
  (such as \<open>password\<close> or \<open>API_KEY\<close>, in any case, at any depth) is stored in the clear stays so
  under every operation of the adapter: preparing a call replaces those values before
  the row is written, and nothing later changes the stored arguments.
\<close>

theorem stored_arguments_redacted:
  "tx_keeps ledger_redacted (prepare_invocation env th n call declared ar) \<and>
   tx_keeps ledger_redacted (begin_execution i) \<and> tx_keeps ledger_redacted (finish_execution env i r) \<and>
   tx_keeps ledger_redacted (mark_execution_uncertain i ec em) \<and> tx_keeps ledger_redacted (cancel_execution i rs)"
  by (simp add: prepare_redacted execution_redacted)

text \<open>
  C38. Claiming an effect.  On every branch: an unknown invocation raises and changes nothing;
  one that is prepared, and approved if it has to be, is moved to running and may
  execute; one that still waits for its approval may not; one that has ended may not.  An
  invocation that is already running is reported as executable again, and nothing is
  written, so the claim is not exclusive.
\<close>

theorem begin_execution_spec:
  assumes "safe (\<lambda>_. True) w"
  shows "case fetch v_invocation_id i (tb_tool_invocations (conn w)) of
      None \<Rightarrow> wp (begin_execution i) (\<lambda>_ _. False) (\<lambda>e w'. is_value_error e \<and> conn w' = conn w) w
    | Some u \<Rightarrow> wp (begin_execution i)
        (\<lambda>x w'. ie_invocation_id x = i \<and>
           (if v_status u = PREPARED \<and> (v_approval_required u \<longrightarrow> v_approval_status u = APPROVED)
            then ie_execute x \<and> running_at i (conn w')
            else conn w' = conn w \<and> (ie_execute x \<longleftrightarrow> v_status u = INV_RUNNING)))
        (\<lambda>_ _. False) w"
  unfolding begin_execution_def wp_bindM
  by (cases "fetch v_invocation_id i (tb_tool_invocations (conn w))"; simp only: option.case;
      rule wp_mono [OF begin_run [OF assms]]; auto simp: wp_returnM effect_at_def split: if_splits)

theorem begin_execution_spec_witness:
  "wp (begin_execution ''inv'') (\<lambda>x w'. ie_execute x \<and> conn w' = sample_tables\<lparr>tb_tool_invocations := [sample_invocation\<lparr>v_status := INV_RUNNING\<rparr>]\<rparr>)
     (\<lambda>_ _. False) (world_of (sample_tables\<lparr>tb_tool_invocations := [sample_invocation\<lparr>v_status := INV_RUNNING\<rparr>]\<rparr>))"
proof -
  let ?w = "world_of (sample_tables\<lparr>tb_tool_invocations := [sample_invocation\<lparr>v_status := INV_RUNNING\<rparr>]\<rparr>)"
  have "safe (\<lambda>_. True) ?w" by (simp add: safe_def)
  moreover have "fetch v_invocation_id ''inv'' (tb_tool_invocations (conn ?w)) = Some (sample_invocation\<lparr>v_status := INV_RUNNING\<rparr>)"
    by (simp add: table_simps sample_invocation_def)
  ultimately show ?thesis
    using begin_execution_spec [of ?w "''inv''"] by (auto elim!: wp_mono)
qed


text \<open>The parts of a tool call that identify an effect.\<close>

definition call_name :: "ledger_env \<Rightarrow> pydict \<Rightarrow> string" where
  "call_name env call = py_str (le_repr env) (py_or (dget call ''name'') (PStr []))"

definition call_digest :: "ledger_env \<Rightarrow> pydict \<Rightarrow> string" where
  "call_digest env call = arguments_digest env (dget call ''args'')"

definition same_call :: "task_record \<Rightarrow> string \<Rightarrow> string \<Rightarrow> tool_invocation_record \<Rightarrow> bool" where
  "same_call task name digest v \<longleftrightarrow> v_task_id v = t_task_id task \<and> v_tool_name v = name \<and> v_arguments_digest v = digest"

lemma newest_last: "(case rev ys of [] \<Rightarrow> None | v # _ \<Rightarrow> Some v) = (if ys = [] then None else Some (last ys))"
  by (cases ys rule: rev_cases) auto

lemma last_of_sorted: "xs \<noteq> [] \<Longrightarrow> sort_key key xs \<noteq> [] \<and> last (sort_key key xs) \<in> set xs"
  by (metis last_in_set length_0_conv length_sort set_sort)

lemma latest_run:
  assumes "v \<in> set (tb_tool_invocations (conn w))" and "same_call task name digest v"
  shows "wp (find_latest_tool_invocation_for_effect (t_task_id task) name digest)
    (\<lambda>r w'. w' = w \<and> (\<exists>p \<in> set (tb_tool_invocations (conn w)). r = Some p \<and> same_call task name digest p)) (\<lambda>_ _. False) w"
proof -
  let ?xs = "filter (\<lambda>v. v_task_id v = t_task_id task \<and> v_tool_name v = name \<and> v_arguments_digest v = digest)
      (tb_tool_invocations (conn w))"
  have "?xs \<noteq> []" using assms by (auto simp: filter_empty_conv same_call_def)
  from last_of_sorted [OF this, of "\<lambda>v. (v_created_at v, v_invocation_id v)"] show ?thesis
    unfolding find_latest_tool_invocation_for_effect_def wp_query newest_last by (auto simp: same_call_def)
qed

lemma create_known:
  assumes "safe (\<lambda>_. True) w" and "fetch v_invocation_id i (tb_tool_invocations (conn w)) \<noteq> None"
  shows "wp (create_or_get_tool_invocation i k c th n tc tn na ad cap sl ik ar)
    (\<lambda>v w'. conn w' = conn w \<and> v \<in> set (tb_tool_invocations (conn w)) \<and> v_task_id v = k \<and> v_tool_name v = tn \<and>
       v_arguments_digest v = ad) (\<lambda>e w'. conn w' = conn w \<and> is_value_error e) w"
  using assms
  by (auto simp: create_or_get_tool_invocation_def check_invocation_owner_def wp_rules get_task_def
      get_tool_invocation_def safe_def validate_tool_invocation_identity_def
      split: option.split sum.split dest: fetch_SomeD)

text \<open>
  C36. An effect that may have happened is not repeated.  Take a Task that runs locally, a tool that is not
  declared read-only, and a call of it whose name and arguments the ledger already knows for that
  Task, and suppose none of those invocations is still prepared or was canceled: each is running,
  succeeded or uncertain.  Preparing the call again, in this or a later round, under the same or
  another call id, writes nothing, and returns a reference to one of those invocations that forbids the
  execution; or it raises a value error, which can only be when an invocation with the very id of
  the new one is stored.
\<close>

theorem effect_not_repeated:
  assumes "safe (\<lambda>_. True) w" and "fetch t_runtime_thread_id th (tb_tasks (conn w)) = Some task" and "th \<noteq> []"
    and "t_assigned_agent_id task = None" and "call_name env call \<noteq> []"
    and "normalize_tool_metadata (le_repr env) (case declared of None \<Rightarrow> [] | Some d \<Rightarrow> d) [] = Inr md" and "\<not> tm_read_only md"
    and "v \<in> set (tb_tool_invocations (conn w))" and "same_call task (call_name env call) (call_digest env call) v"
    and "\<forall>u \<in> set (tb_tool_invocations (conn w)).
      same_call task (call_name env call) (call_digest env call) u \<longrightarrow> v_status u \<in> {INV_RUNNING, SUCCEEDED, UNCERTAIN}"
  shows "wp (prepare_invocation env (Some th) n call declared ar)
    (\<lambda>r w'. conn w' = conn w \<and>
       (\<exists>ref. r = Some ref \<and> ir_execution_blocked ref \<and>
         (\<exists>u \<in> set (tb_tool_invocations (conn w)). same_call task (call_name env call) (call_digest env call) u \<and>
            ir_invocation_id ref = v_invocation_id u)))
    (\<lambda>e w'. conn w' = conn w \<and> is_value_error e \<and>
       (\<exists>call_id. fetch v_invocation_id (invocation_id_for env (t_task_id task) th n call_id (call_name env call)
          (call_digest env call)) (tb_tool_invocations (conn w)) \<noteq> None)) w" (is "wp _ ?Q ?E w")
proof -
  let ?k = "t_task_id task" and ?name = "call_name env call" and ?digest = "call_digest env call"
  let ?known = "\<lambda>p. p \<in> set (tb_tool_invocations (conn w)) \<and> same_call task ?name ?digest p \<and> replay_status (v_status p)"
  have replay: "replay_status (v_status u)" if "u \<in> set (tb_tool_invocations (conn w))" "same_call task ?name ?digest u" for u
    using assms(10) that by (simp add: replay_status_def)
  have latest: "wp (find_latest_tool_invocation_for_effect ?k ?name ?digest)
      (\<lambda>r w'. w' = w \<and> (\<exists>p. r = Some p \<and> ?known p)) (\<lambda>_ _. False) w"
    by (rule wp_mono [OF latest_run [OF assms(8,9)]]) (use replay in auto)
  have known: "wp (create_or_get_tool_invocation i ?k c th n tc ?name na ?digest cap sl ik ar)
      (\<lambda>u w'. conn w' = conn w \<and> ?known u) (\<lambda>e w'. conn w' = conn w \<and> is_value_error e) w"
    if "fetch v_invocation_id i (tb_tool_invocations (conn w)) \<noteq> None" for i c n tc na cap sl ik ar
    by (rule wp_mono [OF create_known [OF assms(1) that]]) (use replay in \<open>auto simp: same_call_def\<close>)
  have task: "wp (prepare_for_task env task th n call md ar) ?Q ?E w"
    unfolding prepare_for_task_def Let_def call_name_def [symmetric] call_digest_def [symmetric]
    by (auto simp: wp_rules get_tool_invocation_def reference_for_def blocked_reference_def assms(5)
        intro!: wp_mono [OF latest] wp_mono [OF known] split: option.split)
  show ?thesis
    unfolding prepare_invocation_def using assms(2-4,6,7) task by (simp add: wp_rules get_task_by_runtime_thread_id_def)
qed


definition sample_ledger_env :: ledger_env where
  "sample_ledger_env = \<lparr>le_loads = \<lambda>_. Inl (JSONDecodeError []), le_dumps = \<lambda>_. [], le_canonical = \<lambda>_. ''{}'',
     le_sha256 = \<lambda>s. ''digest'', le_repr = \<lambda>_. []\<rparr>"

definition effect_tables :: tables where
  "effect_tables = sample_tables\<lparr>tb_tool_invocations := [sample_invocation\<lparr>v_status := UNCERTAIN\<rparr>]\<rparr>"

definition effect_call :: pydict where
  "effect_call = [(''name'', PStr ''tool''), (''args'', PDict [])]"

definition effect_metadata :: pydict where
  "effect_metadata = [(''read_only'', PBool False)]"

lemma effect_declared:
  "case normalize_tool_metadata (le_repr sample_ledger_env) effect_metadata [] of Inl e \<Rightarrow> False | Inr md \<Rightarrow> \<not> tm_read_only md"
  "call_name sample_ledger_env effect_call \<noteq> []" "t_assigned_agent_id sample_task = None"
  "same_call sample_task (call_name sample_ledger_env effect_call) (call_digest sample_ledger_env effect_call)
     (sample_invocation\<lparr>v_status := UNCERTAIN\<rparr>)"
  "case fst (prepare_invocation sample_ledger_env (Some ''thread'') 2 effect_call (Some effect_metadata) False
     (world_of effect_tables)) of Inr _ \<Rightarrow> True | Inl _ \<Rightarrow> False"
  by code_simp+

theorem effect_not_repeated_witness:
  "wp (prepare_invocation sample_ledger_env (Some ''thread'') 2 effect_call (Some effect_metadata) False)
     (\<lambda>r w'. conn w' = effect_tables \<and> (\<exists>ref. r = Some ref \<and> ir_execution_blocked ref)) (\<lambda>_ _. False) (world_of effect_tables)"
proof -
  obtain md where md: "normalize_tool_metadata (le_repr sample_ledger_env)
      (case Some effect_metadata of None \<Rightarrow> [] | Some d \<Rightarrow> d) [] = Inr md" "\<not> tm_read_only md"
    using effect_declared(1) by (auto split: sum.splits)
  have "wp (prepare_invocation sample_ledger_env (Some ''thread'') 2 effect_call (Some effect_metadata) False)
    (\<lambda>r w'. conn w' = effect_tables \<and> (\<exists>ref. r = Some ref \<and> ir_execution_blocked ref)) (\<lambda>_ _. True) (world_of effect_tables)"
    by (rule wp_mono [OF effect_not_repeated [OF _ _ _ effect_declared(3,2) md _ effect_declared(4)]])
       (auto simp: safe_def effect_tables_def sample_tables_def table_simps sample_task_def)
  with effect_declared(5) show ?thesis by (auto simp: wp_def split: prod.splits sum.splits)
qed

end
