(* ===== verification/Agent_Execution.thy ===== *)
theory Agent_Execution
  imports Invocation_Ledger
begin

text \<open>
  The budget of one execution and the facts it produces: \<open>langgraph_runtime/execution.py\<close>
  (policies, limits, summary), \<open>langgraph_runtime/observations.py\<close> with
  \<open>result_summary.observation_summary\<close> (what is kept of a tool's result), the state of the
  agent graph (\<open>langgraph_runtime/state.py\<close>) and \<open>langgraph_runtime/results.py\<close>.

  The clock, the formatting and rounding of floats, \<open>json.loads\<close>, \<open>json.dumps\<close> and \<open>repr\<close>
  are arguments (\<open>runtime_lib\<close>).
\<close>

record runtime_lib =
  rl_time :: "rat py"
  rl_monotonic :: "rat py"
  rl_fixed3 :: "pyfloat \<Rightarrow> string"
  rl_round3 :: "pyfloat \<Rightarrow> pyfloat"
  rl_loads :: "string \<Rightarrow> exn + pyval"
  rl_dumps :: "pyval \<Rightarrow> string"
  rl_repr :: "pyval \<Rightarrow> string"

section \<open>Messages and state of the graph\<close>

record ai_message =
  ai_content :: pyval
  ai_tool_calls :: "pydict list"

datatype agent_message =
    GraphSystem pyval
  | GraphHuman pyval
  | GraphAI ai_message
  | GraphTool tool_message

record agent_state =
  as_messages :: "agent_message list"
  as_permission :: "pydict option"
  as_approval :: "pydict option"
  as_final_answer :: "string option"
  as_loop_index :: int
  as_max_loops :: int
  as_errors :: "pydict list"
  as_runtime_thread_id :: "string option"
  as_execution_policy :: pyval
  as_execution_started_at :: pyval
  as_model_calls :: int
  as_tool_calls :: int
  as_failure_count :: int
  as_tool_argument_error_rounds :: int
  as_observations :: "pydict list"
  as_stop_reason :: "string option"
  as_stop_detail :: "pydict option"
  as_stop_message :: "string option"

section \<open>Execution policies\<close>

datatype execution_stop_reason =
    STOP_COMPLETED | STOP_INPUT_REQUIRED | STOP_APPROVAL_REQUIRED | BUDGET_EXHAUSTED
  | REPEATED_FAILURE | POLICY_BLOCKED | STOP_CANCELED | ENVIRONMENT_FAILURE | TOOL_ARGUMENT_ERROR

primrec stop_reason_value :: "execution_stop_reason \<Rightarrow> string" where
  "stop_reason_value STOP_COMPLETED = ''completed''"
| "stop_reason_value STOP_INPUT_REQUIRED = ''input_required''"
| "stop_reason_value STOP_APPROVAL_REQUIRED = ''approval_required''"
| "stop_reason_value BUDGET_EXHAUSTED = ''budget_exhausted''"
| "stop_reason_value REPEATED_FAILURE = ''repeated_failure''"
| "stop_reason_value POLICY_BLOCKED = ''policy_blocked''"
| "stop_reason_value STOP_CANCELED = ''canceled''"
| "stop_reason_value ENVIRONMENT_FAILURE = ''environment_failure''"
| "stop_reason_value TOOL_ARGUMENT_ERROR = ''tool_argument_error''"

record execution_policy =
  ep_max_model_calls :: int
  ep_max_tool_calls :: int
  ep_max_failures :: int
  ep_max_tool_argument_corrections :: int
  ep_max_loop_steps :: int
  ep_max_elapsed_seconds :: "pyfloat option"

text \<open>\<open>a <= b\<close> of floats.\<close>

definition float_le :: "pyfloat \<Rightarrow> pyfloat \<Rightarrow> bool" where
  "float_le a b \<longleftrightarrow> float_less a b \<or> a = b \<and> a \<noteq> NaN"

text \<open>\<open>__post_init__\<close>.\<close>

definition check_execution_policy :: "execution_policy \<Rightarrow> exn + execution_policy" where
  "check_execution_policy p =
     (if ep_max_model_calls p < 1 then Inl (ValueError ''max_model_calls must be at least 1'')
      else if ep_max_tool_calls p < 0 then Inl (ValueError ''max_tool_calls must be non-negative'')
      else if ep_max_failures p < 1 then Inl (ValueError ''max_failures must be at least 1'')
      else if ep_max_tool_argument_corrections p < 0 then
        Inl (ValueError ''max_tool_argument_corrections must be non-negative'')
      else if ep_max_loop_steps p < 1 then Inl (ValueError ''max_loop_steps must be at least 1'')
      else if (case ep_max_elapsed_seconds p of None \<Rightarrow> False | Some s \<Rightarrow> float_le s (Fin 0)) then
        Inl (ValueError ''max_elapsed_seconds must be positive when configured'')
      else Inr p)"

definition default_execution_policy :: execution_policy where
  "default_execution_policy =
     \<lparr>ep_max_model_calls = 5, ep_max_tool_calls = 20, ep_max_failures = 2,
      ep_max_tool_argument_corrections = 1, ep_max_loop_steps = 5, ep_max_elapsed_seconds = None\<rparr>"

definition policy_from_max_loops ::
  "int \<Rightarrow> int option \<Rightarrow> int \<Rightarrow> int \<Rightarrow> pyfloat option \<Rightarrow> exn + execution_policy" where
  "policy_from_max_loops max_loops max_tool_calls max_failures max_corrections max_elapsed =
     (if max_loops < 1 then Inl (ValueError ''max_loops must be at least 1'')
      else check_execution_policy
        \<lparr>ep_max_model_calls = max_loops,
         ep_max_tool_calls = (case max_tool_calls of Some n \<Rightarrow> n | None \<Rightarrow> max 8 (max_loops * 4)),
         ep_max_failures = max_failures, ep_max_tool_argument_corrections = max_corrections,
         ep_max_loop_steps = max_loops, ep_max_elapsed_seconds = max_elapsed\<rparr>)"

definition policy_to_dict :: "execution_policy \<Rightarrow> pydict" where
  "policy_to_dict p =
     [(''max_model_calls'', PInt (ep_max_model_calls p)), (''max_tool_calls'', PInt (ep_max_tool_calls p)),
      (''max_failures'', PInt (ep_max_failures p)),
      (''max_tool_argument_corrections'', PInt (ep_max_tool_argument_corrections p)),
      (''max_loop_steps'', PInt (ep_max_loop_steps p)),
      (''max_elapsed_seconds'', case ep_max_elapsed_seconds p of None \<Rightarrow> PNone | Some s \<Rightarrow> PFloat s)]"

definition positive_int_or :: "pyval \<Rightarrow> int \<Rightarrow> int" where
  "positive_int_or value fallback = (case value of PInt i \<Rightarrow> if i > 0 then i else fallback | _ \<Rightarrow> fallback)"

definition non_negative_int_or :: "pyval \<Rightarrow> int \<Rightarrow> int" where
  "non_negative_int_or value fallback = (case value of PInt i \<Rightarrow> if i \<ge> 0 then i else fallback | _ \<Rightarrow> fallback)"

definition positive_float_or_none :: "pyval \<Rightarrow> exn + pyfloat option" where
  "positive_float_or_none value =
     (case value of
        PInt i \<Rightarrow> if i > 0 then map_sum id Some (float_of_int i) else Inr None
      | PFloat f \<Rightarrow> Inr (if float_less (Fin 0) f then Some f else None)
      | _ \<Rightarrow> Inr None)"

definition policy_from_dict :: "pyval \<Rightarrow> exn + execution_policy" where
  "policy_from_dict value =
     (case value of
        PDict d \<Rightarrow>
          bindE (positive_float_or_none (dget d ''max_elapsed_seconds'')) (\<lambda>elapsed.
          check_execution_policy
            \<lparr>ep_max_model_calls = positive_int_or (dget d ''max_model_calls'') 5,
             ep_max_tool_calls = non_negative_int_or (dget d ''max_tool_calls'') 20,
             ep_max_failures = positive_int_or (dget d ''max_failures'') 2,
             ep_max_tool_argument_corrections =
               non_negative_int_or (dget d ''max_tool_argument_corrections'') 1,
             ep_max_loop_steps = positive_int_or (dget d ''max_loop_steps'') 5,
             ep_max_elapsed_seconds = elapsed\<rparr>)
      | _ \<Rightarrow> Inr default_execution_policy)"

definition policy_from_state :: "agent_state \<Rightarrow> exn + execution_policy" where
  "policy_from_state state =
     (case as_execution_policy state of
        PDict d \<Rightarrow> policy_from_dict (PDict d)
      | _ \<Rightarrow> policy_from_max_loops (positive_int_or (PInt (as_max_loops state)) 5) None 2 1 None)"

section \<open>Limits\<close>

record execution_limit =
  el_reason :: execution_stop_reason
  el_message :: string
  el_detail :: pydict

text \<open>\<open>max(0.0, x)\<close>, which is \<open>0.0\<close> for NaN, and sums and differences, computed exactly.\<close>

definition at_least_0 :: "pyfloat \<Rightarrow> pyfloat" where
  "at_least_0 x = (if float_less (Fin 0) x then x else Fin 0)"

fun float_minus :: "pyfloat \<Rightarrow> pyfloat \<Rightarrow> pyfloat" where
  "float_minus (Fin a) (Fin b) = Fin (a - b)"
| "float_minus NaN _ = NaN"
| "float_minus _ NaN = NaN"
| "float_minus PosInf PosInf = NaN"
| "float_minus NegInf NegInf = NaN"
| "float_minus PosInf _ = PosInf"
| "float_minus NegInf _ = NegInf"
| "float_minus _ PosInf = NegInf"
| "float_minus _ NegInf = PosInf"

fun float_plus :: "rat \<Rightarrow> pyfloat \<Rightarrow> pyfloat" where
  "float_plus a (Fin b) = Fin (a + b)"
| "float_plus a x = x"

definition elapsed_seconds :: "runtime_lib \<Rightarrow> agent_state \<Rightarrow> pyfloat py" where
  "elapsed_seconds lib state =
     (if \<not> is_number (as_execution_started_at state) then returnM (Fin 0)
      else
        bindM (rl_time lib) (\<lambda>now.
        bindM (liftE (py_float (as_execution_started_at state))) (\<lambda>started.
        returnM (at_least_0 (float_minus (Fin now) started)))))"

definition elapsed_limit :: "runtime_lib \<Rightarrow> agent_state \<Rightarrow> execution_policy \<Rightarrow> execution_limit option py" where
  "elapsed_limit lib state p =
     (case ep_max_elapsed_seconds p of
        None \<Rightarrow> returnM None
      | Some limit \<Rightarrow>
          bindM (elapsed_seconds lib state) (\<lambda>elapsed.
          returnM (if float_le elapsed limit then None
            else Some \<lparr>el_reason = BUDGET_EXHAUSTED,
              el_message = ''Execution budget exhausted: elapsed time ('' @ rl_fixed3 lib elapsed @
                ''s) exceeded the limit ('' @ rl_fixed3 lib limit @ ''s).'',
              el_detail = [(''limit'', PStr ''max_elapsed_seconds''), (''limit_value'', PFloat limit),
                (''observed_value'', PFloat (rl_round3 lib elapsed))]\<rparr>)))"

text \<open>A budget that is a count.\<close>

definition count_limit :: "execution_stop_reason \<Rightarrow> string \<Rightarrow> string \<Rightarrow> int \<Rightarrow> int \<Rightarrow> execution_limit" where
  "count_limit reason message name limit observed =
     \<lparr>el_reason = reason, el_message = message,
      el_detail = [(''limit'', PStr name), (''limit_value'', PInt limit), (''observed_value'', PInt observed)]\<rparr>"

definition failure_message :: "int \<Rightarrow> string" where
  "failure_message failures = ''Execution stopped after '' @ str_int failures @ '' tool failure(s).''"

definition model_call_limit :: "runtime_lib \<Rightarrow> agent_state \<Rightarrow> execution_limit option py" where
  "model_call_limit lib state =
     bindM (liftE (policy_from_state state)) (\<lambda>p.
     bindM (elapsed_limit lib state p) (\<lambda>elapsed.
     (case elapsed of
        Some l \<Rightarrow> returnM (Some l)
      | None \<Rightarrow>
          (let model_calls = non_negative_int_or (PInt (as_model_calls state)) 0;
               failures = non_negative_int_or (PInt (as_failure_count state)) 0
           in
           returnM
             (if model_calls \<ge> ep_max_model_calls p then
                Some (count_limit BUDGET_EXHAUSTED
                  (''Execution budget exhausted: maximum model calls ('' @ str_int (ep_max_model_calls p) @ '') reached.'')
                  ''max_model_calls'' (ep_max_model_calls p) model_calls)
              else if failures \<ge> ep_max_failures p then
                Some (count_limit REPEATED_FAILURE (failure_message failures) ''max_failures''
                  (ep_max_failures p) failures)
              else None)))))"

definition tool_call_limit :: "runtime_lib \<Rightarrow> agent_state \<Rightarrow> int \<Rightarrow> execution_limit option py" where
  "tool_call_limit lib state requested_calls =
     bindM (liftE (policy_from_state state)) (\<lambda>p.
     bindM (elapsed_limit lib state p) (\<lambda>elapsed.
     (case elapsed of
        Some l \<Rightarrow> returnM (Some l)
      | None \<Rightarrow>
          (let tool_calls = non_negative_int_or (PInt (as_tool_calls state)) 0 in
           returnM
             (if tool_calls + requested_calls > ep_max_tool_calls p then
                Some \<lparr>el_reason = BUDGET_EXHAUSTED,
                  el_message = ''Execution budget exhausted: requested tool calls would exceed the limit ('' @
                    str_int (ep_max_tool_calls p) @ '').'',
                  el_detail = [(''limit'', PStr ''max_tool_calls''), (''limit_value'', PInt (ep_max_tool_calls p)),
                    (''observed_value'', PInt tool_calls), (''requested_value'', PInt requested_calls)]\<rparr>
              else None)))))"

definition loop_step_limit :: "runtime_lib \<Rightarrow> agent_state \<Rightarrow> int \<Rightarrow> execution_limit option py" where
  "loop_step_limit lib state next_loop_index =
     bindM (liftE (policy_from_state state)) (\<lambda>p.
     bindM (elapsed_limit lib state p) (\<lambda>elapsed.
     (case elapsed of
        Some l \<Rightarrow> returnM (Some l)
      | None \<Rightarrow>
          returnM
            (if next_loop_index > ep_max_loop_steps p then
               Some (count_limit BUDGET_EXHAUSTED
                 (''Execution budget exhausted: maximum loop steps ('' @ str_int (ep_max_loop_steps p) @ '') reached.'')
                 ''max_loop_steps'' (ep_max_loop_steps p) (next_loop_index - 1))
             else None))))"

section \<open>The initial state\<close>

definition build_initial_state ::
  "runtime_lib \<Rightarrow> string \<Rightarrow> string option \<Rightarrow> agent_message list \<Rightarrow> agent_message list \<Rightarrow> int \<Rightarrow>
    execution_policy option \<Rightarrow> string option \<Rightarrow> agent_state py" where
  "build_initial_state lib user_input system_prompt context_messages history_messages max_loops given thread_id =
     bindM (case given of
              Some p \<Rightarrow> returnM p
            | None \<Rightarrow> liftE (policy_from_max_loops max_loops None 2 1 None)) (\<lambda>p.
     bindM (rl_time lib) (\<lambda>now.
     returnM
       \<lparr>as_messages =
          (case system_prompt of None \<Rightarrow> [] | Some s \<Rightarrow> if s = [] then [] else [GraphSystem (PStr s)]) @
          context_messages @ history_messages @ [GraphHuman (PStr user_input)],
        as_permission = None, as_approval = None, as_final_answer = None, as_loop_index = 1,
        as_max_loops = ep_max_loop_steps p, as_errors = [], as_runtime_thread_id = thread_id,
        as_execution_policy = PDict (policy_to_dict p), as_execution_started_at = PFloat (Fin now),
        as_model_calls = 0, as_tool_calls = 0, as_failure_count = 0, as_tool_argument_error_rounds = 0,
        as_observations = [], as_stop_reason = None, as_stop_detail = None, as_stop_message = None\<rparr>))"

section \<open>Observations\<close>

definition MAX_OBSERVATION_DATA_CHARS :: nat where
  "MAX_OBSERVATION_DATA_CHARS = 16000"

definition MAX_OBSERVATION_SUMMARY_CHARS :: nat where
  "MAX_OBSERVATION_SUMMARY_CHARS = 2000"

text \<open>What a failed tool is turned into by \<open>structured_tool_error\<close>: the text of a JSON object
  with sorted keys.\<close>

datatype tool_failure = ToolInvocationError string | OtherToolError string

definition structured_tool_error :: "runtime_lib \<Rightarrow> tool_failure \<Rightarrow> string" where
  "structured_tool_error lib exc =
     rl_dumps lib (case exc of
         ToolInvocationError m \<Rightarrow>
           PDict [(''error_code'', PStr ''tool_argument_error''), (''message'', PStr m), (''ok'', PBool False),
                  (''retryable'', PBool True)]
       | OtherToolError m \<Rightarrow>
           PDict [(''error_code'', PStr ''tool_execution_error''), (''message'', PStr m), (''ok'', PBool False),
                  (''retryable'', PBool False)])"

text \<open>\<open>_json_safe\<close> of this module knows dictionaries and lists, not read-only mappings.\<close>

primrec observation_json_safe :: "(pyval \<Rightarrow> string) \<Rightarrow> pyval \<Rightarrow> pyval" where
  "observation_json_safe repr PNone = PNone"
| "observation_json_safe repr (PBool b) = PBool b"
| "observation_json_safe repr (PInt i) = PInt i"
| "observation_json_safe repr (PFloat f) = PFloat f"
| "observation_json_safe repr (PStr s) = PStr s"
| "observation_json_safe repr (PList xs) = PList (map (observation_json_safe repr) xs)"
| "observation_json_safe repr (PTuple xs) = PList (map (observation_json_safe repr) xs)"
| "observation_json_safe repr (PDict d) = PDict (map (map_prod id (observation_json_safe repr)) d)"
| "observation_json_safe repr (PProxy d) = PStr (repr (PProxy d))"
| "observation_json_safe repr (POpaque c) = PStr (repr (POpaque c))"

definition content_text :: "runtime_lib \<Rightarrow> pyval \<Rightarrow> string" where
  "content_text lib content =
     (case content of
        PStr s \<Rightarrow> s
      | _ \<Rightarrow> rl_dumps lib (json_norm (observation_json_safe (rl_repr lib) content)))"

fun is_dict_or_list :: "pyval \<Rightarrow> bool" where
  "is_dict_or_list (PDict _) = True"
| "is_dict_or_list (PList _) = True"
| "is_dict_or_list _ = False"

definition structured_data :: "runtime_lib \<Rightarrow> pyval \<Rightarrow> exn + pyval" where
  "structured_data lib content =
     (if is_dict_or_list content then Inr (observation_json_safe (rl_repr lib) content)
      else
        (case content of
           PStr s \<Rightarrow>
             (case rl_loads lib s of
                Inl (JSONDecodeError _) \<Rightarrow> Inr PNone
              | Inl e \<Rightarrow> Inl e
              | Inr decoded \<Rightarrow>
                  Inr (if is_dict_or_list decoded then observation_json_safe (rl_repr lib) decoded else PNone))
         | _ \<Rightarrow> Inr PNone))"

definition error_fields :: "pyval \<Rightarrow> bool \<Rightarrow> string option \<times> bool" where
  "error_fields data ok =
     (if ok then (None, False)
      else
        (case data of
           PDict d \<Rightarrow>
             (let error = as_dict (dget d ''error'');
                  of_error = (\<lambda>key. case error of None \<Rightarrow> PNone | Some e \<Rightarrow> dget e key);
                  category = first_text [dget d ''error_category'', dget d ''errorCategory'', dget d ''error_code'',
                    dget d ''errorCode'', dget d ''code'', of_error ''category'', of_error ''code''] [];
                  retryable = (case dget d ''retryable'' of
                      PBool b \<Rightarrow> PBool b
                    | v \<Rightarrow> (case error of None \<Rightarrow> v | Some e \<Rightarrow> dget e ''retryable''))
              in (Some (if category = [] then ''tool_execution_error'' else category), truthy retryable))
         | _ \<Rightarrow> (Some ''tool_execution_error'', False)))"

definition changed_resources :: "runtime_lib \<Rightarrow> pyval \<Rightarrow> pyval list" where
  "changed_resources lib data =
     (case data of
        PDict d \<Rightarrow>
          (case dget_or d ''changed_resources'' (dget d ''changedResources'') of
             PList raw \<Rightarrow>
               List.map_filter (\<lambda>item.
                 (case item of
                    PDict e \<Rightarrow> Some (observation_json_safe (rl_repr lib) (PDict e))
                  | PStr s \<Rightarrow> if s \<noteq> [] then Some (PDict [(''id'', PStr s)]) else None
                  | _ \<Rightarrow> None)) raw
           | _ \<Rightarrow> [])
      | _ \<Rightarrow> [])"

text \<open>\<open>list(dict.fromkeys(values))\<close>: the first occurrence of each value.\<close>

definition unique_values :: "'a list \<Rightarrow> 'a list" where
  "unique_values xs = rev (remdups (rev xs))"

definition nonempty_strings :: "pyval list \<Rightarrow> string list" where
  "nonempty_strings xs = filter (\<lambda>s. s \<noteq> []) (List.map_filter as_str xs)"

definition artifact_refs_of :: "pyval \<Rightarrow> string list \<Rightarrow> string list" where
  "artifact_refs_of data explicit_refs =
     unique_values (explicit_refs @
       (case data of
          PDict d \<Rightarrow>
            (case dget_or d ''artifact_refs'' (dget d ''artifactRefs'') of
               PList raw \<Rightarrow> nonempty_strings raw
             | _ \<Rightarrow> []) @
            nonempty_strings [dget d ''artifact_id'', dget d ''artifactId'']
        | _ \<Rightarrow> []))"

definition bounded_data :: "runtime_lib \<Rightarrow> pyval \<Rightarrow> pyval" where
  "bounded_data lib data =
     (if data = PNone then PNone
      else
        (let serialized = rl_dumps lib (json_norm data) in
         if length serialized \<le> MAX_OBSERVATION_DATA_CHARS then data
         else PDict [(''truncated'', PBool True),
           (''preview'', PStr (take MAX_OBSERVATION_DATA_CHARS serialized)),
           (''original_characters'', PInt (int (length serialized)))]))"

definition truncate_summary :: "string \<Rightarrow> nat \<Rightarrow> string" where
  "truncate_summary t limit = (if length t \<le> limit then t else take limit t @ ''...<truncated>'')"

text \<open>\<open>str.splitlines()\<close>.\<close>

definition is_line_break :: "char \<Rightarrow> bool" where
  "is_line_break c \<longleftrightarrow> of_char c \<in> {10, 11, 12, 13, 28, 29, 30, 133 :: nat}"

fun splitlines :: "string \<Rightarrow> string \<Rightarrow> string list" where
  "splitlines line [] = (if line = [] then [] else [rev line])"
| "splitlines line (c # s) =
     (if c = CHR 13 \<and> s \<noteq> [] \<and> hd s = CHR 10 then splitlines line s
      else if is_line_break c then rev line # splitlines [] s
      else splitlines (c # line) s)"

definition observation_summary :: "runtime_lib \<Rightarrow> pyval \<Rightarrow> string \<Rightarrow> exn + string" where
  "observation_summary lib output content =
     (let by_content =
            (if take 1 (strip content) = ''{'' then
               (case rl_loads lib content of
                  Inl (JSONDecodeError _) \<Rightarrow> Inr content
                | Inl e \<Rightarrow> Inl e
                | Inr payload \<Rightarrow>
                    Inr (case payload of
                        PDict d \<Rightarrow> (case dget d ''status'' of PStr s \<Rightarrow> ''status='' @ s | _ \<Rightarrow> content)
                      | _ \<Rightarrow> content))
             else Inr content)
      in
      (case output of
         PDict d \<Rightarrow>
           (case dget d ''message'' of
              PStr (c # m) \<Rightarrow> Inr (c # m)
            | _ \<Rightarrow>
                (case dget d ''status'' of
                   PStr s \<Rightarrow> Inr (''status='' @ s)
                 | _ \<Rightarrow>
                     (let out = py_str (rl_repr lib) (py_or (dget d ''stdout'') (PStr []));
                          err = py_str (rl_repr lib) (py_or (dget d ''stderr'') (PStr []));
                          lines = splitlines [] out
                      in
                      if out \<noteq> [] then
                        Inr (''stdout_lines: '' @ str_int (int (length lines)) @ [CHR 10] @
                          join_str [CHR 10] (take 8 lines) @
                          (if length lines > 8
                           then [CHR 10] @ ''... ('' @ str_int (int (length lines) - 8) @ '' more lines in JSONL trace)''
                           else []))
                      else if err \<noteq> [] then Inr (''stderr:'' @ [CHR 10] @ err)
                      else by_content)))
       | _ \<Rightarrow> by_content))"

definition message_ok :: "string \<Rightarrow> pyval \<Rightarrow> bool" where
  "message_ok status structured \<longleftrightarrow>
     status \<noteq> ''error'' \<and> \<not> (case structured of PDict d \<Rightarrow> dget d ''ok'' = PBool False | _ \<Rightarrow> False)"

definition normalize_tool_observation ::
  "runtime_lib \<Rightarrow> tool_message \<Rightarrow> int \<Rightarrow> string list \<Rightarrow> exn + pydict" where
  "normalize_tool_observation lib message loop_index artifact_refs =
     (let content = content_text lib (tmsg_content message);
          status = (if tmsg_status message = [] then ''success'' else tmsg_status message)
      in
      bindE (structured_data lib (tmsg_content message)) (\<lambda>data.
      bindE (observation_summary lib data content) (\<lambda>summary.
      let ok = message_ok status data; (category, retryable) = error_fields data ok in
      Inr
        [(''loop_index'', PInt loop_index),
         (''tool_call_id'', PStr (tmsg_tool_call_id message)),
         (''tool_name'', PStr (case tmsg_name message of None \<Rightarrow> ''tool'' | Some n \<Rightarrow> if n = [] then ''tool'' else n)),
         (''ok'', PBool ok),
         (''summary'', PStr (truncate_summary summary MAX_OBSERVATION_SUMMARY_CHARS)),
         (''structured_data'', bounded_data lib data),
         (''error_category'', case category of None \<Rightarrow> PNone | Some c \<Rightarrow> PStr c),
         (''retryable'', PBool retryable),
         (''changed_resources'', PList (changed_resources lib data)),
         (''artifact_refs'', PList (map PStr (artifact_refs_of data artifact_refs)))])))"

definition observation_artifact_refs_for_tool_message ::
  "runtime_lib \<Rightarrow> agent_state \<Rightarrow> tool_message \<Rightarrow> string list" where
  "observation_artifact_refs_for_tool_message lib state message =
     (let matching = (\<lambda>decision.
            (case decision of
               PDict d \<Rightarrow>
                 (case (as_dict (dget d ''tool_call''), dget d ''invocation_id'') of
                    (Some call, PStr i) \<Rightarrow>
                      if py_str (rl_repr lib) (py_or (dget call ''id'') (PStr [])) = tmsg_tool_call_id message \<and> i \<noteq> []
                      then Some i else None
                  | _ \<Rightarrow> None)
             | _ \<Rightarrow> None))
      in
      (case as_permission state of
         None \<Rightarrow> []
       | Some permission \<Rightarrow>
           (case dget permission ''decisions'' of
              PList decisions \<Rightarrow>
                (case List.map_filter matching decisions of [] \<Rightarrow> [] | i # _ \<Rightarrow> [i @ '':result''])
            | _ \<Rightarrow> [])))"

section \<open>The execution summary\<close>

definition opt_str :: "string option \<Rightarrow> pyval" where
  "opt_str s = (case s of None \<Rightarrow> PNone | Some t \<Rightarrow> PStr t)"

definition stop_reason_from_state :: "agent_state \<Rightarrow> string option \<Rightarrow> string" where
  "stop_reason_from_state state final_answer =
     (case as_stop_reason state of
        Some (c # s) \<Rightarrow> c # s
      | _ \<Rightarrow>
          (case final_answer of
             Some _ \<Rightarrow> stop_reason_value STOP_COMPLETED
           | None \<Rightarrow> stop_reason_value ENVIRONMENT_FAILURE))"

definition evidence_of :: "pydict list \<Rightarrow> pyval list" where
  "evidence_of observations =
     map (\<lambda>d. PDict
         [(''tool_call_id'', dget d ''tool_call_id''), (''tool_name'', dget d ''tool_name''),
          (''summary'', dget d ''summary''),
          (''artifact_refs'', case dget d ''artifact_refs'' of PList xs \<Rightarrow> PList xs | _ \<Rightarrow> PList [])])
       (filter (\<lambda>d. dget d ''ok'' = PBool True) observations)"

definition risks_of :: "pydict list \<Rightarrow> pyval list" where
  "risks_of observations =
     map (\<lambda>d. PDict
         [(''category'', py_or (dget d ''error_category'') (PStr ''tool_execution_error'')),
          (''tool_call_id'', dget d ''tool_call_id''), (''tool_name'', dget d ''tool_name''),
          (''summary'', dget d ''summary''), (''retryable'', PBool (truthy (dget d ''retryable'')))])
       (filter (\<lambda>d. dget d ''ok'' = PBool False) observations)"

definition residual_risks :: "agent_state \<Rightarrow> string option \<Rightarrow> pyval list" where
  "residual_risks state final_answer =
     (let observations = as_observations state; stop = stop_reason_from_state state final_answer;
          risks = risks_of observations;
          risks = (if final_answer \<noteq> None \<and> evidence_of observations = [] \<and> risks = [] then
            [PDict [(''category'', PStr ''no_tool_evidence''),
               (''summary'', PStr ''The final answer is model-generated; no tool-backed observation was produced.''),
               (''retryable'', PBool False)]] else risks)
      in risks @
        (if stop \<in> {stop_reason_value STOP_COMPLETED, stop_reason_value POLICY_BLOCKED} then []
         else [PDict [(''category'', PStr stop),
           (''summary'', PStr (case as_stop_message state of
               Some (c # m) \<Rightarrow> c # m | _ \<Rightarrow> ''Execution did not reach a completed answer.'')),
           (''retryable'', PBool (stop = stop_reason_value ENVIRONMENT_FAILURE))]]))"

definition execution_summary :: "runtime_lib \<Rightarrow> agent_state \<Rightarrow> string option \<Rightarrow> pydict py" where
  "execution_summary lib state final_answer =
     (let evidence = evidence_of (as_observations state); risks = residual_risks state final_answer;
          count = (\<lambda>n. PInt (non_negative_int_or (PInt n) 0))
      in
      bindM (liftE (policy_from_state state)) (\<lambda>p.
      bindM (elapsed_seconds lib state) (\<lambda>elapsed.
      returnM
        [(''stop_reason'', PStr (stop_reason_from_state state final_answer)),
         (''stop_detail'', PDict (case as_stop_detail state of None \<Rightarrow> [] | Some d \<Rightarrow> d)),
         (''policy'', PDict (policy_to_dict p)),
         (''metrics'', PDict
            [(''model_calls'', count (as_model_calls state)), (''tool_calls'', count (as_tool_calls state)),
             (''failure_count'', count (as_failure_count state)),
             (''tool_argument_error_rounds'', count (as_tool_argument_error_rounds state)),
             (''loop_index'', PInt (positive_int_or (PInt (as_loop_index state)) 1)),
             (''elapsed_seconds'', PFloat (rl_round3 lib elapsed))]),
         (''evidence'', PList evidence), (''residual_risks'', PList risks),
         (''completion'', PDict
            [(''claimed'', PBool (final_answer \<noteq> None)), (''evidence_count'', PInt (int (length evidence))),
             (''residual_risk_count'', PInt (int (length risks)))])])))"

section \<open>Results of a run\<close>

record run_result =
  rr_thread_id :: string
  rr_final_answer :: "string option"
  rr_interrupt :: "pyval option"
  rr_interrupt_message :: "string option"
  rr_stop_message :: "string option"
  rr_stop_reason :: "string option"
  rr_observations :: "pydict list"
  rr_execution :: pydict

definition run_status :: "run_result \<Rightarrow> string" where
  "run_status r =
     (if rr_interrupt_message r \<noteq> None \<or> rr_interrupt r \<noteq> None then ''interrupted''
      else if rr_final_answer r \<noteq> None then ''completed''
      else if rr_stop_message r \<noteq> None then ''stopped''
      else ''unknown'')"

definition run_output :: "run_result \<Rightarrow> string" where
  "run_output r =
     (case rr_interrupt_message r of
        Some m \<Rightarrow> m
      | None \<Rightarrow>
          (case rr_final_answer r of
             Some a \<Rightarrow> a
           | None \<Rightarrow>
               (case rr_stop_message r of
                  Some m \<Rightarrow> m
                | None \<Rightarrow> ''Run finished for thread '' @ rr_thread_id r @ '', but no final answer was produced.'')))"

definition run_result_to_dict :: "runtime_lib \<Rightarrow> run_result \<Rightarrow> pydict" where
  "run_result_to_dict lib r =
     (let safe_payload = observation_json_safe (rl_repr lib) in
      [(''thread_id'', PStr (rr_thread_id r)), (''status'', PStr (run_status r)),
       (''final_answer'', opt_str (rr_final_answer r)),
       (''interrupt'', case rr_interrupt r of None \<Rightarrow> PNone | Some v \<Rightarrow> safe_payload v),
       (''interrupt_message'', opt_str (rr_interrupt_message r)),
       (''stop_message'', opt_str (rr_stop_message r)), (''stop_reason'', opt_str (rr_stop_reason r)),
       (''observations'', safe_payload (PList (map PDict (rr_observations r)))),
       (''execution'', safe_payload (PDict (rr_execution r)))])"

section \<open>Converting a result for the core\<close>

text \<open>\<open>task_runner._run_result_to_local_task_result\<close>.\<close>

definition execution_failure_is_retryable :: "pydict \<Rightarrow> bool" where
  "execution_failure_is_retryable execution =
     (case dget execution ''residual_risks'' of
        PList risks \<Rightarrow> list_ex (\<lambda>risk. case risk of PDict d \<Rightarrow> dget d ''retryable'' = PBool True | _ \<Rightarrow> False) risks
      | _ \<Rightarrow> False)"

end
