(* ===== verification/Execution_Context.thy ===== *)
theory Execution_Context
  imports Agent_Execution
begin

text \<open>
  The runtime-only controls of an execution, \<open>execution_context.py\<close>: which runtime threads
  are active, the cancellation signal each of them shares with the calls it makes,
  and the context that is current while a model or a tool runs.  The state is the
  \<open>control\<close> field of the \<open>world\<close>.

  The lemmas show that a signal reaches the execution it is meant for and no other, and that
  an execution leaves nothing behind: not its registration, not its context, and not a
  signal that a later execution on the same thread would see.
\<close>

section \<open>Signals\<close>

definition fresh_cancellation :: execution_cancellation where
  "fresh_cancellation = \<lparr>xc_requested = False, xc_reason = None\<rparr>"

definition signal_cancellation :: "string option \<Rightarrow> execution_cancellation \<Rightarrow> execution_cancellation" where
  "signal_cancellation reason c =
     c\<lparr>xc_reason := (case reason of
          Some r \<Rightarrow> if r \<noteq> [] \<and> xc_reason c = None then Some r else xc_reason c
        | None \<Rightarrow> xc_reason c),
       xc_requested := True\<rparr>"

definition signalled :: "control_state \<Rightarrow> nat \<Rightarrow> bool" where
  "signalled c a \<longleftrightarrow> a < length (executions c) \<and> xc_requested (ae_cancellation (executions c ! a))"

section \<open>Contexts\<close>

definition remaining_seconds :: "runtime_lib \<Rightarrow> execution_context \<Rightarrow> rat option \<Rightarrow> pyfloat option py" where
  "remaining_seconds lib cx now =
     (case cx_deadline_monotonic cx of
        None \<Rightarrow> returnM None
      | Some deadline \<Rightarrow>
          bindM (case now of None \<Rightarrow> rl_monotonic lib | Some t \<Rightarrow> returnM t) (\<lambda>t.
          returnM (Some (at_least_0 (float_minus deadline (Fin t))))))"

definition current_execution_context :: "execution_context option py" where
  "current_execution_context = getM (\<lambda>w. current_context (control w))"

definition on_control :: "(control_state \<Rightarrow> control_state) \<Rightarrow> world \<Rightarrow> world" where
  "on_control f w = w\<lparr>control := f (control w)\<rparr>"

definition set_context :: "execution_context option \<Rightarrow> control_state \<Rightarrow> control_state" where
  "set_context cx c = c\<lparr>current_context := cx\<rparr>"

section \<open>The registry\<close>

text \<open>\<open>active.users += n\<close> on the execution at an address.\<close>

definition add_users :: "int \<Rightarrow> nat \<Rightarrow> control_state \<Rightarrow> control_state" where
  "add_users n a c =
     c\<lparr>executions := (executions c)[a := (executions c ! a)\<lparr>ae_users := ae_users (executions c ! a) + n\<rparr>]\<rparr>"

definition enter_execution :: "string \<Rightarrow> control_state \<Rightarrow> nat \<times> control_state" where
  "enter_execution thread c =
     (case active_executions c thread of
        Some a \<Rightarrow> (a, add_users 1 a c)
      | None \<Rightarrow>
          (let a = length (executions c) in
           (a, c\<lparr>executions := executions c @ [\<lparr>ae_cancellation = fresh_cancellation, ae_users = 1\<rparr>],
                 active_executions := (active_executions c)(thread \<mapsto> a)\<rparr>)))"

definition leave_execution :: "string \<Rightarrow> nat \<Rightarrow> control_state \<Rightarrow> control_state" where
  "leave_execution thread a c =
     (let c' = add_users (- 1) a c in
      if ae_users (executions c' ! a) = 0 \<and> active_executions c' thread = Some a
      then c'\<lparr>active_executions := (active_executions c')(thread := None)\<rparr>
      else c')"

text \<open>\<open>with registry.activate(thread) as context: body\<close>.\<close>

definition activate :: "string \<Rightarrow> (execution_context \<Rightarrow> 'a py) \<Rightarrow> 'a py" where
  "activate thread body =
     (if thread = [] then
        raiseM (ValueError ''runtime_thread_id is required to activate an execution context'')
      else
        bindM (getM (\<lambda>w. (fst (enter_execution thread (control w)), current_context (control w)))) (\<lambda>(a, parent).
        let context = \<lparr>cx_runtime_thread_id = Some thread, cx_invocation_id = None,
              cx_deadline_monotonic = None, cx_cancellation = Some a, cx_workspace_id = None\<rparr>
        in
        bindM (modifyM (on_control (set_context (Some context) \<circ> snd \<circ> enter_execution thread))) (\<lambda>_.
        finallyM (body context) (on_control (leave_execution thread a \<circ> set_context parent)))))"

definition signal_execution :: "string option \<Rightarrow> nat \<Rightarrow> control_state \<Rightarrow> control_state" where
  "signal_execution reason a c =
     c\<lparr>executions := (executions c)[a := (executions c ! a)
         \<lparr>ae_cancellation := signal_cancellation reason (ae_cancellation (executions c ! a))\<rparr>]\<rparr>"

definition registry_request_cancellation :: "string \<Rightarrow> string option \<Rightarrow> bool py" where
  "registry_request_cancellation thread reason =
     bindM (getM control) (\<lambda>c.
     (case active_executions c thread of
        None \<Rightarrow> returnM False
      | Some a \<Rightarrow>
          if ae_users (executions c ! a) = 0 then returnM False
          else bindM (modifyM (on_control (signal_execution reason a))) (\<lambda>_. returnM True)))"

definition cancellation_requested :: "string option \<Rightarrow> bool py" where
  "cancellation_requested thread =
     (case thread of
        None \<Rightarrow> returnM False
      | Some th \<Rightarrow>
          if th = [] then returnM False
          else getM (\<lambda>w. case active_executions (control w) th of
              None \<Rightarrow> False
            | Some a \<Rightarrow> signalled (control w) a))"

text \<open>\<open>with registry._bind_capability_context(...): body\<close>.\<close>

definition capability_context ::
  "string option \<Rightarrow> string option \<Rightarrow> pyfloat option \<Rightarrow> control_state \<Rightarrow> execution_context" where
  "capability_context thread invocation_id deadline c =
     (let parent = current_context c;
          named = (case thread of Some th \<Rightarrow> if th = [] then None else Some th | None \<Rightarrow> None)
      in
      \<lparr>cx_runtime_thread_id = (case named of Some th \<Rightarrow> Some th | None \<Rightarrow> Option.bind parent cx_runtime_thread_id),
       cx_invocation_id = invocation_id, cx_deadline_monotonic = deadline,
       cx_cancellation = (case Option.bind named (active_executions c) of
            Some a \<Rightarrow> Some a
          | None \<Rightarrow> Option.bind parent cx_cancellation),
       cx_workspace_id = Option.bind parent cx_workspace_id\<rparr>)"

definition bind_capability_context ::
  "string option \<Rightarrow> string option \<Rightarrow> pyfloat option \<Rightarrow> (execution_context \<Rightarrow> 'a py) \<Rightarrow> 'a py" where
  "bind_capability_context thread invocation_id deadline body =
     bindM (getM (\<lambda>w. (current_context (control w), capability_context thread invocation_id deadline (control w))))
       (\<lambda>(parent, context).
     bindM (modifyM (on_control (set_context (Some context)))) (\<lambda>_.
     finallyM (body context) (on_control (set_context parent))))"

definition bind_tool_context ::
  "string option \<Rightarrow> string option \<Rightarrow> pyfloat option \<Rightarrow> (execution_context \<Rightarrow> 'a py) \<Rightarrow> 'a py" where
  "bind_tool_context thread invocation_id deadline body = bind_capability_context thread invocation_id deadline body"

definition bind_model_context :: "string option \<Rightarrow> pyfloat option \<Rightarrow> (execution_context \<Rightarrow> 'a py) \<Rightarrow> 'a py" where
  "bind_model_context thread deadline body = bind_capability_context thread None deadline body"

text \<open>\<open>ExecutionCancellation.requested\<close> of a context.\<close>

definition context_canceled :: "execution_context \<Rightarrow> bool py" where
  "context_canceled cx =
     (case cx_cancellation cx of
        None \<Rightarrow> returnM False
      | Some a \<Rightarrow> getM (\<lambda>w. signalled (control w) a))"


section \<open>What the registry keeps\<close>

text \<open>The thread is registered, and its execution has that many users.\<close>

definition held :: "string \<Rightarrow> nat \<Rightarrow> int \<Rightarrow> world \<Rightarrow> bool" where
  "held th a n w \<longleftrightarrow> active_executions (control w) th = Some a \<and> a < length (executions (control w)) \<and>
     ae_users (executions (control w) ! a) = n"

lemmas control_defs = on_control_def set_context_def add_users_def enter_execution_def leave_execution_def
  signal_execution_def

lemma held_signal: "keeps (held th a n) (registry_request_cancellation th' reason)"
proof -
  have "held th a n (on_control (signal_execution reason b) w)" if "held th a n w" for b w
    using that by (cases "a = b") (simp_all add: held_def control_defs)
  then show ?thesis
    unfolding keeps_iff_wp registry_request_cancellation_def by (auto simp: wp_rules split: option.split)
qed

lemma held_bind:
  assumes "\<And>cx. keeps (held th a n) (body cx)"
  shows "keeps (held th a n) (bind_capability_context th' i d body)"
proof -
  have "held th a n (on_control (set_context c) w) = held th a n w" for c w by (simp add: held_def control_defs)
  then show ?thesis
    using assms unfolding keeps_iff_wp bind_capability_context_def
    by (auto simp: wp_rules elim!: wp_mono)
qed

lemmas held_keeps [keeps_intros] = held_signal held_bind held_bind [folded bind_tool_context_def]
  held_bind [folded bind_model_context_def]

lemma held_reads [keeps_intros]:
  "keeps (held th a n) (cancellation_requested o1)" "keeps (held th a n) (context_canceled cx)"
  "keeps (held th a n) current_execution_context"
  unfolding cancellation_requested_def context_canceled_def current_execution_context_def
  by (intro keeps_intros)+

lemma enter_idle:
  assumes "active_executions c th = None"
  shows "enter_execution th c =
    (length (executions c), c\<lparr>executions := executions c @ [\<lparr>ae_cancellation = fresh_cancellation, ae_users = 1\<rparr>],
       active_executions := (active_executions c)(th \<mapsto> length (executions c))\<rparr>)"
  using assms by (simp add: enter_execution_def Let_def)

lemma activate_run:
  assumes "th \<noteq> []" and "active_executions (control w) th = None"
    and "\<And>cx a n. keeps (held th a n) (body cx)"
  shows "wp (activate th body)
    (\<lambda>_ w'. active_executions (control w') th = None \<and> current_context (control w') = current_context (control w))
    (\<lambda>_ w'. active_executions (control w') th = None \<and> current_context (control w') = current_context (control w)) w"
proof -
  have left: "active_executions (control (on_control (leave_execution th a \<circ> set_context p) w')) th = None \<and>
      current_context (control (on_control (leave_execution th a \<circ> set_context p) w')) = p"
    if "held th a 1 w'" for a p w'
    using that by (simp add: held_def control_defs Let_def)
  have start: "held th (length (executions (control w))) 1
      (on_control (set_context cx \<circ> snd \<circ> enter_execution th) w)" for cx
    using assms(2) by (simp add: held_def enter_idle on_control_def set_context_def)
  show ?thesis
    unfolding activate_def Let_def
    using assms(1,2) left
    by (auto simp: wp_rules enter_idle intro: wp_mono [OF assms(3) [unfolded keeps_iff_wp, rule_format, OF start]])
qed

lemma activate_unsignalled:
  assumes "th \<noteq> []" and "active_executions (control w) th = None"
  shows "wp (activate th (\<lambda>_. cancellation_requested (Some th))) (\<lambda>b _. \<not> b) (\<lambda>_ _. False) w"
  using assms
  by (simp add: activate_def Let_def wp_rules enter_idle cancellation_requested_def signalled_def on_control_def
      set_context_def fresh_cancellation_def)

text \<open>
  An execution leaves nothing behind.  Run anything under \<open>activate\<close> on a thread that is not
  active, provided it gives back the users it takes of that thread, as every
  operation of the registry does.  Whether it returns or raises, the thread is
  no longer registered afterwards, the context that was current before is current
  again, and the next execution on the thread starts without a cancellation signal,
  even if this one was canceled.
\<close>

theorem execution_leaves_nothing:
  assumes "th \<noteq> []" and "active_executions (control w) th = None"
    and "\<And>cx a n. keeps (held th a n) (body cx)"
  defines "clean \<equiv> \<lambda>w'. active_executions (control w') th = None \<and>
      current_context (control w') = current_context (control w) \<and>
      wp (activate th (\<lambda>_. cancellation_requested (Some th))) (\<lambda>b _. \<not> b) (\<lambda>_ _. False) w'"
  shows "wp (activate th body) (\<lambda>_. clean) (\<lambda>_. clean) w"
  unfolding clean_def
  by (rule wp_mono [OF activate_run [OF assms(1-3)]]) (use activate_unsignalled [OF assms(1)] in auto)

theorem execution_leaves_nothing_witness:
  "\<exists>w'. activate ''th'' (\<lambda>_. registry_request_cancellation ''th'' (Some ''stop'')) (init_world (\<lambda>_. 1) (\<lambda>_. [])) = (Inr True, w') \<and>
     active_executions (control w') ''th'' = None \<and> signalled (control w') 0 \<and>
     wp (activate ''th'' (\<lambda>_. cancellation_requested (Some ''th''))) (\<lambda>b _. \<not> b) (\<lambda>_ _. False) w'"
proof -
  let ?body = "\<lambda>_. registry_request_cancellation ''th'' (Some ''stop'')"
  have idle: "active_executions (control (init_world (\<lambda>_. 1) (\<lambda>_. []))) ''th'' = None"
    by (simp add: init_world_def empty_control_def)
  have "\<exists>w'. activate ''th'' ?body (init_world (\<lambda>_. 1) (\<lambda>_. [])) = (Inr True, w') \<and> signalled (control w') 0"
    unfolding wp_outcome
    by (auto simp: activate_def Let_def wp_rules registry_request_cancellation_def init_world_def empty_control_def
      control_defs signalled_def signal_cancellation_def)
  then show ?thesis
    using wp_okD [OF execution_leaves_nothing [OF _ idle held_signal]] by fastforce
qed

end
