(* ===== verification/Agent_Nodes.thy ===== *)
theory Agent_Nodes
  imports Execution_Context
begin

text \<open>
  The nodes of the agent graph, \<open>langgraph_runtime/nodes.py\<close>, and the wrapper around each tool
  call.  A node is a program that reads the graph's state and returns the state with its
  updates applied; the messages of an update are appended, as the \<open>add_messages\<close>
  reducer does with messages that are new.

  The model, the progress reporter, the trace and the recorder of tool invocations are
  fields of \<open>graph_components\<close>, as in the code.  A node that calls \<open>interrupt\<close> takes the answers
  given to it so far: LangGraph runs such a node from its start each time it is
  resumed, the k-th call of \<open>interrupt\<close> returns the k-th answer, and the first call
  without an answer suspends the run.
\<close>

record graph_components =
  gc_model :: "agent_message list \<Rightarrow> tool list \<Rightarrow> ai_message py"
  gc_tools :: "tool list"
  gc_permission_gate :: "tool_registry option"
  gc_progress :: "(int option \<Rightarrow> string \<Rightarrow> pydict \<Rightarrow> unit py) option"
  gc_trace :: "(string \<Rightarrow> pydict \<Rightarrow> unit py) option"
  gc_tool_invocation_recorder :: "tool_invocation_recorder option"
  gc_execution_context_registry :: bool

section \<open>Python's \<open>dict(v)\<close> and iteration\<close>

text \<open>A call's arguments are a dictionary, as \<open>AIMessage\<close> checks; the other cases are what
  \<open>dict\<close> does with other values, sequences of pairs included.\<close>

fun dict_pair :: "pyval \<Rightarrow> (string \<times> pyval) option" where
  "dict_pair (PList [PStr k, v]) = Some (k, v)"
| "dict_pair (PTuple [PStr k, v]) = Some (k, v)"
| "dict_pair _ = None"

definition dict_of_pairs :: "pyval list \<Rightarrow> exn + pydict" where
  "dict_of_pairs xs =
     (if list_all (\<lambda>x. dict_pair x \<noteq> None) xs then Inr (dupdate [] (List.map_filter dict_pair xs))
      else Inl (TypeError ''cannot convert dictionary update sequence element to a sequence''))"

definition py_dict :: "pyval \<Rightarrow> exn + pydict" where
  "py_dict v =
     (case v of
        PDict d \<Rightarrow> Inr d
      | PProxy d \<Rightarrow> Inr d
      | PList xs \<Rightarrow> dict_of_pairs xs
      | PTuple xs \<Rightarrow> dict_of_pairs xs
      | PStr _ \<Rightarrow> Inl (ValueError ''dictionary update sequence element #0 has length 1; 2 is required'')
      | _ \<Rightarrow> Inl (TypeError ''object is not iterable''))"

definition py_iter :: "pyval \<Rightarrow> exn + pyval list" where
  "py_iter v =
     (case v of
        PList xs \<Rightarrow> Inr xs
      | PTuple xs \<Rightarrow> Inr xs
      | PDict d \<Rightarrow> Inr (map (PStr \<circ> fst) d)
      | PProxy d \<Rightarrow> Inr (map (PStr \<circ> fst) d)
      | PStr s \<Rightarrow> Inr (map (\<lambda>c. PStr [c]) s)
      | _ \<Rightarrow> Inl (TypeError ''object is not iterable''))"

text \<open>\<open>v.get\<close> of a value that has to be a dictionary.\<close>

definition need_dict :: "pyval \<Rightarrow> exn + pydict" where
  "need_dict v = (case v of PDict d \<Rightarrow> Inr d | _ \<Rightarrow> Inl (AttributeError ''object has no attribute get''))"

section \<open>Reporting\<close>

definition emit_progress :: "graph_components \<Rightarrow> int \<Rightarrow> string \<Rightarrow> pydict \<Rightarrow> unit py" where
  "emit_progress c loop_index event details =
     (case gc_progress c of None \<Rightarrow> returnM () | Some report \<Rightarrow> report (Some loop_index) event details)"

definition log_trace :: "graph_components \<Rightarrow> string \<Rightarrow> pydict \<Rightarrow> unit py" where
  "log_trace c event_type payload =
     (case gc_trace c of None \<Rightarrow> returnM () | Some log_event \<Rightarrow> log_event event_type payload)"

definition call_args :: "pydict \<Rightarrow> exn + pydict" where
  "call_args call = py_dict (py_or (dget call ''args'') (PDict []))"

definition tool_call_payload :: "pydict \<Rightarrow> exn + pydict" where
  "tool_call_payload call =
     bindE (call_args call) (\<lambda>args.
     Inr [(''name'', dget call ''name''), (''arguments'', PDict args), (''id'', dget call ''id'')])"

definition call_payload_or :: "pyval \<Rightarrow> exn + pyval" where
  "call_payload_or v = (case v of PDict call \<Rightarrow> map_sum id PDict (tool_call_payload call) | _ \<Rightarrow> Inr v)"

text \<open>\<open>payload[key] = [... for raw_tool_call in tool_calls]\<close>.\<close>

definition calls_payload :: "string \<Rightarrow> pydict \<Rightarrow> exn + pydict" where
  "calls_payload key payload =
     (case dget payload key of
        PList calls \<Rightarrow>
          bindE (sum_list_of (map call_payload_or calls)) (\<lambda>xs. Inr (dset key (PList xs) payload))
      | _ \<Rightarrow> Inr payload)"

definition plain_payload :: "pydict \<Rightarrow> exn + pydict" where
  "plain_payload permission =
     bindE (case dget permission ''tool_call'' of
              PDict call \<Rightarrow> bindE (tool_call_payload call) (\<lambda>p. Inr (dset ''tool_call'' (PDict p) permission))
            | _ \<Rightarrow> Inr permission) (\<lambda>payload.
     bindE (calls_payload ''tool_calls'' payload) (calls_payload ''approval_required_tool_calls''))"

lemma dget_smaller: "dget d k = PList xs \<Longrightarrow> PDict e \<in> set xs \<Longrightarrow> size (PDict e) < size (PDict d)"
proof (induction d)
  case (Cons kv d)
  have "size (PDict e) < size (PList xs)" if "PDict e \<in> set xs" using that by (induction xs) auto
  then show ?case using Cons by (cases kv) (auto simp: dget_def split: if_splits)
qed (simp add: dget_def)

function permission_payload :: "pydict \<Rightarrow> exn + pydict" where
  "permission_payload permission =
     bindE (plain_payload permission) (\<lambda>payload.
     (case dget permission ''decisions'' of
        PList decisions \<Rightarrow>
          bindE (sum_list_of (map (\<lambda>d. case d of
              PDict e \<Rightarrow> map_sum id PDict (permission_payload e)
            | _ \<Rightarrow> Inr d) decisions)) (\<lambda>xs.
          Inr (dset ''decisions'' (PList xs) payload))
      | _ \<Rightarrow> Inr payload))"
  by pat_completeness auto

termination
  by (relation "measure (\<lambda>d. size (PDict d))") (use dget_smaller in force)+

declare permission_payload.simps [simp del]

definition emit_permission :: "graph_components \<Rightarrow> int \<Rightarrow> pydict \<Rightarrow> unit py" where
  "emit_permission c loop_index permission =
     (let status = dget permission ''status'' in
      bindM (emit_progress c loop_index ''permission''
        [(''allowed'', PBool (status = PStr ''allowed'')),
         (''approval'', PBool (status = PStr ''approval_required'')),
         (''reason'', py_or (dget permission ''reason'') (PStr []))]) (\<lambda>_.
      bindM (liftE (permission_payload permission)) (\<lambda>payload.
      log_trace c ''langgraph_permission_checked'' [(''loop'', PInt loop_index), (''permission'', PDict payload)])))"

fun message_preview :: "(pyval \<Rightarrow> string) \<Rightarrow> agent_message \<Rightarrow> pyval" where
  "message_preview repr (GraphSystem v) =
     PDict [(''role'', PStr ''system''), (''name'', PNone), (''content'', PStr (py_str repr v))]"
| "message_preview repr (GraphHuman v) =
     PDict [(''role'', PStr ''user''), (''name'', PNone), (''content'', PStr (py_str repr v))]"
| "message_preview repr (GraphAI m) =
     PDict [(''role'', PStr ''assistant''), (''name'', PNone), (''content'', PStr (py_str repr (ai_content m)))]"
| "message_preview repr (GraphTool m) =
     PDict [(''role'', PStr ''tool''), (''name'', opt_str (tmsg_name m)),
            (''content'', PStr (py_str repr (tmsg_content m)))]"

fun as_tool_message :: "agent_message \<Rightarrow> tool_message option" where
  "as_tool_message (GraphTool m) = Some m"
| "as_tool_message _ = None"

definition emit_context_built :: "graph_components \<Rightarrow> runtime_lib \<Rightarrow> int \<Rightarrow> agent_state \<Rightarrow> unit py" where
  "emit_context_built c lib loop_index state =
     (let messages = as_messages state;
          count = PInt (int (length messages));
          observations = PInt (int (length (List.map_filter as_tool_message messages)));
          previews = PList (map (message_preview (rl_repr lib)) messages)
      in
      bindM (emit_progress c loop_index ''context_built''
        [(''messages'', count), (''observations'', observations), (''message_preview'', previews)]) (\<lambda>_.
      log_trace c ''langgraph_context_built''
        [(''loop'', PInt loop_index), (''messages'', count), (''observations'', observations), (''roles'', previews)]))"

definition emit_tool_execute_start :: "graph_components \<Rightarrow> int \<Rightarrow> pydict list \<Rightarrow> unit py" where
  "emit_tool_execute_start c loop_index tool_calls =
     bindM (forM tool_calls (\<lambda>call.
       bindM (liftE (tool_call_payload call)) (\<lambda>payload.
       bindM (emit_progress c loop_index ''tool_execute_start'' [(''tool'', dget payload ''name'')]) (\<lambda>_.
       log_trace c ''langgraph_tool_execute_start''
         [(''loop'', PInt loop_index), (''tool_call'', PDict payload)])))) (\<lambda>_. returnM ())"

section \<open>Stopping\<close>

text \<open>\<open>int(state.get("loop_index") or 1)\<close>.\<close>

definition loop_index_or_1 :: "agent_state \<Rightarrow> int" where
  "loop_index_or_1 state = (if as_loop_index state = 0 then 1 else as_loop_index state)"

definition stop_updates :: "string option \<Rightarrow> pydict option \<Rightarrow> string option \<Rightarrow> agent_state \<Rightarrow> agent_state" where
  "stop_updates reason detail message state =
     state\<lparr>as_stop_reason := reason, as_stop_detail := detail, as_stop_message := message\<rparr>"

text \<open>The updates are returned as a function on the state.\<close>

definition execution_stop_updates ::
  "graph_components \<Rightarrow> agent_state \<Rightarrow> execution_limit \<Rightarrow> (agent_state \<Rightarrow> agent_state) py" where
  "execution_stop_updates c state limit =
     (let loop_index = loop_index_or_1 state; reason = stop_reason_value (el_reason limit) in
      bindM (emit_progress c loop_index ''execution_stopped''
        [(''reason'', PStr reason), (''detail'', PDict (el_detail limit))]) (\<lambda>_.
      bindM (log_trace c ''langgraph_execution_stopped''
        [(''loop'', PInt loop_index), (''reason'', PStr reason), (''message'', PStr (el_message limit)),
         (''detail'', PDict (el_detail limit))]) (\<lambda>_.
      returnM (stop_updates (Some reason) (Some (el_detail limit)) (Some (el_message limit))))))"

definition pause_updates :: "execution_stop_reason \<Rightarrow> string \<Rightarrow> pydict \<Rightarrow> agent_state \<Rightarrow> agent_state" where
  "pause_updates reason message detail = stop_updates (Some (stop_reason_value reason)) (Some detail) (Some message)"

definition clear_pause_updates :: "agent_state \<Rightarrow> agent_state" where
  "clear_pause_updates = stop_updates None None None"

definition optional_string :: "string option \<Rightarrow> string option" where
  "optional_string value = (case value of Some s \<Rightarrow> if s = [] then None else Some s | None \<Rightarrow> None)"

definition cancellation_limit :: "graph_components \<Rightarrow> agent_state \<Rightarrow> execution_limit option py" where
  "cancellation_limit c state =
     (if \<not> gc_execution_context_registry c then returnM None
      else
        bindM (cancellation_requested (optional_string (as_runtime_thread_id state))) (\<lambda>requested.
        returnM
          (if requested then
             Some \<lparr>el_reason = STOP_CANCELED,
               el_message = ''Task cancellation was requested. Execution stopped at a safe boundary.'',
               el_detail = [(''source'', PStr ''control_plane_cancellation'')]\<rparr>
           else None)))"

section \<open>Deadlines\<close>

definition execution_deadline :: "runtime_lib \<Rightarrow> agent_state \<Rightarrow> pyfloat option py" where
  "execution_deadline lib state =
     bindM (liftE (policy_from_state state)) (\<lambda>p.
     (case ep_max_elapsed_seconds p of
        None \<Rightarrow> returnM None
      | Some limit \<Rightarrow>
          bindM (elapsed_seconds lib state) (\<lambda>elapsed.
          bindM (rl_monotonic lib) (\<lambda>now.
          returnM (Some (float_plus now (at_least_0 (float_minus limit elapsed))))))))"

definition tool_execution_deadline :: "runtime_lib \<Rightarrow> agent_state \<Rightarrow> pyfloat option py" where
  "tool_execution_deadline lib state = execution_deadline lib state"

definition model_execution_deadline :: "runtime_lib \<Rightarrow> agent_state \<Rightarrow> pyfloat option py" where
  "model_execution_deadline lib state = execution_deadline lib state"

section \<open>The wrapper of a tool call\<close>

record tool_call_request =
  tq_tool_call :: pydict
  tq_tool :: "tool option"
  tq_state :: agent_state

definition execute_tool_with_context ::
  "graph_components \<Rightarrow> runtime_lib \<Rightarrow> agent_state \<Rightarrow> tool_invocation_reference option \<Rightarrow> tool_response py \<Rightarrow>
    tool_response py" where
  "execute_tool_with_context c lib state reference run_tool =
     (if \<not> gc_execution_context_registry c then run_tool
      else
        bindM (tool_execution_deadline lib state) (\<lambda>deadline.
        bind_tool_context (optional_string (as_runtime_thread_id state))
          (map_option ir_invocation_id reference) deadline (\<lambda>_. run_tool)))"

definition blocked_tool_message :: "(pyval \<Rightarrow> string) \<Rightarrow> pydict \<Rightarrow> string option \<Rightarrow> tool_message" where
  "blocked_tool_message repr tool_call message =
     (let tool_name = py_str repr (py_or (dget tool_call ''name'') (PStr ''tool'')) in
      \<lparr>tmsg_content = PStr (case message of
           Some (ch # m) \<Rightarrow> ch # m
         | _ \<Rightarrow> ''Tool invocation was blocked.''),
       tmsg_name = Some tool_name,
       tmsg_tool_call_id = py_str repr (py_or (dget tool_call ''id'') (PStr (''blocked:'' @ tool_name))),
       tmsg_status = ''error''\<rparr>)"

definition same_tool_call :: "(pyval \<Rightarrow> string) \<Rightarrow> pyval \<Rightarrow> pydict \<Rightarrow> exn + bool" where
  "same_tool_call repr candidate tool_call =
     (case candidate of
        PDict cand \<Rightarrow>
          (let cid = dget cand ''id''; tid = dget tool_call ''id'' in
           if cid \<noteq> PNone \<and> tid \<noteq> PNone then Inr (py_str repr cid = py_str repr tid)
           else if \<not> py_eq (dget cand ''name'') (dget tool_call ''name'') then Inr False
           else
             bindE (call_args cand) (\<lambda>a.
             bindE (call_args tool_call) (\<lambda>b. Inr (py_eq (PDict a) (PDict b)))))
      | _ \<Rightarrow> Inr False)"

text \<open>The reference kept in a decision, when it has one.\<close>

definition decision_reference :: "(pyval \<Rightarrow> string) \<Rightarrow> pydict \<Rightarrow> exn + tool_invocation_reference option" where
  "decision_reference repr d =
     (case (dget d ''invocation_id'', dget d ''arguments_digest'') of
        (PStr invocation_id, PStr digest) \<Rightarrow>
          (let blocked = truthy (dget d ''invocation_execution_blocked'') in
           if blocked \<and> map_of d ''reason'' = None then Inl (KeyError ''reason'')
           else
             Inr (Some \<lparr>ir_invocation_id = invocation_id, ir_arguments_digest = digest,
               ir_status = py_str repr (py_or (dget d ''invocation_status'') (PStr ''prepared'')),
               ir_execution_blocked = blocked,
               ir_blocked_reason = (if blocked then Some (py_str repr (dget d ''reason'')) else None)\<rparr>))
      | _ \<Rightarrow> Inr None)"

fun find_reference :: "(pyval \<Rightarrow> string) \<Rightarrow> pydict \<Rightarrow> pyval list \<Rightarrow> exn + tool_invocation_reference option" where
  "find_reference repr tool_call [] = Inr None"
| "find_reference repr tool_call (PDict d # decisions) =
     bindE (same_tool_call repr (dget d ''tool_call'') tool_call) (\<lambda>same.
     if \<not> same then find_reference repr tool_call decisions
     else
       bindE (decision_reference repr d) (\<lambda>found.
       (case found of
          None \<Rightarrow> find_reference repr tool_call decisions
        | Some reference \<Rightarrow> Inr (Some reference))))"
| "find_reference repr tool_call (_ # decisions) = find_reference repr tool_call decisions"

definition invocation_reference_for_tool_call ::
  "(pyval \<Rightarrow> string) \<Rightarrow> agent_state \<Rightarrow> pydict \<Rightarrow> exn + tool_invocation_reference option" where
  "invocation_reference_for_tool_call repr state tool_call =
     (case as_permission state of
        None \<Rightarrow> Inr None
      | Some permission \<Rightarrow>
          (case dget permission ''decisions'' of
             PList decisions \<Rightarrow> find_reference repr tool_call decisions
           | _ \<Rightarrow> Inr None))"

definition tool_metadata_for_call ::
  "graph_components \<Rightarrow> (pyval \<Rightarrow> string) \<Rightarrow> tool option \<Rightarrow> pydict \<Rightarrow> exn + pydict option" where
  "tool_metadata_for_call c repr given tool_call =
     (let tool_name = py_str repr (py_or (dget tool_call ''name'') (PStr []));
          declared = (case (case given of Some t \<Rightarrow> Some t | None \<Rightarrow> fetch tl_name tool_name (gc_tools c)) of
              None \<Rightarrow> None
            | Some t \<Rightarrow> tl_metadata t)
      in
      (case gc_permission_gate c of
         None \<Rightarrow> Inr declared
       | Some registry \<Rightarrow>
           (case registry_tool_metadata repr registry tool_name of
              Inr m \<Rightarrow> Inr (Some (to_metadata m))
            | Inl e \<Rightarrow> if is_key_error e then Inr declared else Inl e)))"

definition blocked :: "runtime_lib \<Rightarrow> pydict \<Rightarrow> string option \<Rightarrow> tool_response py" where
  "blocked lib tool_call message = returnM (MessageResponse (blocked_tool_message (rl_repr lib) tool_call message))"

text \<open>The tool runs and its outcome is recorded; a failure of either is recorded too and
  raised again.\<close>

definition or_mark_uncertain :: "tool_invocation_recorder \<Rightarrow> string \<Rightarrow> string \<Rightarrow> 'a py \<Rightarrow> 'a py" where
  "or_mark_uncertain recorder invocation_id error_code body =
     catchM body (\<lambda>e.
       bindM (tr_mark_execution_uncertain recorder invocation_id error_code (exn_text e)) (\<lambda>_. raiseM e))"

definition execute_recorded ::
  "graph_components \<Rightarrow> runtime_lib \<Rightarrow> tool_invocation_recorder \<Rightarrow> agent_state \<Rightarrow> tool_invocation_reference \<Rightarrow>
    tool_response py \<Rightarrow> tool_response py" where
  "execute_recorded c lib recorder state reference run_tool =
     (let i = ir_invocation_id reference in
      bindM (or_mark_uncertain recorder i ''tool_execution_exception''
        (execute_tool_with_context c lib state (Some reference) run_tool)) (\<lambda>response.
      bindM (or_mark_uncertain recorder i ''tool_execution_recording_failed''
        (tr_finish_execution recorder i response)) (\<lambda>_.
      returnM response)))"

definition claim_and_execute ::
  "graph_components \<Rightarrow> runtime_lib \<Rightarrow> tool_invocation_recorder \<Rightarrow> tool_call_request \<Rightarrow>
    tool_invocation_reference \<Rightarrow> tool_response py \<Rightarrow> tool_response py" where
  "claim_and_execute c lib recorder request reference run_tool =
     (let state = tq_state request; tool_call = tq_tool_call request; i = ir_invocation_id reference in
      if ir_execution_blocked reference then blocked lib tool_call (ir_blocked_reason reference)
      else
        bindM (cancellation_limit c state) (\<lambda>cancellation.
        (case cancellation of
           Some limit \<Rightarrow>
             bindM (tr_cancel recorder i (el_message limit)) (\<lambda>_. blocked lib tool_call (Some (el_message limit)))
         | None \<Rightarrow>
             bindM (tr_begin_execution recorder i) (\<lambda>execution.
             if \<not> ie_execute execution then blocked lib tool_call (ie_message execution)
             else execute_recorded c lib recorder state reference run_tool))))"

definition wrap_recorded ::
  "graph_components \<Rightarrow> runtime_lib \<Rightarrow> tool_invocation_recorder \<Rightarrow> tool_call_request \<Rightarrow> tool_response py \<Rightarrow>
    tool_response py" where
  "wrap_recorded c lib recorder request run_tool =
     (let state = tq_state request; tool_call = tq_tool_call request in
      bindM (liftE (invocation_reference_for_tool_call (rl_repr lib) state tool_call)) (\<lambda>known.
      bindM (cancellation_limit c state) (\<lambda>cancellation.
      (case cancellation of
         Some limit \<Rightarrow>
           bindM (case known of
                    None \<Rightarrow> returnM ()
                  | Some reference \<Rightarrow> tr_cancel recorder (ir_invocation_id reference) (el_message limit)) (\<lambda>_.
           blocked lib tool_call (Some (el_message limit)))
       | None \<Rightarrow>
           bindM (case known of
                    Some reference \<Rightarrow> returnM (Some reference)
                  | None \<Rightarrow>
                      bindM (liftE (tool_metadata_for_call c (rl_repr lib) (tq_tool request) tool_call)) (\<lambda>metadata.
                      tr_prepare recorder (as_runtime_thread_id state) (loop_index_or_1 state) tool_call metadata
                        False)) (\<lambda>prepared.
           (case prepared of
              None \<Rightarrow> execute_tool_with_context c lib state None run_tool
            | Some reference \<Rightarrow> claim_and_execute c lib recorder request reference run_tool))))))"

definition tool_call_wrapper ::
  "graph_components \<Rightarrow> runtime_lib \<Rightarrow> tool_call_request \<Rightarrow> tool_response py \<Rightarrow> tool_response py" where
  "tool_call_wrapper c lib request run_tool =
     (case gc_tool_invocation_recorder c of
        None \<Rightarrow>
          bindM (cancellation_limit c (tq_state request)) (\<lambda>cancellation.
          (case cancellation of
             Some limit \<Rightarrow> blocked lib (tq_tool_call request) (Some (el_message limit))
           | None \<Rightarrow> execute_tool_with_context c lib (tq_state request) None run_tool))
      | Some recorder \<Rightarrow> wrap_recorded c lib recorder request run_tool)"

section \<open>Calling the model\<close>

definition model_protocol_error :: "string \<Rightarrow> exn" where
  "model_protocol_error message =
     AgentError MODEL_PROTOCOL_ERROR message 502 ''The selected model returned an invalid task action.'' (Some False)"

definition model_provider_error :: "string \<Rightarrow> bool \<Rightarrow> exn" where
  "model_provider_error message retryable =
     AgentError MODEL_ERROR message 502 ''Model request failed.'' (Some retryable)"

text \<open>\<open>except ModelProviderError\<close>: the class that carries this code.\<close>

fun is_model_provider_error :: "exn \<Rightarrow> bool" where
  "is_model_provider_error (AgentError MODEL_ERROR _ _ _ _) = True"
| "is_model_provider_error _ = False"

text \<open>
  The expressions of \<open>_final_answer_declares_tool_call\<close>: what \<open>re.search\<close> with \<open>IGNORECASE\<close> decides for
  them.  A position is the character before it and the text after it; \<open>re_ends\<close> lists
  the positions at which a match that starts at a given one can end.  The alternative
  for Chinese text needs characters a \<open>char\<close> cannot hold, so it never applies here.
\<close>

datatype re = One "char \<Rightarrow> bool" | Many "char \<Rightarrow> bool" | Boundary | Cat re re | Maybe re

type_synonym re_pos = "char option \<times> string"

definition is_word :: "char \<Rightarrow> bool" where
  "is_word c \<longleftrightarrow>
     (let n = of_char c :: nat in
      48 \<le> n \<and> n \<le> 57 \<or> 65 \<le> n \<and> n \<le> 90 \<or> n = 95 \<or> 97 \<le> n \<and> n \<le> 122 \<or>
      n \<in> {170, 178, 179, 181, 185, 186, 188, 189, 190} \<or> 192 \<le> n \<and> n \<noteq> 215 \<and> n \<noteq> 247)"

fun at_boundary :: "re_pos \<Rightarrow> bool" where
  "at_boundary (before, after) \<longleftrightarrow>
     (case before of None \<Rightarrow> False | Some c \<Rightarrow> is_word c) \<noteq> (case after of [] \<Rightarrow> False | c # _ \<Rightarrow> is_word c)"

fun many_ends :: "(char \<Rightarrow> bool) \<Rightarrow> char option \<Rightarrow> string \<Rightarrow> re_pos list" where
  "many_ends p before [] = [(before, [])]"
| "many_ends p before (c # s) = (before, c # s) # (if p c then many_ends p (Some c) s else [])"

primrec re_ends :: "re \<Rightarrow> re_pos \<Rightarrow> re_pos list" where
  "re_ends (One p) pos = (case snd pos of [] \<Rightarrow> [] | c # s \<Rightarrow> if p c then [(Some c, s)] else [])"
| "re_ends (Many p) pos = many_ends p (fst pos) (snd pos)"
| "re_ends Boundary pos = (if at_boundary pos then [pos] else [])"
| "re_ends (Cat a b) pos = concat (map (re_ends b) (re_ends a pos))"
| "re_ends (Maybe a) pos = pos # re_ends a pos"

fun cats :: "re list \<Rightarrow> re" where
  "cats [] = Maybe (One (\<lambda>_. False))"
| "cats (r # rs) = Cat r (cats rs)"

definition literal :: "string \<Rightarrow> re" where
  "literal s = cats (map (\<lambda>c. One (\<lambda>x. lower_char x = lower_char c)) s)"

definition re_search :: "re \<Rightarrow> string \<Rightarrow> bool" where
  "re_search r s = list_ex (\<lambda>pos. re_ends r pos \<noteq> []) (many_ends (\<lambda>_. True) None s)"

definition white :: re where
  "white = One is_space"

definition whites :: re where
  "whites = Many is_space"

definition quote_mark :: "string \<Rightarrow> re" where
  "quote_mark marks = One (\<lambda>c. c \<in> set marks)"

definition calling_pattern :: "string \<Rightarrow> re" where
  "calling_pattern name =
     cats [Boundary, literal ''calling'', white, whites, Maybe (cats [literal ''the'', white, whites]),
       literal ''tool'', Maybe (literal ''s''), whites, Maybe (literal '':''), whites,
       Maybe (quote_mark [CHR 96, CHR 39, CHR 34]), literal name, Boundary]"

definition envelope_pattern :: "string \<Rightarrow> re" where
  "envelope_pattern name =
     cats [literal ''<tool_call'', Maybe (literal ''s''), Boundary, Many (\<lambda>c. c \<noteq> CHR 62), literal ''>'',
       Many (\<lambda>_. True), Boundary, literal ''invoke'', white, whites, literal ''name'', whites, literal ''='', whites,
       quote_mark [CHR 39, CHR 34], literal name, quote_mark [CHR 39, CHR 34]]"

definition final_answer_declares_tool_call :: "string \<Rightarrow> string \<Rightarrow> bool" where
  "final_answer_declares_tool_call content tool_name \<longleftrightarrow>
     re_search (calling_pattern tool_name) content \<or> re_search (envelope_pattern tool_name) content"

definition declared_unexecuted_tool_call :: "ai_message \<Rightarrow> tool list \<Rightarrow> string option" where
  "declared_unexecuted_tool_call response tools =
     (if ai_tool_calls response \<noteq> [] then None
      else
        (case ai_content response of
           PStr content \<Rightarrow> find (final_answer_declares_tool_call content) (map tl_name tools)
         | _ \<Rightarrow> None))"

definition invoke_model_with_context :: "graph_components \<Rightarrow> runtime_lib \<Rightarrow> agent_state \<Rightarrow> ai_message py" where
  "invoke_model_with_context c lib state =
     (let invoke = gc_model c (as_messages state) (gc_tools c) in
      if \<not> gc_execution_context_registry c then invoke
      else
        bindM (model_execution_deadline lib state) (\<lambda>deadline.
        bind_model_context (optional_string (as_runtime_thread_id state)) deadline (\<lambda>_. invoke)))"

text \<open>\<open>_cancellation_limit(components, state) or model_call_limit(state)\<close>.\<close>

definition model_stop_limit :: "graph_components \<Rightarrow> runtime_lib \<Rightarrow> agent_state \<Rightarrow> execution_limit option py" where
  "model_stop_limit c lib state =
     bindM (cancellation_limit c state) (\<lambda>cancellation.
     (case cancellation of
        Some limit \<Rightarrow> returnM (Some limit)
      | None \<Rightarrow> model_call_limit lib state))"

definition stop_at :: "graph_components \<Rightarrow> agent_state \<Rightarrow> execution_limit \<Rightarrow> agent_state py" where
  "stop_at c state limit = bindM (execution_stop_updates c state limit) (\<lambda>updates. returnM (updates state))"

text \<open>The model's answer, or nothing when the call failed because the budget ran out meanwhile.\<close>

definition guarded_invoke :: "graph_components \<Rightarrow> runtime_lib \<Rightarrow> agent_state \<Rightarrow> (execution_limit + ai_message) py" where
  "guarded_invoke c lib state =
     catchM (bindM (invoke_model_with_context c lib state) (\<lambda>response. returnM (Inr response)))
       (\<lambda>e. if is_model_provider_error e then
              bindM (model_stop_limit c lib state) (\<lambda>limit.
              (case limit of
                 Some l \<Rightarrow> returnM (Inl l)
               | None \<Rightarrow> raiseM e))
            else raiseM e)"

definition report_tool_calls :: "graph_components \<Rightarrow> int \<Rightarrow> ai_message \<Rightarrow> pydict list \<Rightarrow> unit py" where
  "report_tool_calls c loop_index response payloads =
     bindM (emit_progress c loop_index ''model_response''
       [(''content'', ai_content response),
        (''tool'', case payloads of [] \<Rightarrow> PNone | first # _ \<Rightarrow> dget first ''name'')]) (\<lambda>_.
     bindM (forM payloads (\<lambda>payload.
       emit_progress c loop_index ''tool_call'' [(''payload'', PDict payload)])) (\<lambda>_. returnM ()))"

definition accept_response :: "graph_components \<Rightarrow> runtime_lib \<Rightarrow> agent_state \<Rightarrow> ai_message \<Rightarrow> agent_state py" where
  "accept_response c lib state response =
     (let loop_index = as_loop_index state;
          answered = state\<lparr>as_messages := as_messages state @ [GraphAI response],
            as_model_calls := as_model_calls state + 1\<rparr>
      in
      bindM (liftE (sum_list_of (map tool_call_payload (ai_tool_calls response)))) (\<lambda>payloads.
      bindM (log_trace c ''langgraph_model_response''
        [(''loop'', PInt loop_index), (''content'', ai_content response),
         (''tool_calls'', PList (map PDict payloads))]) (\<lambda>_.
      (case declared_unexecuted_tool_call response (gc_tools c) of
         Some name \<Rightarrow>
           raiseM (model_protocol_error (''Invalid model final answer: declared a call to tool '' @
             rl_repr lib (PStr name) @ '' without emitting a structured tool call.''))
       | None \<Rightarrow>
           if ai_tool_calls response \<noteq> [] then
             bindM (report_tool_calls c loop_index response payloads) (\<lambda>_. returnM answered)
           else
             bindM (emit_progress c loop_index ''model_response''
               [(''content'', ai_content response), (''tool'', PNone)]) (\<lambda>_.
             bindM (emit_progress c loop_index ''final_answer'' []) (\<lambda>_.
             returnM (stop_updates (Some (stop_reason_value STOP_COMPLETED))
               (Some [(''source'', PStr ''model_final_answer'')]) None
               (answered\<lparr>as_final_answer := Some (py_str (rl_repr lib) (ai_content response))\<rparr>))))))))"

definition call_model_node :: "graph_components \<Rightarrow> runtime_lib \<Rightarrow> agent_state \<Rightarrow> agent_state py" where
  "call_model_node c lib state =
     bindM (model_stop_limit c lib state) (\<lambda>limit.
     (case limit of
        Some l \<Rightarrow> stop_at c state l
      | None \<Rightarrow>
          bindM (emit_context_built c lib (as_loop_index state) state) (\<lambda>_.
          bindM (emit_progress c (as_loop_index state) ''model_call_start'' []) (\<lambda>_.
          bindM (guarded_invoke c lib state) (\<lambda>invocation.
          (case invocation of
             Inl l \<Rightarrow> stop_at c state l
           | Inr response \<Rightarrow>
               bindM (model_stop_limit c lib state) (\<lambda>late.
               (case late of
                  Some l \<Rightarrow> stop_at c state l
                | None \<Rightarrow> accept_response c lib state response))))))))"

section \<open>Checking permission\<close>

fun as_ai :: "agent_message \<Rightarrow> ai_message option" where
  "as_ai (GraphAI m) = Some m"
| "as_ai _ = None"

definition latest_ai_message :: "agent_message list \<Rightarrow> ai_message option" where
  "latest_ai_message messages = (case List.map_filter as_ai (rev messages) of [] \<Rightarrow> None | m # _ \<Rightarrow> Some m)"

definition pending_calls :: "agent_state \<Rightarrow> pydict list" where
  "pending_calls state = (case latest_ai_message (as_messages state) of None \<Rightarrow> [] | Some m \<Rightarrow> ai_tool_calls m)"

definition REQUEST_USER_INPUT_TOOL_NAME :: string where
  "REQUEST_USER_INPUT_TOOL_NAME = ''request_user_input''"

definition to_project_tool_call :: "(pyval \<Rightarrow> string) \<Rightarrow> pydict \<Rightarrow> exn + tool_call" where
  "to_project_tool_call repr call =
     bindE (call_args call) (\<lambda>args.
     Inr \<lparr>tc_name = py_str repr (dget call ''name''), tc_arguments = args, tc_id = None\<rparr>)"

definition calls_value :: "pydict list \<Rightarrow> pyval" where
  "calls_value calls = PList (map PDict calls)"

definition reference_fields :: "tool_invocation_reference \<Rightarrow> pydict" where
  "reference_fields reference =
     [(''invocation_id'', PStr (ir_invocation_id reference)),
      (''arguments_digest'', PStr (ir_arguments_digest reference)),
      (''invocation_status'', PStr (ir_status reference)),
      (''invocation_execution_blocked'', PBool (ir_execution_blocked reference))]"

definition attach_reference :: "pydict \<Rightarrow> tool_invocation_reference \<Rightarrow> pydict" where
  "attach_reference decision reference =
     (let known = dupdate decision (reference_fields reference) in
      if \<not> ir_execution_blocked reference then known
      else
        dset ''decision'' (PStr ''deny_replay'')
          (dset ''reason'' (PStr (case ir_blocked_reason reference of
               Some (ch # r) \<Rightarrow> ch # r
             | _ \<Rightarrow> ''Tool invocation will not be replayed automatically.''))
            (dset ''status'' (PStr ''denied'') known)))"

definition attach_invocation_reference ::
  "graph_components \<Rightarrow> runtime_lib \<Rightarrow> agent_state \<Rightarrow> pydict \<Rightarrow> bool \<Rightarrow> pydict py" where
  "attach_invocation_reference c lib state decision approval_required =
     (case (gc_tool_invocation_recorder c, dget decision ''tool_call'') of
        (Some recorder, PDict tool_call) \<Rightarrow>
          bindM (liftE (tool_metadata_for_call c (rl_repr lib) None tool_call)) (\<lambda>metadata.
          bindM (tr_prepare recorder (as_runtime_thread_id state) (loop_index_or_1 state) tool_call metadata
            approval_required) (\<lambda>reference.
          returnM (case reference of None \<Rightarrow> decision | Some r \<Rightarrow> attach_reference decision r)))
      | _ \<Rightarrow> returnM decision)"

definition decision_status :: "permission_decision \<Rightarrow> string" where
  "decision_status d =
     (if pd_requires_approval d then ''approval_required'' else if pd_allowed d then ''allowed'' else ''denied'')"

definition decision_entry :: "permission_decision \<Rightarrow> pydict \<Rightarrow> pydict" where
  "decision_entry d call =
     [(''status'', PStr (decision_status d)), (''reason'', PStr (pd_reason d)), (''tool_call'', PDict call),
      (''decision'', opt_str (pd_decision d)), (''risk_level'', opt_str (pd_risk_level d)),
      (''approval_summary'', opt_str (pd_approval_summary d)),
      (''safe_argument_preview'', PDict (pd_safe_argument_preview d)),
      (''policy_tags'', PList (map PStr (pd_policy_tags d)))]"

definition decide_call ::
  "graph_components \<Rightarrow> runtime_lib \<Rightarrow> agent_state \<Rightarrow> tool_registry \<Rightarrow> pydict \<Rightarrow> pydict py" where
  "decide_call c lib state registry call =
     bindM (liftE (bindE (to_project_tool_call (rl_repr lib) call) (check_permission (rl_repr lib) registry))) (\<lambda>d.
     attach_invocation_reference c lib state (decision_entry d call) (pd_requires_approval d))"

definition ungated_decision :: "graph_components \<Rightarrow> runtime_lib \<Rightarrow> agent_state \<Rightarrow> pydict \<Rightarrow> pydict py" where
  "ungated_decision c lib state call =
     attach_invocation_reference c lib state
       [(''status'', PStr ''allowed''), (''reason'', PStr ''no permission gate configured''), (''tool_call'', PDict call)]
       False"

definition with_status :: "string \<Rightarrow> pydict list \<Rightarrow> pydict list" where
  "with_status status decisions = filter (\<lambda>d. dget d ''status'' = PStr status) decisions"

text \<open>The permission is reported and put into the state.\<close>

definition set_permission :: "graph_components \<Rightarrow> agent_state \<Rightarrow> pydict \<Rightarrow> agent_state py" where
  "set_permission c state permission =
     bindM (emit_permission c (as_loop_index state) permission) (\<lambda>_.
     returnM (state\<lparr>as_permission := Some permission\<rparr>))"

definition allow_calls :: "graph_components \<Rightarrow> agent_state \<Rightarrow> string \<Rightarrow> pydict list \<Rightarrow> pydict list \<Rightarrow> agent_state py" where
  "allow_calls c state reason calls decisions =
     bindM (set_permission c state
       [(''status'', PStr ''allowed''), (''reason'', PStr reason), (''tool_calls'', calls_value calls),
        (''decisions'', calls_value decisions)]) (\<lambda>allowed.
     bindM (emit_tool_execute_start c (as_loop_index state) calls) (\<lambda>_.
     returnM allowed))"

definition call_id_detail :: "(pyval \<Rightarrow> string) \<Rightarrow> pyval \<Rightarrow> pydict" where
  "call_id_detail repr v = [(''tool_call_id'', PStr (py_str repr (py_or v (PStr []))))]"

definition settle_decisions :: "graph_components \<Rightarrow> runtime_lib \<Rightarrow> agent_state \<Rightarrow> pydict list \<Rightarrow> pydict list \<Rightarrow> agent_state py" where
  "settle_decisions c lib state calls decisions =
     (case with_status ''denied'' decisions of
        first # _ \<Rightarrow>
          set_permission c state (dupdate first
            [(''status'', PStr ''denied''), (''tool_calls'', calls_value calls), (''decisions'', calls_value decisions)])
      | [] \<Rightarrow>
          (case with_status ''approval_required'' decisions of
             first # others \<Rightarrow>
               bindM (set_permission c state (dupdate first
                 [(''status'', PStr ''approval_required''), (''tool_calls'', calls_value calls),
                  (''approval_required_tool_calls'', PList (map (\<lambda>d. dget d ''tool_call'') (first # others))),
                  (''decisions'', calls_value decisions)])) (\<lambda>waiting.
               returnM (pause_updates STOP_APPROVAL_REQUIRED
                 (py_str (rl_repr lib) (py_or (dget first ''reason'') (PStr ''approval required'')))
                 (call_id_detail (rl_repr lib)
                   (case dget first ''tool_call'' of PDict call \<Rightarrow> dget call ''id'' | _ \<Rightarrow> PNone)) waiting))
           | [] \<Rightarrow> allow_calls c state ''all tool calls allowed'' calls decisions))"

definition check_calls :: "graph_components \<Rightarrow> runtime_lib \<Rightarrow> agent_state \<Rightarrow> pydict list \<Rightarrow> agent_state py" where
  "check_calls c lib state calls =
     bindM (tool_call_limit lib state (int (length calls))) (\<lambda>limit.
     (case limit of
        Some l \<Rightarrow>
          bindM (set_permission c state
            [(''status'', PStr ''budget_exhausted''), (''reason'', PStr (el_message l)),
             (''tool_calls'', calls_value calls)]) (\<lambda>exhausted.
          bindM (execution_stop_updates c state l) (\<lambda>updates. returnM (updates exhausted)))
      | None \<Rightarrow>
          (case gc_permission_gate c of
             None \<Rightarrow>
               bindM (forM calls (ungated_decision c lib state)) (\<lambda>decisions.
               allow_calls c state ''no permission gate configured'' calls decisions)
           | Some registry \<Rightarrow>
               bindM (forM calls (decide_call c lib state registry)) (\<lambda>decisions.
               settle_decisions c lib state calls decisions))))"

definition check_permission_node :: "graph_components \<Rightarrow> runtime_lib \<Rightarrow> agent_state \<Rightarrow> agent_state py" where
  "check_permission_node c lib state =
     bindM (cancellation_limit c state) (\<lambda>cancellation.
     (case cancellation of
        Some l \<Rightarrow> stop_at c state l
      | None \<Rightarrow>
          (let calls = pending_calls state in
           if calls = [] then
             set_permission c state [(''status'', PStr ''denied''), (''reason'', PStr ''missing tool call'')]
           else
             (case find (\<lambda>call. dget call ''name'' = PStr REQUEST_USER_INPUT_TOOL_NAME) calls of
                Some request \<Rightarrow>
                  bindM (set_permission c state
                    [(''status'', PStr ''input_required''), (''reason'', PStr ''the model requires additional user input''),
                     (''tool_call'', PDict request), (''tool_calls'', calls_value calls)]) (\<lambda>waiting.
                  returnM (pause_updates STOP_INPUT_REQUIRED ''the model requires additional user input''
                    (call_id_detail (rl_repr lib) (dget request ''id'')) waiting))
              | None \<Rightarrow> check_calls c lib state calls))))"

section \<open>Rejection\<close>

definition cancel_prepared_invocations :: "graph_components \<Rightarrow> agent_state \<Rightarrow> string \<Rightarrow> unit py" where
  "cancel_prepared_invocations c state reason =
     (case (gc_tool_invocation_recorder c, as_permission state) of
        (Some recorder, Some permission) \<Rightarrow>
          (case dget permission ''decisions'' of
             PList decisions \<Rightarrow>
               bindM (forM decisions (\<lambda>decision.
                 (case decision of
                    PDict d \<Rightarrow>
                      (case dget d ''invocation_id'' of
                         PStr i \<Rightarrow> if i = [] then returnM () else tr_cancel recorder i reason
                       | _ \<Rightarrow> returnM ())
                  | _ \<Rightarrow> returnM ()))) (\<lambda>_. returnM ())
           | _ \<Rightarrow> returnM ())
      | _ \<Rightarrow> returnM ())"

text \<open>\<open>state.get(field) or {}\<close>.\<close>

definition or_empty :: "pydict option \<Rightarrow> pydict" where
  "or_empty d = (case d of None \<Rightarrow> [] | Some e \<Rightarrow> e)"

definition reject_with ::
  "graph_components \<Rightarrow> agent_state \<Rightarrow> string \<Rightarrow> pyval \<Rightarrow> string \<Rightarrow> pydict \<Rightarrow> agent_state py" where
  "reject_with c state answer reason source traced =
     bindM (log_trace c ''langgraph_tool_rejected'' traced) (\<lambda>_.
     bindM (emit_progress c (as_loop_index state) ''final_answer'' []) (\<lambda>_.
     returnM (stop_updates (Some (stop_reason_value POLICY_BLOCKED))
       (Some [(''reason'', reason), (''source'', PStr source)]) None
       (state\<lparr>as_final_answer := Some answer\<rparr>))))"

definition reject_tool_node :: "graph_components \<Rightarrow> runtime_lib \<Rightarrow> agent_state \<Rightarrow> agent_state py" where
  "reject_tool_node c lib state =
     (let approval = or_empty (as_approval state); loop = (''loop'', PInt (as_loop_index state)) in
      if dget approval ''approved'' = PBool False then
        (let reason = py_or (dget approval ''reason'') (PStr ''approval rejected'');
             said = py_str (rl_repr lib) reason
         in
         bindM (cancel_prepared_invocations c state said) (\<lambda>_.
         reject_with c state (''Tool call rejected by approval: '' @ said) reason ''approval_rejected''
           [loop, (''reason'', reason)]))
      else
        (let permission = or_empty (as_permission state);
             status = dget permission ''status'';
             reason = py_or (dget permission ''reason'') (PStr ''tool call rejected'');
             said = py_str (rl_repr lib) reason
         in
         bindM (cancel_prepared_invocations c state said) (\<lambda>_.
         reject_with c state
           ((if status = PStr ''approval_required'' then ''Tool call requires approval: '' else ''Tool call rejected: '') @ said)
           reason ''permission_denied'' [loop, (''reason'', reason), (''status'', status)])))"

section \<open>Interrupts\<close>

datatype node_result = Updated agent_state | Suspended pyval

datatype approval_outcome = Answered pydict | Waiting pyval

text \<open>The answer to one request for approval.\<close>

definition read_approval :: "(pyval \<Rightarrow> string) \<Rightarrow> pyval \<Rightarrow> bool \<times> string" where
  "read_approval repr resume =
     (case resume of
        PDict d \<Rightarrow>
          (let approved = truthy (dget d ''approved'') in
           (approved, py_str repr (py_or (dget d ''reason'')
              (PStr (if approved then ''approved'' else ''approval rejected'')))))
      | _ \<Rightarrow> (truthy resume, if truthy resume then ''approved'' else ''approval rejected''))"

definition approval_value :: "bool \<times> string \<Rightarrow> pydict" where
  "approval_value answer = [(''approved'', PBool (fst answer)), (''reason'', PStr (snd answer))]"

definition approval_request :: "(pyval \<Rightarrow> string) \<Rightarrow> pydict \<Rightarrow> pydict \<Rightarrow> pydict \<Rightarrow> int \<Rightarrow> int \<Rightarrow> string \<Rightarrow> pydict" where
  "approval_request repr permission decision tool_call index how_many message =
     [(''kind'', PStr ''approval_required''), (''tool_call'', PDict tool_call),
      (''tool_calls'', PList [PDict tool_call]), (''permission'', PDict permission),
      (''approval_index'', PInt index), (''approval_count'', PInt how_many), (''message'', PStr message)] @
     (case (dget decision ''invocation_id'', dget decision ''arguments_digest'') of
        (PStr invocation_id, PStr digest) \<Rightarrow>
          [(''invocationId'', PStr invocation_id), (''argumentsDigest'', PStr digest),
           (''toolName'', PStr (py_str repr (py_or (dget tool_call ''name'') (PStr []))))]
      | _ \<Rightarrow> [])"

fun ask_approvals ::
  "graph_components \<Rightarrow> runtime_lib \<Rightarrow> int \<Rightarrow> pydict \<Rightarrow> int \<Rightarrow> int \<Rightarrow> pydict list \<Rightarrow> pyval list \<Rightarrow> pydict \<Rightarrow>
    approval_outcome py" where
  "ask_approvals c lib loop_index permission how_many index [] resumes approval = returnM (Answered approval)"
| "ask_approvals c lib loop_index permission how_many index (decision # decisions) resumes approval =
     (let tool_call = (case dget decision ''tool_call'' of PDict call \<Rightarrow> call | _ \<Rightarrow> []);
          tool_name = dget tool_call ''name'';
          message = ''Approval required for tool call: '' @
            py_str (rl_repr lib) (py_or (dget decision ''reason'') (PStr ''approval required''));
          numbers = [(''approval_index'', PInt index), (''approval_count'', PInt how_many)]
      in
      bindM (emit_progress c loop_index ''approval_required'' [(''tool'', tool_name)]) (\<lambda>_.
      bindM (liftE (tool_call_payload tool_call)) (\<lambda>call_payload.
      bindM (liftE (permission_payload permission)) (\<lambda>payload.
      bindM (log_trace c ''langgraph_approval_required''
        ([(''loop'', PInt loop_index), (''tool_call'', PDict call_payload), (''permission'', PDict payload)] @ numbers @
         [(''message'', PStr message)])) (\<lambda>_.
      (case resumes of
         [] \<Rightarrow> returnM (Waiting (PDict (approval_request (rl_repr lib) permission decision tool_call index how_many message)))
       | resume # later \<Rightarrow>
           (let answer = read_approval (rl_repr lib) resume; approval' = approval_value answer in
            bindM (emit_progress c loop_index ''approval_resumed'' [(''tool'', tool_name)]) (\<lambda>_.
            bindM (log_trace c ''langgraph_approval_resumed''
              ([(''loop'', PInt loop_index), (''approval'', PDict approval')] @ numbers)) (\<lambda>_.
            if \<not> fst answer then returnM (Answered approval')
            else ask_approvals c lib loop_index permission how_many (index + 1) decisions later approval')))))))))"

definition approval_decisions :: "pydict \<Rightarrow> exn + pydict list" where
  "approval_decisions permission =
     bindE (case map_of permission ''decisions'' of None \<Rightarrow> Inr [] | Some v \<Rightarrow> py_iter v) (\<lambda>items.
     let waiting = filter (\<lambda>d. dget d ''status'' = PStr ''approval_required'' \<and> as_dict (dget d ''tool_call'') \<noteq> None)
           (List.map_filter as_dict items)
     in Inr (if waiting = [] \<and> as_dict (dget permission ''tool_call'') \<noteq> None then [permission] else waiting))"

definition approval_required_node ::
  "graph_components \<Rightarrow> runtime_lib \<Rightarrow> pyval list \<Rightarrow> agent_state \<Rightarrow> node_result py" where
  "approval_required_node c lib resumes state =
     (let permission = or_empty (as_permission state) in
      bindM (liftE (approval_decisions permission)) (\<lambda>decisions.
      bindM (ask_approvals c lib (as_loop_index state) permission (int (length decisions)) 1 decisions resumes
        (approval_value (False, ''approval rejected''))) (\<lambda>outcome.
      (case outcome of
         Waiting request \<Rightarrow> returnM (Suspended request)
       | Answered approval \<Rightarrow>
           bindM (case (dget approval ''approved'', dget permission ''tool_calls'') of
                    (PBool True, PList calls) \<Rightarrow>
                      bindM (liftE (sum_list_of (map need_dict calls))) (emit_tool_execute_start c (as_loop_index state))
                  | _ \<Rightarrow> returnM ()) (\<lambda>_.
           returnM (Updated (clear_pause_updates (state\<lparr>as_approval := Some approval\<rparr>))))))))"

definition text_from_input_parts :: "(pyval \<Rightarrow> string) \<Rightarrow> pyval \<Rightarrow> string" where
  "text_from_input_parts repr parts =
     (case parts of
        PList xs \<Rightarrow>
          join_str [CHR 10] (map (\<lambda>d. py_str repr (dget d ''text''))
            (filter (\<lambda>d. dget d ''text'' \<noteq> PNone) (List.map_filter as_dict xs)))
      | _ \<Rightarrow> [])"

definition resumed_text :: "(pyval \<Rightarrow> string) \<Rightarrow> pyval \<Rightarrow> string" where
  "resumed_text repr resume =
     (let d = or_empty (as_dict resume);
          said = text_from_input_parts repr (dget d ''parts'');
          said = (if said = [] \<and> as_dict resume \<noteq> None then py_str repr (py_or (dget d ''text'') (PStr [])) else said)
      in if said = [] then py_str repr (py_or resume (PStr [])) else said)"

definition deferred_message :: "(pyval \<Rightarrow> string) \<Rightarrow> string \<Rightarrow> pydict \<Rightarrow> tool_message" where
  "deferred_message repr said call =
     (let name = py_str repr (py_or (dget call ''name'') (PStr ''tool'')) in
      \<lparr>tmsg_content = PStr (if name = REQUEST_USER_INPUT_TOOL_NAME then said
         else ''Tool call deferred because additional user input was required.''),
       tmsg_name = Some name, tmsg_tool_call_id = py_str repr (py_or (dget call ''id'') (PStr name)),
       tmsg_status = ''success''\<rparr>)"

definition input_request_of :: "(pyval \<Rightarrow> string) \<Rightarrow> pydict \<Rightarrow> exn + pydict" where
  "input_request_of repr tool_call =
     bindE (call_args tool_call) (\<lambda>arguments.
     bindE (py_iter (py_or (dget arguments ''choices'') (PList []))) (\<lambda>raw_choices.
     let prompt = PStr (py_str repr (py_or (dget arguments ''prompt'')
           (PStr ''Please provide the information required to continue.'')));
         choices = PList (map PStr (filter (\<lambda>s. strip s \<noteq> []) (map (py_str repr) raw_choices)))
     in
     Inr [(''kind'', PStr ''user_input_required''), (''message'', prompt), (''prompt'', prompt), (''choices'', choices),
       (''inputSchema'', PDict ((''type'', PStr ''string'') # (if truthy choices then [(''enum'', choices)] else []))),
       (''toolCallId'', PStr (py_str repr (py_or (dget tool_call ''id'') (PStr ''request-user-input'')))),
       (''toolName'', PStr REQUEST_USER_INPUT_TOOL_NAME)]))"

definition user_input_required_node ::
  "graph_components \<Rightarrow> runtime_lib \<Rightarrow> pyval list \<Rightarrow> agent_state \<Rightarrow> node_result py" where
  "user_input_required_node c lib resumes state =
     (let repr = rl_repr lib; loop_index = as_loop_index state; permission = or_empty (as_permission state);
          tool = [(''tool'', PStr REQUEST_USER_INPUT_TOOL_NAME)]
      in
      bindM (liftE (need_dict (py_or (dget permission ''tool_call'') (PDict [])))) (\<lambda>tool_call.
      bindM (liftE (input_request_of repr tool_call)) (\<lambda>request.
      bindM (emit_progress c loop_index ''user_input_required'' tool) (\<lambda>_.
      bindM (log_trace c ''langgraph_user_input_required'' ((''loop'', PInt loop_index) # request)) (\<lambda>_.
      (case resumes of
         [] \<Rightarrow> returnM (Suspended (PDict request))
       | resume # _ \<Rightarrow>
           (let said = resumed_text repr resume in
            bindM (emit_progress c loop_index ''user_input_resumed'' tool) (\<lambda>_.
            bindM (log_trace c ''langgraph_user_input_resumed''
              [(''loop'', PInt loop_index), (''tool_call_id'', dget request ''toolCallId''), (''text'', PStr said)]) (\<lambda>_.
            bindM (liftE (bindE (py_iter (py_or (dget permission ''tool_calls'') (PList [PDict tool_call]))) (\<lambda>items.
              sum_list_of (map need_dict items)))) (\<lambda>pending.
            returnM (Updated (clear_pause_updates
              (state\<lparr>as_messages := as_messages state @ map (GraphTool \<circ> deferred_message repr said) pending\<rparr>)))))))))))))"

section \<open>Recording what the tools returned\<close>

text \<open>\<open>_latest_tool_messages\<close>: the last uninterrupted run of tool messages.\<close>

definition latest_tool_messages :: "agent_message list \<Rightarrow> tool_message list" where
  "latest_tool_messages messages =
     rev (List.map_filter as_tool_message
       (takeWhile (\<lambda>m. as_tool_message m \<noteq> None) (dropWhile (\<lambda>m. as_tool_message m = None) (rev messages))))"

definition tool_message_structured_data :: "runtime_lib \<Rightarrow> pyval \<Rightarrow> exn + pyval" where
  "tool_message_structured_data lib content =
     (case content of
        PDict d \<Rightarrow> Inr (PDict d)
      | PStr s \<Rightarrow> (case rl_loads lib s of Inl (JSONDecodeError _) \<Rightarrow> Inr PNone | r \<Rightarrow> r)
      | _ \<Rightarrow> Inr PNone)"

definition tool_message_payload :: "runtime_lib \<Rightarrow> tool_message \<Rightarrow> exn + pydict" where
  "tool_message_payload lib message =
     bindE (tool_message_structured_data lib (tmsg_content message)) (\<lambda>structured.
     Inr [(''name'', opt_str (tmsg_name message)), (''tool_call_id'', PStr (tmsg_tool_call_id message)),
       (''status'', PStr (tmsg_status message)), (''ok'', PBool (message_ok (tmsg_status message) structured)),
       (''content'', tmsg_content message)])"

definition observe_message :: "graph_components \<Rightarrow> runtime_lib \<Rightarrow> agent_state \<Rightarrow> tool_message \<Rightarrow> pydict py" where
  "observe_message c lib state message =
     (let loop_index = as_loop_index state in
      bindM (liftE (tool_message_payload lib message)) (\<lambda>payload.
      bindM (liftE (normalize_tool_observation lib message loop_index
        (observation_artifact_refs_for_tool_message lib state message))) (\<lambda>observation.
      bindM (emit_progress c loop_index ''tool_result''
        [(''tool'', dget payload ''name''), (''ok'', dget payload ''ok''), (''exit_code'', PNone),
         (''command_summary'', PNone)]) (\<lambda>_.
      bindM (emit_progress c loop_index ''observation''
        [(''tool'', dget payload ''name''), (''ok'', dget payload ''ok''), (''summary'', dget observation ''summary'')]) (\<lambda>_.
      bindM (log_trace c ''langgraph_tool_message''
        ((''loop'', PInt loop_index) # payload @ [(''observation'', PDict observation)])) (\<lambda>_.
      returnM observation))))))"

definition observation_errors :: "pydict list \<Rightarrow> pydict list" where
  "observation_errors observations =
     map (\<lambda>o1. [(''tool_call_id'', dget o1 ''tool_call_id''), (''tool_name'', dget o1 ''tool_name''),
         (''category'', dget o1 ''error_category''), (''retryable'', dget o1 ''retryable'')])
       (filter (\<lambda>o1. \<not> truthy (dget o1 ''ok'')) observations)"

definition argument_errors :: "pydict list \<Rightarrow> pydict list" where
  "argument_errors errors = filter (\<lambda>e. dget e ''category'' = PStr ''tool_argument_error'') errors"

text \<open>The state with the new observations counted.\<close>

definition counted :: "agent_state \<Rightarrow> pydict list \<Rightarrow> agent_state" where
  "counted state observations =
     (let errors = observation_errors observations; arguments = argument_errors errors in
      state\<lparr>as_observations := as_observations state @ observations,
        as_tool_calls := as_tool_calls state + int (length observations),
        as_failure_count := as_failure_count state + int (length (filter (\<lambda>e. dget e ''category'' \<noteq> PStr ''tool_argument_error'') errors)),
        as_tool_argument_error_rounds := as_tool_argument_error_rounds state + (if arguments \<noteq> [] then 1 else 0),
        as_errors := as_errors state @ errors\<rparr>)"

definition failure_limit :: "execution_policy \<Rightarrow> agent_state \<Rightarrow> bool \<Rightarrow> execution_limit option" where
  "failure_limit p state arguments_failed =
     (let rounds = as_tool_argument_error_rounds state; failures = as_failure_count state in
      if arguments_failed \<and> rounds > ep_max_tool_argument_corrections p then
        Some (count_limit TOOL_ARGUMENT_ERROR
          ''Execution stopped because tool arguments remained invalid after the allowed model correction.''
          ''max_tool_argument_corrections'' (ep_max_tool_argument_corrections p) rounds)
      else if failures \<ge> ep_max_failures p then
        Some (count_limit REPEATED_FAILURE (failure_message failures) ''max_failures'' (ep_max_failures p) failures)
      else None)"

definition record_tool_messages_node :: "graph_components \<Rightarrow> runtime_lib \<Rightarrow> agent_state \<Rightarrow> agent_state py" where
  "record_tool_messages_node c lib state =
     bindM (forM (latest_tool_messages (as_messages state)) (observe_message c lib state)) (\<lambda>observations.
     bindM (liftE (policy_from_state state)) (\<lambda>p.
     let state' = counted state observations in
     (case failure_limit p state' (argument_errors (observation_errors observations) \<noteq> []) of
        None \<Rightarrow> returnM state'
      | Some limit \<Rightarrow> bindM (execution_stop_updates c state limit) (\<lambda>updates. returnM (updates state')))))"

section \<open>Advancing the loop\<close>

definition increment_loop_node :: "graph_components \<Rightarrow> runtime_lib \<Rightarrow> agent_state \<Rightarrow> agent_state py" where
  "increment_loop_node c lib state =
     (let next = as_loop_index state + 1; advanced = state\<lparr>as_loop_index := next, as_permission := None\<rparr> in
      bindM (loop_step_limit lib state next) (\<lambda>limit.
      (case limit of
         None \<Rightarrow> returnM advanced
       | Some l \<Rightarrow> bindM (execution_stop_updates c state l) (\<lambda>updates. returnM (updates advanced)))))"

definition max_loops_node :: "graph_components \<Rightarrow> agent_state \<Rightarrow> agent_state py" where
  "max_loops_node c state =
     bindM (emit_progress c (as_loop_index state) ''max_steps_reached'' [(''max_steps'', PInt (as_max_loops state))]) (\<lambda>_.
     stop_at c state (count_limit BUDGET_EXHAUSTED
       (''Execution budget exhausted: maximum loop steps ('' @ str_int (as_max_loops state) @ '') reached.'')
       ''max_loop_steps'' (as_max_loops state) (max 0 (as_loop_index state - 1))))"

section \<open>The wrapper\<close>

definition lib_keeps :: "(world \<Rightarrow> bool) \<Rightarrow> runtime_lib \<Rightarrow> bool" where
  "lib_keeps J lib \<longleftrightarrow> keeps J (rl_time lib) \<and> keeps J (rl_monotonic lib)"

lemma keeps_control: "keeps (safe I) (modifyM (on_control f))"
  by (rule keeps_modifyM) (auto simp: safe_def on_control_def)

lemma safe_control [simp]: "safe I (on_control f w) = safe I w"
  by (simp add: safe_def on_control_def)

lemma bind_capability_keeps [keeps_intros]:
  "(\<And>cx. keeps (safe I) (body cx)) \<Longrightarrow> keeps (safe I) (bind_capability_context th i d body)"
  unfolding bind_capability_context_def by (intro keeps_intros keeps_control) simp_all

lemma execution_deadline_keeps:
  assumes "lib_keeps J lib"
  shows "keeps J (execution_deadline lib state)"
  using assms unfolding execution_deadline_def elapsed_seconds_def lib_keeps_def by (auto intro!: keeps_intros)

lemma cancellation_limit_keeps: "keeps J (cancellation_limit c state)"
  unfolding cancellation_limit_def cancellation_requested_def by (intro keeps_intros)

lemma execute_tool_keeps:
  assumes "lib_keeps (safe I) lib" and "keeps (safe I) run_tool"
  shows "keeps (safe I) (execute_tool_with_context c lib state ref run_tool)"
  using assms unfolding execute_tool_with_context_def tool_execution_deadline_def bind_tool_context_def
  by (intro keeps_intros execution_deadline_keeps)

context effect_recorder
begin

lemma marks:
  assumes "wp body Q (\<lambda>_. safe (only_running i)) w"
  shows "wp (or_mark_uncertain recorder i code body) Q (\<lambda>_. safe (effect_settled i)) w"
  unfolding or_mark_uncertain_def wp_catchM
  by (rule wp_mono [OF assms]) (auto simp: wp_rules intro!: wp_mono [OF mark_settles])

lemma execute_recorded_settles:
  assumes "\<And>I. lib_keeps (safe I) lib" and "\<And>I. keeps (safe I) run_tool" and "safe (only_running (ir_invocation_id ref)) w"
  shows "wp (execute_recorded c lib recorder state ref run_tool)
    (\<lambda>_. safe (effect_settled (ir_invocation_id ref))) (\<lambda>_. safe (effect_settled (ir_invocation_id ref))) w"
proof -
  note run = wp_safe [OF execute_tool_keeps [OF assms(1,2)] assms(3), of c state "Some ref"]
  show ?thesis
    unfolding execute_recorded_def Let_def wp_bindM
    by (rule wp_mono [OF marks [OF run]]) (auto simp: wp_returnM intro!: marks wp_mono [OF finish_settles])
qed

end

lemma settled_none: "safe (effect_settled i) w \<Longrightarrow> safe none_running w"
  by (auto simp: safe_def effect_settled_def)

context effect_recorder
begin

lemma claim_quiet:
  assumes "\<And>I. lib_keeps (safe I) lib" and "\<And>I. keeps (safe I) run_tool"
  shows "keeps (safe none_running) (claim_and_execute c lib recorder request reference run_tool)"
proof -
  let ?i = "ir_invocation_id reference"
  have run: "keeps (safe none_running) (bindM (tr_begin_execution recorder ?i) (\<lambda>x.
      if \<not> ie_execute x then blocked lib call (ie_message x)
      else execute_recorded c lib recorder state reference run_tool))" for call state
    unfolding keeps_iff_wp wp_bindM
    by (auto simp: blocked_def wp_returnM split: if_splits dest: settled_none
        intro!: wp_mono [OF begin_claims] wp_mono [OF execute_recorded_settles [OF assms]])
  show ?thesis
    unfolding claim_and_execute_def Let_def
    by (intro keeps_intros run cancel_quiet cancellation_limit_keeps | simp add: blocked_def keeps_returnM)+
qed

lemma wrapper_quiet:
  assumes "gc_tool_invocation_recorder c = Some recorder"
    and "\<And>I. lib_keeps (safe I) lib" and "\<And>I. keeps (safe I) run_tool"
  shows "keeps (safe none_running) (tool_call_wrapper c lib request run_tool)"
  unfolding tool_call_wrapper_def assms(1) option.case wrap_recorded_def Let_def blocked_def
  by (intro keeps_intros cancellation_limit_keeps cancel_quiet prepare_quiet claim_quiet execute_tool_keeps assms(2,3))

end

text \<open>
  C27. No tool call leaves an effect in the air.  With the ledger of the main agent, a wrapped tool call
  that starts while no effect is running leaves none running, whether it is blocked,
  canceled, returns or raises, and whatever the tool does short of writing to the
  database.  An effect that was claimed and executed ends as succeeded or uncertain, also
  when the tool or the recording of its result raises.
\<close>

theorem tool_call_settles:
  assumes "gc_tool_invocation_recorder c = Some (main_agent_ledger env)"
    and "\<And>I. lib_keeps (safe I) lib" and "\<And>I. keeps (safe I) run_tool"
  shows "keeps (safe none_running) (tool_call_wrapper c lib request run_tool) \<and>
    (safe (only_running (ir_invocation_id ref)) w \<longrightarrow>
     wp (execute_recorded c lib (main_agent_ledger env) state ref run_tool)
       (\<lambda>_. safe (effect_settled (ir_invocation_id ref))) (\<lambda>_. safe (effect_settled (ir_invocation_id ref))) w)"
  using main_ledger.wrapper_quiet [OF assms] main_ledger.execute_recorded_settles [OF assms(2,3)] by blast

text \<open>A runtime without a model and without tools, on the ledger.\<close>

definition sample_lib :: runtime_lib where
  "sample_lib = \<lparr>rl_time = returnM 0, rl_monotonic = returnM 0, rl_fixed3 = (\<lambda>_. []), rl_round3 = (\<lambda>f. f),
     rl_loads = (\<lambda>_. Inl (JSONDecodeError [])), rl_dumps = (\<lambda>_. []), rl_repr = (\<lambda>_. [])\<rparr>"

definition sample_components :: graph_components where
  "sample_components =
     \<lparr>gc_model = (\<lambda>ms ts. returnM \<lparr>ai_content = PStr ''done'', ai_tool_calls = []\<rparr>),
      gc_tools = [], gc_permission_gate = Some [], gc_progress = None, gc_trace = None,
      gc_tool_invocation_recorder = Some (main_agent_ledger sample_ledger_env),
      gc_execution_context_registry = True\<rparr>"

definition sample_reference :: tool_invocation_reference where
  "sample_reference = \<lparr>ir_invocation_id = ''inv'', ir_arguments_digest = ''d'', ir_status = ''prepared'',
     ir_execution_blocked = False, ir_blocked_reason = None\<rparr>"

definition running_tables :: tables where
  "running_tables = sample_tables\<lparr>tb_tool_invocations := [sample_invocation\<lparr>v_status := INV_RUNNING\<rparr>]\<rparr>"

definition sample_state :: agent_state where
  "sample_state =
     \<lparr>as_messages = [GraphHuman (PStr ''hi'')], as_permission = None, as_approval = None, as_final_answer = None,
      as_loop_index = 1, as_max_loops = 5, as_errors = [], as_runtime_thread_id = Some ''thread'',
      as_execution_policy = PDict (policy_to_dict default_execution_policy), as_execution_started_at = PFloat (Fin 0),
      as_model_calls = 0, as_tool_calls = 0, as_failure_count = 0, as_tool_argument_error_rounds = 0,
      as_observations = [], as_stop_reason = None, as_stop_detail = None, as_stop_message = None\<rparr>"

lemma sample_lib_keeps: "lib_keeps J sample_lib"
  by (simp add: lib_keeps_def sample_lib_def keeps_returnM)

theorem tool_call_settles_witness:
  "wp (execute_recorded sample_components sample_lib (main_agent_ledger sample_ledger_env) sample_state sample_reference
      (raiseM (RuntimeError ''boom'')))
    (\<lambda>_. safe (effect_settled ''inv'')) (\<lambda>_. safe (effect_settled ''inv'')) (world_of running_tables)"
proof -
  have "safe (only_running ''inv'') (world_of running_tables)"
    by (simp add: safe_def only_running_def effect_at_def running_tables_def table_simps sample_invocation_def)
  moreover have "gc_tool_invocation_recorder sample_components = Some (main_agent_ledger sample_ledger_env)"
    "ir_invocation_id sample_reference = ''inv''"
    by (simp_all add: sample_components_def sample_reference_def)
  ultimately show ?thesis
    using tool_call_settles [OF _ sample_lib_keeps keeps_raiseM, of sample_components sample_ledger_env _ _ sample_reference
        "world_of running_tables" sample_state] by simp
qed

end
