(* ===== verification/Agent_Graph.thy ===== *)
theory Agent_Graph
  imports Agent_Nodes
begin

text \<open>
  The agent graph as a whole: its routes (\<open>langgraph_runtime/routing.py\<close>), its nodes and edges
  (\<open>langgraph_runtime/graph.py\<close>), the runtime that starts and resumes it
  (\<open>langgraph_runtime/runner.py\<close>) and the runner the core calls
  (\<open>main_agent/task_runner.py\<close>).
\<close>

section \<open>Routes\<close>

definition set_and_nonempty :: "string option \<Rightarrow> bool" where
  "set_and_nonempty s \<longleftrightarrow> (case s of None \<Rightarrow> False | Some t \<Rightarrow> t \<noteq> [])"

definition route_after_model :: "agent_state \<Rightarrow> string" where
  "route_after_model state =
     (if as_final_answer state \<noteq> None then ''final''
      else if set_and_nonempty (as_stop_reason state) then ''stopped''
      else if pending_calls state \<noteq> [] then ''tool_calls''
      else ''final'')"

definition route_after_permission :: "agent_state \<Rightarrow> string" where
  "route_after_permission state =
     (let status = dget (or_empty (as_permission state)) ''status'' in
      if status = PStr ''allowed'' then ''allowed''
      else if status = PStr ''input_required'' then ''input_required''
      else if status = PStr ''approval_required'' then ''approval_required''
      else if set_and_nonempty (as_stop_reason state) then ''stopped''
      else ''denied'')"

definition route_after_approval :: "agent_state \<Rightarrow> string" where
  "route_after_approval state =
     (if dget (or_empty (as_approval state)) ''approved'' = PBool True then ''approved'' else ''rejected'')"

definition route_loop_limit :: "agent_state \<Rightarrow> string" where
  "route_loop_limit state =
     (if set_and_nonempty (as_stop_reason state) then ''stopped''
      else if as_loop_index state > as_max_loops state then ''max_loops''
      else ''continue'')"

section \<open>The graph\<close>

datatype graph_node =
    CALL_MODEL | CHECK_PERMISSION | AWAIT_APPROVAL | AWAIT_INPUT | REJECT_TOOL | TOOLS
  | RECORD_TOOL_MESSAGES | INCREMENT_LOOP | MAX_LOOPS | GRAPH_END

text \<open>The edges, conditional or not.\<close>

definition next_node :: "graph_node \<Rightarrow> agent_state \<Rightarrow> graph_node" where
  "next_node node state =
     (case node of
        CALL_MODEL \<Rightarrow> if route_after_model state = ''tool_calls'' then CHECK_PERMISSION else GRAPH_END
      | CHECK_PERMISSION \<Rightarrow>
          (let route = route_after_permission state in
           if route = ''allowed'' then TOOLS
           else if route = ''input_required'' then AWAIT_INPUT
           else if route = ''approval_required'' then AWAIT_APPROVAL
           else if route = ''denied'' then REJECT_TOOL
           else GRAPH_END)
      | AWAIT_APPROVAL \<Rightarrow> if route_after_approval state = ''approved'' then TOOLS else REJECT_TOOL
      | AWAIT_INPUT \<Rightarrow> INCREMENT_LOOP
      | REJECT_TOOL \<Rightarrow> GRAPH_END
      | TOOLS \<Rightarrow> RECORD_TOOL_MESSAGES
      | RECORD_TOOL_MESSAGES \<Rightarrow> INCREMENT_LOOP
      | INCREMENT_LOOP \<Rightarrow>
          (let route = route_loop_limit state in
           if route = ''continue'' then CALL_MODEL else if route = ''max_loops'' then MAX_LOOPS else GRAPH_END)
      | MAX_LOOPS \<Rightarrow> GRAPH_END
      | GRAPH_END \<Rightarrow> GRAPH_END)"

text \<open>
  \<open>ToolNode\<close> of LangGraph is a parameter: it is given the wrapper, which takes the request
  and the program that runs the tool, and returns the messages for the calls of the last
  answer of the model.
\<close>

type_synonym tool_node =
  "(tool_call_request \<Rightarrow> tool_response py \<Rightarrow> tool_response py) \<Rightarrow> agent_state \<Rightarrow> tool_message list py"

record graph_env =
  ge_components :: graph_components
  ge_lib :: runtime_lib
  ge_tool_node :: tool_node

definition tools_node :: "graph_env \<Rightarrow> agent_state \<Rightarrow> agent_state py" where
  "tools_node env state =
     bindM (ge_tool_node env (tool_call_wrapper (ge_components env) (ge_lib env)) state) (\<lambda>messages.
     returnM (state\<lparr>as_messages := as_messages state @ map GraphTool messages\<rparr>))"

definition updated :: "agent_state py \<Rightarrow> node_result py" where
  "updated m = bindM m (\<lambda>state. returnM (Updated state))"

definition run_node :: "graph_env \<Rightarrow> graph_node \<Rightarrow> pyval list \<Rightarrow> agent_state \<Rightarrow> node_result py" where
  "run_node env node resumes state =
     (let c = ge_components env; lib = ge_lib env in
      (case node of
         CALL_MODEL \<Rightarrow> updated (call_model_node c lib state)
       | CHECK_PERMISSION \<Rightarrow> updated (check_permission_node c lib state)
       | AWAIT_APPROVAL \<Rightarrow> approval_required_node c lib resumes state
       | AWAIT_INPUT \<Rightarrow> user_input_required_node c lib resumes state
       | REJECT_TOOL \<Rightarrow> updated (reject_tool_node c lib state)
       | TOOLS \<Rightarrow> updated (tools_node env state)
       | RECORD_TOOL_MESSAGES \<Rightarrow> updated (record_tool_messages_node c lib state)
       | INCREMENT_LOOP \<Rightarrow> updated (increment_loop_node c lib state)
       | MAX_LOOPS \<Rightarrow> updated (max_loops_node c state)
       | GRAPH_END \<Rightarrow> returnM (Updated state)))"

text \<open>
  A checkpoint is the node that runs next, the answers it has been given, and the state.  The
  run of the graph from a checkpoint takes at most as many steps as LangGraph's
  recursion limit allows; a run that is suspended returns the checkpoint it waits at, with
  what it asks for.
\<close>

record graph_checkpoint =
  gk_node :: graph_node
  gk_resumes :: "pyval list"
  gk_state :: agent_state

datatype graph_outcome = Finished agent_state | Paused graph_checkpoint pyval | Limit_reached

fun run_graph :: "graph_env \<Rightarrow> nat \<Rightarrow> graph_checkpoint \<Rightarrow> graph_outcome py" where
  "run_graph env limit k =
     (if gk_node k = GRAPH_END then returnM (Finished (gk_state k))
      else
        (case limit of
           0 \<Rightarrow> returnM Limit_reached
         | Suc n \<Rightarrow>
             bindM (run_node env (gk_node k) (gk_resumes k) (gk_state k)) (\<lambda>r.
             (case r of
                Suspended request \<Rightarrow> returnM (Paused k request)
              | Updated state \<Rightarrow>
                  run_graph env n \<lparr>gk_node = next_node (gk_node k) state, gk_resumes = [], gk_state = state\<rparr>))))"

declare run_graph.simps [simp del]

definition start_checkpoint :: "agent_state \<Rightarrow> graph_checkpoint" where
  "start_checkpoint state = \<lparr>gk_node = CALL_MODEL, gk_resumes = [], gk_state = state\<rparr>"

definition resume_checkpoint :: "pyval \<Rightarrow> graph_checkpoint \<Rightarrow> graph_checkpoint" where
  "resume_checkpoint answer k = k\<lparr>gk_resumes := gk_resumes k @ [answer]\<rparr>"

section \<open>The runtime\<close>

text \<open>
  \<open>LangGraphAgentRuntime\<close>.  The store of checkpoints belongs to LangGraph: \<open>cp_load\<close> reads the
  last state of a thread, if there is one, \<open>cp_suspended\<close> the checkpoint a resumed run
  continues from, and \<open>cp_save\<close> keeps the outcome of a run.  The context provider
  is the function that yields the messages put before the history.
\<close>

record checkpointer =
  cp_load :: "string \<Rightarrow> agent_state option py"
  cp_suspended :: "string \<Rightarrow> graph_checkpoint py"
  cp_save :: "string \<Rightarrow> graph_outcome \<Rightarrow> unit py"
  cp_delete_thread :: "(string \<Rightarrow> unit py) option"

record agent_runtime =
  rt_env :: graph_env
  rt_system_prompt :: "string option"
  rt_policy :: execution_policy
  rt_checkpointer :: checkpointer
  rt_context_provider :: "(string \<Rightarrow> agent_message list py) option"
  rt_recursion_limit :: nat

text \<open>\<open>__post_init__\<close>: the policy that is given, or the one for \<open>max_loops\<close>.\<close>

definition runtime_policy :: "execution_policy option \<Rightarrow> int \<Rightarrow> exn + execution_policy" where
  "runtime_policy given max_loops =
     (case given of Some p \<Rightarrow> Inr p | None \<Rightarrow> policy_from_max_loops max_loops None 2 1 None)"

definition rt_components :: "agent_runtime \<Rightarrow> graph_components" where
  "rt_components rt = ge_components (rt_env rt)"

definition emit_run_started :: "agent_runtime \<Rightarrow> string \<Rightarrow> unit py" where
  "emit_run_started rt user_input =
     (case gc_progress (rt_components rt) of
        None \<Rightarrow> returnM ()
      | Some report \<Rightarrow>
          report None ''run_started''
            [(''input'', PStr user_input), (''max_steps'', PInt (ep_max_loop_steps (rt_policy rt)))])"

definition initial_state ::
  "agent_runtime \<Rightarrow> string \<Rightarrow> agent_message list \<Rightarrow> string \<Rightarrow> agent_state py" where
  "initial_state rt user_input past thread_id =
     bindM (case rt_context_provider rt of None \<Rightarrow> returnM [] | Some provide \<Rightarrow> provide user_input) (\<lambda>context.
     build_initial_state (ge_lib (rt_env rt)) user_input (rt_system_prompt rt) context past
       (ep_max_loop_steps (rt_policy rt)) (Some (rt_policy rt)) (Some thread_id))"

definition to_run_result :: "agent_runtime \<Rightarrow> string \<Rightarrow> agent_state \<Rightarrow> run_result py" where
  "to_run_result rt thread_id state =
     bindM (execution_summary (ge_lib (rt_env rt)) state (as_final_answer state)) (\<lambda>execution.
     returnM
       \<lparr>rr_thread_id = thread_id, rr_final_answer = as_final_answer state, rr_interrupt = None,
        rr_interrupt_message = None,
        rr_stop_message =
          (if as_final_answer state \<noteq> None then None
           else Some (case as_stop_message state of
               Some (ch # m) \<Rightarrow> ch # m
             | _ \<Rightarrow> ''LangGraph runtime stopped without a final answer.'')),
        rr_stop_reason = Some (py_str (rl_repr (ge_lib (rt_env rt))) (dget execution ''stop_reason'')),
        rr_observations = as_observations state, rr_execution = execution\<rparr>)"

definition interrupt_result :: "agent_runtime \<Rightarrow> string \<Rightarrow> agent_state \<Rightarrow> pyval \<Rightarrow> run_result py" where
  "interrupt_result rt thread_id state value =
     (let repr = rl_repr (ge_lib (rt_env rt));
          message = py_or (case value of PDict d \<Rightarrow> dget d ''message'' | _ \<Rightarrow> PNone) (PStr ''Additional input is required.'')
      in
      bindM (execution_summary (ge_lib (rt_env rt)) state None) (\<lambda>execution.
      returnM
        \<lparr>rr_thread_id = thread_id, rr_final_answer = None, rr_interrupt = Some value,
         rr_interrupt_message = Some (py_str repr message @ [CHR 10] @ ''thread_id: '' @ thread_id),
         rr_stop_message = None,
         rr_stop_reason = Some (py_str repr (dget execution ''stop_reason'')),
         rr_observations = as_observations state, rr_execution = execution\<rparr>))"

definition run_result_payload :: "run_result \<Rightarrow> pydict" where
  "run_result_payload r =
     [(''thread_id'', PStr (rr_thread_id r)), (''status'', PStr (run_status r)),
      (''final_answer'', opt_str (rr_final_answer r)), (''stop_message'', opt_str (rr_stop_message r)),
      (''stop_reason'', opt_str (rr_stop_reason r)), (''execution'', PDict (rr_execution r))]"

text \<open>\<open>graph.invoke\<close> and what both \<open>start\<close> and \<open>_resume\<close> do with its outcome.\<close>

definition invoke_graph :: "agent_runtime \<Rightarrow> string \<Rightarrow> graph_checkpoint \<Rightarrow> run_result py" where
  "invoke_graph rt thread_id k =
     bindM (run_graph (rt_env rt) (rt_recursion_limit rt) k) (\<lambda>outcome.
     bindM (cp_save (rt_checkpointer rt) thread_id outcome) (\<lambda>_.
     (case outcome of
        Limit_reached \<Rightarrow> raiseM (RuntimeError ''Recursion limit reached without hitting a stop condition.'')
      | Paused waiting value \<Rightarrow> interrupt_result rt thread_id (gk_state waiting) value
      | Finished state \<Rightarrow>
          bindM (to_run_result rt thread_id state) (\<lambda>result.
          bindM (log_trace (rt_components rt) ''langgraph_run_finished'' (run_result_payload result)) (\<lambda>_.
          returnM result)))))"

text \<open>\<open>str(uuid4())\<close>.\<close>

definition uuid_text :: "string \<Rightarrow> string" where
  "uuid_text h = join_str ''-'' [take 8 h, take 4 (drop 8 h), take 4 (drop 12 h), take 4 (drop 16 h), drop 20 h]"

definition new_uuid :: "string py" where
  "new_uuid w = (Inr (uuid_text (uuid_hex w (uuid_reads w))), w\<lparr>uuid_reads := Suc (uuid_reads w)\<rparr>)"

definition runtime_start ::
  "agent_runtime \<Rightarrow> string \<Rightarrow> string option \<Rightarrow> agent_message list \<Rightarrow> run_result py" where
  "runtime_start rt user_input thread_id past =
     bindM (case optional_string thread_id of
              Some t \<Rightarrow> returnM t
            | None \<Rightarrow> new_uuid) (\<lambda>thread.
     bindM (emit_run_started rt user_input) (\<lambda>_.
     bindM (log_trace (rt_components rt) ''langgraph_run_started''
       [(''thread_id'', PStr thread), (''max_loops'', PInt (ep_max_loop_steps (rt_policy rt))),
        (''execution_policy'', PDict (policy_to_dict (rt_policy rt))), (''input'', PStr user_input)]) (\<lambda>_.
     bindM (initial_state rt user_input past thread) (\<lambda>state.
     bindM (cp_load (rt_checkpointer rt) thread) (\<lambda>earlier.
     invoke_graph rt thread (start_checkpoint
       (case earlier of
          None \<Rightarrow> state
        | Some s \<Rightarrow> state\<lparr>as_messages := as_messages s @ as_messages state\<rparr>)))))))"

definition resume_run :: "agent_runtime \<Rightarrow> string \<Rightarrow> pyval \<Rightarrow> run_result py" where
  "resume_run rt thread_id payload =
     bindM (cp_suspended (rt_checkpointer rt) thread_id) (\<lambda>k.
     invoke_graph rt thread_id (resume_checkpoint payload k))"

definition runtime_resume :: "agent_runtime \<Rightarrow> string \<Rightarrow> bool \<Rightarrow> string option \<Rightarrow> run_result py" where
  "runtime_resume rt thread_id approved reason =
     (if thread_id = [] then raiseM (ValueError ''thread_id is required to resume an approval interrupt'')
      else
        bindM (log_trace (rt_components rt) ''langgraph_run_resumed''
          [(''thread_id'', PStr thread_id), (''approved'', PBool approved), (''reason'', opt_str reason)]) (\<lambda>_.
        resume_run rt thread_id (PDict [(''approved'', PBool approved), (''reason'', opt_str reason)])))"

definition runtime_resume_input :: "agent_runtime \<Rightarrow> string \<Rightarrow> pyval list \<Rightarrow> pyval option \<Rightarrow> run_result py" where
  "runtime_resume_input rt thread_id parts metadata =
     (if thread_id = [] then raiseM (ValueError ''thread_id is required to resume an input interrupt'')
      else
        (let given = py_or (case metadata of None \<Rightarrow> PNone | Some m \<Rightarrow> m) (PDict []) in
         bindM (log_trace (rt_components rt) ''langgraph_run_input_submitted''
           [(''thread_id'', PStr thread_id), (''parts'', PList parts), (''metadata'', given)]) (\<lambda>_.
         resume_run rt thread_id (PDict [(''parts'', PList parts), (''metadata'', given)]))))"

definition delete_checkpoint :: "agent_runtime \<Rightarrow> string \<Rightarrow> unit py" where
  "delete_checkpoint rt thread_id =
     (if thread_id = [] then raiseM (ValueError ''thread_id is required to delete a checkpoint'')
      else
        (case cp_delete_thread (rt_checkpointer rt) of
           None \<Rightarrow> returnM ()
         | Some delete_thread \<Rightarrow> delete_thread thread_id))"

text \<open>\<open>close\<close>: the callbacks, the last one first.\<close>

definition runtime_close :: "unit py list \<Rightarrow> unit py" where
  "runtime_close close_callbacks = bindM (forM (rev close_callbacks) (\<lambda>callback. callback)) (\<lambda>_. returnM ())"

definition runtime_run :: "agent_runtime \<Rightarrow> string \<Rightarrow> string option \<Rightarrow> string py" where
  "runtime_run rt user_input thread_id =
     bindM (runtime_start rt user_input thread_id []) (\<lambda>r. returnM (run_output r))"

section \<open>The local task runner\<close>

definition text_part :: "string \<Rightarrow> pyval" where
  "text_part s = PDict [(''kind'', PStr ''text''), (''text'', PStr s)]"

definition run_result_to_local_task_result :: "(pyval \<Rightarrow> string) \<Rightarrow> run_result \<Rightarrow> local_task_run_result" where
  "run_result_to_local_task_result repr r =
     (let observations = map PDict (rr_observations r); execution = rr_execution r;
          base = \<lparr>l_status = FAILED, l_parts = [], l_artifact_parts = [], l_error_code = None, l_error_message = None,
            l_error_retryable = False, l_input_request = None, l_observations = observations, l_execution = execution\<rparr>
      in
      if run_status r = ''completed'' then
        base\<lparr>l_status := COMPLETED, l_parts := [text_part (case rr_final_answer r of None \<Rightarrow> [] | Some a \<Rightarrow> a)]\<rparr>
      else if run_status r = ''interrupted'' then
        (let request = Option.bind (rr_interrupt r) as_dict;
             asked = or_empty request;
             message =
               (if truthy (dget asked ''message'') then py_str repr (dget asked ''message'')
                else (case rr_interrupt_message r of Some (ch # m) \<Rightarrow> ch # m | _ \<Rightarrow> ''Additional input is required.''))
         in
         base\<lparr>l_status := (if dget asked ''kind'' = PStr ''approval_required'' then AUTH_REQUIRED else INPUT_REQUIRED),
           l_parts := [text_part message],
           l_error_code := Some (case rr_stop_reason r of Some (ch # s) \<Rightarrow> ch # s | _ \<Rightarrow> ''input_required''),
           l_error_message := Some message, l_input_request := request\<rparr>)
      else
        base\<lparr>l_error_code := Some (case rr_stop_reason r of Some (ch # s) \<Rightarrow> ch # s | _ \<Rightarrow> run_status r),
          l_error_message := Some (case rr_stop_message r of Some (ch # m) \<Rightarrow> ch # m | _ \<Rightarrow> ''Local task did not complete.''),
          l_error_retryable := execution_failure_is_retryable execution\<rparr>)"

fun graph_message :: "base_message \<Rightarrow> agent_message" where
  "graph_message (SystemMessage s) = GraphSystem (PStr s)"
| "graph_message (AIMessage s) = GraphAI \<lparr>ai_content = PStr s, ai_tool_calls = []\<rparr>"
| "graph_message (HumanMessage s) = GraphHuman (PStr s)"

definition task_initial_input :: "message_record list \<Rightarrow> exn + string \<times> agent_message list" where
  "task_initial_input messages =
     (case filter (\<lambda>m. m_role m = USER) (rev messages) of
        [] \<Rightarrow> Inr ([], [])
      | latest # _ \<Rightarrow>
          bindE (sum_list_of (map (\<lambda>m.
              bindE (text_from_parts (m_parts m)) (\<lambda>said.
              if said = [] then Inr None else map_sum id Some (to_langchain_message m)))
            (filter (\<lambda>m. m_message_id m \<noteq> m_message_id latest) messages))) (\<lambda>past.
          bindE (text_from_parts (m_parts latest)) (\<lambda>user_input.
          Inr (user_input, map graph_message (List.map_filter id past)))))"

text \<open>\<open>_acquire_thread\<close>: the entry of the thread counts its users and goes with the last one.
  The lock in the entry only orders callers that run at the same time.\<close>

definition add_thread_user :: "string \<Rightarrow> int \<Rightarrow> control_state \<Rightarrow> control_state" where
  "add_thread_user thread n c =
     (let users = (case thread_locks c thread of None \<Rightarrow> 0 | Some u \<Rightarrow> u) + n in
      c\<lparr>thread_locks := (thread_locks c)(thread := (if users = 0 then None else Some users))\<rparr>)"

definition acquire_thread :: "string \<Rightarrow> 'a py \<Rightarrow> 'a py" where
  "acquire_thread thread body =
     bindM (getM (runner_closed \<circ> control)) (\<lambda>closed.
     bindM (raise_if closed (RuntimeError ''local task runner is closed'')) (\<lambda>_.
     bindM (modifyM (on_control (add_thread_user thread 1))) (\<lambda>_.
     finallyM body (on_control (add_thread_user thread (- 1))))))"

definition in_thread :: "agent_runtime \<Rightarrow> string \<Rightarrow> run_result py \<Rightarrow> local_task_run_result py" where
  "in_thread rt thread body =
     bindM (acquire_thread thread (activate thread (\<lambda>_. body))) (\<lambda>r.
     returnM (run_result_to_local_task_result (rl_repr (ge_lib (rt_env rt))) r))"

definition runner_run :: "agent_runtime \<Rightarrow> message_record list \<Rightarrow> string \<Rightarrow> local_task_run_result py" where
  "runner_run rt messages thread =
     bindM (liftE (task_initial_input messages)) (\<lambda>(user_input, past).
     in_thread rt thread (runtime_start rt user_input (Some thread) past))"

definition runner_resume :: "agent_runtime \<Rightarrow> string \<Rightarrow> bool \<Rightarrow> string option \<Rightarrow> local_task_run_result py" where
  "runner_resume rt thread approved reason = in_thread rt thread (runtime_resume rt thread approved reason)"

definition runner_resume_input ::
  "agent_runtime \<Rightarrow> string \<Rightarrow> pyval list \<Rightarrow> pyval option \<Rightarrow> local_task_run_result py" where
  "runner_resume_input rt thread parts metadata = in_thread rt thread (runtime_resume_input rt thread parts metadata)"

definition runner_request_cancellation :: "string \<Rightarrow> string option \<Rightarrow> unit py" where
  "runner_request_cancellation thread reason =
     bindM (registry_request_cancellation thread reason) (\<lambda>_. returnM ())"

definition runner_discard_checkpoint :: "agent_runtime \<Rightarrow> string \<Rightarrow> unit py" where
  "runner_discard_checkpoint rt thread = acquire_thread thread (delete_checkpoint rt thread)"

text \<open>\<open>close\<close>, once the threads are idle.\<close>

definition runner_close :: "unit py list \<Rightarrow> unit py" where
  "runner_close close_callbacks =
     bindM (getM (runner_closed \<circ> control)) (\<lambda>closed.
     if closed then returnM ()
     else bindM (modifyM (on_control (\<lambda>c. c\<lparr>runner_closed := True\<rparr>))) (\<lambda>_. runtime_close close_callbacks))"

definition direct_langgraph_runner :: "agent_runtime \<Rightarrow> local_task_runner" where
  "direct_langgraph_runner rt =
     \<lparr>rn_run = runner_run rt, rn_resume = runner_resume rt, rn_resume_input = runner_resume_input rt,
      rn_request_cancellation = Some runner_request_cancellation,
      rn_discard_checkpoint = Some (runner_discard_checkpoint rt)\<rparr>"

end
