(* ===== verification/Streaming.thy ===== *)
theory Streaming
  imports Command_Properties Agent_Graph
begin

text \<open>
  The streaming admission of \<open>main_agent/core.py\<close> and the direct responder,
  \<open>main_agent/responder.py\<close>.  A generator is a program that takes what happens
  at its \<open>yield\<close>s as an argument: there the consumer runs, which may change the state, as other
  requests do in the meantime, and which may go away, by an exception of its own or because it
  wants no more.  Then the generator is closed: \<open>GeneratorExit\<close> is raised at the \<open>yield\<close>.
\<close>

section \<open>Generators\<close>

datatype local_message_delta = LocalMessageDelta string string string string string int

datatype main_agent_stream_result = StreamDelta local_message_delta | StreamResult main_agent_result

text \<open>
  The state of a generator is the program's state with the items a client has received.  An
  exception is one the generator raises itself, \<open>Inl\<close>, or the one a \<open>yield\<close> ended with, \<open>Inr\<close>.
\<close>

type_synonym ('o, 'x, 'a) gen = "(world \<times> 'o list, exn + 'x, 'a) prog"
type_synonym ('i, 'o, 'x) sink = "'i \<Rightarrow> (world \<times> 'o list, 'x, unit) prog"

definition callG :: "'a py \<Rightarrow> ('o, 'x, 'a) gen" where
  "callG m = (\<lambda>(w, sent). case m w of (r, w') \<Rightarrow> (map_sum Inl id r, (w', sent)))"

definition yieldG :: "('i, 'o, 'x) sink \<Rightarrow> 'i \<Rightarrow> ('o, 'x, unit) gen" where
  "yieldG consumer item s = (case consumer item s of (r, s') \<Rightarrow> (map_sum Inr id r, s'))"

lemma wp_callG [wp_rules]:
  "wp (callG m) Q E (w, sent) = wp m (\<lambda>a w'. Q a (w', sent)) (\<lambda>e w'. E (Inl e) (w', sent)) w"
  by (simp add: callG_def wp_def split: prod.split sum.split)

lemma wp_yieldG [wp_rules]: "wp (yieldG consumer item) Q E s = wp (consumer item) Q (\<lambda>x. E (Inr x)) s"
  by (simp add: yieldG_def wp_def split: prod.split sum.split)

text \<open>The consumer at the end of the line: it receives an item and asks for the next one or goes away.\<close>

definition client_sink :: "('o \<Rightarrow> world \<Rightarrow> bool \<times> world) \<Rightarrow> ('o, 'o, unit) sink" where
  "client_sink client item = (\<lambda>(w, sent). case client item w of
     (go, w') \<Rightarrow> (if go then Inr () else Inl (), (w', sent @ [item])))"

lemma wp_client_sink [wp_rules]:
  "wp (client_sink client item) Q E (w, sent) =
     (case client item w of (go, w') \<Rightarrow> if go then Q () (w', sent @ [item]) else E () (w', sent @ [item]))"
  by (simp add: client_sink_def wp_def split: prod.split)

section \<open>The streaming commands of the core\<close>

text \<open>
  The responder's stream: one program per call of \<open>next\<close>, where \<open>None\<close> is the end of the iteration.
\<close>

type_synonym responder_stream = "message_record list \<Rightarrow> pyval option py list"

fun stream_deltas ::
  "(main_agent_stream_result, 'o, 'x) sink \<Rightarrow> (string \<Rightarrow> int \<Rightarrow> local_message_delta) \<Rightarrow> pyval option py list \<Rightarrow> string \<Rightarrow> int \<Rightarrow> ('o, 'x, string) gen" where
  "stream_deltas consumer delta_of [] full_text sequence = returnM full_text"
| "stream_deltas consumer delta_of (next_item # items) full_text sequence =
     bindM (callG next_item) (\<lambda>item.
     case item of
       None \<Rightarrow> returnM full_text
     | Some (PStr (ch # delta)) \<Rightarrow>
         bindM (yieldG consumer (StreamDelta (delta_of (ch # delta) (sequence + 1)))) (\<lambda>_.
         stream_deltas consumer delta_of items (full_text @ ch # delta) (sequence + 1))
     | Some _ \<Rightarrow> stream_deltas consumer delta_of items full_text sequence)"

definition stream_local_message ::
  "core_env \<Rightarrow> responder_stream option \<Rightarrow> (main_agent_stream_result, 'o, 'x) sink \<Rightarrow> string \<Rightarrow> string \<Rightarrow> main_agent_route_decision \<Rightarrow> ('o, 'x, unit) gen" where
  "stream_local_message env stream_method consumer context_id input_message_id rd =
     (case stream_method of
        None \<Rightarrow>
          bindM (callG (handle_local_message env context_id input_message_id rd)) (\<lambda>result.
          yieldG consumer (StreamResult result))
      | Some stream \<Rightarrow>
          bindM (callG (record_message_ingress_route context_id input_message_id rd)) (\<lambda>decision.
          bindM (callG (new_id ''msg'')) (\<lambda>assistant_message_id.
          bindM (callG (direct_message_context_through_input context_id input_message_id)) (\<lambda>messages.
          bindM (stream_deltas consumer
            (LocalMessageDelta context_id assistant_message_id input_message_id (r_decision_id decision))
            (stream messages) [] 0) (\<lambda>full_text.
          bindM (callG (append_local_reply context_id input_message_id decision assistant_message_id
            [text_part full_text])) (\<lambda>assistant_message.
          yieldG consumer (StreamResult (LocalMessageResult context_id (m_message_id assistant_message)
            input_message_id (r_decision_id decision) (m_parts assistant_message)))))))))"

text \<open>The dispatch of a stream, inside the \<open>try\<close>.\<close>

definition stream_dispatch ::
  "core_env \<Rightarrow> responder_stream option \<Rightarrow> (main_agent_stream_result, 'o, 'x) sink \<Rightarrow> main_agent_request \<Rightarrow> string \<Rightarrow> string \<Rightarrow> main_agent_route_decision \<Rightarrow> ('o, 'x, unit) gen" where
  "stream_dispatch env sm consumer rq c mid rd =
     (case rd_kind rd of
        LOCAL_MESSAGE \<Rightarrow> stream_local_message env sm consumer c mid rd
      | LOCAL_TASK \<Rightarrow> bindM (callG (handle_local_task env c mid rd)) (\<lambda>result. yieldG consumer (StreamResult result))
      | REMOTE_AGENT \<Rightarrow>
          bindM (callG (handle_remote_agent env c mid rq rd)) (\<lambda>result. yieldG consumer (StreamResult result)))"

text \<open>
  \<open>_stream_admitted_message\<close>.  Closing the stream raises \<open>GeneratorExit\<close> at the \<open>yield\<close>, an \<open>Inr\<close>
  here; both handlers record the failure of the ingress and raise again.
\<close>

definition stream_admitted_message ::
  "core_env \<Rightarrow> responder_stream option \<Rightarrow> (main_agent_stream_result, 'o, 'x) sink \<Rightarrow> main_agent_request \<Rightarrow> ('o, 'x, unit) gen" where
  "stream_admitted_message env stream_method consumer request =
     bindM (callG (prepare_message_route env request)) (\<lambda>prepared.
     case pm_existing_result prepared of
       Some result \<Rightarrow> yieldG consumer (StreamResult result)
     | None \<Rightarrow>
         bindM (callG (require_some (pm_route_decision prepared) (RuntimeError ''message route was not prepared''))) (\<lambda>rd.
         (let context_id = pm_context_id prepared; input_message_id = pm_input_message_id prepared in
          catchM (stream_dispatch env stream_method consumer request context_id input_message_id rd)
            (\<lambda>exc. bindM (callG (record_message_ingress_failure input_message_id
                (case exc of Inr _ \<Rightarrow> message_stream_aborted_error | Inl e \<Rightarrow> e))) (\<lambda>_. raiseM exc)))))"

section \<open>What a stream leaves\<close>

definition on_world :: "(world \<Rightarrow> bool) \<Rightarrow> world \<times> 'o list \<Rightarrow> bool" where
  "on_world J = (\<lambda>(w, sent). J w)"

lemma keeps_callG [keeps_intros]: "keeps J m \<Longrightarrow> keeps (on_world J) (callG m)"
  by (auto simp: keeps_iff_wp wp_rules on_world_def)

definition consumer_keeps :: "(world \<Rightarrow> bool) \<Rightarrow> ('i, 'o, 'x) sink \<Rightarrow> bool" where
  "consumer_keeps J consumer \<longleftrightarrow> (\<forall>item. keeps (on_world J) (consumer item))"

lemma keeps_yieldG: "consumer_keeps J consumer \<Longrightarrow> keeps (on_world J) (yieldG consumer item)"
  by (simp add: keeps_iff_wp wp_rules consumer_keeps_def)

lemma stream_deltas_keeps:
  assumes "consumer_keeps J consumer" and "\<And>m. m \<in> set items \<Longrightarrow> keeps J m"
  shows "keeps (on_world J) (stream_deltas consumer f items full n)"
  using assms(2)
proof (induction items arbitrary: full n)
  case (Cons m items)
  have rest: "keeps (on_world J) (stream_deltas consumer f items full n)" for full n
    by (rule Cons.IH) (use Cons.prems in simp)
  have "keeps (on_world J) (case item of None \<Rightarrow> returnM full
     | Some (PStr (ch # delta)) \<Rightarrow> bindM (yieldG consumer (StreamDelta (f (ch # delta) (n + 1)))) (\<lambda>_.
         stream_deltas consumer f items (full @ ch # delta) (n + 1))
     | Some _ \<Rightarrow> stream_deltas consumer f items full n)" for item
    by (auto split: option.split pyval.split list.split intro!: keeps_intros rest keeps_yieldG assms(1))
  then show ?case
    unfolding stream_deltas.simps by (intro keeps_bindM keeps_callG Cons.prems) simp_all
qed (simp add: keeps_intros)

definition stream_keeps :: "(world \<Rightarrow> bool) \<Rightarrow> responder_stream option \<Rightarrow> bool" where
  "stream_keeps J stream_method \<longleftrightarrow> (\<forall>f ms m. stream_method = Some f \<longrightarrow> m \<in> set (f ms) \<longrightarrow> keeps J m)"

context core_store
begin

lemma stream_local_message_keeps:
  assumes "env_keeps (safe I) env" and "stream_keeps (safe I) sm" and "consumer_keeps (safe I) consumer"
  shows "keeps (on_world (safe I)) (stream_local_message env sm consumer c mid rd)"
  using assms(2) unfolding stream_local_message_def stream_keeps_def
  by (cases sm; simp only: option.case; intro keeps_intros keeps_yieldG stream_deltas_keeps top_steps
      handle_local_message_keeps assms(1,3); simp)

end

lemma ended_then_yield:
  assumes "wp m (\<lambda>_. safe (ingress_at mid True)) (\<lambda>_ _. True) w"
    and "consumer_keeps (safe (ingress_at mid True)) consumer"
  shows "wp (bindM (callG m) (\<lambda>r. yieldG consumer (f r))) (\<lambda>_. on_world (safe (ingress_at mid True))) (\<lambda>_ _. True) (w, sent)"
  unfolding wp_bindM wp_callG
proof (rule wp_mono [OF assms(1)])
  fix r w' assume "safe (ingress_at mid True) w'"
  then have "on_world (safe (ingress_at mid True)) (w', sent)" by (simp add: on_world_def)
  with keeps_yieldG [OF assms(2)]
  show "wp (yieldG consumer (f r)) (\<lambda>_. on_world (safe (ingress_at mid True))) (\<lambda>_ _. True) (w', sent)"
    unfolding keeps_iff_wp by (blast intro: wp_mono)
qed simp

lemma safe_and_ended:
  assumes "wp m (\<lambda>_ w'. ingress_at mid True (conn w')) (\<lambda>_ _. True) w" and "keeps (safe (ingress_at mid False)) m"
    and "safe (ingress_at mid False) w"
  shows "wp m (\<lambda>_. safe (ingress_at mid True)) (\<lambda>_ _. True) w"
  by (rule wp_mono [OF wp_conj [OF wp_safe [OF assms(2,3)] assms(1)]]) (auto simp: safe_def)

lemma stream_local_message_ends:
  assumes env: "\<And>b. env_keeps (safe (ingress_at mid b)) env" and sm: "\<And>b. stream_keeps (safe (ingress_at mid b)) sm"
    and consumer: "\<And>b. consumer_keeps (safe (ingress_at mid b)) consumer" and w: "safe (ingress_at mid False) w"
  shows "wp (stream_local_message env sm consumer c mid rd) (\<lambda>_. on_world (safe (ingress_at mid True))) (\<lambda>_ _. True) (w, sent)"
proof (cases sm)
  case None
  then show ?thesis
    unfolding stream_local_message_def None option.case
    by (intro ended_then_yield consumer safe_and_ended handle_local_message_ends
        ingress_row.handle_local_message_keeps env w)
next
  case (Some stream)
  have last: "wp (bindM (callG (append_local_reply c mid decision am ps)) (\<lambda>r. yieldG consumer (f r)))
      (\<lambda>_. on_world (safe (ingress_at mid True))) (\<lambda>_ _. True) s" if "on_world (safe (ingress_at mid False)) s"
    for decision am ps f s
  proof -
    obtain w2 sent2 where s: "s = (w2, sent2)" by (cases s)
    then have "safe (ingress_at mid False) w2" using that by (simp add: on_world_def)
    then show ?thesis
      unfolding s by (intro ended_then_yield consumer safe_and_ended append_local_reply_ends ingress_row.top_steps)
  qed
  have "keeps (on_world (safe (ingress_at mid False))) (callG (record_message_ingress_route c mid rd))"
    "keeps (on_world (safe (ingress_at mid False))) (callG (new_id ''msg''))"
    "keeps (on_world (safe (ingress_at mid False))) (callG (direct_message_context_through_input c mid))"
    "keeps (on_world (safe (ingress_at mid False))) (stream_deltas consumer f (stream messages) full n)" for f messages full n
    using sm [of False, unfolded Some stream_keeps_def]
    by (intro keeps_intros ingress_row.top_steps stream_deltas_keeps consumer; simp)+
  note steps = this [unfolded keeps_iff_wp, rule_format]
  show ?thesis
    unfolding stream_local_message_def Some option.case
    unfolding wp_bindM [of "callG (record_message_ingress_route _ _ _)"] wp_bindM [of "callG (new_id _)"]
      wp_bindM [of "callG (direct_message_context_through_input _ _)"] wp_bindM [of "stream_deltas _ _ _ _ _"]
    by (rule wp_mono [OF steps(1)], simp add: on_world_def w, rule wp_mono [OF steps(2)], assumption,
        rule wp_mono [OF steps(3)], assumption, rule wp_mono [OF steps(4)], assumption, rule last, assumption, simp_all)
qed


lemma stream_dispatch_ends:
  assumes env: "\<And>b. env_keeps (safe (ingress_at mid b)) env" and sm: "\<And>b. stream_keeps (safe (ingress_at mid b)) sm"
    and consumer: "\<And>b. consumer_keeps (safe (ingress_at mid b)) consumer" and w: "safe (ingress_at mid False) w"
  shows "wp (stream_dispatch env sm consumer rq c mid rd) (\<lambda>_. on_world (safe (ingress_at mid True)))
    (\<lambda>_. on_world (safe (ingress_at mid False))) (w, sent)"
proof -
  have "safe (\<lambda>_. True) w" using w by (simp add: safe_def)
  then have "wp (stream_dispatch env sm consumer rq c mid rd) (\<lambda>_. on_world (safe (ingress_at mid True))) (\<lambda>_ _. True) (w, sent)"
    unfolding stream_dispatch_def
    by (cases "rd_kind rd"; simp only: route_decision_kind.case; intro ended_then_yield stream_local_message_ends consumer
        safe_and_ended handle_local_task_ends handle_remote_agent_ends ingress_row.handle_local_task_keeps
        ingress_row.handle_remote_agent_keeps env sm w)
  moreover have "keeps (on_world (safe (ingress_at mid False))) (stream_dispatch env sm consumer rq c mid rd)"
    unfolding stream_dispatch_def
    by (cases "rd_kind rd"; simp only: route_decision_kind.case; intro keeps_intros keeps_yieldG consumer
        ingress_row.stream_local_message_keeps ingress_row.handle_local_task_keeps ingress_row.handle_remote_agent_keeps env sm)
  then have "wp (stream_dispatch env sm consumer rq c mid rd) (\<lambda>_. on_world (safe (ingress_at mid False)))
      (\<lambda>_. on_world (safe (ingress_at mid False))) (w, sent)"
    unfolding keeps_iff_wp using w by (simp add: on_world_def)
  ultimately show ?thesis by (rule wp_mono [OF wp_conj]) auto
qed

lemma record_failure_ends_ingress:
  assumes "safe (ingress_at mid False) w"
  shows "wp (record_message_ingress_failure mid e) (\<lambda>_. safe (ingress_at mid True)) (\<lambda>_ _. False) w"
  unfolding record_message_ingress_failure_def Let_def wp_bindM wp_returnM by (rule fail_ends [OF assms])

text \<open>
  C14. A streamed Message is answered or failed too, also when nobody waits for the end.  For a
  Message id that has no ingress yet, and collaborators and a consumer that neither remove nor
  reopen an ingress: however the stream is over, exhausted, closed by the consumer at any item
  or by an exception, the Message's ingress is stored and has ended, or the request was
  refused before anything was stored or sent.
\<close>

theorem streamed_message_settles:
  assumes "rq_message_id rq = Some mid" and "mid \<noteq> []" and "safe (\<lambda>_. True) w"
    and "fetch i_message_id mid (tb_message_ingress (conn w)) = None"
    and env: "\<And>b. env_keeps (safe (ingress_at mid b)) env" and sm: "\<And>b. stream_keeps (safe (ingress_at mid b)) sm"
    and consumer: "\<And>b. consumer_keeps (safe (ingress_at mid b)) consumer"
  shows "wp (stream_admitted_message env sm consumer rq)
    (\<lambda>_ (w', sent). ingress_at mid True (conn w'))
    (\<lambda>_ (w', sent). ingress_at mid True (conn w') \<or> conn w' = conn w \<and> sent = sent0) (w, sent0)"
proof -
  let ?E = "\<lambda>_ (w', sent). ingress_at mid True (conn w') \<or> conn w' = conn w \<and> sent = sent0"
  have stop: "wp (bindM (callG (record_message_ingress_failure mid e)) (\<lambda>_. raiseM exc))
      (\<lambda>_ (w', sent). ingress_at mid True (conn w')) ?E s" if "on_world (safe (ingress_at mid False)) s" for e exc s
  proof -
    obtain w2 sent where s: "s = (w2, sent)" by (cases s)
    then have "safe (ingress_at mid False) w2" using that by (simp add: on_world_def)
    from record_failure_ends_ingress [OF this] show ?thesis
      unfolding s wp_bindM wp_callG by (rule wp_mono) (auto simp: wp_rules safe_def)
  qed
  have "wp (catchM (stream_dispatch env sm consumer rq c mid rd)
      (\<lambda>exc. bindM (callG (record_message_ingress_failure mid (case exc of Inr _ \<Rightarrow> message_stream_aborted_error | Inl e \<Rightarrow> e)))
        (\<lambda>_. raiseM exc))) (\<lambda>_ (w', sent). ingress_at mid True (conn w')) ?E (w2, sent0)"
    if "safe (ingress_at mid False) w2" for c rd w2
    unfolding wp_catchM
    by (rule wp_mono [OF stream_dispatch_ends [OF env sm consumer that]])
       (use stop in \<open>auto simp: on_world_def safe_def\<close>)
  then show ?thesis
    unfolding stream_admitted_message_def Let_def wp_bindM [of "callG (prepare_message_route _ _)"] wp_callG
    by (intro wp_mono [OF prepare_new_message [OF assms(1-4) env]]) (auto simp: wp_rules)
qed


section \<open>What a stream says\<close>

text \<open>The items for a list of texts, numbered from the one after \<open>n\<close>.\<close>

primrec numbered :: "(string \<Rightarrow> int \<Rightarrow> local_message_delta) \<Rightarrow> int \<Rightarrow> string list \<Rightarrow> main_agent_stream_result list" where
  "numbered f n [] = []"
| "numbered f n (d # ts) = StreamDelta (f d (n + 1)) # numbered f (n + 1) ts"

text \<open>
  A program of the stream that gives one value: whatever it does to the state, it returns this
  value, or it raises.  The texts among the values are the strings that are not empty.
\<close>

definition gives :: "pyval option py \<Rightarrow> pyval \<Rightarrow> bool" where
  "gives m v \<longleftrightarrow> (\<forall>w. wp m (\<lambda>r _. r = Some v) (\<lambda>_ _. True) w)"

fun piece_texts :: "pyval list \<Rightarrow> string list" where
  "piece_texts [] = []"
| "piece_texts (PStr (ch # d) # vs) = (ch # d) # piece_texts vs"
| "piece_texts (v # vs) = piece_texts vs"

lemma piece_texts_Cons:
  "piece_texts (v # vs) = (case v of PStr (ch # d) \<Rightarrow> (ch # d) # piece_texts vs | _ \<Rightarrow> piece_texts vs)"
  by (cases "(v # vs)" rule: piece_texts.cases) (auto split: pyval.split)

lemma stream_deltas_sent:
  assumes "list_all2 gives items vs"
  shows "wp (stream_deltas (client_sink client) f items full n)
     (\<lambda>t (w', sent'). t = full @ concat (piece_texts vs) \<and> sent' = sent @ numbered f n (piece_texts vs))
     (\<lambda>_ (w', sent'). \<exists>j. sent' = sent @ numbered f n (take j (piece_texts vs))) (w, sent)"
  using assms
proof (induction arbitrary: full n w sent rule: list_all2_induct)
  case Nil
  show ?case by (simp add: wp_rules)
next
  case (Cons m items v vs)
  let ?ts = "piece_texts (v # vs)"
  let ?Q = "\<lambda>t (w', sent'). t = full @ concat ?ts \<and> sent' = sent @ numbered f n ?ts"
  let ?E = "\<lambda>_ (w', sent'). \<exists>j. sent' = sent @ numbered f n (take j ?ts)"
  have quiet: "?E e (w', sent)" for w' and e :: "exn + unit"
    by (auto intro: exI [of _ 0])
  have item: "wp (case Some v of None \<Rightarrow> returnM full
     | Some (PStr (ch # delta)) \<Rightarrow> bindM (yieldG (client_sink client) (StreamDelta (f (ch # delta) (n + 1)))) (\<lambda>_.
         stream_deltas (client_sink client) f items (full @ ch # delta) (n + 1))
     | Some _ \<Rightarrow> stream_deltas (client_sink client) f items full n) ?Q ?E (w', sent)" for w'
  proof (cases "\<exists>ch delta. v = PStr (ch # delta)")
    case True
    then obtain ch delta where v: "v = PStr (ch # delta)" by blast
    have rest: "wp (stream_deltas (client_sink client) f items (full @ ch # delta) (n + 1)) ?Q ?E
        (w2, sent @ [StreamDelta (f (ch # delta) (n + 1))])" for w2
      by (rule wp_mono [OF Cons.IH]) (auto simp: v intro: exI [of _ "Suc _"])
    have gone: "?E e (w2, sent @ [StreamDelta (f (ch # delta) (n + 1))])" for e :: "exn + unit" and w2
      by (auto simp: v intro: exI [of _ 1])
    show ?thesis
      using rest gone unfolding v option.case pyval.case list.case wp_bindM wp_yieldG wp_client_sink
      by (simp only: split: prod.split if_split) simp
  next
    case False
    then have "piece_texts (v # vs) = piece_texts vs" by (cases "(v # vs)" rule: piece_texts.cases) auto
    with False Cons.IH show ?thesis by (auto split: pyval.split list.split)
  qed
  from Cons.hyps(1) have gives: "wp m (\<lambda>r _. r = Some v) (\<lambda>_ _. True) w" by (simp add: gives_def)
  show ?case
    unfolding stream_deltas.simps wp_bindM [of "callG _"] wp_callG
    by (rule wp_mono [OF gives]) (simp only: item, rule quiet)
qed


lemma text_part_norm: "json_ok (text_part s)" "json_norm (text_part s) = text_part s"
  by (simp_all add: text_part_def)

text \<open>The Message \<open>m\<close> is stored, as the outcome of the Message \<open>mid\<close>.\<close>

definition stored_answer :: "string \<Rightarrow> message_record \<Rightarrow> tables \<Rightarrow> bool" where
  "stored_answer mid m t \<longleftrightarrow> fetch m_message_id (m_message_id m) (tb_messages t) = Some m \<and>
     (\<exists>i \<in> set (tb_message_ingress t). i_message_id i = mid \<and> i_state i = RESOLVED \<and>
        i_outcome_kind i = Some MESSAGE_OUTCOME \<and> i_outcome_id i = Some (m_message_id m))"

definition answer_says :: "string \<Rightarrow> string \<Rightarrow> string \<Rightarrow> message_record \<Rightarrow> bool" where
  "answer_says c am s m \<longleftrightarrow> m_message_id m = am \<and> m_context_id m = c \<and> m_role m = AGENT \<and>
     py_eq (PList (m_parts m)) (PList [text_part s])"

lemma append_message_text:
  "wp (append_message am c AGENT [text_part s] ko md)
     (\<lambda>m w'. answer_says c am s m \<and> fetch m_message_id am (tb_messages (conn w')) = Some m) (\<lambda>_ _. True) w"
  unfolding append_message_def append_new_message_def op_reads
  by (auto simp: wp_rules dumps_list_def text_part_norm insert_message_row_def bump_message_sequence_def guarded_def table_simps
      answer_says_def Let_def dest: fetch_SomeD split: option.splits sum.splits if_splits)

lemma resolve_ingress_row:
  "wp (resolve_message_ingress mid ok oid)
     (\<lambda>_ w'. tb_messages (conn w') = tb_messages (conn w) \<and> (\<exists>i \<in> set (tb_message_ingress (conn w')). i_message_id i = mid \<and>
        i_state i = RESOLVED \<and> i_outcome_kind i = Some ok \<and> i_outcome_id i = Some oid)) (\<lambda>_ _. True) w"
proof -
  let ?P = "\<lambda>r. i_message_id r = mid \<and> i_state r = IN_PROGRESS" and ?rows = "tb_message_ingress (conn w)"
  have "\<exists>i \<in> set (set_where ?P f ?rows). i_message_id i = mid \<and> i_state i = RESOLVED \<and>
      i_outcome_kind i = Some ok \<and> i_outcome_id i = Some oid"
    if some: "0 < count_where ?P ?rows"
      and f: "\<And>r. i_message_id (f r) = i_message_id r \<and> i_state (f r) = RESOLVED \<and>
        i_outcome_kind (f r) = Some ok \<and> i_outcome_id (f r) = Some oid" for f
  proof -
    obtain r where "r \<in> set ?rows" "?P r" using some by (auto simp: count_where_def filter_empty_conv)
    then have "f r \<in> set (set_where ?P f ?rows)" by (auto simp: set_where_def image_iff intro!: bexI [of _ r])
    then show ?thesis using f [of r] \<open>?P r\<close> by (auto intro!: bexI [of _ "f r"])
  qed
  note row = this
  show ?thesis
    by (auto simp: resolve_message_ingress_def wp_rules get_message_ingress_def update_in_progress_def Let_def
        split: option.splits intro!: row)
qed

lemma append_local_reply_text:
  "wp (append_local_reply c mid decision am [text_part s])
     (\<lambda>m w'. answer_says c am s m \<and> stored_answer mid m (conn w')) (\<lambda>_ _. True) w"
proof -
  have resolve: "wp (resolve_message_ingress mid MESSAGE_OUTCOME (m_message_id m))
      (\<lambda>_ w'. answer_says c am s m \<and> stored_answer mid m (conn w')) (\<lambda>_ _. True) w1"
    if "answer_says c am s m \<and> fetch m_message_id am (tb_messages (conn w1)) = Some m" for m w1
    by (rule wp_mono [OF resolve_ingress_row]) (use that in \<open>auto simp: stored_answer_def answer_says_def\<close>)
  show ?thesis
    unfolding append_local_reply_def wp_transaction wp_bindM wp_returnM_fun wp_returnM tx_commit_simps tx_leave_simps if_cancel
    by (rule wp_mono [OF append_message_text], erule resolve) simp
qed

text \<open>
  C15. The pieces of a streamed answer are the stored answer.  Let the model's stream give some values
  one after the other.  When a streamed direct answer is exhausted, the consumer has received the
  texts among these values, in their order and numbered from one, all under the id of one
  Message, and then the result with that id and the parts of that Message.  The Message is stored,
  by the agent and in the Context, as the recorded outcome of the input, and its parts are one
  text: the pieces put together.  The consumer may do anything between the pieces; when it
  is given the result, it leaves the database alone.  When the stream is closed or fails before
  that, what was received is a numbered beginning of the same pieces.
\<close>

theorem streamed_pieces_are_the_answer:
  assumes "\<And>messages. list_all2 gives (stream messages) vs"
    and "\<And>result u. conn (snd (client (StreamResult result) u)) = conn u"
  shows "wp (stream_local_message env (Some stream) (client_sink client) c mid rd)
     (\<lambda>_ (w', sent). \<exists>am did m. answer_says c am (concat (piece_texts vs)) m \<and> stored_answer mid m (conn w') \<and>
        sent = numbered (LocalMessageDelta c am mid did) 0 (piece_texts vs) @
          [StreamResult (LocalMessageResult c am mid did (m_parts m))])
     (\<lambda>_ (w', sent). \<exists>am did j. sent = numbered (LocalMessageDelta c am mid did) 0 (take j (piece_texts vs)) \<or>
        (\<exists>m. answer_says c am (concat (piece_texts vs)) m \<and> stored_answer mid m (conn w') \<and>
          sent = numbered (LocalMessageDelta c am mid did) 0 (piece_texts vs) @
            [StreamResult (LocalMessageResult c am mid did (m_parts m))]))
     (w, [])" (is "wp _ ?Q ?E _")
proof -
  let ?ts = "piece_texts vs"
  have none: "?E e (w', [])" for e :: "exn + unit" and w'
    by (simp, rule exI, rule exI, rule exI [of _ 0], simp)
  have reply: "wp (bindM (callG (append_local_reply c mid decision am [text_part (concat ?ts)])) (\<lambda>m.
      yieldG (client_sink client) (StreamResult (LocalMessageResult c (m_message_id m) mid (r_decision_id decision) (m_parts m)))))
      ?Q ?E (w', numbered (LocalMessageDelta c am mid (r_decision_id decision)) 0 ?ts)" (is "wp _ _ _ (w', ?sent)") for decision am w'
  proof -
    have result: "wp (yieldG (client_sink client) (StreamResult (LocalMessageResult c (m_message_id m) mid (r_decision_id decision) (m_parts m))))
        ?Q ?E (u, ?sent)" if "answer_says c am (concat ?ts) m \<and> stored_answer mid m (conn u)" for m u
      using that assms(2) [of "LocalMessageResult c am mid (r_decision_id decision) (m_parts m)" u]
      unfolding wp_yieldG wp_client_sink by (fastforce simp: answer_says_def split: prod.split)
    have "?E e (u, ?sent)" for e :: "exn + unit" and u
      unfolding prod.case
      by (rule exI [of _ am], rule exI [of _ "r_decision_id decision"], rule exI [of _ "length ?ts"], rule disjI1) simp
    then show ?thesis
      unfolding wp_bindM wp_callG by (intro wp_mono [OF append_local_reply_text] result)
  qed
  have deltas: "wp (bindM (stream_deltas (client_sink client) (LocalMessageDelta c am mid (r_decision_id decision)) (stream ms) [] 0) (\<lambda>full_text.
      bindM (callG (append_local_reply c mid decision am [text_part full_text])) (\<lambda>m.
      yieldG (client_sink client) (StreamResult (LocalMessageResult c (m_message_id m) mid (r_decision_id decision) (m_parts m))))))
      ?Q ?E (w', [])" for decision am ms w'
    unfolding wp_bindM [of "stream_deltas _ _ _ _ _"]
    by (rule wp_mono [OF stream_deltas_sent [OF assms(1)]]) (use reply in auto)
  show ?thesis
    unfolding stream_local_message_def option.case wp_bindM [of "callG _"] wp_callG
    by (rule wp_mono [OF wp_ignore], rule wp_mono [OF wp_ignore], rule wp_mono [OF wp_ignore], rule deltas; rule none)
qed


definition sample_values :: "pyval list" where
  "sample_values = [PStr ''Hel'', PStr [], PNone, PStr ''lo'']"

definition sample_stream :: responder_stream where
  "sample_stream = (\<lambda>_. map (\<lambda>v. returnM (Some v)) sample_values)"

definition greeting :: main_agent_request where
  "greeting = \<lparr>rq_context_id = None, rq_message_id = Some ''m1'', rq_role = USER,
     rq_parts = [PDict [(''text'', PStr ''hi'')]], rq_metadata = []\<rparr>"

text \<open>A consumer that takes every piece, of the answer to the sample Message once it is admitted.\<close>

definition patient_client :: "'o \<Rightarrow> world \<Rightarrow> bool \<times> world" where
  "patient_client = (\<lambda>_ w. (True, w))"

definition sample_answer_run :: "(exn + unit) + unit" where
  "sample_answer_run =
     (case prepare_message_route sample_env greeting (world_of sample_tables) of
        (Inl e, w) \<Rightarrow> Inl (Inl e)
      | (Inr prepared, w) \<Rightarrow>
          fst (stream_local_message sample_env (Some sample_stream) (client_sink patient_client)
            (pm_context_id prepared) (pm_input_message_id prepared) (the (pm_route_decision prepared)) (w, [])))"

lemma sample_answer_runs: "sample_answer_run = Inr ()"
  by code_simp

theorem streamed_pieces_are_the_answer_witness:
  "\<exists>c mid rd w w' sent am did m.
     stream_local_message sample_env (Some sample_stream) (client_sink patient_client) c mid rd (w, []) = (Inr (), (w', sent)) \<and>
     answer_says c am ''Hello'' m \<and> stored_answer mid m (conn w') \<and>
     sent = numbered (LocalMessageDelta c am mid did) 0 [''Hel'', ''lo''] @
       [StreamResult (LocalMessageResult c am mid did (m_parts m))]"
proof -
  obtain c mid rd w w' sent where run:
      "stream_local_message sample_env (Some sample_stream) (client_sink patient_client) c mid rd (w, []) = (Inr (), (w', sent))"
    using sample_answer_runs
    by (auto simp: sample_answer_run_def fst_def split: prod.splits sum.splits)
  have gives: "list_all2 gives (sample_stream messages) sample_values" for messages
    by (simp add: sample_stream_def list_all2_map1 list_all2_same gives_def wp_rules)
  have same: "conn (snd (patient_client (StreamResult result) u)) = conn u" for result u
    by (simp add: patient_client_def)
  from streamed_pieces_are_the_answer [of sample_stream, OF gives, of patient_client, OF same, where env = sample_env and c = c and mid = mid and rd = rd and w = w] run show ?thesis
    by (fastforce simp: wp_def sample_values_def)
qed

text \<open>A consumer that goes away after the first piece.\<close>

definition closing_client :: "'o \<Rightarrow> world \<Rightarrow> bool \<times> world" where
  "closing_client = (\<lambda>_ w. (False, w))"

theorem streamed_message_settles_witness:
  "wp (stream_admitted_message sample_env (Some sample_stream) (client_sink closing_client)
        \<lparr>rq_context_id = None, rq_message_id = Some ''m1'', rq_role = USER,
         rq_parts = [PDict [(''text'', PStr ''hi'')]], rq_metadata = []\<rparr>)
     (\<lambda>_ (w', sent). ingress_at ''m1'' True (conn w'))
     (\<lambda>_ (w', sent). ingress_at ''m1'' True (conn w') \<or> conn w' = sample_tables \<and> sent = []) (world_of sample_tables, [])"
proof -
  have "env_keeps (safe (ingress_at k b)) sample_env" for k b
    by (simp add: env_keeps_def sample_env_def runner_keeps_def sample_runner_def)
       (intro conjI allI keeps_intros keeps_of_tx ledger_frame; simp)
  moreover have "stream_keeps J (Some sample_stream)" "consumer_keeps J (client_sink closing_client)" for J
    by (auto simp: stream_keeps_def sample_stream_def sample_values_def consumer_keeps_def client_sink_def closing_client_def keeps_def
        on_world_def returnM_def)
  ultimately show ?thesis
    by (intro wp_mono [OF streamed_message_settles]) (auto simp: safe_def sample_defs table_simps)
qed

section \<open>The responder\<close>

text \<open>
  \<open>DirectModelLocalMessageResponder\<close>.  The model client is an argument, and so is its method
  \<open>stream_text\<close>, which not every client has.
\<close>

definition responder_messages :: "string \<Rightarrow> message_record list \<Rightarrow> exn + agent_message list" where
  "responder_messages system_prompt messages =
     bindE (sum_list_of (map to_langchain_message messages)) (\<lambda>ms.
     Inr (GraphSystem (PStr system_prompt) # map graph_message ms))"

definition responder_string_content :: "(pyval \<Rightarrow> string) \<Rightarrow> ai_message \<Rightarrow> string" where
  "responder_string_content repr message = (case ai_content message of PStr s \<Rightarrow> s | v \<Rightarrow> py_str repr v)"

definition direct_respond ::
  "(pyval \<Rightarrow> string) \<Rightarrow> (agent_message list \<Rightarrow> tool list \<Rightarrow> ai_message py) \<Rightarrow> string \<Rightarrow> message_record list \<Rightarrow> pyval list py" where
  "direct_respond repr model system_prompt messages =
     bindM (liftE (responder_messages system_prompt messages)) (\<lambda>ms.
     bindM (model ms []) (\<lambda>message.
     returnM [text_part (responder_string_content repr message)]))"

text \<open>Without \<open>stream_text\<close> the method names a function its module does not have.\<close>

definition direct_stream ::
  "(agent_message list \<Rightarrow> pyval option py list) option \<Rightarrow> string \<Rightarrow> responder_stream" where
  "direct_stream stream_text system_prompt messages =
     (case stream_text of
        None \<Rightarrow> [raiseM (NameError ''name '_text_from_parts' is not defined'')]
      | Some f \<Rightarrow> (case responder_messages system_prompt messages of Inl e \<Rightarrow> [raiseM e] | Inr ms \<Rightarrow> f ms))"

text \<open>
  Streaming needs a model client with \<open>stream_text\<close>.  With any other client a
  streamed direct answer never comes: no piece and no result is sent, and the stream ends with
  an exception, the \<open>NameError\<close> of the responder unless the preparation failed before.
\<close>

theorem streaming_needs_stream_text:
  "wp (stream_local_message env (Some (direct_stream None prompt)) consumer c mid rd)
     (\<lambda>_ _. False) (\<lambda>e (w', sent). (\<exists>x. e = Inl x) \<and> sent = sent0) (w, sent0)"
  unfolding stream_local_message_def option.case wp_bindM [of "callG _"] wp_callG
  by (rule wp_mono [OF wp_ignore], rule wp_mono [OF wp_ignore], rule wp_mono [OF wp_ignore])
     (auto simp: direct_stream_def wp_rules)

end
