(* ===== verification/A2A_Projection.thy ===== *)
theory A2A_Projection
  imports Command_Properties
begin

text \<open>
  The projection of Tasks and their durable events to the payloads of the A2A protocol,
  \<open>main_agent/projection.py\<close> and \<open>a2a_metadata.py\<close>.  A payload is a dictionary in the order
  the code writes it.  Timestamps are numbers in the model and texts in the payloads;
  \<open>isoformat\<close>, the first argument, is the text of one.
\<close>

section \<open>States\<close>

datatype a2a_task_state =
    A2A_SUBMITTED | A2A_WORKING | A2A_INPUT_REQUIRED | A2A_AUTH_REQUIRED | A2A_COMPLETED | A2A_CANCELED | A2A_FAILED

primrec a2a_state_value :: "a2a_task_state \<Rightarrow> string" where
  "a2a_state_value A2A_SUBMITTED = ''submitted''"
| "a2a_state_value A2A_WORKING = ''working''"
| "a2a_state_value A2A_INPUT_REQUIRED = ''input-required''"
| "a2a_state_value A2A_AUTH_REQUIRED = ''auth-required''"
| "a2a_state_value A2A_COMPLETED = ''completed''"
| "a2a_state_value A2A_CANCELED = ''canceled''"
| "a2a_state_value A2A_FAILED = ''failed''"

primrec task_status_to_a2a_state :: "task_status \<Rightarrow> a2a_task_state" where
  "task_status_to_a2a_state CREATED = A2A_SUBMITTED"
| "task_status_to_a2a_state QUEUED = A2A_SUBMITTED"
| "task_status_to_a2a_state RUNNING = A2A_WORKING"
| "task_status_to_a2a_state CANCEL_REQUESTED = A2A_WORKING"
| "task_status_to_a2a_state INPUT_REQUIRED = A2A_INPUT_REQUIRED"
| "task_status_to_a2a_state AUTH_REQUIRED = A2A_AUTH_REQUIRED"
| "task_status_to_a2a_state COMPLETED = A2A_COMPLETED"
| "task_status_to_a2a_state CANCELED = A2A_CANCELED"
| "task_status_to_a2a_state FAILED = A2A_FAILED"

definition A2A_INTERNAL_AUDIT_EVENT_TYPES :: "string list" where
  "A2A_INTERNAL_AUDIT_EVENT_TYPES = [''task_input_submitted'', ''task_resumed'', ''task_retry_requested'', ''task_retried'']"

definition is_a2a_internal_task_event :: "task_event_record \<Rightarrow> bool" where
  "is_a2a_internal_task_event event \<longleftrightarrow>
     e_status event = None \<and> e_type event \<in> set A2A_INTERNAL_AUDIT_EVENT_TYPES"

section \<open>Parts of a payload\<close>

definition thread_metadata :: "string option \<Rightarrow> bool \<Rightarrow> pydict" where
  "thread_metadata thread_id include_runtime_alias =
     (case thread_id of
        None \<Rightarrow> []
      | Some k \<Rightarrow> (''localThreadId'', PStr k) # (if include_runtime_alias then [(''runtimeThreadId'', PStr k)] else []))"

definition add_task_failure_metadata :: "pyval \<Rightarrow> pyval \<Rightarrow> pyval \<Rightarrow> pydict \<Rightarrow> pydict" where
  "add_task_failure_metadata error_code error_message retryable metadata =
     (case error_code of
        PStr (ch # code) \<Rightarrow>
          (let public_message =
             (case error_message of PStr (ch' # m) \<Rightarrow> PStr (ch' # m) | _ \<Rightarrow> PStr ''Agent execution failed.'');
               m = dset ''localErrorMessage'' public_message (dset ''localErrorCode'' (PStr (ch # code)) metadata) in
           (case retryable of PBool b \<Rightarrow> dset ''localErrorRetryable'' (PBool b) m | _ \<Rightarrow> m))
      | _ \<Rightarrow> metadata)"

definition input_request_message :: "(pyval \<Rightarrow> string) \<Rightarrow> string \<Rightarrow> string \<Rightarrow> pydict \<Rightarrow> string \<Rightarrow> pydict" where
  "input_request_message repr task_id context_id input_request message_id =
     (let prompt = dget input_request ''prompt''; message = dget input_request ''message'';
          shown = py_str repr (if truthy prompt then prompt else if truthy message then message
            else PStr ''Additional input is required.'') in
      [(''kind'', PStr ''message''), (''role'', PStr ''agent''), (''messageId'', PStr message_id),
       (''taskId'', PStr task_id), (''contextId'', PStr context_id),
       (''parts'', PList [PDict [(''kind'', PStr ''text''), (''text'', PStr shown)]]),
       (''metadata'', PDict [(''inputRequest'', PDict input_request)])])"

section \<open>Payloads\<close>

record projection_lib =
  pj_isoformat :: "timestamp \<Rightarrow> string"
  pj_repr :: "pyval \<Rightarrow> string"

definition task_to_a2a_payload :: "projection_lib \<Rightarrow> task_record \<Rightarrow> pydict option \<Rightarrow> pydict" where
  "task_to_a2a_payload lib task input_request =
     (let status =
        [(''state'', PStr (a2a_state_value (task_status_to_a2a_state (t_status task)))),
         (''timestamp'', PStr (pj_isoformat lib (t_updated_at task)))] @
        (case input_request of
           None \<Rightarrow> []
         | Some r \<Rightarrow> [(''message'', PDict (input_request_message (pj_repr lib) (t_task_id task) (t_context_id task) r
             (''input-'' @ t_task_id task)))]);
          metadata =
        [(''localContextId'', PStr (t_context_id task)), (''localTaskId'', PStr (t_task_id task))] @
        thread_metadata (Some (t_runtime_thread_id task)) True @
        [(''inputMessageId'', PStr (t_input_message_id task)), (''outputMessageId'', str_opt (t_output_message_id task)),
         (''localStatus'', PStr (task_status_value (t_status task))), (''localAttempt'', PInt (t_attempt task)),
         (''lifecycleRevision'', PInt (t_lifecycle_revision task))] @
        (case input_request of None \<Rightarrow> [] | Some r \<Rightarrow> [(''inputRequest'', PDict r)]) in
      [(''kind'', PStr ''task''), (''id'', PStr (t_task_id task)), (''contextId'', PStr (t_context_id task)),
       (''status'', PDict status),
       (''metadata'', PDict (add_task_failure_metadata (str_opt (t_error_code task)) (str_opt (t_error_message task))
          (PBool (t_error_retryable task)) metadata))])"

definition task_event_to_a2a_status_update :: "projection_lib \<Rightarrow> task_event_record \<Rightarrow> task_record \<Rightarrow> pydict option" where
  "task_event_to_a2a_status_update lib event task =
     (case e_status event of
        None \<Rightarrow> None
      | Some s \<Rightarrow>
          (let payload = e_payload event;
               input_request = (case dget payload ''input_request'' of PDict r \<Rightarrow> Some r | _ \<Rightarrow> None);
               state = task_status_to_a2a_state s;
               status =
             [(''state'', PStr (a2a_state_value state)), (''timestamp'', PStr (pj_isoformat lib (e_created_at event)))] @
             (case input_request of
                None \<Rightarrow> []
              | Some r \<Rightarrow> [(''message'', PDict (input_request_message (pj_repr lib) (t_task_id task) (t_context_id task) r
                  (''input-event-'' @ str_int (e_event_id event))))]);
               metadata =
             [(''localEventId'', PInt (e_event_id event)), (''localEventType'', PStr (e_type event)),
              (''localEventCreatedAt'', PStr (pj_isoformat lib (e_created_at event))),
              (''lifecycleRevision'', PInt (e_lifecycle_revision event))] @
             thread_metadata (Some (t_runtime_thread_id task)) True @
             [(''localStatus'', PStr (task_status_value s))] @
             (case input_request of None \<Rightarrow> [] | Some r \<Rightarrow> [(''inputRequest'', PDict r)]);
               metadata' =
             (if s = FAILED then
                add_task_failure_metadata
                  (let c = dget payload ''error_code'' in if truthy c then c else str_opt (t_error_code task))
                  (let m = dget payload ''error_message'' in if truthy m then m else str_opt (t_error_message task))
                  (case map_of payload ''retryable'' of Some v \<Rightarrow> v | None \<Rightarrow> PBool (t_error_retryable task)) metadata
              else metadata) in
           Some
             [(''kind'', PStr ''status-update''), (''taskId'', PStr (e_task_id event)),
              (''contextId'', PStr (t_context_id task)), (''status'', PDict status),
              (''final'', PBool (state \<in> {A2A_COMPLETED, A2A_CANCELED, A2A_FAILED})),
              (''metadata'', PDict metadata')]))"

definition ARTIFACT_EVENT_TYPES :: "string list" where
  "ARTIFACT_EVENT_TYPES = [''task_artifact_created'', ''task_artifact_updated'']"

definition task_event_to_a2a_artifact_update ::
  "projection_lib \<Rightarrow> task_event_record \<Rightarrow> task_record \<Rightarrow> artifact_record option \<Rightarrow> pydict option" where
  "task_event_to_a2a_artifact_update lib event task artifact =
     (if e_type event \<notin> set ARTIFACT_EVENT_TYPES then None
      else
        (case artifact of
           None \<Rightarrow> None
         | Some a \<Rightarrow>
             (let kind = dget (a_metadata a) ''kind'' in
              Some
                [(''kind'', PStr ''artifact-update''), (''taskId'', PStr (e_task_id event)),
                 (''contextId'', PStr (t_context_id task)),
                 (''artifact'', PDict
                    [(''artifactId'', PStr (py_str (pj_repr lib) (if truthy kind then kind else PStr (a_artifact_id a)))),
                     (''parts'', PList (a_parts a)), (''metadata'', PDict (a_metadata a))]),
                 (''append'', PBool False), (''lastChunk'', PBool True),
                 (''metadata'', PDict
                    ([(''localEventId'', PInt (e_event_id event)), (''localEventType'', PStr (e_type event)),
                      (''localEventCreatedAt'', PStr (pj_isoformat lib (e_created_at event))),
                      (''lifecycleRevision'', PInt (e_lifecycle_revision event)),
                      (''localArtifactId'', PStr (a_artifact_id a))] @
                     thread_metadata (Some (t_runtime_thread_id task)) True))])))"

end
