(* ===== verification/Remote_Client.thy ===== *)
theory Remote_Client
  imports A2A_Projection Router
begin

text \<open>
  The client of child agents, \<open>main_agent/remote_agent.py\<close>: which address a child is called at,
  the JSON-RPC request, and what its response means.  The HTTP exchange and the text syntax of
  JSON are arguments, and so is the check of a bracketed host, which differs between
  Python releases.  \<open>urlsplit\<close> and \<open>urlunsplit\<close> are the standard library's.
\<close>

section \<open>Addresses\<close>

definition scheme_char :: "char \<Rightarrow> bool" where
  "scheme_char c \<longleftrightarrow> (let n = of_char c :: nat in
     65 \<le> n \<and> n \<le> 90 \<or> 97 \<le> n \<and> n \<le> 122 \<or> 48 \<le> n \<and> n \<le> 57 \<or> c = CHR ''+'' \<or> c = CHR ''-'' \<or> c = CHR ''.'')"

definition ascii_letter :: "char \<Rightarrow> bool" where
  "ascii_letter c \<longleftrightarrow> (let n = of_char c :: nat in 65 \<le> n \<and> n \<le> 90 \<or> 97 \<le> n \<and> n \<le> 122)"

text \<open>The text before the first character of a kind, and the rest from that character on.\<close>

definition split_at :: "(char \<Rightarrow> bool) \<Rightarrow> string \<Rightarrow> string \<times> string" where
  "split_at P s = (takeWhile (\<lambda>c. \<not> P c) s, dropWhile (\<lambda>c. \<not> P c) s)"

record split_url =
  su_scheme :: string
  su_netloc :: string
  su_path :: string
  su_query :: string
  su_fragment :: string

definition url_scheme :: "string \<Rightarrow> string \<times> string" where
  "url_scheme url =
     (case split_at (\<lambda>c. c = CHR '':'') url of
        (before, CHR '':'' # after) \<Rightarrow>
          if before \<noteq> [] \<and> ascii_letter (hd before) \<and> list_all scheme_char before then (lower before, after)
          else ([], url)
      | _ \<Rightarrow> ([], url))"

definition urlsplit :: "(string \<Rightarrow> bool) \<Rightarrow> string \<Rightarrow> exn + split_url" where
  "urlsplit bracketed_netloc_ok value =
     (let url = filter (\<lambda>c. of_char c \<notin> {9, 10, 13 :: nat}) (dropWhile (\<lambda>c. of_char c \<le> (32 :: nat)) value) in
      case url_scheme url of (scheme, rest) \<Rightarrow>
      (case (if take 2 rest = ''//'' then split_at (\<lambda>c. c \<in> {CHR ''/'', CHR ''?'', CHR ''#''}) (drop 2 rest) else ([], rest)) of
         (netloc, tail) \<Rightarrow>
           if (CHR ''['' \<in> set netloc) \<noteq> (CHR '']'' \<in> set netloc) then Inl (ValueError ''Invalid IPv6 URL'')
           else if CHR ''['' \<in> set netloc \<and> \<not> bracketed_netloc_ok netloc then Inl (ValueError ''Invalid IPv6 URL'')
           else
             (case split_at (\<lambda>c. c = CHR ''#'') tail of (before_fragment, fragment) \<Rightarrow>
              (case split_at (\<lambda>c. c = CHR ''?'') before_fragment of (path, qs) \<Rightarrow>
               Inr \<lparr>su_scheme = scheme, su_netloc = netloc, su_path = path, su_query = drop 1 qs,
                 su_fragment = drop 1 fragment\<rparr>))))"

text \<open>\<open>urlunsplit((scheme, netloc, path, "", ""))\<close>.\<close>

definition USES_NETLOC :: "string list" where
  "USES_NETLOC =
     [[], ''ftp'', ''http'', ''gopher'', ''nntp'', ''telnet'', ''imap'', ''wais'', ''file'', ''mms'', ''https'', ''shttp'',
      ''snews'', ''prospero'', ''rtsp'', ''rtsps'', ''rtspu'', ''rsync'', ''svn'', ''svn+ssh'', ''sftp'', ''nfs'',
      ''git'', ''git+ssh'', ''ws'', ''wss'', ''itms-services'']"

definition urlunsplit_path :: "string \<Rightarrow> string \<Rightarrow> string \<Rightarrow> string" where
  "urlunsplit_path scheme netloc path =
     (let located =
        (if netloc \<noteq> [] then
           ''//'' @ netloc @ (if path \<noteq> [] \<and> take 1 path \<noteq> ''/'' then ''/'' @ path else path)
         else if take 2 path = ''//'' then ''//'' @ path
         else if scheme \<noteq> [] \<and> scheme \<in> set USES_NETLOC \<and> (path = [] \<or> take 1 path = ''/'') then ''//'' @ path
         else path) in
      if scheme \<noteq> [] then scheme @ '':'' @ located else located)"

definition is_jsonrpc_binding :: "pyval \<Rightarrow> bool" where
  "is_jsonrpc_binding value =
     (case value of
        PStr s \<Rightarrow> lower (strip (filter (\<lambda>c. c \<noteq> CHR ''_'') (filter (\<lambda>c. c \<noteq> CHR ''-'') s))) = ''jsonrpc''
      | _ \<Rightarrow> False)"

definition validated_http_url :: "(string \<Rightarrow> bool) \<Rightarrow> string \<Rightarrow> string \<Rightarrow> exn + string" where
  "validated_http_url ok value label =
     (let normalized = strip value in
      bindE (urlsplit ok normalized) (\<lambda>parsed.
      if su_scheme parsed \<notin> {''http'', ''https''} \<or> su_netloc parsed = []
      then Inl (ValueError (label @ '' must be an absolute HTTP(S) URL''))
      else Inr normalized))"

fun interface_url :: "string \<Rightarrow> pyval list \<Rightarrow> exn + string option" where
  "interface_url binding_key [] = Inr None"
| "interface_url binding_key (interface # interfaces) =
     (case interface of
        PDict d \<Rightarrow>
          if \<not> is_jsonrpc_binding (dget d binding_key) then interface_url binding_key interfaces
          else
            (case dget d ''url'' of
               PStr url \<Rightarrow>
                 if strip url = [] then Inl (ValueError ''agent card JSON-RPC interface must define a non-empty URL'')
                 else Inr (Some (strip url))
             | _ \<Rightarrow> Inl (ValueError ''agent card JSON-RPC interface must define a non-empty URL''))
      | _ \<Rightarrow> interface_url binding_key interfaces)"

definition AGENT_CARD_PATH :: string where
  "AGENT_CARD_PATH = ''/.well-known/agent-card.json''"

definition root_url :: "(string \<Rightarrow> bool) \<Rightarrow> string \<Rightarrow> exn + string" where
  "root_url ok card_url =
     bindE (urlsplit ok card_url) (\<lambda>parsed.
     (let n = length (su_path parsed) - length AGENT_CARD_PATH;
          path = (if length AGENT_CARD_PATH \<le> length (su_path parsed) \<and> drop n (su_path parsed) = AGENT_CARD_PATH
                  then take n (su_path parsed) else su_path parsed) in
      Inr (urlunsplit_path (su_scheme parsed) (su_netloc parsed) path)))"

definition legacy_rpc_url :: "(string \<Rightarrow> bool) \<Rightarrow> string \<Rightarrow> exn + string" where
  "legacy_rpc_url ok card_url =
     bindE (root_url ok card_url) (\<lambda>root.
     validated_http_url ok (rev (dropWhile (\<lambda>c. c = CHR ''/'') (rev root)) @ ''/rpc'') ''registered agent card URL'')"

text \<open>The address one part of the card declares: \<open>Inr None\<close> goes on to the next part.\<close>

definition listed_interface ::
  "(string \<Rightarrow> bool) \<Rightarrow> pyval \<Rightarrow> string \<Rightarrow> exn + string option" where
  "listed_interface ok interfaces binding_key =
     (case interfaces of
        PList xs \<Rightarrow>
          bindE (interface_url binding_key xs) (\<lambda>endpoint.
          case endpoint of
            None \<Rightarrow> Inr None
          | Some u \<Rightarrow> bindE (validated_http_url ok u ''agent card JSON-RPC interface URL'') (\<lambda>v. Inr (Some v)))
      | _ \<Rightarrow> Inr None)"

fun is_py_list :: "pyval \<Rightarrow> bool" where
  "is_py_list (PList _) = True"
| "is_py_list _ = False"

definition rpc_url :: "(string \<Rightarrow> bool) \<Rightarrow> registered_agent_record \<Rightarrow> exn + string" where
  "rpc_url ok agent =
     (let card = g_card_json agent;
          supported_interfaces = dget card ''supportedInterfaces'';
          preferred_transport = dget card ''preferredTransport'';
          additional_interfaces = dget card ''additionalInterfaces'' in
      bindE (listed_interface ok supported_interfaces ''protocolBinding'') (\<lambda>supported.
      case supported of
        Some u \<Rightarrow> Inr u
      | None \<Rightarrow>
          (case (dget card ''url'', preferred_transport = PNone \<or> is_jsonrpc_binding preferred_transport) of
             (PStr card_url, True) \<Rightarrow> validated_http_url ok card_url ''agent card JSON-RPC URL''
           | _ \<Rightarrow>
               bindE (listed_interface ok additional_interfaces ''transport'') (\<lambda>additional.
               case additional of
                 Some u \<Rightarrow> Inr u
               | None \<Rightarrow>
                   if is_py_list supported_interfaces \<or> preferred_transport \<noteq> PNone \<or> is_py_list additional_interfaces
                   then Inl (ValueError (''registered agent does not declare a JSON-RPC interface: '' @ g_agent_id agent))
                   else legacy_rpc_url ok (g_card_url agent)))))"

section \<open>Responses\<close>

definition required_nonempty_string :: "(pyval \<Rightarrow> string) \<Rightarrow> pyval \<Rightarrow> string \<Rightarrow> exn + string" where
  "required_nonempty_string repr value label =
     (case optional_str repr value of
        Some s \<Rightarrow> if strip s = [] then Inl (RemoteAgentProtocolError (label @ '' must be a non-empty string'')) else Inr (strip s)
      | None \<Rightarrow> Inl (RemoteAgentProtocolError (label @ '' must be a non-empty string'')))"

text \<open>The body as a text, \<open>None\<close> when it is not UTF-8.\<close>

definition read_json_object :: "(string \<Rightarrow> exn + pyval) \<Rightarrow> string option \<Rightarrow> string \<Rightarrow> exn + pydict" where
  "read_json_object loads body label =
     (case body of
        None \<Rightarrow> Inl (RemoteAgentProtocolError (label @ '' is not valid JSON''))
      | Some s \<Rightarrow>
          (case loads s of
             Inl e \<Rightarrow> Inl (if is_json_decode_error e then RemoteAgentProtocolError (label @ '' is not valid JSON'') else e)
           | Inr (PDict d) \<Rightarrow> Inr d
           | Inr _ \<Rightarrow> Inl (RemoteAgentProtocolError (label @ '' must be a JSON object''))))"

definition jsonrpc_error_text :: "pydict \<Rightarrow> string" where
  "jsonrpc_error_text error =
     (let message = (case dget error ''message'' of
            PStr s \<Rightarrow> if strip s \<noteq> [] then strip s else ''Remote agent error''
          | _ \<Rightarrow> ''Remote agent error'') in
      message @ (case dget error ''code'' of PInt i \<Rightarrow> '' ('' @ str_int i @ '')'' | _ \<Rightarrow> []))"

definition jsonrpc_result :: "pydict \<Rightarrow> pyval \<Rightarrow> exn + pydict" where
  "jsonrpc_result body expected_id =
     (if dget body ''jsonrpc'' \<noteq> PStr ''2.0'' then
        Inl (RemoteAgentProtocolError ''remote agent response must use JSON-RPC 2.0'')
      else if \<not> py_eq (dget body ''id'') expected_id then
        Inl (RemoteAgentProtocolError ''remote agent response id does not match request id'')
      else
        (case dget body ''error'' of
           PNone \<Rightarrow>
             (case dget body ''result'' of
                PDict result \<Rightarrow> Inr result
              | _ \<Rightarrow> Inl (RemoteAgentProtocolError ''remote agent response missing JSON-RPC result''))
         | PDict error \<Rightarrow> Inl (RemoteAgentProtocolError (jsonrpc_error_text error))
         | _ \<Rightarrow> Inl (RemoteAgentProtocolError ''remote agent JSON-RPC error must be an object'')))"

text \<open>\<open>list(v or [])\<close> of a JSON value.\<close>

definition py_list_or_empty :: "pyval \<Rightarrow> exn + pyval list" where
  "py_list_or_empty v =
     (if \<not> truthy v then Inr []
      else
        (case v of
           PList xs \<Rightarrow> Inr xs
         | PTuple xs \<Rightarrow> Inr xs
         | PStr s \<Rightarrow> Inr (map (\<lambda>c. PStr [c]) s)
         | PDict d \<Rightarrow> Inr (map (PStr \<circ> fst) d)
         | PProxy d \<Rightarrow> Inr (map (PStr \<circ> fst) d)
         | _ \<Rightarrow> Inl (TypeError ''object is not iterable'')))"

definition dict_or_empty :: "pyval \<Rightarrow> pydict" where
  "dict_or_empty v = (case v of PDict d \<Rightarrow> d | _ \<Rightarrow> [])"

definition remote_result_from_payload :: "(pyval \<Rightarrow> string) \<Rightarrow> pydict \<Rightarrow> pydict \<Rightarrow> exn + remote_agent_send_result" where
  "remote_result_from_payload repr result raw =
     (let kind = py_str repr (py_or (dget result ''kind'') (PStr [])) in
      if kind = ''message'' then
        bindE (py_list_or_empty (dget result ''parts'')) (\<lambda>parts.
        Inr \<lparr>sr_kind = ''message'', sr_context_id = optional_str repr (dget result ''contextId''),
          sr_message_id = optional_str repr (dget result ''messageId''), sr_task_id = None, sr_status = None,
          sr_parts = parts, sr_raw = raw\<rparr>)
      else if kind = ''task'' then
        bindE (required_nonempty_string repr (dget result ''id'') ''remote agent task result id'') (\<lambda>task_id.
        Inr \<lparr>sr_kind = ''task'', sr_context_id = optional_str repr (dget result ''contextId''), sr_message_id = None,
          sr_task_id = Some task_id,
          sr_status = optional_str repr (dget (dict_or_empty (dget result ''status'')) ''state''),
          sr_parts = [], sr_raw = raw\<rparr>)
      else Inl (ValueError (''unsupported remote agent result kind: '' @ kind)))"

definition remote_task_snapshot_from_payload ::
  "(pyval \<Rightarrow> string) \<Rightarrow> pydict \<Rightarrow> pydict \<Rightarrow> exn + remote_agent_task_snapshot" where
  "remote_task_snapshot_from_payload repr result raw =
     (let task = (case dget result ''task'' of PDict t \<Rightarrow> t | _ \<Rightarrow> result) in
      bindE (required_nonempty_string repr (dget task ''id'') ''remote agent task snapshot id'') (\<lambda>task_id.
      Inr \<lparr>s_task_id = task_id, s_context_id = optional_str repr (dget task ''contextId''),
        s_status = optional_str repr (dget (dict_or_empty (dget task ''status'')) ''state''),
        s_artifacts = (case dget task ''artifacts'' of PList xs \<Rightarrow> xs | _ \<Rightarrow> []), s_raw = raw\<rparr>))"

section \<open>Requests\<close>

definition forward_metadata :: "pydict \<Rightarrow> string \<Rightarrow> pydict" where
  "forward_metadata metadata context_id =
     [(''delegatedBy'', PStr ''vermay-main-agent''), (''sourceContextId'', PStr context_id)] @
     (case dget metadata ''executionMode'' of PStr (ch # m) \<Rightarrow> [(''executionMode'', PStr (ch # m))] | _ \<Rightarrow> [])"

record a2a_http =
  ah_post :: "string \<Rightarrow> pyval \<Rightarrow> string option py"
  ah_get :: "string \<Rightarrow> string option py"
  ah_loads :: "string \<Rightarrow> exn + pyval"
  ah_bracketed_netloc_ok :: "string \<Rightarrow> bool"
  ah_repr :: "pyval \<Rightarrow> string"

definition jsonrpc_request :: "string \<Rightarrow> string \<Rightarrow> pydict \<Rightarrow> pydict" where
  "jsonrpc_request request_id rpc_method params =
     [(''jsonrpc'', PStr ''2.0''), (''id'', PStr request_id), (''method'', PStr rpc_method), (''params'', PDict params)]"

definition post_jsonrpc :: "a2a_http \<Rightarrow> registered_agent_record \<Rightarrow> pydict \<Rightarrow> (pydict \<times> pydict) py" where
  "post_jsonrpc http agent payload =
     bindM (liftE (rpc_url (ah_bracketed_netloc_ok http) agent)) (\<lambda>url.
     bindM (raise_if (\<not> json_ok (PDict payload)) (TypeError ''Object is not JSON serializable'')) (\<lambda>_.
     bindM (ah_post http url (PDict payload)) (\<lambda>response.
     bindM (liftE (read_json_object (ah_loads http) response ''remote agent response'')) (\<lambda>body.
     bindM (liftE (jsonrpc_result body (dget payload ''id''))) (\<lambda>result.
     returnM (body, result))))))"

definition MESSAGE_SEND_METHOD :: string where "MESSAGE_SEND_METHOD = ''message/send''"

definition TASK_GET_METHOD :: string where "TASK_GET_METHOD = ''tasks/get''"

definition TASK_CANCEL_METHOD :: string where "TASK_CANCEL_METHOD = ''tasks/cancel''"

definition client_send_message ::
  "a2a_http \<Rightarrow> registered_agent_record \<Rightarrow> main_agent_request \<Rightarrow> string \<Rightarrow> string \<Rightarrow> remote_agent_send_result option py" where
  "client_send_message http agent request context_id message_id =
     bindM (post_jsonrpc http agent (jsonrpc_request (''delegate-'' @ message_id) MESSAGE_SEND_METHOD
       [(''message'', PDict
          [(''kind'', PStr ''message''), (''role'', PStr (message_role_value (rq_role request))),
           (''messageId'', PStr message_id), (''contextId'', PStr context_id), (''parts'', PList (rq_parts request))]),
        (''metadata'', PDict (forward_metadata (rq_metadata request) context_id))])) (\<lambda>(body, result).
     bindM (liftE (remote_result_from_payload (ah_repr http) result body)) (\<lambda>r. returnM (Some r)))"

definition client_get_task :: "a2a_http \<Rightarrow> registered_agent_record \<Rightarrow> string \<Rightarrow> remote_agent_task_snapshot py" where
  "client_get_task http agent task_id =
     bindM (post_jsonrpc http agent (jsonrpc_request (''get-remote-task-'' @ task_id) TASK_GET_METHOD
       [(''id'', PStr task_id)])) (\<lambda>(body, result).
     liftE (remote_task_snapshot_from_payload (ah_repr http) result body))"

definition client_cancel_task ::
  "a2a_http \<Rightarrow> registered_agent_record \<Rightarrow> string \<Rightarrow> string option \<Rightarrow> remote_agent_task_snapshot py" where
  "client_cancel_task http agent task_id reason =
     bindM (post_jsonrpc http agent (jsonrpc_request (''cancel-remote-task-'' @ task_id) TASK_CANCEL_METHOD
       ((''id'', PStr task_id) #
        (case reason of Some (ch # r) \<Rightarrow> [(''reason'', PStr (ch # r))] | _ \<Rightarrow> [])))) (\<lambda>(body, result).
     liftE (remote_task_snapshot_from_payload (ah_repr http) result body))"

definition direct_a2a_remote_agent_client :: "a2a_http \<Rightarrow> remote_agent_client" where
  "direct_a2a_remote_agent_client http =
     \<lparr>rc_send_message = client_send_message http, rc_get_task = client_get_task http,
      rc_cancel_task = client_cancel_task http\<rparr>"

definition fetch_agent_card :: "a2a_http \<Rightarrow> string \<Rightarrow> pydict py" where
  "fetch_agent_card http card_url =
     bindM (ah_get http card_url) (\<lambda>response.
     liftE (read_json_object (ah_loads http) response ''agent card response''))"

end
