(* ===== verification/A2A_Adapter.thy ===== *)
theory A2A_Adapter
  imports Streaming Remote_Client Tool_Policy
begin

text \<open>
  The A2A adapter, \<open>api/a2a/adapter.py\<close>, with the agent card (\<open>api/a2a/agent_card.py\<close>), the
  message model (\<open>api/a2a/models.py\<close>) and the waiting for Task events
  (\<open>MainAgentStore.wait_for_task_events\<close>, \<open>task_event_subscription.py\<close>).  The
  validation of a request against the models is Pydantic's; it is an argument that returns the
  list of its errors, each a location and a type, or the model.
\<close>

section \<open>The agent card\<close>

record a2a_agent_skill_config =
  ak_id :: string
  ak_name :: string
  ak_description :: string
  ak_tags :: "string list"
  ak_examples :: "string list"

record a2a_agent_card_config =
  ac_name :: string
  ac_description :: string
  ac_url :: string
  ac_version :: string
  ac_protocol_version :: string
  ac_default_input_modes :: "string list"
  ac_default_output_modes :: "string list"
  ac_streaming :: bool
  ac_push_notifications :: bool
  ac_supports_authenticated_extended_card :: bool
  ac_skills :: "a2a_agent_skill_config list"
  ac_security_schemes :: pydict
  ac_security :: "pyval list"
  ac_metadata :: pydict

definition strs :: "string list \<Rightarrow> pyval" where
  "strs xs = PList (map PStr xs)"

definition skill_payload :: "a2a_agent_skill_config \<Rightarrow> pydict" where
  "skill_payload skill =
     [(''id'', PStr (ak_id skill)), (''name'', PStr (ak_name skill)), (''description'', PStr (ak_description skill))] @
     (if ak_tags skill \<noteq> [] then [(''tags'', strs (ak_tags skill))] else []) @
     (if ak_examples skill \<noteq> [] then [(''examples'', strs (ak_examples skill))] else [])"

definition TASK_RESUME_METHOD :: string where "TASK_RESUME_METHOD = ''tasks/resume''"

definition build_agent_card :: "a2a_agent_card_config \<Rightarrow> pydict" where
  "build_agent_card active =
     [(''name'', PStr (ac_name active)), (''description'', PStr (ac_description active)), (''url'', PStr (ac_url active)),
      (''preferredTransport'', PStr ''JSONRPC''), (''version'', PStr (ac_version active)),
      (''protocolVersion'', PStr (ac_protocol_version active)),
      (''capabilities'', PDict
         [(''streaming'', PBool (ac_streaming active)), (''pushNotifications'', PBool (ac_push_notifications active)),
          (''extensions'', PList [PDict
             [(''uri'', PStr ''urn:vermay:a2a:task-approval-resume:0.1''),
              (''description'', PStr ''Resume a local task waiting for explicit operator approval.''),
              (''required'', PBool False),
              (''params'', PDict [(''method'', PStr TASK_RESUME_METHOD), (''version'', PStr ''0.1'')])]])]),
      (''defaultInputModes'', strs (ac_default_input_modes active)),
      (''defaultOutputModes'', strs (ac_default_output_modes active)),
      (''skills'', PList (map (PDict \<circ> skill_payload) (ac_skills active))),
      (''securitySchemes'', PDict (ac_security_schemes active)), (''security'', PList (ac_security active)),
      (''supportsAuthenticatedExtendedCard'', PBool (ac_supports_authenticated_extended_card active)),
      (''metadata'', PDict (ac_metadata active))]"

text \<open>The summaries of the registered agents; the loop of \<open>_dedupe_strings\<close> skips empty texts.\<close>

definition dedupe_strings :: "string list \<Rightarrow> string list" where
  "dedupe_strings values = dedupe (filter (\<lambda>s. s \<noteq> []) values)"

definition agent_card_skill_tags :: "pydict \<Rightarrow> string list" where
  "agent_card_skill_tags card_json =
     dedupe_strings (concat (map (\<lambda>skill. string_list (dget skill ''tags'')) (card_skills card_json)))"

definition agent_card_skill_ids :: "(pyval \<Rightarrow> string) \<Rightarrow> pydict \<Rightarrow> string list" where
  "agent_card_skill_ids repr card_json =
     dedupe_strings (map (\<lambda>skill. strip (py_str repr (dget skill ''id'')))
       (filter (\<lambda>skill. dget skill ''id'' \<noteq> PNone) (card_skills card_json)))"

definition registered_agent_summary :: "(pyval \<Rightarrow> string) \<Rightarrow> registered_agent_record \<Rightarrow> pydict" where
  "registered_agent_summary repr agent =
     (let keywords = string_list (dget (g_metadata agent) ''keywords'');
          skill_tags = agent_card_skill_tags (g_card_json agent);
          skill_ids = agent_card_skill_ids repr (g_card_json agent) in
      [(''agentId'', PStr (g_agent_id agent)), (''name'', PStr (g_name agent)), (''enabled'', PBool (g_enabled agent))] @
      (if keywords \<noteq> [] then [(''keywords'', strs keywords)] else []) @
      (if skill_tags \<noteq> [] then [(''skillTags'', strs skill_tags)] else []) @
      (if skill_ids \<noteq> [] then [(''skillIds'', strs skill_ids)] else []))"

section \<open>Requests\<close>

record a2a_message =
  am_role :: "string option"
  am_parts :: "pydict list"
  am_message_id :: "string option"
  am_task_id :: "string option"
  am_context_id :: "string option"
  am_metadata :: pydict

type_synonym validation_errors = "(string list \<times> string) list"

record a2a_adapter =
  aa_core :: "core_env option"
  aa_stream :: "responder_stream option"
  aa_card :: a2a_agent_card_config
  aa_lib :: projection_lib
  aa_validate_message :: "pydict \<Rightarrow> validation_errors + a2a_message"
  aa_validate_request :: "pydict \<Rightarrow> validation_errors + pydict"

definition require_main_agent_core :: "a2a_adapter \<Rightarrow> string \<Rightarrow> core_env py" where
  "require_main_agent_core ad operation =
     require_some (aa_core ad) (invalid_request_error (operation @ '' requires MainAgentCore.''))"

definition first_error :: "validation_errors \<Rightarrow> string \<Rightarrow> string \<times> string" where
  "first_error errors whole =
     (case errors of
        [] \<Rightarrow> (whole, ''invalid'')
      | (loc, ty) # _ \<Rightarrow>
          (let location = join_str ''.'' loc in
           (if location = [] then whole else location, if ty = [] then ''invalid'' else ty)))"

definition jsonrpc_validation_message :: "validation_errors \<Rightarrow> string" where
  "jsonrpc_validation_message errors =
     (case first_error errors ''request'' of (location, error_type) \<Rightarrow>
      if location = ''jsonrpc'' then ''JSON-RPC request jsonrpc must be '' @ quoted ''2.0'' @ ''.''
      else if location = ''method'' then ''JSON-RPC method must be '' @ quoted ''message/send'' @ ''.''
      else if location = ''params'' then ''JSON-RPC params must be an object.''
      else ''JSON-RPC '' @ location @ '' is invalid: '' @ error_type)"

definition jsonrpc_params :: "a2a_adapter \<Rightarrow> pydict \<Rightarrow> exn + pydict" where
  "jsonrpc_params ad payload =
     (case aa_validate_request ad payload of
        Inl errors \<Rightarrow> Inl (invalid_request_error (jsonrpc_validation_message errors))
      | Inr params \<Rightarrow> Inr params)"

definition jsonrpc_message :: "a2a_adapter \<Rightarrow> pydict \<Rightarrow> exn + a2a_message" where
  "jsonrpc_message ad params =
     (case dget params ''message'' of
        PDict raw_message \<Rightarrow>
          (case aa_validate_message ad raw_message of
             Inl errors \<Rightarrow>
               (case first_error errors ''message'' of (location, error_type) \<Rightarrow>
                Inl (invalid_request_error (''JSON-RPC params.message.'' @ location @ '' is invalid: '' @ error_type)))
           | Inr message \<Rightarrow> Inr message)
      | _ \<Rightarrow> Inl (invalid_request_error ''JSON-RPC params.message must be an object.''))"

definition validate_jsonrpc_user_message :: "a2a_message \<Rightarrow> exn + unit" where
  "validate_jsonrpc_user_message message =
     (if am_role message \<noteq> None \<and> am_role message \<noteq> Some ''user'' then
        Inl (invalid_request_error (''A2A message role must be '' @ quoted ''user'' @ ''.''))
      else
        (let text_parts = map strip (List.map_filter (\<lambda>part. as_str (dget part ''text'')) (am_parts message)) in
         if list_all (\<lambda>s. s = []) text_parts
         then Inl (invalid_request_error ''A2A message must include at least one text part.'')
         else Inr ()))"

definition merged_metadata :: "pydict \<Rightarrow> a2a_message \<Rightarrow> pydict" where
  "merged_metadata params message =
     (let metadata =
        (case dget params ''metadata'' of PDict request_metadata \<Rightarrow> dupdate (am_metadata message) request_metadata
         | _ \<Rightarrow> am_metadata message) in
      (case dget params ''configuration'' of
         PDict configuration \<Rightarrow>
           (case map_of configuration ''executionMode'' of
              Some mode \<Rightarrow>
                if map_of metadata ''executionMode'' = None then dset ''executionMode'' mode metadata else metadata
            | None \<Rightarrow> metadata)
       | _ \<Rightarrow> metadata))"

definition message_role_of_value :: "string \<Rightarrow> exn + message_role" where
  "message_role_of_value v =
     (case find (\<lambda>r. message_role_value r = v) [USER, AGENT, SYSTEM] of
        Some r \<Rightarrow> Inr r
      | None \<Rightarrow> Inl (ValueError (quoted v @ '' is not a valid MessageRole'')))"

definition a2a_main_agent_request :: "a2a_message \<Rightarrow> pydict \<Rightarrow> exn + main_agent_request" where
  "a2a_main_agent_request message metadata =
     bindE (message_role_of_value (str_or (am_role message) ''user'')) (\<lambda>role.
     Inr \<lparr>rq_context_id = am_context_id message, rq_message_id = am_message_id message, rq_role = role,
       rq_parts = map PDict (am_parts message), rq_metadata = metadata\<rparr>)"

section \<open>Outcomes\<close>

definition message_result_from_outcome :: "main_agent_command_outcome \<Rightarrow> exn + main_agent_result" where
  "message_result_from_outcome outcome =
     (case outcome of MessageCommandOutcome result \<Rightarrow> Inr result
      | _ \<Rightarrow> Inl (RuntimeError ''message command returned an invalid outcome''))"

definition task_from_outcome :: "main_agent_command_outcome \<Rightarrow> exn + task_record" where
  "task_from_outcome outcome =
     (case outcome of TaskCommandOutcome task \<Rightarrow> Inr task
      | _ \<Rightarrow> Inl (RuntimeError ''task command returned an invalid outcome''))"

definition jsonrpc_success :: "pyval \<Rightarrow> pydict \<Rightarrow> pydict" where
  "jsonrpc_success request_id result = [(''jsonrpc'', PStr ''2.0''), (''id'', request_id), (''result'', PDict result)]"

definition main_task_payload :: "projection_lib \<Rightarrow> task_record \<Rightarrow> pydict py" where
  "main_task_payload lib task =
     bindM (get_pending_input_request (t_task_id task)) (\<lambda>input_request.
     returnM (task_to_a2a_payload lib task input_request))"

text \<open>\<open>payload["metadata"].update(entries)\<close>.\<close>

definition add_metadata :: "pydict \<Rightarrow> pydict \<Rightarrow> pydict" where
  "add_metadata entries payload =
     dset ''metadata'' (PDict (dupdate (dict_or_empty (dget payload ''metadata'')) entries)) payload"

definition known_task_payload :: "projection_lib \<Rightarrow> string \<Rightarrow> pydict \<Rightarrow> pydict py" where
  "known_task_payload lib task_id entries =
     bindM (get_task task_id) (\<lambda>x.
     bindM (require_some x (task_not_found_error task_id)) (\<lambda>task.
     bindM (main_task_payload lib task) (\<lambda>payload.
     returnM (add_metadata entries payload))))"

definition agent_message_payload :: "string \<Rightarrow> string \<Rightarrow> pyval list \<Rightarrow> pydict \<Rightarrow> pydict" where
  "agent_message_payload message_id context_id parts metadata =
     [(''kind'', PStr ''message''), (''role'', PStr ''agent''), (''messageId'', PStr message_id),
      (''contextId'', PStr context_id), (''parts'', PList parts), (''metadata'', PDict metadata)]"

fun main_agent_result_payload :: "projection_lib \<Rightarrow> main_agent_result \<Rightarrow> pydict py" where
  "main_agent_result_payload lib (LocalMessageResult context_id message_id input_message_id decision_id parts) =
     returnM (agent_message_payload message_id context_id parts
       [(''localContextId'', PStr context_id), (''localMessageId'', PStr message_id),
        (''inputMessageId'', PStr input_message_id), (''routeDecisionId'', PStr decision_id),
        (''routeKind'', PStr (route_kind_value LOCAL_MESSAGE)), (''partial'', PBool False), (''append'', PBool False),
        (''final'', PBool True)])"
| "main_agent_result_payload lib (LocalTaskResult context_id task_id input_message_id decision_id) =
     known_task_payload lib task_id
       [(''routeDecisionId'', PStr decision_id), (''routeKind'', PStr (route_kind_value LOCAL_TASK))]"
| "main_agent_result_payload lib
     (RemoteAgentResult context_id input_message_id target_agent_id decision_id delegation_id message_id task_id parts) =
     (case message_id of
        Some k \<Rightarrow>
          bindM (get_message k) (\<lambda>m.
          bindM (require_some m (task_not_found_error k)) (\<lambda>message.
          returnM (agent_message_payload (m_message_id message) (m_context_id message) (m_parts message)
            [(''localContextId'', PStr (m_context_id message)), (''localMessageId'', PStr (m_message_id message)),
             (''inputMessageId'', PStr input_message_id), (''routeDecisionId'', PStr decision_id),
             (''routeKind'', PStr (route_kind_value REMOTE_AGENT)), (''remoteAgentId'', PStr target_agent_id),
             (''delegationId'', PStr delegation_id)])))
      | None \<Rightarrow>
          (case task_id of
             Some k \<Rightarrow> known_task_payload lib k
               [(''routeDecisionId'', PStr decision_id), (''routeKind'', PStr (route_kind_value REMOTE_AGENT)),
                (''remoteAgentId'', PStr target_agent_id), (''delegationId'', PStr delegation_id)]
           | None \<Rightarrow> raiseM (invalid_request_error ''remote_agent result did not include a message or task.'')))"

fun local_message_delta_payload :: "local_message_delta \<Rightarrow> pydict" where
  "local_message_delta_payload (LocalMessageDelta context_id message_id input_message_id decision_id said sequence) =
     agent_message_payload message_id context_id [PDict [(''kind'', PStr ''text''), (''text'', PStr said)]]
       [(''localContextId'', PStr context_id), (''localMessageId'', PStr message_id),
        (''inputMessageId'', PStr input_message_id), (''routeDecisionId'', PStr decision_id),
        (''routeKind'', PStr (route_kind_value LOCAL_MESSAGE)), (''partial'', PBool True), (''append'', PBool True),
        (''sequence'', PInt sequence)]"

section \<open>Waiting for Task events\<close>

text \<open>
  \<open>InProcessTaskEventNotifier\<close>: a subscriber sleeps until the version of the Task changes or the
  time is up; other threads run meanwhile.
\<close>

definition notifier_wait_for_change :: "(world \<Rightarrow> world) \<Rightarrow> string \<Rightarrow> nat \<Rightarrow> nat py" where
  "notifier_wait_for_change others task_id observed_version =
     bindM (observe task_id) (\<lambda>current.
     bindM (if current \<le> observed_version then modifyM others else returnM ()) (\<lambda>_.
     observe task_id))"

text \<open>
  The loop of \<open>wait_for_task_events\<close>.  The list has one entry for each time the thread sleeps
  before its deadline: what the other threads do until it wakes up.
\<close>

fun await_task_events :: "(world \<Rightarrow> world) list \<Rightarrow> string \<Rightarrow> int \<Rightarrow> nat \<Rightarrow> task_event_record list py" where
  "await_task_events [] task_id after_event_id version = list_task_events task_id after_event_id"
| "await_task_events (others # sleeps) task_id after_event_id version =
     bindM (list_task_events task_id after_event_id) (\<lambda>events.
     if events \<noteq> [] then returnM events
     else
       bindM (notifier_wait_for_change others task_id version) (\<lambda>version'.
       await_task_events sleeps task_id after_event_id version'))"

definition wait_for_task_events ::
  "(world \<Rightarrow> world) list \<Rightarrow> string \<Rightarrow> int \<Rightarrow> bool \<Rightarrow> task_event_record list py" where
  "wait_for_task_events sleeps task_id after_event_id positive_timeout =
     bindM (get_task task_id) (\<lambda>x.
     bindM (raise_if (x = None) (ValueError (''unknown task: '' @ task_id))) (\<lambda>_.
     bindM (list_task_events task_id after_event_id) (\<lambda>events.
     if events \<noteq> [] \<or> \<not> positive_timeout then returnM events
     else
       bindM (observe task_id) (\<lambda>version.
       await_task_events sleeps task_id after_event_id version))))"

section \<open>Operations\<close>

definition get_agent_card :: "a2a_adapter \<Rightarrow> pydict py" where
  "get_agent_card ad =
     (let card = build_agent_card (aa_card ad) in
      case aa_core ad of
        None \<Rightarrow> returnM card
      | Some core \<Rightarrow>
          bindM (list_registered_agents True) (\<lambda>agents.
          returnM (dset ''metadata'' (PDict (dset ''registeredAgents''
            (PList (map (PDict \<circ> registered_agent_summary (pj_repr (aa_lib ad))) agents))
            (dict_or_empty (dget card ''metadata'')))) card)))"

definition submit_message_input :: "a2a_adapter \<Rightarrow> core_env \<Rightarrow> pyval \<Rightarrow> string \<Rightarrow> main_agent_request \<Rightarrow> pydict py" where
  "submit_message_input ad core request_id task_id request =
     bindM (execute_command core (SubmitTaskInputCommand task_id request)) (\<lambda>outcome.
     bindM (liftE (task_from_outcome outcome)) (\<lambda>task.
     bindM (main_task_payload (aa_lib ad) task) (\<lambda>payload.
     returnM (jsonrpc_success request_id payload))))"

text \<open>What both ways to send a Message do first.\<close>

definition read_message_request :: "a2a_adapter \<Rightarrow> pydict \<Rightarrow> exn + a2a_message \<times> main_agent_request" where
  "read_message_request ad payload =
     bindE (jsonrpc_params ad payload) (\<lambda>params.
     bindE (jsonrpc_message ad params) (\<lambda>message.
     bindE (validate_jsonrpc_user_message message) (\<lambda>_.
     bindE (a2a_main_agent_request message (merged_metadata params message)) (\<lambda>request.
     Inr (message, request)))))"

definition send_message_payload :: "a2a_adapter \<Rightarrow> pydict \<Rightarrow> pydict py" where
  "send_message_payload ad payload =
     bindM (require_main_agent_core ad ''A2A message/send'') (\<lambda>core.
     bindM (liftE (read_message_request ad payload)) (\<lambda>(message, request).
     case am_task_id message of
       Some task_id \<Rightarrow> submit_message_input ad core (dget payload ''id'') task_id request
     | None \<Rightarrow>
         bindM (execute_command core (AdmitMessageCommand request)) (\<lambda>outcome.
         bindM (liftE (message_result_from_outcome outcome)) (\<lambda>result.
         bindM (main_agent_result_payload (aa_lib ad) result) (\<lambda>r.
         returnM (jsonrpc_success (dget payload ''id'') r))))))"

text \<open>
  \<open>stream_message_payload\<close>.  For each item of the core it builds the payload and yields it; an
  exception while it does so closes the core's stream, and so does the consumer.
\<close>

definition stream_item_payload :: "projection_lib \<Rightarrow> main_agent_stream_result \<Rightarrow> pydict py" where
  "stream_item_payload lib item =
     (case item of
        StreamDelta delta \<Rightarrow> returnM (local_message_delta_payload delta)
      | StreamResult result \<Rightarrow> main_agent_result_payload lib result)"

definition forward_item ::
  "a2a_adapter \<Rightarrow> pyval \<Rightarrow> (pydict, 'o, 'x) sink \<Rightarrow> (main_agent_stream_result, 'o, exn + 'x) sink" where
  "forward_item ad request_id consumer item =
     bindM (callG (stream_item_payload (aa_lib ad) item)) (\<lambda>payload.
     yieldG consumer (jsonrpc_success request_id payload))"

text \<open>What comes out of an inner generator: its own exceptions, and those of its consumer.\<close>

definition iterate :: "('o, exn + 'x, 'a) gen \<Rightarrow> ('o, 'x, 'a) gen" where
  "iterate g s = (case g s of (r, s') \<Rightarrow> (case r of Inl (Inl e) \<Rightarrow> Inl (Inl e) | Inl (Inr x) \<Rightarrow> Inl x | Inr a \<Rightarrow> Inr a, s'))"

definition stream_message_payload :: "a2a_adapter \<Rightarrow> pydict \<Rightarrow> (pydict, 'o, 'x) sink \<Rightarrow> ('o, 'x, unit) gen" where
  "stream_message_payload ad payload consumer =
     bindM (callG (require_main_agent_core ad ''A2A message/stream'')) (\<lambda>core.
     bindM (callG (liftE (read_message_request ad payload))) (\<lambda>(message, request).
     case am_task_id message of
       Some task_id \<Rightarrow>
         bindM (callG (submit_message_input ad core (dget payload ''id'') task_id request)) (\<lambda>response.
         yieldG consumer response)
     | None \<Rightarrow>
         iterate (stream_admitted_message core (aa_stream ad) (forward_item ad (dget payload ''id'') consumer) request)))"

definition adapter_get_task :: "a2a_adapter \<Rightarrow> string \<Rightarrow> pydict py" where
  "adapter_get_task ad task_id =
     bindM (require_main_agent_core ad ''A2A tasks/get'') (\<lambda>core.
     bindM (get_refreshed_task core task_id True) (\<lambda>x.
     bindM (require_some x (task_not_found_error task_id)) (\<lambda>task.
     bindM (main_task_payload (aa_lib ad) task) (\<lambda>payload.
     returnM (jsonrpc_success (PStr (''task-get-'' @ task_id)) payload)))))"

definition adapter_cancel_task :: "a2a_adapter \<Rightarrow> string \<Rightarrow> string option \<Rightarrow> pydict py" where
  "adapter_cancel_task ad task_id reason =
     bindM (require_main_agent_core ad ''A2A tasks/cancel'') (\<lambda>core.
     bindM (get_task task_id) (\<lambda>x.
     bindM (require_some x (task_not_found_error task_id)) (\<lambda>task.
     bindM (raise_if (is_terminal_task_status (t_status task))
              (invalid_session_state_error (''task is terminal and cannot be canceled: '' @ task_id))) (\<lambda>_.
     bindM (execute_command core (CancelTaskCommand task_id reason)) (\<lambda>outcome.
     bindM (liftE (task_from_outcome outcome)) (\<lambda>updated.
     returnM (jsonrpc_success (PStr (''cancel-'' @ task_id)) (task_to_a2a_payload (aa_lib ad) updated None))))))))"

definition adapter_resume_task :: "a2a_adapter \<Rightarrow> string \<Rightarrow> bool \<Rightarrow> string option \<Rightarrow> pydict py" where
  "adapter_resume_task ad task_id approved reason =
     bindM (require_main_agent_core ad ''A2A tasks/resume'') (\<lambda>core.
     bindM (get_task task_id) (\<lambda>x.
     bindM (require_some x (task_not_found_error task_id)) (\<lambda>_.
     bindM (execute_command core (ResolveApprovalCommand task_id approved reason)) (\<lambda>outcome.
     bindM (liftE (task_from_outcome outcome)) (\<lambda>updated.
     returnM (jsonrpc_success (PStr (''resume-'' @ task_id)) (task_to_a2a_payload (aa_lib ad) updated None)))))))"

text \<open>\<open>None\<close> for an internal audit event, which has no envelope.\<close>

definition classify_event :: "projection_lib \<Rightarrow> task_event_record \<Rightarrow> task_record \<Rightarrow> artifact_record option \<Rightarrow> exn + pydict option" where
  "classify_event lib event task artifact =
     (case task_event_to_a2a_artifact_update lib event task artifact of
        Some payload \<Rightarrow> Inr (Some payload)
      | None \<Rightarrow>
          (case task_event_to_a2a_status_update lib event task of
             Some payload \<Rightarrow> Inr (Some payload)
           | None \<Rightarrow>
               if is_a2a_internal_task_event event then Inr None
               else Inl (task_event_projection_error (e_task_id event) (e_event_id event) (e_type event))))"

definition project_classified_task_event :: "projection_lib \<Rightarrow> task_record \<Rightarrow> task_event_record \<Rightarrow> pydict option py" where
  "project_classified_task_event lib task event =
     (let artifact_id = dget (e_payload event) ''artifact_id'' in
      bindM (if truthy artifact_id then get_artifact (py_str (pj_repr lib) artifact_id) else returnM None) (\<lambda>artifact.
      liftE (classify_event lib event task artifact)))"

definition project_task_events :: "a2a_adapter \<Rightarrow> string \<Rightarrow> int \<Rightarrow> pydict list py" where
  "project_task_events ad task_id after_event_id =
     bindM (require_main_agent_core ad ''A2A task event projection'') (\<lambda>core.
     bindM (get_refreshed_task core task_id True) (\<lambda>x.
     bindM (require_some x (task_not_found_error task_id)) (\<lambda>task.
     bindM (list_task_events task_id after_event_id) (\<lambda>events.
     bindM (forM events (project_classified_task_event (aa_lib ad) task)) (\<lambda>payloads.
     returnM (List.map_filter id payloads))))))"

record a2a_event_batch =
  eb_last_event_id :: int
  eb_events :: "pydict list"

definition last_main_event_id :: "task_event_record list \<Rightarrow> int \<Rightarrow> int" where
  "last_main_event_id events fallback = (if events = [] then fallback else Max (set (map e_event_id events)))"

definition adapter_wait_for_task_events ::
  "a2a_adapter \<Rightarrow> (world \<Rightarrow> world) list \<Rightarrow> string \<Rightarrow> int \<Rightarrow> bool \<Rightarrow> a2a_event_batch py" where
  "adapter_wait_for_task_events ad sleeps task_id after_event_id positive_timeout =
     bindM (require_main_agent_core ad ''A2A task event subscription'') (\<lambda>core.
     bindM (get_refreshed_task core task_id True) (\<lambda>x.
     bindM (require_some x (task_not_found_error task_id)) (\<lambda>task.
     bindM (wait_for_task_events sleeps task_id after_event_id positive_timeout) (\<lambda>events.
     bindM (forM events (\<lambda>event.
       bindM (project_classified_task_event (aa_lib ad) task event) (\<lambda>payload.
       returnM (map_option (jsonrpc_success (PStr (''event-'' @ str_int (e_event_id event)))) payload)))) (\<lambda>projected.
     returnM \<lparr>eb_last_event_id = last_main_event_id events after_event_id,
       eb_events = List.map_filter id projected\<rparr>)))))"

definition is_main_agent_task :: "a2a_adapter \<Rightarrow> string \<Rightarrow> bool py" where
  "is_main_agent_task ad task_id =
     (case aa_core ad of None \<Rightarrow> returnM False | Some _ \<Rightarrow> bindM (get_task task_id) (\<lambda>x. returnM (x \<noteq> None)))"

end
