(* ===== verification/A2A_Routes.thy ===== *)
theory A2A_Routes
  imports A2A_Adapter
begin

text \<open>
  The JSON-RPC surface, \<open>api/a2a/rpc.py\<close> and \<open>api/a2a/routes.py\<close>: reading a request,
  dispatching it to the adapter, and the two event streams.  FastAPI and the text syntax of JSON
  are outside: a request body is a text with a parser, a stream is the list of events its client
  has received, and \<open>format_a2a_sse_event\<close> is the text of an event.
\<close>

section \<open>Errors\<close>

definition jsonrpc_error_code :: "agent_error_code \<Rightarrow> int" where
  "jsonrpc_error_code code =
     (if code = INVALID_REQUEST then -32602
      else if code \<in> {SESSION_NOT_FOUND, TASK_NOT_FOUND, ARTIFACT_NOT_FOUND} then -32004
      else if code = INVALID_SESSION_STATE then -32009
      else if code = PERMISSION_ERROR then -32003
      else -32000)"

definition jsonrpc_error_data :: "string \<Rightarrow> bool \<Rightarrow> pydict" where
  "jsonrpc_error_data local_code retryable =
     [(''localCode'', PStr local_code), (''retryable'', PBool retryable),
      (''errorInfo'', PDict [(''reason'', PStr local_code), (''domain'', PStr ''vermay''),
         (''metadata'', PDict [(''localCode'', PStr local_code)])])]"

definition error_envelope :: "pyval \<Rightarrow> int \<Rightarrow> string \<Rightarrow> pydict \<Rightarrow> pydict" where
  "error_envelope request_id code message data =
     [(''jsonrpc'', PStr ''2.0''), (''id'', request_id),
      (''error'', PDict [(''code'', PInt code), (''message'', PStr message), (''data'', PDict data)])]"

definition jsonrpc_error_payload :: "pyval \<Rightarrow> exn \<Rightarrow> pydict" where
  "jsonrpc_error_payload request_id exc =
     (let error = error_info_from_exception exc in
      error_envelope request_id (jsonrpc_error_code (ei_code error)) (ei_public_message error)
        (jsonrpc_error_data (error_code_value (ei_code error)) (ei_retryable error)))"

text \<open>A reply is a status with a JSON body, or one of the two streams.\<close>

datatype rpc_reply = JsonReply int pydict | MessageStreamReply | TaskStreamReply

definition jsonrpc_error_response :: "pyval \<Rightarrow> exn \<Rightarrow> rpc_reply" where
  "jsonrpc_error_response request_id exc =
     JsonReply (ei_http_status (error_info_from_exception exc)) (jsonrpc_error_payload request_id exc)"

definition jsonrpc_protocol_error_response :: "pyval \<Rightarrow> int \<Rightarrow> string \<Rightarrow> string \<Rightarrow> rpc_reply" where
  "jsonrpc_protocol_error_response request_id code message local_code =
     JsonReply 400 (error_envelope request_id code message (jsonrpc_error_data local_code False))"

definition jsonrpc_success_payload :: "pyval \<Rightarrow> pydict \<Rightarrow> pydict" where
  "jsonrpc_success_payload request_id payload =
     (if dget payload ''jsonrpc'' = PStr ''2.0'' \<and>
         (map_of payload ''result'' \<noteq> None \<or> map_of payload ''error'' \<noteq> None)
      then dset ''id'' request_id payload
      else jsonrpc_success request_id payload)"

section \<open>Reading a request\<close>

definition INVALID_REQUEST_CODE :: string where "INVALID_REQUEST_CODE = ''invalid_request''"

definition body_blank :: "string \<Rightarrow> bool" where
  "body_blank body \<longleftrightarrow> list_all (\<lambda>c. of_char c \<in> {9, 10, 11, 12, 13, 32 :: nat}) body"

text \<open>\<open>Inl\<close> is a reply, \<open>Inr\<close> the payload; other exceptions of the parser go on.\<close>

definition parse_rpc_request :: "(string \<Rightarrow> exn + pyval) \<Rightarrow> string \<Rightarrow> exn + (rpc_reply + pydict)" where
  "parse_rpc_request loads body =
     (if body_blank body then
        Inr (Inl (jsonrpc_protocol_error_response PNone (-32600) ''JSON-RPC request body is required.'' INVALID_REQUEST_CODE))
      else
        (case loads body of
           Inl e \<Rightarrow>
             if is_json_decode_error e
             then Inr (Inl (jsonrpc_protocol_error_response PNone (-32700) ''JSON parse error.'' ''parse_error''))
             else Inl e
         | Inr v \<Rightarrow>
             (case v of
                PList _ \<Rightarrow> Inr (Inl (jsonrpc_protocol_error_response PNone (-32600)
                  ''JSON-RPC batch requests are not supported yet.'' ''batch_not_supported''))
              | PDict payload \<Rightarrow>
                  (let request_id = dget payload ''id'' in
                   if dget payload ''jsonrpc'' \<noteq> PStr ''2.0'' then
                     Inr (Inl (jsonrpc_protocol_error_response request_id (-32600)
                       (''JSON-RPC request jsonrpc must be '' @ quoted ''2.0'' @ ''.'') INVALID_REQUEST_CODE))
                   else
                     (case dget payload ''method'' of
                        PStr (ch # name) \<Rightarrow> Inr (Inr payload)
                      | _ \<Rightarrow> Inr (Inl (jsonrpc_protocol_error_response request_id (-32600)
                          ''JSON-RPC request method must be a string.'' INVALID_REQUEST_CODE))))
              | _ \<Rightarrow> Inr (Inl (jsonrpc_protocol_error_response PNone (-32600)
                  ''JSON-RPC request must be an object.'' INVALID_REQUEST_CODE)))))"

definition rpc_params :: "pydict \<Rightarrow> exn + pydict" where
  "rpc_params payload =
     (case dget payload ''params'' of
        PNone \<Rightarrow> Inr []
      | PDict params \<Rightarrow> Inr params
      | _ \<Rightarrow> Inl (ValueError ''JSON-RPC params must be an object.''))"

definition rpc_task_id :: "pydict \<Rightarrow> exn + string" where
  "rpc_task_id params =
     (case dget params ''id'' of
        PStr (ch # k) \<Rightarrow> Inr (ch # k)
      | _ \<Rightarrow> Inl (ValueError ''JSON-RPC params.id must be a non-empty string.''))"

text \<open>\<open>True\<close> and \<open>False\<close> are integers.\<close>

definition rpc_after_event_id :: "pydict \<Rightarrow> exn + int" where
  "rpc_after_event_id params =
     (let refuse = Inl (ValueError ''JSON-RPC params.afterEventId must be a non-negative integer.'') in
      case map_of params ''afterEventId'' of
        None \<Rightarrow> Inr 0
      | Some (PInt i) \<Rightarrow> if i < 0 then refuse else Inr i
      | Some (PBool b) \<Rightarrow> Inr (if b then 1 else 0)
      | Some _ \<Rightarrow> refuse)"

section \<open>Dispatch\<close>

definition MESSAGE_STREAM_METHOD :: string where "MESSAGE_STREAM_METHOD = ''message/stream''"

definition TASK_RESUBSCRIBE_METHOD :: string where "TASK_RESUBSCRIBE_METHOD = ''tasks/resubscribe''"

definition reason_param :: "pydict \<Rightarrow> unit + string option" where
  "reason_param params =
     (case dget params ''reason'' of PNone \<Rightarrow> Inr None | PStr r \<Rightarrow> Inr (Some r) | _ \<Rightarrow> Inl ())"

definition task_params :: "pydict \<Rightarrow> exn + pydict \<times> string" where
  "task_params payload =
     bindE (rpc_params payload) (\<lambda>params. bindE (rpc_task_id params) (\<lambda>task_id. Inr (params, task_id)))"

definition success_reply :: "pyval \<Rightarrow> pydict py \<Rightarrow> rpc_reply py" where
  "success_reply request_id m = bindM m (\<lambda>payload. returnM (JsonReply 200 (jsonrpc_success_payload request_id payload)))"

definition dispatch_method :: "a2a_adapter \<Rightarrow> pydict \<Rightarrow> rpc_reply py" where
  "dispatch_method ad payload =
     (let request_id = dget payload ''id''; rpc_method = dget payload ''method'';
          bad_param = (\<lambda>message. returnM (jsonrpc_protocol_error_response request_id (-32602) message INVALID_REQUEST_CODE)) in
      if rpc_method = PStr MESSAGE_SEND_METHOD then
        bindM (send_message_payload ad payload) (\<lambda>response. returnM (JsonReply 200 response))
      else if rpc_method = PStr TASK_GET_METHOD then
        bindM (liftE (task_params payload)) (\<lambda>(params, task_id). success_reply request_id (adapter_get_task ad task_id))
      else if rpc_method = PStr TASK_CANCEL_METHOD then
        bindM (liftE (task_params payload)) (\<lambda>(params, task_id).
        case reason_param params of
          Inl _ \<Rightarrow> bad_param ''JSON-RPC params.reason must be a string.''
        | Inr reason \<Rightarrow> success_reply request_id (adapter_cancel_task ad task_id reason))
      else if rpc_method = PStr TASK_RESUME_METHOD then
        bindM (liftE (task_params payload)) (\<lambda>(params, task_id).
        case dget params ''approved'' of
          PBool approved \<Rightarrow>
            (case reason_param params of
               Inl _ \<Rightarrow> bad_param ''JSON-RPC params.reason must be a string.''
             | Inr reason \<Rightarrow> success_reply request_id (adapter_resume_task ad task_id approved reason))
        | _ \<Rightarrow> bad_param ''JSON-RPC params.approved must be a boolean.'')
      else if rpc_method = PStr MESSAGE_STREAM_METHOD then returnM MessageStreamReply
      else if rpc_method = PStr TASK_RESUBSCRIBE_METHOD then returnM TaskStreamReply
      else returnM (jsonrpc_protocol_error_response request_id (-32601) ''JSON-RPC method not found.'' ''method_not_found''))"

definition dispatch_rpc_request :: "a2a_adapter \<Rightarrow> pydict \<Rightarrow> rpc_reply py" where
  "dispatch_rpc_request ad payload =
     (let request_id = dget payload ''id'' in
      catchM (dispatch_method ad payload)
        (\<lambda>exc. returnM
          (if is_value_error exc
           then jsonrpc_protocol_error_response request_id (-32602) (exn_text exc) INVALID_REQUEST_CODE
           else jsonrpc_error_response request_id exc)))"

section \<open>Reading an event\<close>

fun is_py_int :: "pyval \<Rightarrow> bool" where
  "is_py_int (PInt _) = True"
| "is_py_int (PBool _) = True"
| "is_py_int _ = False"

definition metadata_event_id :: "pyval \<Rightarrow> pyval option" where
  "metadata_event_id body =
     (case body of
        PDict d \<Rightarrow>
          (case dget d ''metadata'' of
             PDict metadata \<Rightarrow>
               if is_py_int (dget metadata ''localEventId'') then Some (dget metadata ''localEventId'') else None
           | _ \<Rightarrow> None)
      | _ \<Rightarrow> None)"

definition sse_event_id :: "pydict \<Rightarrow> pyval option" where
  "sse_event_id event =
     (case (if dget event ''jsonrpc'' = PStr ''2.0'' then metadata_event_id (dget event ''result'') else None) of
        Some v \<Rightarrow> Some v
      | None \<Rightarrow>
          (case metadata_event_id (PDict event) of
             Some v \<Rightarrow> Some v
           | None \<Rightarrow> (case event of [] \<Rightarrow> None | kv # _ \<Rightarrow> metadata_event_id (snd kv))))"

text \<open>An event has at least one entry.\<close>

definition sse_event_type :: "pydict \<Rightarrow> string" where
  "sse_event_type event =
     (let own = (case dget event ''kind'' of PStr k \<Rightarrow> k | _ \<Rightarrow> (case event of [] \<Rightarrow> [] | kv # _ \<Rightarrow> fst kv)) in
      if dget event ''jsonrpc'' = PStr ''2.0'' then
        (case (dget event ''error'', dget event ''result'') of
           (PDict _, _) \<Rightarrow> ''error''
         | (_, PDict result) \<Rightarrow> (case dget result ''kind'' of PStr k \<Rightarrow> k | _ \<Rightarrow> own)
         | _ \<Rightarrow> own)
      else own)"

definition format_a2a_sse_event :: "json_codec \<Rightarrow> pydict \<Rightarrow> string" where
  "format_a2a_sse_event codec event =
     (case sse_event_id event of None \<Rightarrow> [] | Some v \<Rightarrow> ''id: '' @ py_str (js_repr codec) v @ [CHR 10]) @
     ''event: '' @ sse_event_type event @ [CHR 10] @ ''data: '' @ js_dumps codec (PDict event) @ [CHR 10, CHR 10]"

definition task_id_from_message_result :: "pydict \<Rightarrow> string option" where
  "task_id_from_message_result event =
     (let of_task = (\<lambda>d. if dget d ''kind'' = PStr ''task'' then as_str (dget d ''id'') else None) in
      if dget event ''jsonrpc'' = PStr ''2.0'' then
        (case dget event ''result'' of PDict result \<Rightarrow> of_task result | _ \<Rightarrow> None)
      else of_task event)"

text \<open>\<open>_task_state\<close>: a result whose status is no dictionary raises.\<close>

definition event_task_state :: "pydict \<Rightarrow> exn + pyval" where
  "event_task_state task =
     (let plain =
        (if dget task ''kind'' = PStr ''task'' then
           (case dget task ''status'' of PDict status \<Rightarrow> Inr (dget status ''state'') | _ \<Rightarrow> Inr PNone)
         else Inr PNone) in
      if dget task ''jsonrpc'' = PStr ''2.0'' then
        (case dget task ''result'' of
           PDict result \<Rightarrow>
             (case map_of result ''status'' of
                None \<Rightarrow> Inr PNone
              | Some (PDict status) \<Rightarrow> Inr (dget status ''state'')
              | Some _ \<Rightarrow> Inl (AttributeError ''object has no attribute get''))
         | _ \<Rightarrow> plain)
      else plain)"

definition STREAM_END_STATES :: "string list" where
  "STREAM_END_STATES = [''completed'', ''failed'', ''canceled'', ''rejected'', ''input-required'', ''auth-required'']"

definition is_stream_end_state :: "pyval \<Rightarrow> bool" where
  "is_stream_end_state state = (case state of PStr s \<Rightarrow> lower (strip s) \<in> set STREAM_END_STATES | _ \<Rightarrow> False)"

section \<open>Event streams\<close>

text \<open>
  One round of a polling loop.  The other threads run while the subscriber sleeps and between
  its calls.  When the rounds are used up the server closes the stream.
\<close>

record poll_round =
  pr_disconnected :: bool
  pr_sleeps :: "(world \<Rightarrow> world) list"
  pr_before_state :: "world \<Rightarrow> world"
  pr_before_trailing :: "world \<Rightarrow> world"

type_synonym client = "pydict \<Rightarrow> world \<Rightarrow> bool \<times> world"

text \<open>\<open>except Exception\<close>, which does not catch the closing of the stream.\<close>

definition except_own :: "('o, 'x, 'a) gen \<Rightarrow> (exn \<Rightarrow> ('o, 'x, 'a) gen) \<Rightarrow> ('o, 'x, 'a) gen" where
  "except_own g h = catchM g (\<lambda>e. case e of Inl exc \<Rightarrow> h exc | Inr x \<Rightarrow> raiseM (Inr x))"

fun yield_all :: "(pydict, 'o, 'x) sink \<Rightarrow> pydict list \<Rightarrow> ('o, 'x, unit) gen" where
  "yield_all consumer [] = returnM ()"
| "yield_all consumer (event # events) = bindM (yieldG consumer event) (\<lambda>_. yield_all consumer events)"

definition others_run :: "(world \<Rightarrow> world) \<Rightarrow> ('o, 'x, unit) gen" where
  "others_run f = modifyM (map_prod f id)"

text \<open>What a round does after its wait: the state of the Task decides whether it was the last.\<close>

definition stream_ended :: "a2a_adapter \<Rightarrow> string \<Rightarrow> bool py" where
  "stream_ended ad task_id =
     bindM (adapter_get_task ad task_id) (\<lambda>task.
     bindM (liftE (event_task_state task)) (\<lambda>state.
     returnM (is_stream_end_state state)))"

fun poll_task_events ::
  "a2a_adapter \<Rightarrow> pyval \<Rightarrow> string \<Rightarrow> 'x \<Rightarrow> bool \<Rightarrow> (pydict, 'o, 'x) sink \<Rightarrow> poll_round list \<Rightarrow> int \<Rightarrow> ('o, 'x, unit) gen" where
  "poll_task_events ad request_id task_id closing checks consumer [] last_event_id = raiseM (Inr closing)"
| "poll_task_events ad request_id task_id closing checks consumer (turn # rounds) last_event_id =
     (if checks \<and> pr_disconnected turn then returnM ()
      else
        bindM (callG (adapter_wait_for_task_events ad (pr_sleeps turn) task_id last_event_id True)) (\<lambda>batch.
        let last = max last_event_id (eb_last_event_id batch) in
        bindM (yield_all consumer (map (jsonrpc_success_payload request_id) (eb_events batch))) (\<lambda>_.
        bindM (others_run (pr_before_state turn)) (\<lambda>_.
        bindM (callG (stream_ended ad task_id)) (\<lambda>ended.
        if \<not> ended then poll_task_events ad request_id task_id closing checks consumer rounds last
        else
          bindM (others_run (pr_before_trailing turn)) (\<lambda>_.
          bindM (callG (adapter_wait_for_task_events ad [] task_id last False)) (\<lambda>trailing_batch.
          yield_all consumer (map (jsonrpc_success_payload request_id) (eb_events trailing_batch)))))))))"

definition subscription_start :: "a2a_adapter \<Rightarrow> pydict \<Rightarrow> (string \<times> int) py" where
  "subscription_start ad payload =
     bindM (liftE (task_params payload)) (\<lambda>(params, task_id).
     bindM (liftE (rpc_after_event_id params)) (\<lambda>after_event_id.
     bindM (adapter_get_task ad task_id) (\<lambda>_.
     returnM (task_id, after_event_id))))"

definition rpc_subscribe_task_events ::
  "a2a_adapter \<Rightarrow> client \<Rightarrow> poll_round list \<Rightarrow> pydict \<Rightarrow> (pydict, unit, unit) gen" where
  "rpc_subscribe_task_events ad client rounds payload =
     (let request_id = dget payload ''id''; consumer = client_sink client;
          report = (\<lambda>exc. yieldG consumer (jsonrpc_error_payload request_id exc)) in
      bindM (except_own (bindM (callG (subscription_start ad payload)) (\<lambda>x. returnM (Some x)))
               (\<lambda>exc. bindM (report exc) (\<lambda>_. returnM None))) (\<lambda>started.
      case started of
        None \<Rightarrow> returnM ()
      | Some (task_id, after_event_id) \<Rightarrow>
          except_own (poll_task_events ad request_id task_id () True consumer rounds after_event_id) report))"

text \<open>\<open>_stream_message_result_events\<close>: each item of the adapter's stream, followed by the events of its Task.\<close>

definition forward_with_task_events ::
  "a2a_adapter \<Rightarrow> pyval \<Rightarrow> 'x \<Rightarrow> poll_round list \<Rightarrow> (pydict, 'o, 'x) sink \<Rightarrow> (pydict, 'o, exn + 'x) sink" where
  "forward_with_task_events ad request_id closing rounds consumer event =
     bindM (yieldG consumer event) (\<lambda>_.
     case task_id_from_message_result event of
       Some (ch # task_id) \<Rightarrow> poll_task_events ad request_id (ch # task_id) closing False consumer rounds 0
     | _ \<Rightarrow> returnM ())"

definition stream_message_result_events ::
  "a2a_adapter \<Rightarrow> pydict \<Rightarrow> pyval \<Rightarrow> 'x \<Rightarrow> poll_round list \<Rightarrow> (pydict, 'o, 'x) sink \<Rightarrow> ('o, 'x, unit) gen" where
  "stream_message_result_events ad payload request_id closing rounds consumer =
     iterate (stream_message_payload ad payload (forward_with_task_events ad request_id closing rounds consumer))"

fun is_task_event_projection_error :: "exn \<Rightarrow> bool" where
  "is_task_event_projection_error (AgentError code message http public retryable) =
     (code = TASK_EVENT_PROJECTION_ERROR \<and> retryable = None)"
| "is_task_event_projection_error _ = False"

definition shows_end_state :: "pydict \<Rightarrow> bool" where
  "shows_end_state event = (case event_task_state event of Inr state \<Rightarrow> is_stream_end_state state | Inl _ \<Rightarrow> False)"

definition rpc_stream_message_events ::
  "a2a_adapter \<Rightarrow> client \<Rightarrow> poll_round list \<Rightarrow> pydict \<Rightarrow> (pydict, unit, unit) gen" where
  "rpc_stream_message_events ad client rounds payload =
     (let request_id = dget payload ''id''; consumer = client_sink client in
      except_own
        (iterate (stream_message_result_events ad (dset ''method'' (PStr MESSAGE_SEND_METHOD) payload) request_id
          (Inr ()) rounds
          (\<lambda>event. bindM (callG (liftE (event_task_state event))) (\<lambda>_. yieldG consumer event))))
        (\<lambda>exc. bindM (getM snd) (\<lambda>sent.
          if list_ex shows_end_state sent \<and> \<not> is_task_event_projection_error exc then returnM ()
          else yieldG consumer (jsonrpc_error_payload request_id exc))))"

end
