(* ===== verification/Event_Log.thy ===== *)
theory Event_Log
  imports Command_Properties "HOL-Library.Sublist"
begin

text \<open>
  The event log of a Task, as \<open>store.py\<close> appends to it: the locale \<open>core_store\<close>
  interpreted on the condition that the log extends a given list.  No command, worker or
  refresh removes an event, changes one or puts one between two others; the subscriptions
  of \<open>A2A_Properties\<close> rest on it.
\<close>

text \<open>Event ids ascend and are below the counter, and the log of Task \<open>k\<close> extends \<open>L\<close>.\<close>

definition logged :: "string \<Rightarrow> task_event_record list \<Rightarrow> tables \<Rightarrow> bool" where
  "logged k L t \<longleftrightarrow> sorted_wrt (<) (map e_event_id (tb_task_events t)) \<and>
     (\<forall>e \<in> set (tb_task_events t). e_event_id e \<le> tb_event_seq t) \<and> prefix L (events_of k t)"

lemma logged_other_tables [simp]:
  "logged k L (t\<lparr>tb_contexts := a\<rparr>) = logged k L t" "logged k L (t\<lparr>tb_messages := b\<rparr>) = logged k L t"
  "logged k L (t\<lparr>tb_route_decisions := c\<rparr>) = logged k L t" "logged k L (t\<lparr>tb_artifacts := d\<rparr>) = logged k L t"
  "logged k L (t\<lparr>tb_registered_agents := e\<rparr>) = logged k L t"
  "logged k L (t\<lparr>tb_delegated_tasks := f\<rparr>) = logged k L t"
  "logged k L (t\<lparr>tb_pending_continuations := g\<rparr>) = logged k L t"
  "logged k L (t\<lparr>tb_queued_executions := i\<rparr>) = logged k L t"
  "logged k L (t\<lparr>tb_tool_invocations := j\<rparr>) = logged k L t"
  "logged k L (t\<lparr>tb_message_ingress := m\<rparr>) = logged k L t"
  "logged k L (t\<lparr>tb_tasks := ts\<rparr>) = logged k L t" "logged k L (set_task l h t) = logged k L t"
  by (simp_all add: logged_def events_of_def set_task_def)

lemma logged_insert: "stmt_keeps (logged k L) (insert_task_event_row e)"
  by (force simp: stmt_keeps_def insert_task_event_row_def guarded_Inr Let_def logged_def events_of_def
      sorted_wrt_append prefix_def)

lemma logged_recorders: "recorder_store (logged k L)"
  by unfold_locales (intro task_ops_log logged_insert append_message_frame upsert_artifact_frame sweeps_frame; simp)+

interpretation event_log: core_store "logged k L" for k L
  by (intro core_store.intro core_store_axioms.intro logged_recorders;
      (rule keeps_of_tx)?; intro create_context_frame ingress_ops_frame accept_task_log logged_insert queue_ops_frame
        agent_ops_frame remote_ops_frame approval_frame recorder_store.store_keeps [OF logged_recorders] task_ops_log; simp)

lemma register_logged: "tx_keeps (logged k L) (upsert_registered_agent ag nm url cj en md)"
proof -
  have "stmt_keeps (logged k L) (upsert_agent_row g)" for g
    by (auto simp: stmt_keeps_def upsert_agent_row_def guarded_Inr split: if_splits)
  then show ?thesis
    unfolding upsert_registered_agent_def get_registered_agent_def by (intro tx_intros)
qed

lemma reachable_logged:
  "reachable env w0 w \<Longrightarrow> env_keeps (safe (logged k L)) env \<Longrightarrow> safe (logged k L) w0 \<Longrightarrow> safe (logged k L) w"
  by (rule event_log.reachable_keeps [OF _ _ _ register_logged])

lemma db_inv_logged: "safe db_inv w \<Longrightarrow> safe (logged k (events_of k (conn w))) w"
  by (auto simp: safe_def db_inv_def task_inv_def event_log_ok_def logged_def)

lemma sample_env_logged: "env_keeps (safe (logged k L)) sample_env"
  by (simp add: env_keeps_def sample_env_def runner_keeps_def sample_runner_def)
     (intro conjI allI keeps_intros keeps_of_tx ledger_frame; simp)

text \<open>
  C4. The event log of a Task is append-only.  From a state with a sound database,
  whatever commands are executed and whatever workers, refreshes and registrations run,
  the events of the Task are the earlier ones, unchanged and in the same order, followed
  by the new ones, and event ids strictly ascend.
\<close>

theorem event_log_append_only:
  assumes "safe db_inv w0" and "env_keeps (safe (logged k (events_of k (conn w0)))) env" and "reachable env w0 w"
  shows "\<exists>new. events_of k (conn w) = events_of k (conn w0) @ new \<and>
    sorted_wrt (<) (map e_event_id (events_of k (conn w0) @ new))"
proof -
  have "logged k (events_of k (conn w0)) (conn w)"
    using reachable_logged [OF assms(3,2) db_inv_logged [OF assms(1)]] unfolding safe_def by blast
  moreover from this have "sorted_wrt (<) (map e_event_id (events_of k (conn w)))"
    by (auto simp: logged_def events_of_def sorted_wrt_map intro: sorted_wrt_filter)
  ultimately show ?thesis by (auto simp: logged_def prefix_def)
qed

theorem event_log_append_only_witness:
  "\<exists>new. events_of ''task'' (conn (snd (execute_command sample_env (RetryTaskCommand ''task'') (world_of finished_tables)))) =
     events_of ''task'' finished_tables @ new"
proof -
  have "reachable sample_env (world_of finished_tables)
      (snd (execute_command sample_env (RetryTaskCommand ''task'') (world_of finished_tables)))"
    by (rule reachable.step [OF reachable.start core_step.command])
  from event_log_append_only [OF finished_sample(1) sample_env_logged this, of "''task''"] show ?thesis
    by (auto simp del: execute_command.simps)
qed

end
