(* ===== verification/A2A_Properties.thy ===== *)
theory A2A_Properties
  imports A2A_Routes Event_Log "HOL-Library.Sublist"
begin

text \<open>
  What the A2A surface promises its clients: every JSON-RPC request is answered, and a
  subscriber to a Task receives each of its visible events once and in order, however
  the core's work is interleaved with the subscription.  And between two such agents:
  what the parent's client reads of the child's answers, and where it sends its requests.
\<close>

section \<open>Every request is answered\<close>

definition is_answer :: "pyval \<Rightarrow> pydict \<Rightarrow> bool" where
  "is_answer request_id envelope \<longleftrightarrow>
     dget envelope ''jsonrpc'' = PStr ''2.0'' \<and> dget envelope ''id'' = request_id \<and>
     (\<exists>result. dget envelope ''result'' = PDict result) \<noteq> (\<exists>error. dget envelope ''error'' = PDict error)"

lemma answer_success: "is_answer k (jsonrpc_success k r)"
  by (simp add: is_answer_def jsonrpc_success_def dget_def)

lemma answer_error: "is_answer k (error_envelope k c m d)"
  by (simp add: is_answer_def error_envelope_def dget_def)

lemma success_payload_id: "jsonrpc_success_payload k (jsonrpc_success j r) = jsonrpc_success k r"
  by (simp add: jsonrpc_success_payload_def jsonrpc_success_def dget_def)

text \<open>The adapter's answers are envelopes of a result.\<close>

definition envelope :: "pydict \<Rightarrow> bool" where
  "envelope p \<longleftrightarrow> (\<exists>k r. p = jsonrpc_success k r)"

lemma adapter_envelopes:
  "wp (adapter_get_task ad k) (\<lambda>p _. envelope p) (\<lambda>_ _. True) w"
  "wp (adapter_cancel_task ad k rs) (\<lambda>p _. envelope p) (\<lambda>_ _. True) w"
  "wp (adapter_resume_task ad k ap rs) (\<lambda>p _. envelope p) (\<lambda>_ _. True) w"
  "wp (send_message_payload ad payload) (\<lambda>p _. \<exists>r. p = jsonrpc_success (dget payload ''id'') r) (\<lambda>_ _. True) w"
  unfolding adapter_get_task_def adapter_cancel_task_def adapter_resume_task_def send_message_payload_def
    submit_message_input_def envelope_def
  by (intro wp_last; simp add: wp_returnM case_prod_beta wp_case_option split: option.split; (intro conjI allI wp_last)?; auto simp: wp_returnM)+

lemma success_reply_answers:
  assumes "\<And>w. wp m (\<lambda>p _. envelope p) (\<lambda>_ _. True) w"
  shows "wp (success_reply k m) (\<lambda>r _. \<exists>body. r = JsonReply 200 body \<and> is_answer k body) (\<lambda>_ _. True) w"
  unfolding success_reply_def wp_bindM wp_returnM_fun wp_returnM
  by (rule wp_mono [OF assms]) (auto simp: envelope_def wp_returnM success_payload_id answer_success)


text \<open>What a reply to a request may be.\<close>

definition answers :: "pydict \<Rightarrow> rpc_reply \<Rightarrow> bool" where
  "answers payload reply \<longleftrightarrow>
     (case reply of
        JsonReply status body \<Rightarrow>
          is_answer (dget payload ''id'') body \<and> (status = 200 \<or> map_of body ''result'' = None)
      | MessageStreamReply \<Rightarrow> dget payload ''method'' = PStr MESSAGE_STREAM_METHOD
      | TaskStreamReply \<Rightarrow> dget payload ''method'' = PStr TASK_RESUBSCRIBE_METHOD)"

lemma answers_errors:
  "answers payload (jsonrpc_protocol_error_response (dget payload ''id'') c m lc)"
  "answers payload (jsonrpc_error_response (dget payload ''id'') exc)"
  by (simp_all add: answers_def jsonrpc_protocol_error_response_def jsonrpc_error_response_def jsonrpc_error_payload_def
      Let_def answer_error) (simp_all add: error_envelope_def)

lemma success_reply_answers':
  assumes "\<And>w. wp m (\<lambda>p _. envelope p) (\<lambda>_ _. True) w"
  shows "wp (success_reply (dget payload ''id'') m) (\<lambda>r _. answers payload r) (\<lambda>_ _. True) w"
  by (rule wp_mono [OF success_reply_answers [OF assms]]) (auto simp: answers_def)

lemma dispatch_method_answers: "wp (dispatch_method ad payload) (\<lambda>r _. answers payload r) (\<lambda>_ _. True) w"
proof -
  have send: "wp (bindM (send_message_payload ad payload) (\<lambda>response. returnM (JsonReply 200 response)))
      (\<lambda>r _. answers payload r) (\<lambda>_ _. True) w"
    unfolding wp_bindM wp_returnM
    by (rule wp_mono [OF adapter_envelopes(4)]) (auto simp: answers_def answer_success)
  show ?thesis
    unfolding dispatch_method_def Let_def
    using send
    by (auto simp: case_prod_beta wp_returnM answers_errors answers_def [of payload MessageStreamReply]
        answers_def [of payload TaskStreamReply] split: pyval.split sum.split
        intro!: wp_last success_reply_answers' adapter_envelopes(1-3))
qed

text \<open>
  C16. Every JSON-RPC request is answered.  Whatever the payload of a well-formed request is and whatever
  the commands behind it do, the dispatch returns: a stream for the two streaming
  methods, or a JSON-RPC 2.0 envelope that carries the id of the request and either
  a result or an error, not both; a result comes with status 200.
\<close>

theorem rpc_always_answers:
  "\<exists>reply w'. dispatch_rpc_request ad payload w = (Inr reply, w') \<and> answers payload reply"
proof -
  have "wp (dispatch_rpc_request ad payload) (\<lambda>r _. answers payload r) (\<lambda>_ _. False) w"
    unfolding dispatch_rpc_request_def Let_def wp_catchM wp_returnM
    by (rule wp_mono [OF dispatch_method_answers]) (simp_all add: wp_returnM answers_errors)
  then show ?thesis by (auto simp: wp_def split: prod.splits sum.splits)
qed

section \<open>The log a subscriber reads\<close>

abbreviation log_of :: "string \<Rightarrow> world \<Rightarrow> task_event_record list" where
  "log_of k w \<equiv> events_of k (conn w)"

text \<open>The log of Task \<open>k\<close> is in order, and everything the core \<open>env\<close> does keeps it so.\<close>

definition log_ok :: "core_env \<Rightarrow> string \<Rightarrow> world \<Rightarrow> bool" where
  "log_ok env k w \<longleftrightarrow> safe (logged k []) w \<and> (\<forall>L. env_keeps (safe (logged k L)) env)"

text \<open>What runs beside the subscription are steps of the core.\<close>

definition beside :: "core_env \<Rightarrow> (world \<Rightarrow> world) \<Rightarrow> bool" where
  "beside env f \<longleftrightarrow> (\<forall>w. reachable env w (f w))"

lemma reachable_trans: "reachable env w w' \<Longrightarrow> reachable env w0 w \<Longrightarrow> reachable env w0 w'"
  by (induction rule: reachable.induct) (auto intro: reachable.step)

lemma log_ok_reachable:
  assumes "log_ok env k w" and "reachable env w w'"
  shows "log_ok env k w'" and "prefix (log_of k w) (log_of k w')"
  using reachable_logged [OF assms(2), of k "[]"] reachable_logged [OF assms(2), of k "log_of k w"] assms(1)
  by (auto simp: log_ok_def safe_def logged_def)

lemma log_ok_sorted: "log_ok env k w \<Longrightarrow> sorted_wrt (<) (map e_event_id (log_of k w))"
  by (auto simp: log_ok_def safe_def logged_def events_of_def sorted_wrt_map intro: sorted_wrt_filter)

lemma wp_list_task_events:
  assumes "log_ok env k w"
  shows "wp (list_task_events k a) Q E w = Q (filter (\<lambda>e. a < e_event_id e) (log_of k w)) w"
proof -
  have "sorted (map e_event_id (filter (\<lambda>e. a < e_event_id e) (log_of k w)))"
    using log_ok_sorted [OF assms] by (intro sorted_filter) (auto simp: sorted_wrt_map elim: sorted_wrt_mono_rel [rotated])
  from sort_key_id_if_sorted [OF this] show ?thesis
    by (simp add: list_task_events_def wp_rules events_of_def conj_commute)
qed

text \<open>The events a subscriber after \<open>after\<close> is shown.\<close>

definition shown :: "int \<Rightarrow> task_event_record list \<Rightarrow> task_event_record list" where
  "shown after L = filter (\<lambda>e. after < e_event_id e \<and> \<not> is_a2a_internal_task_event e) L"

lemma shown_prefix: "prefix L M \<Longrightarrow> prefix (shown a L) (shown a M)"
  by (auto simp: prefix_def shown_def)

section \<open>Projecting one event\<close>

lemma failure_metadata_keeps: "k \<notin> {''localErrorCode'', ''localErrorMessage'', ''localErrorRetryable''} \<Longrightarrow>
    map_of (add_task_failure_metadata c m r d) k = map_of d k"
  by (auto simp: add_task_failure_metadata_def Let_def split: pyval.split list.split)

lemma artifact_update_id:
  "task_event_to_a2a_artifact_update lib e task a = Some q \<Longrightarrow> metadata_event_id (PDict q) = Some (PInt (e_event_id e))"
  unfolding task_event_to_a2a_artifact_update_def Let_def
  by (cases a) (auto simp: metadata_event_id_def dget_def split: if_splits)

lemma status_update_id:
  "task_event_to_a2a_status_update lib e task = Some q \<Longrightarrow> metadata_event_id (PDict q) = Some (PInt (e_event_id e))"
  unfolding task_event_to_a2a_status_update_def Let_def
  by (cases "e_status e") (auto simp: metadata_event_id_def dget_def failure_metadata_keeps)

lemma envelope_event_id:
  "metadata_event_id (PDict q) = Some i \<Longrightarrow> sse_event_id (jsonrpc_success_payload rid (jsonrpc_success x q)) = Some i"
  by (simp add: jsonrpc_success_payload_def jsonrpc_success_def dget_def sse_event_id_def)

lemma internal_unprojected:
  "is_a2a_internal_task_event e \<Longrightarrow> task_event_to_a2a_artifact_update lib e task a = None"
  "is_a2a_internal_task_event e \<Longrightarrow> task_event_to_a2a_status_update lib e task = None"
  by (auto simp: is_a2a_internal_task_event_def task_event_to_a2a_artifact_update_def
      task_event_to_a2a_status_update_def A2A_INTERNAL_AUDIT_EVENT_TYPES_def ARTIFACT_EVENT_TYPES_def)

lemma classified_event:
  assumes "classify_event lib e task a = Inr p"
  shows "if is_a2a_internal_task_event e then p = None
    else \<exists>q. p = Some q \<and> sse_event_id (jsonrpc_success_payload rid (jsonrpc_success x q)) = Some (PInt (e_event_id e))"
proof -
  have shown: ?thesis if "p = Some q" "metadata_event_id (PDict q) = Some (PInt (e_event_id e))" "\<not> is_a2a_internal_task_event e" for q
    using that envelope_event_id by simp
  show ?thesis
  proof (cases "task_event_to_a2a_artifact_update lib e task a")
    case None
    show ?thesis
    proof (cases "task_event_to_a2a_status_update lib e task")
      case None': None
      then show ?thesis using assms None by (auto simp: classify_event_def split: if_splits)
    next
      case (Some q)
      then have "p = Some q" using assms None by (simp add: classify_event_def)
      then show ?thesis
        by (rule shown [OF _ status_update_id [OF Some]]) (use internal_unprojected(2) [of e lib task] Some in auto)
    qed
  next
    case (Some q)
    then have "p = Some q" using assms by (simp add: classify_event_def)
    then show ?thesis
      by (rule shown [OF _ artifact_update_id [OF Some]]) (use internal_unprojected(1) [of e lib task a] Some in auto)
  qed
qed

text \<open>A batch of events, projected: the visible ones, in order.\<close>

definition event_ids :: "pydict list \<Rightarrow> pyval option list" where
  "event_ids = map sse_event_id"

definition ids_of :: "task_event_record list \<Rightarrow> pyval option list" where
  "ids_of = map (\<lambda>e. Some (PInt (e_event_id e)))"

lemma project_batch:
  "wp (forM es (\<lambda>event. bindM (project_classified_task_event lib task event) (\<lambda>payload.
         returnM (map_option (jsonrpc_success (PStr (''event-'' @ str_int (e_event_id event)))) payload))))
     (\<lambda>ps w'. w' = w \<and> event_ids (map (jsonrpc_success_payload rid) (List.map_filter id ps)) =
        ids_of (filter (\<lambda>e. \<not> is_a2a_internal_task_event e) es)) (\<lambda>_ w'. w' = w) w"
proof (induction es)
  case Nil
  show ?case by (simp add: wp_returnM event_ids_def ids_of_def List.map_filter_def)
next
  case (Cons e es)
  let ?Q = "\<lambda>es ps w'. w' = w \<and> event_ids (map (jsonrpc_success_payload rid) (List.map_filter id ps)) =
        ids_of (filter (\<lambda>e. \<not> is_a2a_internal_task_event e) es)"
  have first: "wp (project_classified_task_event lib task e) (\<lambda>p w'. w' = w \<and> (if is_a2a_internal_task_event e then p = None
    else \<exists>q. p = Some q \<and> sse_event_id (jsonrpc_success_payload rid (jsonrpc_success x q)) = Some (PInt (e_event_id e)))) (\<lambda>_ w'. w' = w) w" for x
    unfolding project_classified_task_event_def get_artifact_def Let_def
    by (auto simp: wp_rules dest!: classified_event [where rid = rid and x = x] split: sum.split)
  show ?case
    unfolding forM.simps wp_bindM wp_returnM_fun
  proof (rule wp_mono [OF first [of "PStr (''event-'' @ str_int (e_event_id e))"]])
    fix p s assume p: "s = w \<and> (if is_a2a_internal_task_event e then p = None
      else \<exists>q. p = Some q \<and> sse_event_id (jsonrpc_success_payload rid (jsonrpc_success (PStr (''event-'' @ str_int (e_event_id e))) q)) = Some (PInt (e_event_id e)))"
    have "wp (forM es (\<lambda>event. bindM (project_classified_task_event lib task event) (\<lambda>payload.
         returnM (map_option (jsonrpc_success (PStr (''event-'' @ str_int (e_event_id event)))) payload)))) (?Q es) (\<lambda>_ w'. w' = w) s"
      using Cons.IH conjunct1 [OF p] by (simp only:)
    then show "wp (forM es (\<lambda>event. bindM (project_classified_task_event lib task event) (\<lambda>payload.
         returnM (map_option (jsonrpc_success (PStr (''event-'' @ str_int (e_event_id event)))) payload))))
         (\<lambda>ps. ?Q (e # es) (map_option (jsonrpc_success (PStr (''event-'' @ str_int (e_event_id e)))) p # ps)) (\<lambda>_ w'. w' = w) s"
      by (rule wp_mono) (use p in \<open>auto simp: event_ids_def ids_of_def List.map_filter_simps split: if_splits\<close>)
  qed simp
qed


section \<open>Waiting\<close>

lemma await_events:
  assumes "\<forall>f \<in> set sleeps. beside env f"
  shows "log_ok env k w \<Longrightarrow> wp (await_task_events sleeps k a v)
    (\<lambda>es w'. reachable env w w' \<and> es = filter (\<lambda>e. a < e_event_id e) (log_of k w')) (\<lambda>_ _. False) w"
  using assms
proof (induction sleeps arbitrary: v w)
  case Nil
  then show ?case by (simp add: wp_list_task_events [OF Nil(1)] reachable.start)
next
  case (Cons f sleeps)
  then have f: "reachable env w (f w)" by (simp add: beside_def)
  have "wp (await_task_events sleeps k a v') (\<lambda>es w'. reachable env w w' \<and> es = filter (\<lambda>e. a < e_event_id e) (log_of k w')) (\<lambda>_ _. False) (f w)" for v'
    by (rule wp_mono [OF Cons.IH [OF log_ok_reachable(1) [OF Cons.prems(1) f]]])
      (use Cons.prems(2) in \<open>auto intro: reachable_trans f\<close>)
  then show ?case
    using reachable.start Cons.IH [OF Cons.prems(1)] Cons.prems(2)
    by (auto simp: wp_list_task_events [OF Cons.prems(1)] notifier_wait_for_change_def observe_def wp_rules)
qed

lemma adapter_wait_batch:
  assumes "log_ok env k w" and "\<forall>f \<in> set sleeps. beside env f" and "aa_core ad = Some env"
  shows "wp (adapter_wait_for_task_events ad sleeps k a b)
    (\<lambda>batch w'. reachable env w w' \<and>
       (let es = filter (\<lambda>e. a < e_event_id e) (log_of k w') in
        eb_last_event_id batch = last_main_event_id es a \<and>
        event_ids (map (jsonrpc_success_payload rid) (eb_events batch)) =
          ids_of (filter (\<lambda>e. \<not> is_a2a_internal_task_event e) es)))
    (\<lambda>_ w'. reachable env w w') w"
proof -
  let ?es = "\<lambda>w'. filter (\<lambda>e. a < e_event_id e) (log_of k w')"
  have wait: "wp (wait_for_task_events sleeps k a b) (\<lambda>es w'. reachable env w1 w' \<and> es = ?es w') (\<lambda>_ w'. reachable env w1 w') w1"
    if "log_ok env k w1" for w1
    unfolding wait_for_task_events_def get_task_def
    using that wp_mono [OF await_events [OF assms(2) that]] reachable.start
    by (auto simp: wp_rules wp_list_task_events [OF that] observe_def)
  have refreshed: "reachable env w (snd (get_refreshed_task env k True w))"
    by (rule reachable.step [OF reachable.start core_step.refresh])
  have read: "wp (get_refreshed_task env k True) (\<lambda>_. reachable env w) (\<lambda>_. reachable env w) w"
    using refreshed by (auto simp: wp_def split: prod.splits sum.splits)
  have rest: "wp (bindM (wait_for_task_events sleeps k a b) (\<lambda>events. bindM (forM events (\<lambda>event.
       bindM (project_classified_task_event (aa_lib ad) task event) (\<lambda>payload.
       returnM (map_option (jsonrpc_success (PStr (''event-'' @ str_int (e_event_id event)))) payload)))) (\<lambda>projected.
     returnM \<lparr>eb_last_event_id = last_main_event_id events a, eb_events = List.map_filter id projected\<rparr>)))
    (\<lambda>batch w'. reachable env w w' \<and> (let es = ?es w' in eb_last_event_id batch = last_main_event_id es a \<and>
        event_ids (map (jsonrpc_success_payload rid) (eb_events batch)) =
          ids_of (filter (\<lambda>e. \<not> is_a2a_internal_task_event e) es)))
    (\<lambda>_ w'. reachable env w w') w1" if w1: "reachable env w w1" for w1 task
    unfolding wp_bindM [of "wait_for_task_events _ _ _ _"] wp_bindM [of "forM _ _"] wp_returnM_fun wp_returnM
    by (rule wp_mono [OF wait [OF log_ok_reachable(1) [OF assms(1) w1]]], rule wp_mono [OF project_batch])
      (auto simp: Let_def intro: reachable_trans w1)
  show ?thesis
    unfolding adapter_wait_for_task_events_def require_main_agent_core_def assms(3) option.case
      wp_bindM [of "returnM _"] wp_returnM wp_bindM [of "get_refreshed_task _ _ _"]
    by (rule wp_mono [OF read]) (use rest in \<open>auto simp: wp_bindM [of "returnM _"] wp_bindM [of "raiseM _"] wp_rules(1,2) split: option.split\<close>)
qed

section \<open>What a subscriber has received\<close>

definition delivered :: "string \<Rightarrow> int \<Rightarrow> int \<Rightarrow> world \<Rightarrow> pyval option list \<Rightarrow> bool" where
  "delivered k after l w ids \<longleftrightarrow> after \<le> l \<and> (l = after \<or> l \<in> e_event_id ` set (log_of k w)) \<and>
     ids = ids_of (filter (\<lambda>e. e_event_id e \<le> l) (shown after (log_of k w)))"

lemma sorted_split:
  "sorted_wrt (<) (map f xs) \<Longrightarrow> xs = filter (\<lambda>x. f x \<le> l) xs @ filter (\<lambda>x. l < f x) xs" for f :: "'a \<Rightarrow> int"
proof (induction xs)
  case (Cons x xs)
  then have "\<not> f x \<le> l \<Longrightarrow> filter (\<lambda>x. f x \<le> l) xs = []" by (fastforce simp: filter_empty_conv)
  with Cons show ?case by (auto simp: not_le)
qed simp

lemma shown_sorted: "log_ok env k w \<Longrightarrow> sorted_wrt (<) (map e_event_id (shown a (log_of k w)))"
  by (auto simp: shown_def sorted_wrt_map dest!: log_ok_sorted intro: sorted_wrt_filter)

lemma delivered_grows:
  assumes "delivered k a l w ids" and "log_ok env k w" and "reachable env w w'"
  shows "delivered k a l w' ids"
proof -
  obtain new where new: "log_of k w' = log_of k w @ new"
    using log_ok_reachable(2) [OF assms(2,3)] by (auto simp: prefix_def)
  have "filter (\<lambda>e. e_event_id e \<le> l) (shown a new) = []"
    using assms(1) log_ok_sorted [OF log_ok_reachable(1) [OF assms(2,3)]] new
    by (fastforce simp: delivered_def shown_def filter_empty_conv sorted_wrt_append)
  then show ?thesis using assms(1) new by (auto simp: delivered_def shown_def)
qed

lemma delivered_prefix:
  assumes "delivered k a l w ids" and "log_ok env k w"
  shows "prefix ids (ids_of (shown a (log_of k w)))"
proof -
  have "prefix (filter (\<lambda>e. e_event_id e \<le> l) (shown a (log_of k w))) (shown a (log_of k w))"
    using sorted_split [OF shown_sorted [OF assms(2)], of a l] by (metis prefixI)
  then show ?thesis using assms(1) by (auto simp: delivered_def ids_of_def intro: map_mono_prefix)
qed

lemma delivered_batch:
  assumes "delivered k a l w ids" and "log_ok env k w"
    and es: "es = filter (\<lambda>e. l < e_event_id e) (log_of k w)"
  shows "delivered k a (max l (last_main_event_id es l)) w (ids @ ids_of (filter (\<lambda>e. \<not> is_a2a_internal_task_event e) es))"
    and "ids @ ids_of (filter (\<lambda>e. \<not> is_a2a_internal_task_event e) es) = ids_of (shown a (log_of k w))"
proof -
  have "filter (\<lambda>e. l < e_event_id e) (shown a (log_of k w)) = filter (\<lambda>e. \<not> is_a2a_internal_task_event e) es"
    using assms(1) by (auto simp: es shown_def delivered_def intro: filter_cong)
  then show all: "ids @ ids_of (filter (\<lambda>e. \<not> is_a2a_internal_task_event e) es) = ids_of (shown a (log_of k w))"
    using sorted_split [OF shown_sorted [OF assms(2)], of a l] assms(1)
    unfolding delivered_def ids_of_def by (metis map_append)
  let ?l = "max l (last_main_event_id es l)"
  have "e_event_id e \<le> ?l" if "e \<in> set (log_of k w)" for e
  proof (cases "l < e_event_id e")
    case True
    with that have "e \<in> set es" by (simp add: es)
    then have "e_event_id e \<le> last_main_event_id es l" by (auto simp: last_main_event_id_def)
    then show ?thesis by simp
  qed simp
  then have "filter (\<lambda>e. e_event_id e \<le> ?l) (shown a (log_of k w)) = shown a (log_of k w)"
    by (subst filter_id_conv) (auto simp: shown_def)
  moreover have "?l = l \<or> ?l \<in> e_event_id ` set (log_of k w)"
  proof (cases "es = []")
    case False
    then have "Max (set (map e_event_id es)) \<in> set (map e_event_id es)" by (intro Max_in) auto
    then show ?thesis using False by (auto simp: last_main_event_id_def es max_def)
  qed (simp add: last_main_event_id_def)
  ultimately show "delivered k a ?l w (ids @ ids_of (filter (\<lambda>e. \<not> is_a2a_internal_task_event e) es))"
    using assms(1) all by (auto simp: delivered_def)
qed

lemma yield_all_sent:
  assumes "\<forall>item. beside env (\<lambda>w. snd (client item w))"
  shows "wp (yield_all (client_sink client) es)
    (\<lambda>_ (w', sent'). reachable env w w' \<and> sent' = sent @ es)
    (\<lambda>_ (w', sent'). reachable env w w' \<and> (\<exists>j. sent' = sent @ take j es)) (w, sent)"
proof (induction es arbitrary: w sent)
  case (Cons e es)
  have kept: "reachable env w (snd (client e w))" using assms unfolding beside_def by blast
  have "wp (yield_all (client_sink client) es) (\<lambda>_ (w', sent'). reachable env w w' \<and> sent' = sent @ e # es)
    (\<lambda>_ (w', sent'). reachable env w w' \<and> (\<exists>j. sent' = sent @ take j (e # es))) (snd (client e w), sent @ [e])"
    by (rule wp_mono [OF Cons.IH]) (auto intro: reachable_trans kept, metis take_Suc_Cons)
  moreover have "\<exists>j. sent @ [e] = sent @ take j (e # es)" by (rule exI [of _ 1]) simp
  ultimately show ?case using kept by (auto simp: wp_rules split: prod.split)
qed (simp add: wp_returnM reachable.start)

text \<open>Everything that runs beside the subscription is steps of the core.\<close>

definition served_beside :: "core_env \<Rightarrow> client \<Rightarrow> poll_round list \<Rightarrow> bool" where
  "served_beside env client rounds \<longleftrightarrow>
     (\<forall>item. beside env (\<lambda>w. snd (client item w))) \<and>
     (\<forall>r \<in> set rounds. beside env (pr_before_state r) \<and> beside env (pr_before_trailing r) \<and>
        (\<forall>f \<in> set (pr_sleeps r). beside env f))"

lemma stream_ended_reaches:
  assumes "aa_core ad = Some env"
  shows "wp (stream_ended ad k) (\<lambda>_. reachable env w) (\<lambda>_. reachable env w) w"
proof -
  have "keeps (reachable env w) (get_refreshed_task env k True)"
    by (auto simp: keeps_def intro: reachable.step core_step.refresh)
  then have "keeps (reachable env w) (stream_ended ad k)"
    unfolding stream_ended_def adapter_get_task_def require_main_agent_core_def assms option.case bindM_returnM main_task_payload_def
      get_pending_input_request_def get_task_def get_pending_continuation_def query_def
    by (intro keeps_intros)
  then show ?thesis using reachable.start by (simp add: keeps_iff_wp)
qed

text \<open>The events received are the first ones of those to be shown.\<close>

definition received :: "core_env \<Rightarrow> world \<Rightarrow> string \<Rightarrow> int \<Rightarrow> world \<times> pydict list \<Rightarrow> bool" where
  "received env w0 k after = (\<lambda>(w, sent). reachable env w0 w \<and> prefix (event_ids sent) (ids_of (shown after (log_of k w))))"

text \<open>They are all of them that the log had when the Task was seen to have ended.\<close>

definition received_all :: "a2a_adapter \<Rightarrow> core_env \<Rightarrow> world \<Rightarrow> string \<Rightarrow> int \<Rightarrow> world \<times> pydict list \<Rightarrow> bool" where
  "received_all ad env w0 k after = (\<lambda>(w, sent). \<exists>w1 w2.
     reachable env w0 w1 \<and> stream_ended ad k w1 = (Inr True, w2) \<and> reachable env w2 w \<and>
     prefix (ids_of (shown after (log_of k w2))) (event_ids sent))"

lemma received_after_yields:
  assumes client: "\<forall>item. beside env (\<lambda>w. snd (client item w))" and "log_ok env k w" and "reachable env w0 w"
    and "event_ids es = new" and "event_ids sent @ new = ids_of (shown a (log_of k w))"
  shows "wp (yield_all (client_sink client) es)
    (\<lambda>_ (w', sent'). reachable env w w' \<and> event_ids sent' = event_ids sent @ new)
    (\<lambda>_ s. received env w0 k a s) (w, sent)"
proof (rule wp_mono [OF yield_all_sent [OF client, of es w sent]], goal_cases)
  case (1 u s)
  then show ?case using assms(4) by (auto simp: event_ids_def)
next
  case (2 e s)
  obtain w' j where s: "s = (w', sent @ take j es)" "reachable env w w'" using 2(2) by auto
  have "prefix (event_ids sent @ take j new) (event_ids sent @ new)" by (auto intro: take_is_prefix same_prefix_prefix)
  also have "prefix (event_ids sent @ new) (ids_of (shown a (log_of k w')))"
    using log_ok_reachable(2) [OF assms(2) s(2)] unfolding assms(5) ids_of_def by (auto intro!: map_mono_prefix shown_prefix)
  finally show ?case using assms(4) s reachable_trans [OF s(2) assms(3)] by (auto simp: received_def event_ids_def take_map)
qed

lemma receives:
  "delivered k a l w (event_ids sent) \<Longrightarrow> log_ok env k w \<Longrightarrow> reachable env w0 w \<Longrightarrow> received env w0 k a (w, sent)"
  using delivered_prefix by (auto simp: received_def)

lemma received_grows:
  assumes "received env w0 k a (w, sent)" and "log_ok env k w" and "reachable env w w'"
  shows "received env w0 k a (w', sent)"
  using assms(1) prefix_order.trans [OF _ map_mono_prefix [OF shown_prefix [OF log_ok_reachable(2) [OF assms(2,3)]]]]
    reachable_trans [OF assms(3)]
  by (auto simp: received_def ids_of_def)

lemma wait_step:
  assumes "aa_core ad = Some env" and sleeps: "\<forall>f \<in> set sleeps. beside env f"
    and w: "log_ok env k w" and ids: "delivered k a l w ids"
  shows "wp (adapter_wait_for_task_events ad sleeps k l b)
    (\<lambda>batch w'. reachable env w w' \<and>
       (\<exists>new. event_ids (map (jsonrpc_success_payload rid) (eb_events batch)) = new \<and>
          delivered k a (max l (eb_last_event_id batch)) w' (ids @ new) \<and> ids @ new = ids_of (shown a (log_of k w'))))
    (\<lambda>_ w'. reachable env w w') w"
proof (rule wp_mono [OF adapter_wait_batch [OF w sleeps assms(1), where rid = rid]], goal_cases)
  case (1 batch w')
  then have w': "reachable env w w'" by simp
  from delivered_batch [OF delivered_grows [OF ids w w'] log_ok_reachable(1) [OF w w'] refl] 1 show ?case by (auto simp: Let_def)
qed simp

lemma wp_others_run: "wp (others_run f) Q E (w, sent) = Q () (f w, sent)"
  by (simp add: others_run_def wp_modifyM)

text \<open>The last wait of a subscription, after the Task was seen to have ended.\<close>

lemma trailing_events_received:
  assumes "aa_core ad = Some env" and client: "\<forall>item. beside env (\<lambda>w. snd (client item w))" and "beside env f"
    and ended: "reachable env w0 w1" "stream_ended ad k w1 = (Inr True, w)" and w: "log_ok env k w" "reachable env w0 w"
    and del: "delivered k a l w (event_ids sent)"
  shows "wp (bindM (others_run f) (\<lambda>_.
      bindM (callG (adapter_wait_for_task_events ad [] k l False)) (\<lambda>trailing_batch.
      yield_all (client_sink client) (map (jsonrpc_success_payload rid) (eb_events trailing_batch)))))
    (\<lambda>_ s. received env w0 k a s \<and> received_all ad env w0 k a s) (\<lambda>_ s. received env w0 k a s) (w, sent)"
proof -
  have f: "reachable env w (f w)" using assms(3) by (simp add: beside_def)
  have none: "\<forall>f \<in> set []. beside env f" by simp
  note ok = log_ok_reachable(1) [OF w(1) f]
  show ?thesis
    unfolding wp_bindM wp_others_run wp_callG
  proof (rule wp_mono [OF wait_step [OF assms(1) none ok delivered_grows [OF del w(1) f], where rid = rid and b = False]], goal_cases)
    case (1 batch w2)
    then obtain new where w2: "reachable env (f w) w2"
      "event_ids (map (jsonrpc_success_payload rid) (eb_events batch)) = new" "event_ids sent @ new = ids_of (shown a (log_of k w2))" by blast
    note from_w = reachable_trans [OF w2(1) f]
    note ok2 = log_ok_reachable [OF w(1) from_w] and from_start = reachable_trans [OF from_w w(2)]
    show ?case
    proof (rule wp_mono [OF received_after_yields [OF client ok2(1) from_start w2(2,3)]], goal_cases)
      case (1 u s)
      then obtain w3 sent3 where s: "s = (w3, sent3)" "reachable env w2 w3" "event_ids sent3 = event_ids sent @ new" by auto
      have "received env w0 k a (w2, sent3)" using s(3) w2(3) from_start by (auto simp: received_def)
      moreover have "prefix (ids_of (shown a (log_of k w))) (event_ids sent @ new)"
        using ok2(2) unfolding w2(3) ids_of_def by (blast intro: map_mono_prefix shown_prefix)
      then have "received_all ad env w0 k a (w3, sent3)"
        using ended reachable_trans [OF s(2) from_w] s(3) by (auto simp: received_all_def)
      ultimately show ?case using received_grows [OF _ ok2(1) s(2)] unfolding s(1) by blast
    qed
  next
    case (2 e w2)
    then show ?case using received_grows [OF receives [OF del w] w(1) reachable_trans [OF _ f]] by blast
  qed
qed

lemma poll_receives:
  assumes core: "aa_core ad = Some env" and "served_beside env client rounds"
  shows "log_ok env k w \<Longrightarrow> reachable env w0 w \<Longrightarrow> delivered k a l w (event_ids sent) \<Longrightarrow>
    wp (poll_task_events ad rid k () checks (client_sink client) rounds l)
      (\<lambda>_ s. received env w0 k a s \<and> (received_all ad env w0 k a s \<or> checks \<and> list_ex pr_disconnected rounds))
      (\<lambda>_ s. received env w0 k a s) (w, sent)"
  using assms(2)
proof (induction rounds arbitrary: w sent l)
  case Nil
  then show ?case using receives [OF Nil(3,1,2)] by (simp add: wp_raiseM)
next
  case (Cons r rounds)
  have ok: "served_beside env client rounds" and before: "beside env (pr_before_state r)" "beside env (pr_before_trailing r)"
    and sleeps: "\<forall>f \<in> set (pr_sleeps r). beside env f" and client: "\<forall>item. beside env (\<lambda>w. snd (client item w))"
    using Cons.prems(4) by (auto simp: served_beside_def)
  let ?E = "\<lambda>_ s. received env w0 k a s"
  let ?Q = "\<lambda>_ s. received env w0 k a s \<and> (received_all ad env w0 k a s \<or> checks \<and> list_ex pr_disconnected (r # rounds))"
  have later: "wp (bindM (others_run (pr_before_state r)) (\<lambda>_. bindM (callG (stream_ended ad k)) (\<lambda>ended.
        if \<not> ended then poll_task_events ad rid k () checks (client_sink client) rounds l2
        else bindM (others_run (pr_before_trailing r)) (\<lambda>_.
          bindM (callG (adapter_wait_for_task_events ad [] k l2 False)) (\<lambda>trailing_batch.
          yield_all (client_sink client) (map (jsonrpc_success_payload rid) (eb_events trailing_batch)))))))
      ?Q ?E (w2, sent2)"
    if w2: "log_ok env k w2" "reachable env w0 w2" and del: "delivered k a l2 w2 (event_ids sent2)" for w2 sent2 l2
  proof -
    have w3: "reachable env w2 (pr_before_state r w2)" using before(1) by (simp add: beside_def)
    show ?thesis
      unfolding wp_bindM [of "others_run (pr_before_state r)"] wp_others_run wp_bindM [of "callG (stream_ended ad k)"] wp_callG
    proof (rule wp_mono [OF stream_ended_reaches [OF core]], goal_cases)
      case (1 b w4)
      note w4 = reachable_trans [OF 1(2) w3]
      note now = log_ok_reachable(1) [OF w2(1) w4] reachable_trans [OF w4 w2(2)] delivered_grows [OF del w2(1) w4]
      show ?case
      proof (cases b)
        case True
        have "wp (bindM (others_run (pr_before_trailing r)) (\<lambda>_.
          bindM (callG (adapter_wait_for_task_events ad [] k l2 False)) (\<lambda>trailing_batch.
          yield_all (client_sink client) (map (jsonrpc_success_payload rid) (eb_events trailing_batch))))) ?Q ?E (w4, sent2)"
          by (rule wp_mono [OF trailing_events_received [OF core client before(2) reachable_trans [OF w3 w2(2)] _ now]])
            (use 1(1) True in auto)
        then show ?thesis by (simp only: True not_True_eq_False if_False)
      next
        case False
        have "wp (poll_task_events ad rid k () checks (client_sink client) rounds l2) ?Q ?E (w4, sent2)"
          by (rule wp_mono [OF Cons.IH [OF now ok]]) auto
        then show ?thesis by (simp only: False not_False_eq_True if_True)
      qed
    next
      case (2 e w4)
      then show ?case using received_grows [OF receives [OF del w2] w2(1) reachable_trans [OF _ w3]] by blast
    qed
  qed
  show ?case
  proof (cases "checks \<and> pr_disconnected r")
    case True
    then show ?thesis using receives [OF Cons.prems(3,1,2)] by (simp add: wp_returnM)
  next
    case False
    show ?thesis
      unfolding poll_task_events.simps if_not_P [OF False] Let_def wp_bindM [of "callG (adapter_wait_for_task_events _ _ _ _ True)"] wp_callG
    proof (rule wp_mono [OF wait_step [OF core sleeps Cons.prems(1,3), where rid = rid and b = True]], goal_cases)
      case (1 batch w1)
      then obtain new where w1: "reachable env w w1" "event_ids (map (jsonrpc_success_payload rid) (eb_events batch)) = new"
        "delivered k a (max l (eb_last_event_id batch)) w1 (event_ids sent @ new)"
        "event_ids sent @ new = ids_of (shown a (log_of k w1))" by blast
      note ok1 = log_ok_reachable(1) [OF Cons.prems(1) w1(1)] and from_start = reachable_trans [OF w1(1) Cons.prems(2)]
      show ?case
        unfolding wp_bindM [of "yield_all _ _"]
      proof (rule wp_mono [OF received_after_yields [OF client ok1 from_start w1(2,4)]], goal_cases)
        case (1 u s)
        then obtain w2 sent2 where s: "s = (w2, sent2)" "reachable env w1 w2" "event_ids sent2 = event_ids sent @ new" by auto
        have "delivered k a (max l (eb_last_event_id batch)) w2 (event_ids sent2)"
          using delivered_grows [OF w1(3) ok1 s(2)] s(3) by simp
        from later [OF log_ok_reachable(1) [OF ok1 s(2)] reachable_trans [OF s(2) from_start] this] show ?case unfolding s(1) .
      qed
    next
      case (2 e w1)
      then show ?case using received_grows [OF receives [OF Cons.prems(3,1,2)] Cons.prems(1)] by simp
    qed
  qed
qed

text \<open>
  C5. A subscriber receives every event of its Task once, in order.  While the core runs
  commands, workers and refreshes between any two steps of the subscription, the events
  sent are at every moment the first ones of the Task's visible events after the given
  id, each once and in the order of the log; when the stream ends by itself, and not because the
  client went away, they are at least all those that the log held when the Task was
  seen to have reached the end of the stream.
\<close>

theorem subscription_exactly_once:
  assumes "aa_core ad = Some env" and "\<forall>L. env_keeps (safe (logged k L)) env" and "served_beside env client rounds"
    and "safe db_inv w" and "poll_task_events ad rid k () checks (client_sink client) rounds after (w, []) = (result, w', sent)"
  shows "prefix (event_ids sent) (ids_of (shown after (events_of k (conn w')))) \<and>
    (result = Inr () \<longrightarrow> checks \<and> (\<exists>r \<in> set rounds. pr_disconnected r) \<or>
      (\<exists>w1 w2. reachable env w w1 \<and> stream_ended ad k w1 = (Inr True, w2) \<and> reachable env w2 w' \<and>
         prefix (ids_of (shown after (events_of k (conn w2)))) (event_ids sent)))"
proof -
  have "logged k (log_of k w) t \<Longrightarrow> logged k [] t" for t by (simp add: logged_def)
  then have "log_ok env k w"
    using db_inv_logged [OF assms(4), of k] assms(2) unfolding log_ok_def safe_def by blast
  moreover have "delivered k after after w (event_ids [])"
    by (auto simp: delivered_def event_ids_def ids_of_def shown_def filter_empty_conv)
  ultimately have "wp (poll_task_events ad rid k () checks (client_sink client) rounds after)
      (\<lambda>_ s. received env w k after s \<and> (received_all ad env w k after s \<or> checks \<and> list_ex pr_disconnected rounds))
      (\<lambda>_ s. received env w k after s) (w, [])"
    by (intro poll_receives assms reachable.start)
  then show ?thesis
    unfolding wp_def assms(5) by (auto simp: received_def received_all_def list_ex_iff split: sum.splits)
qed

text \<open>A subscription to the sample Task after it has failed.\<close>

definition sample_adapter :: a2a_adapter where
  "sample_adapter = \<lparr>aa_core = Some sample_env, aa_stream = None,
     aa_card = \<lparr>ac_name = ''vermay'', ac_description = '''', ac_url = ''/'', ac_version = ''1'', ac_protocol_version = ''0.3.0'',
       ac_default_input_modes = [], ac_default_output_modes = [], ac_streaming = True, ac_push_notifications = False,
       ac_supports_authenticated_extended_card = False, ac_skills = [], ac_security_schemes = [], ac_security = [], ac_metadata = []\<rparr>,
     aa_lib = \<lparr>pj_isoformat = \<lambda>t. ''time'', pj_repr = \<lambda>v. ''v''\<rparr>,
     aa_validate_message = \<lambda>p. Inl [], aa_validate_request = Inr\<rparr>"

definition sample_round :: poll_round where
  "sample_round = \<lparr>pr_disconnected = False, pr_sleeps = [], pr_before_state = id, pr_before_trailing = id\<rparr>"

definition listening_client :: client where
  "listening_client = (\<lambda>item w. (True, w))"

theorem subscription_exactly_once_witness:
  "case poll_task_events sample_adapter (PInt 1) ''task'' () True (client_sink listening_client) [sample_round] 1
       (world_of finished_tables, []) of
     (result, w', sent) \<Rightarrow> event_ids sent = [Some (PInt 2), Some (PInt 3)] \<and>
       prefix (event_ids sent) (ids_of (shown 1 (events_of ''task'' (conn w'))))"
proof -
  obtain result w' sent where run: "poll_task_events sample_adapter (PInt 1) ''task'' () True (client_sink listening_client)
      [sample_round] 1 (world_of finished_tables, []) = (result, w', sent)"
    by (metis surj_pair)
  have "event_ids (snd (snd (poll_task_events sample_adapter (PInt 1) ''task'' () True (client_sink listening_client)
      [sample_round] 1 (world_of finished_tables, [])))) = [Some (PInt 2), Some (PInt 3)]"
    by code_simp
  moreover have "served_beside sample_env listening_client [sample_round]"
    by (simp add: served_beside_def beside_def listening_client_def sample_round_def reachable.start)
  moreover have "aa_core sample_adapter = Some sample_env" by (simp add: sample_adapter_def)
  ultimately show ?thesis
    using subscription_exactly_once [OF _ _ _ finished_sample(1) run, of sample_env] sample_env_logged run by simp
qed

section \<open>A child that is itself such an agent\<close>

text \<open>The statuses a peer cannot tell apart from outside.\<close>

primrec mirrored_status :: "task_status \<Rightarrow> task_status" where
  "mirrored_status CREATED = QUEUED"
| "mirrored_status QUEUED = QUEUED"
| "mirrored_status RUNNING = RUNNING"
| "mirrored_status CANCEL_REQUESTED = RUNNING"
| "mirrored_status INPUT_REQUIRED = INPUT_REQUIRED"
| "mirrored_status AUTH_REQUIRED = AUTH_REQUIRED"
| "mirrored_status COMPLETED = COMPLETED"
| "mirrored_status CANCELED = CANCELED"
| "mirrored_status FAILED = FAILED"

lemma mirrored_state:
  "remote_task_status (Some (a2a_state_value (task_status_to_a2a_state s))) fallback = mirrored_status s"
  by (cases s) (simp_all add: remote_task_status_def)

lemma task_payload_fields:
  "dget (task_to_a2a_payload lib task request) ''task'' = PNone"
  "dget (task_to_a2a_payload lib task request) ''id'' = PStr (t_task_id task)"
  "dget (task_to_a2a_payload lib task request) ''contextId'' = PStr (t_context_id task)"
  "dget (task_to_a2a_payload lib task request) ''artifacts'' = PNone"
  "dget (dict_or_empty (dget (task_to_a2a_payload lib task request) ''status'')) ''state'' =
     PStr (a2a_state_value (task_status_to_a2a_state (t_status task)))"
  by (simp_all add: task_to_a2a_payload_def Let_def dget_def dict_or_empty_def)

text \<open>
  C23. A parent reads back what a child of the same kind serves.  The answer to
  \<open>tasks/get\<close> that the child's adapter builds for one of its Tasks is a valid response
  to the parent's client; the snapshot read from it names that Task and its Context,
  mirrors its status, except that \<open>CREATED\<close> reads as \<open>QUEUED\<close> and \<open>CANCEL_REQUESTED\<close>
  as \<open>RUNNING\<close>, and carries no artifacts, whatever the Task has produced.
\<close>

theorem child_task_roundtrip:
  assumes "strip (t_task_id task) = t_task_id task" and "t_task_id task \<noteq> []"
  shows "\<exists>snapshot.
    bindE (jsonrpc_result (jsonrpc_success_payload request_id (jsonrpc_success task_id (task_to_a2a_payload lib task request)))
        request_id)
      (\<lambda>result. remote_task_snapshot_from_payload repr result raw) = Inr snapshot \<and>
    s_task_id snapshot = t_task_id task \<and> s_context_id snapshot = Some (t_context_id task) \<and>
    remote_task_status (s_status snapshot) fallback = mirrored_status (t_status task) \<and> s_artifacts snapshot = []"
proof -
  have "jsonrpc_result (jsonrpc_success_payload request_id (jsonrpc_success task_id (task_to_a2a_payload lib task request)))
      request_id = Inr (task_to_a2a_payload lib task request)"
    by (simp add: jsonrpc_result_def jsonrpc_success_payload_def jsonrpc_success_def dget_def)
  then show ?thesis
    using assms by (simp add: remote_task_snapshot_from_payload_def required_nonempty_string_def optional_str_def
        task_payload_fields mirrored_state)
qed

theorem child_task_roundtrip_witness:
  "\<exists>snapshot.
    bindE (jsonrpc_result (jsonrpc_success_payload (PInt 7) (jsonrpc_success (PStr ''task'')
        (task_to_a2a_payload \<lparr>pj_isoformat = \<lambda>t. ''now'', pj_repr = \<lambda>v. ''v''\<rparr> sample_task None))) (PInt 7))
      (\<lambda>result. remote_task_snapshot_from_payload (\<lambda>v. ''v'') result []) = Inr snapshot \<and>
    s_task_id snapshot = ''task'' \<and> remote_task_status (s_status snapshot) FAILED = QUEUED"
proof -
  have "strip (t_task_id sample_task) = t_task_id sample_task" "t_task_id sample_task \<noteq> []" by code_simp+
  from child_task_roundtrip [OF this, of "PInt 7" "PStr ''task''" "\<lparr>pj_isoformat = \<lambda>t. ''now'', pj_repr = \<lambda>v. ''v''\<rparr>"
      None "\<lambda>v. ''v''" "[]" FAILED]
  have "\<exists>snapshot.
    bindE (jsonrpc_result (jsonrpc_success_payload (PInt 7) (jsonrpc_success (PStr ''task'')
        (task_to_a2a_payload \<lparr>pj_isoformat = \<lambda>t. ''now'', pj_repr = \<lambda>v. ''v''\<rparr> sample_task None))) (PInt 7))
      (\<lambda>result. remote_task_snapshot_from_payload (\<lambda>v. ''v'') result []) = Inr snapshot \<and>
    s_task_id snapshot = t_task_id sample_task \<and> remote_task_status (s_status snapshot) FAILED = mirrored_status (t_status sample_task)"
    by blast
  then show ?thesis by (simp add: sample_task_def)
qed

section \<open>Where a delegated request is sent\<close>

definition http_address :: "(string \<Rightarrow> bool) \<Rightarrow> string \<Rightarrow> bool" where
  "http_address ok url \<longleftrightarrow> (\<exists>parsed. urlsplit ok url = Inr parsed \<and> su_scheme parsed \<in> {''http'', ''https''} \<and> su_netloc parsed \<noteq> [])"

lemma validated_address: "validated_http_url ok v l = Inr url \<Longrightarrow> http_address ok url"
  by (auto simp: validated_http_url_def Let_def bindE_Inr http_address_def split: if_splits)

lemma listed_address: "listed_interface ok v l = Inr (Some url) \<Longrightarrow> http_address ok url"
  by (auto simp: listed_interface_def bindE_Inr split: pyval.splits option.splits dest: validated_address)

lemma rpc_url_address: "rpc_url ok agent = Inr url \<Longrightarrow> http_address ok url"
  by (auto simp: rpc_url_def Let_def bindE_Inr legacy_rpc_url_def split: option.splits pyval.splits bool.splits if_splits
      dest: validated_address listed_address)

lemma liftE_value: "liftE (Inr a) = returnM a" "liftE (Inl e) = raiseM e"
  by (simp_all add: fun_eq_iff liftE_def returnM_def raiseM_def)

text \<open>
  C24. A request to a child agent only ever goes to an absolute HTTP address.  Whatever the
  Agent Card says, the transport is given no URL but those with scheme \<open>http\<close>
  or \<open>https\<close> and a non-empty authority: a transport that answers
  anything else differently cannot be told apart by any call of the client.
\<close>

theorem requests_only_to_http_addresses:
  assumes "\<forall>url. http_address (ah_bracketed_netloc_ok http) url \<longrightarrow> post url = ah_post http url"
  shows "client_send_message (http\<lparr>ah_post := post\<rparr>) agent request c mid = client_send_message http agent request c mid \<and>
    client_get_task (http\<lparr>ah_post := post\<rparr>) agent k = client_get_task http agent k \<and>
    client_cancel_task (http\<lparr>ah_post := post\<rparr>) agent k reason = client_cancel_task http agent k reason"
proof -
  have "post_jsonrpc (http\<lparr>ah_post := post\<rparr>) agent payload = post_jsonrpc http agent payload" for payload
  proof (cases "rpc_url (ah_bracketed_netloc_ok http) agent")
    case (Inr url)
    then show ?thesis using assms rpc_url_address [OF Inr] by (simp add: post_jsonrpc_def liftE_value bindM_returnM)
  qed (simp add: post_jsonrpc_def liftE_value bindM_raiseM)
  then show ?thesis by (simp add: client_send_message_def client_get_task_def client_cancel_task_def)
qed

definition sample_transport :: a2a_http where
  "sample_transport = \<lparr>ah_post = \<lambda>url payload. returnM None, ah_get = \<lambda>url. returnM None,
     ah_loads = \<lambda>s. Inr PNone, ah_bracketed_netloc_ok = \<lambda>s. True, ah_repr = \<lambda>v. ''v''\<rparr>"

definition sample_agent :: registered_agent_record where
  "sample_agent = \<lparr>g_agent_id = ''child'', g_name = ''child'', g_card_url = ''https://child/.well-known/agent-card.json'',
     g_card_json = [(''url'', PStr ''file:///etc/passwd'')], g_enabled = True, g_metadata = [], g_created_at = 0, g_updated_at = 0\<rparr>"

theorem requests_only_to_http_addresses_witness:
  "client_get_task (sample_transport\<lparr>ah_post := \<lambda>url payload. if url = ''file:///etc/passwd'' then raiseM (ValueError []) else returnM None\<rparr>)
     sample_agent ''k'' = client_get_task sample_transport sample_agent ''k''"
proof -
  have "urlsplit (\<lambda>s. True) ''file:///etc/passwd'' = Inr \<lparr>su_scheme = ''file'', su_netloc = [],
      su_path = ''/etc/passwd'', su_query = [], su_fragment = []\<rparr>"
    by code_simp
  then have "\<forall>url. http_address (ah_bracketed_netloc_ok sample_transport) url \<longrightarrow>
      (\<lambda>payload. if url = ''file:///etc/passwd'' then raiseM (ValueError []) else returnM None) = ah_post sample_transport url"
    by (auto simp: http_address_def sample_transport_def)
  from requests_only_to_http_addresses [OF this] show ?thesis by blast
qed

end
