(* ===== verification/Model_Clients.thy ===== *)
theory Model_Clients
  imports Streaming
begin

text \<open>
  The clients of the model services and their adapters to the graph:
  \<open>model_clients/tool_calling.py\<close>, \<open>model_clients/json_decision.py\<close>,
  \<open>model_clients/ollama.py\<close>, \<open>model_clients/openai_compatible.py\<close>,
  \<open>langgraph_runtime/model_adapters.py\<close> and \<open>langgraph_runtime/model_factory.py\<close>.

  The HTTP exchange and the text syntax of JSON are arguments (\<open>model_lib\<close>).  A reply is a
  failure of the transport or the body, \<open>None\<close> when it is not UTF-8.  \<open>json.dumps\<close> fails on values
  that are not JSON, as in \<open>Values\<close>.  The attributes \<open>provider\<close>, \<open>reason\<close> and
  \<open>status_code\<close> of the exceptions, which no code reads, are left out.
\<close>

record model_message =
  mm_role :: string
  mm_content :: string
  mm_name :: "string option"
  mm_tool_call_id :: "string option"
  mm_tool_calls :: "pydict list"

record model_response =
  mr_content :: string
  mr_tool_calls :: "tool_call list"

datatype http_failure = HTTPError int string "string option" | URLError string | TimeoutFailure string

record model_lib =
  ml_urlopen :: "string \<Rightarrow> pydict \<Rightarrow> pyval \<Rightarrow> pyfloat \<Rightarrow> (http_failure + string option) py"
  ml_urlopen_lines :: "string \<Rightarrow> pydict \<Rightarrow> pyval \<Rightarrow> pyfloat \<Rightarrow> (http_failure + string option) py list"
  ml_loads :: "string \<Rightarrow> exn + pyval"
  ml_raw_decode :: "string \<Rightarrow> exn + pyval"
  ml_dumps :: "pyval \<Rightarrow> string"
  ml_dumps_indented :: "pyval \<Rightarrow> string"
  ml_repr :: "pyval \<Rightarrow> string"

section \<open>Tool calling\<close>

datatype tool_calling_mode = NATIVE | PROMPT_JSON | NO_TOOLS

primrec tool_calling_value :: "tool_calling_mode \<Rightarrow> string" where
  "tool_calling_value NATIVE = ''native''"
| "tool_calling_value PROMPT_JSON = ''prompt_json''"
| "tool_calling_value NO_TOOLS = ''none''"

definition KNOWN_TOOL_CALLING_MODES :: "tool_calling_mode list" where
  "KNOWN_TOOL_CALLING_MODES = [NATIVE, NO_TOOLS, PROMPT_JSON]"

definition resolve_tool_calling_mode ::
  "pyval \<Rightarrow> string \<Rightarrow> tool_calling_mode \<Rightarrow> tool_calling_mode list \<Rightarrow> exn + tool_calling_mode" where
  "resolve_tool_calling_mode value provider default_mode supported =
     (case value of
        PNone \<Rightarrow> Inr default_mode
      | PStr s \<Rightarrow>
          (let normalized = lower (strip s) in
           case find (\<lambda>m. tool_calling_value m = normalized) KNOWN_TOOL_CALLING_MODES of
             None \<Rightarrow> Inl (ValueError (provider @ '' option 'tool_calling' must be one of: '' @
               join_str '', '' (map tool_calling_value KNOWN_TOOL_CALLING_MODES)))
           | Some m \<Rightarrow>
               if m \<notin> set supported then Inl (ValueError (provider @ '' does not support tool_calling='' @ [CHR 39] @ normalized @
                 [CHR 39] @ ''; supported: '' @ join_str '', '' (map tool_calling_value supported)))
               else Inr m)
      | _ \<Rightarrow> Inl (ValueError (provider @ '' option 'tool_calling' must be a string'')))"

definition to_function_tool :: "pydict \<Rightarrow> exn + pydict" where
  "to_function_tool tool =
     (case map_of tool ''name'' of
        None \<Rightarrow> Inl (KeyError ''name'')
      | Some name \<Rightarrow>
          Inr [(''type'', PStr ''function''),
            (''function'', PDict
              [(''name'', name), (''description'', py_or (dget tool ''description'') (PStr [])),
               (''parameters'', py_or (dget tool ''parameters'')
                  (PDict [(''type'', PStr ''object''), (''properties'', PDict [])]))])])"

definition tool_call_error :: "string \<Rightarrow> string \<Rightarrow> exn" where
  "tool_call_error provider_label detail = model_protocol_error (''Invalid '' @ provider_label @ '' response: '' @ detail)"

definition call_field :: "nat \<Rightarrow> string \<Rightarrow> string" where
  "call_field index detail = ''tool_calls['' @ str_nat index @ '']'' @ detail"

definition parse_function_arguments ::
  "(string \<Rightarrow> exn + pyval) \<Rightarrow> string \<Rightarrow> nat \<Rightarrow> pyval \<Rightarrow> exn + pydict" where
  "parse_function_arguments loads provider_label index raw_arguments =
     (let not_object = tool_call_error provider_label
            (call_field index ''.function.arguments must be a JSON object'');
          check = (\<lambda>v. case v of PDict d \<Rightarrow> Inr d | _ \<Rightarrow> Inl not_object) in
      case raw_arguments of
        PNone \<Rightarrow> Inr []
      | PStr [] \<Rightarrow> Inr []
      | PStr s \<Rightarrow>
          (case loads s of
             Inl e \<Rightarrow> Inl (if is_json_decode_error e then not_object else e)
           | Inr v \<Rightarrow> check v)
      | v \<Rightarrow> check v)"

fun parse_calls_from :: "(string \<Rightarrow> exn + pyval) \<Rightarrow> string \<Rightarrow> nat \<Rightarrow> pyval list \<Rightarrow> exn + tool_call list" where
  "parse_calls_from loads provider_label index [] = Inr []"
| "parse_calls_from loads provider_label index (raw_tool_call # rest) =
     (let bad = (\<lambda>detail. Inl (tool_call_error provider_label (call_field index detail))) in
      case raw_tool_call of
        PDict call \<Rightarrow>
          (case dget call ''function'' of
             PDict f \<Rightarrow>
               (case dget f ''name'' of
                  PStr (ch # cs) \<Rightarrow>
                    bindE (parse_function_arguments loads provider_label index (dget f ''arguments'')) (\<lambda>arguments.
                    bindE (parse_calls_from loads provider_label (Suc index) rest) (\<lambda>parsed.
                    Inr (\<lparr>tc_name = ch # cs, tc_arguments = arguments,
                      tc_id = (case dget call ''id'' of PStr i \<Rightarrow> Some i | _ \<Rightarrow> None)\<rparr> # parsed)))
                | _ \<Rightarrow> bad ''.function.name is required'')
           | _ \<Rightarrow> bad ''.function must be an object'')
      | _ \<Rightarrow> bad '' must be an object'')"

definition parse_function_tool_calls :: "(string \<Rightarrow> exn + pyval) \<Rightarrow> string \<Rightarrow> pyval \<Rightarrow> exn + tool_call list" where
  "parse_function_tool_calls loads provider_label raw_tool_calls =
     (case raw_tool_calls of
        PList xs \<Rightarrow> parse_calls_from loads provider_label 0 xs
      | _ \<Rightarrow> Inl (tool_call_error provider_label ''message.tool_calls must be an array''))"

definition model_response_from_tool_calls :: "tool_call list \<Rightarrow> model_response" where
  "model_response_from_tool_calls tool_calls =
     (let names = join_str '', '' (map tc_name tool_calls) in
      \<lparr>mr_content = (if 1 < length tool_calls then ''Calling tools: '' @ names @ ''.'' else ''Calling tool '' @ names @ ''.''),
       mr_tool_calls = tool_calls\<rparr>)"

section \<open>Decisions written as JSON\<close>

text \<open>
  The expressions of \<open>json_decision.py\<close>, matched at the beginning of a text: the rest after the
  match.  None of them matches the empty text, and none can match in two ways.
\<close>

fun literal_ci :: "string \<Rightarrow> string \<Rightarrow> string option" where
  "literal_ci [] s = Some s"
| "literal_ci (p # ps) [] = None"
| "literal_ci (p # ps) (c # s) = (if lower_char c = p then literal_ci ps s else None)"

text \<open>\<open>(?:\s[^>]*)?>\<close>.\<close>

definition tag_end :: "string \<Rightarrow> string option" where
  "tag_end s =
     (case s of
        [] \<Rightarrow> None
      | c # rest \<Rightarrow>
          if c = CHR ''>'' then Some rest
          else if is_space c then
            (case dropWhile (\<lambda>d. d \<noteq> CHR ''>'') rest of [] \<Rightarrow> None | _ # after \<Rightarrow> Some after)
          else None)"

definition think_open :: "string \<Rightarrow> string option" where
  "think_open s = Option.bind (literal_ci ''<think'' s) tag_end"

definition think_close :: "string \<Rightarrow> string option" where
  "think_close s =
     Option.bind (literal_ci ''</think'' s) (\<lambda>r. case dropWhile is_space r of
       CHR ''>'' # after \<Rightarrow> Some after
     | _ \<Rightarrow> None)"

fun first_close :: "string \<Rightarrow> string option" where
  "first_close [] = None"
| "first_close (c # s) = (case think_close (c # s) of Some r \<Rightarrow> Some r | None \<Rightarrow> first_close s)"

definition THINK_BLOCK :: "string \<Rightarrow> string option" where
  "THINK_BLOCK s = Option.bind (think_open s) first_close"

definition THINK_TAG :: "string \<Rightarrow> string option" where
  "THINK_TAG s =
     (case think_open s of Some r \<Rightarrow> Some r | None \<Rightarrow> Option.bind (literal_ci ''</think'' s) tag_end)"

text \<open>\<open>pattern.sub("", s)\<close> and \<open>len(pattern.findall(s))\<close>: the leftmost matches that do not overlap.\<close>

function re_remove :: "(string \<Rightarrow> string option) \<Rightarrow> string \<Rightarrow> string" where
  "re_remove m [] = []"
| "re_remove m (c # s) =
     (case m (c # s) of
        Some r \<Rightarrow> if length r \<le> length s then re_remove m r else c # re_remove m s
      | None \<Rightarrow> c # re_remove m s)"
  by pat_completeness auto
termination by (relation "measure (length \<circ> snd)") auto

function re_count :: "(string \<Rightarrow> string option) \<Rightarrow> string \<Rightarrow> nat" where
  "re_count m [] = 0"
| "re_count m (c # s) =
     (case m (c # s) of
        Some r \<Rightarrow> if length r \<le> length s then Suc (re_count m r) else re_count m s
      | None \<Rightarrow> re_count m s)"
  by pat_completeness auto
termination by (relation "measure (length \<circ> snd)") auto

definition strip_reasoning_markup :: "string \<Rightarrow> string" where
  "strip_reasoning_markup content = re_remove THINK_TAG (re_remove THINK_BLOCK content)"

definition starts_with :: "string \<Rightarrow> string \<Rightarrow> bool" where
  "starts_with p s \<longleftrightarrow> take (length p) s = p"

definition strip_markdown_json_fence :: "string \<Rightarrow> string" where
  "strip_markdown_json_fence content =
     (if \<not> starts_with ''```'' content then content
      else
        (let lines = splitlines [] content in
         if 3 \<le> length lines \<and> starts_with ''```'' (hd lines) \<and> strip (last lines) = ''```''
         then strip (join_str [CHR 10] (tl (butlast lines)))
         else content))"

definition decode_json_object :: "(string \<Rightarrow> exn + pyval) \<Rightarrow> string \<Rightarrow> exn + pydict option" where
  "decode_json_object loads content =
     (case loads content of
        Inl e \<Rightarrow> if is_json_decode_error e then Inr None else Inl e
      | Inr (PDict d) \<Rightarrow> Inr (Some d)
      | Inr _ \<Rightarrow> Inr None)"

fun extract_embedded_action :: "(string \<Rightarrow> exn + pyval) \<Rightarrow> string \<Rightarrow> exn + pydict option" where
  "extract_embedded_action raw_decode [] = Inr None"
| "extract_embedded_action raw_decode (c # s) =
     (if c \<noteq> CHR ''{'' then extract_embedded_action raw_decode s
      else
        (case raw_decode (c # s) of
           Inl e \<Rightarrow> if is_json_decode_error e then extract_embedded_action raw_decode s else Inl e
         | Inr (PDict d) \<Rightarrow>
             if map_of d ''action'' \<noteq> None then Inr (Some d) else extract_embedded_action raw_decode s
         | Inr _ \<Rightarrow> extract_embedded_action raw_decode s))"

definition fill_argument :: "pydict \<Rightarrow> string \<Rightarrow> pydict \<Rightarrow> pydict" where
  "fill_argument decision key arguments =
     (case map_of decision key of
        None \<Rightarrow> arguments
      | Some v \<Rightarrow> if map_of arguments key = None then dset key v arguments else arguments)"

definition normalize_known_tool_action :: "pydict \<Rightarrow> pydict" where
  "normalize_known_tool_action decision =
     (if dget decision ''action'' \<noteq> PStr ''request_user_input'' then decision
      else
        (let arguments = (case dget decision ''arguments'' of PDict d \<Rightarrow> d | _ \<Rightarrow> []) in
         [(''action'', PStr ''tool_call''), (''name'', PStr ''request_user_input''),
          (''arguments'', PDict (fold (fill_argument decision) [''prompt'', ''choices'', ''inputSchema''] arguments))]))"

definition parse_json_decision :: "model_lib \<Rightarrow> string \<Rightarrow> exn + pydict option" where
  "parse_json_decision lib content =
     (let normalized = strip_markdown_json_fence (strip content);
          unmarked = strip_markdown_json_fence (strip (strip_reasoning_markup normalized)) in
      bindE (decode_json_object (ml_loads lib) normalized) (\<lambda>decision.
      bindE (if decision \<noteq> None then Inr decision
             else
               bindE (decode_json_object (ml_loads lib) unmarked) (\<lambda>again.
               if again \<noteq> None then Inr again else extract_embedded_action (ml_raw_decode lib) unmarked)) (\<lambda>found.
      Inr (map_option normalize_known_tool_action found))))"

section \<open>Requests and their failures\<close>

definition rstrip_slash :: "string \<Rightarrow> string" where
  "rstrip_slash s = rev (dropWhile (\<lambda>c. c = CHR ''/'') (rev s))"

definition retryable_http_status :: "int \<Rightarrow> bool" where
  "retryable_http_status status_code \<longleftrightarrow> status_code \<in> {408, 409, 425, 429} \<or> 500 \<le> status_code"

text \<open>\<open>min(float(timeout_seconds), override)\<close>, where the label begins the error text.\<close>

definition effective_timeout_seconds :: "string \<Rightarrow> int \<Rightarrow> pyfloat option \<Rightarrow> exn + pyfloat" where
  "effective_timeout_seconds label timeout_seconds override =
     (case override of
        None \<Rightarrow> float_of_int timeout_seconds
      | Some t \<Rightarrow>
          if float_le t (Fin 0) then
            Inl (model_provider_error (label @ '' request did not start because its task deadline had elapsed.'') True)
          else bindE (float_of_int timeout_seconds) (\<lambda>limit. Inr (if float_less t limit then t else limit)))"

definition http_status_text :: "string \<Rightarrow> int \<Rightarrow> string \<Rightarrow> string" where
  "http_status_text label code reason = label @ '' request failed: HTTP '' @ str_int code @ '' '' @ reason"

text \<open>\<open>body = exc.read().decode("utf-8")\<close>, or the empty text when that fails.\<close>

definition error_body :: "string option \<Rightarrow> string" where
  "error_body body = (case body of None \<Rightarrow> [] | Some s \<Rightarrow> s)"

definition provider_failure :: "string \<Rightarrow> (int \<Rightarrow> string \<Rightarrow> string option \<Rightarrow> exn + string) \<Rightarrow> http_failure \<Rightarrow> exn" where
  "provider_failure label format_http_error failure =
     (case failure of
        HTTPError code reason body \<Rightarrow>
          (case format_http_error code reason body of
             Inl e \<Rightarrow> e
           | Inr message \<Rightarrow> model_provider_error message (retryable_http_status code))
      | URLError m \<Rightarrow> model_provider_error (label @ '' request failed: '' @ m) True
      | TimeoutFailure m \<Rightarrow> model_provider_error (label @ '' request timed out: '' @ m) True)"

definition post_model :: "model_lib \<Rightarrow> string \<Rightarrow> pydict \<Rightarrow> pydict \<Rightarrow> (exn + pyfloat) \<Rightarrow> (http_failure + string option) py" where
  "post_model lib url headers payload timeout =
     bindM (raise_if (\<not> json_ok (PDict payload)) (TypeError ''Object is not JSON serializable'')) (\<lambda>_.
     bindM (liftE timeout) (\<lambda>t.
     ml_urlopen lib url headers (PDict payload) t))"

section \<open>Ollama\<close>

record ollama_model_client =
  oc_model :: string
  oc_base_url :: string
  oc_timeout_seconds :: int
  oc_tool_calling :: tool_calling_mode

definition ollama_model_client_init ::
  "string option \<Rightarrow> string option \<Rightarrow> int option \<Rightarrow> pyval \<Rightarrow> exn + ollama_model_client" where
  "ollama_model_client_init model base_url timeout_seconds tool_calling =
     bindE (resolve_tool_calling_mode tool_calling ''ollama'' PROMPT_JSON [NATIVE, NO_TOOLS, PROMPT_JSON]) (\<lambda>mode.
     Inr \<lparr>oc_model = (case model of Some (ch # m) \<Rightarrow> ch # m | _ \<Rightarrow> ''deepseek-v4-flash:cloud''),
       oc_base_url = rstrip_slash (case base_url of Some (ch # u) \<Rightarrow> ch # u | _ \<Rightarrow> ''http://127.0.0.1:11434''),
       oc_timeout_seconds = (case timeout_seconds of Some t \<Rightarrow> t | None \<Rightarrow> 120),
       oc_tool_calling = mode\<rparr>)"

definition ollama_format_http_error :: "model_lib \<Rightarrow> int \<Rightarrow> string \<Rightarrow> string option \<Rightarrow> exn + string" where
  "ollama_format_http_error lib code reason body =
     (let text = error_body body; plain = '': '' @ take 1000 text in
      bindE
        (if text = [] then Inr []
         else
           (case ml_loads lib text of
              Inl e \<Rightarrow> if is_json_decode_error e then Inr plain else Inl e
            | Inr (PDict payload) \<Rightarrow> (case dget payload ''error'' of PStr error \<Rightarrow> Inr ('': '' @ error) | _ \<Rightarrow> Inr plain)
            | Inr _ \<Rightarrow> Inl (AttributeError (''object has no attribute '' @ [CHR 39] @ ''get'' @ [CHR 39])))) (\<lambda>detail.
      Inr (http_status_text ''Ollama'' code reason @ detail)))"

definition ollama_protocol_error :: "string \<Rightarrow> exn" where
  "ollama_protocol_error exception_name = model_protocol_error (''Invalid Ollama response: '' @ exception_name)"

text \<open>The exceptions that reading an envelope turns into protocol errors.\<close>

fun envelope_error_name :: "exn \<Rightarrow> string option" where
  "envelope_error_name (KeyError _) = Some ''KeyError''"
| "envelope_error_name (JSONDecodeError _) = Some ''JSONDecodeError''"
| "envelope_error_name (TypeError _) = Some ''TypeError''"
| "envelope_error_name _ = None"

definition role_content :: "model_message \<Rightarrow> pydict" where
  "role_content message = [(''role'', PStr (mm_role message)), (''content'', PStr (mm_content message))]"

definition PROMPT_JSON_PROTOCOL :: string where
  \<open>PROMPT_JSON_PROTOCOL =
     ''Return only JSON. Choose one action.'' @ [CHR 10] @
     ''Final answer: {"action":"final","content":"..."}'' @ [CHR 10] @
     ''Tool call: {"action":"tool_call","name":"tool_name","arguments":{...}}'' @ [CHR 10] @
     ''Do not emit reasoning, <think> tags, markdown, or prose outside the JSON object.'' @ [CHR 10] @
     ''Never describe a pending tool call in a final action. If a tool is needed, return '' @
     ''action=tool_call; use action=final only after the required tool observations exist.'' @ [CHR 10] @
     ''Only call tools listed below. Dangerous tools may require approval.'' @ [CHR 10] @
     ''Use request_user_input only for missing tool arguments, never for permission. '' @
     ''Call dangerous tools directly and let the runtime request approval.'' @ [CHR 10] @
     ''If a tool message indicates an error or failed execution, either choose a corrected tool call '' @
     ''or return a final answer explaining the failure. Do not repeat the same failing call.'' @ [CHR 10] @
     ''Available tools:'' @ [CHR 10]\<close>

definition to_prompt_json_ollama_messages :: "model_lib \<Rightarrow> model_message list \<Rightarrow> pydict list \<Rightarrow> exn + pydict list" where
  "to_prompt_json_ollama_messages lib messages tools =
     (let listed = PList (map PDict tools) in
      if \<not> json_ok listed then Inl (TypeError ''Object is not JSON serializable'')
      else Inr ([(''role'', PStr ''system''), (''content'', PStr (PROMPT_JSON_PROTOCOL @ ml_dumps_indented lib listed))] #
        map (\<lambda>message.
          if mm_role message = ''tool'' then
            [(''role'', PStr ''user''),
             (''content'', PStr (''Tool observation from '' @ (case mm_name message of None \<Rightarrow> ''None'' | Some n \<Rightarrow> n) @ '':'' @
               [CHR 10] @ mm_content message @ [CHR 10, CHR 10] @
               ''This tool has already been executed. Return a final answer unless a different tool is strictly required.''))]
          else role_content message) messages))"

definition to_ollama_tool_call :: "(pyval \<Rightarrow> string) \<Rightarrow> nat \<Rightarrow> pydict \<Rightarrow> pydict" where
  "to_ollama_tool_call repr index tool_call =
     (let arguments = (case map_of tool_call ''args'' of
            Some v \<Rightarrow> v
          | None \<Rightarrow> (case map_of tool_call ''arguments'' of Some v \<Rightarrow> v | None \<Rightarrow> PDict [])) in
      [(''type'', PStr ''function''),
       (''function'', PDict
         [(''index'', PInt (int index)), (''name'', PStr (py_str repr (py_or (dget tool_call ''name'') (PStr [])))),
          (''arguments'', case arguments of PDict d \<Rightarrow> PDict d | _ \<Rightarrow> PDict [])])])"

definition to_native_ollama_messages :: "(pyval \<Rightarrow> string) \<Rightarrow> model_message list \<Rightarrow> pydict list" where
  "to_native_ollama_messages repr messages =
     map (\<lambda>message.
       if mm_role message = ''tool'' then
         [(''role'', PStr ''tool''), (''content'', PStr (mm_content message))] @
         (case mm_name message of Some (ch # n) \<Rightarrow> [(''tool_name'', PStr (ch # n))] | _ \<Rightarrow> [])
       else
         role_content message @
         (if mm_role message = ''assistant'' \<and> mm_tool_calls message \<noteq> [] then
            [(''tool_calls'', PList (map (\<lambda>(i, call). PDict (to_ollama_tool_call repr i call))
               (enumerate 0 (mm_tool_calls message))))]
          else [])) messages"

definition to_plain_ollama_messages :: "model_message list \<Rightarrow> pydict list" where
  "to_plain_ollama_messages messages =
     [(''role'', PStr ''system''),
      (''content'', PStr ''Answer the user directly in plain text. Do not wrap the answer in JSON.'')] #
     map role_content (filter (\<lambda>message. mm_role message \<noteq> ''tool'') messages)"

definition no_temperature :: "string \<times> pyval" where
  "no_temperature = (''options'', PDict [(''temperature'', PInt 0)])"

definition ollama_invoke_payload ::
  "model_lib \<Rightarrow> ollama_model_client \<Rightarrow> model_message list \<Rightarrow> pydict list \<Rightarrow> bool \<Rightarrow> exn + pydict" where
  "ollama_invoke_payload lib client messages tools use_native_tools =
     (let payload = (\<lambda>ms more. [(''model'', PStr (oc_model client)), (''messages'', PList (map PDict ms))] @ more) in
      if use_native_tools then
        bindE (sum_list_of (map to_function_tool tools)) (\<lambda>functions.
        Inr (payload (to_native_ollama_messages (ml_repr lib) messages)
          [(''tools'', PList (map PDict functions)), (''stream'', PBool False), no_temperature]))
      else if oc_tool_calling client \<noteq> PROMPT_JSON then
        Inr (payload (to_plain_ollama_messages messages) [(''stream'', PBool False), no_temperature])
      else
        bindE (to_prompt_json_ollama_messages lib messages tools) (\<lambda>ms.
        Inr (payload ms [(''stream'', PBool False), (''format'', PStr ''json''), no_temperature])))"

text \<open>\<open>message = body.get("message")\<close>, which must be an object.\<close>

definition ollama_message :: "pydict \<Rightarrow> exn + pydict" where
  "ollama_message body =
     (case dget body ''message'' of PDict message \<Rightarrow> Inr message | _ \<Rightarrow> Inl (ollama_protocol_error ''TypeError''))"

definition native_calls :: "model_lib \<Rightarrow> pydict \<Rightarrow> exn + tool_call list" where
  "native_calls lib message =
     (case dget message ''tool_calls'' of
        PNone \<Rightarrow> Inr []
      | raw_tool_calls \<Rightarrow> parse_function_tool_calls (ml_loads lib) ''Ollama'' raw_tool_calls)"

definition ollama_text :: "pydict \<Rightarrow> exn + model_response" where
  "ollama_text message =
     (case dget message ''content'' of
        PStr content \<Rightarrow> Inr \<lparr>mr_content = content, mr_tool_calls = []\<rparr>
      | _ \<Rightarrow> Inl (ollama_protocol_error ''TypeError''))"

definition ollama_parse_native_response :: "model_lib \<Rightarrow> pydict \<Rightarrow> exn + model_response" where
  "ollama_parse_native_response lib body =
     bindE (ollama_message body) (\<lambda>message.
     bindE (native_calls lib message) (\<lambda>tool_calls.
     if tool_calls \<noteq> [] then Inr (model_response_from_tool_calls tool_calls) else ollama_text message))"

definition ollama_parse_plain_response :: "model_lib \<Rightarrow> pydict \<Rightarrow> exn + model_response" where
  "ollama_parse_plain_response lib body =
     bindE (ollama_message body) (\<lambda>message.
     bindE (native_calls lib message) (\<lambda>tool_calls.
     if tool_calls \<noteq> [] then
       Inl (model_protocol_error
         ''Invalid Ollama response: native tool calls were returned when tools were unavailable.'')
     else ollama_text message))"

definition legacy_final_content :: "pydict \<Rightarrow> string option" where
  "legacy_final_content decision =
     (if dget decision ''action'' \<noteq> PNone then None
      else
        (case List.map_filter (\<lambda>field. case dget decision field of
             PStr s \<Rightarrow> if strip s \<noteq> [] then Some (strip s) else None
           | _ \<Rightarrow> None) [''content'', ''answer'', ''final_answer''] of
           [] \<Rightarrow> None
         | value # _ \<Rightarrow> Some value))"

definition has_unbalanced_think_tags :: "string \<Rightarrow> bool" where
  "has_unbalanced_think_tags content \<longleftrightarrow> re_count think_open content \<noteq> re_count think_close content"

definition post_tool_final_content :: "string \<Rightarrow> string option" where
  "post_tool_final_content content =
     (if has_unbalanced_think_tags content then None
      else
        (let final = strip (strip_reasoning_markup content) in
         if final = [] \<or> starts_with ''{'' final then None else Some final))"

definition ollama_parse_decision :: "model_lib \<Rightarrow> pydict \<Rightarrow> exn + model_response" where
  "ollama_parse_decision lib decision =
     (let action = dget decision ''action'' in
      if decision = [] then Inl (model_protocol_error ''Invalid Ollama agent action: action is required.'')
      else if action = PStr ''tool_call'' then
        (case (dget decision ''name'', case map_of decision ''arguments'' of None \<Rightarrow> PDict [] | Some v \<Rightarrow> v) of
           (PStr (ch # name), PDict arguments) \<Rightarrow>
             Inr \<lparr>mr_content = ''Calling tool '' @ (ch # name) @ ''.'',
               mr_tool_calls = [\<lparr>tc_name = ch # name, tc_arguments = arguments, tc_id = None\<rparr>]\<rparr>
         | _ \<Rightarrow> Inl (model_protocol_error
             ''Invalid Ollama tool_call action: name and object arguments are required.''))
      else if action = PStr ''final'' then
        (case dget decision ''content'' of
           PStr content \<Rightarrow> Inr \<lparr>mr_content = content, mr_tool_calls = []\<rparr>
         | v \<Rightarrow> Inr \<lparr>mr_content = ml_dumps_indented lib v, mr_tool_calls = []\<rparr>)
      else Inl (model_protocol_error (''Invalid Ollama agent action: unsupported action '' @ ml_repr lib action @ ''.'')))"

definition ollama_parse_content :: "model_lib \<Rightarrow> string \<Rightarrow> bool \<Rightarrow> exn + model_response" where
  "ollama_parse_content lib content allow_unstructured_final =
     (let final = (\<lambda>text. \<lparr>mr_content = text, mr_tool_calls = []\<rparr>) in
      bindE (parse_json_decision lib content) (\<lambda>found.
      case found of
        None \<Rightarrow>
          (case (if allow_unstructured_final then post_tool_final_content content else None) of
             Some fallback \<Rightarrow> Inr (final fallback)
           | None \<Rightarrow> Inl (model_protocol_error
               ''Invalid Ollama agent action: expected a JSON object with an action field.''))
      | Some decision \<Rightarrow>
          (case (if allow_unstructured_final then legacy_final_content decision else None) of
             Some fallback \<Rightarrow> Inr (final fallback)
           | None \<Rightarrow> ollama_parse_decision lib decision)))"

definition has_tool_observation :: "model_message list \<Rightarrow> bool" where
  "has_tool_observation messages = list_ex (\<lambda>message. mm_role message = ''tool'') messages"

text \<open>\<open>body["message"]["content"]\<close>.\<close>

definition prompt_json_content :: "pydict \<Rightarrow> exn + string" where
  "prompt_json_content body =
     (case map_of body ''message'' of
        None \<Rightarrow> Inl (ollama_protocol_error ''KeyError'')
      | Some (PDict message) \<Rightarrow>
          (case map_of message ''content'' of
             None \<Rightarrow> Inl (ollama_protocol_error ''KeyError'')
           | Some (PStr content) \<Rightarrow> Inr content
           | Some _ \<Rightarrow> Inl (ollama_protocol_error ''TypeError''))
      | Some _ \<Rightarrow> Inl (ollama_protocol_error ''TypeError''))"

definition ollama_body :: "model_lib \<Rightarrow> string \<Rightarrow> exn + pydict" where
  "ollama_body lib raw =
     (case ml_loads lib raw of
        Inl e \<Rightarrow> Inl (case envelope_error_name e of Some name \<Rightarrow> ollama_protocol_error name | None \<Rightarrow> e)
      | Inr (PDict body) \<Rightarrow>
          (case dget body ''error'' of
             PStr (ch # m) \<Rightarrow> Inl (model_provider_error (''Ollama request failed: '' @ (ch # m)) True)
           | _ \<Rightarrow> Inr body)
      | Inr _ \<Rightarrow> Inl (ollama_protocol_error ''TypeError''))"

definition ollama_response ::
  "model_lib \<Rightarrow> ollama_model_client \<Rightarrow> model_message list \<Rightarrow> bool \<Rightarrow> string option \<Rightarrow> exn + model_response" where
  "ollama_response lib client messages use_native_tools response =
     (case response of
        None \<Rightarrow> Inl (model_protocol_error ''Invalid Ollama response: response body is not UTF-8'')
      | Some raw \<Rightarrow>
          bindE (ollama_body lib raw) (\<lambda>body.
          if use_native_tools then ollama_parse_native_response lib body
          else if oc_tool_calling client \<noteq> PROMPT_JSON then ollama_parse_plain_response lib body
          else
            bindE (prompt_json_content body) (\<lambda>content.
            ollama_parse_content lib content (has_tool_observation messages))))"

definition JSON_CONTENT :: pydict where
  "JSON_CONTENT = [(''Content-Type'', PStr ''application/json'')]"

definition ollama_invoke ::
  "model_lib \<Rightarrow> ollama_model_client \<Rightarrow> model_message list \<Rightarrow> pydict list \<Rightarrow> pyfloat option \<Rightarrow> model_response py" where
  "ollama_invoke lib client messages tools timeout_seconds =
     (let use_native_tools = (oc_tool_calling client = NATIVE \<and> tools \<noteq> []) in
      bindM (liftE (ollama_invoke_payload lib client messages tools use_native_tools)) (\<lambda>payload.
      bindM (post_model lib (oc_base_url client @ ''/api/chat'') JSON_CONTENT payload
        (effective_timeout_seconds ''Ollama'' (oc_timeout_seconds client) timeout_seconds)) (\<lambda>reply.
      case reply of
        Inl failure \<Rightarrow> raiseM (provider_failure ''Ollama'' (ollama_format_http_error lib) failure)
      | Inr response \<Rightarrow> liftE (ollama_response lib client messages use_native_tools response))))"

text \<open>One line of a stream: the content, and whether it was the last.\<close>

definition ollama_line :: "model_lib \<Rightarrow> string \<Rightarrow> exn + string \<times> bool" where
  "ollama_line lib line =
     (case ml_loads lib line of
        Inl e \<Rightarrow> Inl (if is_json_decode_error e then ollama_protocol_error ''JSONDecodeError'' else e)
      | Inr (PDict body) \<Rightarrow>
          (case dget body ''error'' of
             PStr (ch # m) \<Rightarrow> Inl (model_provider_error (''Ollama request failed: '' @ (ch # m)) True)
           | _ \<Rightarrow>
               (case (case map_of body ''message'' of None \<Rightarrow> PDict [] | Some v \<Rightarrow> v) of
                  PDict message \<Rightarrow>
                    (case (case map_of message ''content'' of None \<Rightarrow> PStr [] | Some v \<Rightarrow> v) of
                       PStr content \<Rightarrow> Inr (content, dget body ''done'' = PBool True)
                     | _ \<Rightarrow> Inl (ollama_protocol_error ''TypeError''))
                | _ \<Rightarrow> Inl (ollama_protocol_error ''TypeError'')))
      | Inr _ \<Rightarrow> Inl (ollama_protocol_error ''TypeError''))"

fun ollama_stream_lines ::
  "model_lib \<Rightarrow> (string, 'o, 'x) sink \<Rightarrow> (http_failure + string option) py list \<Rightarrow> ('o, 'x, unit) gen" where
  "ollama_stream_lines lib consumer [] = returnM ()"
| "ollama_stream_lines lib consumer (raw_line # lines) =
     bindM (callG raw_line) (\<lambda>line.
     case line of
       Inl failure \<Rightarrow> raiseM (Inl (provider_failure ''Ollama'' (ollama_format_http_error lib) failure))
     | Inr None \<Rightarrow> raiseM (Inl (ValueError ''invalid utf-8''))
     | Inr (Some s) \<Rightarrow>
         if strip s = [] then ollama_stream_lines lib consumer lines
         else
           bindM (callG (liftE (ollama_line lib (strip s)))) (\<lambda>(content, finished).
           bindM (if content \<noteq> [] then yieldG consumer content else returnM ()) (\<lambda>_.
           if finished then returnM () else ollama_stream_lines lib consumer lines)))"

definition ollama_stream_text ::
  "model_lib \<Rightarrow> ollama_model_client \<Rightarrow> (string, 'o, 'x) sink \<Rightarrow> model_message list \<Rightarrow> pydict list \<Rightarrow> ('o, 'x, unit) gen" where
  "ollama_stream_text lib client consumer messages tools =
     (if tools \<noteq> [] then
        bindM (callG (ollama_invoke lib client messages tools None)) (\<lambda>response.
        yieldG consumer (mr_content response))
      else
        (let payload = [(''model'', PStr (oc_model client)),
               (''messages'', PList (map PDict (to_plain_ollama_messages messages))), (''stream'', PBool True), no_temperature] in
         bindM (callG (liftE (float_of_int (oc_timeout_seconds client)))) (\<lambda>timeout.
         ollama_stream_lines lib consumer
           (ml_urlopen_lines lib (oc_base_url client @ ''/api/chat'') JSON_CONTENT (PDict payload) timeout))))"

section \<open>OpenAI-compatible services\<close>

record openai_model_client =
  ol_model :: string
  ol_base_url :: string
  ol_api_key :: "string option"
  ol_timeout_seconds :: int
  ol_tool_calling :: tool_calling_mode

text \<open>\<open>api_key or (os.environ.get(api_key_env) if api_key_env else None)\<close>.\<close>

definition openai_model_client_init ::
  "(string \<Rightarrow> string option) \<Rightarrow> string \<Rightarrow> string \<Rightarrow> string option \<Rightarrow> string option \<Rightarrow> int \<Rightarrow> pyval \<Rightarrow> exn + openai_model_client" where
  "openai_model_client_init environ model base_url api_key api_key_env timeout_seconds tool_calling =
     bindE (resolve_tool_calling_mode tool_calling ''openai_compatible'' NATIVE [NATIVE, NO_TOOLS]) (\<lambda>mode.
     Inr \<lparr>ol_model = model, ol_base_url = rstrip_slash base_url,
       ol_api_key = (case api_key of
           Some (ch # key) \<Rightarrow> Some (ch # key)
         | _ \<Rightarrow> (case api_key_env of Some (ch # name) \<Rightarrow> environ (ch # name) | _ \<Rightarrow> None)),
       ol_timeout_seconds = timeout_seconds, ol_tool_calling = mode\<rparr>)"

definition openai_headers :: "openai_model_client \<Rightarrow> pydict" where
  "openai_headers client =
     JSON_CONTENT @
     (case ol_api_key client of Some (ch # key) \<Rightarrow> [(''Authorization'', PStr (''Bearer '' @ (ch # key)))] | _ \<Rightarrow> [])"

definition openai_format_http_error :: "int \<Rightarrow> string \<Rightarrow> string option \<Rightarrow> exn + string" where
  "openai_format_http_error code reason body =
     (let text = error_body body in
      Inr (http_status_text ''OpenAI-compatible'' code reason @ (if text = [] then [] else '': '' @ take 1000 text)))"

definition to_openai_tool_call :: "model_lib \<Rightarrow> pydict \<Rightarrow> exn + pydict" where
  "to_openai_tool_call lib tool_call =
     (let arguments = py_or (dget tool_call ''args'') (py_or (dget tool_call ''arguments'') (PDict [])) in
      bindE
        (case arguments of
           PStr s \<Rightarrow> Inr s
         | v \<Rightarrow> if json_ok v then Inr (ml_dumps lib v) else Inl (TypeError ''Object is not JSON serializable'')) (\<lambda>text.
      Inr [(''id'', PStr (py_str (ml_repr lib) (py_or (dget tool_call ''id'') (PStr ''unknown_tool_call'')))),
        (''type'', PStr ''function''),
        (''function'', PDict
          [(''name'', PStr (py_str (ml_repr lib) (py_or (dget tool_call ''name'') (PStr [])))), (''arguments'', PStr text)])]))"

definition to_openai_message :: "model_lib \<Rightarrow> model_message \<Rightarrow> exn + pydict" where
  "to_openai_message lib message =
     (if mm_role message = ''tool'' then
        Inr [(''role'', PStr ''tool''), (''content'', PStr (mm_content message)),
          (''tool_call_id'', PStr (case mm_tool_call_id message of
             Some (ch # i) \<Rightarrow> ch # i
           | _ \<Rightarrow> (case mm_name message of Some (ch # n) \<Rightarrow> ch # n | _ \<Rightarrow> ''unknown_tool_call'')))]
      else if mm_role message = ''assistant'' \<and> mm_tool_calls message \<noteq> [] then
        bindE (sum_list_of (map (to_openai_tool_call lib) (mm_tool_calls message))) (\<lambda>calls.
        Inr [(''role'', PStr (mm_role message)),
          (''content'', if mm_content message = [] then PNone else PStr (mm_content message)),
          (''tool_calls'', PList (map PDict calls))])
      else Inr (role_content message))"

definition openai_protocol_error :: "string \<Rightarrow> string \<Rightarrow> exn" where
  "openai_protocol_error exception_text raw =
     model_protocol_error (''Invalid OpenAI-compatible response: '' @ exception_text @ ''; raw='' @ take 1000 raw)"

text \<open>\<open>body["choices"][0]["message"]\<close>; the texts of the exceptions are those of the exceptions here.\<close>

definition openai_message :: "pyval \<Rightarrow> exn + pyval" where
  "openai_message body =
     (case body of
        PDict d \<Rightarrow>
          (case map_of d ''choices'' of
             None \<Rightarrow> Inl (KeyError ''choices'')
           | Some (PList []) \<Rightarrow> Inl (IndexError ''list index out of range'')
           | Some (PList (PDict choice # _)) \<Rightarrow>
               (case map_of choice ''message'' of None \<Rightarrow> Inl (KeyError ''message'') | Some v \<Rightarrow> Inr v)
           | Some (PDict _) \<Rightarrow> Inl (KeyError ''0'')
           | Some (PStr []) \<Rightarrow> Inl (IndexError ''string index out of range'')
           | Some _ \<Rightarrow> Inl (TypeError ''object is not subscriptable''))
      | _ \<Rightarrow> Inl (TypeError ''object is not subscriptable''))"

fun is_openai_envelope_error :: "exn \<Rightarrow> bool" where
  "is_openai_envelope_error (IndexError _) = True"
| "is_openai_envelope_error e = (envelope_error_name e \<noteq> None)"

text \<open>The calls of a message, where the argument says whether tools were offered.\<close>

definition openai_calls :: "model_lib \<Rightarrow> bool \<Rightarrow> pyval \<Rightarrow> exn + tool_call list" where
  "openai_calls lib offered calls = (case calls of
     PNone \<Rightarrow> Inr []
   | tool_calls \<Rightarrow>
       if \<not> offered then
         Inl (model_protocol_error
           ''Invalid OpenAI-compatible response: native tool calls were returned when tools were unavailable.'')
       else parse_function_tool_calls (ml_loads lib) ''OpenAI-compatible'' tool_calls)"

definition openai_response ::
  "model_lib \<Rightarrow> openai_model_client \<Rightarrow> pydict list \<Rightarrow> string option \<Rightarrow> exn + model_response" where
  "openai_response lib client tools response =
     (case response of
        None \<Rightarrow> Inl (model_protocol_error ''Invalid OpenAI-compatible response: response body is not UTF-8'')
      | Some raw \<Rightarrow>
          (case bindE (ml_loads lib raw) openai_message of
             Inl e \<Rightarrow> Inl (if is_openai_envelope_error e then openai_protocol_error (exn_text e) raw else e)
           | Inr (PDict message) \<Rightarrow>
               bindE (openai_calls lib (ol_tool_calling client = NATIVE \<and> tools \<noteq> []) (dget message ''tool_calls'')) (\<lambda>parsed.
               if parsed \<noteq> [] then Inr (model_response_from_tool_calls parsed)
               else
                 (case dget message ''content'' of
                    PStr content \<Rightarrow> Inr \<lparr>mr_content = content, mr_tool_calls = []\<rparr>
                  | _ \<Rightarrow> Inl (openai_protocol_error
                      ''message.content must be a string when no tool calls are returned'' raw)))
           | Inr _ \<Rightarrow> Inl (openai_protocol_error ''choices[0].message must be an object'' raw)))"

definition openai_payload :: "model_lib \<Rightarrow> openai_model_client \<Rightarrow> model_message list \<Rightarrow> pydict list \<Rightarrow> exn + pydict" where
  "openai_payload lib client messages tools =
     bindE (sum_list_of (map (to_openai_message lib) messages)) (\<lambda>ms.
     bindE (if tools \<noteq> [] \<and> ol_tool_calling client = NATIVE then sum_list_of (map to_function_tool tools) else Inr []) (\<lambda>functions.
     Inr ([(''model'', PStr (ol_model client)), (''messages'', PList (map PDict ms)), (''temperature'', PInt 0)] @
       (if functions = [] then [] else [(''tools'', PList (map PDict functions)), (''tool_choice'', PStr ''auto'')]))))"

definition openai_invoke ::
  "model_lib \<Rightarrow> openai_model_client \<Rightarrow> model_message list \<Rightarrow> pydict list \<Rightarrow> pyfloat option \<Rightarrow> model_response py" where
  "openai_invoke lib client messages tools timeout_seconds =
     bindM (liftE (openai_payload lib client messages tools)) (\<lambda>payload.
     bindM (post_model lib (ol_base_url client @ ''/chat/completions'') (openai_headers client) payload
       (effective_timeout_seconds ''OpenAI-compatible'' (ol_timeout_seconds client) timeout_seconds)) (\<lambda>reply.
     case reply of
       Inl failure \<Rightarrow> raiseM (provider_failure ''OpenAI-compatible'' openai_format_http_error failure)
     | Inr response \<Rightarrow> liftE (openai_response lib client tools response)))"

section \<open>The adapters of the graph\<close>

definition to_project_message :: "(pyval \<Rightarrow> string) \<Rightarrow> agent_message \<Rightarrow> model_message" where
  "to_project_message repr message =
     (let plain = (\<lambda>role content. \<lparr>mm_role = role, mm_content = py_str repr content, mm_name = None,
            mm_tool_call_id = None, mm_tool_calls = []\<rparr>) in
      case message of
        GraphHuman content \<Rightarrow> plain ''user'' content
      | GraphAI m \<Rightarrow> (plain ''assistant'' (ai_content m))\<lparr>mm_tool_calls := ai_tool_calls m\<rparr>
      | GraphTool m \<Rightarrow> (plain ''tool'' (tmsg_content m))\<lparr>mm_name := tmsg_name m, mm_tool_call_id := Some (tmsg_tool_call_id m)\<rparr>
      | GraphSystem content \<Rightarrow> plain ''system'' content)"

definition execution_timeout_seconds :: "runtime_lib \<Rightarrow> pyfloat option py" where
  "execution_timeout_seconds rlib =
     bindM current_execution_context (\<lambda>current.
     case current of
       None \<Rightarrow> returnM None
     | Some cx \<Rightarrow>
         bindM (context_canceled cx) (\<lambda>canceled.
         bindM (raise_if canceled (model_provider_error ''Model invocation was canceled before it started.'' False)) (\<lambda>_.
         remaining_seconds rlib cx None)))"

definition adapter_tool_call :: "tool_call \<Rightarrow> pydict py" where
  "adapter_tool_call call =
     bindM (case tc_id call of Some (ch # i) \<Rightarrow> returnM (ch # i) | _ \<Rightarrow> new_id ''call'') (\<lambda>i.
     returnM [(''name'', PStr (tc_name call)), (''args'', PDict (tc_arguments call)), (''id'', PStr i),
       (''type'', PStr ''tool_call'')])"

definition adapter_message :: "model_response \<Rightarrow> ai_message py" where
  "adapter_message response =
     bindM (forM (mr_tool_calls response) adapter_tool_call) (\<lambda>calls.
     returnM \<lparr>ai_content = PStr (mr_content response), ai_tool_calls = calls\<rparr>)"

text \<open>\<open>OllamaModelAdapter.invoke\<close> and \<open>OpenAICompatibleModelAdapter.invoke\<close>, around the client's \<open>invoke\<close>.\<close>

definition adapter_invoke ::
  "(model_message list \<Rightarrow> pydict list \<Rightarrow> pyfloat option \<Rightarrow> model_response py) \<Rightarrow> (pyval \<Rightarrow> string) \<Rightarrow> runtime_lib \<Rightarrow>
    agent_message list \<Rightarrow> tool list \<Rightarrow> ai_message py" where
  "adapter_invoke client_invoke repr rlib messages tools =
     bindM (execution_timeout_seconds rlib) (\<lambda>timeout.
     bindM (client_invoke (map (to_project_message repr) messages) (tool_schemas_from_tools tools) timeout) adapter_message)"

definition ollama_adapter_stream_text ::
  "model_lib \<Rightarrow> ollama_model_client \<Rightarrow> (string, 'o, 'x) sink \<Rightarrow> agent_message list \<Rightarrow> tool list \<Rightarrow> ('o, 'x, unit) gen" where
  "ollama_adapter_stream_text lib client consumer messages tools =
     ollama_stream_text lib client consumer (map (to_project_message (ml_repr lib)) messages) (tool_schemas_from_tools tools)"

section \<open>The factory\<close>

definition option_str :: "string \<Rightarrow> pydict \<Rightarrow> string \<Rightarrow> exn + string option" where
  "option_str provider options key =
     (case dget options key of
        PNone \<Rightarrow> Inr None
      | PStr s \<Rightarrow> Inr (Some s)
      | _ \<Rightarrow> Inl (ValueError (provider @ '' option '' @ [CHR 39] @ key @ [CHR 39] @ '' must be a string'')))"

definition required_option_str :: "string \<Rightarrow> pydict \<Rightarrow> string \<Rightarrow> exn + string" where
  "required_option_str provider options key =
     bindE (option_str provider options key) (\<lambda>value.
     case value of
       Some (ch # s) \<Rightarrow> Inr (ch # s)
     | _ \<Rightarrow> Inl (ValueError (provider @ '' option '' @ [CHR 39] @ key @ [CHR 39] @ '' is required'')))"

text \<open>\<open>int(s)\<close> where \<open>s.isdecimal()\<close> holds.\<close>

definition decimal_value :: "string \<Rightarrow> int option" where
  "decimal_value s =
     (if s \<noteq> [] \<and> list_all (\<lambda>c. of_char c \<in> {48..57 :: nat}) s
      then Some (foldl (\<lambda>n c. 10 * n + int (of_char c - 48)) 0 s) else None)"

definition option_int :: "string \<Rightarrow> pydict \<Rightarrow> string \<Rightarrow> exn + int option" where
  "option_int provider options key =
     (let bad = Inl (ValueError (provider @ '' option '' @ [CHR 39] @ key @ [CHR 39] @ '' must be a positive integer''));
          positive = (\<lambda>i. if i \<le> 0 then bad else Inr (Some i)) in
      case dget options key of
        PNone \<Rightarrow> Inr None
      | PInt i \<Rightarrow> positive i
      | PStr s \<Rightarrow> (case decimal_value (strip s) of Some i \<Rightarrow> positive i | None \<Rightarrow> bad)
      | _ \<Rightarrow> bad)"

definition check_option_names :: "string \<Rightarrow> string list \<Rightarrow> pydict \<Rightarrow> exn + unit" where
  "check_option_names provider allowed options =
     (let unknown = sort (remdups (filter (\<lambda>k. k \<notin> set allowed) (map fst options))) in
      if unknown = [] then Inr ()
      else Inl (ValueError (''unsupported '' @ provider @ '' model option(s): '' @ join_str '', '' unknown)))"

datatype graph_model_client = OllamaModelAdapter ollama_model_client | OpenAICompatibleModelAdapter openai_model_client

definition str_or_none :: "string option \<Rightarrow> pyval" where
  "str_or_none s = (case s of None \<Rightarrow> PNone | Some x \<Rightarrow> PStr x)"

definition build_graph_model_client ::
  "(string \<Rightarrow> string option) \<Rightarrow> string \<Rightarrow> pydict \<Rightarrow> exn + graph_model_client" where
  "build_graph_model_client environ provider options =
     (if provider = ''ollama'' then
        bindE (check_option_names ''ollama'' [''model'', ''base_url'', ''timeout_seconds'', ''tool_calling''] options) (\<lambda>_.
        bindE (option_str ''ollama'' options ''model'') (\<lambda>model.
        bindE (option_str ''ollama'' options ''base_url'') (\<lambda>base_url.
        bindE (option_int ''ollama'' options ''timeout_seconds'') (\<lambda>timeout.
        bindE (option_str ''ollama'' options ''tool_calling'') (\<lambda>tool_calling.
        bindE (ollama_model_client_init model base_url timeout (str_or_none tool_calling)) (\<lambda>client.
        Inr (OllamaModelAdapter client)))))))
      else if provider = ''openai_compatible'' then
        bindE (check_option_names ''openai_compatible''
          [''model'', ''base_url'', ''api_key'', ''api_key_env'', ''timeout_seconds'', ''tool_calling''] options) (\<lambda>_.
        bindE (option_int ''openai_compatible'' options ''timeout_seconds'') (\<lambda>timeout.
        bindE (required_option_str ''openai_compatible'' options ''model'') (\<lambda>model.
        bindE (required_option_str ''openai_compatible'' options ''base_url'') (\<lambda>base_url.
        bindE (option_str ''openai_compatible'' options ''api_key'') (\<lambda>api_key.
        bindE (option_str ''openai_compatible'' options ''api_key_env'') (\<lambda>api_key_env.
        bindE (option_str ''openai_compatible'' options ''tool_calling'') (\<lambda>tool_calling.
        bindE (openai_model_client_init environ model base_url api_key api_key_env
          (case timeout of Some t \<Rightarrow> t | None \<Rightarrow> 120) (str_or_none tool_calling)) (\<lambda>client.
        Inr (OpenAICompatibleModelAdapter client)))))))))
      else Inl (ValueError (''unsupported model provider: '' @ provider)))"

text \<open>The model of a graph built with such a client.\<close>

primrec graph_model :: "model_lib \<Rightarrow> runtime_lib \<Rightarrow> graph_model_client \<Rightarrow> agent_message list \<Rightarrow> tool list \<Rightarrow> ai_message py" where
  "graph_model lib rlib (OllamaModelAdapter client) = adapter_invoke (ollama_invoke lib client) (ml_repr lib) rlib"
| "graph_model lib rlib (OpenAICompatibleModelAdapter client) = adapter_invoke (openai_invoke lib client) (ml_repr lib) rlib"

section \<open>What a model may call\<close>

primrec client_mode :: "graph_model_client \<Rightarrow> tool_calling_mode" where
  "client_mode (OllamaModelAdapter client) = oc_tool_calling client"
| "client_mode (OpenAICompatibleModelAdapter client) = ol_tool_calling client"

text \<open>How many calls an answer may have in a mode, where the flag says whether tools were given.\<close>

primrec mode_allows :: "tool_calling_mode \<Rightarrow> bool \<Rightarrow> nat \<Rightarrow> bool" where
  "mode_allows NO_TOOLS given n \<longleftrightarrow> n = 0"
| "mode_allows NATIVE given n \<longleftrightarrow> given \<or> n = 0"
| "mode_allows PROMPT_JSON given n \<longleftrightarrow> n \<le> 1"

text \<open>A call the graph can execute: a name, an object of arguments and an id, none empty but the object.\<close>

definition executable_call :: "pydict \<Rightarrow> bool" where
  "executable_call call \<longleftrightarrow>
     (\<exists>name arguments i. call = [(''name'', PStr name), (''args'', PDict arguments), (''id'', PStr i), (''type'', PStr ''tool_call'')] \<and>
        name \<noteq> [] \<and> i \<noteq> [])"

definition named_calls :: "tool_calling_mode \<Rightarrow> bool \<Rightarrow> model_response \<Rightarrow> bool" where
  "named_calls mode given response \<longleftrightarrow>
     mode_allows mode given (length (mr_tool_calls response)) \<and> list_all (\<lambda>c. tc_name c \<noteq> []) (mr_tool_calls response)"

lemma parsed_calls_named:
  "parse_calls_from loads label i xs = Inr calls \<Longrightarrow> list_all (\<lambda>c. tc_name c \<noteq> []) calls"
  by (induction loads label i xs arbitrary: calls rule: parse_calls_from.induct)
     (auto simp: Let_def bindE_Inr split: pyval.splits list.splits)

lemma function_calls_named:
  "parse_function_tool_calls loads label v = Inr calls \<Longrightarrow> list_all (\<lambda>c. tc_name c \<noteq> []) calls"
  by (auto simp: parse_function_tool_calls_def split: pyval.splits dest: parsed_calls_named)

lemma native_calls_named: "native_calls lib message = Inr calls \<Longrightarrow> list_all (\<lambda>c. tc_name c \<noteq> []) calls"
  by (auto simp: native_calls_def split: pyval.splits dest: function_calls_named)

lemma text_calls_nothing: "ollama_text message = Inr r \<Longrightarrow> mr_tool_calls r = []"
  by (auto simp: ollama_text_def split: pyval.splits)

lemma decision_calls_named:
  "ollama_parse_decision lib d = Inr r \<Longrightarrow> list_all (\<lambda>c. tc_name c \<noteq> []) (mr_tool_calls r) \<and> length (mr_tool_calls r) \<le> 1"
  by (auto simp: ollama_parse_decision_def Let_def split: if_splits pyval.splits list.splits option.splits)

lemma content_calls_named:
  assumes "ollama_parse_content lib s b = Inr r"
  shows "list_all (\<lambda>c. tc_name c \<noteq> []) (mr_tool_calls r) \<and> length (mr_tool_calls r) \<le> 1"
proof -
  obtain found where "parse_json_decision lib s = Inr found"
    using assms by (auto simp: ollama_parse_content_def Let_def bindE_Inr)
  with assms show ?thesis
    by (cases found) (auto simp: ollama_parse_content_def Let_def split: option.splits dest: decision_calls_named)
qed

lemma ollama_response_calls:
  assumes "ollama_response lib client messages (oc_tool_calling client = NATIVE \<and> given) r = Inr response"
  shows "named_calls (oc_tool_calling client) given response"
  using assms
  by (cases "oc_tool_calling client")
     (auto simp: named_calls_def ollama_response_def bindE_Inr ollama_parse_native_response_def
      ollama_parse_plain_response_def model_response_from_tool_calls_def Let_def
      split: option.splits if_splits dest: native_calls_named text_calls_nothing content_calls_named)

lemma openai_calls_named:
  "openai_calls lib offered v = Inr calls \<Longrightarrow> list_all (\<lambda>c. tc_name c \<noteq> []) calls \<and> (calls \<noteq> [] \<longrightarrow> offered)"
  by (auto simp: openai_calls_def split: pyval.splits if_splits dest: function_calls_named)

lemma openai_response_calls:
  assumes "openai_response lib client tools r = Inr response"
  shows "named_calls (ol_tool_calling client) (tools \<noteq> []) response"
proof -
  obtain raw where raw: "r = Some raw" using assms by (cases r) (auto simp: openai_response_def)
  obtain m where m: "bindE (ml_loads lib raw) openai_message = Inr (PDict m)"
    using assms raw by (auto simp: openai_response_def split: sum.splits pyval.splits)
  show ?thesis
    using assms unfolding raw openai_response_def m option.case sum.case pyval.case
    by (cases "ol_tool_calling client") (auto simp: bindE_Inr named_calls_def model_response_from_tool_calls_def Let_def
        split: if_splits pyval.splits dest: openai_calls_named)
qed

lemma adapter_calls:
  "list_all (\<lambda>c. tc_name c \<noteq> []) calls \<Longrightarrow>
     wp (forM calls adapter_tool_call) (\<lambda>cs _. length cs = length calls \<and> list_all executable_call cs) (\<lambda>_ _. True) w"
proof (induction calls arbitrary: w)
  case (Cons call calls w)
  have first: "wp (adapter_tool_call call) (\<lambda>c _. executable_call c) (\<lambda>_ _. True) x" for x
    using Cons.prems by (auto simp: adapter_tool_call_def executable_call_def new_id_def wp_def returnM_def bindM_def
        split: option.split list.split)
  show ?case
    unfolding forM.simps wp_bindM wp_returnM_fun
    by (rule wp_mono [OF first], rule wp_mono [OF Cons.IH]) (use Cons.prems in auto)
qed (simp add: wp_returnM)

lemma adapter_invoke_calls:
  assumes "\<And>ms ts t w. wp (client_invoke ms ts t) (\<lambda>r _. named_calls mode (ts \<noteq> []) r) (\<lambda>_ _. True) w"
  shows "wp (adapter_invoke client_invoke repr rlib messages tools)
    (\<lambda>m _. mode_allows mode (tools \<noteq> []) (length (ai_tool_calls m)) \<and> list_all executable_call (ai_tool_calls m))
    (\<lambda>_ _. True) w"
  unfolding adapter_invoke_def wp_bindM
  by (rule wp_mono [OF wp_ignore], rule wp_mono [OF assms])
     (auto simp: adapter_message_def named_calls_def wp_bindM wp_returnM tool_schemas_from_tools_def elim!: wp_mono [OF adapter_calls])

lemma post_then_read:
  assumes "\<And>r response. read r = Inr response \<Longrightarrow> Q response"
  shows "wp (bindM (post_model lib url headers payload timeout) (\<lambda>reply.
      case reply of Inl failure \<Rightarrow> raiseM (f failure) | Inr response \<Rightarrow> liftE (read response))) (\<lambda>r _. Q r) (\<lambda>_ _. True) w"
  unfolding wp_bindM
  by (rule wp_mono [OF wp_ignore]) (auto simp: wp_rules assms split: sum.split)

text \<open>
  C29. The mode of a client decides whether the model can call tools.  Whatever the service replies, the
  message a client hands to the graph has no tool call in the mode \<open>none\<close>, none in the mode
  \<open>native\<close> when no tools were given, and at most one in the mode \<open>prompt_json\<close>; each call has a
  name, an object of arguments and an id.  The mode \<open>prompt_json\<close> does not look at
  the tools: there a call is accepted even when none were given.
\<close>

theorem model_calls_by_mode:
  "(case graph_model lib rlib client messages tools w of
      (Inl e, w') \<Rightarrow> True
    | (Inr message, w') \<Rightarrow> list_all executable_call (ai_tool_calls message) \<and>
        (case client_mode client of
           NO_TOOLS \<Rightarrow> ai_tool_calls message = []
         | NATIVE \<Rightarrow> tools \<noteq> [] \<or> ai_tool_calls message = []
         | PROMPT_JSON \<Rightarrow> length (ai_tool_calls message) \<le> 1)) \<and>
   (oc_tool_calling oc = PROMPT_JSON \<and> ollama_body lib raw = Inr body \<and> prompt_json_content body = Inr content \<and>
      parse_json_decision lib content = Inr (Some [(''action'', PStr ''tool_call''), (''name'', PStr (ch # name)), (''arguments'', PDict d)]) \<longrightarrow>
    (\<exists>m. ollama_response lib oc ms False (Some raw) =
       Inr \<lparr>mr_content = m, mr_tool_calls = [\<lparr>tc_name = ch # name, tc_arguments = d, tc_id = None\<rparr>]\<rparr>))"
proof
  have "wp (graph_model lib rlib client messages tools)
    (\<lambda>m _. mode_allows (client_mode client) (tools \<noteq> []) (length (ai_tool_calls m)) \<and> list_all executable_call (ai_tool_calls m))
    (\<lambda>_ _. True) w"
  proof (cases client)
    case (OllamaModelAdapter c)
    have "wp (ollama_invoke lib c ms ts t) (\<lambda>r _. named_calls (oc_tool_calling c) (ts \<noteq> []) r) (\<lambda>_ _. True) w" for ms ts t w
      unfolding ollama_invoke_def Let_def wp_bindM [of "liftE _"]
      by (rule wp_mono [OF wp_ignore], rule post_then_read, erule ollama_response_calls, simp)
    from adapter_invoke_calls [where client_invoke = "ollama_invoke lib c", OF this] show ?thesis
      unfolding OllamaModelAdapter graph_model.simps client_mode.simps .
  next
    case (OpenAICompatibleModelAdapter c)
    have "wp (openai_invoke lib c ms ts t) (\<lambda>r _. named_calls (ol_tool_calling c) (ts \<noteq> []) r) (\<lambda>_ _. True) w" for ms ts t w
      unfolding openai_invoke_def wp_bindM [of "liftE _"]
      by (rule wp_mono [OF wp_ignore], rule post_then_read, erule openai_response_calls, simp)
    from adapter_invoke_calls [where client_invoke = "openai_invoke lib c", OF this] show ?thesis
      unfolding OpenAICompatibleModelAdapter graph_model.simps client_mode.simps .
  qed
  then show "case graph_model lib rlib client messages tools w of
      (Inl e, w') \<Rightarrow> True
    | (Inr message, w') \<Rightarrow> list_all executable_call (ai_tool_calls message) \<and>
        (case client_mode client of
           NO_TOOLS \<Rightarrow> ai_tool_calls message = []
         | NATIVE \<Rightarrow> tools \<noteq> [] \<or> ai_tool_calls message = []
         | PROMPT_JSON \<Rightarrow> length (ai_tool_calls message) \<le> 1)"
    by (cases "client_mode client") (auto simp: wp_def split: prod.splits sum.splits)
qed (auto simp: ollama_response_def ollama_parse_content_def ollama_parse_decision_def legacy_final_content_def dget_def Let_def)

section \<open>How an invocation fails\<close>

fun is_model_error :: "exn \<Rightarrow> bool" where
  "is_model_error (AgentError code _ _ _ _) \<longleftrightarrow> code \<in> {MODEL_ERROR, MODEL_PROTOCOL_ERROR}"
| "is_model_error _ = False"

lemma model_errors [simp]: "is_model_error (model_protocol_error m)" "is_model_error (model_provider_error m b)"
  by (simp_all add: model_protocol_error_def model_provider_error_def)

text \<open>
  Other exceptions come out of the arguments of the model: what \<open>json.loads\<close> or \<open>raw_decode\<close> raises that is
  not a \<open>JSONDecodeError\<close> (\<open>RecursionError\<close> for a deeply nested text, \<open>ValueError\<close> for an integer with too
  many digits), and what the exchange raises that \<open>urlopen\<close> does not wrap (a body that ends too
  early, a connection that is reset while the body is read).
\<close>

definition decoder_raises :: "model_lib \<Rightarrow> exn \<Rightarrow> bool" where
  "decoder_raises lib e \<longleftrightarrow>
     \<not> is_json_decode_error e \<and> (\<exists>text. ml_loads lib text = Inl e \<or> ml_raw_decode lib text = Inl e)"

definition transport_raises :: "model_lib \<Rightarrow> exn \<Rightarrow> bool" where
  "transport_raises lib e \<longleftrightarrow> (\<exists>url headers payload t w w'. ml_urlopen lib url headers payload t w = (Inl e, w'))"

text \<open>The request cannot be built: a tool without a name, a payload that is not JSON, or a timeout too large.\<close>

definition unbuildable :: "(exn + pydict) \<Rightarrow> int \<Rightarrow> exn \<Rightarrow> bool" where
  "unbuildable payload timeout_seconds e \<longleftrightarrow> payload = Inl e \<or>
     (\<exists>p. payload = Inr p \<and> \<not> json_ok (PDict p) \<and> e = TypeError ''Object is not JSON serializable'') \<or>
     float_of_int timeout_seconds = Inl e"

text \<open>An Ollama error body that is JSON but not an object.\<close>

definition strange_error_body :: "model_lib \<Rightarrow> string \<Rightarrow> bool" where
  "strange_error_body lib body \<longleftrightarrow> body \<noteq> [] \<and> (\<exists>v. ml_loads lib body = Inr v \<and> (\<forall>d. v \<noteq> PDict d))"

definition reading_failure :: "model_lib \<Rightarrow> exn \<Rightarrow> bool" where
  "reading_failure lib e \<longleftrightarrow> is_model_error e \<or> decoder_raises lib e"

lemma model_error_reading [simp]: "is_model_error e \<Longrightarrow> reading_failure lib e"
  by (simp add: reading_failure_def)

lemma decoder_reading:
  "ml_loads lib s = Inl e \<Longrightarrow> \<not> is_json_decode_error e \<Longrightarrow> reading_failure lib e"
  "ml_raw_decode lib s = Inl e \<Longrightarrow> \<not> is_json_decode_error e \<Longrightarrow> reading_failure lib e"
  by (auto simp: reading_failure_def decoder_raises_def)

lemma bindE_Inl: "bindE r f = Inl e \<longleftrightarrow> r = Inl e \<or> (\<exists>a. r = Inr a \<and> f a = Inl e)"
  by (cases r) auto

lemma arguments_fail:
  "parse_function_arguments (ml_loads lib) label i v = Inl e \<Longrightarrow> reading_failure lib e"
  by (auto simp: parse_function_arguments_def tool_call_error_def Let_def
      split: pyval.splits list.splits sum.splits if_splits intro: decoder_reading)

lemma calls_fail:
  "parse_calls_from loads label i xs = Inl e \<Longrightarrow> loads = ml_loads lib \<Longrightarrow> reading_failure lib e"
  by (induction loads label i xs arbitrary: e rule: parse_calls_from.induct)
     (auto simp: Let_def bindE_Inl tool_call_error_def split: pyval.splits list.splits dest: arguments_fail)

lemma function_calls_fail:
  "parse_function_tool_calls (ml_loads lib) label v = Inl e \<Longrightarrow> reading_failure lib e"
  by (auto simp: parse_function_tool_calls_def tool_call_error_def split: pyval.splits dest: calls_fail)

lemma reading_fails:
  "native_calls lib m = Inl e \<Longrightarrow> reading_failure lib e"
  "ollama_message body = Inl e \<Longrightarrow> reading_failure lib e" "ollama_text m = Inl e \<Longrightarrow> reading_failure lib e"
  "openai_calls lib b v = Inl e \<Longrightarrow> reading_failure lib e"
  "prompt_json_content body = Inl e \<Longrightarrow> reading_failure lib e" "ollama_parse_decision lib d = Inl e \<Longrightarrow> reading_failure lib e"
  by (auto simp: native_calls_def ollama_message_def ollama_text_def openai_calls_def prompt_json_content_def
      ollama_parse_decision_def ollama_protocol_error_def Let_def
      split: pyval.splits if_splits option.splits list.splits dest: function_calls_fail)

lemma decoding_fails:
  "decode_json_object (ml_loads lib) s = Inl e \<Longrightarrow> reading_failure lib e"
  "extract_embedded_action (ml_raw_decode lib) s = Inl e \<Longrightarrow> reading_failure lib e"
proof -
  show "decode_json_object (ml_loads lib) s = Inl e \<Longrightarrow> reading_failure lib e"
    by (auto simp: decode_json_object_def split: sum.splits pyval.splits if_splits intro: decoder_reading)
  show "extract_embedded_action (ml_raw_decode lib) s = Inl e \<Longrightarrow> reading_failure lib e"
    by (induction s) (auto split: sum.splits pyval.splits if_splits intro: decoder_reading)
qed

lemma content_fails:
  assumes "ollama_parse_content lib s b = Inl e"
  shows "reading_failure lib e"
proof (cases "parse_json_decision lib s")
  case (Inl x)
  then have "reading_failure lib x"
    by (auto simp: parse_json_decision_def Let_def bindE_Inl split: if_splits dest: decoding_fails)
  with assms Inl show ?thesis by (simp add: ollama_parse_content_def Let_def)
next
  case (Inr found)
  with assms show ?thesis
    by (cases found) (auto simp: ollama_parse_content_def Let_def split: option.splits dest: reading_fails)
qed

lemma ollama_body_fails:
  assumes "ollama_body lib raw = Inl e"
  shows "reading_failure lib e"
proof (cases "ml_loads lib raw")
  case (Inl x)
  then show ?thesis using assms by (cases x) (auto simp: ollama_body_def ollama_protocol_error_def intro: decoder_reading)
next
  case (Inr v)
  then show ?thesis using assms
    by (auto simp: ollama_body_def ollama_protocol_error_def split: pyval.splits list.splits)
qed

lemma ollama_response_fails:
  assumes "ollama_response lib client messages native r = Inl e"
  shows "reading_failure lib e"
proof (cases r)
  case None
  then show ?thesis using assms by (auto simp: ollama_response_def)
next
  case (Some raw)
  show ?thesis
    using assms
    by (auto simp: Some ollama_response_def bindE_Inl ollama_parse_native_response_def ollama_parse_plain_response_def
        split: if_splits dest: reading_fails ollama_body_fails content_fails)
qed

lemma envelope_never_else:
  assumes "bindE (ml_loads lib raw) openai_message = Inl e" and "\<not> is_openai_envelope_error e"
  shows "reading_failure lib e"
proof (cases "ml_loads lib raw")
  case (Inl x)
  then show ?thesis using assms by (cases x) (auto intro: decoder_reading)
next
  case (Inr v)
  then show ?thesis using assms by (auto simp: openai_message_def split: pyval.splits list.splits option.splits)
qed

lemma openai_response_fails:
  assumes "openai_response lib client tools r = Inl e"
  shows "reading_failure lib e"
proof (cases r)
  case None
  then show ?thesis using assms by (auto simp: openai_response_def)
next
  case (Some raw)
  show ?thesis
  proof (cases "bindE (ml_loads lib raw) openai_message")
    case (Inl x)
    then show ?thesis using assms envelope_never_else [OF Inl]
      by (cases "is_openai_envelope_error x") (auto simp: Some openai_response_def openai_protocol_error_def)
  next
    case (Inr v)
    show ?thesis using assms unfolding Some openai_response_def Inr option.case sum.case
      by (auto simp: bindE_Inl openai_protocol_error_def split: pyval.splits if_splits dest: reading_fails)
  qed
qed

lemma timeout_fails:
  "effective_timeout_seconds label timeout given = Inl e \<Longrightarrow> is_model_error e \<or> float_of_int timeout = Inl e"
  by (auto simp: effective_timeout_seconds_def bindE_Inl split: option.splits if_splits)

text \<open>What an invocation raises, from what its parts raise.\<close>

lemma invocation_fails:
  assumes "\<And>failure. P (provider failure)" and "\<And>r e. read r = Inl e \<Longrightarrow> P e"
    and "\<And>e. is_model_error e \<or> transport_raises lib e \<or> unbuildable payload timeout e \<Longrightarrow> P e"
  shows "wp (bindM (liftE payload) (\<lambda>p. bindM (post_model lib url headers p (effective_timeout_seconds label timeout given)) (\<lambda>reply.
      case reply of Inl failure \<Rightarrow> raiseM (provider failure) | Inr response \<Rightarrow> liftE (read response)))) (\<lambda>_ _. True) (\<lambda>e _. P e) w"
proof -
  have reply: "wp (case reply of Inl failure \<Rightarrow> raiseM (provider failure) | Inr response \<Rightarrow> liftE (read response))
      (\<lambda>_ _. True) (\<lambda>e _. P e) w'" for reply w'
    using assms(1,2) by (auto simp: wp_rules split: sum.split)
  have sent: "wp (ml_urlopen lib url headers (PDict p) t) (\<lambda>_ _. True) (\<lambda>e _. P e) w'" for p t w'
    using assms(3) by (fastforce simp: wp_def transport_raises_def split: prod.split sum.split)
  have "wp (bindM (post_model lib url headers p (effective_timeout_seconds label timeout given)) (\<lambda>reply.
      case reply of Inl failure \<Rightarrow> raiseM (provider failure) | Inr response \<Rightarrow> liftE (read response))) (\<lambda>_ _. True) (\<lambda>e _. P e) w"
    if "payload = Inr p" for p
    unfolding wp_bindM [of "post_model _ _ _ _ _"] post_model_def
    using that assms(3) timeout_fails [of label timeout given]
    by (auto simp: wp_rules unbuildable_def intro!: wp_mono [OF sent] reply split: sum.split)
  then show ?thesis
    using assms(3) unfolding wp_bindM [of "liftE _"]
    by (cases payload) (auto simp: wp_rules unbuildable_def)
qed

lemma openai_provider_failure: "is_model_error (provider_failure ''OpenAI-compatible'' openai_format_http_error failure)"
  by (auto simp: provider_failure_def openai_format_http_error_def Let_def split: http_failure.splits)

lemma ollama_provider_failure:
  "reading_failure lib (provider_failure ''Ollama'' (ollama_format_http_error lib) failure) \<or>
   (\<exists>code reason body m. failure = HTTPError code reason (Some body) \<and> strange_error_body lib body \<and>
      provider_failure ''Ollama'' (ollama_format_http_error lib) failure = AttributeError m)"
proof (cases failure)
  case (HTTPError code reason body)
  show ?thesis
    unfolding HTTPError provider_failure_def http_failure.case
    by (auto simp: ollama_format_http_error_def Let_def error_body_def strange_error_body_def
        split: option.splits sum.splits pyval.splits if_splits intro: decoder_reading)
qed (auto simp: provider_failure_def)

text \<open>
  C30. How an invocation of a model fails.  Whatever the service replies and the transport does, an exception of
  \<open>OpenAICompatibleModelClient.invoke\<close> is a provider error or a protocol error of the model, unless the
  request could not be built, the exchange raised an exception of its own that \<open>urlopen\<close> does not
  wrap, or the JSON decoder raised another exception than \<open>JSONDecodeError\<close>.  The same holds of
  \<open>OllamaModelClient.invoke\<close>, with one more case, which the last part shows to be real: an HTTP error of the
  service whose body is JSON but not an object makes the formatting of that error raise
  \<open>AttributeError\<close>, and the provider error is lost.
\<close>

theorem model_failures_classified:
  "wp (openai_invoke lib ol messages tools timeout) (\<lambda>_ _. True)
     (\<lambda>e _. is_model_error e \<or> decoder_raises lib e \<or> transport_raises lib e \<or>
        unbuildable (openai_payload lib ol messages tools) (ol_timeout_seconds ol) e) w \<and>
   wp (ollama_invoke lib oc messages tools timeout) (\<lambda>_ _. True)
     (\<lambda>e _. is_model_error e \<or> decoder_raises lib e \<or> transport_raises lib e \<or>
        unbuildable (ollama_invoke_payload lib oc messages tools (oc_tool_calling oc = NATIVE \<and> tools \<noteq> []))
          (oc_timeout_seconds oc) e \<or>
        (\<exists>m body. e = AttributeError m \<and> strange_error_body lib body)) w \<and>
   (\<forall>p t code reason body w'.
      ollama_invoke_payload lib oc messages tools (oc_tool_calling oc = NATIVE \<and> tools \<noteq> []) = Inr p \<and> json_ok (PDict p) \<and>
      effective_timeout_seconds ''Ollama'' (oc_timeout_seconds oc) timeout = Inr t \<and>
      ml_urlopen lib (oc_base_url oc @ ''/api/chat'') JSON_CONTENT (PDict p) t w = (Inr (Inl (HTTPError code reason (Some body))), w') \<and>
      strange_error_body lib body \<longrightarrow>
      (\<exists>m. ollama_invoke lib oc messages tools timeout w = (Inl (AttributeError m), w')))"
proof (intro conjI)
  show "wp (openai_invoke lib ol messages tools timeout) (\<lambda>_ _. True)
     (\<lambda>e _. is_model_error e \<or> decoder_raises lib e \<or> transport_raises lib e \<or>
        unbuildable (openai_payload lib ol messages tools) (ol_timeout_seconds ol) e) w"
    unfolding openai_invoke_def
  proof (rule invocation_fails, goal_cases)
    case (2 r e)
    then show ?case using openai_response_fails [OF 2] by (auto simp: reading_failure_def)
  qed (use openai_provider_failure in auto)
  show "wp (ollama_invoke lib oc messages tools timeout) (\<lambda>_ _. True)
     (\<lambda>e _. is_model_error e \<or> decoder_raises lib e \<or> transport_raises lib e \<or>
        unbuildable (ollama_invoke_payload lib oc messages tools (oc_tool_calling oc = NATIVE \<and> tools \<noteq> []))
          (oc_timeout_seconds oc) e \<or>
        (\<exists>m body. e = AttributeError m \<and> strange_error_body lib body)) w"
    unfolding ollama_invoke_def Let_def
  proof (rule invocation_fails, goal_cases)
    case (1 failure)
    then show ?case using ollama_provider_failure [of lib failure] by (auto simp: reading_failure_def)
  next
    case (2 r e)
    then show ?case using ollama_response_fails [OF 2] by (auto simp: reading_failure_def)
  qed auto
qed (auto simp: ollama_invoke_def post_model_def provider_failure_def ollama_format_http_error_def error_body_def
    strange_error_body_def bindM_def liftE_def returnM_def raise_if_def raiseM_def Let_def split: pyval.split)

definition sample_model_lib :: model_lib where
  "sample_model_lib = \<lparr>ml_urlopen = \<lambda>url headers payload t. returnM (Inr None),
     ml_urlopen_lines = \<lambda>url headers payload t. [],
     ml_loads = \<lambda>s. if s = ''[]'' then Inr (PList []) else if s = ''{}'' then Inr (PDict []) else Inl (JSONDecodeError []),
     ml_raw_decode = \<lambda>s. Inl (JSONDecodeError []), ml_dumps = \<lambda>v. ''{}'', ml_dumps_indented = \<lambda>v. ''{}'', ml_repr = \<lambda>v. ''v''\<rparr>"

text \<open>A service that answers every request with an HTTP error whose body is an empty list.\<close>

definition failing_lib :: model_lib where
  "failing_lib = sample_model_lib\<lparr>ml_urlopen :=
     \<lambda>url headers payload t. returnM (Inl (HTTPError 502 ''Bad Gateway'' (Some ''[]'')))\<rparr>"

definition plain_client :: ollama_model_client where
  "plain_client = \<lparr>oc_model = ''m'', oc_base_url = ''http://127.0.0.1:11434'', oc_timeout_seconds = 120, oc_tool_calling = NO_TOOLS\<rparr>"

lemma failing_request:
  "case ollama_invoke_payload failing_lib plain_client [] [] False of Inl e \<Rightarrow> False | Inr p \<Rightarrow> json_ok (PDict p)"
  by code_simp

lemma failing_timeout: "effective_timeout_seconds ''Ollama'' 120 (Some (Fin 5)) = Inr (Fin 5)"
proof -
  have "floorlog 2 120 = 7" by code_simp
  then have "float_of_int 120 = Inr (Fin 120)" by (simp add: float_of_int_def round_shift_def)
  then show ?thesis by (simp add: effective_timeout_seconds_def float_le_def)
qed

theorem model_failures_classified_witness:
  "\<exists>m. ollama_invoke failing_lib plain_client [] [] (Some (Fin 5)) (world_of empty_tables) =
     (Inl (AttributeError m), world_of empty_tables)"
proof -
  obtain p where p: "ollama_invoke_payload failing_lib plain_client [] [] False = Inr p" "json_ok (PDict p)"
    using failing_request by (auto split: sum.splits)
  have "ml_urlopen failing_lib (oc_base_url plain_client @ ''/api/chat'') JSON_CONTENT (PDict p) (Fin 5) (world_of empty_tables) =
      (Inr (Inl (HTTPError 502 ''Bad Gateway'' (Some ''[]''))), world_of empty_tables)"
    by (simp add: failing_lib_def returnM_def)
  moreover have "strange_error_body failing_lib ''[]''"
    by (simp add: strange_error_body_def failing_lib_def sample_model_lib_def)
  moreover have "effective_timeout_seconds ''Ollama'' (oc_timeout_seconds plain_client) (Some (Fin 5)) = Inr (Fin 5)"
    using failing_timeout by (simp add: plain_client_def)
  ultimately show ?thesis
    using p model_failures_classified [where lib = failing_lib and oc = plain_client and messages = "[]" and tools = "[]"
        and timeout = "Some (Fin 5)" and w = "world_of empty_tables", THEN conjunct2, THEN conjunct2]
    by auto
qed

text \<open>A service that calls a tool in the mode \<open>prompt_json\<close>.\<close>

definition calling_lib :: model_lib where
  "calling_lib = sample_model_lib\<lparr>ml_loads := \<lambda>s.
     if s = ''reply'' then Inr (PDict [(''message'', PDict [(''content'', PStr ''call'')])])
     else if s = ''call'' then Inr (PDict [(''action'', PStr ''tool_call''), (''name'', PStr ''wipe''), (''arguments'', PDict [])])
     else Inl (JSONDecodeError [])\<rparr>"

theorem model_calls_by_mode_witness:
  "\<exists>m. ollama_response calling_lib (plain_client\<lparr>oc_tool_calling := PROMPT_JSON\<rparr>) [] False (Some ''reply'') =
     Inr \<lparr>mr_content = m, mr_tool_calls = [\<lparr>tc_name = ''wipe'', tc_arguments = [], tc_id = None\<rparr>]\<rparr>"
proof -
  have "ollama_body calling_lib ''reply'' = Inr [(''message'', PDict [(''content'', PStr ''call'')])]"
    by (simp add: ollama_body_def calling_lib_def dget_def)
  moreover have "prompt_json_content [(''message'', PDict [(''content'', PStr ''call'')])] = Inr ''call''"
    by (simp add: prompt_json_content_def)
  moreover have "parse_json_decision calling_lib ''call'' =
      Inr (Some [(''action'', PStr ''tool_call''), (''name'', PStr ''wipe''), (''arguments'', PDict [])])"
    by code_simp
  ultimately show ?thesis
    using model_calls_by_mode [where lib = calling_lib and oc = "plain_client\<lparr>oc_tool_calling := PROMPT_JSON\<rparr>", THEN conjunct2]
    by simp
qed

text \<open>
  A compatible service that always sends the key \<open>tool_calls\<close> is refused when no tools were offered, even though its
  list is empty; the Ollama client accepts the same message.
\<close>

lemma empty_calls_refused:
  "openai_calls lib False (PList []) = Inl (model_protocol_error
     ''Invalid OpenAI-compatible response: native tool calls were returned when tools were unavailable.'')"
  "ollama_parse_plain_response lib [(''message'', PDict [(''content'', PStr s), (''tool_calls'', PList [])])] =
     Inr \<lparr>mr_content = s, mr_tool_calls = []\<rparr>"
  by (simp_all add: openai_calls_def ollama_parse_plain_response_def ollama_message_def native_calls_def
      parse_function_tool_calls_def ollama_text_def dget_def)

section \<open>Time\<close>

text \<open>
  A Task can only shorten the time a model call is given.  The timeout of a request is
  never above the limit configured for the provider; with a deadline, it is positive and
  never above the time that remains.
\<close>

theorem model_timeout_bounded:
  assumes "effective_timeout_seconds label timeout override = Inr t"
  shows "\<exists>limit. float_of_int timeout = Inr limit \<and> (t = limit \<or> float_less t limit) \<and>
    (\<forall>r. override = Some (Fin r) \<longrightarrow> 0 < r \<and> (\<exists>x. t = Fin x \<and> x \<le> r))"
proof -
  obtain limit where limit: "float_of_int timeout = Inr limit"
    using assms by (auto simp: effective_timeout_seconds_def bindE_Inr split: option.splits if_splits)
  then obtain l where l: "limit = Fin l" by (auto simp: float_of_int_def Let_def split: if_splits)
  show ?thesis
    using assms limit
    by (auto simp: l effective_timeout_seconds_def bindE_Inr float_le_def split: option.splits if_splits)
qed

theorem model_timeout_bounded_witness:
  "effective_timeout_seconds ''Ollama'' 120 (Some (Fin 5)) = Inr (Fin 5) \<and> (0 :: rat) < 5"
  using model_timeout_bounded [OF failing_timeout] failing_timeout by auto

section \<open>Calls on the wire\<close>

definition wire_call :: "tool_call \<Rightarrow> pydict" where
  "wire_call c = [(''name'', PStr (tc_name c)), (''args'', PDict (tc_arguments c)), (''id'', PStr (the (tc_id c))), (''type'', PStr ''tool_call'')]"

definition sendable :: "model_lib \<Rightarrow> tool_call \<Rightarrow> bool" where
  "sendable lib c \<longleftrightarrow> tc_name c \<noteq> [] \<and> tc_id c \<noteq> None \<and> tc_id c \<noteq> Some [] \<and> json_ok (PDict (tc_arguments c)) \<and>
     ml_dumps lib (PDict (tc_arguments c)) \<noteq> [] \<and> ml_loads lib (ml_dumps lib (PDict (tc_arguments c))) = Inr (PDict (tc_arguments c))"

lemma adapter_wire: "list_all (sendable lib) calls \<Longrightarrow> forM calls adapter_tool_call w = (Inr (map wire_call calls), w)"
  by (induction calls) (auto simp: sendable_def adapter_tool_call_def wire_call_def bindM_def returnM_def neq_Nil_conv)

lemma openai_wire:
  assumes "sendable lib c"
  shows "to_openai_tool_call lib (wire_call c) = Inr [(''id'', PStr (the (tc_id c))), (''type'', PStr ''function''),
    (''function'', PDict [(''name'', PStr (tc_name c)), (''arguments'', PStr (ml_dumps lib (PDict (tc_arguments c))))])]"
  using assms by (cases "tc_arguments c")
    (auto simp: sendable_def to_openai_tool_call_def wire_call_def dget_def py_or_def py_str_def optional_str_def Let_def)

lemma parse_wire:
  assumes "list_all (sendable lib) calls"
  shows "parse_calls_from (ml_loads lib) label n (map (\<lambda>c. PDict [(''id'', PStr (the (tc_id c))), (''type'', PStr ''function''),
      (''function'', PDict [(''name'', PStr (tc_name c)), (''arguments'', PStr (ml_dumps lib (PDict (tc_arguments c))))])]) calls) = Inr calls"
  using assms
proof (induction calls arbitrary: n)
  case (Cons c calls)
  obtain ch cs where name: "tc_name c = ch # cs" using Cons.prems by (auto simp: sendable_def neq_Nil_conv)
  obtain dh ds where args: "ml_dumps lib (PDict (tc_arguments c)) = dh # ds" using Cons.prems by (auto simp: sendable_def neq_Nil_conv)
  obtain i where i: "tc_id c = Some i" using Cons.prems by (auto simp: sendable_def)
  have "ml_loads lib (dh # ds) = Inr (PDict (tc_arguments c))" using Cons.prems args by (simp add: sendable_def)
  then show ?case
    using Cons by (simp add: name args i Let_def dget_def parse_function_arguments_def)
qed simp

lemma sum_list_of_Inr: "(\<And>x. x \<in> set xs \<Longrightarrow> f x = Inr (g x)) \<Longrightarrow> sum_list_of (map f xs) = Inr (map g xs)"
  by (induction xs) simp_all

text \<open>
  C31. The calls of an assistant message survive the conversation.  Written into the history
  by the adapter, sent back to an OpenAI-compatible service and read as the service would
  return them, they are the same calls, with their names, arguments and ids.
\<close>

theorem tool_calls_survive_the_wire:
  assumes "list_all (sendable lib) calls" and "forM calls adapter_tool_call w = (Inr written, w')"
  shows "bindE (sum_list_of (map (to_openai_tool_call lib) written)) (\<lambda>sent.
    parse_function_tool_calls (ml_loads lib) ''OpenAI-compatible'' (PList (map PDict sent))) = Inr calls"
proof -
  have "written = map wire_call calls" using adapter_wire [OF assms(1), of w] assms(2) by simp
  moreover have "sum_list_of (map (to_openai_tool_call lib) (map wire_call calls)) =
      Inr (map (\<lambda>c. [(''id'', PStr (the (tc_id c))), (''type'', PStr ''function''),
        (''function'', PDict [(''name'', PStr (tc_name c)), (''arguments'', PStr (ml_dumps lib (PDict (tc_arguments c))))])]) calls)"
    unfolding map_map by (rule sum_list_of_Inr) (use assms(1) openai_wire in \<open>auto simp: list_all_iff\<close>)
  ultimately show ?thesis
    using parse_wire [OF assms(1)] by (simp add: parse_function_tool_calls_def comp_def)
qed

theorem tool_calls_survive_the_wire_witness:
  "bindE (sum_list_of (map (to_openai_tool_call sample_model_lib)
      [[(''name'', PStr ''date''), (''args'', PDict []), (''id'', PStr ''c1''), (''type'', PStr ''tool_call'')]])) (\<lambda>sent.
    parse_function_tool_calls (ml_loads sample_model_lib) ''OpenAI-compatible'' (PList (map PDict sent))) =
   Inr [\<lparr>tc_name = ''date'', tc_arguments = [], tc_id = Some ''c1''\<rparr>]"
proof -
  have "list_all (sendable sample_model_lib) [\<lparr>tc_name = ''date'', tc_arguments = [], tc_id = Some ''c1''\<rparr>]"
    by (simp add: sendable_def sample_model_lib_def)
  moreover have "forM [\<lparr>tc_name = ''date'', tc_arguments = [], tc_id = Some ''c1''\<rparr>] adapter_tool_call (world_of empty_tables) =
      (Inr [[(''name'', PStr ''date''), (''args'', PDict []), (''id'', PStr ''c1''), (''type'', PStr ''tool_call'')]], world_of empty_tables)"
    by (simp add: adapter_tool_call_def bindM_def returnM_def)
  ultimately show ?thesis by (rule tool_calls_survive_the_wire)
qed

end
