(* ===== verification/Agent_Invariants.thy ===== *)
theory Agent_Invariants
  imports Agent_Graph Reachable
begin

text \<open>
  The composition of the agent graph with the core: a predicate of the database that the
  collaborators of the graph keep is kept by every node, by a run of the graph, by the
  runtime and by the runner, so the invariants of the core hold for the whole
  program.
\<close>

section \<open>Collaborators\<close>

definition recorder_keeps :: "(world \<Rightarrow> bool) \<Rightarrow> tool_invocation_recorder \<Rightarrow> bool" where
  "recorder_keeps J r \<longleftrightarrow>
     (\<forall>th n call declared ar. keeps J (tr_prepare r th n call declared ar)) \<and>
     (\<forall>i. keeps J (tr_begin_execution r i)) \<and>
     (\<forall>i response. keeps J (tr_finish_execution r i response)) \<and>
     (\<forall>i ec em. keeps J (tr_mark_execution_uncertain r i ec em)) \<and>
     (\<forall>i rs. keeps J (tr_cancel r i rs))"

definition components_keep :: "(world \<Rightarrow> bool) \<Rightarrow> graph_components \<Rightarrow> bool" where
  "components_keep J c \<longleftrightarrow>
     (\<forall>ms ts. keeps J (gc_model c ms ts)) \<and>
     (\<forall>f n e d. gc_progress c = Some f \<longrightarrow> keeps J (f n e d)) \<and>
     (\<forall>f e d. gc_trace c = Some f \<longrightarrow> keeps J (f e d)) \<and>
     (\<forall>r. gc_tool_invocation_recorder c = Some r \<longrightarrow> recorder_keeps J r)"

text \<open>The tools keep the state if the wrapper does.\<close>

definition tool_node_keeps :: "(world \<Rightarrow> bool) \<Rightarrow> tool_node \<Rightarrow> bool" where
  "tool_node_keeps J node \<longleftrightarrow>
     (\<forall>wrap s. (\<forall>request m. keeps J m \<longrightarrow> keeps J (wrap request m)) \<longrightarrow> keeps J (node wrap s))"

definition graph_env_keeps :: "(world \<Rightarrow> bool) \<Rightarrow> graph_env \<Rightarrow> bool" where
  "graph_env_keeps J env \<longleftrightarrow> components_keep J (ge_components env) \<and> lib_keeps J (ge_lib env) \<and>
     tool_node_keeps J (ge_tool_node env)"

section \<open>Reports, limits and deadlines\<close>

named_theorems graph_keeps "parts of the graph that keep a predicate their collaborators keep"

lemma reports_keep [graph_keeps]:
  assumes "components_keep J c"
  shows "keeps J (emit_progress c n e d)" "keeps J (log_trace c ty p)"
  using assms
  by (auto simp: emit_progress_def log_trace_def components_keep_def keeps_returnM split: option.split)

lemma emitted_keep [graph_keeps]:
  assumes "components_keep J c"
  shows "keeps J (emit_permission c n p)" "keeps J (emit_context_built c lib n s)" "keeps J (emit_tool_execute_start c n calls)"
    "keeps J (execution_stop_updates c s l)" "keeps J (stop_at c s l)" "keeps J (set_permission c s p)"
    "keeps J (report_tool_calls c n m ps)"
  using reports_keep [OF assms]
  by (auto simp: emit_permission_def emit_context_built_def emit_tool_execute_start_def execution_stop_updates_def
      stop_at_def set_permission_def report_tool_calls_def Let_def intro!: keeps_intros)

lemma limits_keep [graph_keeps]:
  assumes "lib_keeps J lib"
  shows "keeps J (elapsed_limit lib s p)" "keeps J (model_call_limit lib s)" "keeps J (tool_call_limit lib s n)"
    "keeps J (loop_step_limit lib s n)" "keeps J (execution_summary lib s a)"
proof -
  have seconds: "keeps J (elapsed_seconds lib s)"
    using assms by (auto simp: elapsed_seconds_def lib_keeps_def intro!: keeps_intros)
  show elapsed: "keeps J (elapsed_limit lib s p)" for p
    unfolding elapsed_limit_def by (intro keeps_intros seconds)
  show "keeps J (model_call_limit lib s)" "keeps J (tool_call_limit lib s n)" "keeps J (loop_step_limit lib s n)"
    unfolding model_call_limit_def tool_call_limit_def loop_step_limit_def by (intro keeps_intros elapsed)+
  show "keeps J (execution_summary lib s a)" unfolding execution_summary_def Let_def by (intro keeps_intros seconds)
qed

lemmas stops_keep [graph_keeps] = cancellation_limit_keeps

section \<open>The wrapper and the nodes\<close>

lemma recorder_parts:
  assumes "components_keep J c" and "gc_tool_invocation_recorder c = Some r"
  shows "keeps J (tr_prepare r th n call declared ar)" "keeps J (tr_begin_execution r i)"
    "keeps J (tr_finish_execution r i response)" "keeps J (tr_mark_execution_uncertain r i ec em)" "keeps J (tr_cancel r i rs)"
  using assms by (auto simp: components_keep_def recorder_keeps_def)

lemma wrapper_keeps:
  assumes "components_keep (safe I) c" and "lib_keeps (safe I) lib" and "keeps (safe I) run_tool"
  shows "keeps (safe I) (tool_call_wrapper c lib request run_tool)"
proof (cases "gc_tool_invocation_recorder c")
  case None
  then show ?thesis
    unfolding tool_call_wrapper_def None option.case blocked_def
    by (intro keeps_intros stops_keep execute_tool_keeps [OF assms(2,3)])
next
  case (Some r)
  note parts = recorder_parts [OF assms(1) Some]
  show ?thesis
    unfolding tool_call_wrapper_def Some option.case wrap_recorded_def claim_and_execute_def execute_recorded_def
      or_mark_uncertain_def blocked_def Let_def
    by (intro keeps_intros stops_keep execute_tool_keeps [OF assms(2,3)] parts)
qed

lemma model_keeps:
  assumes "components_keep (safe I) c" and "lib_keeps (safe I) lib"
  shows "keeps (safe I) (call_model_node c lib s)"
proof -
  note parts = reports_keep [OF assms(1)] emitted_keep [OF assms(1)] limits_keep [OF assms(2)] stops_keep
  have invoke: "keeps (safe I) (invoke_model_with_context c lib s)"
    using assms unfolding invoke_model_with_context_def model_execution_deadline_def bind_model_context_def Let_def
    by (auto simp: components_keep_def intro!: keeps_intros execution_deadline_keeps)
  have stop: "keeps (safe I) (model_stop_limit c lib s)"
    unfolding model_stop_limit_def by (intro keeps_intros parts)
  show ?thesis
    unfolding call_model_node_def guarded_invoke_def accept_response_def Let_def
    by (intro keeps_intros parts invoke stop)
qed


lemma keeps_case_pyval [keeps_intros]:
  assumes "keeps I n" "\<And>b. keeps I (pb b)" "\<And>i. keeps I (pj i)" "\<And>f. keeps I (pf f)" "\<And>s. keeps I (ps s)"
    "\<And>xs. keeps I (pl xs)" "\<And>xs. keeps I (pt xs)" "\<And>d. keeps I (pd d)" "\<And>d. keeps I (pp d)" "\<And>c. keeps I (po c)"
  shows "keeps I (case v of PNone \<Rightarrow> n | PBool b \<Rightarrow> pb b | PInt i \<Rightarrow> pj i | PFloat f \<Rightarrow> pf f | PStr s \<Rightarrow> ps s
      | PList xs \<Rightarrow> pl xs | PTuple xs \<Rightarrow> pt xs | PDict d \<Rightarrow> pd d | PProxy d \<Rightarrow> pp d | POpaque c \<Rightarrow> po c)"
  using assms by (cases v) simp_all

lemma keeps_case_list [keeps_intros]:
  "keeps I m \<Longrightarrow> (\<And>x xs. keeps I (n x xs)) \<Longrightarrow> keeps I (case ys of [] \<Rightarrow> m | x # xs \<Rightarrow> n x xs)"
  by (cases ys) simp_all

lemma keeps_case_bool [keeps_intros]:
  "keeps I m \<Longrightarrow> keeps I n \<Longrightarrow> keeps I (case b of True \<Rightarrow> m | False \<Rightarrow> n)"
  by (cases b) simp_all

lemma keeps_outcomes [keeps_intros]:
  "(\<And>a. keeps I (m a)) \<Longrightarrow> (\<And>v. keeps I (n v)) \<Longrightarrow> keeps I (case o1 of Answered a \<Rightarrow> m a | Waiting v \<Rightarrow> n v)"
  "(\<And>s. keeps I (p s)) \<Longrightarrow> (\<And>v. keeps I (q v)) \<Longrightarrow> keeps I (case o2 of Updated s \<Rightarrow> p s | Suspended v \<Rightarrow> q v)"
  by (cases o1, simp_all) (cases o2, simp_all)

lemma attach_keeps:
  assumes "components_keep J c"
  shows "keeps J (attach_invocation_reference c lib s d ar)"
  using recorder_parts [OF assms]
  by (cases "gc_tool_invocation_recorder c")
     (auto simp: attach_invocation_reference_def intro!: keeps_intros)

lemma permission_keeps:
  assumes "components_keep J c" and "lib_keeps J lib"
  shows "keeps J (check_permission_node c lib s)"
proof -
  note parts = reports_keep [OF assms(1)] emitted_keep [OF assms(1)] limits_keep [OF assms(2)] stops_keep
    attach_keeps [OF assms(1)]
  show ?thesis
    unfolding check_permission_node_def check_calls_def settle_decisions_def allow_calls_def decide_call_def
      ungated_decision_def Let_def
    by (intro keeps_intros parts)
qed

lemma reject_keeps:
  assumes "components_keep J c"
  shows "keeps J (reject_tool_node c lib s)"
proof -
  have "keeps J (cancel_prepared_invocations c s rs)" for rs
    using recorder_parts(5) [OF assms]
    by (cases "gc_tool_invocation_recorder c"; cases "as_permission s")
       (auto simp: cancel_prepared_invocations_def intro!: keeps_intros)
  then show ?thesis
    unfolding reject_tool_node_def reject_with_def Let_def by (intro keeps_intros reports_keep [OF assms])
qed

lemma ask_keeps:
  assumes "components_keep J c"
  shows "keeps J (ask_approvals c lib n permission k i ds rs a)"
proof (induction ds arbitrary: i rs a)
  case (Cons d ds)
  show ?case unfolding ask_approvals.simps Let_def by (intro keeps_intros reports_keep [OF assms] Cons.IH)
qed (simp add: keeps_returnM)

lemma interrupts_keep:
  assumes "components_keep J c"
  shows "keeps J (approval_required_node c lib rs s)" "keeps J (user_input_required_node c lib rs s)"
  unfolding approval_required_node_def user_input_required_node_def Let_def
  by (intro keeps_intros reports_keep [OF assms] emitted_keep [OF assms] ask_keeps [OF assms])+

lemma loop_nodes_keep:
  assumes "components_keep J c" and "lib_keeps J lib"
  shows "keeps J (record_tool_messages_node c lib s)" "keeps J (increment_loop_node c lib s)" "keeps J (max_loops_node c s)"
  unfolding record_tool_messages_node_def observe_message_def increment_loop_node_def max_loops_node_def Let_def
  by (intro keeps_intros reports_keep [OF assms(1)] emitted_keep [OF assms(1)] limits_keep [OF assms(2)])+

lemma run_node_keeps:
  assumes "graph_env_keeps (safe I) env"
  shows "keeps (safe I) (run_node env node rs s)"
proof -
  have c: "components_keep (safe I) (ge_components env)" and l: "lib_keeps (safe I) (ge_lib env)"
    and t: "tool_node_keeps (safe I) (ge_tool_node env)"
    using assms by (auto simp: graph_env_keeps_def)
  have "keeps (safe I) (ge_tool_node env (tool_call_wrapper (ge_components env) (ge_lib env)) s)"
    using t wrapper_keeps [OF c l] by (auto simp: tool_node_keeps_def)
  then have tools: "keeps (safe I) (tools_node env s)"
    unfolding tools_node_def by (intro keeps_intros)
  show ?thesis
    unfolding run_node_def Let_def updated_def
    by (cases node) (simp_all, (intro keeps_intros tools model_keeps [OF c l] permission_keeps [OF c l]
      reject_keeps [OF c] interrupts_keep [OF c] loop_nodes_keep [OF c l])+)
qed

lemma run_graph_keeps:
  assumes "graph_env_keeps (safe I) env"
  shows "keeps (safe I) (run_graph env n k)"
proof (induction n arbitrary: k)
  case 0
  show ?case by (subst run_graph.simps) (simp add: keeps_intros)
next
  case (Suc n)
  show ?case
    by (subst run_graph.simps) (auto intro!: keeps_intros run_node_keeps [OF assms] Suc)
qed


section \<open>The runtime and the runner\<close>

definition checkpointer_keeps :: "(world \<Rightarrow> bool) \<Rightarrow> checkpointer \<Rightarrow> bool" where
  "checkpointer_keeps J cp \<longleftrightarrow>
     (\<forall>th. keeps J (cp_load cp th)) \<and> (\<forall>th. keeps J (cp_suspended cp th)) \<and> (\<forall>th r. keeps J (cp_save cp th r)) \<and>
     (\<forall>f th. cp_delete_thread cp = Some f \<longrightarrow> keeps J (f th))"

definition runtime_keeps :: "(world \<Rightarrow> bool) \<Rightarrow> agent_runtime \<Rightarrow> bool" where
  "runtime_keeps J rt \<longleftrightarrow> graph_env_keeps J (rt_env rt) \<and> checkpointer_keeps J (rt_checkpointer rt) \<and>
     (\<forall>f s. rt_context_provider rt = Some f \<longrightarrow> keeps J (f s))"

lemma keeps_graph_outcome [keeps_intros]:
  "(\<And>s. keeps I (m s)) \<Longrightarrow> (\<And>k v. keeps I (n k v)) \<Longrightarrow> keeps I l \<Longrightarrow>
   keeps I (case r of Finished s \<Rightarrow> m s | Paused k v \<Rightarrow> n k v | Limit_reached \<Rightarrow> l)"
  by (cases r) simp_all

lemma runtime_keeps_start:
  assumes "runtime_keeps (safe I) rt"
  shows "keeps (safe I) (runtime_start rt u th past)"
    and "keeps (safe I) (resume_run rt th' payload)"
    and "keeps (safe I) (delete_checkpoint rt th')"
proof -
  have g: "graph_env_keeps (safe I) (rt_env rt)" and c: "components_keep (safe I) (rt_components rt)"
    and l: "lib_keeps (safe I) (ge_lib (rt_env rt))" and p: "checkpointer_keeps (safe I) (rt_checkpointer rt)"
    using assms by (auto simp: runtime_keeps_def graph_env_keeps_def rt_components_def)
  have report: "keeps (safe I) (emit_run_started rt u)"
    using c by (auto simp: emit_run_started_def components_keep_def keeps_returnM split: option.split)
  have initial: "keeps (safe I) (initial_state rt u past thread)" for thread
    using assms l by (auto simp: initial_state_def build_initial_state_def runtime_keeps_def lib_keeps_def
        intro!: keeps_intros split: option.split)
  have invoke: "keeps (safe I) (invoke_graph rt thread k)" for thread k
    using p unfolding invoke_graph_def interrupt_result_def to_run_result_def Let_def checkpointer_keeps_def
    by (intro keeps_intros run_graph_keeps [OF g] limits_keep [OF l] reports_keep [OF c]) auto
  have uuid: "keeps (safe I) new_uuid" by (rule keepsI) (auto simp: new_uuid_def safe_def)
  show "keeps (safe I) (runtime_start rt u th past)"
    using p unfolding runtime_start_def checkpointer_keeps_def
    by (intro keeps_intros report initial invoke uuid reports_keep [OF c]) auto
  show "keeps (safe I) (resume_run rt th' payload)"
    using p unfolding resume_run_def checkpointer_keeps_def by (intro keeps_intros invoke) auto
  show "keeps (safe I) (delete_checkpoint rt th')"
    using p unfolding delete_checkpoint_def checkpointer_keeps_def
    by (auto simp: keeps_intros split: option.split)
qed

lemma activate_keeps:
  assumes "\<And>cx. keeps (safe I) (body cx)"
  shows "keeps (safe I) (activate th body)"
  unfolding activate_def Let_def by (intro keeps_intros keeps_control assms) simp_all

lemma acquire_keeps:
  assumes "keeps (safe I) body"
  shows "keeps (safe I) (acquire_thread th body)"
  unfolding acquire_thread_def by (intro keeps_intros keeps_control assms) simp_all

lemma langgraph_runner_keeps:
  assumes "runtime_keeps (safe I) rt"
  shows "runner_keeps (safe I) (direct_langgraph_runner rt)"
proof -
  note runs = runtime_keeps_start [OF assms]
  have c: "components_keep (safe I) (rt_components rt)"
    using assms by (auto simp: runtime_keeps_def graph_env_keeps_def rt_components_def)
  have signal: "keeps (safe I) (registry_request_cancellation th rs)" for th rs
    unfolding registry_request_cancellation_def by (intro keeps_intros keeps_control)
  have "keeps (safe I) (runner_run rt ms th)" "keeps (safe I) (runner_resume rt th a rs)"
    "keeps (safe I) (runner_resume_input rt th ps md)" "keeps (safe I) (runner_request_cancellation th rs)"
    "keeps (safe I) (runner_discard_checkpoint rt th)" for ms th a rs ps md
    unfolding runner_run_def runner_resume_def runner_resume_input_def runner_request_cancellation_def
      runner_discard_checkpoint_def in_thread_def runtime_resume_def runtime_resume_input_def Let_def
    by (intro keeps_intros acquire_keeps activate_keeps runs signal reports_keep [OF c])+
  then show ?thesis by (simp add: runner_keeps_def direct_langgraph_runner_def)
qed


section \<open>The composed program\<close>

lemma main_ledger_keeps: "recorder_keeps (safe (sound j s)) (main_agent_ledger env)"
proof -
  have prepare: "tx_keeps (sound j s) (prepare_invocation env th n call declared ar)" for th n call declared ar
    unfolding prepare_invocation_def prepare_for_task_def Let_def get_tool_invocation_def
      get_task_by_runtime_thread_id_def find_latest_tool_invocation_for_effect_def
    by (intro tx_intros runner_ops_sound)
  have "tx_keeps (sound j s) (begin_execution i)" "tx_keeps (sound j s) (mark_execution_uncertain i ec em)"
    "tx_keeps (sound j s) (cancel_execution i rs)" "tx_keeps (sound j s) (finish_execution env i r)" for i ec em rs r
    unfolding begin_execution_def mark_execution_uncertain_def cancel_execution_def finish_execution_def
    by (intro tx_intros runner_ops_sound complete_sound)+
  with prepare show ?thesis
    by (simp add: recorder_keeps_def main_agent_ledger_def keeps_of_tx)
qed

text \<open>
  C2. The program with its own runtime.  Compose the core with the LangGraph runner and the ledger of
  tool invocations; let the model, the tools, the store of checkpoints, the progress and
  trace reporters, the router and the child agents be arbitrary programs that leave the
  database in a good state.  Then every state the whole program reaches from an
  empty database is committed, with no transaction open, and satisfies the
  invariants of all tables, the discipline of approvals in the tool ledger included.
\<close>

theorem composed_program_invariant:
  assumes "ce_runner env = Some (direct_langgraph_runner rt)"
    and "gc_tool_invocation_recorder (rt_components rt) = Some (main_agent_ledger ledger)"
    and "env_keeps (safe db_inv) (env\<lparr>ce_runner := None\<rparr>)"
    and "components_keep (safe db_inv) ((rt_components rt)\<lparr>gc_tool_invocation_recorder := None\<rparr>)"
    and "lib_keeps (safe db_inv) (ge_lib (rt_env rt))" and "tool_node_keeps (safe db_inv) (ge_tool_node (rt_env rt))"
    and "checkpointer_keeps (safe db_inv) (rt_checkpointer rt)"
    and "\<forall>f s. rt_context_provider rt = Some f \<longrightarrow> keeps (safe db_inv) (f s)"
    and "reachable env (init_world clk uid) w"
  shows "transaction_depth w = 0 \<and> conn w = durable w \<and> db_inv (conn w)"
proof -
  have db: "db_inv = sound [] CREATED" by (rule ext) (simp add: db_inv_sound [of "[]"])
  have "recorder_keeps (safe db_inv) (main_agent_ledger ledger)" unfolding db by (rule main_ledger_keeps)
  then have "components_keep (safe db_inv) (rt_components rt)"
    using assms(2,4) by (simp add: components_keep_def)
  then have "runner_keeps (safe db_inv) (direct_langgraph_runner rt)"
    using assms(5-8) by (intro langgraph_runner_keeps) (simp add: runtime_keeps_def graph_env_keeps_def rt_components_def)
  then have "env_keeps (safe db_inv) env" using assms(1,3) by (simp add: env_keeps_def)
  from reachable_safe [OF assms(9) this [unfolded db] init_safe [unfolded db]] show ?thesis
    unfolding db safe_def .
qed

text \<open>A runtime whose model answers at once and whose tools return nothing.\<close>

definition sample_runtime :: agent_runtime where
  "sample_runtime =
     \<lparr>rt_env = \<lparr>ge_components = sample_components, ge_lib = sample_lib, ge_tool_node = (\<lambda>wrap s. returnM [])\<rparr>,
      rt_system_prompt = None, rt_policy = default_execution_policy,
      rt_checkpointer = \<lparr>cp_load = (\<lambda>th. returnM None), cp_suspended = (\<lambda>th. raiseM (KeyError th)),
        cp_save = (\<lambda>th r. returnM ()), cp_delete_thread = None\<rparr>,
      rt_context_provider = None, rt_recursion_limit = 30\<rparr>"

definition sample_program :: core_env where
  "sample_program = sample_env\<lparr>ce_runner := Some (direct_langgraph_runner sample_runtime)\<rparr>"

theorem composed_program_invariant_witness:
  "db_inv (conn (snd (execute_command sample_program
     (AdmitMessageCommand \<lparr>rq_context_id = None, rq_message_id = Some ''m1'', rq_role = USER,
        rq_parts = [PDict [(''text'', PStr ''hi'')]], rq_metadata = []\<rparr>)
     (init_world (\<lambda>_. 1) str_nat))))" (is "db_inv (conn (snd (execute_command _ ?cmd _)))")
proof -
  have step: "reachable sample_program (init_world (\<lambda>_. 1) str_nat)
      (snd (execute_command sample_program ?cmd (init_world (\<lambda>_. 1) str_nat)))"
    by (rule reachable.step [OF reachable.start core_step.command])
  have "env_keeps (safe db_inv) (sample_program\<lparr>ce_runner := None\<rparr>)"
    "components_keep (safe db_inv) ((rt_components sample_runtime)\<lparr>gc_tool_invocation_recorder := None\<rparr>)"
    "lib_keeps (safe db_inv) (ge_lib (rt_env sample_runtime))"
    "tool_node_keeps (safe db_inv) (ge_tool_node (rt_env sample_runtime))"
    "checkpointer_keeps (safe db_inv) (rt_checkpointer sample_runtime)"
    by (auto simp: env_keeps_def sample_program_def sample_env_def components_keep_def rt_components_def
        sample_runtime_def sample_components_def sample_lib_keeps tool_node_keeps_def checkpointer_keeps_def intro!: keeps_intros)
  moreover have "ce_runner sample_program = Some (direct_langgraph_runner sample_runtime)"
    "gc_tool_invocation_recorder (rt_components sample_runtime) = Some (main_agent_ledger sample_ledger_env)"
    "\<forall>f s. rt_context_provider sample_runtime = Some f \<longrightarrow> keeps (safe db_inv) (f s)"
    by (simp_all add: sample_program_def rt_components_def sample_runtime_def sample_components_def)
  ultimately show ?thesis
    using composed_program_invariant [OF _ _ _ _ _ _ _ _ step, of sample_runtime sample_ledger_env] by blast
qed

end
