(* ===== verification/Agent_Properties.thy ===== *)
theory Agent_Properties
  imports Agent_Graph
begin

text \<open>
  What a run of the agent graph guarantees, whatever its collaborators do: it ends, it keeps the
  budget of its policy, it runs no tool without permission, and it takes no approval for
  granted.

  \<open>yields\<close> is the calculus of the values programs return; \<open>graph_reaches\<close> is the step relation of the
  graph, with suspension and resumption; \<open>run_ok\<close> is its invariant, proved by rule
  induction from what each node does (\<open>node_effect\<close>).
\<close>

section \<open>What a program returns\<close>

text \<open>\<open>yields P m\<close>: whatever the state and the collaborators do, a value that \<open>m\<close> returns satisfies \<open>P\<close>.\<close>

definition yields :: "('a \<Rightarrow> bool) \<Rightarrow> 'a py \<Rightarrow> bool" where
  "yields P m \<longleftrightarrow> (\<forall>w. wp m (\<lambda>a _. P a) (\<lambda>_ _. True) w)"

named_theorems yields_intros "programs whose value satisfies a predicate"

lemma yieldsD: "yields P m \<Longrightarrow> m w = (Inr a, w') \<Longrightarrow> P a"
  unfolding yields_def by (blast dest: wp_okD)

lemma yields_mono: "yields Q m \<Longrightarrow> (\<And>a. Q a \<Longrightarrow> P a) \<Longrightarrow> yields P m"
  unfolding yields_def by (blast intro: wp_mono)

lemma yields_True [simp]: "yields (\<lambda>_. True) m"
  by (simp add: yields_def wp_ignore)

lemma yields_returnM [simp]: "yields P (returnM a) = P a"
  by (simp add: yields_def wp_rules)

lemma yields_raiseM [simp]: "yields P (raiseM e)"
  by (simp add: yields_def wp_rules)

lemma yields_bindM:
  assumes "yields Q m" and "\<And>a. Q a \<Longrightarrow> yields P (f a)"
  shows "yields P (bindM m f)"
  using assms unfolding yields_def wp_bindM by (blast intro: wp_mono)

lemma yields_after [yields_intros]: "(\<And>a. yields P (f a)) \<Longrightarrow> yields P (bindM m f)"
  by (rule yields_bindM [of "\<lambda>_. True"]) auto

lemma yields_liftE: "yields (\<lambda>a. r = Inr a) (liftE r)"
  by (simp add: yields_def wp_rules split: sum.split)

lemma yields_catchM [yields_intros]: "yields P m \<Longrightarrow> (\<And>e. yields P (h e)) \<Longrightarrow> yields P (catchM m h)"
  unfolding yields_def wp_catchM by (blast intro: wp_mono)

lemma yields_if [yields_intros]: "(b \<Longrightarrow> yields P m) \<Longrightarrow> (\<not> b \<Longrightarrow> yields P n) \<Longrightarrow> yields P (if b then m else n)"
  by simp

lemma yields_case_option [yields_intros]:
  "(x = None \<Longrightarrow> yields P m) \<Longrightarrow> (\<And>a. x = Some a \<Longrightarrow> yields P (n a)) \<Longrightarrow>
   yields P (case x of None \<Rightarrow> m | Some a \<Rightarrow> n a)"
  by (simp split: option.split)

lemma yields_case_sum [yields_intros]:
  "(\<And>a. x = Inl a \<Longrightarrow> yields P (m a)) \<Longrightarrow> (\<And>a. x = Inr a \<Longrightarrow> yields P (n a)) \<Longrightarrow>
   yields P (case x of Inl a \<Rightarrow> m a | Inr a \<Rightarrow> n a)"
  by (simp split: sum.split)

lemma yields_case_list [yields_intros]:
  "(xs = [] \<Longrightarrow> yields P m) \<Longrightarrow> (\<And>y ys. xs = y # ys \<Longrightarrow> yields P (n y ys)) \<Longrightarrow>
   yields P (case xs of [] \<Rightarrow> m | y # ys \<Rightarrow> n y ys)"
  by (simp split: list.split)

lemma yields_let [yields_intros]: "(\<And>a. a = x \<Longrightarrow> yields P (m a)) \<Longrightarrow> yields P (let a = x in m a)"
  by (simp add: Let_def)

lemma yields_forM:
  assumes "\<And>x. yields (R x) (f x)"
  shows "yields (list_all2 R xs) (forM xs f)"
proof (induction xs)
  case (Cons x xs)
  show ?case by (auto intro!: yields_bindM [OF assms] yields_bindM [OF Cons])
qed simp

section \<open>The counters\<close>

text \<open>What the budget of a run depends on, and what a node leaves as it is.\<close>

definition counters :: "agent_state \<Rightarrow> pyval \<times> int \<times> int \<times> int \<times> int" where
  "counters s = (as_execution_policy s, as_max_loops s, as_loop_index s, as_model_calls s, as_tool_calls s)"

definition conversation :: "agent_state \<Rightarrow> agent_message list \<times> pydict option" where
  "conversation s = (as_messages s, as_permission s)"

lemma counters_updates [simp]:
  "counters (stop_updates r d m s) = counters s" "counters (pause_updates x m' d' s) = counters s"
  "counters (clear_pause_updates s) = counters s"
  "conversation (stop_updates r d m s) = conversation s" "conversation (pause_updates x m' d' s) = conversation s"
  "conversation (clear_pause_updates s) = conversation s"
  by (simp_all add: counters_def conversation_def stop_updates_def pause_updates_def clear_pause_updates_def)

lemma counters_policy: "counters s' = counters s \<Longrightarrow> policy_from_state s' = policy_from_state s"
  by (auto simp: counters_def policy_from_state_def split: pyval.split)

lemma stop_reason_nonempty [simp]: "stop_reason_value r \<noteq> []"
  by (cases r) simp_all

definition stopped :: "agent_state \<Rightarrow> bool" where
  "stopped s \<longleftrightarrow> set_and_nonempty (as_stop_reason s)"

text \<open>A state that is \<open>s\<close> with a reason to stop.\<close>

definition stops_from :: "agent_state \<Rightarrow> agent_state \<Rightarrow> bool" where
  "stops_from s s' \<longleftrightarrow> stopped s' \<and> counters s' = counters s \<and> conversation s' = conversation s"

lemma stop_updates_yield:
  "yields (\<lambda>u. \<forall>s'. stops_from s' (u s')) (execution_stop_updates c s l)"
  unfolding execution_stop_updates_def Let_def
  by (intro yields_intros) (simp add: stops_from_def stopped_def stop_updates_def set_and_nonempty_def counters_def conversation_def)

lemma stop_at_yields: "yields (stops_from s) (stop_at c s l)"
  unfolding stop_at_def by (rule yields_bindM [OF stop_updates_yield]) simp

section \<open>The limits\<close>

lemma model_limit_yields:
  assumes "policy_from_state s = Inr p"
  shows "yields (\<lambda>l. l = None \<longrightarrow> as_model_calls s < ep_max_model_calls p) (model_stop_limit c lib s)"
proof -
  have "yields (\<lambda>l. l = None \<longrightarrow> as_model_calls s < ep_max_model_calls p) (model_call_limit lib s)"
    unfolding model_call_limit_def
    by (rule yields_bindM [OF yields_liftE])
       (auto simp: assms non_negative_int_or_def intro!: yields_intros)
  then show ?thesis unfolding model_stop_limit_def by (auto intro!: yields_intros)
qed

lemma tool_limit_yields:
  assumes "policy_from_state s = Inr p"
  shows "yields (\<lambda>l. l = None \<longrightarrow> as_tool_calls s + n \<le> ep_max_tool_calls p) (tool_call_limit lib s n)"
  unfolding tool_call_limit_def
  by (rule yields_bindM [OF yields_liftE]) (auto simp: assms non_negative_int_or_def intro!: yields_intros)

lemma loop_limit_yields:
  assumes "policy_from_state s = Inr p"
  shows "yields (\<lambda>l. l = None \<longrightarrow> n \<le> ep_max_loop_steps p) (loop_step_limit lib s n)"
  unfolding loop_step_limit_def
  by (rule yields_bindM [OF yields_liftE]) (auto simp: assms intro!: yields_intros)

section \<open>The nodes\<close>

text \<open>An answer of the model is appended and counted.\<close>

definition answers_from :: "agent_state \<Rightarrow> ai_message \<Rightarrow> agent_state \<Rightarrow> bool" where
  "answers_from s r s' \<longleftrightarrow> as_messages s' = as_messages s @ [GraphAI r] \<and> as_permission s' = as_permission s \<and>
     counters s' = counters (s\<lparr>as_model_calls := as_model_calls s + 1\<rparr>)"

lemma accept_yields: "yields (\<lambda>s'. \<exists>r. answers_from s r s') (accept_response c lib s r)"
  unfolding accept_response_def Let_def
  by (intro yields_intros) (auto simp: answers_from_def counters_def stop_updates_def)

lemma call_model_yields:
  assumes "policy_from_state s = Inr p"
  shows "yields (\<lambda>s'. stops_from s s' \<or> as_model_calls s < ep_max_model_calls p \<and> (\<exists>r. answers_from s r s'))
    (call_model_node c lib s)" (is "yields ?P _")
proof -
  have stop: "yields ?P (stop_at c s l)" for l by (rule yields_mono [OF stop_at_yields]) simp
  have accept: "yields ?P (accept_response c lib s r)" if "as_model_calls s < ep_max_model_calls p" for r
    by (rule yields_mono [OF accept_yields]) (use that in blast)
  show ?thesis
    unfolding call_model_node_def
    by (rule yields_bindM [OF model_limit_yields [OF assms]]) (auto intro!: yields_intros stop accept)
qed

lemma increment_yields:
  assumes "policy_from_state s = Inr p"
  shows "yields (\<lambda>s'. counters s' = counters (s\<lparr>as_loop_index := as_loop_index s + 1\<rparr>) \<and> as_permission s' = None \<and>
      (stopped s' \<or> as_loop_index s + 1 \<le> ep_max_loop_steps p)) (increment_loop_node c lib s)"
  unfolding increment_loop_node_def Let_def
proof (rule yields_bindM [OF loop_limit_yields [OF assms]], rule yields_case_option, goal_cases)
  case (2 a l)
  show ?case
    by (rule yields_bindM [OF stop_updates_yield]) (auto simp: stops_from_def counters_def conversation_def)
qed (simp add: counters_def)

lemma record_yields:
  "yields (\<lambda>s'. counters s' = counters (s\<lparr>as_tool_calls := as_tool_calls s + int (length (latest_tool_messages (as_messages s)))\<rparr>))
    (record_tool_messages_node c lib s)"
proof -
  have obs: "yields (\<lambda>os. length os = length (latest_tool_messages (as_messages s)))
      (forM (latest_tool_messages (as_messages s)) (observe_message c lib s))"
    by (rule yields_mono [OF yields_forM [where R = "\<lambda>_ _. True"]]) (auto dest: list_all2_lengthD)
  have count: "counters (counted s os) = counters (s\<lparr>as_tool_calls := as_tool_calls s + int (length os)\<rparr>)" for os
    by (simp add: counted_def Let_def counters_def)
  show ?thesis
    unfolding record_tool_messages_node_def Let_def
    by (rule yields_bindM [OF obs])
       (auto intro!: yields_intros yields_bindM [OF stop_updates_yield] simp: count stops_from_def)
qed

lemma set_permission_yields: "yields (\<lambda>s'. s' = s\<lparr>as_permission := Some d\<rparr>) (set_permission c s d)"
  unfolding set_permission_def by (auto intro!: yields_intros)

lemma approval_yields:
  "yields (\<lambda>r. case r of Suspended v \<Rightarrow> True
      | Updated s' \<Rightarrow> counters s' = counters s \<and> conversation s' = conversation s)
    (approval_required_node c lib rs s)"
  unfolding approval_required_node_def Let_def
  by (auto intro!: yields_intros simp: counters_def conversation_def clear_pause_updates_def stop_updates_def
      split: approval_outcome.split)

lemma input_yields:
  "yields (\<lambda>r. case r of Suspended v \<Rightarrow> True | Updated s' \<Rightarrow> counters s' = counters s) (user_input_required_node c lib rs s)"
  unfolding user_input_required_node_def Let_def
  by (auto intro!: yields_intros simp: counters_def clear_pause_updates_def stop_updates_def)

lemma reject_yields: "yields (\<lambda>s'. counters s' = counters s) (reject_tool_node c lib s)"
  unfolding reject_tool_node_def reject_with_def Let_def by (intro yields_intros) (simp_all add: counters_def stop_updates_def)

lemma max_loops_yields: "yields (stops_from s) (max_loops_node c s)"
  unfolding max_loops_node_def by (rule yields_after) (rule stop_at_yields)


section \<open>Permission\<close>

definition gate_says :: "runtime_lib \<Rightarrow> tool_registry \<Rightarrow> pydict \<Rightarrow> permission_decision \<Rightarrow> bool" where
  "gate_says lib registry call d \<longleftrightarrow>
     bindE (to_project_tool_call (rl_repr lib) call) (check_permission (rl_repr lib) registry) = Inr d"

text \<open>What a decision made for a call says of it.\<close>

definition decision_for :: "runtime_lib \<Rightarrow> tool_registry \<Rightarrow> pydict \<Rightarrow> pydict \<Rightarrow> bool" where
  "decision_for lib registry call e \<longleftrightarrow> dget e ''tool_call'' = PDict call \<and>
     (dget e ''status'' = PStr ''denied'' \<or>
      (\<exists>d. gate_says lib registry call d \<and>
         (dget e ''status'' = PStr ''approval_required'' \<and> pd_requires_approval d \<or>
          dget e ''status'' = PStr ''allowed'' \<and> pd_allowed d \<and> \<not> pd_requires_approval d)))"

lemma dget_dupdate: "dget (dupdate d e) k = (case map_of (rev e) k of None \<Rightarrow> dget d k | Some v \<Rightarrow> v)"
  by (simp add: dget_def map_of_dupdate map_add_def split: option.split)

lemma attach_yields:
  "yields (\<lambda>e. dget e ''tool_call'' = dget d ''tool_call'' \<and>
      (dget e ''status'' = dget d ''status'' \<or> dget e ''status'' = PStr ''denied'')) (attach_invocation_reference c lib s d ar)"
proof -
  have "dget (attach_reference d r) ''tool_call'' = dget d ''tool_call'' \<and>
      (dget (attach_reference d r) ''status'' = dget d ''status'' \<or> dget (attach_reference d r) ''status'' = PStr ''denied'')" for r
    by (simp add: attach_reference_def reference_fields_def Let_def dget_dupdate)
  then show ?thesis
    by (cases "gc_tool_invocation_recorder c"; cases "dget d ''tool_call''")
       (auto simp: attach_invocation_reference_def intro!: yields_intros split: option.split)
qed

lemma decide_yields: "yields (decision_for lib registry call) (decide_call c lib s registry call)"
proof -
  have entry: "dget (decision_entry d call) ''tool_call'' = PDict call"
    "dget (decision_entry d call) ''status'' = PStr (decision_status d)" for d
    by (simp_all add: decision_entry_def dget_def)
  show ?thesis
    unfolding decide_call_def
    by (rule yields_bindM [OF yields_liftE], rule yields_mono [OF attach_yields])
       (auto simp: entry decision_for_def gate_says_def decision_status_def split: if_splits)
qed

text \<open>The calls are within the budget, and the gate, if there is one, has allowed each of them or
  asks for its approval.\<close>

definition checked_calls ::
  "graph_components \<Rightarrow> runtime_lib \<Rightarrow> execution_policy \<Rightarrow> bool \<Rightarrow> agent_state \<Rightarrow> bool" where
  "checked_calls c lib p approving s \<longleftrightarrow> as_tool_calls s + int (length (pending_calls s)) \<le> ep_max_tool_calls p \<and>
     (\<forall>registry. gc_permission_gate c = Some registry \<longrightarrow>
        (\<forall>call \<in> set (pending_calls s). \<exists>d. gate_says lib registry call d \<and>
           (pd_allowed d \<and> \<not> pd_requires_approval d \<or> approving \<and> pd_requires_approval d)))"

text \<open>A permission that waits for approval carries one decision for each call, none of which denies it.\<close>

definition decided :: "graph_components \<Rightarrow> runtime_lib \<Rightarrow> pydict list \<Rightarrow> pydict \<Rightarrow> bool" where
  "decided c lib calls permission \<longleftrightarrow>
     (\<forall>registry. gc_permission_gate c = Some registry \<longrightarrow>
        (\<exists>ds. map_of permission ''decisions'' = Some (calls_value ds) \<and>
          list_all2 (decision_for lib registry) calls ds \<and> (\<forall>e \<in> set ds. dget e ''status'' \<noteq> PStr ''denied'')))"

definition status_of :: "agent_state \<Rightarrow> pyval" where
  "status_of s = dget (or_empty (as_permission s)) ''status''"

definition permission_ok :: "graph_components \<Rightarrow> runtime_lib \<Rightarrow> execution_policy \<Rightarrow> agent_state \<Rightarrow> agent_state \<Rightarrow> bool" where
  "permission_ok c lib p s s' \<longleftrightarrow> counters s' = counters s \<and> as_messages s' = as_messages s \<and>
     (status_of s' = PStr ''allowed'' \<longrightarrow> pending_calls s \<noteq> [] \<and> checked_calls c lib p False s) \<and>
     (status_of s' = PStr ''approval_required'' \<longrightarrow> pending_calls s \<noteq> [] \<and> checked_calls c lib p True s \<and>
        decided c lib (pending_calls s) (or_empty (as_permission s')))"

lemma list_all2_each: "list_all2 R xs ys \<Longrightarrow> x \<in> set xs \<Longrightarrow> \<exists>y \<in> set ys. R x y"
  by (auto simp: list_all2_conv_all_nth in_set_conv_nth) (metis nth_mem)

lemma other_status:
  "s' = s\<lparr>as_permission := Some d\<rparr> \<Longrightarrow> dget d ''status'' \<noteq> PStr ''allowed'' \<Longrightarrow> dget d ''status'' \<noteq> PStr ''approval_required'' \<Longrightarrow>
   permission_ok c lib p s s'"
  by (simp add: permission_ok_def counters_def status_of_def or_empty_def)

lemma allow_yields:
  assumes "pending_calls s \<noteq> []" and "checked_calls c lib p False s"
  shows "yields (permission_ok c lib p s) (allow_calls c s reason calls ds)"
  unfolding allow_calls_def
  by (rule yields_bindM [OF set_permission_yields])
     (use assms in \<open>auto intro!: yields_intros simp: permission_ok_def counters_def status_of_def or_empty_def dget_def\<close>)

lemma settle_yields:
  assumes "pending_calls s \<noteq> []" and "as_tool_calls s + int (length (pending_calls s)) \<le> ep_max_tool_calls p"
    and "gc_permission_gate c = Some registry" and "list_all2 (decision_for lib registry) (pending_calls s) ds"
  shows "yields (permission_ok c lib p s) (settle_decisions c lib s (pending_calls s) ds)"
proof -
  have each: "\<exists>e \<in> set ds. decision_for lib registry call e" if "call \<in> set (pending_calls s)" for call
    by (rule list_all2_each [OF assms(4) that])
  show ?thesis
    unfolding settle_decisions_def
  proof (rule yields_case_list, goal_cases)
    case 1
    then have none: "\<forall>e \<in> set ds. dget e ''status'' \<noteq> PStr ''denied''"
      by (simp add: with_status_def filter_empty_conv)
    have approving: "checked_calls c lib p True s"
      using assms(2,3) each none unfolding checked_calls_def decision_for_def by fastforce
    show ?case
    proof (rule yields_case_list, goal_cases)
      case 1
      then have "checked_calls c lib p False s"
        using assms(2,3) each none
        unfolding checked_calls_def decision_for_def with_status_def filter_empty_conv by fastforce
      then show ?case by (rule allow_yields [OF assms(1)])
    next
      case (2 first others)
      have kept: "decided c lib (pending_calls s) (dupdate first
          [(''status'', PStr ''approval_required''), (''tool_calls'', v), (''approval_required_tool_calls'', v'),
           (''decisions'', calls_value ds)])" for v v'
        using assms(3,4) none by (auto simp: decided_def map_of_dupdate)
      show ?case
        by (rule yields_bindM [OF set_permission_yields])
           (use assms(1) approving kept in \<open>auto simp: permission_ok_def counters_def status_of_def or_empty_def dget_dupdate
             pause_updates_def stop_updates_def\<close>)
    qed
  next
    case (2 first others)
    show ?case by (rule yields_mono [OF set_permission_yields], erule other_status) (simp_all add: dget_dupdate)
  qed
qed

lemma check_permission_yields:
  assumes "policy_from_state s = Inr p" and "as_permission s = None"
  shows "yields (permission_ok c lib p s) (check_permission_node c lib s)"
proof -
  have stop: "yields (permission_ok c lib p s) (stop_at c s l)" for l
    by (rule yields_mono [OF stop_at_yields])
       (simp add: assms(2) stops_from_def permission_ok_def conversation_def status_of_def or_empty_def dget_def)
  have other: "yields (permission_ok c lib p s) (set_permission c s d)"
    if "dget d ''status'' \<noteq> PStr ''allowed''" "dget d ''status'' \<noteq> PStr ''approval_required''" for d
    by (rule yields_mono [OF set_permission_yields]) (rule other_status [OF _ that])
  have calls: "yields (permission_ok c lib p s) (check_calls c lib s (pending_calls s))" if "pending_calls s \<noteq> []"
    unfolding check_calls_def
  proof (rule yields_bindM [OF tool_limit_yields [OF assms(1)]], rule yields_case_option, goal_cases)
    case (1 l)
    then have within: "as_tool_calls s + int (length (pending_calls s)) \<le> ep_max_tool_calls p" by simp
    show ?case
    proof (rule yields_case_option, goal_cases)
      case 1
      then show ?case
        using within that by (intro yields_after allow_yields) (simp_all add: checked_calls_def)
    next
      case (2 registry)
      show ?case
        by (rule yields_bindM [OF yields_forM [OF decide_yields]]) (rule settle_yields [OF that within 2])
    qed
  next
    case (2 l l')
    show ?case
      by (rule yields_bindM [OF set_permission_yields], rule yields_bindM [OF stop_updates_yield])
         (auto simp: permission_ok_def stops_from_def counters_def conversation_def status_of_def or_empty_def dget_def)
  qed
  show ?thesis
    unfolding check_permission_node_def Let_def
  proof (rule yields_after, rule yields_case_option, goal_cases)
    case (1 x)
    have ask: "permission_ok c lib p s (pause_updates STOP_INPUT_REQUIRED m d (s\<lparr>as_permission := Some e\<rparr>))"
      if "dget e ''status'' = PStr ''input_required''" for m d e
      using that by (simp add: permission_ok_def counters_def status_of_def or_empty_def pause_updates_def stop_updates_def)
    show ?case
    proof (rule yields_if, goal_cases)
      case 1
      show ?case by (rule other) (simp_all add: dget_def)
    next
      case 2
      show ?case
      proof (rule yields_case_option, goal_cases)
        case 1
        show ?case by (rule calls [OF 2])
      next
        case (2 request)
        show ?case
          by (rule yields_bindM [OF set_permission_yields], unfold yields_returnM, erule ssubst, rule ask) (simp add: dget_def)
      qed
    qed
  qed (rule stop)
qed


section \<open>Reachable checkpoints\<close>

text \<open>
  The checkpoints a run of the graph passes through, from the one it starts with: a node has run,
  in whatever state the rest of the program was, or a node that suspended the run
  has been given an answer.
\<close>

definition after_node :: "graph_checkpoint \<Rightarrow> agent_state \<Rightarrow> graph_checkpoint" where
  "after_node k s = \<lparr>gk_node = next_node (gk_node k) s, gk_resumes = [], gk_state = s\<rparr>"

inductive graph_reaches :: "graph_env \<Rightarrow> graph_checkpoint \<Rightarrow> graph_checkpoint \<Rightarrow> bool" for env k0 where
  start: "graph_reaches env k0 k0"
| step: "graph_reaches env k0 k \<Longrightarrow> gk_node k \<noteq> GRAPH_END \<Longrightarrow>
    run_node env (gk_node k) (gk_resumes k) (gk_state k) w = (Inr (Updated s), w') \<Longrightarrow>
    graph_reaches env k0 (after_node k s)"
| resume: "graph_reaches env k0 k \<Longrightarrow>
    run_node env (gk_node k) (gk_resumes k) (gk_state k) w = (Inr (Suspended v), w') \<Longrightarrow>
    graph_reaches env k0 (resume_checkpoint answer k)"

lemma run_graph_reaches:
  assumes "graph_reaches env k0 k"
  shows "yields (\<lambda>r. case r of
      Finished s \<Rightarrow> \<exists>k'. graph_reaches env k0 k' \<and> gk_node k' = GRAPH_END \<and> gk_state k' = s
    | Paused k' v \<Rightarrow> graph_reaches env k0 k' \<and> (\<forall>answer. graph_reaches env k0 (resume_checkpoint answer k'))
    | Limit_reached \<Rightarrow> True) (run_graph env n k)"
  using assms
proof (induction n arbitrary: k)
  case 0
  then show ?case by (subst run_graph.simps) (auto intro!: yields_intros)
next
  case (Suc n)
  have node: "yields (\<lambda>r. \<exists>w w'. run_node env (gk_node k) (gk_resumes k) (gk_state k) w = (Inr r, w'))
      (run_node env (gk_node k) (gk_resumes k) (gk_state k))"
    by (auto simp: yields_def wp_def split: prod.split sum.split)
  show ?case
  proof (cases "gk_node k = GRAPH_END")
    case True
    then show ?thesis using Suc.prems by (subst run_graph.simps) auto
  next
    case False
    show ?thesis
    proof (subst run_graph.simps, simp only: False if_False nat.case after_node_def [symmetric],
        rule yields_bindM [OF node], elim exE, goal_cases)
      case (1 r w w')
      then show ?case
        using Suc.prems False by (cases r) (auto intro: graph_reaches.intros intro!: Suc.IH)
    qed
  qed
qed

section \<open>The invariant of a run\<close>

definition approved :: "agent_state \<Rightarrow> bool" where
  "approved s \<longleftrightarrow> dget (or_empty (as_approval s)) ''approved'' = PBool True"

definition run_ok :: "graph_env \<Rightarrow> execution_policy \<Rightarrow> graph_checkpoint \<Rightarrow> bool" where
  "run_ok env p k \<longleftrightarrow>
     (let s = gk_state k; c = ge_components env; lib = ge_lib env in
      policy_from_state s = Inr p \<and> as_model_calls s \<le> ep_max_model_calls p \<and>
      (gk_node k \<notin> {GRAPH_END, MAX_LOOPS} \<longrightarrow> as_loop_index s \<le> ep_max_loop_steps p) \<and>
      (gk_node k \<in> {CALL_MODEL, CHECK_PERMISSION} \<longrightarrow> as_permission s = None) \<and>
      (gk_node k = AWAIT_APPROVAL \<longrightarrow> pending_calls s \<noteq> [] \<and> checked_calls c lib p True s) \<and>
      (gk_node k = TOOLS \<longrightarrow> pending_calls s \<noteq> [] \<and> checked_calls c lib p (approved s) s))"

lemma after_simps [simp]:
  "gk_node (after_node k s) = next_node (gk_node k) s" "gk_state (after_node k s) = s" "gk_resumes (after_node k s) = []"
  by (simp_all add: after_node_def)

lemma checked_calls_cong:
  "counters s' = counters s \<Longrightarrow> as_messages s' = as_messages s \<Longrightarrow> checked_calls c lib p a s' = checked_calls c lib p a s"
  "as_messages s' = as_messages s \<Longrightarrow> pending_calls s' = pending_calls s"
  by (auto simp: checked_calls_def counters_def pending_calls_def)

lemma checked_calls_mono: "checked_calls c lib p False s \<Longrightarrow> checked_calls c lib p a s"
  unfolding checked_calls_def by blast

lemma next_from:
  "next_node CALL_MODEL s = (if route_after_model s = ''tool_calls'' then CHECK_PERMISSION else GRAPH_END)"
  "next_node TOOLS s = RECORD_TOOL_MESSAGES" "next_node RECORD_TOOL_MESSAGES s = INCREMENT_LOOP"
  "next_node AWAIT_INPUT s = INCREMENT_LOOP" "next_node REJECT_TOOL s = GRAPH_END" "next_node MAX_LOOPS s = GRAPH_END"
  "next_node AWAIT_APPROVAL s = (if approved s then TOOLS else REJECT_TOOL)"
  by (simp_all add: next_node_def approved_def route_after_approval_def)

lemma next_from_check:
  "next_node CHECK_PERMISSION s =
    (if status_of s = PStr ''allowed'' then TOOLS
     else if status_of s = PStr ''input_required'' then AWAIT_INPUT
     else if status_of s = PStr ''approval_required'' then AWAIT_APPROVAL
     else if stopped s then GRAPH_END else REJECT_TOOL)"
  by (simp add: next_node_def route_after_permission_def status_of_def stopped_def Let_def)

lemma next_from_increment:
  "next_node INCREMENT_LOOP s =
    (if stopped s then GRAPH_END else if as_loop_index s > as_max_loops s then MAX_LOOPS else CALL_MODEL)"
  by (simp add: next_node_def route_loop_limit_def stopped_def Let_def)

lemmas next_node_cases = next_from next_from_check next_from_increment

lemma route_stopped: "stopped s \<Longrightarrow> route_after_model s \<noteq> ''tool_calls''"
  by (simp add: route_after_model_def stopped_def)

text \<open>What running a node gives for the invariant.\<close>

definition node_gives :: "(agent_state \<Rightarrow> bool) \<Rightarrow> node_result \<Rightarrow> bool" where
  "node_gives P r = (case r of Suspended v \<Rightarrow> True | Updated s \<Rightarrow> P s)"

lemma updated_yields: "yields P m \<Longrightarrow> yields (node_gives P) (updated m)"
  unfolding updated_def by (rule yields_bindM) (auto simp: node_gives_def)

lemma tools_yields:
  "yields (\<lambda>s'. \<exists>ms. s' = s\<lparr>as_messages := as_messages s @ map GraphTool ms\<rparr>) (tools_node env s)"
  unfolding tools_node_def by (auto intro!: yields_intros)

text \<open>What each node does to the counters, the messages and the permission.\<close>

definition node_effect :: "graph_env \<Rightarrow> execution_policy \<Rightarrow> graph_node \<Rightarrow> agent_state \<Rightarrow> agent_state \<Rightarrow> bool" where
  "node_effect env p node s s' \<longleftrightarrow>
     (case node of
        CALL_MODEL \<Rightarrow> stops_from s s' \<or> as_model_calls s < ep_max_model_calls p \<and> (\<exists>r. answers_from s r s')
      | CHECK_PERMISSION \<Rightarrow> permission_ok (ge_components env) (ge_lib env) p s s'
      | AWAIT_APPROVAL \<Rightarrow> counters s' = counters s \<and> conversation s' = conversation s
      | TOOLS \<Rightarrow> \<exists>ms. s' = s\<lparr>as_messages := as_messages s @ map GraphTool ms\<rparr>
      | RECORD_TOOL_MESSAGES \<Rightarrow>
          counters s' = counters (s\<lparr>as_tool_calls := as_tool_calls s + int (length (latest_tool_messages (as_messages s)))\<rparr>)
      | INCREMENT_LOOP \<Rightarrow>
          counters s' = counters (s\<lparr>as_loop_index := as_loop_index s + 1\<rparr>) \<and> as_permission s' = None \<and>
          (stopped s' \<or> as_loop_index s + 1 \<le> ep_max_loop_steps p)
      | _ \<Rightarrow> counters s' = counters s)"

lemma run_node_effect:
  assumes "policy_from_state s = Inr p" and "node = CHECK_PERMISSION \<Longrightarrow> as_permission s = None"
  shows "yields (node_gives (node_effect env p node s)) (run_node env node rs s)"
proof -
  have approval: "yields (node_gives (node_effect env p AWAIT_APPROVAL s)) (approval_required_node c lib rs s)" for c lib
    by (rule yields_mono [OF approval_yields]) (auto simp: node_gives_def node_effect_def split: node_result.splits)
  have input: "yields (node_gives (node_effect env p AWAIT_INPUT s)) (user_input_required_node c lib rs s)" for c lib
    by (rule yields_mono [OF input_yields]) (auto simp: node_gives_def node_effect_def split: node_result.splits)
  have limit: "yields (node_effect env p MAX_LOOPS s) (max_loops_node c s)" for c
    by (rule yields_mono [OF max_loops_yields]) (simp add: node_effect_def stops_from_def)
  have others:
    "yields (node_effect env p CALL_MODEL s) (call_model_node c lib s)"
    "yields (node_effect env p REJECT_TOOL s) (reject_tool_node c lib s)"
    "yields (node_effect env p TOOLS s) (tools_node env s)"
    "yields (node_effect env p RECORD_TOOL_MESSAGES s) (record_tool_messages_node c lib s)"
    "yields (node_effect env p INCREMENT_LOOP s) (increment_loop_node c lib s)" for c lib
    by (simp_all add: node_effect_def [abs_def] call_model_yields [OF assms(1)] reject_yields tools_yields record_yields
        increment_yields [OF assms(1)])
  have check: "yields (node_effect env p CHECK_PERMISSION s) (check_permission_node (ge_components env) (ge_lib env) s)"
    if "node = CHECK_PERMISSION"
    using check_permission_yields [OF assms(1) assms(2) [OF that]] by (simp add: node_effect_def [abs_def])
  show ?thesis
    by (cases node) (simp_all add: run_node_def Let_def approval input updated_yields limit others check,
      simp add: node_gives_def node_effect_def)
qed

lemma policy_counters:
  "policy_from_state (s\<lparr>as_model_calls := a\<rparr>) = policy_from_state s"
  "policy_from_state (s\<lparr>as_tool_calls := b\<rparr>) = policy_from_state s"
  "policy_from_state (s\<lparr>as_loop_index := d\<rparr>) = policy_from_state s"
  "policy_from_state (s\<lparr>as_messages := e\<rparr>) = policy_from_state s"
  by (simp_all add: policy_from_state_def split: pyval.split)

lemma effect_policy:
  assumes "node_effect env p node s s'"
  shows "policy_from_state s' = policy_from_state s"
proof -
  have "\<exists>t. counters s' = counters t \<and> policy_from_state t = policy_from_state s"
    using assms unfolding node_effect_def stops_from_def answers_from_def permission_ok_def
    by (cases node) (use policy_counters in \<open>simp_all, blast+\<close>)
  then show ?thesis using counters_policy by metis
qed

lemma run_okI:
  assumes "policy_from_state s = Inr p" and "as_model_calls s \<le> ep_max_model_calls p"
    and "next_node node s \<notin> {GRAPH_END, MAX_LOOPS} \<Longrightarrow> as_loop_index s \<le> ep_max_loop_steps p"
    and "next_node node s \<in> {CALL_MODEL, CHECK_PERMISSION} \<Longrightarrow> as_permission s = None"
    and "next_node node s = AWAIT_APPROVAL \<Longrightarrow>
      pending_calls s \<noteq> [] \<and> checked_calls (ge_components env) (ge_lib env) p True s"
    and "next_node node s = TOOLS \<Longrightarrow>
      pending_calls s \<noteq> [] \<and> checked_calls (ge_components env) (ge_lib env) p (approved s) s"
    and "node = gk_node k"
  shows "run_ok env p (after_node k s)"
  using assms by (simp add: run_ok_def Let_def)

lemma counters_eq:
  assumes "counters s' = counters s"
  shows "as_model_calls s' = as_model_calls s" "as_loop_index s' = as_loop_index s" "as_tool_calls s' = as_tool_calls s"
    "as_max_loops s' = as_max_loops s"
  using assms by (simp_all add: counters_def)

lemma run_ok_step:
  assumes "run_ok env p k" and "gk_node k \<noteq> GRAPH_END" and effect: "node_effect env p (gk_node k) (gk_state k) s"
  shows "run_ok env p (after_node k s)"
proof -
  let ?s = "gk_state k"
  have policy: "policy_from_state s = Inr p"
    using effect_policy [OF assms(3)] assms(1) by (simp add: run_ok_def Let_def)
  have model: "as_model_calls ?s \<le> ep_max_model_calls p" and permission: "gk_node k \<in> {CALL_MODEL, CHECK_PERMISSION} \<Longrightarrow> as_permission ?s = None"
    and loop: "gk_node k \<noteq> MAX_LOOPS \<Longrightarrow> as_loop_index ?s \<le> ep_max_loop_steps p"
    using assms(1,2) by (auto simp: run_ok_def Let_def)
  show ?thesis
  proof (cases "gk_node k")
    case CALL_MODEL
    from effect [unfolded CALL_MODEL node_effect_def graph_node.case] show ?thesis
    proof (elim disjE conjE exE)
      assume stop: "stops_from ?s s"
      then show ?thesis
        using policy model route_stopped [of s]
        by (intro run_okI [OF _ _ _ _ _ _ CALL_MODEL [symmetric]]) (auto simp: stops_from_def next_from dest: counters_eq)
    next
      fix r assume "as_model_calls ?s < ep_max_model_calls p" "answers_from ?s r s"
      then show ?thesis
        using policy loop permission CALL_MODEL
        by (intro run_okI [OF _ _ _ _ _ _ CALL_MODEL [symmetric]])
           (auto simp: answers_from_def next_from counters_def split: if_splits)
    qed
  next
    case CHECK_PERMISSION
    from effect have ok: "permission_ok (ge_components env) (ge_lib env) p ?s s"
      by (simp add: CHECK_PERMISSION node_effect_def)
    then have same: "counters s = counters ?s" "as_messages s = as_messages ?s" by (auto simp: permission_ok_def)
    note eqs = counters_eq [OF same(1)] checked_calls_cong(1) [OF same] checked_calls_cong(2) [OF same(2)]
    show ?thesis
      using policy model loop ok CHECK_PERMISSION
      by (intro run_okI [OF _ _ _ _ _ _ CHECK_PERMISSION [symmetric]])
         (auto simp: eqs permission_ok_def next_from_check split: if_splits intro: checked_calls_mono)
  next
    case AWAIT_APPROVAL
    from effect have same: "counters s = counters ?s" "as_messages s = as_messages ?s"
      by (simp_all add: AWAIT_APPROVAL node_effect_def conversation_def)
    note eqs = counters_eq [OF same(1)] checked_calls_cong(1) [OF same] checked_calls_cong(2) [OF same(2)]
    show ?thesis
      using policy model loop assms(1) AWAIT_APPROVAL
      by (intro run_okI [OF _ _ _ _ _ _ AWAIT_APPROVAL [symmetric]])
         (auto simp: eqs next_from run_ok_def Let_def split: if_splits)
  next
    case INCREMENT_LOOP
    with effect show ?thesis
      using policy model
      by (intro run_okI [OF _ _ _ _ _ _ INCREMENT_LOOP [symmetric]])
         (auto simp: node_effect_def next_from_increment counters_def split: if_splits)
  next
    case TOOLS
    with effect show ?thesis
      using policy model loop
      by (intro run_okI [OF _ _ _ _ _ _ TOOLS [symmetric]]) (auto simp: node_effect_def next_from)
  next
    case RECORD_TOOL_MESSAGES
    with effect show ?thesis
      using policy model loop
      by (intro run_okI [OF _ _ _ _ _ _ RECORD_TOOL_MESSAGES [symmetric]]) (auto simp: node_effect_def next_from counters_def)
  qed (use policy model loop effect assms(2) in
      \<open>(intro run_okI [OF _ _ _ _ _ _ refl]; auto simp: node_effect_def next_from counters_def)+\<close>)
qed

lemma reaches_ok:
  assumes "graph_reaches env k0 k" and "run_ok env p k0"
  shows "run_ok env p k"
  using assms
proof induction
  case (step k w s w')
  have "yields (node_gives (node_effect env p (gk_node k) (gk_state k))) (run_node env (gk_node k) (gk_resumes k) (gk_state k))"
    using step.IH [OF step.prems] by (intro run_node_effect) (auto simp: run_ok_def Let_def)
  from yieldsD [OF this step.hyps(3)] have "node_effect env p (gk_node k) (gk_state k) s" by (simp add: node_gives_def)
  then show ?case by (rule run_ok_step [OF step.IH [OF step.prems] step.hyps(2)])
qed (simp_all add: run_ok_def resume_checkpoint_def)

section \<open>A run ends\<close>

primrec rank :: "graph_node \<Rightarrow> nat" where
  "rank CALL_MODEL = 6"
| "rank CHECK_PERMISSION = 5"
| "rank AWAIT_APPROVAL = 4"
| "rank TOOLS = 3"
| "rank RECORD_TOOL_MESSAGES = 2"
| "rank AWAIT_INPUT = 2"
| "rank INCREMENT_LOOP = 1"
| "rank REJECT_TOOL = 1"
| "rank MAX_LOOPS = 1"
| "rank GRAPH_END = 0"

text \<open>The steps a run can still take.\<close>

definition steps_left :: "execution_policy \<Rightarrow> graph_checkpoint \<Rightarrow> nat" where
  "steps_left p k = 6 * nat (ep_max_loop_steps p - as_loop_index (gk_state k)) + rank (gk_node k)"

lemma effect_loop:
  assumes "node_effect env p node s s'"
  shows "as_loop_index s' = (if node = INCREMENT_LOOP then as_loop_index s + 1 else as_loop_index s)"
  using assms
  by (cases node) (auto simp: node_effect_def stops_from_def answers_from_def permission_ok_def counters_def)

lemma steps_decrease:
  assumes "run_ok env p k" and "gk_node k \<noteq> GRAPH_END" and effect: "node_effect env p (gk_node k) (gk_state k) s"
  shows "steps_left p (after_node k s) < steps_left p k"
proof (cases "gk_node k = INCREMENT_LOOP")
  case True
  with effect have adv: "as_loop_index s = as_loop_index (gk_state k) + 1"
    "stopped s \<or> as_loop_index (gk_state k) + 1 \<le> ep_max_loop_steps p"
    by (auto simp: node_effect_def counters_def)
  show ?thesis
  proof (cases "stopped s")
    case True
    then show ?thesis
      using adv \<open>gk_node k = INCREMENT_LOOP\<close> by (simp add: steps_left_def next_from_increment)
  next
    case False
    then have "nat (ep_max_loop_steps p - as_loop_index (gk_state k)) = Suc (nat (ep_max_loop_steps p - as_loop_index s))"
      using adv by simp
    then show ?thesis using \<open>gk_node k = INCREMENT_LOOP\<close> by (simp add: steps_left_def next_from_increment)
  qed
next
  case False
  then have "as_loop_index s = as_loop_index (gk_state k)"
    using effect_loop [OF effect] by simp
  moreover have "rank (next_node (gk_node k) s) < rank (gk_node k)"
    using False assms(2) by (cases "gk_node k") (auto simp: next_node_cases)
  ultimately show ?thesis by (simp add: steps_left_def)
qed

lemma run_graph_ends:
  assumes "run_ok env p k" and "steps_left p k \<le> n"
  shows "yields (\<lambda>r. r \<noteq> Limit_reached) (run_graph env n k)"
  using assms
proof (induction n arbitrary: k)
  case 0
  then have "gk_node k = GRAPH_END" by (cases "gk_node k") (auto simp: steps_left_def)
  then show ?case by (subst run_graph.simps) simp
next
  case (Suc n)
  show ?case
  proof (cases "gk_node k = GRAPH_END")
    case True
    then show ?thesis by (subst run_graph.simps) simp
  next
    case False
    have effect: "yields (node_gives (node_effect env p (gk_node k) (gk_state k)))
        (run_node env (gk_node k) (gk_resumes k) (gk_state k))"
      using Suc.prems by (intro run_node_effect) (auto simp: run_ok_def Let_def)
    show ?thesis
    proof (subst run_graph.simps, simp only: False if_False nat.case after_node_def [symmetric],
        rule yields_bindM [OF effect], goal_cases)
      case (1 r)
      then show ?case
        using Suc.prems False steps_decrease [of env p k] run_ok_step [of env p k]
        by (cases r) (fastforce simp: node_gives_def intro!: Suc.IH)+
    qed
  qed
qed

lemma reaches_effect:
  assumes "graph_reaches env k0 k" and "run_ok env p k0"
    and "run_node env (gk_node k) (gk_resumes k) (gk_state k) w = (Inr (Updated s), w')"
  shows "node_effect env p (gk_node k) (gk_state k) s"
proof -
  have "yields (node_gives (node_effect env p (gk_node k) (gk_state k))) (run_node env (gk_node k) (gk_resumes k) (gk_state k))"
    using reaches_ok [OF assms(1,2)] by (intro run_node_effect) (auto simp: run_ok_def Let_def)
  from yieldsD [OF this assms(3)] show ?thesis by (simp add: node_gives_def)
qed

lemma reaches_loop:
  assumes "graph_reaches env k0 k" and "run_ok env p k0" and "1 \<le> as_loop_index (gk_state k0)"
  shows "1 \<le> as_loop_index (gk_state k)"
  using assms
proof induction
  case (step k w s w')
  from effect_loop [OF reaches_effect [OF step.hyps(1) step.prems(1) step.hyps(3)]] step show ?case by auto
qed (simp_all add: resume_checkpoint_def)

section \<open>Policies\<close>

text \<open>What \<open>__post_init__\<close> accepts, less a limit of NaN seconds.\<close>

definition policy_ok :: "execution_policy \<Rightarrow> bool" where
  "policy_ok p \<longleftrightarrow> check_execution_policy p = Inr p \<and> ep_max_elapsed_seconds p \<noteq> Some NaN"

lemma policy_roundtrip:
  assumes "policy_ok p"
  shows "policy_from_dict (PDict (policy_to_dict p)) = Inr p"
proof -
  have bounds: "1 \<le> ep_max_model_calls p" "0 \<le> ep_max_tool_calls p" "1 \<le> ep_max_failures p"
    "0 \<le> ep_max_tool_argument_corrections p" "1 \<le> ep_max_loop_steps p"
    using assms by (auto simp: policy_ok_def check_execution_policy_def split: if_splits)
  have "positive_float_or_none (case ep_max_elapsed_seconds p of None \<Rightarrow> PNone | Some s \<Rightarrow> PFloat s) =
      Inr (ep_max_elapsed_seconds p)"
    using assms
    by (cases "ep_max_elapsed_seconds p"; cases "the (ep_max_elapsed_seconds p)")
       (auto simp: positive_float_or_none_def policy_ok_def check_execution_policy_def float_le_def split: if_splits)
  then show ?thesis
    using assms bounds
    by (cases p) (simp add: policy_from_dict_def policy_to_dict_def dget_def bindE_def positive_int_or_def
        non_negative_int_or_def policy_ok_def)
qed

text \<open>The state a run starts in.\<close>

definition fresh_state :: "execution_policy \<Rightarrow> agent_state \<Rightarrow> bool" where
  "fresh_state p s \<longleftrightarrow> policy_from_state s = Inr p \<and> as_loop_index s = 1 \<and> as_model_calls s = 0 \<and> as_tool_calls s = 0 \<and>
     as_permission s = None"

lemma initial_state_fresh:
  assumes "policy_ok p"
  shows "yields (fresh_state p) (build_initial_state lib u sp cm hm n (Some p) th)"
  unfolding build_initial_state_def option.case
  by (rule yields_bindM [where Q = "\<lambda>q. q = p"])
     (auto intro!: yields_intros simp: fresh_state_def policy_from_state_def policy_roundtrip [OF assms])

lemma fresh_run_ok:
  assumes "policy_ok p" and "fresh_state p s"
  shows "run_ok env p (start_checkpoint s)"
  using assms
  by (auto simp: run_ok_def fresh_state_def start_checkpoint_def policy_ok_def check_execution_policy_def split: if_splits)

lemma fresh_steps:
  assumes "policy_ok p" and "run_ok env p k" and "1 \<le> as_loop_index (gk_state k)"
  shows "steps_left p k \<le> 6 * nat (ep_max_loop_steps p)"
proof -
  have "1 \<le> ep_max_loop_steps p"
    using assms(1) by (auto simp: policy_ok_def check_execution_policy_def split: if_splits)
  then have "6 * nat (ep_max_loop_steps p - as_loop_index (gk_state k)) + 6 \<le> 6 * nat (ep_max_loop_steps p)"
    using assms(3) by linarith
  moreover have "rank (gk_node k) \<le> 6" by (cases "gk_node k") simp_all
  ultimately show ?thesis by (simp add: steps_left_def)
qed

text \<open>
  C6. A run of the agent always ends.  Start the graph with a valid policy, whatever the model, the
  tools, the clock and the other collaborators do, and consider any checkpoint the run
  or one of its resumptions comes to.  From there the graph finishes, suspends
  for an answer or raises within six steps per allowed round: a recursion limit
  of six times \<open>max_loop_steps\<close> is never reached.
\<close>

theorem agent_run_ends:
  assumes "policy_ok p" and "fresh_state p s" and "graph_reaches env (start_checkpoint s) k"
    and "6 * nat (ep_max_loop_steps p) \<le> n"
  shows "fst (run_graph env n k w) \<noteq> Inr Limit_reached"
proof -
  have start: "run_ok env p (start_checkpoint s)" by (rule fresh_run_ok [OF assms(1,2)])
  have "1 \<le> as_loop_index (gk_state k)"
    by (rule reaches_loop [OF assms(3) start]) (use assms(2) in \<open>simp add: fresh_state_def start_checkpoint_def\<close>)
  from fresh_steps [OF assms(1) reaches_ok [OF assms(3) start] this] assms(4) have "steps_left p k \<le> n" by simp
  note ends = run_graph_ends [OF reaches_ok [OF assms(3) start] this]
  show ?thesis
    by (cases "run_graph env n k w") (use yieldsD [OF ends, of w] in auto)
qed

section \<open>Budgets\<close>

text \<open>What LangGraph documents of \<open>ToolNode\<close>: one message for each call of the last answer.\<close>

definition tool_node_answers :: "graph_env \<Rightarrow> bool" where
  "tool_node_answers env \<longleftrightarrow> (\<forall>wrap s. yields (\<lambda>ms. length ms = length (pending_calls s)) (ge_tool_node env wrap s))"

definition tools_ok :: "execution_policy \<Rightarrow> graph_checkpoint \<Rightarrow> bool" where
  "tools_ok p k \<longleftrightarrow>
     (let s = gk_state k in
      as_tool_calls s \<le> ep_max_tool_calls p \<and> as_loop_index s \<le> ep_max_loop_steps p + 1 \<and>
      (gk_node k \<in> {CHECK_PERMISSION, AWAIT_APPROVAL, TOOLS} \<longrightarrow> (\<exists>pre r. as_messages s = pre @ [GraphAI r])) \<and>
      (gk_node k = RECORD_TOOL_MESSAGES \<longrightarrow>
         as_tool_calls s + int (length (latest_tool_messages (as_messages s))) \<le> ep_max_tool_calls p))"

lemma latest_after_answer:
  assumes "ms \<noteq> []"
  shows "latest_tool_messages (pre @ GraphAI r # map GraphTool ms) = ms"
proof -
  have tools: "List.map_filter as_tool_message (map GraphTool xs) = xs" for xs by (induction xs) (simp_all add: map_filter_simps)
  have "dropWhile (\<lambda>m. as_tool_message m = None) (rev (map GraphTool ms) @ rest) = rev (map GraphTool ms) @ rest" for rest
    using assms by (cases "rev ms") (simp_all flip: rev_map)
  moreover have "takeWhile (\<lambda>m. as_tool_message m \<noteq> None) (rev (map GraphTool ms) @ GraphAI r # rest) = rev (map GraphTool ms)" for rest
    by (subst takeWhile_append2) (auto)
  ultimately show ?thesis
    using tools [of "rev ms"] by (simp add: latest_tool_messages_def rev_map)
qed

lemma pending_last: "as_messages s = pre @ [GraphAI r] \<Longrightarrow> pending_calls s = ai_tool_calls r"
  by (simp add: pending_calls_def latest_ai_message_def map_filter_simps)

lemma tools_ok_step:
  assumes ok: "run_ok env p k" "gk_node k \<noteq> GRAPH_END" and tools: "tools_ok p k"
    and effect: "node_effect env p (gk_node k) (gk_state k) s"
    and answers: "gk_node k = TOOLS \<Longrightarrow>
      \<exists>ms. length ms = length (pending_calls (gk_state k)) \<and> as_messages s = as_messages (gk_state k) @ map GraphTool ms"
  shows "tools_ok p (after_node k s)"
proof -
  let ?s = "gk_state k"
  have loop: "as_loop_index s \<le> ep_max_loop_steps p + 1"
    using effect_loop [OF effect] ok tools by (auto simp: run_ok_def tools_ok_def Let_def split: if_splits)
  show ?thesis
  proof (cases "gk_node k")
    case TOOLS
    obtain ms where ms: "length ms = length (pending_calls ?s)" "as_messages s = as_messages ?s @ map GraphTool ms"
      using answers [OF TOOLS] by blast
    obtain pre r where pre: "as_messages ?s = pre @ [GraphAI r]" using tools TOOLS by (auto simp: tools_ok_def Let_def)
    have calls: "pending_calls ?s \<noteq> []" "as_tool_calls ?s + int (length (pending_calls ?s)) \<le> ep_max_tool_calls p"
      using ok TOOLS by (auto simp: run_ok_def Let_def checked_calls_def)
    then have "latest_tool_messages (as_messages s) = ms"
      using ms pre latest_after_answer [of ms pre r] by (cases ms) auto
    then show ?thesis
      using TOOLS effect calls ms loop tools by (auto simp: tools_ok_def Let_def next_from node_effect_def)
  next
    case CALL_MODEL
    with effect tools loop route_stopped [of s] show ?thesis
      by (auto simp: tools_ok_def Let_def node_effect_def stops_from_def answers_from_def counters_def next_from split: if_splits)
  next
    case CHECK_PERMISSION
    with effect tools loop show ?thesis
      by (auto simp: tools_ok_def Let_def node_effect_def permission_ok_def counters_def next_from_check split: if_splits)
  qed (use effect tools loop ok in
    \<open>auto simp: tools_ok_def Let_def node_effect_def counters_def conversation_def next_node_cases split: if_splits\<close>)
qed

lemma reaches_tools_ok:
  assumes "graph_reaches env k0 k" and "run_ok env p k0" and "tools_ok p k0" and "tool_node_answers env"
  shows "tools_ok p k"
  using assms
proof induction
  case (step k w s w')
  have "\<exists>ms. length ms = length (pending_calls (gk_state k)) \<and> as_messages s = as_messages (gk_state k) @ map GraphTool ms"
    if "gk_node k = TOOLS"
  proof -
    have "yields (node_gives (\<lambda>s. \<exists>ms. length ms = length (pending_calls (gk_state k)) \<and>
        as_messages s = as_messages (gk_state k) @ map GraphTool ms)) (updated (tools_node env (gk_state k)))"
      unfolding tools_node_def
      by (rule updated_yields, rule yields_bindM [OF step.prems(3) [unfolded tool_node_answers_def, rule_format]]) auto
    from yieldsD [OF this] show ?thesis
      using step.hyps(3) that by (fastforce simp: run_node_def Let_def node_gives_def)
  qed
  then show ?case
    using step reaches_ok reaches_effect by (intro tools_ok_step) blast+
qed (simp_all add: tools_ok_def resume_checkpoint_def)

text \<open>
  C28. The budget of a Task is kept.  At every checkpoint of a run and of its resumptions, the counted
  model calls and tool calls are at most what the policy allows, and the index of the
  round is at most one more than the allowed rounds, provided \<open>ToolNode\<close> answers
  each call with one message.
\<close>

theorem agent_budget_kept:
  assumes "policy_ok p" and "fresh_state p s" and "tool_node_answers env" and "graph_reaches env (start_checkpoint s) k"
  shows "as_model_calls (gk_state k) \<le> ep_max_model_calls p \<and> as_tool_calls (gk_state k) \<le> ep_max_tool_calls p \<and>
    1 \<le> as_loop_index (gk_state k) \<and> as_loop_index (gk_state k) \<le> ep_max_loop_steps p + 1"
proof -
  have start: "run_ok env p (start_checkpoint s)" by (rule fresh_run_ok [OF assms(1,2)])
  have tools: "tools_ok p (start_checkpoint s)"
    using assms(1,2)
    by (auto simp: tools_ok_def start_checkpoint_def fresh_state_def policy_ok_def check_execution_policy_def split: if_splits)
  have "1 \<le> as_loop_index (gk_state k)"
    by (rule reaches_loop [OF assms(4) start]) (use assms(2) in \<open>simp add: fresh_state_def start_checkpoint_def\<close>)
  then show ?thesis
    using reaches_ok [OF assms(4) start] reaches_tools_ok [OF assms(4) start tools assms(3)]
    by (simp add: run_ok_def tools_ok_def Let_def)
qed

section \<open>Who may use a tool\<close>

text \<open>What an answer to a request for approval says.\<close>

definition answer_approves :: "pyval \<Rightarrow> bool" where
  "answer_approves answer = (case answer of PDict d \<Rightarrow> truthy (dget d ''approved'') | _ \<Rightarrow> truthy answer)"

lemma read_approval_approves: "fst (read_approval repr answer) = answer_approves answer"
  by (simp add: read_approval_def answer_approves_def Let_def split: pyval.split)

text \<open>The request a suspended run waits with, for one call.\<close>

definition requests_approval :: "pyval \<Rightarrow> pydict \<Rightarrow> bool" where
  "requests_approval v call \<longleftrightarrow>
     (\<exists>q. v = PDict q \<and> dget q ''kind'' = PStr ''approval_required'' \<and> dget q ''tool_call'' = PDict call)"

text \<open>
  The decisions are asked in order: with as many answers as there are decisions before it, all of
  them approving, the node waits for the answer to the next one.
\<close>

lemma ask_yields:
  assumes "\<forall>d \<in> set ds. \<exists>call. dget d ''tool_call'' = PDict call"
  shows "yields (\<lambda>out. case out of
      Waiting v \<Rightarrow> length rs < length ds \<and> (\<forall>call. dget (ds ! length rs) ''tool_call'' = PDict call \<longrightarrow> requests_approval v call)
    | Answered a \<Rightarrow> dget a ''approved'' = PBool True \<longrightarrow>
        (if ds = [] then a = approval
         else length ds \<le> length rs \<and> (\<forall>i < length ds. answer_approves (rs ! i))))
    (ask_approvals c lib n perm m j ds rs approval)"
  using assms
proof (induction ds arbitrary: j rs approval)
  case (Cons d ds)
  have later: "yields (\<lambda>out. case out of
      Waiting v \<Rightarrow> length (r # rs) < length (d # ds) \<and>
        (\<forall>call. dget ((d # ds) ! length (r # rs)) ''tool_call'' = PDict call \<longrightarrow> requests_approval v call)
    | Answered a \<Rightarrow> dget a ''approved'' = PBool True \<longrightarrow>
        length (d # ds) \<le> length (r # rs) \<and> (\<forall>i < length (d # ds). answer_approves ((r # rs) ! i)))
    (ask_approvals c lib n perm m (j + 1) ds rs (approval_value (read_approval (rl_repr lib) r)))"
    if "answer_approves r" for r rs
    by (rule yields_mono [OF Cons.IH])
       (use that Cons.prems in \<open>auto simp: less_Suc_eq_0_disj split: approval_outcome.splits if_splits\<close>)
  have asks: "requests_approval (PDict (approval_request repr perm d call i k msg)) call" for repr call i k msg
    by (simp add: requests_approval_def approval_request_def dget_def)
  from Cons.prems obtain call where call: "dget d ''tool_call'' = PDict call" by auto
  show ?case
    unfolding ask_approvals.simps Let_def
    by (intro yields_after yields_case_list yields_if)
       (use later asks call in \<open>auto simp: approval_value_def dget_def read_approval_approves\<close>)
qed simp

lemma approval_decisions_decided:
  assumes "map_of perm ''decisions'' = Some (calls_value ds)" and "list_all2 (decision_for lib registry) calls ds"
    and "call \<in> set calls" and "gate_says lib registry call d" and "pd_requires_approval d"
    and "\<forall>e \<in> set ds. dget e ''status'' \<noteq> PStr ''denied''"
  obtains es i where "approval_decisions perm = Inr es" and "i < length es" and "dget (es ! i) ''tool_call'' = PDict call"
    and "\<forall>e \<in> set es. \<exists>call. dget e ''tool_call'' = PDict call"
proof -
  let ?waiting = "\<lambda>d. dget d ''status'' = PStr ''approval_required'' \<and> as_dict (dget d ''tool_call'') \<noteq> None"
  obtain e where e: "e \<in> set ds" "decision_for lib registry call e" using list_all2_each [OF assms(2,3)] by blast
  then have mine: "?waiting e" "dget e ''tool_call'' = PDict call"
    using assms(4-6) by (auto simp: decision_for_def gate_says_def)
  then have "filter ?waiting ds \<noteq> []" using e by (auto simp: filter_empty_conv)
  moreover have "List.map_filter as_dict (map PDict ds) = ds" by (induction ds) (simp_all add: List.map_filter_simps)
  ultimately have "approval_decisions perm = Inr (filter ?waiting ds)"
    using assms(1) by (simp add: approval_decisions_def calls_value_def bindE_def Let_def py_iter_def)
  moreover have "\<forall>e \<in> set (filter ?waiting ds). \<exists>call. dget e ''tool_call'' = PDict call"
    by (auto elim: as_dict.elims)
  moreover obtain i where "i < length (filter ?waiting ds)" "filter ?waiting ds ! i = e"
    using in_set_conv_nth [of e "filter ?waiting ds"] e mine by auto
  ultimately show ?thesis using mine(2) by (intro that [of "filter ?waiting ds" i]) simp_all
qed

text \<open>Each answer a checkpoint carries was given to the run suspended there without it.\<close>

lemma answers_were_asked:
  assumes "graph_reaches env k0 k" and "gk_resumes k0 = []" and "i < length (gk_resumes k)"
  shows "\<exists>w v w'. graph_reaches env k0 (k\<lparr>gk_resumes := take i (gk_resumes k)\<rparr>) \<and>
    run_node env (gk_node k) (take i (gk_resumes k)) (gk_state k) w = (Inr (Suspended v), w')"
  using assms
proof (induction arbitrary: i)
  case (resume k w v w' answer)
  then show ?case
    by (cases "i < length (gk_resumes k)") (auto simp: resume_checkpoint_def less_Suc_eq)
qed simp_all

text \<open>At the node that asks, the decisions are those of the gate for the calls that are pending.\<close>

lemma reaches_decided:
  assumes "graph_reaches env k0 k" and "run_ok env p k0" and "gk_node k0 \<noteq> AWAIT_APPROVAL" and "gk_node k = AWAIT_APPROVAL"
  shows "decided (ge_components env) (ge_lib env) (pending_calls (gk_state k)) (or_empty (as_permission (gk_state k)))"
  using assms
proof induction
  case (step k w s w')
  have effect: "node_effect env p (gk_node k) (gk_state k) s"
    using reaches_effect [OF step.hyps(1) step.prems(1) step.hyps(3)] .
  have "gk_node k = CHECK_PERMISSION"
    using step.prems(3) step.hyps(2) by (cases "gk_node k") (auto simp: next_node_cases split: if_splits)
  with effect step.prems(3) have "permission_ok (ge_components env) (ge_lib env) p (gk_state k) s"
    "status_of s = PStr ''approval_required''"
    by (auto simp: node_effect_def next_from_check split: if_splits)
  then show ?case by (simp add: permission_ok_def pending_calls_def)
qed (simp_all add: resume_checkpoint_def)

text \<open>
  The call was approved for the calls that are about to be executed: the node that asks for approval
  let them pass with some answers; before one of these answers was given, the run was
  suspended there with a request for this call, and that answer approves it.
\<close>

definition approved_call :: "graph_env \<Rightarrow> graph_checkpoint \<Rightarrow> agent_state \<Rightarrow> pydict \<Rightarrow> bool" where
  "approved_call env k0 s call \<longleftrightarrow>
     (\<exists>k i u v u' w w'. graph_reaches env k0 k \<and> gk_node k = AWAIT_APPROVAL \<and>
        pending_calls (gk_state k) = pending_calls s \<and>
        run_node env AWAIT_APPROVAL (gk_resumes k) (gk_state k) w = (Inr (Updated s), w') \<and>
        i < length (gk_resumes k) \<and> answer_approves (gk_resumes k ! i) \<and>
        graph_reaches env k0 (k\<lparr>gk_resumes := take i (gk_resumes k)\<rparr>) \<and>
        run_node env AWAIT_APPROVAL (take i (gk_resumes k)) (gk_state k) u = (Inr (Suspended v), u') \<and>
        requests_approval v call)"

lemma approval_node_yields:
  assumes "approval_decisions (or_empty (as_permission s)) = Inr es" and "es \<noteq> []"
    and "\<forall>e \<in> set es. \<exists>call. dget e ''tool_call'' = PDict call"
  shows "yields (\<lambda>r. case r of
      Suspended v \<Rightarrow> length rs < length es \<and> (\<forall>call. dget (es ! length rs) ''tool_call'' = PDict call \<longrightarrow> requests_approval v call)
    | Updated s' \<Rightarrow> approved s' \<longrightarrow> length es \<le> length rs \<and> (\<forall>i < length es. answer_approves (rs ! i)))
    (approval_required_node c lib rs s)"
  unfolding approval_required_node_def Let_def assms(1)
  by (rule yields_bindM [OF yields_liftE], simp, rule yields_bindM [OF ask_yields [OF assms(3)]])
     (use assms(2) in \<open>auto simp: approved_def or_empty_def clear_pause_updates_def stop_updates_def
       split: approval_outcome.splits if_splits intro!: yields_after\<close>)

lemma passed_calls_approved:
  assumes "graph_reaches env k0 k" and "run_ok env p k0" and "gk_node k0 \<noteq> AWAIT_APPROVAL" and "gk_resumes k0 = []"
    and "gk_node k = AWAIT_APPROVAL" and "gc_permission_gate (ge_components env) = Some registry"
    and "run_node env AWAIT_APPROVAL (gk_resumes k) (gk_state k) w = (Inr (Updated s), w')" and "approved s"
    and "call \<in> set (pending_calls s)" and "gate_says (ge_lib env) registry call d" and "pd_requires_approval d"
  shows "approved_call env k0 s call"
proof -
  let ?perm = "or_empty (as_permission (gk_state k))" and ?rs = "gk_resumes k"
  have node: "run_node env AWAIT_APPROVAL rs = approval_required_node (ge_components env) (ge_lib env) rs" for rs
    by (simp add: run_node_def fun_eq_iff)
  have same: "pending_calls (gk_state k) = pending_calls s"
    using reaches_effect [OF assms(1,2)] assms(5,7) by (auto simp: node_effect_def conversation_def pending_calls_def)
  obtain ds where ds: "map_of ?perm ''decisions'' = Some (calls_value ds)"
      "list_all2 (decision_for (ge_lib env) registry) (pending_calls s) ds" "\<forall>e \<in> set ds. dget e ''status'' \<noteq> PStr ''denied''"
    using reaches_decided [OF assms(1,2,3,5)] assms(6) same by (auto simp: decided_def)
  obtain es i where es: "approval_decisions ?perm = Inr es" "i < length es" "dget (es ! i) ''tool_call'' = PDict call"
      "\<forall>e \<in> set es. \<exists>call. dget e ''tool_call'' = PDict call"
    by (rule approval_decisions_decided [OF ds(1,2) assms(9-11) ds(3)])
  then have "es \<noteq> []" by auto
  note asks = yieldsD [OF approval_node_yields [OF es(1) this es(4)]]
  from asks [OF assms(7) [unfolded node]] assms(8) es(2) have i: "i < length ?rs" "answer_approves (?rs ! i)" by auto
  obtain u v u' where before: "graph_reaches env k0 (k\<lparr>gk_resumes := take i ?rs\<rparr>)"
      "run_node env AWAIT_APPROVAL (take i ?rs) (gk_state k) u = (Inr (Suspended v), u')"
    using answers_were_asked [OF assms(1,4) i(1)] assms(5) by auto
  from asks [OF before(2) [unfolded node]] es(3) i(1) have "requests_approval v call" by (simp add: min_absorb2)
  with before i same assms(1,5,7) show ?thesis unfolding approved_call_def by blast
qed

text \<open>
  C7. No tool without permission.  Whenever a run comes to the node that executes tools, with a
  permission gate configured, each call of the model's answer was decided by the gate:
  it is allowed outright, or it requires approval and was approved: the run was suspended with a
  request for this very call, and the answer it was resumed with approves it
  (\<open>approved_call\<close>).  There is at least one call, and together they fit into what is left of the
  budget.
\<close>

theorem tools_need_permission:
  assumes "policy_ok p" and "fresh_state p s" and "graph_reaches env (start_checkpoint s) k" and "gk_node k = TOOLS"
    and "gc_permission_gate (ge_components env) = Some registry"
  shows "pending_calls (gk_state k) \<noteq> [] \<and>
    as_tool_calls (gk_state k) + int (length (pending_calls (gk_state k))) \<le> ep_max_tool_calls p \<and>
    (\<forall>call \<in> set (pending_calls (gk_state k)). \<exists>d. gate_says (ge_lib env) registry call d \<and>
       (if pd_requires_approval d then approved_call env (start_checkpoint s) (gk_state k) call else pd_allowed d))"
proof -
  let ?k0 = "start_checkpoint s"
  have start: "run_ok env p ?k0" by (rule fresh_run_ok [OF assms(1,2)])
  have ok: "run_ok env p k" by (rule reaches_ok [OF assms(3) start])
  have "if pd_requires_approval d then approved_call env ?k0 (gk_state k) call else pd_allowed d"
    if call: "call \<in> set (pending_calls (gk_state k))" and d: "gate_says (ge_lib env) registry call d" for call d
    using assms(3)
  proof cases
    case start
    with assms(4) show ?thesis by (simp add: start_checkpoint_def)
  next
    case (resume k' w v w' answer)
    with resume assms(4) show ?thesis
      by (auto simp: resume_checkpoint_def run_node_def updated_def Let_def bindM_def returnM_def split: sum.splits prod.splits)
  next
    case (step k' w t w')
    then have t: "gk_state k = t" "next_node (gk_node k') t = TOOLS" using assms(4) by auto
    have effect: "node_effect env p (gk_node k') (gk_state k') t" by (rule reaches_effect [OF step(2) start step(4)])
    consider "gk_node k' = CHECK_PERMISSION" | "gk_node k' = AWAIT_APPROVAL"
      using t(2) step(3) by (cases "gk_node k'") (auto simp: next_node_cases split: if_splits)
    then show ?thesis
    proof cases
      case 1
      with effect t(2) have "permission_ok (ge_components env) (ge_lib env) p (gk_state k') t" "status_of t = PStr ''allowed''"
        by (auto simp: node_effect_def next_from_check split: if_splits)
      then have "checked_calls (ge_components env) (ge_lib env) p False (gk_state k')"
        "pending_calls (gk_state k') = pending_calls (gk_state k)"
        by (simp_all add: permission_ok_def t(1) pending_calls_def)
      with call d assms(5) have "pd_allowed d \<and> \<not> pd_requires_approval d"
        by (fastforce simp: checked_calls_def gate_says_def)
      then show ?thesis by simp
    next
      case 2
      with t have "approved t" by (simp add: next_from split: if_splits)
      moreover have "run_node env AWAIT_APPROVAL (gk_resumes k') (gk_state k') w = (Inr (Updated t), w')"
        using step(4) by (simp add: 2)
      ultimately have "approved_call env ?k0 t call" if "pd_requires_approval d"
        by (intro passed_calls_approved [OF step(2) start _ _ 2 assms(5) _ _ call [unfolded t(1)] d that])
           (simp_all add: start_checkpoint_def)
      moreover have "pd_allowed d \<or> pd_requires_approval d"
        using ok assms(4,5) call d by (fastforce simp: run_ok_def checked_calls_def gate_says_def Let_def)
      ultimately show ?thesis unfolding t(1) by (cases "pd_requires_approval d") simp_all
    qed
  qed
  then show ?thesis
    using ok assms(4,5) unfolding run_ok_def Let_def checked_calls_def by (metis (no_types, lifting))
qed

section \<open>A sample run\<close>

text \<open>A model that always asks for one dangerous tool, a gate that knows it, and a user who approves.\<close>

definition wipe_tool :: tool where
  "wipe_tool = \<lparr>tl_name = ''wipe'', tl_description = [], tl_parameters = PNone,
     tl_metadata = Some [(''dangerous'', PBool True)]\<rparr>"

definition sample_graph :: graph_env where
  "sample_graph =
     \<lparr>ge_components =
        \<lparr>gc_model = (\<lambda>ms ts. returnM \<lparr>ai_content = PStr [], ai_tool_calls =
           [[(''name'', PStr ''wipe''), (''args'', PDict []), (''id'', PStr ''1'')]]\<rparr>),
         gc_tools = [wipe_tool], gc_permission_gate = Some [wipe_tool], gc_progress = None, gc_trace = None,
         gc_tool_invocation_recorder = None, gc_execution_context_registry = False\<rparr>,
      ge_lib = sample_lib,
      ge_tool_node = (\<lambda>wrap s. returnM (map (\<lambda>call. \<lparr>tmsg_content = PStr ''ok'', tmsg_name = Some ''wipe'',
        tmsg_tool_call_id = ''1'', tmsg_status = ''success''\<rparr>) (pending_calls s)))\<rparr>"

definition sample_world :: world where
  "sample_world = init_world (\<lambda>_. 0) (\<lambda>_. [])"

definition sample_answer :: pyval where
  "sample_answer = PDict [(''approved'', PBool True), (''reason'', PNone)]"

text \<open>The checkpoint after one step, and after the sample answer.\<close>

definition step_on :: "graph_env \<Rightarrow> graph_checkpoint \<Rightarrow> graph_checkpoint option" where
  "step_on env k =
     (if gk_node k = GRAPH_END then None
      else (case fst (run_node env (gk_node k) (gk_resumes k) (gk_state k) sample_world) of
          Inr (Updated s) \<Rightarrow> Some (after_node k s)
        | Inr (Suspended v) \<Rightarrow> Some (resume_checkpoint sample_answer k)
        | Inl e \<Rightarrow> None))"

lemma step_on_reaches:
  assumes "graph_reaches env k0 k" and "step_on env k = Some k'"
  shows "graph_reaches env k0 k'"
  using assms
  by (cases "run_node env (gk_node k) (gk_resumes k) (gk_state k) sample_world")
     (auto simp: step_on_def intro: graph_reaches.intros split: if_splits sum.splits node_result.splits)

primrec steps_on :: "graph_env \<Rightarrow> nat \<Rightarrow> graph_checkpoint \<Rightarrow> graph_checkpoint option" where
  "steps_on env 0 k = Some k"
| "steps_on env (Suc n) k = (case step_on env k of None \<Rightarrow> None | Some k' \<Rightarrow> steps_on env n k')"

lemma steps_on_reaches: "graph_reaches env k0 k \<Longrightarrow> steps_on env n k = Some k' \<Longrightarrow> graph_reaches env k0 k'"
  by (induction n arbitrary: k) (auto split: option.splits intro: step_on_reaches)

lemma sample_fresh: "policy_ok default_execution_policy" "fresh_state default_execution_policy sample_state"
proof -
  show ok: "policy_ok default_execution_policy"
    by (simp add: policy_ok_def check_execution_policy_def default_execution_policy_def)
  show "fresh_state default_execution_policy sample_state"
    using policy_roundtrip [OF ok] by (simp add: fresh_state_def sample_state_def policy_from_state_def)
qed

lemma sample_run:
  "map_option gk_node (steps_on sample_graph 4 (start_checkpoint sample_state)) = Some TOOLS"
  "map_option gk_node (steps_on sample_graph 6 (start_checkpoint sample_state)) = Some INCREMENT_LOOP"
  by code_simp+

definition wipe_call :: pydict where
  "wipe_call = [(''name'', PStr ''wipe''), (''args'', PDict []), (''id'', PStr ''1'')]"

lemma sample_tools:
  "case steps_on sample_graph 4 (start_checkpoint sample_state) of
     None \<Rightarrow> False | Some k \<Rightarrow> gk_node k = TOOLS \<and> pending_calls (gk_state k) = [wipe_call]"
  by code_simp

lemma wipe_asks:
  "case bindE (to_project_tool_call (rl_repr sample_lib) wipe_call) (check_permission (rl_repr sample_lib) [wipe_tool]) of
     Inl e \<Rightarrow> False | Inr d \<Rightarrow> pd_requires_approval d"
  by code_simp

lemma sample_reaches:
  assumes "map_option gk_node (steps_on env n k0) = Some node"
  obtains k where "graph_reaches env k0 k" and "gk_node k = node"
proof (cases "steps_on env n k0")
  case (Some k)
  with assms show ?thesis using that [OF steps_on_reaches [OF graph_reaches.start Some]] by simp
qed (use assms in simp)

theorem agent_run_ends_witness:
  "fst (run_graph sample_graph 30 (start_checkpoint sample_state) sample_world) \<noteq> Inr Limit_reached"
  by (rule agent_run_ends [OF sample_fresh graph_reaches.start]) (simp add: default_execution_policy_def)

theorem agent_budget_kept_witness:
  "\<exists>k. graph_reaches sample_graph (start_checkpoint sample_state) k \<and> gk_node k = INCREMENT_LOOP \<and>
     as_model_calls (gk_state k) \<le> 5 \<and> as_tool_calls (gk_state k) \<le> 20"
proof -
  obtain k where k: "graph_reaches sample_graph (start_checkpoint sample_state) k" "gk_node k = INCREMENT_LOOP"
    by (rule sample_reaches [OF sample_run(2)])
  have "tool_node_answers sample_graph" by (simp add: tool_node_answers_def sample_graph_def)
  from agent_budget_kept [OF sample_fresh this k(1)] k show ?thesis by (auto simp: default_execution_policy_def)
qed

theorem tools_need_permission_witness:
  "\<exists>k call. graph_reaches sample_graph (start_checkpoint sample_state) k \<and> gk_node k = TOOLS \<and>
     pending_calls (gk_state k) = [call] \<and> approved_call sample_graph (start_checkpoint sample_state) (gk_state k) call"
proof -
  obtain k where k: "graph_reaches sample_graph (start_checkpoint sample_state) k" "gk_node k = TOOLS"
      "pending_calls (gk_state k) = [wipe_call]"
    using steps_on_reaches [OF graph_reaches.start] sample_tools that by (fastforce split: option.splits)
  have gate: "gc_permission_gate (ge_components sample_graph) = Some [wipe_tool]" "ge_lib sample_graph = sample_lib"
    by (simp_all add: sample_graph_def)
  have "pd_requires_approval d" if "gate_says sample_lib [wipe_tool] wipe_call d" for d
    using that wipe_asks by (auto simp: gate_says_def split: sum.splits)
  moreover have "wipe_call \<in> set (pending_calls (gk_state k))" by (simp add: k(3))
  ultimately have "approved_call sample_graph (start_checkpoint sample_state) (gk_state k) wipe_call"
    using tools_need_permission [OF sample_fresh k(1,2) gate(1)] unfolding gate(2) by metis
  with k show ?thesis by blast
qed

end
