(* ===== verification/Spec2Isabelle.thy ===== *)
theory Spec2Isabelle
  imports Startup Router_Properties Task_Queue A2A_Properties Model_Clients Agent_Invariants Agent_Properties
begin

text \<open>
  \<^bold>\<open>Vermay: an agent runtime with durable Tasks.\<close>

  Vermay is a single-host agent runtime.  A request, a user Message, is admitted by the
  \<^emph>\<open>core\<close> (\<open>main_agent/core.py\<close>), which stores it, routes it, and answers it directly,
  turns it into a \<^emph>\<open>Task\<close> that a local worker executes, or delegates it to a
  \<^emph>\<open>child agent\<close>.  Everything a restart must not lose is kept in SQLite
  (\<open>storage.py\<close>, \<open>main_agent/store.py\<close>); what the workers report is recorded by the
  \<^emph>\<open>outcome recorders\<close> (\<open>main_agent/task_outcomes.py\<close>).  The core calls the store in
  transactions and, after their commit, the execution adapter
  (\<open>main_agent/local_execution.py\<close>), which claims the queued command, runs it and calls
  the core back with the outcome.  The runner is an agent graph (\<open>langgraph_runtime\<close>) that
  alternates between a language model and tools, under a permission gate, a budget and
  a ledger of tool effects.  Outside, agents speak the A2A protocol (\<open>api/a2a\<close>): JSON-RPC
  requests and streams of Task events.

  \<^bold>\<open>Theories: the store and the core.\<close>

  \<^item> \<open>Prelude\<close>: programs over a state with exceptions (\<open>bindM\<close>, \<open>catchM\<close>, \<open>finallyM\<close>),
    their weakest preconditions, preservation of a condition (\<open>keeps\<close>), tables as lists of
    rows, strings.  \<open>Values\<close>: JSON values, ordered dictionaries, their storage as text.
  \<^item> \<open>Errors\<close>: \<open>errors.py\<close>.  \<open>Lifecycle\<close>: \<open>main_agent/lifecycle.py\<close>, with the locales
    \<open>lifecycle_graph\<close> and its extensions for what a transition table promises.
    \<open>Models\<close>: \<open>main_agent/models.py\<close> and the readers of \<open>store_mappers.py\<close>.
  \<^item> \<open>Storage\<close>: \<open>storage.py\<close>; tables and constraints, the connection, transactions, and
    the calculus \<open>tx_keeps\<close> for conditions that hold of the committed database.
    \<open>Samples\<close>: a concrete database for the witnesses.
  \<^item> \<open>Store_Messages\<close>, \<open>Store_Tasks\<close>, \<open>Store_Invocations\<close>, \<open>Store_Agents\<close>: the methods
    of \<open>MainAgentStore\<close>, one definition per method, with the invariants of their tables.
  \<^item> \<open>Task_Outcomes\<close>: \<open>task_outcomes.py\<close> and \<open>task_result_projection.py\<close>; the locale
    \<open>recorder_store\<close> is what the recorders ask of the store.
  \<^item> \<open>Context_Assembly\<close>: \<open>context.py\<close>.  \<open>Local_Execution\<close>: \<open>local_execution.py\<close> and
    \<open>lifecycle_transactions.py\<close>.
  \<^item> \<open>Core\<close>: \<open>core.py\<close> and \<open>commands.py\<close>; \<open>execute_command\<close> is \<open>MainAgentCore.execute\<close>.
  \<^item> \<open>Core_Invariants\<close>: the locales \<open>lifecycle_authority\<close> (adapter and core) and
    \<open>core_store\<close> (core and store): what the store operations keep, every command keeps.
    \<open>Task_Invariants\<close>, \<open>Reachable\<close>: the interpretations on the invariants of the
    tables, and the reachable states of the running program.
  \<^item> \<open>Task_Queue\<close>: the execution queue refines an abstract queue with one slot per Task.
    \<open>Event_Log\<close>: the event log of a Task is append-only.  \<open>Command_Properties\<close>,
    \<open>Startup\<close>: an admitted Message settles, a replay changes nothing, a worker gives back what it
    holds, and start-up reconciles what a crash left.

  \<^bold>\<open>Theories: routing, the agent graph and its models.\<close>

  \<^item> \<open>Router\<close>, \<open>Router_Properties\<close>: \<open>router.py\<close> and \<open>router_classifier.py\<close>; the locale
    \<open>router_model\<close> is what the router relies on of the classifier.
  \<^item> \<open>Tool_Policy\<close>: \<open>tool_metadata.py\<close>, \<open>tool_registry.py\<close>, \<open>tool_schema.py\<close>, \<open>permission.py\<close>.
    \<open>Invocation_Ledger\<close>: \<open>invocation_ledger.py\<close> and \<open>langgraph_runtime/invocations.py\<close>; the locale
    \<open>effect_recorder\<close> is the contract between the graph and the ledger.
  \<^item> \<open>Agent_Execution\<close>, \<open>Execution_Context\<close>, \<open>Agent_Nodes\<close>, \<open>Agent_Graph\<close>: budgets, results and
    observations, cancellation and deadlines, the nodes, the graph, the runtime and the task runner.
    \<open>Agent_Invariants\<close>, \<open>Agent_Properties\<close>: a run ends, keeps its budget, executes no tool without
    permission, and the composition of core, runner and ledger keeps the database sound.
  \<^item> \<open>Model_Clients\<close>: \<open>model_clients\<close>, \<open>model_adapters.py\<close>, \<open>model_factory.py\<close>; what a
    model may call and how an invocation fails.

  \<^bold>\<open>Theories: the protocol.\<close>

  \<^item> \<open>Streaming\<close>: the streaming admission of the core and \<open>responder.py\<close>; a generator is a program
    that takes what happens at its \<open>yield\<close>s as an argument.
  \<^item> \<open>A2A_Projection\<close>: \<open>projection.py\<close>.  \<open>Remote_Client\<close>: \<open>remote_agent.py\<close>, the client of child agents.
  \<^item> \<open>A2A_Adapter\<close>, \<open>A2A_Routes\<close>: \<open>api/a2a\<close> and the waiting for Task events.
    \<open>A2A_Properties\<close>: every request is answered, a subscriber receives every event once and in
    order, what a parent reads of a child's answers.

  \<^bold>\<open>State and effects.\<close>  The state of every operation is the record \<open>world\<close>: what the
  connection reads (\<open>conn\<close>), what is committed (\<open>durable\<close>), the depth of the open
  transactions, the callbacks waiting for the commit, the notifier, the process-local sets
  of active and scheduled Tasks, the running executions, and the clock and the identifiers still to be drawn.
  An operation is a function from a state to a result or an exception and a state.

  Code that is not in the repository is an argument: the language model behind its HTTP exchange, the tools, the
  thread pool, the HTTP transport, the text syntax of JSON, the validation of Pydantic models, \<open>repr\<close>, digests
  and the clock.  What a theorem needs of it is a hypothesis of its statement, such as
  \<open>env_keeps\<close> (collaborators leave the database in a good state) or \<open>tool_node_answers\<close>.

  \<^bold>\<open>Bounds.\<close>  Loops are recursion over the finite list they iterate.  The loop of the graph,
  \<open>run_graph\<close>, has a step limit as LangGraph has; \<open>Agent_Properties\<close> shows that six steps per allowed round
  are enough, so the limit never cuts a run.  A subscription runs until its Task ends or its client leaves: the
  list \<open>poll_round\<close> gives, for each round, what the other threads do between its steps, and its end stands for the
  closing of the stream; the theorems hold for every such list.

  \<^bold>\<open>Not modelled.\<close>  The management routes (\<open>api/app.py\<close>) and the registration of routes with FastAPI; the
  MCP client; the command line, progress and trace output; the tools themselves with their SSH and HTTP
  access; prompts, skills and memory read from files; schema creation and pragmas of the database.  These are
  input and output around the modelled code, or calls of external services.  Threads are
  modelled as the interleaving of whole store operations, worker runs and steps of a subscription, which the
  connection's lock serialises; the re-entrant lock itself is not modelled.
\<close>

end
